(* ===== verification/Py_Prelude.thy ===== *)
theory Py_Prelude
  imports Main "HOL-Library.Sublist"
begin

text \<open>
  The part of Python the platform is written in, shared by every component theory:
  \<^item> strings (as lists of UTF-8 code units) with the methods the sources call: lower,
    the membership test, split on one character, join, decimal printing of integers;
  \<^item> dictionaries as insertion-ordered association lists, with the laws of get, set and
    del stated once as the locale dictionary and interpreted on these functions;
  \<^item> values of unknown type (Any), attribute access with a default, truth values and the
    isinstance tests the sources use;
  \<^item> exceptions as a datatype, and effectful code as functions from a state to an
    exception or a result together with the new state.
\<close>

named_theorems effect_defs \<open>definitions of the effect combinators\<close>
named_theorems dict_simps \<open>lookups after dictionary updates\<close>

section \<open>Strings\<close>

text \<open>str.lower on the ASCII letters; the other code units are left alone.\<close>

definition lower_char :: "char \<Rightarrow> char" where
  "lower_char c = (let n = (of_char c :: nat) in
     if 65 \<le> n \<and> n \<le> 90 then char_of (n + 32) else c)"

definition py_lower :: "string \<Rightarrow> string" where
  "py_lower s = map lower_char s"

definition upper_char :: "char \<Rightarrow> char" where
  "upper_char c = (let n = (of_char c :: nat) in
     if 97 \<le> n \<and> n \<le> 122 then char_of (n - 32) else c)"

definition py_upper :: "string \<Rightarrow> string" where
  "py_upper s = map upper_char s"

text \<open>The operator \<^verbatim>\<open>needle in hay\<close> on strings.\<close>

fun py_in :: "string \<Rightarrow> string \<Rightarrow> bool" where
  "py_in s [] = (s = [])"
| "py_in s (c # cs) = (take (length s) (c # cs) = s \<or> py_in s cs)"

text \<open>str.split on a one-character separator: never empty, keeps empty parts.\<close>

fun py_split :: "char \<Rightarrow> string \<Rightarrow> string list" where
  "py_split d [] = [[]]"
| "py_split d (c # cs) =
     (if c = d then [] # py_split d cs
      else (case py_split d cs of [] \<Rightarrow> [[c]] | p # ps \<Rightarrow> (c # p) # ps))"

fun py_join :: "string \<Rightarrow> string list \<Rightarrow> string" where
  "py_join d [] = []"
| "py_join d [x] = x"
| "py_join d (x # y # xs) = x @ d @ py_join d (y # xs)"

text \<open>str() of an integer.\<close>

definition digit_char :: "nat \<Rightarrow> char" where
  "digit_char d = char_of (48 + d)"

fun nat_digits :: "nat \<Rightarrow> string" where
  "nat_digits n = (if n < 10 then [digit_char n]
     else nat_digits (n div 10) @ [digit_char (n mod 10)])"

declare nat_digits.simps [simp del]

definition str_int :: "int \<Rightarrow> string" where
  "str_int i = (if i < 0 then CHR ''-'' # nat_digits (nat (- i)) else nat_digits (nat i))"

text \<open>The em dash of the sources' messages, in UTF-8.\<close>

definition em_dash :: string where
  "em_dash = [CHR 0xE2, CHR 0x80, CHR 0x94]"

text \<open>\<^verbatim>\<open>s[:n]\<close> counts code points: the continuation units of UTF-8 go with the unit before them.\<close>

definition continuation_unit :: "char \<Rightarrow> bool" where
  "continuation_unit c = (let n = (of_char c :: nat) in 128 \<le> n \<and> n < 192)"

fun py_take :: "nat \<Rightarrow> string \<Rightarrow> string" where
  "py_take n [] = []"
| "py_take n (c # cs) =
    (if continuation_unit c then c # py_take n cs else case n of 0 \<Rightarrow> [] | Suc m \<Rightarrow> c # py_take m cs)"

text \<open>len(s), which counts code points.\<close>

definition code_points :: "string \<Rightarrow> nat" where
  "code_points s = length (filter (\<lambda>c. \<not> continuation_unit c) s)"

lemma py_in_sublist: "py_in s t \<longleftrightarrow> sublist s t"
proof (induction t)
  case Nil
  show ?case by simp
next
  case (Cons c cs)
  have "take (length s) (c # cs) = s \<longleftrightarrow> prefix s (c # cs)"
    by (metis append_take_drop_id prefixE prefixI append_eq_conv_conj)
  then show ?case using Cons.IH by (simp add: sublist_Cons_right)
qed

lemma py_split_nonempty [simp]: "py_split d s \<noteq> []"
  by (induction s) (auto split: list.splits)

lemma py_join_Cons: "xs \<noteq> [] \<Longrightarrow> py_join d (x # xs) = x @ d @ py_join d xs"
  by (cases xs) simp_all

lemma py_join_hd: "xs \<noteq> [] \<Longrightarrow> py_join d ((c # p) # xs) = c # py_join d (p # xs)"
  by (cases xs) simp_all

lemma py_join_split: "py_join [d] (py_split d s) = s"
proof (induction s)
  case Nil
  show ?case by simp
next
  case (Cons c cs)
  obtain p ps where ps: "py_split d cs = p # ps"
    by (cases "py_split d cs") auto
  with Cons.IH have "py_join [d] (p # ps) = cs" by simp
  then show ?case
    by (cases ps) (auto simp: ps)
qed

lemma py_split_no_sep: "p \<in> set (py_split d s) \<Longrightarrow> d \<notin> set p"
  by (induction s arbitrary: p) (auto split: if_splits list.splits)

lemma lower_char_idem [simp]: "lower_char (lower_char c) = lower_char c"
  by (simp add: lower_char_def Let_def)

lemma py_lower_idem [simp]: "py_lower (py_lower s) = py_lower s"
  by (simp add: py_lower_def)

lemma length_py_lower [simp]: "length (py_lower s) = length s"
  by (simp add: py_lower_def)

lemma nat_digits_nonempty [simp]: "nat_digits n \<noteq> []"
  by (subst nat_digits.simps) simp

section \<open>Dictionaries\<close>

text \<open>
  A dict is a list of pairs in insertion order. Assigning an existing key keeps its
  position, a new key is appended, as Python does; distinct keys are an invariant.
\<close>

type_synonym ('k, 'v) dict = "('k \<times> 'v) list"

fun dict_set :: "('k, 'v) dict \<Rightarrow> 'k \<Rightarrow> 'v \<Rightarrow> ('k, 'v) dict" where
  "dict_set [] k v = [(k, v)]"
| "dict_set ((k', v') # d) k v = (if k' = k then (k, v) # d else (k', v') # dict_set d k v)"

abbreviation dict_get :: "('k, 'v) dict \<Rightarrow> 'k \<Rightarrow> 'v option" where
  "dict_get \<equiv> map_of"

definition dict_del :: "('k, 'v) dict \<Rightarrow> 'k \<Rightarrow> ('k, 'v) dict" where
  "dict_del d k = filter (\<lambda>p. fst p \<noteq> k) d"

definition dict_get_default :: "('k, 'v) dict \<Rightarrow> 'k \<Rightarrow> 'v \<Rightarrow> 'v" where
  "dict_get_default d k v = (case dict_get d k of None \<Rightarrow> v | Some x \<Rightarrow> x)"

abbreviation dict_keys :: "('k, 'v) dict \<Rightarrow> 'k list" where
  "dict_keys d \<equiv> map fst d"

definition dict_wf :: "('k, 'v) dict \<Rightarrow> bool" where
  "dict_wf d \<longleftrightarrow> distinct (dict_keys d)"

text \<open>What client code relies on: a lookup after an update, after a removal.\<close>

locale dictionary =
  fixes get :: "'d \<Rightarrow> 'k \<Rightarrow> 'v option"
    and set :: "'d \<Rightarrow> 'k \<Rightarrow> 'v \<Rightarrow> 'd"
    and del :: "'d \<Rightarrow> 'k \<Rightarrow> 'd"
    and wf :: "'d \<Rightarrow> bool"
  assumes get_set: "get (set d k v) k' = (if k' = k then Some v else get d k')"
    and get_del: "get (del d k) k' = (if k' = k then None else get d k')"
    and wf_set: "wf d \<Longrightarrow> wf (set d k v)"
    and wf_del: "wf d \<Longrightarrow> wf (del d k)"
begin

lemma get_set_same: "get (set d k v) k = Some v"
  by (simp add: get_set)

lemma get_set_other: "k' \<noteq> k \<Longrightarrow> get (set d k v) k' = get d k'"
  by (simp add: get_set)

lemma set_set_get: "get (set (set d k v) k w) = get (set d k w)"
  by (rule ext) (simp add: get_set)

lemma del_set_get: "get (del (set d k v) k) = get (del d k)"
  by (rule ext) (simp add: get_set get_del)

lemma set_comm_get: "k \<noteq> k' \<Longrightarrow> get (set (set d k v) k' w) = get (set (set d k' w) k v)"
  by (rule ext) (simp add: get_set)

end

lemma map_of_dict_set: "map_of (dict_set d k v) k' = (if k' = k then Some v else map_of d k')"
  by (induction d) auto

lemma map_of_dict_del: "map_of (dict_del d k) k' = (if k' = k then None else map_of d k')"
  by (induction d) (auto simp: dict_del_def)

lemma keys_dict_set:
  "dict_keys (dict_set d k v) = (if k \<in> set (dict_keys d) then dict_keys d else dict_keys d @ [k])"
  by (induction d) (simp, force)

lemma dict_wf_set: "dict_wf d \<Longrightarrow> dict_wf (dict_set d k v)"
  unfolding dict_wf_def keys_dict_set by simp

lemma dict_wf_del: "dict_wf d \<Longrightarrow> dict_wf (dict_del d k)"
  unfolding dict_wf_def dict_del_def
  by (induction d) (auto)

lemma filter_keys_compl:
  assumes "dict_wf d"
  shows "filter (\<lambda>p. fst p \<notin> set (map fst (filter P d))) d = filter (\<lambda>p. \<not> P p) d"
proof (rule filter_cong)
  fix p
  assume p: "p \<in> set d"
  have "inj_on fst (set d)" using assms by (simp add: dict_wf_def distinct_map)
  then have "fst p \<in> fst ` set (filter P d) \<longleftrightarrow> p \<in> set (filter P d)"
    using p by (intro inj_on_image_mem_iff) auto
  then show "(fst p \<notin> set (map fst (filter P d))) = (\<not> P p)" using p by simp
qed simp

interpretation pd: dictionary map_of dict_set dict_del dict_wf
  by unfold_locales (simp_all add: map_of_dict_set map_of_dict_del dict_wf_set dict_wf_del)

lemmas pd_laws [dict_simps] = pd.get_set pd.get_del

lemma dict_get_default_set [dict_simps]:
  "dict_get_default (dict_set d k v) k' w = (if k' = k then v else dict_get_default d k' w)"
  by (simp add: dict_get_default_def pd.get_set)

text \<open>Counters: \<^verbatim>\<open>counter[name] = counter.get(name, 0) + 1\<close>.\<close>

definition counter_add :: "('k, int) dict \<Rightarrow> 'k \<Rightarrow> int \<Rightarrow> ('k, int) dict" where
  "counter_add c k n = dict_set c k (dict_get_default c k 0 + n)"

definition dict_total :: "('k, int) dict \<Rightarrow> int" where
  "dict_total d = sum_list (map snd d)"

lemma counter_add_get [dict_simps]:
  "dict_get_default (counter_add c k n) k' 0
     = dict_get_default c k' 0 + (if k' = k then n else 0)"
  by (simp add: counter_add_def dict_simps)

lemma dict_total_set:
  "dict_wf d \<Longrightarrow> dict_total (dict_set d k v) = dict_total d + v - dict_get_default d k 0"
proof (induction d)
  case Nil
  show ?case by (simp add: dict_total_def dict_get_default_def)
next
  case (Cons p d)
  obtain a b where [simp]: "p = (a, b)" by (cases p)
  from Cons.prems have wf: "dict_wf d" by (simp add: dict_wf_def)
  from Cons.IH [OF wf] show ?case
    by (auto simp: dict_total_def dict_get_default_def)
qed

lemma dict_total_counter_add:
  "dict_wf c \<Longrightarrow> dict_total (counter_add c k n) = dict_total c + n"
  by (simp add: counter_add_def dict_total_set)

lemma dict_wf_counter_add: "dict_wf c \<Longrightarrow> dict_wf (counter_add c k n)"
  by (simp add: counter_add_def dict_wf_set)

end
