(* ===== verification/Py_Effects.thy ===== *)
theory Py_Effects
  imports Py_Prelude Complex_Main
begin

text \<open>
  Exceptions, effectful code and values of unknown type.

  An effectful function is a map from a state to an exception or a result, together
  with the state it leaves behind: a raised exception does not undo what was done before
  it. retE, raiseE, bindE and tryE are return, raise, sequencing and \<^verbatim>\<open>try/except Exception\<close>;
  mapE and forE are the comprehension and the for loop whose body may raise.
  keeps P m says that m keeps the state invariant P on every path, normal or raising;
  its introduction rules are collected in keeps_intros.
\<close>

named_theorems keeps_intros \<open>introduction rules for state invariants of effectful code\<close>

section \<open>Exceptions (app/common/exceptions/base.py and the built-in ones)\<close>

datatype exn =
    AppException string int string
  | OpenStackIntegrationException string int
  | KubernetesIntegrationException string int
  | VMwareClientException string
  | HTTPException int string
  | PyException string string

abbreviation TimeoutError :: "string \<Rightarrow> exn" where
  "TimeoutError msg \<equiv> PyException ''TimeoutError'' msg"

abbreviation ValueError :: "string \<Rightarrow> exn" where
  "ValueError msg \<equiv> PyException ''ValueError'' msg"

fun exn_name :: "exn \<Rightarrow> string" where
  "exn_name (AppException _ _ _) = ''AppException''"
| "exn_name (OpenStackIntegrationException _ _) = ''OpenStackIntegrationException''"
| "exn_name (KubernetesIntegrationException _ _) = ''KubernetesIntegrationException''"
| "exn_name (VMwareClientException _) = ''VMwareClientException''"
| "exn_name (HTTPException _ _) = ''HTTPException''"
| "exn_name (PyException n _) = n"

fun exn_str :: "exn \<Rightarrow> string" where
  "exn_str (AppException m _ _) = m"
| "exn_str (OpenStackIntegrationException m _) = m"
| "exn_str (KubernetesIntegrationException m _) = m"
| "exn_str (VMwareClientException m) = m"
| "exn_str (HTTPException c d) = str_int c @ '': '' @ d"
| "exn_str (PyException _ m) = m"

text \<open>The subclasses of AppException, their status code and error code.\<close>

fun is_app_exception :: "exn \<Rightarrow> bool" where
  "is_app_exception (HTTPException _ _) = False"
| "is_app_exception (PyException _ _) = False"
| "is_app_exception _ = True"

fun exn_status_code :: "exn \<Rightarrow> int" where
  "exn_status_code (AppException _ s _) = s"
| "exn_status_code (OpenStackIntegrationException _ s) = s"
| "exn_status_code (KubernetesIntegrationException _ s) = s"
| "exn_status_code (VMwareClientException _) = 500"
| "exn_status_code (HTTPException s _) = s"
| "exn_status_code (PyException _ _) = 500"

fun exn_error_code :: "exn \<Rightarrow> string" where
  "exn_error_code (AppException _ _ c) = c"
| "exn_error_code (OpenStackIntegrationException _ _) = ''openstack_error''"
| "exn_error_code (KubernetesIntegrationException _ _) = ''kubernetes_error''"
| "exn_error_code (VMwareClientException _) = ''vmware_integration_error''"
| "exn_error_code _ = ''internal_server_error''"

text \<open>OpenStackIntegrationException(message): the default status code is 502.\<close>

abbreviation OpenStackError :: "string \<Rightarrow> exn" where
  "OpenStackError msg \<equiv> OpenStackIntegrationException msg 502"

section \<open>Effectful code\<close>

type_synonym ('w, 'a) act = "'w \<Rightarrow> (exn + 'a) \<times> 'w"

definition retE :: "'a \<Rightarrow> ('w, 'a) act" where [effect_defs]:
  "retE x w = (Inr x, w)"

definition raiseE :: "exn \<Rightarrow> ('w, 'a) act" where [effect_defs]:
  "raiseE e w = (Inl e, w)"

definition bindE :: "('w, 'a) act \<Rightarrow> ('a \<Rightarrow> ('w, 'b) act) \<Rightarrow> ('w, 'b) act" where [effect_defs]:
  "bindE m f w = (case m w of (Inl e, w') \<Rightarrow> (Inl e, w') | (Inr x, w') \<Rightarrow> f x w')"

definition thenE :: "('w, 'a) act \<Rightarrow> ('w, 'b) act \<Rightarrow> ('w, 'b) act" where [effect_defs]:
  "thenE m k w = (case m w of (Inl e, w') \<Rightarrow> (Inl e, w') | (Inr _, w') \<Rightarrow> k w')"

definition tryE :: "('w, 'a) act \<Rightarrow> (exn \<Rightarrow> ('w, 'a) act) \<Rightarrow> ('w, 'a) act" where [effect_defs]:
  "tryE m h w = (case m w of (Inl e, w') \<Rightarrow> h e w' | (Inr x, w') \<Rightarrow> (Inr x, w'))"

definition getE :: "('w \<Rightarrow> 'a) \<Rightarrow> ('w, 'a) act" where [effect_defs]:
  "getE f w = (Inr (f w), w)"

text \<open>A computation without effects that may raise.\<close>

definition outcomeE :: "exn + 'a \<Rightarrow> ('w, 'a) act" where [effect_defs]:
  "outcomeE r w = (r, w)"

text \<open>Sequencing of computations without effects that may raise, and the comprehension over a list.\<close>

definition checkS :: "exn + 'a \<Rightarrow> ('a \<Rightarrow> exn + 'b) \<Rightarrow> exn + 'b" where
  "checkS r f = (case r of Inl e \<Rightarrow> Inl e | Inr x \<Rightarrow> f x)"

fun mapS :: "('a \<Rightarrow> exn + 'b) \<Rightarrow> 'a list \<Rightarrow> exn + 'b list" where
  "mapS f [] = Inr []"
| "mapS f (x # xs) = checkS (f x) (\<lambda>y. checkS (mapS f xs) (\<lambda>ys. Inr (y # ys)))"

definition updE :: "('w \<Rightarrow> 'w) \<Rightarrow> ('w, unit) act" where [effect_defs]:
  "updE f w = (Inr (), f w)"

fun mapE :: "('a \<Rightarrow> ('w, 'b) act) \<Rightarrow> 'a list \<Rightarrow> ('w, 'b list) act" where
  "mapE f [] = retE []"
| "mapE f (x # xs) = bindE (f x) (\<lambda>y. bindE (mapE f xs) (\<lambda>ys. retE (y # ys)))"

fun forE :: "('a \<Rightarrow> ('w, unit) act) \<Rightarrow> 'a list \<Rightarrow> ('w, unit) act" where
  "forE f [] = retE ()"
| "forE f (x # xs) = thenE (f x) (forE f xs)"

lemma thenE_bindE: "thenE m k = bindE m (\<lambda>_. k)"
  by (rule ext) (simp add: effect_defs)

lemma bindE_assoc: "bindE (bindE m f) g = bindE m (\<lambda>x. bindE (f x) g)"
  by (rule ext) (simp add: bindE_def split: prod.splits sum.splits)

lemma bindE_ret [simp]: "bindE (retE x) f = f x" "bindE m retE = m"
  by (rule ext, simp add: effect_defs split: prod.splits sum.splits)+

lemma bindE_raise [simp]: "bindE (raiseE e) f = raiseE e"
  by (rule ext) (simp add: effect_defs)

lemma tryE_ret [simp]: "tryE (retE x) h = retE x"
  by (rule ext) (simp add: effect_defs)

lemma tryE_raise [simp]: "tryE (raiseE e) h = h e"
  by (rule ext) (simp add: effect_defs)

text \<open>When a sequence succeeds, and when it raises.\<close>

lemma bindE_Inr_iff:
  "bindE m f w = (Inr y, w'') \<longleftrightarrow> (\<exists>x w'. m w = (Inr x, w') \<and> f x w' = (Inr y, w''))"
  by (auto simp: bindE_def split: prod.splits sum.splits)

lemma bindE_Inl_iff:
  "bindE m f w = (Inl e, w'') \<longleftrightarrow>
     m w = (Inl e, w'') \<or> (\<exists>x w'. m w = (Inr x, w') \<and> f x w' = (Inl e, w''))"
  by (auto simp: bindE_def split: prod.splits sum.splits)

lemma thenE_Inr_iff:
  "thenE m k w = (Inr y, w'') \<longleftrightarrow> (\<exists>x w'. m w = (Inr x, w') \<and> k w' = (Inr y, w''))"
  by (simp add: thenE_bindE bindE_Inr_iff)

lemma tryE_Inr_iff:
  "tryE m h w = (Inr y, w'') \<longleftrightarrow>
     m w = (Inr y, w'') \<or> (\<exists>e w'. m w = (Inl e, w') \<and> h e w' = (Inr y, w''))"
  by (auto simp: tryE_def split: prod.splits sum.splits)

lemma tryE_Inl_iff:
  "tryE m h w = (Inl e', w'') \<longleftrightarrow> (\<exists>e w'. m w = (Inl e, w') \<and> h e w' = (Inl e', w''))"
  by (auto simp: tryE_def split: prod.splits sum.splits)

text \<open>One step of symbolic execution: what a sequence does once its head is known.\<close>

lemma bindE_eqI [intro]: "m w = (Inr x, w') \<Longrightarrow> bindE m f w = f x w'"
  by (simp add: bindE_def)

lemma bindE_eq_Inl: "m w = (Inl e, w') \<Longrightarrow> bindE m f w = (Inl e, w')"
  by (simp add: bindE_def)

lemma thenE_eqI: "m w = (Inr x, w') \<Longrightarrow> thenE m k w = k w'"
  by (simp add: thenE_def)

lemma tryE_eq_Inr: "m w = (Inr x, w') \<Longrightarrow> tryE m h w = (Inr x, w')"
  by (simp add: tryE_def)

lemma tryE_eq_Inl: "m w = (Inl e, w') \<Longrightarrow> tryE m h w = h e w'"
  by (simp add: tryE_def)

lemma mapE_length: "mapE f xs w = (Inr ys, w') \<Longrightarrow> length ys = length xs"
  by (induction xs arbitrary: w ys) (auto simp: bindE_Inr_iff retE_def)

section \<open>State invariants of effectful code\<close>

definition keeps :: "('w \<Rightarrow> bool) \<Rightarrow> ('w, 'a) act \<Rightarrow> bool" where
  "keeps P m \<longleftrightarrow> (\<forall>w. P w \<longrightarrow> P (snd (m w)))"

lemma keepsD: "keeps P m \<Longrightarrow> P w \<Longrightarrow> m w = (r, w') \<Longrightarrow> P w'"
  by (auto simp: keeps_def dest: spec [where x = w])

lemma keeps_ret [keeps_intros]: "keeps P (retE x)"
  by (simp add: keeps_def retE_def)

lemma keeps_raise [keeps_intros]: "keeps P (raiseE e)"
  by (simp add: keeps_def raiseE_def)

lemma keeps_get [keeps_intros]: "keeps P (getE f)"
  by (simp add: keeps_def getE_def)

lemma keeps_upd [keeps_intros]: "(\<And>w. P w \<Longrightarrow> P (f w)) \<Longrightarrow> keeps P (updE f)"
  by (simp add: keeps_def updE_def)

lemma keeps_bind [keeps_intros]:
  "keeps P m \<Longrightarrow> (\<And>x. keeps P (f x)) \<Longrightarrow> keeps P (bindE m f)"
  by (auto simp: keeps_def bindE_def split: prod.splits sum.splits)

lemma keeps_then [keeps_intros]: "keeps P m \<Longrightarrow> keeps P k \<Longrightarrow> keeps P (thenE m k)"
  by (simp add: thenE_bindE keeps_bind)

lemma keeps_try [keeps_intros]:
  "keeps P m \<Longrightarrow> (\<And>e. keeps P (h e)) \<Longrightarrow> keeps P (tryE m h)"
  by (auto simp: keeps_def tryE_def split: prod.splits sum.splits)

lemma keeps_if [keeps_intros]:
  "(b \<Longrightarrow> keeps P m) \<Longrightarrow> (\<not> b \<Longrightarrow> keeps P k) \<Longrightarrow> keeps P (if b then m else k)"
  by simp

lemma keeps_case_option [keeps_intros]:
  "keeps P m \<Longrightarrow> (\<And>x. keeps P (k x)) \<Longrightarrow> keeps P (case z of None \<Rightarrow> m | Some x \<Rightarrow> k x)"
  by (simp split: option.split)

lemma keeps_map [keeps_intros]: "(\<And>x. keeps P (f x)) \<Longrightarrow> keeps P (mapE f xs)"
  by (induction xs) (auto intro!: keeps_intros)

lemma keeps_for [keeps_intros]: "(\<And>x. keeps P (f x)) \<Longrightarrow> keeps P (forE f xs)"
  by (induction xs) (auto intro!: keeps_intros)

section \<open>Which exceptions effectful code raises\<close>

text \<open>raises_only P r and fails_with P m say that every exception satisfies P. An exception of Python or of a
  library, which is none of the application's classes, is foreign.\<close>

named_theorems fails_intros \<open>introduction rules for the exceptions of effectful code\<close>

definition raises_only :: "(exn \<Rightarrow> bool) \<Rightarrow> exn + 'a \<Rightarrow> bool" where
  "raises_only P r \<longleftrightarrow> (\<forall>e. r = Inl e \<longrightarrow> P e)"

definition fails_with :: "(exn \<Rightarrow> bool) \<Rightarrow> ('w, 'a) act \<Rightarrow> bool" where
  "fails_with P m \<longleftrightarrow> (\<forall>w. raises_only P (fst (m w)))"

definition foreign :: "exn \<Rightarrow> bool" where
  "foreign e \<longleftrightarrow> (\<exists>n m. e = PyException n m)"

lemma raises_only_rules [fails_intros]:
  "raises_only P (Inr x)"
  "raises_only P r \<Longrightarrow> (\<And>x. raises_only P (f x)) \<Longrightarrow> raises_only P (checkS r f)"
  "(b \<Longrightarrow> raises_only P r) \<Longrightarrow> (\<not> b \<Longrightarrow> raises_only P r') \<Longrightarrow> raises_only P (if b then r else r')"
  by (auto simp: raises_only_def checkS_def split: sum.splits)

lemma raises_only_mapS [fails_intros]: "(\<And>x. raises_only P (f x)) \<Longrightarrow> raises_only P (mapS f xs)"
  by (induction xs) (auto intro!: fails_intros)

lemma fails_with_rules [fails_intros]:
  "fails_with P (retE x)"
  "raises_only P r \<Longrightarrow> fails_with P (outcomeE r)"
  "fails_with P m \<Longrightarrow> (\<And>x. fails_with P (f x)) \<Longrightarrow> fails_with P (bindE m f)"
  "fails_with P m \<Longrightarrow> fails_with P k \<Longrightarrow> fails_with P (thenE m k)"
  by (auto simp: fails_with_def raises_only_def effect_defs split: prod.splits sum.splits) (metis fst_conv)+

lemma fails_with_cases [fails_intros]:
  "P e \<Longrightarrow> fails_with P (raiseE e)"
  "(b \<Longrightarrow> fails_with P m) \<Longrightarrow> (\<not> b \<Longrightarrow> fails_with P k) \<Longrightarrow> fails_with P (if b then m else k)"
  "fails_with P m \<Longrightarrow> (\<And>x. fails_with P (g x)) \<Longrightarrow> fails_with P (case z of None \<Rightarrow> m | Some x \<Rightarrow> g x)"
  by (auto simp: fails_with_def raises_only_def raiseE_def split: option.split)

lemma fails_with_map [fails_intros]: "(\<And>x. fails_with P (f x)) \<Longrightarrow> fails_with P (mapE f xs)"
  by (induction xs) (auto intro!: fails_intros)

text \<open>returns m: m never raises.\<close>

abbreviation returns :: "('w, 'a) act \<Rightarrow> bool" where
  "returns \<equiv> fails_with (\<lambda>_. False)"

lemma returnsD: "returns m \<Longrightarrow> \<exists>x w'. m w = (Inr x, w')"
  by (metis fails_with_def obj_sumE prod.collapse raises_only_def)

lemma fails_with_state [fails_intros]:
  "(\<And>e. fails_with P (h e)) \<Longrightarrow> fails_with P (tryE m h)"
  "fails_with P (getE f)"
  "fails_with P (updE g)"
  by (auto simp: fails_with_def raises_only_def effect_defs split: prod.splits sum.splits)

section \<open>Local variables beside the state\<close>

text \<open>A function whose local variables are assigned before an exception and read after it runs on the pair of its variables
  and the state: besideE runs an action on the state alone, setE assigns variables.\<close>

definition besideE :: "('w, 'a) act \<Rightarrow> ('l \<times> 'w, 'a) act" where
  "besideE m = (\<lambda>(l, w). case m w of (r, w') \<Rightarrow> (r, l, w'))"

definition setE :: "('l \<Rightarrow> 'l) \<Rightarrow> ('l \<times> 'w, unit) act" where
  "setE f = updE (\<lambda>(l, w). (f l, w))"

lemma setE_apply [simp]: "setE f (l, w) = (Inr (), f l, w)"
  by (simp add: setE_def updE_def)

lemma besideE_apply: "besideE m (l, w) = (case m w of (r, w') \<Rightarrow> (r, l, w'))"
  by (simp add: besideE_def)

lemma fails_with_beside [fails_intros]:
  "fails_with P m \<Longrightarrow> fails_with P (besideE m)" "fails_with P (setE f)"
  by (auto simp: fails_with_def raises_only_def besideE_def setE_def updE_def split: prod.splits) (metis fst_conv)

section \<open>Values of unknown type\<close>

text \<open>
  What an SDK call returns: the built-in types and objects. An object is given by its
  truth value, its attributes and, when it is a Mapping, its items (the OpenStack SDK's
  resources are both objects with attributes and mappings).
\<close>

datatype pyval =
    PNone
  | PBool bool
  | PInt int
  | PFloat rat
  | PStr string
  | PList "pyval list"
  | PDict "(pyval \<times> pyval) list"
  | PObj bool "(string \<times> pyval) list" "(pyval \<times> pyval) list option"

fun truthy :: "pyval \<Rightarrow> bool" where
  "truthy PNone = False"
| "truthy (PBool b) = b"
| "truthy (PInt i) = (i \<noteq> 0)"
| "truthy (PFloat x) = (x \<noteq> 0)"
| "truthy (PStr s) = (s \<noteq> [])"
| "truthy (PList xs) = (xs \<noteq> [])"
| "truthy (PDict d) = (d \<noteq> [])"
| "truthy (PObj b _ _) = b"

text \<open>\<^verbatim>\<open>getattr(v, name, default)\<close> and \<^verbatim>\<open>v.items()\<close> of a Mapping.\<close>

fun getattr :: "pyval \<Rightarrow> string \<Rightarrow> pyval \<Rightarrow> pyval" where
  "getattr (PObj _ attrs _) name d = dict_get_default attrs name d"
| "getattr _ name d = d"

fun mapping_items :: "pyval \<Rightarrow> (pyval \<times> pyval) list option" where
  "mapping_items (PDict d) = Some d"
| "mapping_items (PObj _ _ items) = items"
| "mapping_items _ = None"

text \<open>str(v): decided here for None, booleans, integers and strings; the text of the other
  values is given by the argument.\<close>

fun py_str :: "(pyval \<Rightarrow> string) \<Rightarrow> pyval \<Rightarrow> string" where
  "py_str repr PNone = ''None''"
| "py_str repr (PBool b) = (if b then ''True'' else ''False'')"
| "py_str repr (PInt i) = str_int i"
| "py_str repr (PStr s) = s"
| "py_str repr v = repr v"

text \<open>Truth of the built-in types that occur with a static type.\<close>

definition str_truthy :: "string option \<Rightarrow> bool" where
  "str_truthy s = (case s of None \<Rightarrow> False | Some t \<Rightarrow> t \<noteq> [])"

definition str_or :: "string option \<Rightarrow> string \<Rightarrow> string" where
  "str_or s d = (case s of None \<Rightarrow> d | Some t \<Rightarrow> if t \<noteq> [] then t else d)"

lemma str_truthy_simps [simp]:
  "\<not> str_truthy None" "str_truthy (Some t) \<longleftrightarrow> t \<noteq> []"
  by (simp_all add: str_truthy_def)

lemma str_or_simps [simp]:
  "str_or None d = d" "str_or (Some t) d = (if t \<noteq> [] then t else d)"
  by (simp_all add: str_or_def)

end
