(* ===== verification/Py_Float.thy ===== *)
theory Py_Float
  imports Py_Prelude Complex_Main
begin

text \<open>
  Python's float: IEEE 754 binary64 arithmetic as rational arithmetic followed by
  rounding. A double is the rational number it denotes; fl rounds a rational to the
  nearest number with a 53-bit significand, ties to even. The exponent is unbounded, so
  the model and the hardware agree as long as no result overflows or is subnormal, which
  holds of the scores and normalised distances computed in the sources.

  fadd, fsub, fmul, fdiv are the correctly rounded operations, fsqrt is math.sqrt,
  py_round is round(x, n) and fmt_fixed is the format \<^verbatim>\<open>{x:.nf}\<close> (both round the exact value
  of the double half to even, as CPython does).
\<close>

section \<open>Rounding to an integer\<close>

definition rne :: "rat \<Rightarrow> int" where
  "rne x = (let f = \<lfloor>x\<rfloor>; d = x - of_int f in
     if d < 1 / 2 then f else if 1 / 2 < d then f + 1 else if even f then f else f + 1)"

lemma rne_bounds: "of_int (rne x) \<le> x + 1 / 2" "x - 1 / 2 \<le> of_int (rne x)"
proof -
  have *: "of_int \<lfloor>x\<rfloor> \<le> x" "x < of_int \<lfloor>x\<rfloor> + 1"
    using floor_correct [of x] by simp_all
  have "of_int (rne x) = (of_int \<lfloor>x\<rfloor> :: rat) \<and> x - of_int \<lfloor>x\<rfloor> \<le> 1 / 2
      \<or> of_int (rne x) = (of_int \<lfloor>x\<rfloor> + 1 :: rat) \<and> 1 / 2 \<le> x - of_int \<lfloor>x\<rfloor>"
    unfolding rne_def Let_def by force
  with * show "of_int (rne x) \<le> x + 1 / 2" "x - 1 / 2 \<le> of_int (rne x)"
    by linarith+
qed

lemma rne_of_int [simp]: "rne (of_int i) = i"
  by (simp add: rne_def)

lemma rne_mono: "x \<le> y \<Longrightarrow> rne x \<le> rne y"
proof -
  assume xy: "x \<le> y"
  show ?thesis
  proof (cases "\<lfloor>x\<rfloor> = \<lfloor>y\<rfloor>")
    case True
    with xy show ?thesis by (auto simp: rne_def Let_def)
  next
    case False
    with floor_mono [OF xy] have "\<lfloor>x\<rfloor> + 1 \<le> \<lfloor>y\<rfloor>" by linarith
    moreover have "rne x \<le> \<lfloor>x\<rfloor> + 1" "\<lfloor>y\<rfloor> \<le> rne y" by (auto simp: rne_def Let_def)
    ultimately show ?thesis by linarith
  qed
qed

lemma rne_ge_int: "of_int i \<le> x \<Longrightarrow> i \<le> rne x"
  using rne_mono [of "of_int i" x] by simp

lemma rne_le_int: "x \<le> of_int i \<Longrightarrow> rne x \<le> i"
  using rne_mono [of x "of_int i"] by simp

section \<open>Binary exponent and integer square root\<close>

fun nlog2 :: "int \<Rightarrow> int" where
  "nlog2 n = (if n < 2 then 0 else 1 + nlog2 (n div 2))"

declare nlog2.simps [simp del]

lemma nlog2_nonneg [simp]: "0 \<le> nlog2 n"
  by (induction n rule: nlog2.induct) (subst nlog2.simps, auto)

lemma nlog2_bounds: "1 \<le> n \<Longrightarrow> 2 ^ nat (nlog2 n) \<le> n \<and> n < 2 ^ (nat (nlog2 n) + 1)"
proof (induction n rule: nlog2.induct)
  case (1 n)
  show ?case
  proof (cases "n < 2")
    case True
    with "1.prems" have "n = 1" by linarith
    then show ?thesis by (subst (1 2) nlog2.simps) simp
  next
    case False
    then have IH: "2 ^ nat (nlog2 (n div 2)) \<le> n div 2"
        "n div 2 < 2 ^ (nat (nlog2 (n div 2)) + 1)"
      using "1.IH" by auto
    have eq: "nat (nlog2 n) = nat (nlog2 (n div 2)) + 1"
      using False nlog2_nonneg [of "n div 2"] by (subst nlog2.simps) (simp add: nat_add_distrib)
    have "2 ^ nat (nlog2 n) \<le> n" using IH(1) unfolding eq by simp
    moreover have "n < 2 ^ (nat (nlog2 n) + 1)" using IH(2) unfolding eq by simp
    ultimately show ?thesis by blast
  qed
qed

text \<open>Powers of two with an integer exponent.\<close>

definition p2 :: "int \<Rightarrow> rat" where
  "p2 e = 2 powi e"

lemma p2_pos [simp]: "0 < p2 e" "0 \<le> p2 e" "p2 e \<noteq> 0"
  by (simp_all add: p2_def zero_less_power_int less_imp_le)

lemma p2_add: "p2 (a + b) = p2 a * p2 b"
  by (simp add: p2_def power_int_add)

lemma p2_0 [simp]: "p2 0 = 1"
  by (simp add: p2_def)

lemma p2_minus: "p2 (- a) = 1 / p2 a"
  by (simp add: p2_def power_int_minus_divide)

lemma p2_nonneg: "0 \<le> e \<Longrightarrow> p2 e = of_int (2 ^ nat e)"
  by (simp add: p2_def power_int_nonneg_exp)

lemma p2_less_iff [simp]: "p2 a < p2 b \<longleftrightarrow> a < b"
  unfolding p2_def
  by (metis less_asym linorder_neqE one_less_numeral_iff power_int_strict_increasing semiring_norm(76))

lemma p2_le_iff [simp]: "p2 a \<le> p2 b \<longleftrightarrow> a \<le> b"
  by (simp flip: not_less)

text \<open>The exponent e with \<open>p2 e \<le> x < p2 (e + 1)\<close>, for positive x.\<close>

definition ilog2 :: "rat \<Rightarrow> int" where
  "ilog2 x = (if 1 \<le> x then nlog2 \<lfloor>x\<rfloor> else - (nlog2 (\<lceil>1 / x\<rceil> - 1) + 1))"

function isqrt :: "int \<Rightarrow> int" where
  "isqrt n = (if n \<le> 0 then 0
     else let r = 2 * isqrt (n div 4) in if (r + 1) * (r + 1) \<le> n then r + 1 else r)"
  by pat_completeness auto
termination
  by (relation "measure nat") auto

declare isqrt.simps [simp del]

lemma isqrt_nonneg [simp]: "0 \<le> isqrt n"
  by (induction n rule: isqrt.induct) (subst isqrt.simps, simp add: Let_def)

lemma isqrt_bounds: "0 \<le> n \<Longrightarrow> isqrt n * isqrt n \<le> n \<and> n < (isqrt n + 1) * (isqrt n + 1)"
proof (induction n rule: isqrt.induct)
  case (1 n)
  show ?case
  proof (cases "n \<le> 0")
    case True
    with "1.prems" show ?thesis by (subst (1 2 3 4) isqrt.simps) simp
  next
    case False
    define q where "q = isqrt (n div 4)"
    have q: "q * q \<le> n div 4" "n div 4 < (q + 1) * (q + 1)"
      using "1.IH" False unfolding q_def by simp_all
    from q(1) have lo: "(2 * q) * (2 * q) \<le> n" by (simp add: algebra_simps)
    from q(2) have "n div 4 + 1 \<le> (q + 1) * (q + 1)" by simp
    then have hi: "n < (2 * q + 2) * (2 * q + 2)" by (simp add: algebra_simps)
    have eq: "isqrt n = (if (2 * q + 1) * (2 * q + 1) \<le> n then 2 * q + 1 else 2 * q)"
      using False by (subst isqrt.simps) (simp add: q_def Let_def)
    show ?thesis using lo hi by (simp add: eq algebra_simps)
  qed
qed

lemma ilog2_bounds:
  assumes "0 < x"
  shows "p2 (ilog2 x) \<le> x" and "x < p2 (ilog2 x + 1)"
proof -
  have "p2 (ilog2 x) \<le> x \<and> x < p2 (ilog2 x + 1)"
  proof (cases "1 \<le> x")
    case True
    define n where "n = \<lfloor>x\<rfloor>"
    have n: "1 \<le> n" "of_int n \<le> x" "x < of_int n + 1"
      using True floor_correct [of x] unfolding n_def by (simp_all add: le_floor_iff)
    note b = nlog2_bounds [OF n(1)]
    have "of_int (2 ^ nat (nlog2 n)) \<le> (of_int n :: rat)"
      using b by (simp only: of_int_le_iff)
    then have lo: "p2 (nlog2 n) \<le> of_int n" by (simp add: p2_nonneg)
    have "of_int (n + 1) \<le> (of_int (2 ^ (nat (nlog2 n) + 1)) :: rat)"
      using b by (simp only: of_int_le_iff) simp
    then have "of_int n + 1 \<le> p2 (nlog2 n + 1)" by (simp add: p2_nonneg nat_add_distrib)
    then have "p2 (nlog2 n) \<le> x \<and> x < p2 (nlog2 n + 1)" using lo n by linarith
    then show ?thesis using True by (simp add: ilog2_def n_def)
  next
    case False
    define m where "m = \<lceil>1 / x\<rceil> - 1"
    have y: "1 < 1 / x" using False assms by simp
    then have m: "1 \<le> m" "of_int m < 1 / x" "1 / x \<le> of_int m + 1"
      using ceiling_correct [of "1 / x"] unfolding m_def by (simp_all add: less_ceiling_iff)
    note b = nlog2_bounds [OF m(1)]
    have "of_int (2 ^ nat (nlog2 m)) \<le> (of_int m :: rat)"
      using b by (simp only: of_int_le_iff)
    with m(2) have "of_int (2 ^ nat (nlog2 m)) < 1 / x" by linarith
    then have lo: "p2 (nlog2 m) < 1 / x" by (simp add: p2_nonneg)
    have "of_int (m + 1) \<le> (of_int (2 ^ (nat (nlog2 m) + 1)) :: rat)"
      using b by (simp only: of_int_le_iff) simp
    then have hi: "1 / x \<le> p2 (nlog2 m + 1)" using m(3) by (simp add: p2_nonneg nat_add_distrib)
    have e: "ilog2 x = - (nlog2 m + 1)" using False by (simp add: ilog2_def m_def)
    have e1: "ilog2 x + 1 = - nlog2 m" using e by simp
    have "p2 (ilog2 x) \<le> x" unfolding e p2_minus using hi assms
      by (simp add: field_simps)
    moreover have "x < p2 (ilog2 x + 1)" unfolding e1 p2_minus using lo assms
      by (simp add: field_simps)
    ultimately show ?thesis by blast
  qed
  then show "p2 (ilog2 x) \<le> x" "x < p2 (ilog2 x + 1)" by blast+
qed

lemma ilog2_eqI: "p2 e \<le> x \<Longrightarrow> x < p2 (e + 1) \<Longrightarrow> ilog2 x = e"
proof -
  assume e: "p2 e \<le> x" "x < p2 (e + 1)"
  then have x: "0 < x" using p2_pos(1) [of e] by linarith
  from e ilog2_bounds [OF x] have "p2 e < p2 (ilog2 x + 1)" "p2 (ilog2 x) < p2 (e + 1)"
    by linarith+
  then show ?thesis by simp
qed

lemma ilog2_mono: "0 < x \<Longrightarrow> x \<le> y \<Longrightarrow> ilog2 x \<le> ilog2 y"
proof -
  assume "0 < x" "x \<le> y"
  then have "p2 (ilog2 x) < p2 (ilog2 y + 1)"
    using ilog2_bounds(1) [of x] ilog2_bounds(2) [of y] by linarith
  then show ?thesis by simp
qed

section \<open>Rounding to a double\<close>

definition fl :: "rat \<Rightarrow> rat" where
  "fl x = (if x = 0 then 0 else
     let u = p2 (ilog2 \<bar>x\<bar> - 52) in sgn x * of_int (rne (\<bar>x\<bar> / u)) * u)"

lemma fl_0 [simp]: "fl 0 = 0"
  by (simp add: fl_def)

lemma fl_minus: "fl (- x) = - fl x"
  by (simp add: fl_def Let_def sgn_minus)

lemma fl_pos: "0 < x \<Longrightarrow> fl x = of_int (rne (x / p2 (ilog2 x - 52))) * p2 (ilog2 x - 52)"
  by (simp add: fl_def Let_def)

lemma fl_binade:
  assumes "0 < x"
  shows "p2 (ilog2 x) \<le> fl x" and "fl x \<le> p2 (ilog2 x + 1)"
proof -
  let ?e = "ilog2 x" and ?u = "p2 (ilog2 x - 52)"
  have u: "p2 ?e = of_int (2 ^ 52) * ?u" "p2 (?e + 1) = of_int (2 ^ 53) * ?u"
    using p2_add [of 52 "?e - 52"] p2_add [of 53 "?e - 52"] by (simp_all add: p2_nonneg add.commute)
  have "of_int (2 ^ 52) \<le> x / ?u" "x / ?u \<le> of_int (2 ^ 53)"
    using ilog2_bounds [OF assms] unfolding u by (simp_all add: pos_le_divide_eq pos_divide_le_eq)
  then have "2 ^ 52 \<le> rne (x / ?u)" "rne (x / ?u) \<le> 2 ^ 53"
    by (blast intro: rne_ge_int rne_le_int)+
  then have "of_int (2 ^ 52) \<le> (of_int (rne (x / ?u)) :: rat)"
      "(of_int (rne (x / ?u)) :: rat) \<le> of_int (2 ^ 53)"
    by (simp_all only: of_int_le_iff)
  then show "p2 ?e \<le> fl x" "fl x \<le> p2 (?e + 1)"
    unfolding u fl_pos [OF assms] by (simp_all add: mult_right_mono)
qed

lemma fl_pos_iff: "0 < x \<Longrightarrow> 0 < fl x"
  using fl_binade(1) [of x] p2_pos(1) [of "ilog2 x"] by linarith

lemma fl_mono_pos: "0 < x \<Longrightarrow> x \<le> y \<Longrightarrow> fl x \<le> fl y"
proof -
  assume x: "0 < x" and xy: "x \<le> y"
  then have y: "0 < y" by simp
  show ?thesis
  proof (cases "ilog2 x = ilog2 y")
    case True
    have "x / p2 (ilog2 y - 52) \<le> y / p2 (ilog2 y - 52)" using xy by (simp add: divide_right_mono)
    then show ?thesis unfolding fl_pos [OF x] fl_pos [OF y] True
      by (simp add: rne_mono mult_right_mono)
  next
    case False
    with ilog2_mono [OF x xy] have "p2 (ilog2 x + 1) \<le> p2 (ilog2 y)" by simp
    with fl_binade(2) [OF x] fl_binade(1) [OF y] show ?thesis by linarith
  qed
qed

lemma fl_nonneg: "0 \<le> x \<Longrightarrow> 0 \<le> fl x"
  using fl_pos_iff [of x] by (cases "x = 0") auto

lemma fl_mono: "x \<le> y \<Longrightarrow> fl x \<le> fl y"
proof -
  assume xy: "x \<le> y"
  consider "0 < x" | "x \<le> 0" "0 \<le> y" | "y < 0" by linarith
  then show ?thesis
  proof cases
    case 1
    then show ?thesis using xy by (rule fl_mono_pos)
  next
    case 2
    then show ?thesis using fl_nonneg [of y] fl_nonneg [of "- x"] by (simp add: fl_minus)
  next
    case 3
    then show ?thesis using xy fl_mono_pos [of "- y" "- x"] by (simp add: fl_minus)
  qed
qed

lemma fl_eq_0_iff [simp]: "fl x = 0 \<longleftrightarrow> x = 0"
  using fl_pos_iff [of x] fl_pos_iff [of "- x"] by (cases x "0 :: rat" rule: linorder_cases) (auto simp: fl_minus)

text \<open>Numbers with at most 53 significant bits are doubles: they round to themselves.\<close>

lemma fl_exact:
  assumes "\<bar>m\<bar> < 2 ^ 53"
  shows "fl (of_int m * p2 k) = of_int m * p2 k"
proof -
  have pos: "fl (of_int m * p2 k) = of_int m * p2 k" if m: "0 < m" "m < 2 ^ 53" for m :: int
  proof -
    let ?x = "of_int m * p2 k" and ?e = "ilog2 (of_int m * p2 k)"
    have x: "0 < ?x" using m by simp
    have "of_int m < (of_int (2 ^ 53) :: rat)" using m by (simp only: of_int_less_iff)
    then have "?x < p2 (53 + k)" by (simp add: p2_add p2_nonneg)
    then have "p2 ?e < p2 (53 + k)" using ilog2_bounds(1) [OF x] by linarith
    then have d: "0 \<le> k - (?e - 52)" by simp
    have "p2 k = p2 (k - (?e - 52)) * p2 (?e - 52)" by (simp flip: p2_add)
    then have k: "p2 k / p2 (?e - 52) = of_int (2 ^ nat (k - (?e - 52)))"
      using d by (simp add: p2_nonneg field_simps)
    have "?x / p2 (?e - 52) = of_int m * (p2 k / p2 (?e - 52))" by simp
    then have "?x / p2 (?e - 52) = of_int (m * 2 ^ nat (k - (?e - 52)))"
      unfolding k by simp
    then have "rne (?x / p2 (?e - 52)) = m * 2 ^ nat (k - (?e - 52))"
      by (simp only: rne_of_int)
    then have "fl ?x = of_int (m * 2 ^ nat (k - (?e - 52))) * p2 (?e - 52)"
      by (simp only: fl_pos [OF x])
    also have "\<dots> = ?x" using d p2_add [of "k - (?e - 52)" "?e - 52"] by (simp add: p2_nonneg)
    finally show ?thesis .
  qed
  show ?thesis
    using pos [of m] pos [of "- m"] fl_minus [of "of_int m * p2 k"] assms
    by (cases m "0 :: int" rule: linorder_cases) auto
qed

lemma fl_of_int: "\<bar>m\<bar> < 2 ^ 53 \<Longrightarrow> fl (of_int m) = of_int m"
  using fl_exact [of m 0] by simp

lemma fl_1 [simp]: "fl 1 = 1"
  using fl_of_int [of 1] by simp

lemma fl_half [simp]: "fl (1 / 2) = 1 / 2"
  using fl_exact [of 1 "-1"] by (simp add: p2_minus p2_def)

section \<open>Arithmetic\<close>

definition fadd :: "rat \<Rightarrow> rat \<Rightarrow> rat" where "fadd x y = fl (x + y)"
definition fsub :: "rat \<Rightarrow> rat \<Rightarrow> rat" where "fsub x y = fl (x - y)"
definition fmul :: "rat \<Rightarrow> rat \<Rightarrow> rat" where "fmul x y = fl (x * y)"
definition fdiv :: "rat \<Rightarrow> rat \<Rightarrow> rat" where "fdiv x y = fl (x / y)"

lemmas float_defs = fadd_def fsub_def fmul_def fdiv_def

text \<open>True division of two integers, \<^verbatim>\<open>a / b\<close> with a non-zero b.\<close>

definition int_truediv :: "int \<Rightarrow> int \<Rightarrow> rat" where
  "int_truediv a b = fl (of_int a / of_int b)"

definition fsqrt :: "rat \<Rightarrow> rat" where
  "fsqrt x = (if x \<le> 0 then 0 else
     let u = p2 (ilog2 x div 2 - 52);
         m = isqrt \<lfloor>x / (u * u)\<rfloor>;
         mid = (of_int m + 1 / 2) * u
     in of_int (if mid * mid < x \<or> mid * mid = x \<and> odd m then m + 1 else m) * u)"

lemma fsqrt_0 [simp]: "fsqrt 0 = 0"
  by (simp add: fsqrt_def)

lemma fsqrt_nonneg [simp]: "0 \<le> fsqrt x"
  by (simp add: fsqrt_def Let_def)

lemma fsqrt_pos: "0 < x \<Longrightarrow> 0 < fsqrt x"
proof -
  assume x: "0 < x"
  define u where "u = p2 (ilog2 x div 2 - 52)"
  define m where "m = isqrt \<lfloor>x / (u * u)\<rfloor>"
  have "u * u = p2 (2 * (ilog2 x div 2 - 52))" unfolding u_def
    by (simp flip: p2_add)
  moreover have "p2 (2 * (ilog2 x div 2 - 52)) \<le> p2 (ilog2 x)" by simp
  ultimately have "u * u \<le> x" using ilog2_bounds(1) [OF x] by linarith
  then have "1 \<le> x / (u * u)" unfolding u_def by simp
  then have "1 \<le> \<lfloor>x / (u * u)\<rfloor>" by simp
  then have "m \<noteq> 0" using isqrt_bounds [of "\<lfloor>x / (u * u)\<rfloor>"] unfolding m_def by auto
  then have "1 \<le> m" using isqrt_nonneg [of "\<lfloor>x / (u * u)\<rfloor>"] unfolding m_def by linarith
  then show ?thesis using x unfolding fsqrt_def Let_def u_def [symmetric] m_def [symmetric]
    by (simp add: u_def)
qed

lemma fsqrt_eq_0_iff: "0 \<le> x \<Longrightarrow> fsqrt x = 0 \<longleftrightarrow> x = 0"
  using fsqrt_pos [of x] by (cases "x = 0") auto

text \<open>The result is within half a unit in the last place of the square root.\<close>

lemma fsqrt_half_ulp:
  assumes "0 < x"
  defines "u \<equiv> p2 (ilog2 x div 2 - 52)"
  shows "(fsqrt x - u / 2) * (fsqrt x - u / 2) \<le> x"
    and "x \<le> (fsqrt x + u / 2) * (fsqrt x + u / 2)"
proof -
  define m where "m = isqrt \<lfloor>x / (u * u)\<rfloor>"
  have u: "0 < u" by (simp add: u_def)
  have "0 \<le> \<lfloor>x / (u * u)\<rfloor>" using assms by simp
  note b = isqrt_bounds [OF this, folded m_def]
  have m0: "0 \<le> m" by (simp add: m_def)
  have "of_int (m * m) \<le> x / (u * u)" using b le_floor_iff by blast
  then have lo: "(of_int m * u) * (of_int m * u) \<le> x" using u by (simp add: field_simps)
  have "x / (u * u) < of_int ((m + 1) * (m + 1))" using b floor_less_iff by blast
  then have hi: "x \<le> ((of_int m + 1) * u) * ((of_int m + 1) * u)" using u by (simp add: field_simps)
  define mid where "mid = (of_int m + 1 / 2) * u"
  have mid: "0 \<le> mid" using m0 u by (simp add: mid_def)
  have val: "fsqrt x = of_int (if mid * mid < x \<or> mid * mid = x \<and> odd m then m + 1 else m) * u"
    using assms by (simp add: fsqrt_def Let_def mid_def m_def u_def)
  have sq: "a * a \<le> b * b" if "0 \<le> a" "a \<le> b" for a b :: rat using that by (simp add: mult_mono)
  have "(fsqrt x - u / 2) * (fsqrt x - u / 2) \<le> x \<and> x \<le> (fsqrt x + u / 2) * (fsqrt x + u / 2)"
  proof (cases "mid * mid < x \<or> mid * mid = x \<and> odd m")
    case True
    then have "fsqrt x = (of_int m + 1) * u" unfolding val by (subst if_P) auto
    then have v: "fsqrt x - u / 2 = mid" "fsqrt x + u / 2 = (of_int m + 1) * u + u / 2"
      by (simp_all add: mid_def algebra_simps)
    have "((of_int m + 1) * u) * ((of_int m + 1) * u) \<le> (fsqrt x + u / 2) * (fsqrt x + u / 2)"
      unfolding v by (rule sq) (use m0 u in simp_all)
    with True hi show ?thesis unfolding v(1) by auto
  next
    case False
    then have "fsqrt x = of_int m * u" unfolding val by (subst if_not_P) auto
    then have v: "fsqrt x + u / 2 = mid" "fsqrt x = of_int m * u"
      by (simp_all add: mid_def algebra_simps)
    have "(of_int m * u - u / 2) * (of_int m * u - u / 2) \<le> x"
    proof (cases "m = 0")
      case True
      have "1 \<le> m" using fsqrt_pos [OF assms(1)] v(2) True by simp
      with True show ?thesis by simp
    next
      case False
      then have "1 \<le> (of_int m :: rat)" using m0 by simp
      then have "0 \<le> of_int m * u - u / 2" using u by (simp add: field_simps)
      then have "(of_int m * u - u / 2) * (of_int m * u - u / 2) \<le> (of_int m * u) * (of_int m * u)"
        by (rule sq) (use u in simp)
      with lo show ?thesis by linarith
    qed
    then have "(fsqrt x - u / 2) * (fsqrt x - u / 2) \<le> x" unfolding v(2) .
    moreover have "x \<le> (fsqrt x + u / 2) * (fsqrt x + u / 2)" unfolding v(1) using False by auto
    ultimately show ?thesis by blast
  qed
  then show "(fsqrt x - u / 2) * (fsqrt x - u / 2) \<le> x" "x \<le> (fsqrt x + u / 2) * (fsqrt x + u / 2)"
    by blast+
qed

section \<open>round(x, n) and fixed-point formatting\<close>

definition py_round :: "rat \<Rightarrow> nat \<Rightarrow> rat" where
  "py_round x n = fl (of_int (rne (x * 10 ^ n)) / 10 ^ n)"

lemma py_round_mono: "x \<le> y \<Longrightarrow> py_round x n \<le> py_round y n"
  unfolding py_round_def
  by (intro fl_mono divide_right_mono) (simp_all add: rne_mono mult_right_mono)

lemma py_round_0 [simp]: "py_round 0 n = 0"
  using rne_of_int [of 0] by (simp add: py_round_def)

lemma py_round_1 [simp]: "py_round 1 n = 1"
  using rne_of_int [of "10 ^ n"] by (simp add: py_round_def)

lemma py_round_unit: "0 \<le> x \<Longrightarrow> x \<le> 1 \<Longrightarrow> 0 \<le> py_round x n \<and> py_round x n \<le> 1"
  using py_round_mono [of 0 x n] py_round_mono [of x 1 n] by simp

fun frac_digits :: "nat \<Rightarrow> int \<Rightarrow> string" where
  "frac_digits 0 k = []"
| "frac_digits (Suc n) k = frac_digits n (k div 10) @ [digit_char (nat (k mod 10))]"

definition fmt_fixed :: "nat \<Rightarrow> rat \<Rightarrow> string" where
  "fmt_fixed n x = (let k = rne (\<bar>x\<bar> * 10 ^ n) in
     (if x < 0 then ''-'' else []) @ str_int (k div 10 ^ n) @ ''.'' @ frac_digits n (k mod 10 ^ n))"

end
