(* ===== verification/Openstack_Cache.thy ===== *)
theory Openstack_Cache
  imports Ttl_Cache
begin

text \<open>
  The OpenStack response cache: the CacheBackend protocol as a locale, the in-memory backend
  (one TTLCache per resource), the Redis backend, and the module-level dispatch functions
  (app/common/utils/openstack_cache.py and redis_cache.py).

  The Redis server and the JSON text format are parameters (a record of client functions);
  the in-memory backend is interpreted as a cache_backend, so that what the service layer
  relies on (a read after a write, after an invalidation, after the TTL) is proved once in the
  locale.
\<close>

section \<open>The CacheBackend protocol\<close>

text \<open>
  live r s is what the backend holds for resource r (value and expiry time), ttl r s the
  lifetime it gives new values of r (None for a resource it does not cache). cached_read is
  the read-through pattern of the service layer: look up, fetch on a miss, store.
\<close>

locale cache_backend =
  fixes get :: "rat \<Rightarrow> string \<Rightarrow> 's \<Rightarrow> 'v option \<times> 's"
    and set :: "rat \<Rightarrow> string \<Rightarrow> 'v \<Rightarrow> 's \<Rightarrow> 's"
    and invalidate :: "string \<Rightarrow> 's \<Rightarrow> 's"
    and live :: "string \<Rightarrow> 's \<Rightarrow> ('v \<times> rat) option"
    and ttl :: "string \<Rightarrow> 's \<Rightarrow> rat option"
  assumes get_value: "fst (get now r s) = visible now (live r s)"
    and live_get: "live r' (snd (get now r s)) =
      (if r' = r \<and> visible now (live r s) = None then None else live r' s)"
    and live_set: "live r' (set now r v s) =
      (if r' = r then (case ttl r s of None \<Rightarrow> live r s | Some d \<Rightarrow> Some (v, fadd now d)) else live r' s)"
    and live_invalidate: "live r' (invalidate r s) = (if r' = r then None else live r' s)"
    and ttl_get: "ttl r' (snd (get now r s)) = ttl r' s"
    and ttl_set: "ttl r' (set now r v s) = ttl r' s"
    and ttl_invalidate: "ttl r' (invalidate r s) = ttl r' s"
begin

lemma get_after_set:
  "ttl r s = Some d \<Longrightarrow>
   fst (get now' r (set now r v s)) = (if now' < fadd now d then Some v else None)"
  by (simp add: get_value live_set)

lemma get_after_invalidate: "fst (get now r (invalidate r s)) = None"
  by (simp add: get_value live_invalidate)

lemma get_other_after_invalidate: "r' \<noteq> r \<Longrightarrow> fst (get now r' (invalidate r s)) = fst (get now r' s)"
  by (simp add: get_value live_invalidate)

lemma get_stable: "fst (get now r (snd (get now r' s))) = fst (get now r s)"
  by (auto simp: get_value live_get)

lemma read_through_fresh:
  assumes "ttl r s = Some d" "now' < fadd now d"
  shows "fst (get now' r (set now r v (snd (get now r s)))) = Some v"
  using assms by (simp add: get_value live_set ttl_get)

end

section \<open>In-memory backend\<close>

type_synonym 'v stores = "(string, 'v ttl_cache) dict"
type_synonym 'v mem_state = "'v stores \<times> cache_counters"

definition resources :: "string list" where
  "resources = [''servers'', ''images'', ''networks'', ''volumes'']"

definition DEFAULT_TTLS :: "(string, int) dict" where
  "DEFAULT_TTLS = [(''servers'', 5), (''images'', 30), (''networks'', 30), (''volumes'', 10)]"

definition MemoryCacheBackend :: "(string, int) dict \<Rightarrow> 'v stores" where
  "MemoryCacheBackend ttls =
     fold (\<lambda>(resource, ttl) d. dict_set d resource (TTLCache (of_int ttl) resource)) ttls []"

definition mem_get :: "rat \<Rightarrow> string \<Rightarrow> 'v mem_state \<Rightarrow> 'v option \<times> 'v mem_state" where
  "mem_get now resource s = (case s of (st, m) \<Rightarrow>
     (case dict_get st resource of
        None \<Rightarrow> (None, st, m)
      | Some c \<Rightarrow> (case ttl_get now resource (c, m) of (v, c', m') \<Rightarrow> (v, dict_set st resource c', m'))))"

definition mem_set :: "rat \<Rightarrow> string \<Rightarrow> 'v \<Rightarrow> 'v mem_state \<Rightarrow> 'v mem_state" where
  "mem_set now resource v s = (case s of (st, m) \<Rightarrow>
     (case dict_get st resource of
        None \<Rightarrow> (st, m)
      | Some c \<Rightarrow> (dict_set st resource (ttl_set now resource v c), m)))"

definition mem_invalidate :: "string \<Rightarrow> 'v mem_state \<Rightarrow> 'v mem_state" where
  "mem_invalidate resource s = (case s of (st, m) \<Rightarrow>
     (case dict_get st resource of
        None \<Rightarrow> (st, m)
      | Some c \<Rightarrow> (case ttl_invalidate_all (c, m) of (c', m') \<Rightarrow> (dict_set st resource c', m'))))"

fun mem_invalidate_stores :: "'v stores \<Rightarrow> cache_counters \<Rightarrow> 'v mem_state" where
  "mem_invalidate_stores [] m = ([], m)"
| "mem_invalidate_stores ((r, c) # st) m =
     (case ttl_invalidate_all (c, m) of (c', m') \<Rightarrow>
        (case mem_invalidate_stores st m' of (st', m'') \<Rightarrow> ((r, c') # st', m'')))"

definition mem_invalidate_all :: "'v mem_state \<Rightarrow> 'v mem_state" where
  "mem_invalidate_all s = mem_invalidate_stores (fst s) (snd s)"

definition mem_live :: "string \<Rightarrow> 'v mem_state \<Rightarrow> ('v \<times> rat) option" where
  "mem_live r s = (case dict_get (fst s) r of None \<Rightarrow> None | Some c \<Rightarrow> contents c r)"

definition mem_ttl :: "string \<Rightarrow> 'v mem_state \<Rightarrow> rat option" where
  "mem_ttl r s = map_option tc_ttl (dict_get (fst s) r)"

lemmas mem_defs = mem_get_def mem_set_def mem_invalidate_def mem_live_def mem_ttl_def

lemma mem_get_split:
  assumes "dict_get st r = Some c" "ttl_get now r (c, m) = (v, c', m')"
  shows "v = visible now (contents c r)" "tc_ttl c' = tc_ttl c"
    "contents c' k = (if k = r \<and> v = None then None else contents c k)"
  using ttl_get_value [of now r c m] contents_after_get [of now r c m k] tc_frame(1) [of now r c m] assms(2)
  by auto

lemma mem_invalidate_split:
  assumes "ttl_invalidate_all (c, m) = (c', m')"
  shows "contents c' k = None" "tc_ttl c' = tc_ttl c"
  using contents_invalidate_all [of c m k] tc_frame(5) [of c m] assms by simp_all

interpretation mem: cache_backend mem_get mem_set mem_invalidate mem_live mem_ttl
proof (unfold_locales, goal_cases)
  case (1 now r s)
  show ?case
    by (cases s) (auto simp: mem_defs split: option.split prod.split dest: mem_get_split(1))
next
  case (2 r' now r s)
  show ?case
    by (cases s)
       (auto simp: mem_defs dict_simps mem_get_split(3) dest: mem_get_split(1) split: option.split prod.split)
next
  case (3 r' now r v s)
  show ?case
    by (cases s) (auto simp: mem_defs dict_simps contents_set split: option.split)
next
  case (4 r' r s)
  show ?case
    by (cases s) (auto simp: mem_defs dict_simps mem_invalidate_split split: option.split prod.split)
next
  case (5 r' now r s)
  show ?case
    by (cases s) (auto simp: mem_defs dict_simps dest: mem_get_split(2) split: option.split prod.split)
next
  case (6 r' now r v s)
  show ?case
    by (cases s) (auto simp: mem_defs dict_simps split: option.split)
next
  case (7 r' r s)
  show ?case
    by (cases s) (auto simp: mem_defs dict_simps mem_invalidate_split split: option.split prod.split)
qed

section \<open>Redis backend\<close>

text \<open>
  The client library, the server behind it and the JSON text format are parameters: 'r is the
  state of the server, rc_get, rc_setex and rc_delete are client.get, client.setex and
  client.delete, rc_connect is Redis.from_url followed by ping, rc_is_redis_error decides
  \<^verbatim>\<open>isinstance(e, RedisError)\<close>, rc_dumps and rc_loads are json.dumps (with the model_dump
  default) and json.loads. elapsed is the latency measured around the client call.
\<close>

record ('v, 'r) redis_client =
  rc_connect :: "string \<Rightarrow> exn + 'r"
  rc_get :: "string \<Rightarrow> ('r, string option) act"
  rc_setex :: "string \<Rightarrow> int \<Rightarrow> string \<Rightarrow> ('r, unit) act"
  rc_delete :: "string \<Rightarrow> ('r, unit) act"
  rc_is_redis_error :: "exn \<Rightarrow> bool"
  rc_dumps :: "'v \<Rightarrow> exn + string"
  rc_loads :: "string \<Rightarrow> exn + 'v"

record 'r redis_cache =
  rd_project :: string
  rd_server :: 'r
  rd_hits :: "(string, int) dict"
  rd_misses :: "(string, int) dict"
  rd_invalidations :: "(string, int) dict"
  rd_errors :: int
  rd_latencies :: "rat list"

definition RedisCache :: "('v, 'r) redis_client \<Rightarrow> string \<Rightarrow> string \<Rightarrow> exn + 'r redis_cache" where
  "RedisCache rc redis_url project_name = (case rc_connect rc redis_url of
     Inl e \<Rightarrow> Inl e
   | Inr srv \<Rightarrow> Inr \<lparr>rd_project = project_name, rd_server = srv, rd_hits = [], rd_misses = [],
                     rd_invalidations = [], rd_errors = 0, rd_latencies = []\<rparr>)"

definition redis_key :: "'r redis_cache \<Rightarrow> string \<Rightarrow> string" where
  "redis_key s resource = ''okastro'' @ '':'' @ rd_project s @ '':'' @ resource"

definition ttl_for :: "(string, int) dict \<Rightarrow> string \<Rightarrow> int" where
  "ttl_for ttls resource = dict_get_default ttls resource 30"

definition record_latency :: "rat \<Rightarrow> 'r redis_cache \<Rightarrow> 'r redis_cache" where
  "record_latency seconds s =
    (let l = rd_latencies s @ [seconds]
     in s\<lparr>rd_latencies := (if length l > 1000 then drop (length l - 500) l else l)\<rparr>)"

definition redis_get :: "('v, 'r) redis_client \<Rightarrow> rat \<Rightarrow> string \<Rightarrow> ('r redis_cache, 'v option) act" where
  "redis_get rc elapsed resource s = (case rc_get rc (redis_key s resource) (rd_server s) of
     (Inl e, srv) \<Rightarrow>
        (let s1 = s\<lparr>rd_server := srv\<rparr> in
         if rc_is_redis_error rc e
         then (Inr None, s1\<lparr>rd_misses := incr (rd_misses s1) resource, rd_errors := rd_errors s1 + 1\<rparr>)
         else (Inl e, s1))
   | (Inr raw, srv) \<Rightarrow>
        (let s1 = record_latency elapsed (s\<lparr>rd_server := srv\<rparr>) in
         case raw of
           None \<Rightarrow> (Inr None, s1\<lparr>rd_misses := incr (rd_misses s1) resource\<rparr>)
         | Some t \<Rightarrow> (map_sum id Some (rc_loads rc t), s1\<lparr>rd_hits := incr (rd_hits s1) resource\<rparr>)))"

definition redis_set ::
  "('v, 'r) redis_client \<Rightarrow> (string, int) dict \<Rightarrow> rat \<Rightarrow> string \<Rightarrow> 'v \<Rightarrow> ('r redis_cache, unit) act" where
  "redis_set rc ttls elapsed resource v s = (case rc_dumps rc v of
     Inl e \<Rightarrow> if rc_is_redis_error rc e then (Inr (), s\<lparr>rd_errors := rd_errors s + 1\<rparr>) else (Inl e, s)
   | Inr t \<Rightarrow> (case rc_setex rc (redis_key s resource) (ttl_for ttls resource) t (rd_server s) of
       (Inl e, srv) \<Rightarrow>
          (let s1 = s\<lparr>rd_server := srv\<rparr> in
           if rc_is_redis_error rc e then (Inr (), s1\<lparr>rd_errors := rd_errors s1 + 1\<rparr>) else (Inl e, s1))
     | (Inr _, srv) \<Rightarrow> (Inr (), record_latency elapsed (s\<lparr>rd_server := srv\<rparr>))))"

definition redis_invalidate :: "('v, 'r) redis_client \<Rightarrow> rat \<Rightarrow> string \<Rightarrow> ('r redis_cache, unit) act" where
  "redis_invalidate rc elapsed resource s = (case rc_delete rc (redis_key s resource) (rd_server s) of
     (Inl e, srv) \<Rightarrow>
        (let s1 = s\<lparr>rd_server := srv\<rparr> in
         if rc_is_redis_error rc e
         then (Inr (), s1\<lparr>rd_errors := rd_errors s1 + 1,
                          rd_invalidations := incr (rd_invalidations s1) resource\<rparr>)
         else (Inl e, s1))
   | (Inr _, srv) \<Rightarrow>
        (let s1 = record_latency elapsed (s\<lparr>rd_server := srv\<rparr>)
         in (Inr (), s1\<lparr>rd_invalidations := incr (rd_invalidations s1) resource\<rparr>)))"

definition redis_invalidate_all :: "('v, 'r) redis_client \<Rightarrow> rat \<Rightarrow> ('r redis_cache, unit) act" where
  "redis_invalidate_all rc elapsed = forE (redis_invalidate rc elapsed) resources"

record redis_metrics = cache_metrics +
  cm_redis_errors :: int
  cm_redis_latency_samples :: "rat list"

definition redis_collect_metrics :: "'r redis_cache \<Rightarrow> redis_metrics" where
  "redis_collect_metrics s =
    (let total_h = dict_total (rd_hits s); total_m = dict_total (rd_misses s)
     in \<lparr>cm_hits = rd_hits s, cm_misses = rd_misses s, cm_invalidations = rd_invalidations s,
         cm_total_hits = total_h, cm_total_misses = total_m, cm_total_requests = total_h + total_m,
         cm_hit_ratio = (if total_h + total_m \<noteq> 0 then py_round (int_truediv total_h (total_h + total_m)) 4
                         else 0),
         cm_redis_errors = rd_errors s, cm_redis_latency_samples = rd_latencies s\<rparr>)"

lemma record_latency_frame [simp]:
  "rd_hits (record_latency x s) = rd_hits s" "rd_misses (record_latency x s) = rd_misses s"
  "rd_errors (record_latency x s) = rd_errors s" "rd_server (record_latency x s) = rd_server s"
  "rd_project (record_latency x s) = rd_project s"
  "rd_invalidations (record_latency x s) = rd_invalidations s"
  by (simp_all add: record_latency_def Let_def)

lemma record_latency_bound:
  "length (rd_latencies s) \<le> 1000 \<Longrightarrow> length (rd_latencies (record_latency x s)) \<le> 1000"
  by (auto simp: record_latency_def Let_def)

text \<open>The rolling latency window: never more than a thousand samples, the newest kept.\<close>

definition latency_window :: "'r redis_cache \<Rightarrow> bool" where
  "latency_window s \<longleftrightarrow> length (rd_latencies s) \<le> 1000"

lemma keeps_latency_window [keeps_intros]:
  "keeps latency_window (redis_get rc x r)"
  "keeps latency_window (redis_set rc ttls x r v)"
  "keeps latency_window (redis_invalidate rc x r)"
  by (auto simp: keeps_def latency_window_def redis_get_def redis_set_def redis_invalidate_def Let_def
      record_latency_bound split: prod.split sum.split option.split)

lemma keeps_latency_window_all [keeps_intros]: "keeps latency_window (redis_invalidate_all rc x)"
  unfolding redis_invalidate_all_def by (rule keeps_for) (rule keeps_latency_window)

section \<open>Module-level dispatch\<close>

datatype ('v, 'r) backend = Memory "'v stores" | Redis "'r redis_cache"

record ('v, 'r) oc_module =
  oc_ttls :: "(string, int) dict"
  oc_backend :: "('v, 'r) backend option"
  oc_counters :: cache_counters

definition is_redis :: "('v, 'r) oc_module \<Rightarrow> bool" where
  "is_redis s = (case oc_backend s of Some (Redis _) \<Rightarrow> True | _ \<Rightarrow> False)"

definition init_cache_backend ::
  "('v, 'r) redis_client \<Rightarrow> string \<Rightarrow> string \<Rightarrow> string \<Rightarrow> ('v, 'r) oc_module \<Rightarrow> ('v, 'r) oc_module" where
  "init_cache_backend rc backend redis_url project_name s =
    (let memory = s\<lparr>oc_backend := Some (Memory (MemoryCacheBackend (oc_ttls s)))\<rparr> in
     if backend = ''redis'' \<and> redis_url \<noteq> []
     then (case RedisCache rc redis_url project_name of
             Inr r \<Rightarrow> s\<lparr>oc_backend := Some (Redis r)\<rparr>
           | Inl _ \<Rightarrow> memory)
     else memory)"

record cache_settings =
  cs_cache_ttls :: "(string, int) dict"
  cs_cache_backend :: string
  cs_redis_url :: string
  cs_openstack_project_name :: string

definition configure_from_settings ::
  "('v, 'r) redis_client \<Rightarrow> cache_settings \<Rightarrow> ('v, 'r) oc_module \<Rightarrow> ('v, 'r) oc_module" where
  "configure_from_settings rc settings s =
    (let ttls = fold (\<lambda>r d. case dict_get (cs_cache_ttls settings) r of
                             None \<Rightarrow> d | Some ttl \<Rightarrow> dict_set d r ttl) resources (oc_ttls s)
     in init_cache_backend rc (cs_cache_backend settings) (cs_redis_url settings)
          (cs_openstack_project_name settings) (s\<lparr>oc_ttls := ttls\<rparr>))"

definition cache_get ::
  "('v, 'r) redis_client \<Rightarrow> rat \<Rightarrow> rat \<Rightarrow> string \<Rightarrow> (('v, 'r) oc_module, 'v option) act" where
  "cache_get rc now elapsed resource s = (case oc_backend s of
     None \<Rightarrow> (Inr None, s)
   | Some (Memory st) \<Rightarrow> (case mem_get now resource (st, oc_counters s) of (v, st', m') \<Rightarrow>
        (Inr v, s\<lparr>oc_backend := Some (Memory st'), oc_counters := m'\<rparr>))
   | Some (Redis r) \<Rightarrow> (case redis_get rc elapsed resource r of (x, r') \<Rightarrow>
        (x, s\<lparr>oc_backend := Some (Redis r')\<rparr>)))"

definition cache_set ::
  "('v, 'r) redis_client \<Rightarrow> rat \<Rightarrow> rat \<Rightarrow> string \<Rightarrow> 'v \<Rightarrow> (('v, 'r) oc_module, unit) act" where
  "cache_set rc now elapsed resource v s = (case oc_backend s of
     None \<Rightarrow> (Inr (), s)
   | Some (Memory st) \<Rightarrow> (case mem_set now resource v (st, oc_counters s) of (st', m') \<Rightarrow>
        (Inr (), s\<lparr>oc_backend := Some (Memory st'), oc_counters := m'\<rparr>))
   | Some (Redis r) \<Rightarrow> (case redis_set rc (oc_ttls s) elapsed resource v r of (x, r') \<Rightarrow>
        (x, s\<lparr>oc_backend := Some (Redis r')\<rparr>)))"

definition cache_invalidate ::
  "('v, 'r) redis_client \<Rightarrow> rat \<Rightarrow> string \<Rightarrow> (('v, 'r) oc_module, unit) act" where
  "cache_invalidate rc elapsed resource s = (case oc_backend s of
     None \<Rightarrow> (Inr (), s)
   | Some (Memory st) \<Rightarrow> (case mem_invalidate resource (st, oc_counters s) of (st', m') \<Rightarrow>
        (Inr (), s\<lparr>oc_backend := Some (Memory st'), oc_counters := m'\<rparr>))
   | Some (Redis r) \<Rightarrow> (case redis_invalidate rc elapsed resource r of (x, r') \<Rightarrow>
        (x, s\<lparr>oc_backend := Some (Redis r')\<rparr>)))"

definition cache_invalidate_all ::
  "('v, 'r) redis_client \<Rightarrow> rat \<Rightarrow> (('v, 'r) oc_module, unit) act" where
  "cache_invalidate_all rc elapsed = forE (cache_invalidate rc elapsed) resources"

definition get_ttl :: "string \<Rightarrow> ('v, 'r) oc_module \<Rightarrow> int" where
  "get_ttl resource s = dict_get_default (oc_ttls s) resource 30"

definition set_ttl :: "string \<Rightarrow> int \<Rightarrow> ('v, 'r) oc_module \<Rightarrow> ('v, 'r) oc_module" where
  "set_ttl resource ttl_seconds s = s\<lparr>oc_ttls := dict_set (oc_ttls s) resource ttl_seconds\<rparr>"

text \<open>get_cache_status: per resource the reported TTL and the number of entries (memory only).\<close>

record cache_status =
  st_backend :: string
  st_ttls :: "(string, int) dict"
  st_resources :: "(string \<times> int \<times> nat) list option"

definition get_cache_status :: "('v, 'r) oc_module \<Rightarrow> cache_status" where
  "get_cache_status s =
    \<lparr>st_backend = (if is_redis s then ''redis'' else ''memory''), st_ttls = oc_ttls s,
     st_resources = (case oc_backend s of
        Some (Memory st) \<Rightarrow> Some (map (\<lambda>(name, c). (name, dict_get_default (oc_ttls s) name 30, ttl_size c)) st)
      | _ \<Rightarrow> None)\<rparr>"

section \<open>Properties\<close>

lemma cache_memory_ops:
  assumes "oc_backend s = Some (Memory st)"
  shows "fst (cache_get rc now el r s) = Inr (fst (mem_get now r (st, oc_counters s)))"
    "\<exists>st'. oc_backend (snd (cache_set rc now el r v s)) = Some (Memory st') \<and>
       (st', oc_counters (snd (cache_set rc now el r v s))) = mem_set now r v (st, oc_counters s)"
    "\<exists>st'. oc_backend (snd (cache_invalidate rc el r s)) = Some (Memory st') \<and>
       (st', oc_counters (snd (cache_invalidate rc el r s))) = mem_invalidate r (st, oc_counters s)"
  using assms by (auto simp: cache_get_def cache_set_def cache_invalidate_def split: prod.splits)

text \<open>The in-memory response cache gives back what was stored: a resource that is cached with
  lifetime d is read back as stored until the lifetime is over and not at all from then on; an
  invalidation makes the very next read a miss; and storing one resource does not change what is
  read for another.\<close>

theorem memory_cache_read_after_write:
  assumes "oc_backend s = Some (Memory st)" "mem_ttl r (st, oc_counters s) = Some d"
  shows "fst (cache_get rc now' el' r (snd (cache_set rc now el r v s))) = Inr (if now' < fadd now d then Some v else None) \<and>
    fst (cache_get rc now' el' r (snd (cache_invalidate rc el r (snd (cache_set rc now el r v s))))) = Inr None \<and>
    (\<forall>r'. r' \<noteq> r \<longrightarrow> fst (cache_get rc now' el' r' (snd (cache_set rc now el r v s))) = fst (cache_get rc now' el' r' s))"
proof -
  let ?s1 = "snd (cache_set rc now el r v s)"
  obtain st1 where b1: "oc_backend ?s1 = Some (Memory st1)" and s1: "(st1, oc_counters ?s1) = mem_set now r v (st, oc_counters s)"
    using cache_memory_ops(2) [OF assms(1)] by blast
  let ?s2 = "snd (cache_invalidate rc el r ?s1)"
  obtain st2 where b2: "oc_backend ?s2 = Some (Memory st2)" and s2: "(st2, oc_counters ?s2) = mem_invalidate r (st1, oc_counters ?s1)"
    using cache_memory_ops(3) [OF b1] by blast
  show ?thesis
    using cache_memory_ops(1) [OF assms(1)] cache_memory_ops(1) [OF b1] cache_memory_ops(1) [OF b2]
      mem.get_after_set [OF assms(2), of now' now v] mem.get_after_invalidate
    by (simp add: s1 s2 mem.get_value mem.live_set)
qed

definition fresh_module :: "(int, unit) oc_module" where
  "fresh_module = \<lparr>oc_ttls = DEFAULT_TTLS, oc_backend = Some (Memory (MemoryCacheBackend DEFAULT_TTLS)), oc_counters = no_counters\<rparr>"

definition no_redis :: "(int, unit) redis_client" where
  "no_redis = \<lparr>rc_connect = (\<lambda>_. Inr ()), rc_get = (\<lambda>_. retE None), rc_setex = (\<lambda>_ _ _. retE ()), rc_delete = (\<lambda>_. retE ()),
     rc_is_redis_error = (\<lambda>_. True), rc_dumps = (\<lambda>_. Inr []), rc_loads = (\<lambda>_. Inr 0)\<rparr>"

theorem memory_cache_read_after_write_witness:
  "fst (cache_get no_redis 1 0 ''servers'' (snd (cache_set no_redis 0 0 ''servers'' 7 fresh_module))) = Inr (Some 7)"
proof -
  have d: "mem_ttl ''servers'' (MemoryCacheBackend DEFAULT_TTLS :: int stores, oc_counters fresh_module) = Some 5"
    by (simp add: mem_ttl_def MemoryCacheBackend_def DEFAULT_TTLS_def TTLCache_def)
  have "fadd 0 5 = (5 :: rat)" using fl_of_int [of 5] by (simp add: fadd_def)
  then show ?thesis
    using memory_cache_read_after_write [OF _ d, of no_redis 1 0 0 0 7] by (simp add: fresh_module_def)
qed

text \<open>Set_ttl changes what the module reports but not what the in-memory backend does: afterwards
  get_ttl and the status report show the new lifetime, while a stored value still expires after the
  lifetime its store was created with.\<close>

theorem set_ttl_only_reported:
  assumes "oc_backend s = Some (Memory st)" "mem_ttl r (st, oc_counters s) = Some d"
  shows "get_ttl r (set_ttl r t s) = t \<and> st_ttls (get_cache_status (set_ttl r t s)) = dict_set (oc_ttls s) r t \<and>
    fst (cache_get rc now' el' r (snd (cache_set rc now el r v (set_ttl r t s)))) = Inr (if now' < fadd now d then Some v else None)"
proof -
  let ?s = "set_ttl r t s"
  have b: "oc_backend ?s = Some (Memory st)" "oc_counters ?s = oc_counters s" using assms(1) by (simp_all add: set_ttl_def)
  let ?s1 = "snd (cache_set rc now el r v ?s)"
  obtain st1 where b1: "oc_backend ?s1 = Some (Memory st1)" and s1: "(st1, oc_counters ?s1) = mem_set now r v (st, oc_counters s)"
    using cache_memory_ops(2) [OF b(1)] b(2) by metis
  have "fst (cache_get rc now' el' r ?s1) = Inr (if now' < fadd now d then Some v else None)"
    using cache_memory_ops(1) [OF b1] mem.get_after_set [OF assms(2), of now' now v] by (simp add: s1)
  then show ?thesis by (simp add: get_ttl_def get_cache_status_def dict_get_default_set) (simp add: set_ttl_def dict_get_default_set)
qed

theorem set_ttl_only_reported_witness:
  "get_ttl ''servers'' (set_ttl ''servers'' 600 fresh_module) = 600 \<and>
   fst (cache_get no_redis 9 0 ''servers'' (snd (cache_set no_redis 0 0 ''servers'' 7 (set_ttl ''servers'' 600 fresh_module)))) = Inr None"
proof -
  have d: "mem_ttl ''servers'' (MemoryCacheBackend DEFAULT_TTLS :: int stores, oc_counters fresh_module) = Some 5"
    by (simp add: mem_ttl_def MemoryCacheBackend_def DEFAULT_TTLS_def TTLCache_def)
  have "fadd 0 5 = (5 :: rat)" using fl_of_int [of 5] by (simp add: fadd_def)
  then show ?thesis
    using set_ttl_only_reported [OF _ d, of 600 no_redis 9 0 0 0 7] by (simp add: fresh_module_def)
qed

text \<open>The Redis backend keeps at most a thousand latency samples: every operation keeps the window, on
  every path, whatever the Redis server and the JSON functions do.\<close>

theorem redis_latency_window_bounded:
  "keeps latency_window (redis_get rc elapsed resource) \<and> keeps latency_window (redis_set rc ttls elapsed resource v) \<and>
   keeps latency_window (redis_invalidate rc elapsed resource) \<and> keeps latency_window (redis_invalidate_all rc elapsed)"
  by (intro conjI keeps_latency_window keeps_latency_window_all)

end
