(* ===== verification/Metrics_Sync.thy ===== *)
theory Metrics_Sync
  imports Openstack_Cache
begin

text \<open>
  The background task of app/main.py that copies the cache counters into Prometheus: every poll
  takes a snapshot of the cumulative counters and increments the Prometheus counters by the
  difference to the last poll; with the Redis backend a second set of counters is incremented.
  A Prometheus counter is a dictionary from label to value, incremented by inc.
\<close>

section \<open>The snapshot\<close>

text \<open>collect_metrics(): without the Redis keys, metrics_.get gives 0 and the empty list.\<close>

definition collect_metrics :: "('v, 'r) oc_module \<Rightarrow> redis_metrics" where
  "collect_metrics s = (case oc_backend s of
     None \<Rightarrow> \<lparr>cm_hits = [], cm_misses = [], cm_invalidations = [], cm_total_hits = 0, cm_total_misses = 0,
              cm_total_requests = 0, cm_hit_ratio = 0, cm_redis_errors = 0, cm_redis_latency_samples = []\<rparr>
   | Some (Memory _) \<Rightarrow> cache_metrics.extend (collect_cache_metrics (oc_counters s))
       \<lparr>cm_redis_errors = 0, cm_redis_latency_samples = []\<rparr>
   | Some (Redis r) \<Rightarrow> redis_collect_metrics r)"

section \<open>One poll\<close>

record last_seen =
  ls_hits :: int
  ls_misses :: int
  ls_invalidations :: int

record sync_state =
  sy_last :: "(string, last_seen) dict"
  sy_hits :: "(string, int) dict"
  sy_misses :: "(string, int) dict"
  sy_invalidations :: "(string, int) dict"
  sy_hit_ratio :: "(string, rat) dict"
  sr_hits :: "(string, int) dict"
  sr_misses :: "(string, int) dict"
  sr_invalidations :: "(string, int) dict"
  sr_errors :: int
  sr_latency :: "rat list"

definition sync_init :: sync_state where
  "sync_init = \<lparr>sy_last = map (\<lambda>r. (r, \<lparr>ls_hits = 0, ls_misses = 0, ls_invalidations = 0\<rparr>)) resources,
     sy_hits = [], sy_misses = [], sy_invalidations = [], sy_hit_ratio = [],
     sr_hits = [], sr_misses = [], sr_invalidations = [], sr_errors = 0, sr_latency = []\<rparr>"

definition last_of :: "sync_state \<Rightarrow> string \<Rightarrow> last_seen" where
  "last_of s r = dict_get_default (sy_last s) r \<lparr>ls_hits = 0, ls_misses = 0, ls_invalidations = 0\<rparr>"

definition inc_pos :: "(string, int) dict \<Rightarrow> string \<Rightarrow> int \<Rightarrow> (string, int) dict" where
  "inc_pos c r d = (if 0 < d then counter_add c r d else c)"

definition sync_resource :: "redis_metrics \<Rightarrow> string \<Rightarrow> sync_state \<Rightarrow> sync_state" where
  "sync_resource metrics r s =
    (let h = dict_get_default (cm_hits metrics) r 0;
         m = dict_get_default (cm_misses metrics) r 0;
         inv = dict_get_default (cm_invalidations metrics) r 0;
         dh = h - ls_hits (last_of s r);
         dm = m - ls_misses (last_of s r);
         dinv = inv - ls_invalidations (last_of s r)
     in s\<lparr>sy_hits := inc_pos (sy_hits s) r dh, sy_misses := inc_pos (sy_misses s) r dm,
          sy_invalidations := inc_pos (sy_invalidations s) r dinv,
          sy_hit_ratio := dict_set (sy_hit_ratio s) r (if h + m \<noteq> 0 then int_truediv h (h + m) else 1),
          sy_last := dict_set (sy_last s) r \<lparr>ls_hits = h, ls_misses = m, ls_invalidations = inv\<rparr>\<rparr>)"

definition inc_nonzero :: "(string, int) dict \<Rightarrow> string \<Rightarrow> int \<Rightarrow> (string, int) dict" where
  "inc_nonzero c r n = (if n \<noteq> 0 then counter_add c r n else c)"

definition sync_redis_resource :: "redis_metrics \<Rightarrow> string \<Rightarrow> sync_state \<Rightarrow> sync_state" where
  "sync_redis_resource metrics r s =
     s\<lparr>sr_hits := inc_nonzero (sr_hits s) r (dict_get_default (cm_hits metrics) r 0),
       sr_misses := inc_nonzero (sr_misses s) r (dict_get_default (cm_misses metrics) r 0),
       sr_invalidations := inc_nonzero (sr_invalidations s) r (dict_get_default (cm_invalidations metrics) r 0)\<rparr>"

definition sync_redis_metrics :: "redis_metrics \<Rightarrow> sync_state \<Rightarrow> sync_state" where
  "sync_redis_metrics metrics s =
    (let s1 = fold (sync_redis_resource metrics) resources s
     in s1\<lparr>sr_errors := sr_errors s1 + cm_redis_errors metrics,
           sr_latency := sr_latency s1 @ cm_redis_latency_samples metrics\<rparr>)"

text \<open>The body of the loop of _sync_cache_metrics, for a given snapshot and for the module state.\<close>

definition sync_poll :: "bool \<Rightarrow> redis_metrics \<Rightarrow> sync_state \<Rightarrow> sync_state" where
  "sync_poll redis metrics s =
    (let s1 = fold (sync_resource metrics) resources s
     in if redis then sync_redis_metrics metrics s1 else s1)"

definition sync_cache_metrics :: "('v, 'r) oc_module \<Rightarrow> sync_state \<Rightarrow> sync_state" where
  "sync_cache_metrics oc s = sync_poll (is_redis oc) (collect_metrics oc) s"

section \<open>The deltas add up\<close>

definition shown :: "(string, int) dict \<Rightarrow> string \<Rightarrow> int" where
  "shown c r = dict_get_default c r 0"

lemma shown_inc_pos: "shown (inc_pos c r d) r' = shown c r' + (if r' = r then max d 0 else 0)"
  by (simp add: shown_def inc_pos_def counter_add_get)

lemma shown_inc_nonzero: "shown (inc_nonzero c r n) r' = shown c r' + (if r' = r then n else 0)"
  by (simp add: shown_def inc_nonzero_def counter_add_get)

text \<open>In step: the Prometheus value of a resource is the last value seen.\<close>

definition in_step :: "sync_state \<Rightarrow> string \<Rightarrow> bool" where
  "in_step s r \<longleftrightarrow> shown (sy_hits s) r = ls_hits (last_of s r) \<and>
     shown (sy_misses s) r = ls_misses (last_of s r) \<and>
     shown (sy_invalidations s) r = ls_invalidations (last_of s r)"

definition seen :: "redis_metrics \<Rightarrow> string \<Rightarrow> last_seen" where
  "seen metrics r = \<lparr>ls_hits = shown (cm_hits metrics) r, ls_misses = shown (cm_misses metrics) r,
     ls_invalidations = shown (cm_invalidations metrics) r\<rparr>"

definition not_below :: "last_seen \<Rightarrow> last_seen \<Rightarrow> bool" where
  "not_below a b \<longleftrightarrow> ls_hits b \<le> ls_hits a \<and> ls_misses b \<le> ls_misses a \<and> ls_invalidations b \<le> ls_invalidations a"

lemma sync_resource_last:
  "last_of (sync_resource metrics r s) r' = (if r' = r then seen metrics r else last_of s r')"
  by (simp add: sync_resource_def last_of_def seen_def shown_def Let_def dict_get_default_set)

lemma sync_resource_other:
  "r' \<noteq> r \<Longrightarrow> in_step (sync_resource metrics r s) r' = in_step s r'"
  by (simp add: in_step_def sync_resource_last) (simp add: sync_resource_def Let_def shown_inc_pos)

lemma sync_resource_same:
  "in_step s r \<Longrightarrow> not_below (seen metrics r) (last_of s r) \<Longrightarrow> in_step (sync_resource metrics r s) r"
  by (simp add: in_step_def sync_resource_last)
     (simp add: sync_resource_def Let_def shown_inc_pos not_below_def seen_def flip: shown_def)

lemma fold_sync_resource:
  assumes "distinct rs" "r \<in> set rs" "in_step s r" "not_below (seen metrics r) (last_of s r)"
  shows "in_step (fold (sync_resource metrics) rs s) r \<and>
    last_of (fold (sync_resource metrics) rs s) r = seen metrics r"
proof -
  have other: "r \<notin> set xs \<Longrightarrow> in_step (fold (sync_resource metrics) xs t) r = in_step t r \<and>
      last_of (fold (sync_resource metrics) xs t) r = last_of t r" for xs t
    by (induction xs arbitrary: t) (simp_all add: sync_resource_other sync_resource_last)
  obtain ys zs where rs: "rs = ys @ r # zs" "r \<notin> set ys" "r \<notin> set zs"
    using split_list [OF assms(2)] assms(1) by auto
  then show ?thesis
    using other [OF rs(2), of s] other [OF rs(3)] assms(3,4) by (simp add: sync_resource_same sync_resource_last)
qed

lemma sync_redis_frame:
  "in_step (sync_redis_metrics metrics s) r = in_step s r"
  "last_of (sync_redis_metrics metrics s) r = last_of s r"
proof -
  have "sy_hits (fold (sync_redis_resource metrics) rs s) = sy_hits s \<and>
        sy_misses (fold (sync_redis_resource metrics) rs s) = sy_misses s \<and>
        sy_invalidations (fold (sync_redis_resource metrics) rs s) = sy_invalidations s \<and>
        sy_last (fold (sync_redis_resource metrics) rs s) = sy_last s" for rs
    by (induction rs arbitrary: s) (simp_all add: sync_redis_resource_def)
  then show "in_step (sync_redis_metrics metrics s) r = in_step s r"
    "last_of (sync_redis_metrics metrics s) r = last_of s r"
    by (simp_all add: sync_redis_metrics_def Let_def in_step_def last_of_def)
qed

text \<open>The snapshots of the polls never decrease.\<close>

fun increasing :: "redis_metrics list \<Rightarrow> bool" where
  "increasing [] = True"
| "increasing [x] = True"
| "increasing (x # y # xs) = ((\<forall>r \<in> set resources. not_below (seen y r) (seen x r)) \<and> increasing (y # xs))"

definition polls :: "bool \<Rightarrow> redis_metrics list \<Rightarrow> sync_state \<Rightarrow> sync_state" where
  "polls redis ms s = fold (sync_poll redis) ms s"

lemma distinct_resources: "distinct resources"
  by (simp add: resources_def)

lemma polls_in_step:
  assumes "r \<in> set resources" "in_step s r" "increasing ms" "ms \<noteq> []" "not_below (seen (hd ms) r) (last_of s r)"
  shows "in_step (polls redis ms s) r \<and> last_of (polls redis ms s) r = seen (last ms) r"
  using assms(2-)
proof (induction ms arbitrary: s)
  case (Cons m ms)
  let ?t = "sync_poll redis m s"
  have t: "in_step ?t r" "last_of ?t r = seen m r"
    using fold_sync_resource [OF distinct_resources assms(1), of s m] Cons.prems
    by (auto simp: sync_poll_def Let_def sync_redis_frame)
  show ?case
  proof (cases ms)
    case Nil
    with t show ?thesis by (simp add: polls_def)
  next
    case (Cons m' ms')
    have "not_below (seen m' r) (seen m r)" "increasing ms" using Cons.prems(2) Cons assms(1) by auto
    with Cons.IH [OF t(1)] t(2) Cons show ?thesis by (simp add: polls_def)
  qed
qed simp

lemma sync_init_in_step: "r \<in> set resources \<Longrightarrow> in_step sync_init r \<and>
    last_of sync_init r = \<lparr>ls_hits = 0, ls_misses = 0, ls_invalidations = 0\<rparr>"
  by (auto simp: sync_init_def in_step_def last_of_def shown_def dict_get_default_def resources_def)

lemma fold_redis_hits:
  "distinct rs \<Longrightarrow> shown (sr_hits (fold (sync_redis_resource m) rs s)) r
    = shown (sr_hits s) r + (if r \<in> set rs then shown (cm_hits m) r else 0)"
  by (induction rs arbitrary: s) (auto simp: sync_redis_resource_def shown_inc_nonzero shown_def [of "cm_hits m"])

lemma sync_resource_redis_frame: "sr_hits (fold (sync_resource m) rs s) = sr_hits s"
  by (induction rs arbitrary: s) (simp_all add: sync_resource_def Let_def)

section \<open>Properties\<close>

text \<open>C34: The synchronised counters are exact: whatever the number of polls, as long as the cache's
  cumulative counters do not decrease from poll to poll, the Prometheus counters of every resource
  equal the cache's own counters at the last poll; no hit, miss or invalidation is counted twice.\<close>

theorem sync_counts_once:
  assumes "r \<in> set resources" "increasing ms" "ms \<noteq> []"
    and "0 \<le> shown (cm_hits (hd ms)) r" "0 \<le> shown (cm_misses (hd ms)) r" "0 \<le> shown (cm_invalidations (hd ms)) r"
  shows "shown (sy_hits (polls redis ms sync_init)) r = shown (cm_hits (last ms)) r \<and>
    shown (sy_misses (polls redis ms sync_init)) r = shown (cm_misses (last ms)) r \<and>
    shown (sy_invalidations (polls redis ms sync_init)) r = shown (cm_invalidations (last ms)) r"
  using polls_in_step [of r sync_init ms redis] sync_init_in_step [of r] assms
  by (simp add: in_step_def seen_def not_below_def)

text \<open>Two polls of a cache that was hit five times before the first one and not since.\<close>

definition five_hits :: redis_metrics where
  "five_hits = \<lparr>cm_hits = [(''servers'', 5)], cm_misses = [], cm_invalidations = [], cm_total_hits = 5,
     cm_total_misses = 0, cm_total_requests = 5, cm_hit_ratio = 1, cm_redis_errors = 0,
     cm_redis_latency_samples = []\<rparr>"

theorem sync_counts_once_witness:
  "shown (sy_hits (polls False [five_hits, five_hits] sync_init)) ''servers'' = 5"
  using sync_counts_once [of "''servers''" "[five_hits, five_hits]" False]
  by (simp add: resources_def not_below_def shown_def dict_get_default_def five_hits_def)

text \<open>The Redis counters are not exact: each poll adds the whole cumulative counter again, so
  after a sequence of polls the Prometheus value is the sum of all snapshots, not the last one.\<close>

theorem redis_sync_adds_snapshots:
  assumes "r \<in> set resources"
  shows "shown (sr_hits (polls True ms s)) r
    = shown (sr_hits s) r + sum_list (map (\<lambda>m. shown (cm_hits m) r) ms)"
proof (induction ms arbitrary: s)
  case (Cons m ms)
  have "shown (sr_hits (sync_poll True m s)) r = shown (sr_hits s) r + shown (cm_hits m) r"
    using assms fold_redis_hits [OF distinct_resources, of m _ r]
    by (simp add: sync_poll_def sync_redis_metrics_def Let_def sync_resource_redis_frame)
  with Cons.IH [of "sync_poll True m s"] show ?case by (simp add: polls_def)
qed (simp add: polls_def)

theorem redis_sync_adds_snapshots_witness:
  "shown (sr_hits (polls True [five_hits, five_hits] sync_init)) ''servers'' = 10"
  using redis_sync_adds_snapshots [of "''servers''" "[five_hits, five_hits]" sync_init]
  by (simp add: resources_def shown_def dict_get_default_def five_hits_def sync_init_def)

end
