(* ===== verification/Batch_Queue.thy ===== *)
theory Batch_Queue
  imports Py_Effects
begin

text \<open>
  The two background writers of the platform: the audit log queue
  (app/services/core/audit_service.py) and the metric queue
  (app/services/monitoring/monitoring_service.py). Requests put entries on an unbounded queue; a
  worker task takes them off, collects them in a local batch and inserts a full batch, or what it
  has when the flush interval elapses, in one transaction.

  An event is something the event loop delivers: a put, the worker waking with an entry, or the
  wait_for timeout. A database transaction succeeds, raises, or raises TimeoutError (which the
  worker's except clause catches); the outcome is part of the event. The locale batch_worker states
  what a worker step does; conservation, order and the batch bound are proved once there and both
  workers are interpretations.
\<close>

section \<open>Queues, transactions, events\<close>

datatype flush_outcome = FlushOk | FlushRaises | FlushTimesOut

datatype 'e queue_event = Put 'e | PutStop | Wake flush_outcome flush_outcome | IntervalElapsed flush_outcome

text \<open>None on the queue is the shutdown signal.\<close>

record 'e worker_state =
  ws_queue :: "'e option list"
  ws_batch :: "'e list"
  ws_db :: "'e list"
  ws_alive :: bool

definition ws_init :: "'e worker_state" where
  "ws_init = \<lparr>ws_queue = [], ws_batch = [], ws_db = [], ws_alive = True\<rparr>"

text \<open>_flush_batch and _flush_metric_batch: one transaction for all entries, nothing when there are none.
  The result is None when the transaction raised (and was rolled back).\<close>

definition flush_batch :: "flush_outcome \<Rightarrow> 'e list \<Rightarrow> 'e list \<Rightarrow> 'e list option" where
  "flush_batch outcome entries db =
     (if entries = [] then Some db else if outcome = FlushOk then Some (db @ entries) else None)"

definition pending :: "'e option list \<Rightarrow> 'e list" where
  "pending q = map the (filter (\<lambda>x. x \<noteq> None) q)"

lemma pending_simps [simp]:
  "pending [] = []" "pending (None # q) = pending q" "pending (Some e # q) = e # pending q"
  "pending (q @ q') = pending q @ pending q'"
  by (simp_all add: pending_def)

section \<open>The contract of a batching worker\<close>

text \<open>The worker dies: an exception left the coroutine, its local batch is gone.\<close>

definition worker_dies :: "'e worker_state \<Rightarrow> 'e worker_state" where
  "worker_dies s = s\<lparr>ws_batch := [], ws_alive := False\<rparr>"

definition flushed :: "'e list \<Rightarrow> 'e worker_state \<Rightarrow> 'e worker_state" where
  "flushed db s = s\<lparr>ws_db := db, ws_batch := []\<rparr>"

text \<open>A history of events, what it put on the queue, and whether every transaction of it succeeded.\<close>

definition run_events :: "('e queue_event \<Rightarrow> 'e worker_state \<Rightarrow> 'e worker_state) \<Rightarrow>
    'e queue_event list \<Rightarrow> 'e worker_state \<Rightarrow> 'e worker_state" where
  "run_events step evs s = fold step evs s"

fun puts :: "'e queue_event list \<Rightarrow> 'e list" where
  "puts [] = []"
| "puts (Put e # evs) = e # puts evs"
| "puts (ev # evs) = puts evs"

fun all_ok :: "'e queue_event list \<Rightarrow> bool" where
  "all_ok [] = True"
| "all_ok (Wake o1 o2 # evs) = (o1 = FlushOk \<and> all_ok evs)"
| "all_ok (IntervalElapsed o1 # evs) = (o1 = FlushOk \<and> all_ok evs)"
| "all_ok (ev # evs) = all_ok evs"

text \<open>Everything the platform still has: the rows, the worker's batch, the queue.\<close>

definition held :: "'e worker_state \<Rightarrow> 'e list" where
  "held s = ws_db s @ ws_batch s @ pending (ws_queue s)"

lemma puts_Cons: "puts (ev # evs) = puts [ev] @ puts evs"
  by (cases ev) simp_all

lemma all_ok_Cons: "all_ok (ev # evs) \<longleftrightarrow> all_ok [ev] \<and> all_ok evs"
  by (cases ev) simp_all

lemma run_events_simps [simp]:
  "run_events step [] s = s" "run_events step (ev # evs) s = run_events step evs (step ev s)"
  by (simp_all add: run_events_def)

locale batch_worker =
  fixes step :: "'e queue_event \<Rightarrow> 'e worker_state \<Rightarrow> 'e worker_state"
    and size :: nat
  assumes size_pos: "0 < size"
    and step_put: "step (Put e) s = s\<lparr>ws_queue := ws_queue s @ [Some e]\<rparr>"
    and step_stop: "step PutStop s = s\<lparr>ws_queue := ws_queue s @ [None]\<rparr>"
    and step_idle: "\<not> ws_alive s \<or> ws_queue s = [] \<Longrightarrow> step (Wake o1 o2) s = s"
    and step_take: "ws_alive s \<Longrightarrow> ws_queue s = Some e # q \<Longrightarrow> length (ws_batch s) + 1 < size \<Longrightarrow>
      step (Wake o1 o2) s = s\<lparr>ws_queue := q, ws_batch := ws_batch s @ [e]\<rparr>"
    and step_full: "ws_alive s \<Longrightarrow> ws_queue s = Some e # q \<Longrightarrow> size \<le> length (ws_batch s) + 1 \<Longrightarrow>
      step (Wake o1 o2) s =
       (let s1 = s\<lparr>ws_queue := q, ws_batch := ws_batch s @ [e]\<rparr> in
        if o1 = FlushOk \<or> o1 = FlushTimesOut \<and> o2 = FlushOk
        then flushed (ws_db s @ ws_batch s @ [e]) s1 else worker_dies s1)"
    and step_end: "ws_alive s \<Longrightarrow> ws_queue s = None # q \<Longrightarrow>
      step (Wake o1 o2) s =
       (let s1 = s\<lparr>ws_queue := q\<rparr> in
        if ws_batch s = [] \<or> o1 = FlushOk then (flushed (ws_db s @ ws_batch s) s1)\<lparr>ws_alive := False\<rparr>
        else worker_dies s1)"
    and step_interval: "step (IntervalElapsed o1) s =
       (if ws_alive s \<and> ws_batch s \<noteq> []
        then if o1 = FlushOk then flushed (ws_db s @ ws_batch s) s else worker_dies s
        else s)"
begin

lemma step_wake_cases:
  obtains (idle) "\<not> ws_alive s \<or> ws_queue s = []"
  | (stop) q where "ws_alive s" "ws_queue s = None # q"
  | (take) e q where "ws_alive s" "ws_queue s = Some e # q" "length (ws_batch s) + 1 < size"
  | (full) e q where "ws_alive s" "ws_queue s = Some e # q" "size \<le> length (ws_batch s) + 1"
proof (cases "ws_queue s")
  case (Cons x q)
  then show thesis
    using that by (cases x; cases "ws_alive s"; cases "length (ws_batch s) + 1 < size") force+
qed (use that in blast)

lemma step_held:
  assumes "all_ok [ev]"
  shows "held (step ev s) = held s @ puts [ev]"
proof (cases ev)
  case (Wake o1 o2)
  with assms show ?thesis
    by (cases s rule: step_wake_cases)
       (auto simp: held_def step_idle step_take step_full step_end flushed_def Let_def)
next
  case (IntervalElapsed o1)
  with assms show ?thesis
    by (auto simp: held_def step_interval flushed_def)
qed (simp_all add: held_def step_put step_stop)

lemma run_held: "all_ok evs \<Longrightarrow> held (run_events step evs s) = held s @ puts evs"
proof (induction evs arbitrary: s)
  case (Cons ev evs)
  then have "all_ok [ev]" "all_ok evs" by (simp_all add: all_ok_Cons [of ev evs])
  with Cons.IH [of "step ev s"] step_held [of ev s] show ?case
    by (simp add: puts_Cons [of ev evs])
qed simp

lemma batch_bound: "length (ws_batch s) < size \<Longrightarrow> length (ws_batch (step ev s)) < size"
proof (cases ev)
  case (Wake o1 o2)
  assume "length (ws_batch s) < size"
  then show ?thesis unfolding Wake
    by (cases s rule: step_wake_cases)
       (auto simp: step_idle step_take step_full step_end flushed_def worker_dies_def Let_def size_pos)
next
  case (IntervalElapsed o1)
  assume "length (ws_batch s) < size"
  then show ?thesis unfolding IntervalElapsed
    by (auto simp: step_interval flushed_def worker_dies_def size_pos)
qed (simp_all add: step_put step_stop)

lemma run_batch_bound: "length (ws_batch s) < size \<Longrightarrow> length (ws_batch (run_events step evs s)) < size"
  by (induction evs arbitrary: s) (simp_all add: batch_bound)

lemma db_grows: "\<exists>xs. ws_db (step ev s) = ws_db s @ xs"
proof (cases ev)
  case (Wake o1 o2)
  show ?thesis unfolding Wake
    by (cases s rule: step_wake_cases)
       (auto simp: step_idle step_take step_full step_end flushed_def worker_dies_def Let_def)
next
  case (IntervalElapsed o1)
  show ?thesis unfolding IntervalElapsed
    by (auto simp: step_interval flushed_def worker_dies_def)
qed (simp_all add: step_put step_stop)

text \<open>Enough wake-ups empty the queue up to the shutdown signal.\<close>

lemma drain_to_stop:
  assumes "ws_alive s" "ws_queue s = map Some es @ [None]"
  shows "ws_db (run_events step (replicate (length es + 1) (Wake FlushOk FlushOk)) s) = ws_db s @ ws_batch s @ es"
  using assms
proof (induction es arbitrary: s)
  case Nil
  then show ?case by (simp add: step_end flushed_def Let_def)
next
  case (Cons e es)
  let ?t = "step (Wake FlushOk FlushOk) s"
  have q: "ws_queue s = Some e # (map Some es @ [None])" using Cons.prems by simp
  have t: "ws_alive ?t" "ws_queue ?t = map Some es @ [None]"
      "ws_db ?t @ ws_batch ?t = ws_db s @ ws_batch s @ [e]"
    using Cons.prems(1) q
    by (cases "length (ws_batch s) + 1 < size";
        simp add: step_take [OF _ q] step_full [OF _ q] flushed_def Let_def)+
  from Cons.IH [OF t(1,2)] t(3) show ?case by simp
qed

end

end
