(* ===== verification/Sql_Table.thy ===== *)
theory Sql_Table
  imports Py_Effects "HOL-Library.Multiset"
begin

text \<open>
  Database tables as the services use them through SQLAlchemy: a table is the list of its rows in
  the order the database scans them. The statements the sources issue are select with where,
  order_by(column.desc()) and limit, session.get by primary key, session.add and attribute updates
  followed by commit. Rows with equal sort keys come in scan order.

  The locale keyed_table states what a service relies on when it reads, creates or updates a row by
  its primary key; every table of the platform interprets it with its own key column.
\<close>

definition order_desc :: "('r \<Rightarrow> 'k::linorder) \<Rightarrow> 'r list \<Rightarrow> 'r list" where
  "order_desc k rows = rev (sort_key k (rev rows))"

text \<open>LIMIT: none, or at most that many rows (the schemas only admit positive limits).\<close>

definition sql_limit :: "int \<Rightarrow> 'r list \<Rightarrow> 'r list" where
  "sql_limit n rows = take (nat n) rows"

definition sql_get :: "('r \<Rightarrow> string) \<Rightarrow> string \<Rightarrow> 'r list \<Rightarrow> 'r option" where
  "sql_get pk i rows = find (\<lambda>r. pk r = i) rows"

definition sql_add :: "'r \<Rightarrow> 'r list \<Rightarrow> 'r list" where
  "sql_add r rows = rows @ [r]"

definition sql_update :: "('r \<Rightarrow> string) \<Rightarrow> string \<Rightarrow> ('r \<Rightarrow> 'r) \<Rightarrow> 'r list \<Rightarrow> 'r list" where
  "sql_update pk i f rows = map (\<lambda>r. if pk r = i then f r else r) rows"

definition sql_delete :: "('r \<Rightarrow> string) \<Rightarrow> string \<Rightarrow> 'r list \<Rightarrow> 'r list" where
  "sql_delete pk i rows = filter (\<lambda>r. pk r \<noteq> i) rows"

definition pk_unique :: "('r \<Rightarrow> string) \<Rightarrow> 'r list \<Rightarrow> bool" where
  "pk_unique pk rows \<longleftrightarrow> distinct (map pk rows)"

section \<open>Ordering\<close>

lemma mset_order_desc [simp]: "mset (order_desc k rows) = mset rows"
  by (simp add: order_desc_def)

lemma set_order_desc [simp]: "set (order_desc k rows) = set rows"
  by (simp add: order_desc_def)

lemma length_order_desc [simp]: "length (order_desc k rows) = length rows"
  by (simp add: order_desc_def)

lemma order_desc_sorted: "sorted_wrt (\<lambda>a b. k b \<le> k a) (order_desc k rows)"
proof -
  have "sorted (map k (sort_key k (rev rows)))" by simp
  then show ?thesis unfolding order_desc_def sorted_wrt_rev by (simp only: sorted_wrt_map)
qed

lemma insort_key_greatest: "(\<And>x. x \<in> set xs \<Longrightarrow> k x < k r) \<Longrightarrow> insort_key k r xs = xs @ [r]"
  by (induction xs) (simp, force simp: not_le)

lemma order_desc_newest:
  assumes "\<And>x. x \<in> set rows \<Longrightarrow> k x < k r"
  shows "order_desc k (rows @ [r]) = r # order_desc k rows"
  using insort_key_greatest [of "sort_key k (rev rows)" k r] assms
  by (simp add: order_desc_def)

lemma order_desc_hd:
  "x \<in> set rows \<Longrightarrow> order_desc k rows = r # rs \<Longrightarrow> k x \<le> k r"
  using order_desc_sorted [of k rows] set_order_desc [of k rows] by auto

lemma set_sql_limit: "set (sql_limit n rows) \<subseteq> set rows"
  by (simp add: sql_limit_def set_take_subset)

lemma length_sql_limit [simp]: "length (sql_limit n rows) = min (length rows) (nat n)"
  by (simp add: sql_limit_def)

text \<open>LIMIT after ORDER BY DESC keeps the newest rows.\<close>

lemma newest_rows:
  "\<exists>rest. mset (sql_limit n (order_desc k rows) @ rest) = mset rows \<and>
     length (sql_limit n (order_desc k rows)) = min (length rows) (nat n) \<and>
     sorted_wrt (\<lambda>a b. k b \<le> k a) (sql_limit n (order_desc k rows) @ rest)"
proof (intro exI conjI)
  let ?l = "order_desc k rows" and ?r = "drop (nat n) (order_desc k rows)"
  have split: "sql_limit n ?l @ ?r = ?l" by (simp add: sql_limit_def)
  show "mset (sql_limit n ?l @ ?r) = mset rows" unfolding split by simp
  show "sorted_wrt (\<lambda>a b. k b \<le> k a) (sql_limit n ?l @ ?r)"
    unfolding split by (rule order_desc_sorted)
qed simp

section \<open>Access by primary key\<close>

locale keyed_table =
  fixes pk :: "'r \<Rightarrow> string"
    and get :: "string \<Rightarrow> 't \<Rightarrow> 'r option"
    and add :: "'r \<Rightarrow> 't \<Rightarrow> 't"
    and upd :: "string \<Rightarrow> ('r \<Rightarrow> 'r) \<Rightarrow> 't \<Rightarrow> 't"
    and wf :: "'t \<Rightarrow> bool"
  assumes get_key: "get i t = Some r \<Longrightarrow> pk r = i"
    and get_add: "get (pk r) t = None \<Longrightarrow> get i (add r t) = (if i = pk r then Some r else get i t)"
    and get_upd: "(\<And>r. pk (f r) = pk r) \<Longrightarrow>
      get i (upd j f t) = (if i = j then map_option f (get i t) else get i t)"
    and wf_add: "wf t \<Longrightarrow> get (pk r) t = None \<Longrightarrow> wf (add r t)"
    and wf_upd: "(\<And>r. pk (f r) = pk r) \<Longrightarrow> wf t \<Longrightarrow> wf (upd j f t)"
begin

lemma read_created: "get (pk r) t = None \<Longrightarrow> get (pk r) (add r t) = Some r"
  by (simp add: get_add)

lemma read_updated:
  "(\<And>r. pk (f r) = pk r) \<Longrightarrow> get i t = Some r \<Longrightarrow> get i (upd i f t) = Some (f r)"
  by (simp add: get_upd)

lemma frame_updated: "(\<And>r. pk (f r) = pk r) \<Longrightarrow> i \<noteq> j \<Longrightarrow> get i (upd j f t) = get i t"
  by (simp add: get_upd)

lemma update_twice:
  assumes "\<And>r. pk (f r) = pk r" "\<And>r. pk (g r) = pk r"
  shows "get i (upd j g (upd j f t)) = get i (upd j (g \<circ> f) t)"
  using assms by (simp add: get_upd option.map_comp)

end

lemma sql_get_Some_iff:
  "sql_get pk i rows = Some r \<Longrightarrow> pk r = i \<and> r \<in> set rows"
  by (auto simp: sql_get_def find_Some_iff)

lemma sql_get_None_iff: "sql_get pk i rows = None \<longleftrightarrow> i \<notin> pk ` set rows"
  by (auto simp: sql_get_def find_None_iff)

lemma sql_get_append:
  "sql_get pk i (xs @ ys) = (case sql_get pk i xs of None \<Rightarrow> sql_get pk i ys | Some r \<Rightarrow> Some r)"
  by (induction xs) (simp_all add: sql_get_def)

lemma sql_get_update:
  assumes "\<And>r. pk (f r) = pk r"
  shows "sql_get pk i (sql_update pk j f rows)
    = (if i = j then map_option f (sql_get pk i rows) else sql_get pk i rows)"
  by (induction rows) (auto simp: sql_get_def sql_update_def assms)

lemma map_pk_update: "(\<And>r. pk (f r) = pk r) \<Longrightarrow> map pk (sql_update pk j f rows) = map pk rows"
  by (simp add: sql_update_def)

lemma length_sql_update [simp]: "length (sql_update pk j f rows) = length rows"
  by (simp add: sql_update_def)

lemma sql_keyed_table: "keyed_table pk (sql_get pk) sql_add (sql_update pk) (pk_unique pk)"
proof
  show "sql_get pk i t = Some r \<Longrightarrow> pk r = i" for i t r
    by (simp add: sql_get_Some_iff)
  show "sql_get pk (pk r) t = None \<Longrightarrow>
      sql_get pk i (sql_add r t) = (if i = pk r then Some r else sql_get pk i t)" for r t i
    by (auto simp: sql_add_def sql_get_append split: option.split) (simp_all add: sql_get_def)
  show "(\<And>r. pk (f r) = pk r) \<Longrightarrow>
      sql_get pk i (sql_update pk j f t) = (if i = j then map_option f (sql_get pk i t) else sql_get pk i t)"
    for f i j t by (rule sql_get_update)
  show "pk_unique pk t \<Longrightarrow> sql_get pk (pk r) t = None \<Longrightarrow> pk_unique pk (sql_add r t)" for t r
    by (simp add: pk_unique_def sql_add_def sql_get_None_iff)
  show "(\<And>r. pk (f r) = pk r) \<Longrightarrow> pk_unique pk t \<Longrightarrow> pk_unique pk (sql_update pk j f t)" for f t j
    by (simp add: pk_unique_def map_pk_update)
qed

end
