(* ===== verification/Py_Datetime.thy ===== *)
theory Py_Datetime
  imports Py_Effects
begin

text \<open>
  datetime values in UTC as the sources use them: a timestamp is the number of microseconds since
  1970-01-01T00:00:00+00:00. Modelled are isoformat(), replace(hour, minute, second, microsecond)
  and the differences taken with timedelta. The civil calendar is the proleptic Gregorian one.
\<close>

type_synonym timestamp = int

abbreviation us_per_day :: int where
  "us_per_day \<equiv> 86400000000"

text \<open>Year, month and day of a day number; the year starts in March, an era has 400 years.\<close>

definition civil_from_days :: "int \<Rightarrow> int \<times> int \<times> int" where
  "civil_from_days n =
    (let z = n + 719468;
         era = z div 146097;
         doe = z mod 146097;
         yoe = (doe - doe div 1460 + doe div 36524 - doe div 146096) div 365;
         doy = doe - (365 * yoe + yoe div 4 - yoe div 100);
         mp = (5 * doy + 2) div 153;
         d = doy - (153 * mp + 2) div 5 + 1;
         m = (if mp < 10 then mp + 3 else mp - 9);
         y = yoe + era * 400 + (if m \<le> 2 then 1 else 0)
     in (y, m, d))"

text \<open>A decimal number padded with zeros to a width.\<close>

definition pad_int :: "nat \<Rightarrow> int \<Rightarrow> string" where
  "pad_int w n = (let s = str_int n in replicate (w - length s) CHR ''0'' @ s)"

definition isoformat :: "timestamp \<Rightarrow> string" where
  "isoformat t =
    (let (y, m, d) = civil_from_days (t div us_per_day);
         r = t mod us_per_day;
         us = r mod 1000000;
         sec = r div 1000000
     in pad_int 4 y @ ''-'' @ pad_int 2 m @ ''-'' @ pad_int 2 d @ ''T'' @
        pad_int 2 (sec div 3600) @ '':'' @ pad_int 2 (sec div 60 mod 60) @ '':'' @ pad_int 2 (sec mod 60) @
        (if us = 0 then [] else ''.'' @ pad_int 6 us) @ ''+00:00'')"

text \<open>replace(hour=h, minute=mi, second=s, microsecond=0)\<close>

definition replace_time :: "int \<Rightarrow> int \<Rightarrow> int \<Rightarrow> timestamp \<Rightarrow> timestamp" where
  "replace_time h mi s t = t div us_per_day * us_per_day + ((h * 60 + mi) * 60 + s) * 1000000"

definition seconds :: "int \<Rightarrow> int" where
  "seconds n = n * 1000000"

definition minutes :: "int \<Rightarrow> int" where
  "minutes n = n * 60000000"

definition hours :: "int \<Rightarrow> int" where
  "hours n = n * 3600000000"

lemma isoformat_example:
  "isoformat 1709210096000005 = ''2024-02-29T12:34:56.000005+00:00''"
  by code_simp

lemma replace_time_same_day:
  assumes "0 \<le> h" "h < 24" "0 \<le> mi" "mi < 60" "0 \<le> s" "s < 60"
  shows "replace_time h mi s t div us_per_day = t div us_per_day"
proof -
  have "0 \<le> ((h * 60 + mi) * 60 + s) * 1000000" "((h * 60 + mi) * 60 + s) * 1000000 < us_per_day"
    using assms by auto
  then show ?thesis by (simp add: replace_time_def)
qed

end
