(* ===== verification/Audit_Log.thy ===== *)
theory Audit_Log
  imports Batch_Queue Sql_Table Py_Datetime
begin

text \<open>
  The audit trail: app/services/core/audit_service.py (the batching queue, its worker, the legacy
  direct write, the query service), app/common/middleware/audit.py (one entry per HTTP request)
  and the shutdown sequence of app/main.py. Payloads are values of an arbitrary type 'p.
  The uuid4 values are arguments.
\<close>

section \<open>Entries\<close>

record 'p audit_entry =
  ae_id :: string
  ae_actor :: "string option"
  ae_action :: string
  ae_resource_type :: string
  ae_resource_id :: "string option"
  ae_status :: string
  ae_request_id :: "string option"
  ae_payload :: 'p

text \<open>The arguments of enqueue_audit_entry and log_audit_entry.\<close>

record 'p audit_args =
  aa_actor :: "string option"
  aa_action :: "string option"
  aa_resource_type :: "string option"
  aa_resource_id :: "string option"
  aa_status :: string
  aa_request_id :: "string option"
  aa_payload :: "'p option"

definition make_entry :: "string \<Rightarrow> 'p audit_args \<Rightarrow> string \<Rightarrow> 'p option audit_entry" where
  "make_entry uuid a action =
    \<lparr>ae_id = uuid, ae_actor = aa_actor a, ae_action = action,
     ae_resource_type = str_or (aa_resource_type a) ''unknown'', ae_resource_id = aa_resource_id a,
     ae_status = aa_status a, ae_request_id = aa_request_id a, ae_payload = aa_payload a\<rparr>"

text \<open>enqueue_audit_entry: an entry without an action is dropped.\<close>

definition enqueue_audit_entry :: "string \<Rightarrow> 'p audit_args \<Rightarrow>
    'p option audit_entry worker_state \<Rightarrow> 'p option audit_entry worker_state" where
  "enqueue_audit_entry uuid a s = (case aa_action a of
     None \<Rightarrow> s
   | Some action \<Rightarrow> if action = [] then s
       else s\<lparr>ws_queue := ws_queue s @ [Some (make_entry uuid a action)]\<rparr>)"

section \<open>The flush worker and the shutdown sequence\<close>

definition BATCH_SIZE :: nat where
  "BATCH_SIZE = 20"

definition audit_flush_worker :: "'e queue_event \<Rightarrow> 'e worker_state \<Rightarrow> 'e worker_state" where
  "audit_flush_worker ev s = (case ev of
     Put e \<Rightarrow> s\<lparr>ws_queue := ws_queue s @ [Some e]\<rparr>
   | PutStop \<Rightarrow> s\<lparr>ws_queue := ws_queue s @ [None]\<rparr>
   | Wake o1 o2 \<Rightarrow>
      (if \<not> ws_alive s then s else case ws_queue s of
         [] \<Rightarrow> s
       | None # q \<Rightarrow>
          (let s1 = s\<lparr>ws_queue := q\<rparr> in
           if ws_batch s1 \<noteq> [] then
             (case flush_batch o1 (ws_batch s1) (ws_db s1) of
                None \<Rightarrow> worker_dies s1
              | Some db \<Rightarrow> (flushed db s1)\<lparr>ws_alive := False\<rparr>)
           else s1\<lparr>ws_alive := False\<rparr>)
       | Some entry # q \<Rightarrow>
          (let s1 = s\<lparr>ws_queue := q, ws_batch := ws_batch s @ [entry]\<rparr> in
           if length (ws_batch s1) \<ge> BATCH_SIZE then
             (case flush_batch o1 (ws_batch s1) (ws_db s1) of
                Some db \<Rightarrow> flushed db s1
              | None \<Rightarrow>
                 if o1 = FlushTimesOut then
                   (case flush_batch o2 (ws_batch s1) (ws_db s1) of
                      Some db \<Rightarrow> flushed db s1 | None \<Rightarrow> worker_dies s1)
                 else worker_dies s1)
           else s1))
   | IntervalElapsed o1 \<Rightarrow>
      (if ws_alive s \<and> ws_batch s \<noteq> [] then
         (case flush_batch o1 (ws_batch s) (ws_db s) of
            Some db \<Rightarrow> flushed db s | None \<Rightarrow> worker_dies s)
       else s))"

definition enqueue_shutdown_signal :: "'e worker_state \<Rightarrow> 'e worker_state" where
  "enqueue_shutdown_signal s = s\<lparr>ws_queue := ws_queue s @ [None]\<rparr>"

fun drain_remaining :: "'e option list \<Rightarrow> 'e list" where
  "drain_remaining [] = []"
| "drain_remaining (None # q) = drain_remaining q"
| "drain_remaining (Some e # q) = e # drain_remaining q"

text \<open>The result is None when the transaction raised.\<close>

definition drain_audit_queue :: "flush_outcome \<Rightarrow> 'e worker_state \<Rightarrow> 'e worker_state option" where
  "drain_audit_queue out s =
    (let remaining = drain_remaining (ws_queue s); s1 = s\<lparr>ws_queue := []\<rparr> in
     if remaining \<noteq> [] then map_option (\<lambda>db. s1\<lparr>ws_db := db\<rparr>) (flush_batch out remaining (ws_db s1))
     else Some s1)"

text \<open>The part of lifespan after the yield that concerns the audit queue: the signal is put, the
  queue is drained, the worker is cancelled. Neither the put nor the emptying of the queue lets the
  worker run; during the drain's transaction the worker can see only its interval elapse.\<close>

definition lifespan_shutdown :: "flush_outcome \<Rightarrow> flush_outcome option \<Rightarrow> 'e worker_state \<Rightarrow> 'e worker_state" where
  "lifespan_shutdown out meanwhile s =
    (let s1 = enqueue_shutdown_signal s in
     case drain_audit_queue out s1 of
       None \<Rightarrow> s1\<lparr>ws_queue := []\<rparr>
     | Some s2 \<Rightarrow> worker_dies (case meanwhile of None \<Rightarrow> s2
         | Some o' \<Rightarrow> audit_flush_worker (IntervalElapsed o') s2))"

lemma drain_remaining_pending [simp]: "drain_remaining q = pending q"
  by (induction q rule: drain_remaining.induct) simp_all

interpretation audit: batch_worker audit_flush_worker BATCH_SIZE
  by unfold_locales
     (auto simp: audit_flush_worker_def BATCH_SIZE_def flush_batch_def flushed_def worker_dies_def Let_def
       split: list.splits option.splits)

section \<open>Direct writes and queries\<close>

record 'p audit_log = "'p audit_entry" +
  al_created_at :: timestamp

definition log_audit_entry :: "string \<Rightarrow> timestamp \<Rightarrow> 'p audit_args \<Rightarrow>
    'p option audit_log list \<Rightarrow> string option \<times> 'p option audit_log list" where
  "log_audit_entry uuid now a table = (case aa_action a of
     None \<Rightarrow> (None, table)
   | Some action \<Rightarrow> if action = [] then (None, table)
       else (Some uuid, sql_add (audit_entry.extend (make_entry uuid a action) \<lparr>al_created_at = now\<rparr>) table))"

record 'p audit_log_summary = "'p audit_entry" +
  as_created_at :: "string option"

definition summarize_log :: "'p audit_log \<Rightarrow> 'p audit_log_summary" where
  "summarize_log e = audit_entry.extend (audit_entry.truncate e)
     \<lparr>as_created_at = Some (isoformat (al_created_at e))\<rparr>"

definition log_matches :: "string option \<Rightarrow> string option \<Rightarrow> 'p audit_log \<Rightarrow> bool" where
  "log_matches resource_type status e \<longleftrightarrow>
    (str_truthy resource_type \<longrightarrow> Some (ae_resource_type e) = resource_type) \<and>
    (str_truthy status \<longrightarrow> Some (ae_status e) = status)"

definition list_audit_logs :: "int \<Rightarrow> string option \<Rightarrow> string option \<Rightarrow>
    'p audit_log list \<Rightarrow> 'p audit_log_summary list" where
  "list_audit_logs limit resource_type status table =
    map summarize_log (sql_limit limit (order_desc al_created_at
      (filter (log_matches resource_type status) table)))"

section \<open>The audit middleware\<close>

definition path_parts :: "string \<Rightarrow> string list" where
  "path_parts path = filter (\<lambda>p. p \<noteq> []) (py_split CHR ''/'' path)"

fun extract_request_id :: "(string \<times> string) list \<Rightarrow> string option" where
  "extract_request_id [] = None"
| "extract_request_id ((raw_key, raw_value) # headers) =
     (if py_lower raw_key = ''x-request-id'' then Some raw_value else extract_request_id headers)"

definition infer_resource_type :: "string \<Rightarrow> string" where
  "infer_resource_type path =
    (let parts = filter (\<lambda>p. p \<notin> {''api'', ''v1''}) (path_parts path) in
     case parts of [] \<Rightarrow> ''unknown'' | p # _ \<Rightarrow> if p = ''health'' then ''system'' else p)"

definition method_map :: "(string, string) dict" where
  "method_map = [(''GET'', ''read''), (''POST'', ''create''), (''PUT'', ''update''),
                 (''PATCH'', ''update''), (''DELETE'', ''delete'')]"

definition infer_action :: "string \<Rightarrow> string \<Rightarrow> string" where
  "infer_action meth path =
    (let parts = path_parts path in
     if meth = ''POST'' \<and> length parts \<ge> 3 \<and> last parts = ''actions'' then ''action''
     else dict_get_default method_map (py_upper meth) (py_lower meth))"

definition non_resource :: "string list" where
  "non_resource = [''api'', ''v1'', ''auth'', ''compute'', ''networks'', ''volumes'', ''images'', ''flavors'',
     ''tenants'', ''health'', ''servers'', ''projects'', ''session'', ''endpoints'', ''config'',
     ''validate'', ''actions'']"

definition infer_resource_id :: "string \<Rightarrow> string option" where
  "infer_resource_id path = find (\<lambda>part. part \<notin> set non_resource) (rev (path_parts path))"

record asgi_scope =
  sc_type :: string
  sc_method :: "string option"
  sc_path :: "string option"
  sc_headers :: "(string \<times> string) list option"

text \<open>What the wrapped application does: the messages it sends (type and status) in order, and the
  exception that leaves it, if any.\<close>

record asgi_run =
  ar_sent :: "(string \<times> int option) list"
  ar_raises :: "exn option"

fun send_wrapper :: "(string \<times> int option) list \<Rightarrow> int \<Rightarrow> int" where
  "send_wrapper [] status_code = status_code"
| "send_wrapper ((t, st) # evs) status_code =
     send_wrapper evs (if t = ''http.response.start'' then (case st of None \<Rightarrow> 0 | Some c \<Rightarrow> c) else status_code)"

definition audit_middleware :: "string \<Rightarrow> asgi_scope \<Rightarrow> asgi_run \<Rightarrow>
    ('p option audit_entry worker_state, unit) act" where
  "audit_middleware uuid scope app s =
    (let result = (case ar_raises app of None \<Rightarrow> Inr () | Some e \<Rightarrow> Inl e) in
     if sc_type scope \<noteq> ''http'' then (result, s)
     else
       (let meth = (case sc_method scope of None \<Rightarrow> ''UNKNOWN'' | Some m \<Rightarrow> m);
            path = (case sc_path scope of None \<Rightarrow> ''UNKNOWN'' | Some p \<Rightarrow> p);
            request_id = extract_request_id (case sc_headers scope of None \<Rightarrow> [] | Some h \<Rightarrow> h);
            status_code = (if ar_raises app = None then send_wrapper (ar_sent app) 0 else 500);
            resource_type = infer_resource_type path;
            action = infer_action meth path;
            audit_status = (if status_code \<noteq> 0 \<and> status_code < 400 then ''success'' else ''failure'')
        in (result, enqueue_audit_entry uuid
             \<lparr>aa_actor = None, aa_action = Some (action @ ''_'' @ resource_type),
              aa_resource_type = Some resource_type, aa_resource_id = infer_resource_id path,
              aa_status = audit_status, aa_request_id = request_id, aa_payload = None\<rparr> s)))"

section \<open>Properties\<close>

lemma run_audit_held:
  "all_ok evs \<Longrightarrow> held (run_events audit_flush_worker evs ws_init) = puts evs"
  using audit.run_held [of evs ws_init] by (simp add: held_def ws_init_def)

lemma run_audit_bound: "length (ws_batch (run_events audit_flush_worker evs ws_init)) < 20"
  using audit.run_batch_bound [of ws_init evs] by (simp add: ws_init_def BATCH_SIZE_def)

text \<open>C9: As long as no transaction fails, the audit trail loses nothing: after any history of puts,
  wake-ups and elapsed intervals, the rows written, the worker's batch and the queue together are
  exactly the entries that were put, each once and in the order of the puts, and the worker never
  holds back twenty entries or more.\<close>

theorem audit_no_loss:
  assumes "all_ok evs" and "s = run_events audit_flush_worker evs ws_init"
  shows "ws_db s @ ws_batch s @ pending (ws_queue s) = puts evs \<and> length (ws_batch s) < 20"
  using run_audit_held [OF assms(1)] run_audit_bound [of evs] assms(2) by (simp add: held_def)

theorem audit_no_loss_witness:
  "ws_db (run_events audit_flush_worker
      [Put (1::int), Put 2, Wake FlushOk FlushOk, IntervalElapsed FlushOk, Wake FlushOk FlushOk] ws_init) = [1]
   \<and> ws_batch (run_events audit_flush_worker
      [Put (1::int), Put 2, Wake FlushOk FlushOk, IntervalElapsed FlushOk, Wake FlushOk FlushOk] ws_init) = [2]"
  using audit_no_loss [of "[Put (1::int), Put 2, Wake FlushOk FlushOk, IntervalElapsed FlushOk, Wake FlushOk FlushOk]"]
  by (simp add: audit_flush_worker_def ws_init_def Let_def BATCH_SIZE_def flush_batch_def flushed_def)

text \<open>C36: The graceful shutdown signal flushes everything: a live worker that finds a run of entries
  followed by the signal on its queue writes its batch and all of those entries, in order, within as
  many wake-ups as there are items, provided the transactions succeed.\<close>

theorem audit_signal_flushes:
  assumes "ws_alive s" "ws_queue s = map Some es @ [None]"
  shows "ws_db (run_events audit_flush_worker (replicate (length es + 1) (Wake FlushOk FlushOk)) s)
    = ws_db s @ ws_batch s @ es"
  using assms by (rule audit.drain_to_stop)

theorem audit_signal_flushes_witness:
  "ws_db (run_events audit_flush_worker (replicate 3 (Wake FlushOk FlushOk))
     \<lparr>ws_queue = [Some (3::int), Some 4, None], ws_batch = [2], ws_db = [1], ws_alive = True\<rparr>) = [1, 2, 3, 4]"
  using audit_signal_flushes [of "\<lparr>ws_queue = [Some (3::int), Some 4, None], ws_batch = [2], ws_db = [1], ws_alive = True\<rparr>" "[3, 4]"]
  by (simp add: numeral_3_eq_3)

text \<open>What the shutdown sequence of the application keeps: with no failing transaction and no
  interval elapsing meanwhile, exactly the entries still on the queue are written after the rows
  already there. The signal is taken off the queue by the drain and never reaches the worker, so
  the entries of the worker's current batch are written by nobody.\<close>

theorem lifespan_shutdown_writes_queue_only:
  "ws_db (lifespan_shutdown FlushOk None s) = ws_db s @ pending (ws_queue s) \<and>
   ws_batch (lifespan_shutdown FlushOk None s) = [] \<and> ws_queue (lifespan_shutdown FlushOk None s) = []"
  by (simp add: lifespan_shutdown_def enqueue_shutdown_signal_def drain_audit_queue_def flush_batch_def
      worker_dies_def Let_def)

lemma send_wrapper_last:
  "send_wrapper evs c = (case filter (\<lambda>(t, _). t = ''http.response.start'') evs of
     [] \<Rightarrow> c | x # xs \<Rightarrow> (case snd (last (x # xs)) of None \<Rightarrow> 0 | Some st \<Rightarrow> st))"
  by (induction evs c rule: send_wrapper.induct) (auto split: list.split)

definition final_status :: "asgi_run \<Rightarrow> int" where
  "final_status app = (case filter (\<lambda>(t, _). t = ''http.response.start'') (ar_sent app) of
     [] \<Rightarrow> 0 | x # xs \<Rightarrow> (case snd (last (x # xs)) of None \<Rightarrow> 0 | Some st \<Rightarrow> st))"

text \<open>Every HTTP request leaves exactly one audit entry, whether the application answers or
  raises, and the application's outcome is passed on unchanged. The entry says success exactly when
  nothing was raised and the last response start carries a status between 1 and 399 (or below
  zero), and it carries the request id of the headers.\<close>

theorem audit_middleware_one_entry:
  assumes "sc_type scope = ''http''"
  shows "\<exists>e. audit_middleware uuid scope app s =
      ((case ar_raises app of None \<Rightarrow> Inr () | Some x \<Rightarrow> Inl x), s\<lparr>ws_queue := ws_queue s @ [Some e]\<rparr>) \<and>
    ae_id e = uuid \<and>
    (ae_status e = ''success'' \<longleftrightarrow> ar_raises app = None \<and> final_status app \<noteq> 0 \<and> final_status app < 400) \<and>
    ae_request_id e = extract_request_id (case sc_headers scope of None \<Rightarrow> [] | Some h \<Rightarrow> h)"
  using assms
  by (auto simp: audit_middleware_def enqueue_audit_entry_def make_entry_def send_wrapper_last final_status_def Let_def)

theorem audit_middleware_one_entry_witness:
  "\<exists>e. audit_middleware ''u1'' \<lparr>sc_type = ''http'', sc_method = Some ''GET'', sc_path = Some ''/api/v1/health'',
      sc_headers = Some [(''X-Request-ID'', ''r1'')]\<rparr>
      \<lparr>ar_sent = [(''http.response.start'', Some 200)], ar_raises = None\<rparr> (ws_init :: int option audit_entry worker_state)
    = (Inr (), (ws_init :: int option audit_entry worker_state)\<lparr>ws_queue := [Some e]\<rparr>) \<and> ae_status e = ''success''"
  using audit_middleware_one_entry [of "\<lparr>sc_type = ''http'', sc_method = Some ''GET'', sc_path = Some ''/api/v1/health'',
      sc_headers = Some [(''X-Request-ID'', ''r1'')]\<rparr>" "''u1''"
      "\<lparr>ar_sent = [(''http.response.start'', Some 200)], ar_raises = None\<rparr>" "ws_init :: int option audit_entry worker_state"]
  by (auto simp: final_status_def ws_init_def)

text \<open>The audit query returns the newest matching entries: it selects from the rows that match
  the filters, newest first, at most the limit, and every matching row it leaves out is no newer
  than any row it returns.\<close>

theorem list_audit_logs_newest:
  "\<exists>rows rest. list_audit_logs limit resource_type status table = map summarize_log rows \<and>
     mset (rows @ rest) = mset (filter (log_matches resource_type status) table) \<and>
     length rows = min (length (filter (log_matches resource_type status) table)) (nat limit) \<and>
     sorted_wrt (\<lambda>a b. al_created_at b \<le> al_created_at a) (rows @ rest)"
  unfolding list_audit_logs_def
  using newest_rows [of limit al_created_at "filter (log_matches resource_type status) table"] by blast

end
