(* ===== verification/Py_Library.thy ===== *)
theory Py_Library
  imports Py_Effects
begin

text \<open>
  More of Python's built-ins: int() of strings, floats and values of unknown type, dict
  comprehensions, and the iteration order of a set.
\<close>

section \<open>int()\<close>

definition is_space :: "char \<Rightarrow> bool" where
  "is_space c = (let n = (of_char c :: nat) in n = 32 \<or> (9 \<le> n \<and> n \<le> 13) \<or> (28 \<le> n \<and> n \<le> 31))"

definition py_strip :: "string \<Rightarrow> string" where
  "py_strip s = rev (dropWhile is_space (rev (dropWhile is_space s)))"

definition digit_value :: "char \<Rightarrow> int option" where
  "digit_value c = (let n = (of_char c :: nat) in if 48 \<le> n \<and> n \<le> 57 then Some (int n - 48) else None)"

text \<open>Decimal digits, with single underscores allowed between digits.\<close>

fun digits_value :: "int \<Rightarrow> string \<Rightarrow> int option" where
  "digits_value acc [] = Some acc"
| "digits_value acc (c # cs) =
     (if c = CHR ''_'' then
        (case cs of [] \<Rightarrow> None | c' # cs' \<Rightarrow>
           (case digit_value c' of None \<Rightarrow> None | Some d \<Rightarrow> digits_value (10 * acc + d) cs'))
      else (case digit_value c of None \<Rightarrow> None | Some d \<Rightarrow> digits_value (10 * acc + d) cs))"

definition unsigned_value :: "string \<Rightarrow> int option" where
  "unsigned_value s = (case s of [] \<Rightarrow> None | c # cs \<Rightarrow>
     (case digit_value c of None \<Rightarrow> None | Some d \<Rightarrow> digits_value d cs))"

definition int_of_string :: "string \<Rightarrow> int option" where
  "int_of_string s = (case py_strip s of
     [] \<Rightarrow> None
   | c # cs \<Rightarrow> if c = CHR ''-'' then map_option uminus (unsigned_value cs)
              else if c = CHR ''+'' then unsigned_value cs else unsigned_value (c # cs))"

definition rat_trunc :: "rat \<Rightarrow> int" where
  "rat_trunc x = (if 0 \<le> x then \<lfloor>x\<rfloor> else - \<lfloor>- x\<rfloor>)"

fun py_int :: "pyval \<Rightarrow> exn + int" where
  "py_int (PBool b) = Inr (if b then 1 else 0)"
| "py_int (PInt i) = Inr i"
| "py_int (PFloat x) = Inr (rat_trunc x)"
| "py_int (PStr s) = (case int_of_string s of
     Some i \<Rightarrow> Inr i | None \<Rightarrow> Inl (ValueError (''invalid literal for int() with base 10: '' @ s)))"
| "py_int v = Inl (PyException ''TypeError'' ''int() argument must be a string, a bytes-like object or a real number'')"

lemma rat_trunc_of_int [simp]: "rat_trunc (of_int i) = i"
proof -
  have "\<lfloor>- (of_int i :: rat)\<rfloor> = - i" by (simp flip: of_int_minus)
  then show ?thesis by (simp add: rat_trunc_def)
qed

text \<open>str() of a number is read back by int().\<close>

lemma digit_value_digit_char: "d < 10 \<Longrightarrow> digit_value (digit_char d) = Some (int d)"
  by (simp add: digit_value_def digit_char_def Let_def)

lemma digit_char_plain: "d < 10 \<Longrightarrow> digit_char d \<noteq> CHR ''_'' \<and> digit_char d \<noteq> CHR ''-'' \<and>
    digit_char d \<noteq> CHR ''+'' \<and> \<not> is_space (digit_char d)"
proof -
  assume "d < 10"
  then have "(of_char (digit_char d) :: nat) = 48 + d" by (simp add: digit_char_def)
  then show ?thesis using \<open>d < 10\<close> by (auto simp: is_space_def Let_def)
qed

lemma digits_value_append:
  assumes "d < 10"
  shows "digits_value acc s = Some v \<Longrightarrow> digits_value acc (s @ [digit_char d]) = Some (10 * v + int d)"
proof (induction acc s rule: digits_value.induct)
  case (2 acc c cs)
  then show ?case
    by (auto split: if_splits option.splits list.splits simp: digit_value_digit_char assms)
qed (use assms in \<open>simp add: digit_value_digit_char digit_char_plain\<close>)

lemma unsigned_value_nat_digits: "unsigned_value (nat_digits n) = Some (int n)"
proof (induction n rule: nat_digits.induct)
  case (1 n)
  show ?case
  proof (cases "n < 10")
    case True
    then show ?thesis
      by (subst nat_digits.simps) (simp add: unsigned_value_def digit_value_digit_char)
  next
    case False
    with 1 have IH: "unsigned_value (nat_digits (n div 10)) = Some (int (n div 10))" by simp
    obtain c cs where c: "nat_digits (n div 10) = c # cs"
      by (cases "nat_digits (n div 10)") auto
    from IH obtain d where d: "digit_value c = Some d" "digits_value d cs = Some (int (n div 10))"
      by (auto simp: unsigned_value_def c split: option.splits)
    have "digits_value d (cs @ [digit_char (n mod 10)]) = Some (10 * int (n div 10) + int (n mod 10))"
      by (rule digits_value_append [OF _ d(2)]) simp
    moreover have "10 * int (n div 10) + int (n mod 10) = int n"
      by (simp add: zdiv_int zmod_int)
    ultimately show ?thesis using False d(1) c
      by (subst nat_digits.simps) (simp add: unsigned_value_def)
  qed
qed

lemma nat_digits_chars: "c \<in> set (nat_digits n) \<Longrightarrow> \<exists>d < 10. c = digit_char d"
proof (induction n rule: nat_digits.induct)
  case (1 n)
  then show ?case
    by (subst (asm) (2) nat_digits.simps) (auto split: if_splits intro: exI [of _ "n mod 10"])
qed

lemma py_strip_no_space: "(\<And>c. c \<in> set s \<Longrightarrow> \<not> is_space c) \<Longrightarrow> py_strip s = s"
  by (simp add: py_strip_def dropWhile_eq_self_iff hd_rev) (metis dropWhile_eq_self_iff hd_in_set hd_rev last_in_set rev_rev_ident set_rev)

lemma int_of_string_str_int: "int_of_string (str_int i) = Some i"
proof -
  have ns: "\<not> is_space c" if "c \<in> set (nat_digits n)" for c n
    using nat_digits_chars [OF that] digit_char_plain by auto
  have strip: "py_strip (str_int i) = str_int i"
    by (rule py_strip_no_space) (auto simp: str_int_def is_space_def Let_def dest: ns split: if_splits)
  show ?thesis
  proof (cases "i < 0")
    case True
    then show ?thesis
      by (simp add: int_of_string_def strip) (simp add: str_int_def unsigned_value_nat_digits)
  next
    case False
    obtain c cs where c: "nat_digits (nat i) = c # cs" by (cases "nat_digits (nat i)") auto
    then have "\<exists>d < 10. c = digit_char d" by (intro nat_digits_chars [of _ "nat i"]) simp
    then have "c \<noteq> CHR ''-''" "c \<noteq> CHR ''+''" using digit_char_plain by auto
    moreover have "unsigned_value (c # cs) = Some i"
      using unsigned_value_nat_digits [of "nat i"] c False by simp
    ultimately show ?thesis
      using False c by (simp add: int_of_string_def strip) (simp add: str_int_def)
  qed
qed

section \<open>Dict comprehensions and sets\<close>

text \<open>\<^verbatim>\<open>{key(x): value(x) for x in xs}\<close>: the last of several equal keys wins.\<close>

definition dict_comp :: "('a \<Rightarrow> 'k) \<Rightarrow> ('a \<Rightarrow> 'v) \<Rightarrow> 'a list \<Rightarrow> ('k, 'v) dict" where
  "dict_comp key val xs = foldl (\<lambda>d x. dict_set d (key x) (val x)) [] xs"

lemma dict_comp_get:
  "dict_get (dict_comp key val xs) k = (case filter (\<lambda>x. key x = k) xs of
     [] \<Rightarrow> None | y # ys \<Rightarrow> Some (val (last (y # ys))))"
proof (induction xs rule: rev_induct)
  case (snoc x xs)
  then show ?case
    by (cases "filter (\<lambda>x. key x = k) xs") (simp_all add: dict_comp_def pd.get_set)
qed (simp add: dict_comp_def)

text \<open>The order in which a set is iterated depends on its hash table; enum is that order, a
  permutation of the distinct elements.\<close>

definition set_enum :: "('a list \<Rightarrow> 'a list) \<Rightarrow> bool" where
  "set_enum enum \<longleftrightarrow> (\<forall>xs. set (enum xs) = set xs \<and> distinct (enum xs))"

lemma set_enum_remdups: "set_enum remdups"
  by (simp add: set_enum_def)

end
