(* ===== verification/Monitoring.thy ===== *)
theory Monitoring
  imports Batch_Queue Sql_Table Py_Datetime Py_Library Py_Float
begin

text \<open>
  app/services/monitoring/monitoring_service.py: the metric queue and its flush worker, the metric
  queries, hypervisor and project usage, the alert table, the dashboard summary and the service
  health list. Tables are lists of rows in scan order; a set of names is iterated in the order given
  by the argument enum.
\<close>

section \<open>Rows\<close>

record metric_entry =
  me_metric_name :: string
  me_source :: string
  me_value :: rat
  me_unit :: "string option"
  me_labels :: "(string, pyval) dict option"
  me_project_id :: "string option"
  me_resource_id :: "string option"

record metric_record = metric_entry +
  mr_recorded_at :: timestamp

record alert_record =
  al_id :: string
  al_severity :: string
  al_title :: string
  al_message :: "string option"
  al_source :: string
  al_resource_type :: "string option"
  al_resource_id :: "string option"
  al_status :: string
  al_created :: timestamp
  al_resolved_at :: "timestamp option"

section \<open>The metric queue\<close>

definition METRIC_BATCH_SIZE :: nat where
  "METRIC_BATCH_SIZE = 50"

definition metric_flush_worker :: "'e queue_event \<Rightarrow> 'e worker_state \<Rightarrow> 'e worker_state" where
  "metric_flush_worker ev s = (case ev of
     Put e \<Rightarrow> s\<lparr>ws_queue := ws_queue s @ [Some e]\<rparr>
   | PutStop \<Rightarrow> s\<lparr>ws_queue := ws_queue s @ [None]\<rparr>
   | Wake o1 o2 \<Rightarrow>
      (if \<not> ws_alive s then s else case ws_queue s of
         [] \<Rightarrow> s
       | None # q \<Rightarrow>
          (let s1 = s\<lparr>ws_queue := q\<rparr> in
           if ws_batch s1 \<noteq> [] then
             (case flush_batch o1 (ws_batch s1) (ws_db s1) of
                None \<Rightarrow> worker_dies s1
              | Some db \<Rightarrow> (flushed db s1)\<lparr>ws_alive := False\<rparr>)
           else s1\<lparr>ws_alive := False\<rparr>)
       | Some entry # q \<Rightarrow>
          (let s1 = s\<lparr>ws_queue := q, ws_batch := ws_batch s @ [entry]\<rparr> in
           if length (ws_batch s1) \<ge> METRIC_BATCH_SIZE then
             (case flush_batch o1 (ws_batch s1) (ws_db s1) of
                Some db \<Rightarrow> flushed db s1
              | None \<Rightarrow>
                 if o1 = FlushTimesOut then
                   (case flush_batch o2 (ws_batch s1) (ws_db s1) of
                      Some db \<Rightarrow> flushed db s1 | None \<Rightarrow> worker_dies s1)
                 else worker_dies s1)
           else s1))
   | IntervalElapsed o1 \<Rightarrow>
      (if ws_alive s \<and> ws_batch s \<noteq> [] then
         (case flush_batch o1 (ws_batch s) (ws_db s) of
            Some db \<Rightarrow> flushed db s | None \<Rightarrow> worker_dies s)
       else s))"

definition enqueue_metric_shutdown :: "'e worker_state \<Rightarrow> 'e worker_state" where
  "enqueue_metric_shutdown s = s\<lparr>ws_queue := ws_queue s @ [None]\<rparr>"

definition record_metric :: "string \<Rightarrow> string \<Rightarrow> rat \<Rightarrow> string option \<Rightarrow> (string, pyval) dict option \<Rightarrow>
    string option \<Rightarrow> string option \<Rightarrow> metric_entry worker_state \<Rightarrow> metric_entry worker_state" where
  "record_metric metric_name source val unit labels project_id resource_id s =
    s\<lparr>ws_queue := ws_queue s @ [Some
       \<lparr>me_metric_name = metric_name, me_source = source, me_value = val, me_unit = unit,
        me_labels = labels, me_project_id = project_id, me_resource_id = resource_id\<rparr>]\<rparr>"

text \<open>The part of lifespan after the yield that concerns the metric queue: the signal is put and the
  worker is cancelled before it runs again.\<close>

definition lifespan_metric_shutdown :: "'e worker_state \<Rightarrow> 'e worker_state" where
  "lifespan_metric_shutdown s = worker_dies (enqueue_metric_shutdown s)"

interpretation metric: batch_worker metric_flush_worker METRIC_BATCH_SIZE
  by unfold_locales
     (auto simp: metric_flush_worker_def METRIC_BATCH_SIZE_def flush_batch_def flushed_def worker_dies_def Let_def
       split: list.splits option.splits)

section \<open>Metric queries\<close>

definition metric_matches :: "string option \<Rightarrow> string option \<Rightarrow> string option \<Rightarrow> timestamp option \<Rightarrow>
    timestamp option \<Rightarrow> metric_record \<Rightarrow> bool" where
  "metric_matches metric_name source project_id since until r \<longleftrightarrow>
    (str_truthy metric_name \<longrightarrow> Some (me_metric_name r) = metric_name) \<and>
    (str_truthy source \<longrightarrow> Some (me_source r) = source) \<and>
    (str_truthy project_id \<longrightarrow> me_project_id r = project_id) \<and>
    (case since of None \<Rightarrow> True | Some t \<Rightarrow> t \<le> mr_recorded_at r) \<and>
    (case until of None \<Rightarrow> True | Some t \<Rightarrow> mr_recorded_at r \<le> t)"

text \<open>A MetricValue has the fields of the row without its id.\<close>

definition query_metrics :: "string option \<Rightarrow> string option \<Rightarrow> string option \<Rightarrow> timestamp option \<Rightarrow>
    timestamp option \<Rightarrow> int \<Rightarrow> metric_record list \<Rightarrow> metric_record list" where
  "query_metrics metric_name source project_id since until limit table =
    sql_limit limit (order_desc mr_recorded_at
      (filter (metric_matches metric_name source project_id since until) table))"

text \<open>The subquery: each metric name of the rows with its greatest recorded_at.\<close>

definition latest_ts :: "metric_record list \<Rightarrow> (string, timestamp) dict" where
  "latest_ts rows = foldl (\<lambda>d r. case dict_get d (me_metric_name r) of
       None \<Rightarrow> dict_set d (me_metric_name r) (mr_recorded_at r)
     | Some t \<Rightarrow> dict_set d (me_metric_name r) (max t (mr_recorded_at r))) [] rows"

definition of_source :: "string option \<Rightarrow> metric_record \<Rightarrow> bool" where
  "of_source source r \<longleftrightarrow> (str_truthy source \<longrightarrow> Some (me_source r) = source)"

definition get_latest_metrics :: "string option \<Rightarrow> metric_record list \<Rightarrow> metric_record list" where
  "get_latest_metrics source table =
    (let sub = latest_ts (filter (of_source source) table)
     in filter (of_source source)
          (filter (\<lambda>r. dict_get sub (me_metric_name r) = Some (mr_recorded_at r)) table))"

section \<open>Hypervisor and project usage\<close>

record hypervisor_usage =
  hu_hypervisor :: string
  hu_cpu_usage :: rat
  hu_memory_usage :: rat
  hu_memory_total_mb :: int
  hu_memory_used_mb :: int
  hu_disk_usage :: rat
  hu_running_vms :: int

definition hv_window :: "string \<Rightarrow> metric_record list \<Rightarrow> metric_record list" where
  "hv_window name table =
    sql_limit 50 (order_desc mr_recorded_at (filter (\<lambda>r. me_metric_name r = name) table))"

definition by_source :: "metric_record list \<Rightarrow> (string, metric_record) dict" where
  "by_source rows = dict_comp me_source id rows"

text \<open>\<^verbatim>\<open>int(r.labels.get(key, 0)) if r and r.labels else 0\<close>\<close>

definition label_int :: "metric_record option \<Rightarrow> string \<Rightarrow> exn + int" where
  "label_int r key = (case r of None \<Rightarrow> Inr 0 | Some r \<Rightarrow>
     (case me_labels r of None \<Rightarrow> Inr 0 | Some d \<Rightarrow>
        if d = [] then Inr 0 else py_int (dict_get_default d key (PInt 0))))"

definition usage_value :: "metric_record option \<Rightarrow> rat" where
  "usage_value r = (case r of None \<Rightarrow> 0 | Some r \<Rightarrow> me_value r)"

definition source_usage :: "metric_record list \<Rightarrow> string \<Rightarrow> exn + hypervisor_usage" where
  "source_usage table source =
    (let cpu_r = find (\<lambda>r. me_source r = source) (hv_window ''hypervisor_cpu_usage'' table);
         mem_r = dict_get (by_source (hv_window ''hypervisor_memory_usage'' table)) source;
         disk_r = dict_get (by_source (hv_window ''hypervisor_disk_usage'' table)) source;
         vm_r = dict_get (by_source (hv_window ''hypervisor_running_vms'' table)) source
     in case label_int mem_r ''total_mb'' of Inl e \<Rightarrow> Inl e | Inr total_mb \<Rightarrow>
       (case label_int mem_r ''used_mb'' of Inl e \<Rightarrow> Inl e | Inr used_mb \<Rightarrow>
         Inr \<lparr>hu_hypervisor = source, hu_cpu_usage = usage_value cpu_r, hu_memory_usage = usage_value mem_r,
              hu_memory_total_mb = total_mb, hu_memory_used_mb = used_mb, hu_disk_usage = usage_value disk_r,
              hu_running_vms = rat_trunc (usage_value vm_r)\<rparr>))"

definition get_hypervisor_usage ::
  "(string list \<Rightarrow> string list) \<Rightarrow> metric_record list \<Rightarrow> exn + hypervisor_usage list" where
  "get_hypervisor_usage enum table =
    fst (mapE (\<lambda>source u. (source_usage table source, u))
      (enum (map me_source (hv_window ''hypervisor_cpu_usage'' table))) ())"

record project_usage =
  pu_project_id :: string
  pu_project_name :: "string option"
  pu_instance_count :: int
  pu_total_vcpus :: int
  pu_total_ram_mb :: int
  pu_total_disk_gb :: int

text \<open>LIKE 'project_%': the underscore of the pattern stands for any one character.\<close>

definition like_project :: "string \<Rightarrow> bool" where
  "like_project name \<longleftrightarrow> take 7 name = ''project'' \<and> 8 \<le> length name"

definition project_groups :: "metric_record list \<Rightarrow> (string, (string, rat) dict) dict" where
  "project_groups records = foldl (\<lambda>g r.
     let pid = str_or (me_project_id r) ''unknown''; m = dict_get_default g pid []
     in dict_set g pid (dict_set m (me_metric_name r) (me_value r))) [] records"

definition get_project_usage :: "metric_record list \<Rightarrow> project_usage list" where
  "get_project_usage table =
    (let records = sql_limit 200 (order_desc mr_recorded_at (filter (\<lambda>r. like_project (me_metric_name r)) table))
     in map (\<lambda>(pid, m).
          \<lparr>pu_project_id = pid, pu_project_name = None,
           pu_instance_count = rat_trunc (dict_get_default m ''project_instance_count'' 0),
           pu_total_vcpus = rat_trunc (dict_get_default m ''project_total_vcpus'' 0),
           pu_total_ram_mb = rat_trunc (dict_get_default m ''project_total_ram_mb'' 0),
           pu_total_disk_gb = rat_trunc (dict_get_default m ''project_total_disk_gb'' 0)\<rparr>)
        (project_groups records))"

section \<open>Alerts\<close>

record alert_summary =
  asum_id :: string
  asum_severity :: string
  asum_title :: string
  asum_message :: "string option"
  asum_source :: string
  asum_resource_type :: "string option"
  asum_resource_id :: "string option"
  asum_status :: string
  asum_created_at :: "string option"
  asum_resolved_at :: "string option"

definition serialize_alert :: "alert_record \<Rightarrow> alert_summary" where
  "serialize_alert r =
    \<lparr>asum_id = al_id r, asum_severity = al_severity r, asum_title = al_title r, asum_message = al_message r,
     asum_source = al_source r, asum_resource_type = al_resource_type r, asum_resource_id = al_resource_id r,
     asum_status = al_status r, asum_created_at = Some (isoformat (al_created r)),
     asum_resolved_at = map_option isoformat (al_resolved_at r)\<rparr>"

definition create_alert :: "string \<Rightarrow> timestamp \<Rightarrow> string \<Rightarrow> string \<Rightarrow> string \<Rightarrow> string option \<Rightarrow>
    string option \<Rightarrow> string option \<Rightarrow> alert_record list \<Rightarrow> alert_summary \<times> alert_record list" where
  "create_alert uuid now severity title source message resource_type resource_id table =
    (let r = \<lparr>al_id = uuid, al_severity = severity, al_title = title, al_message = message,
              al_source = source, al_resource_type = resource_type, al_resource_id = resource_id,
              al_status = ''active'', al_created = now, al_resolved_at = None\<rparr>
     in (serialize_alert r, sql_add r table))"

definition list_alerts :: "string option \<Rightarrow> string option \<Rightarrow> int \<Rightarrow> alert_record list \<Rightarrow> alert_summary list" where
  "list_alerts status severity limit table =
    map serialize_alert (sql_limit limit (order_desc al_created
      (filter (\<lambda>r. (str_truthy status \<longrightarrow> Some (al_status r) = status) \<and>
                   (str_truthy severity \<longrightarrow> Some (al_severity r) = severity)) table)))"

definition resolve_alert :: "timestamp \<Rightarrow> string \<Rightarrow> (alert_record list, alert_summary) act" where
  "resolve_alert now alert_id table = (case sql_get al_id alert_id table of
     None \<Rightarrow> (Inl (AppException ''Alert not found'' 404 ''alert_not_found''), table)
   | Some r \<Rightarrow>
      (let f = (\<lambda>r. r\<lparr>al_status := ''resolved'', al_resolved_at := Some now\<rparr>)
       in (Inr (serialize_alert (f r)), sql_update al_id alert_id f table)))"

interpretation alerts: keyed_table al_id "sql_get al_id" sql_add "sql_update al_id" "pk_unique al_id"
  by (rule sql_keyed_table)

section \<open>Dashboard and health\<close>

record dashboard_summary =
  db_total_instances :: int
  db_active_instances :: int
  db_total_hypervisors :: int
  db_total_networks :: int
  db_total_volumes :: int
  db_active_alerts :: int
  db_total_storage_gb :: int
  db_used_storage_gb :: int

definition active_alert_count :: "alert_record list \<Rightarrow> int" where
  "active_alert_count table = int (length (filter (\<lambda>r. al_status r = ''active'') table))"

text \<open>list_servers is the outcome of compute_service.list_servers(), None without a compute service.\<close>

definition get_dashboard_summary :: "(exn + pyval list) option \<Rightarrow> alert_record list \<Rightarrow> dashboard_summary" where
  "get_dashboard_summary list_servers table =
    (let summary = \<lparr>db_total_instances = 0, db_active_instances = 0, db_total_hypervisors = 0,
           db_total_networks = 0, db_total_volumes = 0, db_active_alerts = active_alert_count table,
           db_total_storage_gb = 0, db_used_storage_gb = 0\<rparr>
     in case list_servers of
          Some (Inr servers) \<Rightarrow>
            summary\<lparr>db_total_instances := int (length servers),
              db_active_instances := int (length (filter (\<lambda>s. getattr s ''status'' (PStr []) = PStr ''ACTIVE'') servers))\<rparr>
        | _ \<Rightarrow> summary)"

record service_health =
  sh_name :: string
  sh_status :: string
  sh_latency_ms :: "rat option"
  sh_details :: "string option"

definition get_service_health :: "exn option \<Rightarrow> service_health list" where
  "get_service_health db_fails =
    [\<lparr>sh_name = ''api'', sh_status = ''ok'', sh_latency_ms = Some (1/2), sh_details = None\<rparr>,
     \<lparr>sh_name = ''database'', sh_status = ''ok'', sh_latency_ms = Some (fl (6/5)), sh_details = None\<rparr>] @
    (case db_fails of
       None \<Rightarrow> [\<lparr>sh_name = ''database'', sh_status = ''ok'', sh_latency_ms = Some (fl (6/5)), sh_details = None\<rparr>]
     | Some _ \<Rightarrow> [\<lparr>sh_name = ''database'', sh_status = ''down'', sh_latency_ms = None, sh_details = None\<rparr>])"

section \<open>Properties\<close>

lemma run_metric_held:
  "all_ok evs \<Longrightarrow> held (run_events metric_flush_worker evs ws_init) = puts evs"
  using metric.run_held [of evs ws_init] by (simp add: held_def ws_init_def)

text \<open>The metric queue loses nothing while transactions succeed and the worker runs (rows, batch
  and queue are together the recorded metrics in order), but the application's shutdown sequence
  writes none of what the worker and the queue still hold.\<close>

theorem metric_queue_until_shutdown:
  assumes "all_ok evs" and "s = run_events metric_flush_worker evs ws_init"
  shows "ws_db s @ ws_batch s @ pending (ws_queue s) = puts evs \<and>
    ws_db (lifespan_metric_shutdown s) = ws_db s \<and> \<not> ws_alive (lifespan_metric_shutdown s)"
  using run_metric_held [OF assms(1)] assms(2)
  by (simp add: held_def lifespan_metric_shutdown_def enqueue_metric_shutdown_def worker_dies_def)

theorem metric_queue_until_shutdown_witness:
  "ws_db (lifespan_metric_shutdown (run_events metric_flush_worker
      [Put (1::int), Wake FlushOk FlushOk, IntervalElapsed FlushOk, Put 2] ws_init)) = [1]"
  using metric_queue_until_shutdown [of "[Put (1::int), Wake FlushOk FlushOk, IntervalElapsed FlushOk, Put 2]"]
  by (simp add: metric_flush_worker_def ws_init_def Let_def METRIC_BATCH_SIZE_def flush_batch_def flushed_def)

text \<open>The greatest timestamp of each name.\<close>

lemma latest_ts_snoc:
  "latest_ts (rows @ [r]) = (case dict_get (latest_ts rows) (me_metric_name r) of
       None \<Rightarrow> dict_set (latest_ts rows) (me_metric_name r) (mr_recorded_at r)
     | Some t \<Rightarrow> dict_set (latest_ts rows) (me_metric_name r) (max t (mr_recorded_at r)))"
  unfolding latest_ts_def foldl_append foldl.simps ..

lemma latest_ts_get:
  "dict_get (latest_ts rows) n = (if \<exists>r \<in> set rows. me_metric_name r = n
     then Some (Max (mr_recorded_at ` {r \<in> set rows. me_metric_name r = n})) else None)"
proof (induction rows rule: rev_induct)
  case (snoc r rows)
  have new: "{x \<in> set (rows @ [r]). me_metric_name x = n} = (if me_metric_name r = n
      then insert r {x \<in> set rows. me_metric_name x = n} else {x \<in> set rows. me_metric_name x = n})"
    by auto
  consider (other) "me_metric_name r \<noteq> n"
    | (first) "me_metric_name r = n" "{x \<in> set rows. me_metric_name x = n} = {}"
    | (again) "me_metric_name r = n" "{x \<in> set rows. me_metric_name x = n} \<noteq> {}" by blast
  then show ?case
  proof cases
    case other
    with snoc new show ?thesis by (auto simp: latest_ts_snoc pd.get_set split: option.split)
  next
    case first
    then have "dict_get (latest_ts rows) n = None" using snoc by auto
    moreover have "Max (mr_recorded_at ` insert r {x \<in> set rows. me_metric_name x = n}) = mr_recorded_at r"
      by (simp only: first(2) image_insert image_empty Max_singleton)
    ultimately show ?thesis using first(1) unfolding new
      by (simp only: latest_ts_snoc if_True) (auto simp: pd.get_set)
  next
    case again
    let ?S = "{x \<in> set rows. me_metric_name x = n}"
    have "dict_get (latest_ts rows) n = Some (Max (mr_recorded_at ` ?S))" using snoc again by auto
    moreover have "Max (mr_recorded_at ` insert r ?S) = max (Max (mr_recorded_at ` ?S)) (mr_recorded_at r)"
      using again by (simp add: max.commute)
    ultimately show ?thesis using again(1) unfolding new
      by (simp only: latest_ts_snoc if_True) (auto simp: pd.get_set)
  qed
qed (simp add: latest_ts_def)

definition is_latest :: "metric_record list \<Rightarrow> metric_record \<Rightarrow> bool" where
  "is_latest rows r \<longleftrightarrow> r \<in> set rows \<and>
     (\<forall>x \<in> set rows. me_metric_name x = me_metric_name r \<longrightarrow> mr_recorded_at x \<le> mr_recorded_at r)"

lemma latest_ts_is_latest:
  assumes "r \<in> set rows"
  shows "dict_get (latest_ts rows) (me_metric_name r) = Some (mr_recorded_at r) \<longleftrightarrow> is_latest rows r"
proof -
  let ?S = "mr_recorded_at ` {x \<in> set rows. me_metric_name x = me_metric_name r}"
  have "finite ?S" "mr_recorded_at r \<in> ?S" using assms by auto
  then have "Max ?S = mr_recorded_at r \<longleftrightarrow> (\<forall>t \<in> ?S. t \<le> mr_recorded_at r)"
    by (subst Max_eq_iff) auto
  then show ?thesis using assms by (auto simp: latest_ts_get is_latest_def)
qed

text \<open>The latest-metrics query returns, of the rows of the requested source (all rows when no
  source is given), exactly those that no other such row of the same metric name is newer than.\<close>

theorem get_latest_metrics_latest:
  "set (get_latest_metrics source table) = {r. is_latest (filter (of_source source) table) r}"
proof (rule set_eqI)
  fix r
  let ?rows = "filter (of_source source) table"
  have "r \<in> set (get_latest_metrics source table) \<longleftrightarrow>
      r \<in> set ?rows \<and> dict_get (latest_ts ?rows) (me_metric_name r) = Some (mr_recorded_at r)"
    by (auto simp: get_latest_metrics_def Let_def)
  also have "\<dots> \<longleftrightarrow> is_latest ?rows r"
    using latest_ts_is_latest [of r ?rows] by (auto simp: is_latest_def [of ?rows])
  finally show "r \<in> set (get_latest_metrics source table) \<longleftrightarrow> r \<in> {r. is_latest ?rows r}" by simp
qed

lemma mapE_outcome:
  "fst (mapE (\<lambda>x u. (f x, u)) xs u) = Inr ys \<longleftrightarrow> map f xs = map Inr ys"
proof (induction xs arbitrary: ys)
  case (Cons x xs)
  then show ?case
    by (cases "f x"; cases ys; cases "mapE (\<lambda>x u. (f x, u)) xs u")
       (auto simp: bindE_def retE_def split: sum.splits)
qed (auto simp: retE_def)

text \<open>In a list sorted newest first, the first match is the newest and the last one the oldest.\<close>

lemma sorted_desc_first:
  assumes "sorted_wrt (\<lambda>a b. k b \<le> (k a :: 'k::linorder)) xs" "find P xs = Some c" "x \<in> set xs" "P x"
  shows "k x \<le> k c"
  using assms by (induction xs) (auto split: if_splits)

lemma sorted_desc_last:
  assumes "sorted_wrt (\<lambda>a b. k b \<le> (k a :: 'k::linorder)) xs" "filter P xs \<noteq> []" "x \<in> set xs" "P x"
  shows "k (last (filter P xs)) \<le> k x"
proof -
  let ?ys = "filter P xs"
  have "sorted_wrt (\<lambda>a b. k b \<le> k a) (butlast ?ys @ [last ?ys])"
    using sorted_wrt_filter [OF assms(1), of P] assms(2) by simp
  moreover have "x \<in> set (butlast ?ys @ [last ?ys])" using assms by simp
  ultimately show ?thesis by (auto simp: sorted_wrt_append)
qed

lemma hv_window_sorted: "sorted_wrt (\<lambda>a b. mr_recorded_at b \<le> mr_recorded_at a) (hv_window n table)"
  unfolding hv_window_def sql_limit_def using order_desc_sorted by (rule sorted_wrt_take)

text \<open>The two readings of a hypervisor row have different ages: the reported CPU usage is the
  newest of the last fifty CPU readings of that hypervisor, while the reported memory usage is the
  oldest of the last fifty memory readings, because the dictionary keyed by source is filled newest
  first and later entries overwrite earlier ones.\<close>

theorem hypervisor_memory_reading_is_oldest:
  assumes "set_enum enum" "get_hypervisor_usage enum table = Inr us" "u \<in> set us"
    and "m \<in> set (hv_window ''hypervisor_memory_usage'' table)" "me_source m = hu_hypervisor u"
  shows "(\<exists>c \<in> set (hv_window ''hypervisor_cpu_usage'' table). me_source c = hu_hypervisor u \<and>
       hu_cpu_usage u = me_value c \<and>
       (\<forall>x \<in> set (hv_window ''hypervisor_cpu_usage'' table). me_source x = me_source c \<longrightarrow> mr_recorded_at x \<le> mr_recorded_at c)) \<and>
     (\<exists>d \<in> set (hv_window ''hypervisor_memory_usage'' table). me_source d = hu_hypervisor u \<and>
       hu_memory_usage u = me_value d \<and> mr_recorded_at d \<le> mr_recorded_at m)"
proof -
  let ?cw = "hv_window ''hypervisor_cpu_usage'' table" and ?mw = "hv_window ''hypervisor_memory_usage'' table"
  let ?P = "\<lambda>r. me_source r = hu_hypervisor u"
  obtain src where src: "src \<in> set (enum (map me_source ?cw))" "source_usage table src = Inr u"
  proof -
    have "map (source_usage table) (enum (map me_source ?cw)) = map Inr us"
      using assms(2) by (simp only: get_hypervisor_usage_def mapE_outcome)
    then have "Inr u \<in> set (map (source_usage table) (enum (map me_source ?cw)))" using assms(3) by simp
    then show thesis using that by auto
  qed
  then have hv: "hu_hypervisor u = src" and cpu: "hu_cpu_usage u = usage_value (find ?P ?cw)"
      and mem: "hu_memory_usage u = usage_value (dict_get (by_source ?mw) src)"
    by (auto simp: source_usage_def Let_def split: sum.splits)
  have "src \<in> me_source ` set ?cw" using src(1) assms(1) by (simp add: set_enum_def)
  then obtain c where c: "find ?P ?cw = Some c"
    using hv by (cases "find ?P ?cw") (auto simp: find_None_iff)
  then have cin: "c \<in> set ?cw" "?P c" by (auto simp: find_Some_iff)
  have fne: "filter ?P ?mw \<noteq> []" using assms(4,5) by (auto simp: filter_empty_conv)
  then have "dict_get (by_source ?mw) src = Some (last (filter ?P ?mw))"
    using hv by (cases "filter ?P ?mw") (simp_all add: by_source_def dict_comp_get)
  with mem have mv: "hu_memory_usage u = me_value (last (filter ?P ?mw))" by (simp add: usage_value_def)
  have "last (filter ?P ?mw) \<in> set ?mw \<and> ?P (last (filter ?P ?mw))"
    using last_in_set [OF fne] by simp
  moreover have "mr_recorded_at (last (filter ?P ?mw)) \<le> mr_recorded_at m"
    using sorted_desc_last [OF hv_window_sorted fne assms(4)] assms(5) by simp
  moreover have "mr_recorded_at x \<le> mr_recorded_at c" if "x \<in> set ?cw" "me_source x = me_source c" for x
    using sorted_desc_first [OF hv_window_sorted c that(1)] that(2) cin(2) by simp
  ultimately show ?thesis using cin cpu c mv by (auto simp: usage_value_def)
qed

text \<open>A table with two memory readings of one hypervisor.\<close>

definition reading :: "string \<Rightarrow> rat \<Rightarrow> timestamp \<Rightarrow> metric_record" where
  "reading name v t = \<lparr>me_metric_name = name, me_source = ''h1'', me_value = v, me_unit = None, me_labels = None,
     me_project_id = None, me_resource_id = None, mr_recorded_at = t\<rparr>"

definition example_readings :: "metric_record list" where
  "example_readings = [reading ''hypervisor_cpu_usage'' 10 1, reading ''hypervisor_cpu_usage'' 20 2,
     reading ''hypervisor_memory_usage'' 30 1, reading ''hypervisor_memory_usage'' 40 2]"

lemma example_readings_usage:
  "get_hypervisor_usage remdups example_readings =
    Inr [\<lparr>hu_hypervisor = ''h1'', hu_cpu_usage = 20, hu_memory_usage = 30, hu_memory_total_mb = 0,
          hu_memory_used_mb = 0, hu_disk_usage = 0, hu_running_vms = 0\<rparr>]"
  by code_simp

lemma example_readings_window:
  "reading ''hypervisor_memory_usage'' 40 2 \<in> set (hv_window ''hypervisor_memory_usage'' example_readings)"
  by code_simp

theorem hypervisor_memory_reading_is_oldest_witness:
  "\<exists>d \<in> set (hv_window ''hypervisor_memory_usage'' example_readings). me_value d = 30 \<and> mr_recorded_at d \<le> 2"
  using hypervisor_memory_reading_is_oldest [OF set_enum_remdups example_readings_usage _ example_readings_window,
      of "\<lparr>hu_hypervisor = ''h1'', hu_cpu_usage = 20, hu_memory_usage = 30, hu_memory_total_mb = 0,
          hu_memory_used_mb = 0, hu_disk_usage = 0, hu_running_vms = 0\<rparr>"]
  by (auto simp: reading_def)

lemma count_sql_update:
  assumes "pk_unique pk rows" "sql_get pk i rows = Some r"
  shows "length (filter P (sql_update pk i f rows)) + (if P r then 1 else 0)
    = length (filter P rows) + (if P (f r) then 1 else 0)"
  using assms
proof (induction rows)
  case (Cons x rows)
  show ?case
  proof (cases "pk x = i")
    case True
    then have "i \<notin> pk ` set rows" using Cons.prems(1) by (auto simp: pk_unique_def)
    then have "sql_update pk i f rows = rows"
      by (force simp: sql_update_def intro: map_idI)
    then show ?thesis using True Cons.prems(2) by (simp add: sql_update_def sql_get_def)
  next
    case False
    with Cons.prems have "pk_unique pk rows" "sql_get pk i rows = Some r"
      by (auto simp: pk_unique_def sql_get_def)
    from Cons.IH [OF this] False show ?thesis by (auto simp: sql_update_def)
  qed
qed (simp add: sql_get_def)

text \<open>Resolving an alert: of a table with unique ids, exactly the named row becomes resolved with
  the time of the call, every other row is as before, and the number of active alerts on the
  dashboard drops by one if the alert was active and stays the same otherwise.\<close>

theorem resolve_alert_effect:
  assumes "pk_unique al_id table" "sql_get al_id i table = Some r"
  shows "sql_get al_id i (snd (resolve_alert now i table))
      = Some (r\<lparr>al_status := ''resolved'', al_resolved_at := Some now\<rparr>) \<and>
    (\<forall>j. j \<noteq> i \<longrightarrow> sql_get al_id j (snd (resolve_alert now i table)) = sql_get al_id j table) \<and>
    db_active_alerts (get_dashboard_summary None (snd (resolve_alert now i table)))
      = db_active_alerts (get_dashboard_summary None table) - (if al_status r = ''active'' then 1 else 0)"
  using count_sql_update [OF assms, of "\<lambda>r. al_status r = ''active''"
      "\<lambda>r. r\<lparr>al_status := ''resolved'', al_resolved_at := Some now\<rparr>"] assms(2)
  by (auto simp: resolve_alert_def Let_def alerts.get_upd get_dashboard_summary_def active_alert_count_def
      split: if_splits)

theorem resolve_alert_effect_witness:
  "db_active_alerts (get_dashboard_summary None (snd (resolve_alert 7 ''a''
     (snd (create_alert ''a'' 5 ''critical'' ''disk full'' ''h1'' None None None []))))) = 0"
  using resolve_alert_effect [of "snd (create_alert ''a'' 5 ''critical'' ''disk full'' ''h1'' None None None [])" "''a''"
      "\<lparr>al_id = ''a'', al_severity = ''critical'', al_title = ''disk full'', al_message = None, al_source = ''h1'',
        al_resource_type = None, al_resource_id = None, al_status = ''active'', al_created = 5, al_resolved_at = None\<rparr>" 7]
  by (simp add: create_alert_def sql_add_def pk_unique_def sql_get_def get_dashboard_summary_def active_alert_count_def Let_def)

end
