(* ===== verification/Task_Store.thy ===== *)
theory Task_Store
  imports Sql_Table Py_Datetime
begin

text \<open>
  The two task tables and the code that moves their rows through their states:
  \<^item> operation tasks (app/services/core/operation_task_service.py, app/models/operation_task.py);
  \<^item> migration tasks (app/services/orchestration/migration_service.py,
    app/models/migration_task.py), the VMware migration run of
    app/modules/archive/migration/manager.py and the clean-up job of app/worker.py.

  The ids (uuid4) and the current time are arguments; transactions succeed. The factories the
  migration manager is given (VMware and OpenStack clients, the file system) are actions on a state
  of their own.
\<close>

section \<open>Operation tasks\<close>

record operation_task =
  ot_id :: string
  ot_operation_type :: string
  ot_target_type :: string
  ot_target_id :: "string option"
  ot_state :: string
  ot_error_message :: "string option"
  ot_submitted_at :: timestamp
  ot_finished_at :: "timestamp option"

record operation_task_summary =
  os_id :: string
  os_operation_type :: string
  os_target_type :: string
  os_target_id :: "string option"
  os_state :: string
  os_error_message :: "string option"
  os_submitted_at :: "string option"
  os_finished_at :: "string option"

definition serialize_task :: "operation_task \<Rightarrow> operation_task_summary" where
  "serialize_task t =
    \<lparr>os_id = ot_id t, os_operation_type = ot_operation_type t, os_target_type = ot_target_type t,
     os_target_id = ot_target_id t, os_state = ot_state t, os_error_message = ot_error_message t,
     os_submitted_at = Some (isoformat (ot_submitted_at t)),
     os_finished_at = map_option isoformat (ot_finished_at t)\<rparr>"

definition create_task :: "string \<Rightarrow> timestamp \<Rightarrow> string \<Rightarrow> string \<Rightarrow> string option \<Rightarrow>
    (operation_task list, operation_task_summary) act" where
  "create_task uuid now operation_type target_type target_id table =
    (let t = \<lparr>ot_id = uuid, ot_operation_type = operation_type, ot_target_type = target_type,
              ot_target_id = target_id, ot_state = ''queued'', ot_error_message = None,
              ot_submitted_at = now, ot_finished_at = None\<rparr>
     in (Inr (serialize_task t), sql_add t table))"

abbreviation task_not_found :: exn where
  "task_not_found \<equiv> AppException ''Operation task not found'' 404 ''task_not_found''"

definition apply_update :: "timestamp \<Rightarrow> string \<Rightarrow> string option \<Rightarrow> string option \<Rightarrow> operation_task \<Rightarrow> operation_task" where
  "apply_update now state target_id error_message t =
    (let t1 = t\<lparr>ot_state := state\<rparr>;
         t2 = (case target_id of None \<Rightarrow> t1 | Some i \<Rightarrow> t1\<lparr>ot_target_id := Some i\<rparr>);
         t3 = t2\<lparr>ot_error_message := error_message\<rparr>
     in if state \<in> {''succeeded'', ''failed''} then t3\<lparr>ot_finished_at := Some now\<rparr> else t3)"

definition update_task :: "timestamp \<Rightarrow> string \<Rightarrow> string \<Rightarrow> string option \<Rightarrow> string option \<Rightarrow>
    (operation_task list, operation_task_summary) act" where
  "update_task now task_id state target_id error_message table = (case sql_get ot_id task_id table of
     None \<Rightarrow> (Inl task_not_found, table)
   | Some t \<Rightarrow> (Inr (serialize_task (apply_update now state target_id error_message t)),
       sql_update ot_id task_id (apply_update now state target_id error_message) table))"

definition get_task :: "string \<Rightarrow> (operation_task list, operation_task_summary) act" where
  "get_task task_id table = (case sql_get ot_id task_id table of
     None \<Rightarrow> (Inl task_not_found, table) | Some t \<Rightarrow> (Inr (serialize_task t), table))"

definition task_matches :: "string option \<Rightarrow> string option \<Rightarrow> operation_task \<Rightarrow> bool" where
  "task_matches state target_type t \<longleftrightarrow>
    (str_truthy state \<longrightarrow> Some (ot_state t) = state) \<and>
    (str_truthy target_type \<longrightarrow> Some (ot_target_type t) = target_type)"

definition list_tasks :: "int \<Rightarrow> string option \<Rightarrow> string option \<Rightarrow> operation_task list \<Rightarrow> operation_task_summary list" where
  "list_tasks limit state target_type table =
    map serialize_task (sql_limit limit (order_desc ot_submitted_at (filter (task_matches state target_type) table)))"

interpretation tasks: keyed_table ot_id "sql_get ot_id" sql_add "sql_update ot_id" "pk_unique ot_id"
  by (rule sql_keyed_table)

lemma apply_update_key [simp]: "ot_id (apply_update now st tid err t) = ot_id t"
  by (simp add: apply_update_def Let_def split: option.split)

lemma apply_update_fields [simp]:
  "ot_state (apply_update now st tid err t) = st"
  "ot_error_message (apply_update now st tid err t) = err"
  "ot_target_id (apply_update now st tid err t) = (case tid of None \<Rightarrow> ot_target_id t | Some i \<Rightarrow> Some i)"
  "ot_finished_at (apply_update now st tid err t) =
     (if st \<in> {''succeeded'', ''failed''} then Some now else ot_finished_at t)"
  "ot_submitted_at (apply_update now st tid err t) = ot_submitted_at t"
  "ot_operation_type (apply_update now st tid err t) = ot_operation_type t"
  "ot_target_type (apply_update now st tid err t) = ot_target_type t"
  by (simp_all add: apply_update_def Let_def split: option.split)

text \<open>The tables the service can reach: every history of creations (with fresh ids) and updates.\<close>

inductive task_table :: "operation_task list \<Rightarrow> bool" where
  task_empty: "task_table []"
| task_created: "task_table t \<Longrightarrow> sql_get ot_id uuid t = None \<Longrightarrow>
    task_table (snd (create_task uuid now operation_type target_type target_id t))"
| task_updated: "task_table t \<Longrightarrow> task_table (snd (update_task now task_id state target_id error_message t))"

definition terminal_dated :: "operation_task \<Rightarrow> bool" where
  "terminal_dated t \<longleftrightarrow> (ot_state t \<in> {''succeeded'', ''failed''} \<longrightarrow> ot_finished_at t \<noteq> None)"

section \<open>Migration tasks\<close>

record migration_task =
  mt_id :: string
  mt_migration_type :: string
  mt_source_ref :: string
  mt_destination_ref :: "string option"
  mt_resource_type :: string
  mt_resource_id :: "string option"
  mt_status :: string
  mt_progress :: int
  mt_error_message :: "string option"
  mt_created_at :: timestamp
  mt_finished_at :: "timestamp option"

record migration_summary =
  mg_id :: string
  mg_migration_type :: string
  mg_source_ref :: string
  mg_destination_ref :: "string option"
  mg_resource_type :: string
  mg_resource_id :: "string option"
  mg_status :: string
  mg_progress :: int
  mg_error_message :: "string option"
  mg_created_at :: "string option"
  mg_finished_at :: "string option"

definition serialize_migration :: "migration_task \<Rightarrow> migration_summary" where
  "serialize_migration t =
    \<lparr>mg_id = mt_id t, mg_migration_type = mt_migration_type t, mg_source_ref = mt_source_ref t,
     mg_destination_ref = mt_destination_ref t, mg_resource_type = mt_resource_type t,
     mg_resource_id = mt_resource_id t, mg_status = mt_status t, mg_progress = mt_progress t,
     mg_error_message = mt_error_message t, mg_created_at = Some (isoformat (mt_created_at t)),
     mg_finished_at = map_option isoformat (mt_finished_at t)\<rparr>"

abbreviation migration_not_found :: exn where
  "migration_not_found \<equiv> AppException ''Migration task not found'' 404 ''migration_not_found''"

record migration_create_request =
  mc_migration_type :: string
  mc_source_ref :: string
  mc_destination_ref :: "string option"
  mc_resource_type :: string
  mc_resource_id :: "string option"

definition create_migration :: "string \<Rightarrow> timestamp \<Rightarrow> migration_create_request \<Rightarrow>
    (migration_task list, migration_summary) act" where
  "create_migration uuid now payload table =
    (let t = \<lparr>mt_id = uuid, mt_migration_type = mc_migration_type payload, mt_source_ref = mc_source_ref payload,
              mt_destination_ref = mc_destination_ref payload, mt_resource_type = mc_resource_type payload,
              mt_resource_id = mc_resource_id payload, mt_status = ''queued'', mt_progress = 0,
              mt_error_message = None, mt_created_at = now, mt_finished_at = None\<rparr>
     in (Inr (serialize_migration t), sql_add t table))"

definition get_migration :: "string \<Rightarrow> (migration_task list, migration_summary) act" where
  "get_migration migration_id table = (case sql_get mt_id migration_id table of
     None \<Rightarrow> (Inl migration_not_found, table) | Some t \<Rightarrow> (Inr (serialize_migration t), table))"

definition migration_matches :: "string option \<Rightarrow> string option \<Rightarrow> migration_task \<Rightarrow> bool" where
  "migration_matches status migration_type t \<longleftrightarrow>
    (str_truthy status \<longrightarrow> Some (mt_status t) = status) \<and>
    (str_truthy migration_type \<longrightarrow> Some (mt_migration_type t) = migration_type)"

definition list_migrations :: "string option \<Rightarrow> string option \<Rightarrow> int \<Rightarrow> migration_task list \<Rightarrow> migration_summary list" where
  "list_migrations status migration_type limit table =
    map serialize_migration (sql_limit limit (order_desc mt_created_at
      (filter (migration_matches status migration_type) table)))"

definition apply_progress :: "timestamp \<Rightarrow> int \<Rightarrow> string option \<Rightarrow> migration_task \<Rightarrow> migration_task" where
  "apply_progress now progress status t =
    (let t1 = t\<lparr>mt_progress := progress\<rparr>;
         t2 = (if str_truthy status then t1\<lparr>mt_status := the status\<rparr> else t1)
     in if status \<in> {Some ''succeeded'', Some ''failed''} then t2\<lparr>mt_finished_at := Some now\<rparr> else t2)"

definition update_migration_progress :: "timestamp \<Rightarrow> string \<Rightarrow> int \<Rightarrow> string option \<Rightarrow>
    (migration_task list, migration_summary) act" where
  "update_migration_progress now migration_id progress status table = (case sql_get mt_id migration_id table of
     None \<Rightarrow> (Inl migration_not_found, table)
   | Some t \<Rightarrow> (Inr (serialize_migration (apply_progress now progress status t)),
       sql_update mt_id migration_id (apply_progress now progress status) table))"

interpretation migrations: keyed_table mt_id "sql_get mt_id" sql_add "sql_update mt_id" "pk_unique mt_id"
  by (rule sql_keyed_table)

text \<open>cleanup_stale_migrations_task: rows in progress that were created more than an hour ago.\<close>

definition is_stale :: "timestamp \<Rightarrow> migration_task \<Rightarrow> bool" where
  "is_stale now t \<longleftrightarrow> mt_status t = ''in_progress'' \<and> mt_created_at t < now - hours 1"

definition cleanup_stale_migrations :: "timestamp \<Rightarrow> migration_task list \<Rightarrow> migration_task list" where
  "cleanup_stale_migrations now table =
    map (\<lambda>t. if is_stale now t then t\<lparr>mt_status := ''failed'', mt_progress := 0\<rparr> else t) table"

section \<open>The VMware migration run\<close>

text \<open>The factories: each call may raise and changes the state 'f of the outside world. The ids are
  the id attributes of the objects returned; None is an object that is false in Python.\<close>

record 'f migration_env =
  mv_get_vm_by_name :: "string \<Rightarrow> ('f, string) act"
  mv_makedirs :: "string \<Rightarrow> ('f, unit) act"
  mv_export_vm_disk :: "string \<Rightarrow> string \<Rightarrow> ('f, string) act"
  mv_open :: "string \<Rightarrow> ('f, unit) act"
  mv_create_image :: "string \<Rightarrow> string \<Rightarrow> ('f, string) act"
  mv_get_flavor :: "string \<Rightarrow> ('f, string option) act"
  mv_get_network :: "string \<Rightarrow> ('f, string option) act"
  mv_create_server :: "string \<Rightarrow> string \<Rightarrow> string \<Rightarrow> string \<Rightarrow> ('f, string) act"

record 'f migration_world =
  mw_tasks :: "migration_task list"
  mw_outside :: 'f
  mw_commits :: "(string \<times> int) list"

definition outsideE :: "('f, 'a) act \<Rightarrow> ('f migration_world, 'a) act" where [effect_defs]:
  "outsideE m w = (case m (mw_outside w) of (r, f') \<Rightarrow> (r, w\<lparr>mw_outside := f'\<rparr>))"

text \<open>Assign to the task and commit; mw_commits records status and progress of every commit.\<close>

definition commit_task :: "string \<Rightarrow> (migration_task \<Rightarrow> migration_task) \<Rightarrow> ('f migration_world, unit) act" where
  "commit_task i f = updE (\<lambda>w.
     let tasks = sql_update mt_id i f (mw_tasks w)
     in w\<lparr>mw_tasks := tasks,
          mw_commits := mw_commits w @ (case sql_get mt_id i tasks of
            None \<Rightarrow> [] | Some t \<Rightarrow> [(mt_status t, mt_progress t)])\<rparr>)"

definition run_migration :: "'f migration_env \<Rightarrow> string \<Rightarrow> string \<Rightarrow> string \<Rightarrow> string \<Rightarrow> string \<Rightarrow>
    ('f migration_world, unit) act" where
  "run_migration env disk_dir task_id vm_name target_flavor target_network =
    thenE (commit_task task_id (\<lambda>t. t\<lparr>mt_status := ''in_progress'', mt_progress := 10\<rparr>))
    (bindE (outsideE (mv_get_vm_by_name env vm_name)) (\<lambda>vmware_vm.
    thenE (commit_task task_id (\<lambda>t. t\<lparr>mt_progress := 30\<rparr>))
    (thenE (outsideE (mv_makedirs env disk_dir))
    (bindE (outsideE (mv_export_vm_disk env vmware_vm disk_dir)) (\<lambda>exported_disk_path.
    thenE (commit_task task_id (\<lambda>t. t\<lparr>mt_progress := 50\<rparr>))
    (thenE (outsideE (mv_open env exported_disk_path))
    (bindE (outsideE (mv_create_image env (''migrated-'' @ vm_name) exported_disk_path)) (\<lambda>image.
    thenE (commit_task task_id (\<lambda>t. t\<lparr>mt_progress := 70\<rparr>))
    (bindE (outsideE (mv_get_flavor env target_flavor)) (\<lambda>flavor.
    case flavor of
      None \<Rightarrow> raiseE (AppException (''Target flavor '' @ [CHR 0x27] @ target_flavor @ [CHR 0x27] @ '' not found in OpenStack'') 400 ''app_error'')
    | Some flavor_id \<Rightarrow>
    bindE (outsideE (mv_get_network env target_network)) (\<lambda>network.
    case network of
      None \<Rightarrow> raiseE (AppException (''Target network '' @ [CHR 0x27] @ target_network @ [CHR 0x27] @ '' not found in OpenStack'') 400 ''app_error'')
    | Some network_id \<Rightarrow>
    bindE (outsideE (mv_create_server env (''migrated-'' @ vm_name) image flavor_id network_id)) (\<lambda>server.
    commit_task task_id (\<lambda>t. t\<lparr>mt_progress := 100, mt_status := ''completed'', mt_destination_ref := Some server\<rparr>)))))))))))))"

definition execute_vmware_migration :: "'f migration_env \<Rightarrow> string \<Rightarrow> string \<Rightarrow> string \<Rightarrow> string \<Rightarrow> string \<Rightarrow>
    ('f migration_world, unit) act" where
  "execute_vmware_migration env disk_dir task_id vm_name target_flavor target_network w =
    (if sql_get mt_id task_id (mw_tasks w) = None then (Inr (), w)
     else tryE (run_migration env disk_dir task_id vm_name target_flavor target_network)
       (\<lambda>exc. thenE (commit_task task_id (\<lambda>t. t\<lparr>mt_status := ''failed'', mt_progress := 0\<rparr>))
          (raiseE (AppException (''Migration failed: '' @ exn_str exc) 400 ''app_error''))) w)"

section \<open>Operation tasks: properties\<close>

lemma create_task_table: "snd (create_task uuid now op tt tid t) = sql_add
    \<lparr>ot_id = uuid, ot_operation_type = op, ot_target_type = tt, ot_target_id = tid, ot_state = ''queued'',
     ot_error_message = None, ot_submitted_at = now, ot_finished_at = None\<rparr> t"
  by (simp add: create_task_def Let_def)

lemma update_task_table: "snd (update_task now i st tid err t) =
    (if sql_get ot_id i t = None then t else sql_update ot_id i (apply_update now st tid err) t)"
  by (auto simp: update_task_def split: option.split)

lemma task_table_unique: "task_table t \<Longrightarrow> pk_unique ot_id t"
proof (induction rule: task_table.induct)
  case (task_created t uuid now op tt tid)
  then show ?case by (simp add: create_task_table tasks.wf_add)
next
  case (task_updated t now i st tid err)
  then show ?case by (simp add: update_task_table tasks.wf_upd)
qed (simp add: pk_unique_def)

lemma task_table_dated: "task_table t \<Longrightarrow> r \<in> set t \<Longrightarrow> terminal_dated r"
proof (induction arbitrary: r rule: task_table.induct)
  case (task_created t uuid now op tt tid)
  then show ?case by (auto simp: create_task_table sql_add_def terminal_dated_def)
next
  case (task_updated t now i st tid err)
  then show ?case
    by (auto simp: update_task_table sql_update_def terminal_dated_def split: if_splits)
qed simp

text \<open>C32: In every table the operation task service can produce from the empty one, by any sequence of
  creations with fresh ids and updates to any state, ids are unique and every task in a terminal
  state (succeeded or failed) carries the time it finished.\<close>

theorem operation_tasks_invariant:
  assumes "task_table t"
  shows "pk_unique ot_id t \<and> (\<forall>r \<in> set t. ot_state r \<in> {''succeeded'', ''failed''} \<longrightarrow> ot_finished_at r \<noteq> None)"
  using task_table_unique [OF assms] task_table_dated [OF assms] by (auto simp: terminal_dated_def)

theorem operation_tasks_invariant_witness:
  "\<exists>r \<in> set (snd (update_task 9 ''a'' ''failed'' None (Some ''boom'') (snd (create_task ''a'' 5 ''migrate'' ''vm'' None [])))).
     ot_state r = ''failed'' \<and> ot_finished_at r \<noteq> None"
proof -
  let ?t = "snd (update_task 9 ''a'' ''failed'' None (Some ''boom'') (snd (create_task ''a'' 5 ''migrate'' ''vm'' None [])))"
  have "task_table ?t" by (rule task_updated, rule task_created, rule task_empty) (simp add: sql_get_def)
  from operation_tasks_invariant [OF this] show ?thesis
    by (simp add: update_task_def create_task_def sql_get_def sql_add_def sql_update_def apply_update_def Let_def)
qed

text \<open>What the service answers is what it stores: after a successful update the task read back by
  its id is the summary the update returned, with the requested state and error message, every other
  task is unchanged, and an update of an unknown id is a 404 that changes nothing.\<close>

theorem update_task_read_back:
  assumes "sql_get ot_id i table = Some t"
  shows "fst (update_task now i state target_id err table) = fst (get_task i (snd (update_task now i state target_id err table))) \<and>
    (\<exists>s. fst (update_task now i state target_id err table) = Inr s \<and> os_state s = state \<and> os_error_message s = err) \<and>
    (\<forall>j. j \<noteq> i \<longrightarrow> get_task j (snd (update_task now i state target_id err table))
        = (fst (get_task j table), snd (update_task now i state target_id err table)))"
  using assms
  by (auto simp: update_task_def get_task_def tasks.get_upd serialize_task_def split: option.split)

theorem update_task_read_back_witness:
  "\<exists>s. fst (get_task ''a'' (snd (update_task 9 ''a'' ''failed'' None (Some ''boom'')
      (snd (create_task ''a'' 5 ''migrate'' ''vm'' None []))))) = Inr s \<and> os_state s = ''failed''"
  using update_task_read_back [of "''a''" "snd (create_task ''a'' 5 ''migrate'' ''vm'' None [])" _ 9 "''failed''" None "Some ''boom''"]
  by (simp add: create_task_def sql_get_def sql_add_def Let_def) metis

section \<open>The migration run: properties\<close>

definition stages :: "(string \<times> int) list" where
  "stages = [(''in_progress'', 10), (''in_progress'', 30), (''in_progress'', 50), (''in_progress'', 70)]"

text \<open>Stage k of the run of task i that started in w0.\<close>

definition at_stage :: "string \<Rightarrow> 'f migration_world \<Rightarrow> nat \<Rightarrow> 'f migration_world \<Rightarrow> bool" where
  "at_stage i w0 k w \<longleftrightarrow> mw_commits w = mw_commits w0 @ take k stages \<and> k \<le> 4 \<and>
     (\<forall>j. j \<noteq> i \<longrightarrow> sql_get mt_id j (mw_tasks w) = sql_get mt_id j (mw_tasks w0)) \<and>
     (\<exists>t. sql_get mt_id i (mw_tasks w) = Some t \<and> (0 < k \<longrightarrow> mt_status t = ''in_progress''))"

definition run_post :: "string \<Rightarrow> 'f migration_world \<Rightarrow> (exn + unit) \<times> 'f migration_world \<Rightarrow> bool" where
  "run_post i w0 r \<longleftrightarrow> (case r of
     (Inl e, w) \<Rightarrow> \<exists>k. at_stage i w0 k w
   | (Inr _, w) \<Rightarrow> mw_commits w = mw_commits w0 @ stages @ [(''completed'', 100)] \<and>
       (\<forall>j. j \<noteq> i \<longrightarrow> sql_get mt_id j (mw_tasks w) = sql_get mt_id j (mw_tasks w0)) \<and>
       (\<exists>t. sql_get mt_id i (mw_tasks w) = Some t \<and> mt_status t = ''completed'' \<and> mt_progress t = 100 \<and>
            mt_destination_ref t \<noteq> None))"

lemma commit_task_eq:
  assumes "sql_get mt_id i (mw_tasks w) = Some t" "\<And>t. mt_id (f t) = mt_id t"
  shows "commit_task i f w = (Inr (), w\<lparr>mw_tasks := sql_update mt_id i f (mw_tasks w),
    mw_commits := mw_commits w @ [(mt_status (f t), mt_progress (f t))]\<rparr>)"
  using assms by (simp add: commit_task_def updE_def Let_def migrations.get_upd)

lemma run_post_outside:
  assumes "at_stage i w0 k w" "\<And>x w'. at_stage i w0 k w' \<Longrightarrow> run_post i w0 (f x w')"
  shows "run_post i w0 (bindE (outsideE m) f w)"
proof -
  obtain r f' where m: "m (mw_outside w) = (r, f')" by fastforce
  have "at_stage i w0 k (w\<lparr>mw_outside := f'\<rparr>)" using assms(1) by (simp add: at_stage_def)
  with assms(2) show ?thesis
    by (cases r) (auto simp: bindE_def outsideE_def m run_post_def)
qed

lemma run_post_outside_then:
  assumes "at_stage i w0 k w" "\<And>w'. at_stage i w0 k w' \<Longrightarrow> run_post i w0 (K w')"
  shows "run_post i w0 (thenE (outsideE m) K w)"
  unfolding thenE_bindE using assms by (rule run_post_outside)

lemma run_post_commit:
  assumes "at_stage i w0 k w" "k < 4" "\<And>t. mt_id (f t) = mt_id t"
    and "\<And>t. (0 < k \<longrightarrow> mt_status t = ''in_progress'') \<Longrightarrow> (mt_status (f t), mt_progress (f t)) = stages ! k"
    and "\<And>w'. at_stage i w0 (Suc k) w' \<Longrightarrow> run_post i w0 (K w')"
  shows "run_post i w0 (thenE (commit_task i f) K w)"
proof -
  obtain t where t: "sql_get mt_id i (mw_tasks w) = Some t" "0 < k \<longrightarrow> mt_status t = ''in_progress''"
    using assms(1) by (auto simp: at_stage_def)
  let ?w = "w\<lparr>mw_tasks := sql_update mt_id i f (mw_tasks w),
    mw_commits := mw_commits w @ [(mt_status (f t), mt_progress (f t))]\<rparr>"
  have st: "(mt_status (f t), mt_progress (f t)) = stages ! k" using assms(4) t(2) by blast
  have len: "k < length stages" using assms(2) by (simp add: stages_def)
  have "fst (stages ! k) = ''in_progress''"
  proof -
    from assms(2) consider "k = 0" | "k = 1" | "k = 2" | "k = 3" by linarith
    then show ?thesis by cases (simp_all add: stages_def)
  qed
  then have "mt_status (f t) = ''in_progress''" using st by (metis fst_conv)
  then have "at_stage i w0 (Suc k) ?w"
    using assms(1,2,3) t(1) st len
    by (auto simp: at_stage_def migrations.get_upd take_Suc_conv_app_nth)
  then show ?thesis
    using assms(5) by (simp add: thenE_def commit_task_eq [OF t(1) assms(3)])
qed

lemma run_post_raise: "at_stage i w0 k w \<Longrightarrow> run_post i w0 (raiseE e w)"
  by (auto simp: run_post_def raiseE_def)

lemma run_post_final:
  assumes "at_stage i w0 4 w"
  shows "run_post i w0 (commit_task i (\<lambda>t. t\<lparr>mt_progress := 100, mt_status := ''completed'', mt_destination_ref := Some server\<rparr>) w)"
proof -
  obtain t where t: "sql_get mt_id i (mw_tasks w) = Some t" using assms by (auto simp: at_stage_def)
  show ?thesis using assms t
    by (subst commit_task_eq [OF t]) (auto simp: run_post_def at_stage_def migrations.get_upd stages_def)
qed

lemma run_migration_post:
  assumes "at_stage i w 0 w"
  shows "run_post i w (run_migration env d i vm fl nw w)"
  unfolding run_migration_def
  by (rule assms | (rule run_post_outside, assumption) | (rule run_post_outside_then, assumption) |
      (rule run_post_final, simp add: numeral_eq_Suc) | (rule run_post_raise, assumption) |
      (rule run_post_commit, (assumption | rule assms), simp, simp, simp add: stages_def) |
      (simp only: option.case split: option.split, intro conjI impI allI))+

text \<open>What a finished run leaves behind, for a result r.\<close>

definition migration_outcome :: "string \<Rightarrow> 'f migration_world \<Rightarrow> (exn + unit) \<times> 'f migration_world \<Rightarrow> bool" where
  "migration_outcome i w r \<longleftrightarrow> (case r of
     (Inr _, w') \<Rightarrow> mw_commits w' = mw_commits w @ stages @ [(''completed'', 100)] \<and>
       (\<exists>t. sql_get mt_id i (mw_tasks w') = Some t \<and> mt_status t = ''completed'' \<and> mt_progress t = 100 \<and>
            mt_destination_ref t \<noteq> None)
   | (Inl e, w') \<Rightarrow> (\<exists>reason. e = AppException (''Migration failed: '' @ reason) 400 ''app_error'') \<and>
       (\<exists>k \<le> 4. mw_commits w' = mw_commits w @ take k stages @ [(''failed'', 0)]) \<and>
       (\<exists>t. sql_get mt_id i (mw_tasks w') = Some t \<and> mt_status t = ''failed'' \<and> mt_progress t = 0))"

lemma failed_commit:
  assumes "at_stage i w0 k w"
  shows "migration_outcome i w0 (thenE (commit_task i (\<lambda>t. t\<lparr>mt_status := ''failed'', mt_progress := 0\<rparr>))
      (raiseE (AppException (''Migration failed: '' @ reason) 400 ''app_error'')) w) \<and>
    (\<forall>j. j \<noteq> i \<longrightarrow> sql_get mt_id j (mw_tasks (snd (thenE (commit_task i (\<lambda>t. t\<lparr>mt_status := ''failed'', mt_progress := 0\<rparr>))
      (raiseE (AppException (''Migration failed: '' @ reason) 400 ''app_error'')) w))) = sql_get mt_id j (mw_tasks w0))"
proof -
  obtain t where t: "sql_get mt_id i (mw_tasks w) = Some t" and c: "mw_commits w = mw_commits w0 @ take k stages" "k \<le> 4"
    using assms by (auto simp: at_stage_def)
  show ?thesis using t c assms
    by (simp add: thenE_def commit_task_eq [OF t] raiseE_def migration_outcome_def at_stage_def migrations.get_upd) blast
qed

text \<open>C8: A VMware migration run always leaves its task in a definite state. Whatever the VMware and
  OpenStack clients do, a run that returns has committed the stages 10, 30, 50 and 70 in order and
  then status completed with progress 100 and the new server as destination; a run that raises has
  committed a prefix of these stages and then status failed with progress 0, and the exception is
  an AppException that says so. No other task is touched.\<close>

theorem migration_run_outcome:
  assumes "sql_get mt_id i (mw_tasks w) = Some t"
  shows "migration_outcome i w (execute_vmware_migration env disk_dir i vm_name target_flavor target_network w) \<and>
    (\<forall>j. j \<noteq> i \<longrightarrow> sql_get mt_id j (mw_tasks (snd (execute_vmware_migration env disk_dir i vm_name target_flavor target_network w)))
       = sql_get mt_id j (mw_tasks w))"
proof -
  have "at_stage i w 0 w" using assms by (simp add: at_stage_def)
  from run_migration_post [OF this, of env disk_dir vm_name target_flavor target_network]
  have post: "run_post i w (run_migration env disk_dir i vm_name target_flavor target_network w)" .
  show ?thesis
  proof (cases "run_migration env disk_dir i vm_name target_flavor target_network w")
    case (Pair r w')
    show ?thesis
    proof (cases r)
      case (Inr u)
      then show ?thesis using post Pair assms
        by (auto simp: execute_vmware_migration_def tryE_def run_post_def migration_outcome_def)
    next
      case (Inl e)
      then obtain k where "at_stage i w k w'" using post Pair by (auto simp: run_post_def)
      from failed_commit [OF this, of "exn_str e"] show ?thesis
        using Pair Inl assms by (simp add: execute_vmware_migration_def tryE_def)
    qed
  qed
qed

text \<open>A run whose export of the disk fails.\<close>

definition failing_env :: "unit migration_env" where
  "failing_env = \<lparr>mv_get_vm_by_name = (\<lambda>_. retE ''vm''), mv_makedirs = (\<lambda>_. retE ()),
     mv_export_vm_disk = (\<lambda>_ _. raiseE (VMwareClientException ''no space'')), mv_open = (\<lambda>_. retE ()),
     mv_create_image = (\<lambda>_ _. retE ''img''), mv_get_flavor = (\<lambda>_. retE (Some ''f'')),
     mv_get_network = (\<lambda>_. retE (Some ''n'')), mv_create_server = (\<lambda>_ _ _ _. retE ''srv'')\<rparr>"

definition one_task :: "unit migration_world" where
  "one_task = \<lparr>mw_tasks = snd (create_migration ''m1'' 5 \<lparr>mc_migration_type = ''vmware'', mc_source_ref = ''vm'',
      mc_destination_ref = None, mc_resource_type = ''server'', mc_resource_id = None\<rparr> []),
     mw_outside = (), mw_commits = []\<rparr>"

theorem migration_run_outcome_witness:
  "migration_outcome ''m1'' one_task (execute_vmware_migration failing_env ''/d'' ''m1'' ''vm'' ''f'' ''n'' one_task) \<and>
   mw_commits (snd (execute_vmware_migration failing_env ''/d'' ''m1'' ''vm'' ''f'' ''n'' one_task))
     = [(''in_progress'', 10), (''in_progress'', 30), (''failed'', 0)]"
proof
  show "migration_outcome ''m1'' one_task (execute_vmware_migration failing_env ''/d'' ''m1'' ''vm'' ''f'' ''n'' one_task)"
    using migration_run_outcome [of "''m1''" one_task]
    by (simp add: one_task_def create_migration_def Let_def sql_add_def sql_get_def)
  show "mw_commits (snd (execute_vmware_migration failing_env ''/d'' ''m1'' ''vm'' ''f'' ''n'' one_task))
     = [(''in_progress'', 10), (''in_progress'', 30), (''failed'', 0)]"
    by code_simp
qed

text \<open>The clean-up job fails exactly the stale tasks: afterwards no task is in progress that was
  created more than an hour before, a second run changes nothing, the tasks that were not stale are
  unchanged, and no task gets a finishing time.\<close>

theorem cleanup_fails_stale_only:
  "filter (is_stale now) (cleanup_stale_migrations now table) = [] \<and>
   cleanup_stale_migrations now (cleanup_stale_migrations now table) = cleanup_stale_migrations now table \<and>
   filter (\<lambda>t. \<not> is_stale now t) table
     = map snd (filter (\<lambda>(t, u). \<not> is_stale now t) (zip table (cleanup_stale_migrations now table))) \<and>
   map mt_finished_at (cleanup_stale_migrations now table) = map mt_finished_at table"
proof (intro conjI)
  show "filter (is_stale now) (cleanup_stale_migrations now table) = []"
    by (auto simp: cleanup_stale_migrations_def filter_empty_conv is_stale_def)
  show "cleanup_stale_migrations now (cleanup_stale_migrations now table) = cleanup_stale_migrations now table"
    by (simp add: cleanup_stale_migrations_def is_stale_def)
  show "filter (\<lambda>t. \<not> is_stale now t) table
     = map snd (filter (\<lambda>(t, u). \<not> is_stale now t) (zip table (cleanup_stale_migrations now table)))"
    by (induction table) (simp_all add: cleanup_stale_migrations_def)
  show "map mt_finished_at (cleanup_stale_migrations now table) = map mt_finished_at table"
    by (simp add: cleanup_stale_migrations_def)
qed

end
