(* ===== verification/Orchestration.thy ===== *)
theory Orchestration
  imports Sql_Table Py_Datetime Py_Float
begin

text \<open>
  The table-backed orchestration services: clusters (app/services/orchestration/cluster_service.py),
  scaling policies and scheduled tasks (operations_service.py in the same directory) and storage
  pools (app/services/openstack/storage_service.py). Each table has an id and a unique name; the
  locale named_table extends keyed_table by deletion and by the unique constraint on the name, and
  each of the four tables interprets it.

  An insert that violates the unique constraint is the IntegrityError of the database driver.
\<close>

section \<open>Tables with a unique name\<close>

definition sql_insert_named :: "('r \<Rightarrow> string) \<Rightarrow> 'r \<Rightarrow> ('r list, unit) act" where
  "sql_insert_named name r rows =
    (if name r \<in> name ` set rows
     then (Inl (PyException ''IntegrityError'' ''duplicate key value violates unique constraint''), rows)
     else (Inr (), sql_add r rows))"

definition names_unique :: "('r \<Rightarrow> string) \<Rightarrow> 'r list \<Rightarrow> bool" where
  "names_unique name rows \<longleftrightarrow> distinct (map name rows)"

locale named_table = keyed_table pk get add upd wf
  for pk :: "'r \<Rightarrow> string" and get :: "string \<Rightarrow> 'r list \<Rightarrow> 'r option" and add upd wf +
  fixes name :: "'r \<Rightarrow> string"
    and insert_named :: "'r \<Rightarrow> ('r list, unit) act"
    and del :: "string \<Rightarrow> 'r list \<Rightarrow> 'r list"
  assumes get_del: "get i (del j t) = (if i = j then None else get i t)"
    and insert_new: "name r \<notin> name ` set t \<Longrightarrow> insert_named r t = (Inr (), add r t)"
    and insert_dup: "name r \<in> name ` set t \<Longrightarrow> \<exists>e. insert_named r t = (Inl e, t)"
    and set_add: "set (add r t) = insert r (set t)"
    and unique_add: "names_unique name t \<Longrightarrow> name r \<notin> name ` set t \<Longrightarrow> names_unique name (add r t)"
    and unique_del: "names_unique name t \<Longrightarrow> names_unique name (del j t)"
begin

lemma insert_keeps_unique: "names_unique name t \<Longrightarrow> names_unique name (snd (insert_named r t))"
  using insert_new [of r t] insert_dup [of r t] unique_add [of t r]
  by (cases "name r \<in> name ` set t") auto

lemma insert_then_read:
  "get (pk r) t = None \<Longrightarrow> insert_named r t = (Inr (), t') \<Longrightarrow> get (pk r) t' = Some r"
  using insert_new [of r t] insert_dup [of r t] read_created [of r t]
  by (cases "name r \<in> name ` set t") auto

lemma second_insert_fails:
  "insert_named r t = (Inr (), t') \<Longrightarrow> name r' = name r \<Longrightarrow> \<exists>e. insert_named r' t' = (Inl e, t')"
  using insert_new [of r t] insert_dup [of r t] insert_dup [of r' t'] set_add [of r t]
  by (cases "name r \<in> name ` set t") auto

end

lemma sql_named_table:
  "named_table pk (sql_get pk) sql_add (sql_update pk) (pk_unique pk) name (sql_insert_named name) (sql_delete pk)"
proof (rule named_table.intro [OF sql_keyed_table])
  show "named_table_axioms (sql_get pk) sql_add name (sql_insert_named name) (sql_delete pk)"
  proof
    show "sql_get pk i (sql_delete pk j t) = (if i = j then None else sql_get pk i t)" for i j t
      by (induction t) (auto simp: sql_get_def sql_delete_def)
    show "name r \<notin> name ` set t \<Longrightarrow> sql_insert_named name r t = (Inr (), sql_add r t)" for r t
      by (simp add: sql_insert_named_def)
    show "name r \<in> name ` set t \<Longrightarrow> \<exists>e. sql_insert_named name r t = (Inl e, t)" for r t
      by (simp add: sql_insert_named_def)
    show "set (sql_add r t) = insert r (set t)" for r t by (simp add: sql_add_def)
    show "names_unique name t \<Longrightarrow> name r \<notin> name ` set t \<Longrightarrow> names_unique name (sql_add r t)" for t r
      by (simp add: names_unique_def sql_add_def)
    show "names_unique name t \<Longrightarrow> names_unique name (sql_delete pk j t)" for t j
      by (simp add: names_unique_def sql_delete_def distinct_map_filter)
  qed
qed

section \<open>Clusters\<close>

record cluster_deployment =
  cl_id :: string
  cl_name :: string
  cl_description :: "string option"
  cl_cluster_type :: string
  cl_status :: string
  cl_node_count :: int
  cl_extra_config :: "(string, string) dict"
  cl_created_at :: timestamp

record cluster_summary =
  cu_id :: string
  cu_name :: string
  cu_description :: "string option"
  cu_cluster_type :: string
  cu_status :: string
  cu_node_count :: int
  cu_created_at :: "string option"

definition serialize_cluster :: "cluster_deployment \<Rightarrow> cluster_summary" where
  "serialize_cluster c =
    \<lparr>cu_id = cl_id c, cu_name = cl_name c, cu_description = cl_description c, cu_cluster_type = cl_cluster_type c,
     cu_status = cl_status c, cu_node_count = cl_node_count c, cu_created_at = Some (isoformat (cl_created_at c))\<rparr>"

interpretation clusters: named_table cl_id "sql_get cl_id" sql_add "sql_update cl_id" "pk_unique cl_id"
    cl_name "sql_insert_named cl_name" "sql_delete cl_id"
  by (rule sql_named_table)

definition list_clusters :: "cluster_deployment list \<Rightarrow> cluster_summary list" where
  "list_clusters table = map serialize_cluster (order_desc cl_created_at table)"

abbreviation cluster_not_found :: exn where
  "cluster_not_found \<equiv> AppException ''Cluster not found'' 404 ''cluster_not_found''"

definition get_cluster :: "string \<Rightarrow> (cluster_deployment list, cluster_summary) act" where
  "get_cluster cluster_id table = (case sql_get cl_id cluster_id table of
     None \<Rightarrow> (Inl cluster_not_found, table) | Some c \<Rightarrow> (Inr (serialize_cluster c), table))"

record cluster_create_request =
  cc_name :: string
  cc_description :: "string option"
  cc_cluster_type :: string
  cc_node_count :: int
  cc_metadata :: "(string, string) dict"

definition create_cluster :: "string \<Rightarrow> timestamp \<Rightarrow> cluster_create_request \<Rightarrow>
    (cluster_deployment list, cluster_summary) act" where
  "create_cluster uuid now payload table =
    (case filter (\<lambda>c. cl_name c = cc_name payload) table of
       [] \<Rightarrow>
        (let c = \<lparr>cl_id = uuid, cl_name = cc_name payload, cl_description = cc_description payload,
                  cl_cluster_type = cc_cluster_type payload, cl_status = ''active'',
                  cl_node_count = cc_node_count payload, cl_extra_config = cc_metadata payload,
                  cl_created_at = now\<rparr>
         in bindE (sql_insert_named cl_name c) (\<lambda>_. retE (serialize_cluster c)) table)
     | [_] \<Rightarrow> (Inl (AppException (''Cluster '' @ [CHR 0x27] @ cc_name payload @ [CHR 0x27] @ '' already exists'')
                  409 ''cluster_already_exists''), table)
     | _ \<Rightarrow> (Inl (PyException ''MultipleResultsFound'' ''Multiple rows were found when one or none was required''), table))"

definition delete_cluster :: "string \<Rightarrow> (cluster_deployment list, unit) act" where
  "delete_cluster cluster_id table = (case sql_get cl_id cluster_id table of
     None \<Rightarrow> (Inl cluster_not_found, table) | Some _ \<Rightarrow> (Inr (), sql_delete cl_id cluster_id table))"

record batch_deploy_request =
  bd_template_name :: string
  bd_instance_count :: int
  bd_image_id :: string
  bd_flavor_id :: string
  bd_network_id :: string
  bd_key_name :: "string option"
  bd_availability_zone :: "string option"

record deploy_server_request =
  dr_name :: string
  dr_image_id :: string
  dr_flavor_id :: string
  dr_network_id :: string
  dr_key_name :: "string option"
  dr_availability_zone :: "string option"
  dr_metadata :: "(string, string) dict"

record batch_deploy_response =
  br_template_name :: string
  br_requested :: int
  br_created :: int

text \<open>The compute service is optional; its create_server is an action on a state 'c of its own.
  The loop stops at the first exception.\<close>

definition deploy_request :: "string \<Rightarrow> batch_deploy_request \<Rightarrow> nat \<Rightarrow> deploy_server_request" where
  "deploy_request cluster_id payload i =
    \<lparr>dr_name = bd_template_name payload @ ''-'' @ str_int (int i + 1), dr_image_id = bd_image_id payload,
     dr_flavor_id = bd_flavor_id payload, dr_network_id = bd_network_id payload, dr_key_name = bd_key_name payload,
     dr_availability_zone = bd_availability_zone payload,
     dr_metadata = [(''cluster_id'', cluster_id), (''template'', bd_template_name payload)]\<rparr>"

fun deploy_loop :: "(deploy_server_request \<Rightarrow> ('c, 's) act) option \<Rightarrow> (nat \<Rightarrow> deploy_server_request) \<Rightarrow>
    nat list \<Rightarrow> int \<Rightarrow> 'c \<Rightarrow> int \<times> 'c" where
  "deploy_loop compute req [] created c = (created, c)"
| "deploy_loop None req (i # is) created c = deploy_loop None req is created c"
| "deploy_loop (Some create_server) req (i # is) created c = (case create_server (req i) c of
     (Inl _, c') \<Rightarrow> (created, c')
   | (Inr _, c') \<Rightarrow> deploy_loop (Some create_server) req is (created + 1) c')"

definition batch_deploy :: "(deploy_server_request \<Rightarrow> ('c, 's) act) option \<Rightarrow> string \<Rightarrow> batch_deploy_request \<Rightarrow>
    cluster_deployment list \<Rightarrow> ('c, batch_deploy_response) act" where
  "batch_deploy compute cluster_id payload table c = (case sql_get cl_id cluster_id table of
     None \<Rightarrow> (Inl cluster_not_found, c)
   | Some _ \<Rightarrow>
      (let (created, c') = deploy_loop compute (deploy_request cluster_id payload) [0 ..< nat (bd_instance_count payload)] 0 c
       in (Inr \<lparr>br_template_name = bd_template_name payload, br_requested = bd_instance_count payload,
                br_created = created\<rparr>, c')))"

section \<open>Scaling policies and scheduled tasks\<close>

record scaling_policy =
  sp_id :: string
  sp_name :: string
  sp_description :: "string option"
  sp_metric_name :: string
  sp_threshold :: rat
  sp_comparison :: string
  sp_min_replicas :: int
  sp_max_replicas :: int
  sp_cooldown_seconds :: int
  sp_target_resource_type :: string
  sp_target_resource_id :: "string option"
  sp_enabled :: bool
  sp_created_at :: timestamp

record scaling_policy_summary =
  sq_id :: string
  sq_name :: string
  sq_metric_name :: string
  sq_threshold :: rat
  sq_comparison :: string
  sq_min_replicas :: int
  sq_max_replicas :: int
  sq_cooldown_seconds :: int
  sq_target_resource_type :: string
  sq_enabled :: bool
  sq_created_at :: "string option"

definition serialize_policy :: "scaling_policy \<Rightarrow> scaling_policy_summary" where
  "serialize_policy p =
    \<lparr>sq_id = sp_id p, sq_name = sp_name p, sq_metric_name = sp_metric_name p, sq_threshold = sp_threshold p,
     sq_comparison = sp_comparison p, sq_min_replicas = sp_min_replicas p, sq_max_replicas = sp_max_replicas p,
     sq_cooldown_seconds = sp_cooldown_seconds p, sq_target_resource_type = sp_target_resource_type p,
     sq_enabled = sp_enabled p, sq_created_at = Some (isoformat (sp_created_at p))\<rparr>"

interpretation policies: named_table sp_id "sql_get sp_id" sql_add "sql_update sp_id" "pk_unique sp_id"
    sp_name "sql_insert_named sp_name" "sql_delete sp_id"
  by (rule sql_named_table)

abbreviation policy_not_found :: exn where
  "policy_not_found \<equiv> AppException ''Scaling policy not found'' 404 ''scaling_policy_not_found''"

definition list_scaling_policies :: "scaling_policy list \<Rightarrow> scaling_policy_summary list" where
  "list_scaling_policies table = map serialize_policy (order_desc sp_created_at table)"

definition get_scaling_policy :: "string \<Rightarrow> (scaling_policy list, scaling_policy_summary) act" where
  "get_scaling_policy policy_id table = (case sql_get sp_id policy_id table of
     None \<Rightarrow> (Inl policy_not_found, table) | Some p \<Rightarrow> (Inr (serialize_policy p), table))"

record scaling_policy_request =
  pr_name :: string
  pr_description :: "string option"
  pr_metric_name :: string
  pr_threshold :: rat
  pr_comparison :: string
  pr_min_replicas :: int
  pr_max_replicas :: int
  pr_cooldown_seconds :: int
  pr_target_resource_type :: string
  pr_target_resource_id :: "string option"

definition create_scaling_policy :: "string \<Rightarrow> timestamp \<Rightarrow> scaling_policy_request \<Rightarrow>
    (scaling_policy list, scaling_policy_summary) act" where
  "create_scaling_policy uuid now payload =
    (let p = \<lparr>sp_id = uuid, sp_name = pr_name payload, sp_description = pr_description payload,
              sp_metric_name = pr_metric_name payload, sp_threshold = pr_threshold payload,
              sp_comparison = pr_comparison payload, sp_min_replicas = pr_min_replicas payload,
              sp_max_replicas = pr_max_replicas payload, sp_cooldown_seconds = pr_cooldown_seconds payload,
              sp_target_resource_type = pr_target_resource_type payload,
              sp_target_resource_id = pr_target_resource_id payload, sp_enabled = True, sp_created_at = now\<rparr>
     in bindE (sql_insert_named sp_name p) (\<lambda>_. retE (serialize_policy p)))"

definition delete_scaling_policy :: "string \<Rightarrow> (scaling_policy list, unit) act" where
  "delete_scaling_policy policy_id table = (case sql_get sp_id policy_id table of
     None \<Rightarrow> (Inl policy_not_found, table) | Some _ \<Rightarrow> (Inr (), sql_delete sp_id policy_id table))"

record scheduled_task =
  st_id :: string
  st_name :: string
  st_description :: "string option"
  st_task_type :: string
  st_cron_expression :: string
  st_target_action :: string
  st_target_resource_type :: "string option"
  st_target_resource_id :: "string option"
  st_enabled :: bool
  st_last_run_at :: "timestamp option"
  st_created_at :: timestamp

record scheduled_task_summary =
  su_id :: string
  su_name :: string
  su_task_type :: string
  su_cron_expression :: string
  su_target_action :: string
  su_enabled :: bool
  su_last_run_at :: "string option"
  su_created_at :: "string option"

definition serialize_scheduled :: "scheduled_task \<Rightarrow> scheduled_task_summary" where
  "serialize_scheduled t =
    \<lparr>su_id = st_id t, su_name = st_name t, su_task_type = st_task_type t, su_cron_expression = st_cron_expression t,
     su_target_action = st_target_action t, su_enabled = st_enabled t,
     su_last_run_at = map_option isoformat (st_last_run_at t), su_created_at = Some (isoformat (st_created_at t))\<rparr>"

interpretation scheduled: named_table st_id "sql_get st_id" sql_add "sql_update st_id" "pk_unique st_id"
    st_name "sql_insert_named st_name" "sql_delete st_id"
  by (rule sql_named_table)

abbreviation scheduled_not_found :: exn where
  "scheduled_not_found \<equiv> AppException ''Scheduled task not found'' 404 ''scheduled_task_not_found''"

definition list_scheduled_tasks :: "scheduled_task list \<Rightarrow> scheduled_task_summary list" where
  "list_scheduled_tasks table = map serialize_scheduled (order_desc st_created_at table)"

definition get_scheduled_task :: "string \<Rightarrow> (scheduled_task list, scheduled_task_summary) act" where
  "get_scheduled_task task_id table = (case sql_get st_id task_id table of
     None \<Rightarrow> (Inl scheduled_not_found, table) | Some t \<Rightarrow> (Inr (serialize_scheduled t), table))"

record scheduled_task_request =
  tr_name :: string
  tr_description :: "string option"
  tr_task_type :: string
  tr_cron_expression :: string
  tr_target_action :: string
  tr_target_resource_type :: "string option"
  tr_target_resource_id :: "string option"

definition create_scheduled_task :: "string \<Rightarrow> timestamp \<Rightarrow> scheduled_task_request \<Rightarrow>
    (scheduled_task list, scheduled_task_summary) act" where
  "create_scheduled_task uuid now payload =
    (let t = \<lparr>st_id = uuid, st_name = tr_name payload, st_description = tr_description payload,
              st_task_type = tr_task_type payload, st_cron_expression = tr_cron_expression payload,
              st_target_action = tr_target_action payload, st_target_resource_type = tr_target_resource_type payload,
              st_target_resource_id = tr_target_resource_id payload, st_enabled = True, st_last_run_at = None,
              st_created_at = now\<rparr>
     in bindE (sql_insert_named st_name t) (\<lambda>_. retE (serialize_scheduled t)))"

definition delete_scheduled_task :: "string \<Rightarrow> (scheduled_task list, unit) act" where
  "delete_scheduled_task task_id table = (case sql_get st_id task_id table of
     None \<Rightarrow> (Inl scheduled_not_found, table) | Some _ \<Rightarrow> (Inr (), sql_delete st_id task_id table))"

section \<open>Storage pools\<close>

record storage_pool =
  po_id :: string
  po_name :: string
  po_description :: "string option"
  po_pool_type :: string
  po_status :: string
  po_total_capacity_gb :: int
  po_used_capacity_gb :: int
  po_replication_factor :: int
  po_created_at :: timestamp

record storage_pool_summary =
  pv_id :: string
  pv_name :: string
  pv_pool_type :: string
  pv_status :: string
  pv_total_capacity_gb :: int
  pv_used_capacity_gb :: int
  pv_replication_factor :: int
  pv_created_at :: "string option"

definition serialize_pool :: "storage_pool \<Rightarrow> storage_pool_summary" where
  "serialize_pool p =
    \<lparr>pv_id = po_id p, pv_name = po_name p, pv_pool_type = po_pool_type p, pv_status = po_status p,
     pv_total_capacity_gb = po_total_capacity_gb p, pv_used_capacity_gb = po_used_capacity_gb p,
     pv_replication_factor = po_replication_factor p, pv_created_at = Some (isoformat (po_created_at p))\<rparr>"

text \<open>The derived properties of StoragePoolSummary.\<close>

definition available_gb :: "storage_pool_summary \<Rightarrow> int" where
  "available_gb p = pv_total_capacity_gb p - pv_used_capacity_gb p"

definition usage_percent :: "storage_pool_summary \<Rightarrow> rat" where
  "usage_percent p = (if pv_total_capacity_gb p = 0 then 0
     else py_round (fmul (int_truediv (pv_used_capacity_gb p) (pv_total_capacity_gb p)) 100) 1)"

interpretation pools: named_table po_id "sql_get po_id" sql_add "sql_update po_id" "pk_unique po_id"
    po_name "sql_insert_named po_name" "sql_delete po_id"
  by (rule sql_named_table)

abbreviation pool_not_found :: exn where
  "pool_not_found \<equiv> AppException ''Storage pool not found'' 404 ''storage_pool_not_found''"

definition list_pools :: "storage_pool list \<Rightarrow> storage_pool_summary list" where
  "list_pools table = map serialize_pool (order_desc po_created_at table)"

definition get_pool :: "string \<Rightarrow> (storage_pool list, storage_pool_summary) act" where
  "get_pool pool_id table = (case sql_get po_id pool_id table of
     None \<Rightarrow> (Inl pool_not_found, table) | Some p \<Rightarrow> (Inr (serialize_pool p), table))"

record storage_pool_request =
  pc_name :: string
  pc_description :: "string option"
  pc_pool_type :: string
  pc_total_capacity_gb :: int
  pc_replication_factor :: int

definition create_pool :: "string \<Rightarrow> timestamp \<Rightarrow> storage_pool_request \<Rightarrow> (storage_pool list, storage_pool_summary) act" where
  "create_pool uuid now payload =
    (let p = \<lparr>po_id = uuid, po_name = pc_name payload, po_description = pc_description payload,
              po_pool_type = pc_pool_type payload, po_status = ''active'',
              po_total_capacity_gb = pc_total_capacity_gb payload, po_used_capacity_gb = 0,
              po_replication_factor = pc_replication_factor payload, po_created_at = now\<rparr>
     in bindE (sql_insert_named po_name p) (\<lambda>_. retE (serialize_pool p)))"

definition delete_pool :: "string \<Rightarrow> (storage_pool list, unit) act" where
  "delete_pool pool_id table = (case sql_get po_id pool_id table of
     None \<Rightarrow> (Inl pool_not_found, table) | Some _ \<Rightarrow> (Inr (), sql_delete po_id pool_id table))"

section \<open>Properties\<close>

text \<open>The cluster tables a history of creations and deletions can produce.\<close>

inductive cluster_table :: "cluster_deployment list \<Rightarrow> bool" where
  cluster_empty: "cluster_table []"
| cluster_created: "cluster_table t \<Longrightarrow> cluster_table (snd (create_cluster uuid now payload t))"
| cluster_deleted: "cluster_table t \<Longrightarrow> cluster_table (snd (delete_cluster cluster_id t))"

lemma filter_name_Nil: "filter (\<lambda>c. cl_name c = n) t = [] \<longleftrightarrow> n \<notin> cl_name ` set t"
  by (auto simp: filter_empty_conv)

lemma create_cluster_cases:
  "create_cluster uuid now payload t =
    (let c = \<lparr>cl_id = uuid, cl_name = cc_name payload, cl_description = cc_description payload,
              cl_cluster_type = cc_cluster_type payload, cl_status = ''active'',
              cl_node_count = cc_node_count payload, cl_extra_config = cc_metadata payload, cl_created_at = now\<rparr>
     in if cc_name payload \<notin> cl_name ` set t then (Inr (serialize_cluster c), sql_add c t)
        else (fst (create_cluster uuid now payload t), t))"
proof (cases "filter (\<lambda>c. cl_name c = cc_name payload) t")
  case Nil
  then have "cc_name payload \<notin> cl_name ` set t" using filter_name_Nil by blast
  then show ?thesis unfolding create_cluster_def Let_def Nil
    by (simp add: bindE_def sql_insert_named_def retE_def)
next
  case (Cons c cs)
  then have "c \<in> set (filter (\<lambda>c. cl_name c = cc_name payload) t)" by simp
  then have "cc_name payload \<in> cl_name ` set t" by (auto intro: rev_image_eqI)
  then show ?thesis using Cons unfolding create_cluster_def by (cases cs) (auto simp: Let_def)
qed

lemma cluster_table_unique: "cluster_table t \<Longrightarrow> names_unique cl_name t"
proof (induction rule: cluster_table.induct)
  case (cluster_created t uuid now payload)
  then show ?case
    by (subst create_cluster_cases) (simp add: Let_def names_unique_def sql_add_def)
next
  case (cluster_deleted t cluster_id)
  then show ?case
    using clusters.unique_del [of t cluster_id] by (auto simp: delete_cluster_def split: option.split)
qed (simp add: names_unique_def)

lemma unique_filter_name:
  assumes "names_unique cl_name t" "n \<in> cl_name ` set t"
  shows "\<exists>c. filter (\<lambda>c. cl_name c = n) t = [c]"
  using assms
proof (induction t)
  case (Cons x t)
  then show ?case
    by (cases "cl_name x = n") (auto simp: names_unique_def filter_name_Nil image_iff filter_empty_conv)
qed simp

text \<open>Cluster names are unique in every reachable table, so creating a cluster has exactly two
  outcomes: with a new name the cluster is stored as active and returned, with a name that is taken the
  caller gets the 409 error and the table is unchanged; the query for an existing name never finds
  more than one row.\<close>

theorem create_cluster_outcomes:
  assumes "cluster_table t"
  shows "names_unique cl_name t \<and>
    (if cc_name payload \<in> cl_name ` set t
     then create_cluster uuid now payload t
       = (Inl (AppException (''Cluster '' @ [CHR 0x27] @ cc_name payload @ [CHR 0x27] @ '' already exists'') 409 ''cluster_already_exists''), t)
     else \<exists>c. create_cluster uuid now payload t = (Inr (serialize_cluster c), t @ [c]) \<and> cl_id c = uuid \<and>
          cl_name c = cc_name payload \<and> cl_status c = ''active'')"
proof -
  have u: "names_unique cl_name t" using assms by (rule cluster_table_unique)
  show ?thesis
  proof (cases "cc_name payload \<in> cl_name ` set t")
    case True
    from unique_filter_name [OF u this] obtain c where "filter (\<lambda>c. cl_name c = cc_name payload) t = [c]" by blast
    with True u show ?thesis by (simp add: create_cluster_def)
  next
    case False
    then show ?thesis using u by (subst create_cluster_cases) (simp add: Let_def sql_add_def)
  qed
qed

definition demo_cluster :: cluster_create_request where
  "demo_cluster = \<lparr>cc_name = ''a'', cc_description = None, cc_cluster_type = ''compute'', cc_node_count = 3, cc_metadata = []\<rparr>"

theorem create_cluster_outcomes_witness:
  "fst (create_cluster ''u2'' 6 demo_cluster (snd (create_cluster ''u1'' 5 demo_cluster [])))
    = Inl (AppException (''Cluster '' @ [CHR 0x27] @ ''a'' @ [CHR 0x27] @ '' already exists'') 409 ''cluster_already_exists'')"
proof -
  have "cluster_table (snd (create_cluster ''u1'' 5 demo_cluster []))"
    by (rule cluster_created [OF cluster_empty])
  from create_cluster_outcomes [OF this, of demo_cluster "''u2''" 6] show ?thesis
    by (simp add: create_cluster_def demo_cluster_def bindE_def sql_insert_named_def sql_add_def retE_def Let_def)
qed

lemma deploy_loop_bounds:
  "created \<le> fst (deploy_loop compute req is created c) \<and>
   fst (deploy_loop compute req is created c) \<le> created + int (length is)"
proof (induction compute req "is" created c rule: deploy_loop.induct)
  case (3 cs req i "is" created c)
  show ?case
  proof (cases "cs (req i) c")
    case (Pair r c')
    with 3 [of _ c'] show ?thesis by (cases r) auto
  qed
qed auto

lemma deploy_loop_none [simp]: "deploy_loop None req is created c = (created, c)"
  by (induction "is") simp_all

lemma deploy_loop_prefix:
  "fst (deploy_loop (Some cs) req is created c) = created + int k \<Longrightarrow> k < length is \<Longrightarrow>
   \<exists>e c1 c2. cs (req (is ! k)) c1 = (Inl e, c2) \<and> snd (deploy_loop (Some cs) req is created c) = c2"
proof (induction "is" arbitrary: created c k)
  case (Cons i "is")
  obtain r c' where rc: "cs (req i) c = (r, c')" by fastforce
  show ?case
  proof (cases r)
    case (Inl e)
    with rc Cons.prems(1) have "k = 0" by simp
    with Inl rc show ?thesis by auto
  next
    case (Inr s)
    then have eq: "deploy_loop (Some cs) req (i # is) created c = deploy_loop (Some cs) req is (created + 1) c'"
      using rc by simp
    have "k \<noteq> 0" using Cons.prems(1) deploy_loop_bounds [of "created + 1" "Some cs" req "is" c'] eq by auto
    then obtain k' where "k = Suc k'" by (cases k) auto
    with Cons.IH [of "created + 1" c' k'] Cons.prems eq show ?thesis by simp
  qed
qed simp

text \<open>A batch deployment reports what happened: the number of created instances lies between zero
  and the number requested; if it is smaller, and there is a compute service, then the call for the
  next instance in order failed and was the last one made; without a compute service nothing is
  created and nothing is called.\<close>

theorem batch_deploy_created:
  assumes "sql_get cl_id i table = Some cluster" "0 \<le> bd_instance_count payload"
    and "batch_deploy compute i payload table c = (Inr resp, c')"
  shows "0 \<le> br_created resp \<and> br_created resp \<le> br_requested resp \<and>
    (case compute of None \<Rightarrow> br_created resp = 0 \<and> c' = c
     | Some create_server \<Rightarrow> br_created resp = br_requested resp \<or>
        (\<exists>e c1. create_server (deploy_request i payload (nat (br_created resp))) c1 = (Inl e, c')))"
proof -
  let ?is = "[0 ..< nat (bd_instance_count payload)]"
  let ?d = "deploy_loop compute (deploy_request i payload) ?is 0 c"
  have r: "br_created resp = fst ?d" "br_requested resp = bd_instance_count payload" "c' = snd ?d"
    using assms(1,3) by (auto simp: batch_deploy_def split: prod.splits)
  have b: "0 \<le> fst ?d" "fst ?d \<le> int (length ?is)"
    using deploy_loop_bounds [of 0 compute "deploy_request i payload" ?is c] by auto
  show ?thesis
  proof (cases compute)
    case None
    then show ?thesis using r b assms(2) by simp
  next
    case (Some cs)
    have "\<exists>e c1 c2. cs (deploy_request i payload (nat (fst ?d))) c1 = (Inl e, c2) \<and> snd ?d = c2"
      if "fst ?d \<noteq> bd_instance_count payload"
      using deploy_loop_prefix [of cs "deploy_request i payload" ?is 0 c "nat (fst ?d)"] that b Some assms(2)
      by auto
    then show ?thesis using r b Some assms(2) by auto
  qed
qed

text \<open>A compute service that fails on its second call.\<close>

definition flaky_compute :: "deploy_server_request \<Rightarrow> (nat, unit) act" where
  "flaky_compute _ n = (if n < 1 then (Inr (), n + 1) else (Inl (OpenStackError ''no host''), n))"

theorem batch_deploy_created_witness:
  "br_created \<lparr>br_template_name = ''t'', br_requested = 3, br_created = 1\<rparr> \<le> 3 \<and>
   batch_deploy (Some flaky_compute) ''u1'' \<lparr>bd_template_name = ''t'', bd_instance_count = 3, bd_image_id = ''i'',
     bd_flavor_id = ''f'', bd_network_id = ''n'', bd_key_name = None, bd_availability_zone = None\<rparr>
     (snd (create_cluster ''u1'' 5 demo_cluster [])) 0
     = (Inr \<lparr>br_template_name = ''t'', br_requested = 3, br_created = 1\<rparr>, 1)"
proof -
  have g: "sql_get cl_id ''u1'' (snd (create_cluster ''u1'' 5 demo_cluster [])) =
      Some (hd (snd (create_cluster ''u1'' 5 demo_cluster [])))" by code_simp
  have b: "batch_deploy (Some flaky_compute) ''u1'' \<lparr>bd_template_name = ''t'', bd_instance_count = 3, bd_image_id = ''i'',
     bd_flavor_id = ''f'', bd_network_id = ''n'', bd_key_name = None, bd_availability_zone = None\<rparr>
     (snd (create_cluster ''u1'' 5 demo_cluster [])) 0
     = (Inr \<lparr>br_template_name = ''t'', br_requested = 3, br_created = 1\<rparr>, 1)" by code_simp
  from batch_deploy_created [OF g _ b] b show ?thesis by simp
qed

end
