(* ===== verification/Vmware_Schemas.thy ===== *)
theory Vmware_Schemas
  imports Py_Effects Py_Float
begin

text \<open>
  The data passed between the VMware assessment components: the pydantic models of
  app/schemas/vmware/inventory.py and app/schemas/vmware/assessment.py as records, field by
  field, with the constraints that pydantic checks on construction (ge, le) as checked
  constructors that return a ValidationError.
\<close>

section \<open>Inventory (app/schemas/vmware/inventory.py)\<close>

record vm_disk =
  vd_label :: string
  vd_capacity_gb :: int
  vd_thin_provisioned :: bool
  vd_datastore_name :: "string option"
  vd_controller_type :: "string option"

record vm_nic =
  vn_label :: string
  vn_network_name :: string
  vn_mac_address :: "string option"
  vn_ip_addresses :: "string list"
  vn_nic_type :: "string option"

record vm_hardware =
  hw_cpu_count :: int
  hw_cpu_cores_per_socket :: int
  hw_memory_mb :: int
  hw_disks :: "vm_disk list"
  hw_nics :: "vm_nic list"

record vm_summary =
  vm_id :: string
  vm_name :: string
  vm_power_state :: string
  vm_guest_os :: "string option"
  vm_hardware :: "vm_hardware option"
  vm_cluster_name :: "string option"
  vm_datastores :: "string list"
  vm_tags :: "string list"
  vm_annotation :: "string option"
  vm_firmware :: "string option"
  vm_secure_boot_enabled :: "bool option"
  vm_vmware_tools_status :: "string option"
  vm_disk_controller_types :: "string list option"

section \<open>Assessment (app/schemas/vmware/assessment.py)\<close>

record flavor_match_result =
  fm_flavor_id :: string
  fm_flavor_name :: string
  fm_score :: rat
  fm_vcpus :: int
  fm_ram :: int
  fm_disk :: int
  fm_overprovisioned :: bool
  fm_underprovisioned :: bool

record network_mapping_result =
  nm_vm_network :: string
  nm_openstack_network_id :: "string option"
  nm_openstack_network_name :: "string option"
  nm_match_type :: string
  nm_confidence :: rat

record disk_mapping_result =
  dm_vm_disk_label :: string
  dm_vm_disk_gb :: int
  dm_openstack_volume_type :: "string option"
  dm_openstack_size_gb :: int
  dm_bootable :: bool

record vm_mapping_result =
  vmr_vm_id :: string
  vmr_vm_name :: string
  vmr_flavor_match :: "flavor_match_result option"
  vmr_network_mappings :: "network_mapping_result list"
  vmr_disk_mappings :: "disk_mapping_result list"

record compatibility_issue =
  ci_severity :: string
  ci_category :: string
  ci_message :: string
  ci_compatible :: bool

record scored_compatibility_result =
  sc_vm_id :: string
  sc_vm_name :: string
  sc_compatible :: bool
  sc_score :: rat
  sc_issues :: "compatibility_issue list"
  sc_summary :: string

record migration_step =
  ms_order :: int
  ms_action :: string
  ms_description :: string
  ms_resource_id :: "string option"
  ms_estimated_minutes :: int

record migration_plan_vm =
  mpv_vm_id :: string
  mpv_vm_name :: string
  mpv_priority :: int
  mpv_target_flavor_id :: "string option"
  mpv_target_network_ids :: "string list"
  mpv_target_volume_types :: "string list"
  mpv_estimated_downtime_minutes :: int
  mpv_steps :: "migration_step list"
  mpv_estimated_total_minutes :: int

record migration_plan_response =
  mpr_plan_id :: string
  mpr_vms :: "migration_plan_vm list"
  mpr_total_vms :: nat
  mpr_total_estimated_minutes :: int
  mpr_created_at :: string
  mpr_operation_task_id :: "string option"

record assessment_progress =
  ap_task_id :: string
  ap_total_vms :: int
  ap_completed :: int
  ap_failed :: int
  ap_in_progress :: int
  ap_status :: string

section \<open>Construction with the declared constraints\<close>

abbreviation ValidationError :: "string \<Rightarrow> exn" where
  "ValidationError msg \<equiv> PyException ''ValidationError'' msg"

definition check_unit :: "string \<Rightarrow> rat \<Rightarrow> 'a \<Rightarrow> exn + 'a" where
  "check_unit field x r = (if 0 \<le> x \<and> x \<le> 1 then Inr r else Inl (ValidationError field))"

definition new_flavor_match :: "flavor_match_result \<Rightarrow> exn + flavor_match_result" where
  "new_flavor_match r = check_unit ''score'' (fm_score r) r"

definition new_network_mapping :: "network_mapping_result \<Rightarrow> exn + network_mapping_result" where
  "new_network_mapping r = check_unit ''confidence'' (nm_confidence r) r"

definition new_scored_result :: "scored_compatibility_result \<Rightarrow> exn + scored_compatibility_result" where
  "new_scored_result r = check_unit ''score'' (sc_score r) r"

definition new_plan_vm :: "migration_plan_vm \<Rightarrow> exn + migration_plan_vm" where
  "new_plan_vm r = (if 1 \<le> mpv_priority r \<and> mpv_priority r \<le> 10 then Inr r
                    else Inl (ValidationError ''priority''))"

lemma check_unit_Inr [simp]: "check_unit f x r = Inr r' \<longleftrightarrow> 0 \<le> x \<and> x \<le> 1 \<and> r' = r"
  by (auto simp: check_unit_def)

end
