(* ===== verification/Vmware_Compatibility.thy ===== *)
theory Vmware_Compatibility
  imports Vmware_Schemas
begin

text \<open>
  The rule-based compatibility check (app/services/vmware/compatibility.py): eleven checks
  append issues to a list, the score starts at 1.0 and loses the weight of every issue that is
  not marked compatible, and the verdict needs a score of at least 0.5 and no critical issue.

  The state of a check is the issue list and the Prometheus counter
  vmw_unsupported_hardware_total (by category). Each check is shown to extend the list by
  issues that depend on the VM only (locale appending_check), so that the issues of evaluate
  are the concatenation of the findings of the eleven checks. On top of this the verdict is
  characterised completely in terms of the VM.
\<close>

section \<open>Tables\<close>

definition SUPPORTED_OS_PREFIXES :: "string list" where
  "SUPPORTED_OS_PREFIXES =
     [''centos'', ''debian'', ''ubuntu'', ''red hat'', ''rhel'', ''suse'', ''sles'', ''oracle linux'',
      ''rocky linux'', ''almalinux'', ''fedora'', ''freebsd'', ''windows server'', ''windows 10'',
      ''windows 11'', ''windows 8'', ''windows 2012'', ''windows 2016'', ''windows 2019'', ''windows 2022'']"

definition UNSUPPORTED_OS_PREFIXES :: "string list" where
  "UNSUPPORTED_OS_PREFIXES = [''solaris'', ''hp-ux'', ''aix'', ''darwin'', ''mac os'', ''os/2'', ''netware'']"

definition SCORE_WEIGHTS :: "(string, rat) dict" where
  "SCORE_WEIGHTS =
     [(''critical'', fl (- 3 / 10)), (''high'', fl (- 2 / 10)), (''medium'', fl (- 1 / 10)),
      (''low'', fl (- 5 / 100)), (''info'', 0)]"

section \<open>The checks\<close>

type_synonym check_state = "compatibility_issue list \<times> (string, int) dict"

definition add_issue :: "string \<Rightarrow> string \<Rightarrow> string \<Rightarrow> bool \<Rightarrow> check_state \<Rightarrow> check_state" where
  "add_issue severity category message compatible s =
     (fst s @ [\<lparr>ci_severity = severity, ci_category = category, ci_message = message,
                ci_compatible = compatible\<rparr>], snd s)"

definition count_unsupported :: "string \<Rightarrow> check_state \<Rightarrow> check_state" where
  "count_unsupported category s = (fst s, counter_add (snd s) category 1)"

definition check_power_state :: "vm_summary \<Rightarrow> check_state \<Rightarrow> check_state" where
  "check_power_state vm s =
    (if py_lower (vm_power_state vm) = ''suspended''
     then add_issue ''critical'' ''os''
            (''VM is suspended '' @ em_dash @ '' must be powered on before migration'') False s
     else s)"

definition check_os_compat :: "vm_summary \<Rightarrow> check_state \<Rightarrow> check_state" where
  "check_os_compat vm s =
    (let guest_os = str_or (vm_guest_os vm) [] in
     if guest_os = [] then
       add_issue ''high'' ''os''
         (''Guest OS not detected '' @ em_dash @ '' unable to verify compatibility'') False s
     else let os_lower = py_lower guest_os in
       if list_ex (\<lambda>unsupported. py_in unsupported os_lower) UNSUPPORTED_OS_PREFIXES then
         count_unsupported ''os''
           (add_issue ''critical'' ''os'' (''Unsupported guest OS: '' @ guest_os) False s)
       else if list_ex (\<lambda>supported. py_in supported os_lower) SUPPORTED_OS_PREFIXES then s
       else add_issue ''low'' ''os''
              (''Unknown guest OS '' @ [CHR 39] @ guest_os @ [CHR 39] @ '' '' @ em_dash
               @ '' compatibility not guaranteed'') True s)"

definition check_cpu :: "vm_summary \<Rightarrow> check_state \<Rightarrow> check_state" where
  "check_cpu vm s = (case vm_hardware vm of
     None \<Rightarrow> add_issue ''critical'' ''cpu'' ''VM has no vCPUs configured'' False s
   | Some hw \<Rightarrow>
       if hw_cpu_count hw \<le> 0 then add_issue ''critical'' ''cpu'' ''VM has no vCPUs configured'' False s
       else if hw_cpu_count hw > 128 then
         add_issue ''low'' ''cpu''
           (''VM has '' @ str_int (hw_cpu_count hw) @ '' vCPUs '' @ em_dash
            @ '' may exceed OpenStack quota limits'') True s
       else s)"

definition check_memory :: "vm_summary \<Rightarrow> check_state \<Rightarrow> check_state" where
  "check_memory vm s = (case vm_hardware vm of
     None \<Rightarrow> add_issue ''critical'' ''memory'' ''VM has no memory configured'' False s
   | Some hw \<Rightarrow>
       if hw_memory_mb hw \<le> 0 then add_issue ''critical'' ''memory'' ''VM has no memory configured'' False s
       else if hw_memory_mb hw > 524288 then
         add_issue ''low'' ''memory''
           (''VM has '' @ str_int (hw_memory_mb hw) @ '' MB RAM '' @ em_dash
            @ '' may exceed OpenStack limits'') True s
       else s)"

definition disk_total :: "vm_disk list \<Rightarrow> int" where
  "disk_total ds = sum_list (map vd_capacity_gb ds)"

definition check_disk :: "vm_summary \<Rightarrow> check_state \<Rightarrow> check_state" where
  "check_disk vm s = (case vm_hardware vm of
     None \<Rightarrow> add_issue ''high'' ''disk'' ''VM has no disks attached'' False s
   | Some hw \<Rightarrow>
       if hw_disks hw = [] then add_issue ''high'' ''disk'' ''VM has no disks attached'' False s
       else if disk_total (hw_disks hw) > 2000 then
         add_issue ''low'' ''disk''
           (''VM has '' @ str_int (disk_total (hw_disks hw)) @ '' GB total disk '' @ em_dash
            @ '' large volume migration may be slow'') True s
       else s)"

definition check_network :: "vm_summary \<Rightarrow> check_state \<Rightarrow> check_state" where
  "check_network vm s =
    (if (case vm_hardware vm of None \<Rightarrow> True | Some hw \<Rightarrow> hw_nics hw = [])
     then add_issue ''low'' ''network''
            (''VM has no network adapters '' @ em_dash @ '' will be isolated after migration'') True s
     else s)"

definition check_firmware :: "vm_summary \<Rightarrow> check_state \<Rightarrow> check_state" where
  "check_firmware vm s = (case vm_firmware vm of
     None \<Rightarrow> s
   | Some fw \<Rightarrow>
       if fw \<noteq> [] \<and> py_lower fw = ''efi'' then
         count_unsupported ''firmware''
           (add_issue ''medium'' ''firmware''
              (''VM uses EFI/UEFI firmware '' @ em_dash
               @ '' requires OpenStack UEFI support (hw_firmware_type=uefi)'') True s)
       else s)"

definition check_secure_boot :: "vm_summary \<Rightarrow> check_state \<Rightarrow> check_state" where
  "check_secure_boot vm s =
    (if vm_secure_boot_enabled vm = Some True
     then count_unsupported ''firmware''
            (add_issue ''high'' ''firmware''
               (''Secure Boot is enabled '' @ em_dash
                @ '' requires OpenStack with UEFI + hw_firmware_type=uefi + secure boot support'') False s)
     else s)"

definition check_vmware_tools :: "vm_summary \<Rightarrow> check_state \<Rightarrow> check_state" where
  "check_vmware_tools vm s = (case vm_vmware_tools_status vm of
     None \<Rightarrow> s
   | Some status \<Rightarrow>
       if status = [] then s
       else let s_lower = py_lower status in
         if py_in ''notinstalled'' s_lower \<or> py_in ''notrunning'' s_lower then
           add_issue ''medium'' ''vmware_tools''
             (''VMware Tools status: '' @ status @ '' '' @ em_dash
              @ '' guest IP detection and clean shutdown may be affected'') True s
         else s)"

definition controller_quote :: "string \<Rightarrow> string" where
  "controller_quote ctype = ''Disk controller type '' @ [CHR 39] @ ctype @ [CHR 39]"

definition check_controller :: "string \<Rightarrow> check_state \<Rightarrow> check_state" where
  "check_controller ctype s =
    (let ctype_lower = py_lower ctype in
     if ctype_lower = ''ide'' then
       count_unsupported ''disk_controller''
         (add_issue ''high'' ''disk_controller''
            (controller_quote ctype @ '' may not be supported in OpenStack '' @ em_dash
             @ '' consider converting to virtio/scsi'') False s)
     else if ctype_lower = ''lsilogic'' then
       add_issue ''low'' ''disk_controller''
         (controller_quote ctype @ '' is legacy but generally compatible'') True s
     else if ctype_lower = ''nvme'' then
       count_unsupported ''disk_controller''
         (add_issue ''medium'' ''disk_controller''
            (controller_quote ctype @ '' requires OpenStack with NVMe emulation support'') True s)
     else s)"

fun check_disk_controllers_loop :: "string list \<Rightarrow> string list \<Rightarrow> check_state \<Rightarrow> check_state" where
  "check_disk_controllers_loop seen [] s = s"
| "check_disk_controllers_loop seen (ctype # controllers) s =
    (if py_lower ctype \<in> set seen then check_disk_controllers_loop seen controllers s
     else check_disk_controllers_loop (py_lower ctype # seen) controllers (check_controller ctype s))"

definition check_disk_controllers :: "vm_summary \<Rightarrow> check_state \<Rightarrow> check_state" where
  "check_disk_controllers vm s = (case vm_disk_controller_types vm of
     None \<Rightarrow> s
   | Some controllers \<Rightarrow> check_disk_controllers_loop [] controllers s)"

definition check_nic_type :: "string \<Rightarrow> check_state \<Rightarrow> check_state" where
  "check_nic_type ntype s =
    (if ntype = ''e1000'' then
       add_issue ''low'' ''nic''
         (''NIC type '' @ [CHR 39] @ ''e1000'' @ [CHR 39] @ '' is legacy '' @ em_dash
          @ '' consider upgrading to vmxnet3 or virtio'') True s
     else if ntype = ''vmxnet2'' then
       count_unsupported ''nic''
         (add_issue ''medium'' ''nic''
            (''NIC type '' @ [CHR 39] @ ''vmxnet2'' @ [CHR 39]
             @ '' requires OpenStack with vmxnet3 support '' @ em_dash @ '' consider converting to virtio'') True s)
     else if ntype = ''sriov'' then
       count_unsupported ''nic''
         (add_issue ''medium'' ''nic''
            (''NIC type '' @ [CHR 39] @ ''sriov'' @ [CHR 39]
             @ '' requires OpenStack SR-IOV support '' @ em_dash @ '' passthrough configuration needed'') True s)
     else if ntype = ''unknown'' then
       count_unsupported ''nic''
         (add_issue ''medium'' ''nic''
            (''Unknown NIC type detected '' @ em_dash @ '' compatibility not guaranteed'') True s)
     else s)"

fun check_nic_types_loop :: "string list \<Rightarrow> vm_nic list \<Rightarrow> check_state \<Rightarrow> check_state" where
  "check_nic_types_loop seen [] s = s"
| "check_nic_types_loop seen (nic # nics) s = (case vn_nic_type nic of
     None \<Rightarrow> check_nic_types_loop seen nics s
   | Some ntype \<Rightarrow>
       if ntype = [] \<or> ntype \<in> set seen then check_nic_types_loop seen nics s
       else check_nic_types_loop (ntype # seen) nics (check_nic_type ntype s))"

definition check_nic_types :: "vm_summary \<Rightarrow> check_state \<Rightarrow> check_state" where
  "check_nic_types vm s = (case vm_hardware vm of
     None \<Rightarrow> s
   | Some hw \<Rightarrow> check_nic_types_loop [] (hw_nics hw) s)"

section \<open>Evaluation\<close>

definition run_checks :: "vm_summary \<Rightarrow> check_state \<Rightarrow> check_state" where
  "run_checks vm s =
    (let s1 = check_power_state vm s;
         s2 = check_os_compat vm s1;
         s3 = check_cpu vm s2;
         s4 = check_memory vm s3;
         s5 = check_disk vm s4;
         s6 = check_network vm s5;
         s7 = check_firmware vm s6;
         s8 = check_secure_boot vm s7;
         s9 = check_vmware_tools vm s8;
         s10 = check_disk_controllers vm s9
     in check_nic_types vm s10)"

definition score_step :: "rat \<Rightarrow> compatibility_issue \<Rightarrow> rat" where
  "score_step score issue =
    (if \<not> ci_compatible issue
     then max 0 (fadd score (dict_get_default SCORE_WEIGHTS (ci_severity issue) (fl (- 1 / 10))))
     else score)"

definition is_critical :: "compatibility_issue \<Rightarrow> bool" where
  "is_critical i \<longleftrightarrow> ci_severity i = ''critical'' \<and> \<not> ci_compatible i"

definition evaluate :: "vm_summary \<Rightarrow> (string, int) dict \<Rightarrow> (exn + scored_compatibility_result) \<times> (string, int) dict" where
  "evaluate vm metrics =
    (let (issues, metrics') = run_checks vm ([], metrics);
         score = foldl score_step 1 issues;
         has_critical = list_ex is_critical issues;
         compatible = (fl (1 / 2) \<le> score \<and> \<not> has_critical);
         critical_count = length (filter is_critical issues);
         summary_text =
           (if compatible then ''Compatible (score: '' @ fmt_fixed 2 score @ '')''
            else ''Incompatible '' @ em_dash @ '' '' @ str_int (int critical_count)
                 @ '' critical issues (score: '' @ fmt_fixed 2 score @ '')'')
     in (new_scored_result
           \<lparr>sc_vm_id = vm_id vm, sc_vm_name = vm_name vm, sc_compatible = compatible,
            sc_score = py_round score 2, sc_issues = issues, sc_summary = summary_text\<rparr>, metrics'))"

section \<open>Every check only appends\<close>

named_theorems check_defs \<open>definitions of the compatibility checks\<close>

declare check_power_state_def [check_defs] check_os_compat_def [check_defs] check_cpu_def [check_defs]
  check_memory_def [check_defs] check_disk_def [check_defs] check_network_def [check_defs]
  check_firmware_def [check_defs] check_secure_boot_def [check_defs] check_vmware_tools_def [check_defs]
  check_disk_controllers_def [check_defs] check_nic_types_def [check_defs] check_nic_type_def [check_defs]
  check_controller_def [check_defs] add_issue_def [check_defs] count_unsupported_def [check_defs] Let_def [check_defs]

text \<open>The severities of the issues that count against a VM, in order.\<close>

definition penalties :: "compatibility_issue list \<Rightarrow> string list" where
  "penalties issues = map ci_severity (filter (\<lambda>i. \<not> ci_compatible i) issues)"

lemma penalties_simps [simp]:
  "penalties [] = []"
  "penalties (i # is) = (if ci_compatible i then penalties is else ci_severity i # penalties is)"
  "penalties (is @ js) = penalties is @ penalties js"
  by (simp_all add: penalties_def)

locale appending_check =
  fixes check :: "vm_summary \<Rightarrow> check_state \<Rightarrow> check_state"
  assumes issues_extend: "fst (check vm s) = fst s @ fst (check vm ([], []))"
begin

lemma penalties_extend:
  "penalties (fst (check vm s)) = penalties (fst s) @ penalties (fst (check vm ([], [])))"
  by (subst issues_extend) simp

lemma issues_kept: "set (fst s) \<subseteq> set (fst (check vm s))"
  by (subst issues_extend) auto

end

lemma controller_extend: "fst (check_controller c s) = fst s @ fst (check_controller c ([], []))"
  by (simp add: check_defs)

lemma controllers_loop_extend:
  "fst (check_disk_controllers_loop seen cs s) = fst s @ fst (check_disk_controllers_loop seen cs ([], []))"
proof (induction cs arbitrary: seen s)
  case (Cons c cs)
  show ?case
    using Cons.IH [of seen s] Cons.IH [of "py_lower c # seen" "check_controller c s"]
      Cons.IH [of "py_lower c # seen" "check_controller c ([], [])"] controller_extend [of c s]
    by simp
qed simp

lemma nic_type_extend: "fst (check_nic_type t s) = fst s @ fst (check_nic_type t ([], []))"
  by (simp add: check_defs)

lemma nics_loop_extend:
  "fst (check_nic_types_loop seen ns s) = fst s @ fst (check_nic_types_loop seen ns ([], []))"
proof (induction ns arbitrary: seen s)
  case (Cons n ns)
  show ?case
  proof (cases "vn_nic_type n")
    case None
    then show ?thesis using Cons.IH [of seen s] by simp
  next
    case (Some t)
    then show ?thesis
      using Cons.IH [of seen s] Cons.IH [of "t # seen" "check_nic_type t s"]
        Cons.IH [of "t # seen" "check_nic_type t ([], [])"] nic_type_extend [of t s]
      by simp
  qed
qed simp

interpretation pw: appending_check check_power_state
  by unfold_locales (simp add: check_defs)

interpretation os: appending_check check_os_compat
  by unfold_locales (simp add: check_defs)

interpretation cpu: appending_check check_cpu
  by unfold_locales (simp add: check_defs split: option.split)

interpretation memory: appending_check check_memory
  by unfold_locales (simp add: check_defs split: option.split)

interpretation disk: appending_check check_disk
  by unfold_locales (simp add: check_defs split: option.split)

interpretation nets: appending_check check_network
  by unfold_locales (simp add: check_defs)

interpretation fw: appending_check check_firmware
  by unfold_locales (simp add: check_defs split: option.split)

interpretation sb: appending_check check_secure_boot
  by unfold_locales (simp add: check_defs)

interpretation tools: appending_check check_vmware_tools
  by unfold_locales (simp add: check_defs split: option.split)

interpretation ctrl: appending_check check_disk_controllers
proof
  fix vm s
  show "fst (check_disk_controllers vm s) = fst s @ fst (check_disk_controllers vm ([], []))"
    using controllers_loop_extend [of "[]" _ s]
    by (cases "vm_disk_controller_types vm") (simp_all add: check_disk_controllers_def)
qed

interpretation nic: appending_check check_nic_types
proof
  fix vm s
  show "fst (check_nic_types vm s) = fst s @ fst (check_nic_types vm ([], []))"
    using nics_loop_extend [of "[]" _ s]
    by (cases "vm_hardware vm") (simp_all add: check_nic_types_def)
qed

section \<open>What counts against a VM\<close>

definition suspended :: "vm_summary \<Rightarrow> bool" where
  "suspended vm \<longleftrightarrow> py_lower (vm_power_state vm) = ''suspended''"

definition os_missing :: "vm_summary \<Rightarrow> bool" where
  "os_missing vm \<longleftrightarrow> vm_guest_os vm = None \<or> vm_guest_os vm = Some []"

definition os_unsupported :: "vm_summary \<Rightarrow> bool" where
  "os_unsupported vm \<longleftrightarrow> (\<exists>os. vm_guest_os vm = Some os \<and>
     (\<exists>bad \<in> set UNSUPPORTED_OS_PREFIXES. sublist bad (py_lower os)))"

definition no_cpu :: "vm_summary \<Rightarrow> bool" where
  "no_cpu vm \<longleftrightarrow> (\<forall>hw. vm_hardware vm = Some hw \<longrightarrow> hw_cpu_count hw \<le> 0)"

definition no_memory :: "vm_summary \<Rightarrow> bool" where
  "no_memory vm \<longleftrightarrow> (\<forall>hw. vm_hardware vm = Some hw \<longrightarrow> hw_memory_mb hw \<le> 0)"

definition no_disks :: "vm_summary \<Rightarrow> bool" where
  "no_disks vm \<longleftrightarrow> (\<forall>hw. vm_hardware vm = Some hw \<longrightarrow> hw_disks hw = [])"

definition has_ide :: "vm_summary \<Rightarrow> bool" where
  "has_ide vm \<longleftrightarrow> (\<exists>cs. vm_disk_controller_types vm = Some cs \<and> (\<exists>c \<in> set cs. py_lower c = ''ide''))"

definition secure_boot :: "vm_summary \<Rightarrow> bool" where
  "secure_boot vm \<longleftrightarrow> vm_secure_boot_enabled vm = Some True"

definition blocked :: "vm_summary \<Rightarrow> bool" where
  "blocked vm \<longleftrightarrow> suspended vm \<or> os_unsupported vm \<or> no_cpu vm \<or> no_memory vm"

definition high_risks :: "vm_summary \<Rightarrow> nat" where
  "high_risks vm = length (filter id [os_missing vm, no_disks vm, secure_boot vm, has_ide vm])"

lemma py_in_nonempty: "py_in bad [] \<Longrightarrow> bad = []"
  by simp

lemma unsupported_nonempty: "bad \<in> set UNSUPPORTED_OS_PREFIXES \<Longrightarrow> bad \<noteq> []"
  by (auto simp: UNSUPPORTED_OS_PREFIXES_def)

lemma py_lower_Nil_iff [simp]: "py_lower s = [] \<longleftrightarrow> s = []"
  by (simp add: py_lower_def)

lemma os_unsupported_not_missing: "os_unsupported vm \<Longrightarrow> \<not> os_missing vm"
  using unsupported_nonempty by (auto simp: os_unsupported_def os_missing_def py_lower_def)

lemma penalties_power: "penalties (fst (check_power_state vm ([], []))) = (if suspended vm then [''critical''] else [])"
  by (simp add: check_defs suspended_def)

lemma penalties_os: "penalties (fst (check_os_compat vm ([], []))) =
    (if os_missing vm then [''high''] else if os_unsupported vm then [''critical''] else [])"
  by (cases "vm_guest_os vm")
     (auto simp: check_defs os_missing_def os_unsupported_def list_ex_iff py_in_sublist)

lemma penalties_cpu: "penalties (fst (check_cpu vm ([], []))) = (if no_cpu vm then [''critical''] else [])"
  by (cases "vm_hardware vm") (auto simp: check_defs no_cpu_def)

lemma penalties_memory: "penalties (fst (check_memory vm ([], []))) = (if no_memory vm then [''critical''] else [])"
  by (cases "vm_hardware vm") (auto simp: check_defs no_memory_def)

lemma penalties_disk: "penalties (fst (check_disk vm ([], []))) = (if no_disks vm then [''high''] else [])"
  by (cases "vm_hardware vm") (auto simp: check_defs no_disks_def)

lemma penalties_harmless:
  "penalties (fst (check_network vm ([], []))) = []"
  "penalties (fst (check_firmware vm ([], []))) = []"
  "penalties (fst (check_vmware_tools vm ([], []))) = []"
  by (auto simp: check_defs split: option.split)

lemma penalties_secure_boot:
  "penalties (fst (check_secure_boot vm ([], []))) = (if secure_boot vm then [''high''] else [])"
  by (simp add: check_defs secure_boot_def)

lemma penalties_controllers_loop:
  "penalties (fst (check_disk_controllers_loop seen cs ([], []))) =
     (if ''ide'' \<notin> set seen \<and> (\<exists>c \<in> set cs. py_lower c = ''ide'') then [''high''] else [])"
proof (induction cs arbitrary: seen)
  case (Cons c cs)
  have "penalties (fst (check_disk_controllers_loop sn cs (check_controller c ([], []))))
      = penalties (fst (check_controller c ([], [])))
        @ penalties (fst (check_disk_controllers_loop sn cs ([], [])))" for sn
    by (subst controllers_loop_extend) simp
  moreover have "penalties (fst (check_controller c ([], []))) = (if py_lower c = ''ide'' then [''high''] else [])"
    by (simp add: check_defs)
  ultimately show ?case by (auto simp: Cons.IH)
qed simp

lemma penalties_controllers:
  "penalties (fst (check_disk_controllers vm ([], []))) = (if has_ide vm then [''high''] else [])"
  by (auto simp: check_disk_controllers_def has_ide_def penalties_controllers_loop split: option.split)

lemma penalties_nics_loop: "penalties (fst (check_nic_types_loop seen ns ([], []))) = []"
proof (induction ns arbitrary: seen)
  case (Cons n ns)
  have "penalties (fst (check_nic_types_loop sn ns (check_nic_type t ([], [])))) = []" for t sn
    by (subst nics_loop_extend) (simp add: Cons.IH check_defs)
  then show ?case by (simp add: Cons.IH split: option.split)
qed simp

lemma penalties_nics: "penalties (fst (check_nic_types vm ([], []))) = []"
  by (simp add: check_nic_types_def penalties_nics_loop split: option.split)

lemmas penalties_found = penalties_power penalties_os penalties_cpu penalties_memory penalties_disk
  penalties_harmless penalties_secure_boot penalties_controllers penalties_nics

lemmas penalties_chain = pw.penalties_extend os.penalties_extend cpu.penalties_extend
  memory.penalties_extend disk.penalties_extend nets.penalties_extend fw.penalties_extend
  sb.penalties_extend tools.penalties_extend ctrl.penalties_extend nic.penalties_extend

lemma penalties_run_checks:
  "penalties (fst (run_checks vm ([], m))) =
     (if suspended vm then [''critical''] else [])
   @ (if os_missing vm then [''high''] else if os_unsupported vm then [''critical''] else [])
   @ (if no_cpu vm then [''critical''] else []) @ (if no_memory vm then [''critical''] else [])
   @ (if no_disks vm then [''high''] else []) @ (if secure_boot vm then [''high''] else [])
   @ (if has_ide vm then [''high''] else [])"
  unfolding run_checks_def Let_def
  by (simp only: nic.penalties_extend [where s = "check_disk_controllers _ _"]
      ctrl.penalties_extend [where s = "check_vmware_tools _ _"]
      tools.penalties_extend [where s = "check_secure_boot _ _"]
      sb.penalties_extend [where s = "check_firmware _ _"]
      fw.penalties_extend [where s = "check_network _ _"]
      nets.penalties_extend [where s = "check_disk _ _"]
      disk.penalties_extend [where s = "check_memory _ _"]
      memory.penalties_extend [where s = "check_cpu _ _"]
      cpu.penalties_extend [where s = "check_os_compat _ _"]
      os.penalties_extend [where s = "check_power_state _ _"]
      pw.penalties_extend [where s = "([], m)"] penalties_found fst_conv penalties_simps append_Nil
      append_Nil2 append_assoc)

section \<open>The score\<close>

definition weight :: "string \<Rightarrow> rat" where
  "weight severity = dict_get_default SCORE_WEIGHTS severity (fl (- 1 / 10))"

definition penalise :: "rat \<Rightarrow> string \<Rightarrow> rat" where
  "penalise score severity = max 0 (fadd score (weight severity))"

lemma score_penalties: "foldl score_step a issues = foldl penalise a (penalties issues)"
  by (induction issues arbitrary: a) (simp_all add: score_step_def penalise_def weight_def)

lemma weight_nonpos: "weight severity \<le> 0"
proof -
  have neg: "fl x \<le> 0" if "x \<le> 0" for x using fl_mono [OF that] by simp
  have "\<forall>p \<in> set SCORE_WEIGHTS. snd p \<le> 0"
    by (simp add: SCORE_WEIGHTS_def neg)
  then have "w \<le> 0" if "map_of SCORE_WEIGHTS severity = Some w" for w
    using map_of_SomeD [OF that] by auto
  then show ?thesis
    by (simp add: weight_def dict_get_default_def neg split: option.split)
qed

lemma penalise_range: "0 \<le> a \<Longrightarrow> a \<le> 1 \<Longrightarrow> 0 \<le> penalise a sev \<and> penalise a sev \<le> 1"
proof -
  assume "a \<le> 1"
  then have "a + weight sev \<le> 1" using weight_nonpos [of sev] by linarith
  from fl_mono [OF this] show ?thesis by (simp add: penalise_def fadd_def)
qed

lemma penalise_le: "fl a = a \<Longrightarrow> 0 \<le> a \<Longrightarrow> penalise a sev \<le> a"
proof -
  assume a: "fl a = a" "0 \<le> a"
  have "a + weight sev \<le> a" using weight_nonpos [of sev] by linarith
  from fl_mono [OF this] a show ?thesis by (simp add: penalise_def fadd_def)
qed

lemma score_range: "0 \<le> a \<Longrightarrow> a \<le> 1 \<Longrightarrow> 0 \<le> foldl penalise a ps \<and> foldl penalise a ps \<le> 1"
proof (induction ps arbitrary: a)
  case (Cons p ps)
  from penalise_range [OF Cons.prems, of p] Cons.IH [of "penalise a p"] show ?case by simp
qed simp

lemma critical_penalties: "list_ex is_critical issues \<longleftrightarrow> ''critical'' \<in> set (penalties issues)"
  by (induction issues) (auto simp: is_critical_def)

text \<open>The scores after zero to four high-severity deductions, in double arithmetic.\<close>

lemma penalise_high:
  "penalise (1) ''high'' = 3602879701896397 / 4503599627370496"
  "penalise (3602879701896397 / 4503599627370496) ''high'' = 1351079888211149 / 2251799813685248"
  "penalise (1351079888211149 / 2251799813685248) ''high'' = 7205759403792795 / 18014398509481984"
  "penalise (7205759403792795 / 18014398509481984) ''high'' = 1801439850948199 / 9007199254740992"
  by code_simp+

lemma score_high:
  "foldl penalise 1 (replicate 0 ''high'') = 1"
  "foldl penalise 1 (replicate 1 ''high'') = 3602879701896397 / 4503599627370496"
  "foldl penalise 1 (replicate 2 ''high'') = 1351079888211149 / 2251799813685248"
  "foldl penalise 1 (replicate 3 ''high'') = 7205759403792795 / 18014398509481984"
  "foldl penalise 1 (replicate 4 ''high'') = 1801439850948199 / 9007199254740992"
  by (simp_all add: numeral_eq_Suc penalise_high)

lemma high_risks_le: "high_risks vm \<le> 4"
  by (simp add: high_risks_def)

lemma penalties_unblocked:
  "\<not> blocked vm \<Longrightarrow> penalties (fst (run_checks vm ([], m))) = replicate (high_risks vm) ''high''"
  by (auto simp: penalties_run_checks blocked_def high_risks_def)

lemma penalties_blocked: "''critical'' \<in> set (penalties (fst (run_checks vm ([], m)))) \<longleftrightarrow> blocked vm"
  using os_unsupported_not_missing [of vm] by (auto simp: penalties_run_checks blocked_def)

lemma four_cases: "n \<le> 4 \<Longrightarrow> n = 0 \<or> n = 1 \<or> n = 2 \<or> n = 3 \<or> n = (4 :: nat)"
  by linarith

lemma score_high_ge_half: "n \<le> 4 \<Longrightarrow> 1 / 2 \<le> foldl penalise 1 (replicate n ''high'') \<longleftrightarrow> n \<le> 2"
  by (drule four_cases) (elim disjE, simp_all only: score_high, simp_all)

lemma score_high_rounded:
  "n \<le> 4 \<Longrightarrow> py_round (foldl penalise 1 (replicate n ''high'')) 2 = fl (of_int (10 - 2 * int n) / 10)"
proof -
  have "py_round 1 2 = fl (10 / 10)" "py_round (3602879701896397 / 4503599627370496) 2 = fl (8 / 10)"
    "py_round (1351079888211149 / 2251799813685248) 2 = fl (6 / 10)"
    "py_round (7205759403792795 / 18014398509481984) 2 = fl (4 / 10)"
    "py_round (1801439850948199 / 9007199254740992) 2 = fl (2 / 10)"
    by code_simp+
  moreover assume "n \<le> 4"
  from four_cases [OF this] show ?thesis
    using calculation by (elim disjE) (simp_all only: score_high, simp_all)
qed

lemma evaluate_result:
  "fst (evaluate vm m) = Inr
     (let issues = fst (run_checks vm ([], m)); score = foldl penalise 1 (penalties issues);
          compatible = (1 / 2 \<le> score \<and> \<not> blocked vm)
      in \<lparr>sc_vm_id = vm_id vm, sc_vm_name = vm_name vm, sc_compatible = compatible,
          sc_score = py_round score 2, sc_issues = issues,
          sc_summary = (if compatible then ''Compatible (score: '' @ fmt_fixed 2 score @ '')''
            else ''Incompatible '' @ em_dash @ '' '' @ str_int (int (length (filter is_critical issues)))
                 @ '' critical issues (score: '' @ fmt_fixed 2 score @ '')'')\<rparr>)"
proof -
  obtain issues m' where run: "run_checks vm ([], m) = (issues, m')" by fastforce
  have blk: "list_ex is_critical issues = blocked vm"
    using penalties_blocked [of vm m] by (simp add: critical_penalties run)
  have rng: "0 \<le> py_round (foldl penalise 1 (penalties issues)) 2
      \<and> py_round (foldl penalise 1 (penalties issues)) 2 \<le> 1"
    using score_range [of 1 "penalties issues"] by (intro py_round_unit) simp_all
  show ?thesis
    using rng by (simp add: evaluate_def run Let_def score_penalties blk new_scored_result_def check_unit_def)
qed

section \<open>Properties\<close>

text \<open>A concrete VM for the witnesses: a powered-on Ubuntu guest with one disk and one NIC.\<close>

definition example_vm :: vm_summary where
  "example_vm =
    \<lparr>vm_id = ''vm-1'', vm_name = ''web'', vm_power_state = ''poweredOn'', vm_guest_os = Some ''Ubuntu Linux (64-bit)'',
     vm_hardware = Some \<lparr>hw_cpu_count = 2, hw_cpu_cores_per_socket = 1, hw_memory_mb = 4096,
       hw_disks = [\<lparr>vd_label = ''Hard disk 1'', vd_capacity_gb = 40, vd_thin_provisioned = True,
                    vd_datastore_name = None, vd_controller_type = None\<rparr>],
       hw_nics = [\<lparr>vn_label = ''NIC 1'', vn_network_name = ''VM Network'', vn_mac_address = None,
                   vn_ip_addresses = [], vn_nic_type = Some ''vmxnet3''\<rparr>]\<rparr>,
     vm_cluster_name = None, vm_datastores = [], vm_tags = [], vm_annotation = None, vm_firmware = Some ''efi'',
     vm_secure_boot_enabled = Some False, vm_vmware_tools_status = Some ''toolsOk'',
     vm_disk_controller_types = Some [''pvscsi'', ''IDE'', ''ide'']\<rparr>"

lemma example_vm_unblocked: "\<not> blocked example_vm"
proof -
  have "\<not> py_in bad (py_lower ''Ubuntu Linux (64-bit)'')" if "bad \<in> set UNSUPPORTED_OS_PREFIXES" for bad
  proof -
    have "list_all (\<lambda>bad. \<not> py_in bad (py_lower ''Ubuntu Linux (64-bit)'')) UNSUPPORTED_OS_PREFIXES"
      by code_simp
    then show ?thesis using that by (simp add: list_all_iff)
  qed
  moreover have "py_lower ''poweredOn'' \<noteq> ''suspended''" by code_simp
  ultimately show ?thesis
    by (auto simp: blocked_def suspended_def os_unsupported_def no_cpu_def no_memory_def example_vm_def py_in_sublist)
qed

lemma example_vm_high_risks: "high_risks example_vm = 1"
proof -
  have "py_lower ''ide'' = ''ide''" by code_simp
  then show ?thesis
    by (simp add: high_risks_def os_missing_def no_disks_def secure_boot_def has_ide_def example_vm_def)
qed

lemma evaluate_verdict_conditions:
  "\<exists>r. fst (evaluate vm m) = Inr r \<and> (sc_compatible r \<longleftrightarrow> \<not> blocked vm \<and> high_risks vm \<le> 2)"
proof (cases "blocked vm")
  case True
  then show ?thesis by (simp add: evaluate_result Let_def)
next
  case False
  then show ?thesis
    using score_high_ge_half [OF high_risks_le [of vm]]
    by (simp add: evaluate_result Let_def penalties_unblocked)
qed

text \<open>C4: Evaluate always returns a result (the score it computes satisfies the constraint of the
  result type, so pydantic never raises), and the verdict is decided by the VM alone: compatible
  exactly when the VM is not suspended, its guest OS is not on the unsupported list, it has vCPUs and
  memory, and at most two of the four high-severity risks hold (no guest OS, no disks, Secure Boot, an
  IDE controller).\<close>

theorem evaluate_verdict:
  "\<exists>r. fst (evaluate vm m) = Inr r \<and> (sc_compatible r \<longleftrightarrow> \<not> blocked vm \<and> high_risks vm \<le> 2)"
  by (rule evaluate_verdict_conditions)

text \<open>C33: The score of a VM without a blocking issue is 1.0 minus 0.2 for each high-severity risk,
  rounded to the double nearest to the decimal value; nothing of medium or low severity changes it.\<close>

theorem evaluate_score_unblocked:
  assumes "\<not> blocked vm"
  shows "\<exists>r. fst (evaluate vm m) = Inr r \<and> sc_score r = fl (of_int (10 - 2 * int (high_risks vm)) / 10)"
  using assms
  by (simp add: evaluate_result Let_def penalties_unblocked score_high_rounded high_risks_le)

theorem evaluate_score_unblocked_witness:
  "\<not> blocked example_vm \<and> (\<exists>r. fst (evaluate example_vm []) = Inr r \<and> sc_score r = fl (8 / 10))"
  using evaluate_score_unblocked [of example_vm "[]", OF example_vm_unblocked] example_vm_unblocked
  by (simp add: example_vm_high_risks)

text \<open>The findings of medium severity do not count: changing the firmware type or the VMware Tools
  status of a VM never changes its score or its verdict (the weights for medium and low severity are never
  applied, because every such issue is recorded as compatible).\<close>

theorem evaluate_ignores_medium:
  "map_sum id (\<lambda>r. (sc_score r, sc_compatible r))
     (fst (evaluate (vm\<lparr>vm_firmware := f, vm_vmware_tools_status := t\<rparr>) m))
   = map_sum id (\<lambda>r. (sc_score r, sc_compatible r)) (fst (evaluate vm m))"
proof -
  let ?vm = "vm\<lparr>vm_firmware := f, vm_vmware_tools_status := t\<rparr>"
  have same: "suspended ?vm = suspended vm" "os_missing ?vm = os_missing vm" "os_unsupported ?vm = os_unsupported vm"
    "no_cpu ?vm = no_cpu vm" "no_memory ?vm = no_memory vm" "no_disks ?vm = no_disks vm"
    "secure_boot ?vm = secure_boot vm" "has_ide ?vm = has_ide vm"
    by (simp_all add: suspended_def os_missing_def os_unsupported_def no_cpu_def no_memory_def no_disks_def
        secure_boot_def has_ide_def)
  then have "blocked ?vm = blocked vm" by (simp add: blocked_def)
  with same show ?thesis by (simp add: evaluate_result Let_def penalties_run_checks)
qed

end
