(* ===== verification/Openstack_Connection.thy ===== *)
theory Openstack_Connection
  imports Py_Library Py_Float
begin

text \<open>
  app/clients/openstack/connection.py: the factory that caches one OpenStack SDK connection and runs
  every SDK operation through call, which records durations and errors and wraps exceptions.

  The SDK and the cloud behind it are not part of the repository: they are the record os_sdk, whose
  functions act on a state 'c of their own. sdk_invoke is a bound SDK method, sdk_iter the iteration
  over what it returns (the SDK's list operations return generators, whose requests are made, and
  may fail, during the iteration), sdk_now the monotonic clock. The validators of pydantic are
  parameters too: pd_opt_str and pd_opt_int check a field of type str or int that may be None.

  The factory's state is an extensible record, so that the services built on the factory add their
  own fields and run its operations unchanged.
\<close>

record os_settings =
  ost_ready :: bool
  ost_timeout :: rat

record 'c os_sdk =
  sdk_connect :: "('c, unit) act"
  sdk_has_session :: "'c \<Rightarrow> bool"
  sdk_patch_session :: "rat \<Rightarrow> ('c, unit) act"
  sdk_has_service :: "string \<Rightarrow> bool"
  sdk_has_operation :: "string \<Rightarrow> string \<Rightarrow> bool"
  sdk_invoke :: "string \<Rightarrow> string \<Rightarrow> pyval list \<Rightarrow> (string, pyval) dict \<Rightarrow> ('c, pyval) act"
  sdk_iter :: "pyval \<Rightarrow> ('c, pyval list) act"
  sdk_now :: "'c \<Rightarrow> rat"
  sdk_repr :: "pyval \<Rightarrow> string"
  pd_opt_str :: "pyval \<Rightarrow> exn + string option"
  pd_opt_int :: "pyval \<Rightarrow> exn + int option"

record 'c os_state =
  os_connected :: bool
  os_cloud :: 'c
  os_api_errors :: "(string \<times> string, int) dict"
  os_api_durations :: "(string \<times> string \<times> rat) list"

text \<open>Run an action of the SDK on the cloud's state.\<close>

definition cloudE :: "('c, 'a) act \<Rightarrow> (('c, 'm) os_state_scheme, 'a) act" where [effect_defs]:
  "cloudE m w = (case m (os_cloud w) of (r, c) \<Rightarrow> (r, w\<lparr>os_cloud := c\<rparr>))"

section \<open>The factory\<close>

text \<open>create(): the connection is remembered as soon as it exists, before its session is patched.\<close>

definition os_create :: "os_settings \<Rightarrow> 'c os_sdk \<Rightarrow> (('c, 'm) os_state_scheme, unit) act" where
  "os_create settings sdk w =
    (if os_connected w then (Inr (), w)
     else if \<not> ost_ready settings then
       (Inl (AppException ''OpenStack settings are incomplete. Fill the required OPENSTACK_* environment variables.''
          503 ''openstack_not_configured''), w)
     else tryE
       (thenE (cloudE (sdk_connect sdk))
        (thenE (updE (\<lambda>w. w\<lparr>os_connected := True\<rparr>))
          (\<lambda>w. if sdk_has_session sdk (os_cloud w) then cloudE (sdk_patch_session sdk (ost_timeout settings)) w
               else (Inr (), w))))
       (\<lambda>exc. raiseE (OpenStackError (''Failed to create OpenStack connection: '' @ exn_str exc))) w)"

definition os_call :: "os_settings \<Rightarrow> 'c os_sdk \<Rightarrow> string \<Rightarrow> string \<Rightarrow> pyval list \<Rightarrow> (string, pyval) dict \<Rightarrow>
    (('c, 'm) os_state_scheme, pyval) act" where
  "os_call settings sdk service operation args kwargs =
    thenE (os_create settings sdk)
    (if \<not> sdk_has_service sdk service then raiseE (OpenStackError (''Unknown OpenStack service: '' @ service))
     else if \<not> sdk_has_operation sdk service operation then
       raiseE (OpenStackError (''Unknown '' @ service @ '' operation: '' @ operation))
     else
       bindE (getE (\<lambda>w. sdk_now sdk (os_cloud w))) (\<lambda>t0.
       bindE
         (tryE (cloudE (sdk_invoke sdk service operation args kwargs))
           (\<lambda>exc. thenE (updE (\<lambda>w. w\<lparr>os_api_errors := counter_add (os_api_errors w) (service, exn_name exc) 1\<rparr>))
              (raiseE (OpenStackError (service @ ''.'' @ operation @ '' failed: '' @ exn_str exc)))))
         (\<lambda>result.
         thenE (updE (\<lambda>w. w\<lparr>os_api_durations := os_api_durations w @
                   [(service, operation, fsub (sdk_now sdk (os_cloud w)) t0)]\<rparr>))
           (retE result))))"

definition os_invalidate :: "(('c, 'm) os_state_scheme, unit) act" where
  "os_invalidate = updE (\<lambda>w. w\<lparr>os_connected := False\<rparr>)"

text \<open>call_with_timeout: the call runs on a worker thread, so its effects happen in any case; the
  caller gets its outcome only if it took no longer than the timeout on the monotonic clock.\<close>

definition call_with_timeout :: "'c os_sdk \<Rightarrow> rat \<Rightarrow> (('c, 'm) os_state_scheme, 'a) act \<Rightarrow>
    (('c, 'm) os_state_scheme, 'a) act" where
  "call_with_timeout sdk timeout func w =
    (case func w of (r, w') \<Rightarrow>
       if sdk_now sdk (os_cloud w') - sdk_now sdk (os_cloud w) > timeout then (Inl (TimeoutError []), w')
       else (r, w'))"

section \<open>Attribute access on SDK objects\<close>

fun has_attr :: "pyval \<Rightarrow> string \<Rightarrow> bool" where
  "has_attr (PObj _ attrs _) name = (dict_get attrs name \<noteq> None)"
| "has_attr _ name = False"

text \<open>\<^verbatim>\<open>v.name\<close>, which raises when there is no such attribute.\<close>

definition attr :: "pyval \<Rightarrow> string \<Rightarrow> exn + pyval" where
  "attr v name = (if has_attr v name then Inr (getattr v name PNone)
     else Inl (PyException ''AttributeError'' (''object has no attribute '' @ name)))"

definition opt_str_attr :: "'c os_sdk \<Rightarrow> pyval \<Rightarrow> string \<Rightarrow> exn + string option" where
  "opt_str_attr sdk v name = (case attr v name of Inl e \<Rightarrow> Inl e | Inr x \<Rightarrow> pd_opt_str sdk x)"

definition opt_int_attr :: "'c os_sdk \<Rightarrow> pyval \<Rightarrow> string \<Rightarrow> exn + int option" where
  "opt_int_attr sdk v name = (case attr v name of Inl e \<Rightarrow> Inl e | Inr x \<Rightarrow> pd_opt_int sdk x)"

section \<open>Laws of the factory\<close>

lemma cloudE_frame [simp]:
  "os_connected (snd (cloudE m w)) = os_connected w"
  "os_api_errors (snd (cloudE m w)) = os_api_errors w"
  "os_api_durations (snd (cloudE m w)) = os_api_durations w"
  "os_state.more (snd (cloudE m w)) = os_state.more w"
  by (simp_all add: cloudE_def split: prod.split)

lemma keeps_cloudE [keeps_intros]:
  "(\<And>w c. P w \<Longrightarrow> P (w\<lparr>os_cloud := c\<rparr>)) \<Longrightarrow> keeps P (cloudE m)"
  by (simp add: keeps_def cloudE_def split: prod.split)

lemma keeps_outcomeE [keeps_intros]: "keeps P (outcomeE r)"
  by (simp add: keeps_def outcomeE_def)

text \<open>What a component layered on the factory may rely on: a property that does not mention the
  factory's own fields survives every call.\<close>

definition os_frame :: "(('c, 'm) os_state_scheme \<Rightarrow> bool) \<Rightarrow> bool" where
  "os_frame P \<longleftrightarrow> (\<forall>w b c er du. P w \<longrightarrow>
     P (w\<lparr>os_connected := b\<rparr>) \<and> P (w\<lparr>os_cloud := c\<rparr>) \<and> P (w\<lparr>os_api_errors := er\<rparr>) \<and> P (w\<lparr>os_api_durations := du\<rparr>))"

lemma keeps_os_create [keeps_intros]: "os_frame P \<Longrightarrow> keeps P (os_create settings sdk)"
proof -
  assume f: "os_frame P"
  then have "keeps P (\<lambda>w. if sdk_has_session sdk (os_cloud w) then cloudE (sdk_patch_session sdk (ost_timeout settings)) w
               else (Inr (), w))"
    by (auto simp: keeps_def cloudE_def os_frame_def split: prod.split)
  with f have "keeps P (tryE
       (thenE (cloudE (sdk_connect sdk))
        (thenE (updE (\<lambda>w. w\<lparr>os_connected := True\<rparr>))
          (\<lambda>w. if sdk_has_session sdk (os_cloud w) then cloudE (sdk_patch_session sdk (ost_timeout settings)) w
               else (Inr (), w))))
       (\<lambda>exc. raiseE (OpenStackError (''Failed to create OpenStack connection: '' @ exn_str exc))))"
    by (intro keeps_intros) (auto simp: os_frame_def)
  then show ?thesis by (auto simp: keeps_def os_create_def)
qed

lemma keeps_os_call [keeps_intros]: "os_frame P \<Longrightarrow> keeps P (os_call settings sdk service operation args kwargs)"
  unfolding os_call_def by (intro keeps_intros; assumption?) (auto simp: os_frame_def)

lemma os_create_connected: "os_connected w \<Longrightarrow> os_create settings sdk w = (Inr (), w)"
  by (simp add: os_create_def)

lemma os_call_connected:
  assumes "os_connected w" "sdk_has_service sdk service" "sdk_has_operation sdk service operation"
  shows "os_call settings sdk service operation args kwargs w =
    (case sdk_invoke sdk service operation args kwargs (os_cloud w) of
       (Inr v, c) \<Rightarrow> (Inr v, w\<lparr>os_cloud := c, os_api_durations := os_api_durations w @
          [(service, operation, fsub (sdk_now sdk c) (sdk_now sdk (os_cloud w)))]\<rparr>)
     | (Inl e, c) \<Rightarrow> (Inl (OpenStackError (service @ ''.'' @ operation @ '' failed: '' @ exn_str e)),
          w\<lparr>os_cloud := c, os_api_errors := counter_add (os_api_errors w) (service, exn_name e) 1\<rparr>))"
  using assms
  by (simp add: os_call_def thenE_def os_create_connected bindE_def getE_def tryE_def cloudE_def updE_def
      retE_def raiseE_def split: prod.split sum.split)

definition sdk_boundary_exn :: "exn \<Rightarrow> bool" where
  "sdk_boundary_exn e \<longleftrightarrow>
     e = AppException ''OpenStack settings are incomplete. Fill the required OPENSTACK_* environment variables.''
           503 ''openstack_not_configured'' \<or> (\<exists>m. e = OpenStackIntegrationException m 502)"

lemma os_create_outcome:
  assumes "os_create settings sdk w = (r, w')"
  shows "os_api_durations w' = os_api_durations w" "os_api_errors w' = os_api_errors w"
    "os_state.more w' = os_state.more w" "r = Inr u \<Longrightarrow> os_connected w'" "r = Inl e \<Longrightarrow> sdk_boundary_exn e"
proof -
  have "os_api_durations w' = os_api_durations w \<and> os_api_errors w' = os_api_errors w \<and>
    os_state.more w' = os_state.more w \<and> (case r of Inr u \<Rightarrow> os_connected w' | Inl e \<Rightarrow> sdk_boundary_exn e)"
  proof (cases "os_connected w \<or> \<not> ost_ready settings")
    case True
    then show ?thesis using assms by (auto simp: os_create_def sdk_boundary_exn_def split: if_splits)
  next
    case False
    obtain r1 c1 where c1: "sdk_connect sdk (os_cloud w) = (r1, c1)" by fastforce
    obtain r2 c2 where c2: "sdk_patch_session sdk (ost_timeout settings) c1 = (r2, c2)" by fastforce
    from False assms c1 c2 show ?thesis
      by (cases r1; cases r2; cases "sdk_has_session sdk c1")
         (auto simp: os_create_def tryE_def thenE_def updE_def cloudE_def raiseE_def sdk_boundary_exn_def)
  qed
  then show "os_api_durations w' = os_api_durations w" "os_api_errors w' = os_api_errors w"
    "os_state.more w' = os_state.more w" "r = Inr u \<Longrightarrow> os_connected w'" "r = Inl e \<Longrightarrow> sdk_boundary_exn e"
    by auto
qed

text \<open>The contract of the factory that the services rely on, for the outcome of one call.\<close>

definition call_contract :: "string \<Rightarrow> string \<Rightarrow> ('c, 'm) os_state_scheme \<Rightarrow>
    (exn + pyval) \<times> ('c, 'm) os_state_scheme \<Rightarrow> bool" where
  "call_contract service operation w out \<longleftrightarrow> (case out of
     (Inr v, w') \<Rightarrow> os_connected w' \<and> os_api_errors w' = os_api_errors w \<and>
       (\<exists>d. os_api_durations w' = os_api_durations w @ [(service, operation, d)])
   | (Inl e, w') \<Rightarrow> sdk_boundary_exn e \<and> os_api_durations w' = os_api_durations w \<and>
       (os_api_errors w' = os_api_errors w \<or>
        (\<exists>n. os_api_errors w' = counter_add (os_api_errors w) (service, n) 1)))"

lemma os_call_meets_contract:
  "call_contract service operation w (os_call settings sdk service operation args kwargs w) \<and>
   os_state.more (snd (os_call settings sdk service operation args kwargs w)) = os_state.more w"
proof -
  obtain r w1 where c: "os_create settings sdk w = (r, w1)" by fastforce
  note o = os_create_outcome [OF c]
  show ?thesis
  proof (cases r)
    case (Inl e)
    with o show ?thesis by (simp add: os_call_def thenE_def c call_contract_def)
  next
    case (Inr u)
    then have "os_call settings sdk service operation args kwargs w = os_call settings sdk service operation args kwargs w1"
      using c o(4) by (simp add: os_call_def thenE_def os_create_connected)
    moreover have "call_contract service operation w1 (os_call settings sdk service operation args kwargs w1) \<and>
        os_state.more (snd (os_call settings sdk service operation args kwargs w1)) = os_state.more w1"
    proof (cases "sdk_has_service sdk service \<and> sdk_has_operation sdk service operation")
      case True
      then show ?thesis using o(4) Inr
        by (auto simp: os_call_connected call_contract_def sdk_boundary_exn_def split: prod.split sum.split)
    next
      case False
      then show ?thesis using o(4) Inr
        by (auto simp: os_call_def thenE_def os_create_connected raiseE_def call_contract_def sdk_boundary_exn_def)
    qed
    ultimately show ?thesis using o(1-3) by (auto simp: call_contract_def split: prod.splits sum.splits)
  qed
qed

text \<open>Every SDK operation goes through the factory with the same contract, whatever the SDK does.
  If the operation returns, the connection is established, exactly one duration was recorded for
  this service and operation and no error; if it raises, the exception is the 503 of an unconfigured
  platform or a 502 integration error, no duration was recorded and at most one error was
  counted, under this service. The state of the layer above is untouched either way.\<close>

theorem os_call_contract:
  "call_contract service operation w (os_call settings sdk service operation args kwargs w) \<and>
   os_state.more (snd (os_call settings sdk service operation args kwargs w)) = os_state.more w"
  by (rule os_call_meets_contract)

section \<open>A cloud for examples\<close>

text \<open>Answers every operation with the next of a given list of values; a value that is a list is
  iterated as it is. The state is the list of answers left.\<close>

definition scripted_sdk :: "pyval list os_sdk" where
  "scripted_sdk = \<lparr>sdk_connect = retE (), sdk_has_session = (\<lambda>_. True), sdk_patch_session = (\<lambda>_. retE ()),
     sdk_has_service = (\<lambda>_. True), sdk_has_operation = (\<lambda>_ _. True),
     sdk_invoke = (\<lambda>_ _ _ _ vs. case vs of [] \<Rightarrow> (Inl (PyException ''ConflictException'' ''no answer''), vs) | v # vs' \<Rightarrow> (Inr v, vs')),
     sdk_iter = (\<lambda>v. case v of PList xs \<Rightarrow> retE xs | _ \<Rightarrow> raiseE (PyException ''TypeError'' ''object is not iterable'')),
     sdk_now = (\<lambda>_. 0), sdk_repr = (\<lambda>_. ''object''),
     pd_opt_str = (\<lambda>v. case v of PNone \<Rightarrow> Inr None | PStr s \<Rightarrow> Inr (Some s) | _ \<Rightarrow> Inl (PyException ''ValidationError'' [])),
     pd_opt_int = (\<lambda>v. case v of PNone \<Rightarrow> Inr None | PInt i \<Rightarrow> Inr (Some i) | _ \<Rightarrow> Inl (PyException ''ValidationError'' []))\<rparr>"

definition ready_settings :: os_settings where
  "ready_settings = \<lparr>ost_ready = True, ost_timeout = 60\<rparr>"

end
