(* ===== verification/Vmware_Mapping.thy ===== *)
theory Vmware_Mapping
  imports Vmware_Schemas Openstack_Connection
begin

text \<open>
  app/services/vmware/mapping_engine.py: the mapping of a VMware machine to OpenStack resources: the
  flavor at the smallest weighted distance, the network of each adapter by name, a volume for each
  disk. The engine keeps the flavors and networks it has read; they are read through the connection
  factory. Distances are binary64 (theory Py_Float): \<^verbatim>\<open>x**2\<close> is the product of x with itself.
\<close>

section \<open>Flavors and networks as read from OpenStack\<close>

record os_flavor =
  of_id :: "string option"
  of_name :: "string option"
  of_vcpus :: "int option"
  of_ram :: "int option"
  of_disk :: "int option"

record os_network =
  on_id :: "string option"
  on_name :: "string option"

record 'c mapping_state = "'c os_state" +
  mp_flavor_cache :: "os_flavor list option"
  mp_network_cache :: "os_network list option"
  mp_api_durations :: "(string \<times> string \<times> string \<times> rat) list"

type_synonym ('c, 'm) mapping_world = "('c, 'm) mapping_state_scheme"

definition os_flavor_of :: "'c os_sdk \<Rightarrow> pyval \<Rightarrow> exn + os_flavor" where
  "os_flavor_of sdk f = fst (
     bindE (outcomeE (attr f ''id'')) (\<lambda>i. bindE (outcomeE (attr f ''name'')) (\<lambda>n.
     bindE (outcomeE (attr f ''vcpus'')) (\<lambda>c. bindE (outcomeE (attr f ''ram'')) (\<lambda>r.
     bindE (outcomeE (attr f ''disk'')) (\<lambda>d.
     bindE (outcomeE (pd_opt_str sdk i)) (\<lambda>i'. bindE (outcomeE (pd_opt_str sdk n)) (\<lambda>n'.
     bindE (outcomeE (pd_opt_int sdk c)) (\<lambda>c'. bindE (outcomeE (pd_opt_int sdk r)) (\<lambda>r'.
     bindE (outcomeE (pd_opt_int sdk d)) (\<lambda>d'.
     retE \<lparr>of_id = i', of_name = n', of_vcpus = c', of_ram = r', of_disk = d'\<rparr>)))))))))) ())"

definition os_network_of :: "'c os_sdk \<Rightarrow> pyval \<Rightarrow> exn + os_network" where
  "os_network_of sdk n = fst (
     bindE (outcomeE (attr n ''id'')) (\<lambda>i. bindE (outcomeE (attr n ''name'')) (\<lambda>nm.
     bindE (outcomeE (pd_opt_str sdk i)) (\<lambda>i'. bindE (outcomeE (pd_opt_str sdk nm)) (\<lambda>nm'.
     retE \<lparr>on_id = i', on_name = nm'\<rparr>)))) ())"

definition observe_api :: "'c os_sdk \<Rightarrow> string \<Rightarrow> string \<Rightarrow> string \<Rightarrow> rat \<Rightarrow> (('c, 'm) mapping_world, unit) act" where
  "observe_api sdk service operation status t0 = updE (\<lambda>w. w\<lparr>mp_api_durations := mp_api_durations w @
     [(service, operation, status, fsub (sdk_now sdk (os_cloud w)) t0)]\<rparr>)"

text \<open>The timed call shared by _get_flavors and _get_networks.\<close>

definition timed_call :: "os_settings \<Rightarrow> 'c os_sdk \<Rightarrow> string \<Rightarrow> string \<Rightarrow> (('c, 'm) mapping_world, pyval) act" where
  "timed_call settings sdk service operation =
    bindE (getE (\<lambda>w. sdk_now sdk (os_cloud w))) (\<lambda>t0.
    tryE (bindE (os_call settings sdk service operation [] []) (\<lambda>raw.
            thenE (observe_api sdk service operation ''success'' t0) (retE raw)))
         (\<lambda>exc. thenE (observe_api sdk service operation ''error'' t0) (raiseE exc)))"

definition get_flavors :: "os_settings \<Rightarrow> 'c os_sdk \<Rightarrow> (('c, 'm) mapping_world, os_flavor list) act" where
  "get_flavors settings sdk w = (case mp_flavor_cache w of
     Some fs \<Rightarrow> (Inr fs, w)
   | None \<Rightarrow>
      bindE (timed_call settings sdk ''compute'' ''flavors'') (\<lambda>raw.
      bindE (cloudE (sdk_iter sdk raw)) (\<lambda>objs.
      bindE (mapE (\<lambda>f. outcomeE (os_flavor_of sdk f)) objs) (\<lambda>fs.
      thenE (updE (\<lambda>w. w\<lparr>mp_flavor_cache := Some fs\<rparr>)) (retE fs)))) w)"

definition get_networks :: "os_settings \<Rightarrow> 'c os_sdk \<Rightarrow> (('c, 'm) mapping_world, os_network list) act" where
  "get_networks settings sdk w = (case mp_network_cache w of
     Some ns \<Rightarrow> (Inr ns, w)
   | None \<Rightarrow>
      bindE (timed_call settings sdk ''network'' ''networks'') (\<lambda>raw.
      bindE (cloudE (sdk_iter sdk raw)) (\<lambda>objs.
      bindE (mapE (\<lambda>n. outcomeE (os_network_of sdk n)) objs) (\<lambda>ns.
      thenE (updE (\<lambda>w. w\<lparr>mp_network_cache := Some ns\<rparr>)) (retE ns)))) w)"

section \<open>The flavor\<close>

definition WEIGHT_CPU :: rat where "WEIGHT_CPU = fl (4 / 10)"
definition WEIGHT_RAM :: rat where "WEIGHT_RAM = fl (4 / 10)"
definition WEIGHT_DISK :: rat where "WEIGHT_DISK = fl (2 / 10)"

text \<open>\<^verbatim>\<open>max(v for ...) or 1\<close>: max of no values is a ValueError, a maximum of zero becomes 1.\<close>

definition max_or_1 :: "int list \<Rightarrow> exn + int" where
  "max_or_1 vs = (case vs of
     [] \<Rightarrow> Inl (ValueError ''max() iterable argument is empty'')
   | v # vs' \<Rightarrow> (let m = fold max vs' v in Inr (if m \<noteq> 0 then m else 1)))"

record flavor_size =
  fs_vcpus :: int
  fs_ram :: int
  fs_disk :: int

definition size_of :: "os_flavor \<Rightarrow> flavor_size option" where
  "size_of f = (case (of_vcpus f, of_ram f, of_disk f) of
     (Some c, Some r, Some d) \<Rightarrow> Some \<lparr>fs_vcpus = c, fs_ram = r, fs_disk = d\<rparr> | _ \<Rightarrow> None)"

definition too_small :: "flavor_size \<Rightarrow> flavor_size \<Rightarrow> bool" where
  "too_small target s \<longleftrightarrow> fs_vcpus s < fs_vcpus target \<or> fs_ram s < fs_ram target \<or> fs_disk s < fs_disk target"

text \<open>The distance of a flavor from the target, for the maxima of the three sizes.\<close>

definition base_distance :: "flavor_size \<Rightarrow> flavor_size \<Rightarrow> flavor_size \<Rightarrow> rat" where
  "base_distance maxs target s =
    (let norm_cpu = int_truediv (fs_vcpus target - fs_vcpus s) (fs_vcpus maxs);
         norm_ram = int_truediv (fs_ram target - fs_ram s) (fs_ram maxs);
         norm_disk = int_truediv (fs_disk target - fs_disk s) (fs_disk maxs)
     in fsqrt (fadd (fadd (fmul WEIGHT_CPU (fmul norm_cpu norm_cpu)) (fmul WEIGHT_RAM (fmul norm_ram norm_ram)))
                    (fmul WEIGHT_DISK (fmul norm_disk norm_disk))))"

definition distance :: "flavor_size \<Rightarrow> flavor_size \<Rightarrow> flavor_size \<Rightarrow> rat" where
  "distance maxs target s =
    (if too_small target s then fmul (base_distance maxs target s) (3 / 2) else base_distance maxs target s)"

text \<open>The loop over the flavors; None is the initial infinite score.\<close>

fun best_flavor :: "(flavor_size \<Rightarrow> rat) \<Rightarrow> os_flavor list \<Rightarrow> (rat \<times> os_flavor \<times> flavor_size) option \<Rightarrow>
    (rat \<times> os_flavor \<times> flavor_size) option" where
  "best_flavor df [] best = best"
| "best_flavor df (f # fs) best = (case size_of f of
     None \<Rightarrow> best_flavor df fs best
   | Some s \<Rightarrow> best_flavor df fs
       (if (case best of None \<Rightarrow> True | Some (b, _) \<Rightarrow> df s < b) then Some (df s, f, s) else best))"

definition flavor_maxima :: "os_flavor list \<Rightarrow> exn + flavor_size" where
  "flavor_maxima flavors =
    (case max_or_1 (List.map_filter of_vcpus flavors) of Inl e \<Rightarrow> Inl e | Inr c \<Rightarrow>
    (case max_or_1 (List.map_filter of_ram flavors) of Inl e \<Rightarrow> Inl e | Inr r \<Rightarrow>
    (case max_or_1 (List.map_filter of_disk flavors) of Inl e \<Rightarrow> Inl e | Inr d \<Rightarrow>
      Inr \<lparr>fs_vcpus = c, fs_ram = r, fs_disk = d\<rparr>)))"

definition target_size :: "vm_hardware \<Rightarrow> flavor_size" where
  "target_size hw = \<lparr>fs_vcpus = hw_cpu_count hw, fs_ram = hw_memory_mb hw,
     fs_disk = (if hw_disks hw \<noteq> [] then sum_list (map vd_capacity_gb (hw_disks hw)) else 0)\<rparr>"

definition choose_flavor :: "flavor_size \<Rightarrow> os_flavor list \<Rightarrow> exn + flavor_match_result option" where
  "choose_flavor target flavors =
    (if flavors = [] then Inr None
     else case flavor_maxima flavors of Inl e \<Rightarrow> Inl e | Inr maxs \<Rightarrow>
       (case best_flavor (distance maxs target) flavors None of
          None \<Rightarrow> Inr None
        | Some (best_score, f, s) \<Rightarrow>
           (let normalized_score = max 0 (fsub 1 best_score);
                over = (fs_vcpus s \<ge> fs_vcpus target \<and> fs_ram s \<ge> fs_ram target \<and> fs_disk s \<ge> fs_disk target);
                under = too_small target s
            in map_sum id Some (new_flavor_match
                 \<lparr>fm_flavor_id = str_or (of_id f) [], fm_flavor_name = str_or (of_name f) [],
                  fm_score = py_round normalized_score 4, fm_vcpus = fs_vcpus s, fm_ram = fs_ram s,
                  fm_disk = fs_disk s, fm_overprovisioned = over, fm_underprovisioned = under\<rparr>))))"

definition match_flavor :: "os_settings \<Rightarrow> 'c os_sdk \<Rightarrow> vm_summary \<Rightarrow>
    (('c, 'm) mapping_world, flavor_match_result option) act" where
  "match_flavor settings sdk vm = (case vm_hardware vm of
     None \<Rightarrow> retE None
   | Some hw \<Rightarrow> bindE (get_flavors settings sdk) (\<lambda>flavors. outcomeE (choose_flavor (target_size hw) flavors)))"

section \<open>Networks and disks\<close>

definition map_nic :: "os_network list \<Rightarrow> vm_nic \<Rightarrow> exn + network_mapping_result" where
  "map_nic networks nic =
    (let vm_net = vn_network_name nic;
         exact = find (\<lambda>n. on_name n = Some vm_net) networks;
         (best_match, match_type, confidence) = (case exact of
            Some n \<Rightarrow> (Some n, ''exact_name'', 1)
          | None \<Rightarrow> (case find (\<lambda>n. str_truthy (on_name n) \<and> map_option py_lower (on_name n) = Some (py_lower vm_net)) networks of
               Some n \<Rightarrow> (Some n, ''case_insensitive'', fl (9 / 10))
             | None \<Rightarrow> (None, ''not_found'', 0)))
     in new_network_mapping
       \<lparr>nm_vm_network = vm_net, nm_openstack_network_id = Option.bind best_match on_id,
        nm_openstack_network_name = Option.bind best_match on_name,
        nm_match_type = match_type, nm_confidence = confidence\<rparr>)"

definition map_networks :: "os_settings \<Rightarrow> 'c os_sdk \<Rightarrow> vm_summary \<Rightarrow>
    (('c, 'm) mapping_world, network_mapping_result list) act" where
  "map_networks settings sdk vm = (case vm_hardware vm of
     None \<Rightarrow> retE []
   | Some hw \<Rightarrow> if hw_nics hw = [] then retE []
       else bindE (get_networks settings sdk) (\<lambda>networks.
         mapE (\<lambda>nic. outcomeE (map_nic networks nic)) (hw_nics hw)))"

definition map_disk :: "nat \<Rightarrow> vm_disk \<Rightarrow> disk_mapping_result" where
  "map_disk i disk =
    \<lparr>dm_vm_disk_label = vd_label disk, dm_vm_disk_gb = vd_capacity_gb disk,
     dm_openstack_volume_type = Some (if \<not> vd_thin_provisioned disk then ''ceph'' else ''ceph-rbd''),
     dm_openstack_size_gb = vd_capacity_gb disk, dm_bootable = (i = 0)\<rparr>"

definition map_disks :: "vm_summary \<Rightarrow> disk_mapping_result list" where
  "map_disks vm = (case vm_hardware vm of None \<Rightarrow> []
     | Some hw \<Rightarrow> map (\<lambda>(i, d). map_disk i d) (enumerate 0 (hw_disks hw)))"

definition map_vm :: "os_settings \<Rightarrow> 'c os_sdk \<Rightarrow> vm_summary \<Rightarrow> (('c, 'm) mapping_world, vm_mapping_result) act" where
  "map_vm settings sdk vm =
    bindE (match_flavor settings sdk vm) (\<lambda>flavor_match.
    bindE (map_networks settings sdk vm) (\<lambda>network_mappings.
    retE \<lparr>vmr_vm_id = vm_id vm, vmr_vm_name = vm_name vm, vmr_flavor_match = flavor_match,
          vmr_network_mappings = network_mappings, vmr_disk_mappings = map_disks vm\<rparr>))"

section \<open>The best flavor\<close>

lemma fl_weight_pos: "0 < WEIGHT_CPU" "0 < WEIGHT_RAM" "0 < WEIGHT_DISK"
  by (simp_all add: WEIGHT_CPU_def WEIGHT_RAM_def WEIGHT_DISK_def fl_pos_iff)

lemma weighted_square:
  assumes "0 < a"
  shows "0 \<le> fmul a (fmul x x)" "fmul a (fmul x x) = 0 \<longleftrightarrow> x = 0"
  using assms by (simp_all add: fmul_def fl_nonneg)

lemma int_truediv_eq_0: "m \<noteq> 0 \<Longrightarrow> int_truediv a m = 0 \<longleftrightarrow> a = 0"
  by (simp add: int_truediv_def)

lemma fadd_nonneg: "0 \<le> x \<Longrightarrow> 0 \<le> y \<Longrightarrow> 0 \<le> fadd x y"
  by (simp add: fadd_def fl_nonneg)

lemma fadd_eq_0: "0 \<le> x \<Longrightarrow> 0 \<le> y \<Longrightarrow> fadd x y = 0 \<longleftrightarrow> x = 0 \<and> y = 0"
  by (simp add: fadd_def add_nonneg_eq_0_iff)

definition nonzero_size :: "flavor_size \<Rightarrow> bool" where
  "nonzero_size m \<longleftrightarrow> fs_vcpus m \<noteq> 0 \<and> fs_ram m \<noteq> 0 \<and> fs_disk m \<noteq> 0"

lemma base_distance_nonneg: "0 \<le> base_distance maxs target s"
  by (simp add: base_distance_def Let_def)

lemma base_distance_0:
  assumes "nonzero_size maxs"
  shows "base_distance maxs target s = 0 \<longleftrightarrow> s = target"
proof -
  have "base_distance maxs target s = 0 \<longleftrightarrow>
      fs_vcpus target = fs_vcpus s \<and> fs_ram target = fs_ram s \<and> fs_disk target = fs_disk s"
    using assms
    by (simp add: base_distance_def Let_def fsqrt_eq_0_iff fadd_nonneg fadd_eq_0 weighted_square fl_weight_pos
        int_truediv_eq_0 nonzero_size_def)
  then show ?thesis by (auto simp: flavor_size.equality)
qed

lemma distance_nonneg: "0 \<le> distance maxs target s"
  by (simp add: distance_def fmul_def fl_nonneg base_distance_nonneg)

lemma distance_0: "nonzero_size maxs \<Longrightarrow> distance maxs target s = 0 \<longleftrightarrow> s = target"
  by (simp add: distance_def fmul_def base_distance_0)

lemma best_flavor_spec:
  assumes "best_flavor df fs best = Some (b, f, s)"
  shows "(best = Some (b, f, s) \<or> f \<in> set fs \<and> size_of f = Some s \<and> b = df s) \<and>
    (\<forall>g \<in> set fs. \<forall>t. size_of g = Some t \<longrightarrow> b \<le> df t) \<and>
    (case best of None \<Rightarrow> True | Some (b', _) \<Rightarrow> b \<le> b')"
  using assms
proof (induction df fs best rule: best_flavor.induct)
  case (2 df g fs best)
  show ?case
  proof (cases "size_of g")
    case None
    with 2 show ?thesis by auto
  next
    case (Some t)
    let ?new = "if (case best of None \<Rightarrow> True | Some (b, _) \<Rightarrow> df t < b) then Some (df t, g, t) else best"
    from 2(2) [OF Some] 2(3) Some have IH: "(?new = Some (b, f, s) \<or> f \<in> set fs \<and> size_of f = Some s \<and> b = df s) \<and>
        (\<forall>g \<in> set fs. \<forall>t. size_of g = Some t \<longrightarrow> b \<le> df t) \<and>
        (case ?new of None \<Rightarrow> True | Some (b', _) \<Rightarrow> b \<le> b')" by simp
    show ?thesis
      using IH Some by (cases best) (auto split: if_splits)
  qed
qed (auto split: option.splits)

lemma best_flavor_None: "best_flavor df fs best = None \<longleftrightarrow> best = None \<and> (\<forall>f \<in> set fs. size_of f = None)"
  by (induction df fs best rule: best_flavor.induct) (auto split: option.splits)

lemma max_or_1_nonzero: "max_or_1 vs = Inr m \<Longrightarrow> m \<noteq> 0"
  by (auto simp: max_or_1_def Let_def split: list.splits if_splits)

lemma flavor_maxima_nonzero: "flavor_maxima fs = Inr m \<Longrightarrow> nonzero_size m"
  by (auto simp: flavor_maxima_def nonzero_size_def dest: max_or_1_nonzero split: sum.splits)

lemma score_unit: "0 \<le> x \<Longrightarrow> 0 \<le> py_round (max 0 (fsub 1 x)) 4 \<and> py_round (max 0 (fsub 1 x)) 4 \<le> 1"
proof -
  assume "0 \<le> x"
  then have "fsub 1 x \<le> 1" using fl_mono [of "1 - x" 1] by (simp add: fsub_def)
  then show ?thesis by (intro py_round_unit) auto
qed

lemma map_filter_Nil: "List.map_filter f xs = [] \<longleftrightarrow> (\<forall>x \<in> set xs. f x = None)"
  by (induction xs) (simp_all add: List.map_filter_simps split: option.split)

lemma max_or_1_error: "(\<exists>e. max_or_1 vs = Inl e) \<longleftrightarrow> vs = []"
  by (auto simp: max_or_1_def Let_def split: list.splits)

lemma flavor_maxima_error: "(\<exists>e. flavor_maxima fs = Inl e) \<longleftrightarrow>
   (\<forall>f \<in> set fs. of_vcpus f = None) \<or> (\<forall>f \<in> set fs. of_ram f = None) \<or> (\<forall>f \<in> set fs. of_disk f = None)"
  using max_or_1_error [of "List.map_filter of_vcpus fs"] max_or_1_error [of "List.map_filter of_ram fs"]
    max_or_1_error [of "List.map_filter of_disk fs"]
  by (auto simp: flavor_maxima_def map_filter_Nil split: sum.splits)

lemma flavor_maxima_complete: "f \<in> set fs \<Longrightarrow> size_of f = Some s \<Longrightarrow> \<exists>m. flavor_maxima fs = Inr m"
  using flavor_maxima_error [of fs]
  by (cases "flavor_maxima fs") (auto simp: size_of_def split: option.splits)

lemma choose_flavor_eq:
  assumes "fs \<noteq> []" "flavor_maxima fs = Inr maxs"
  shows "choose_flavor target fs = (case best_flavor (distance maxs target) fs None of
     None \<Rightarrow> Inr None
   | Some (b, f, s) \<Rightarrow> Inr (Some
       \<lparr>fm_flavor_id = str_or (of_id f) [], fm_flavor_name = str_or (of_name f) [],
        fm_score = py_round (max 0 (fsub 1 b)) 4, fm_vcpus = fs_vcpus s, fm_ram = fs_ram s,
        fm_disk = fs_disk s, fm_overprovisioned = (\<not> too_small target s), fm_underprovisioned = too_small target s\<rparr>))"
proof (cases "best_flavor (distance maxs target) fs None")
  case (Some x)
  obtain b f s where x: "x = (b, f, s)" by (cases x)
  have "b = distance maxs target s" using best_flavor_spec [of _ fs None b f s] Some x by auto
  then have "0 \<le> py_round (max 0 (fsub 1 b)) 4 \<and> py_round (max 0 (fsub 1 b)) 4 \<le> 1"
    by (simp only: score_unit distance_nonneg simp_thms)
  then show ?thesis using assms Some x
    by (simp add: choose_flavor_def Let_def new_flavor_match_def check_unit_def too_small_def not_less)
qed (use assms in \<open>simp add: choose_flavor_def\<close>)

lemma flavor_maxima_value_error: "flavor_maxima fs = Inl e \<Longrightarrow> \<exists>msg. e = PyException ''ValueError'' msg"
  by (auto simp: flavor_maxima_def max_or_1_def Let_def split: sum.splits list.splits if_splits)

lemma chosen_score_unit:
  "case choose_flavor target flavors of
     Inr None \<Rightarrow> True | Inr (Some m) \<Rightarrow> 0 \<le> fm_score m \<and> fm_score m \<le> 1 | Inl e \<Rightarrow> (\<exists>msg. e = PyException ''ValueError'' msg)"
proof (cases "flavors = []")
  case False
  show ?thesis
  proof (cases "flavor_maxima flavors")
    case (Inl e)
    then show ?thesis using False flavor_maxima_value_error [OF Inl] by (simp add: choose_flavor_def)
  next
    case (Inr maxs)
    have "choose_flavor target flavors = Inr (Some m) \<Longrightarrow> 0 \<le> fm_score m \<and> fm_score m \<le> 1" for m
      using False Inr by (auto simp: choose_flavor_def new_flavor_match_def check_unit_def Let_def split: option.splits prod.splits if_splits)
    moreover have "\<exists>r. choose_flavor target flavors = Inr r"
      using choose_flavor_eq [OF False Inr, of target] by (auto split: option.splits prod.splits)
    ultimately show ?thesis by (auto split: option.split)
  qed
qed (simp add: choose_flavor_def)

section \<open>Properties\<close>

text \<open>The chosen flavor has the smallest computed distance; theory Flavor_Accuracy says what that means in exact
  arithmetic.\<close>

lemma chosen_flavor_details:
  assumes "choose_flavor target flavors = Inr (Some fm)"
  shows "\<exists>maxs f s. flavor_maxima flavors = Inr maxs \<and> f \<in> set flavors \<and> size_of f = Some s \<and>
    fm_flavor_id fm = str_or (of_id f) [] \<and> fm_vcpus fm = fs_vcpus s \<and> fm_ram fm = fs_ram s \<and> fm_disk fm = fs_disk s \<and>
    (\<forall>g \<in> set flavors. \<forall>t. size_of g = Some t \<longrightarrow> distance maxs target s \<le> distance maxs target t) \<and>
    0 \<le> fm_score fm \<and> fm_score fm \<le> 1 \<and>
    (fm_underprovisioned fm \<longleftrightarrow> too_small target s) \<and> (fm_overprovisioned fm \<longleftrightarrow> \<not> fm_underprovisioned fm)"
proof -
  have ne: "flavors \<noteq> []" using assms by (auto simp: choose_flavor_def)
  with assms obtain maxs where m: "flavor_maxima flavors = Inr maxs"
    by (auto simp: choose_flavor_def split: sum.splits)
  from assms obtain b f s where b: "best_flavor (distance maxs target) flavors None = Some (b, f, s)"
    unfolding choose_flavor_eq [OF ne m] by (auto split: option.splits)
  from best_flavor_spec [OF this] have f: "f \<in> set flavors" "size_of f = Some s" "b = distance maxs target s"
      "\<forall>g \<in> set flavors. \<forall>t. size_of g = Some t \<longrightarrow> b \<le> distance maxs target t" by auto
  show ?thesis using m f assms b score_unit [OF distance_nonneg, of maxs target s]
    unfolding choose_flavor_eq [OF ne m] by (intro exI [of _ maxs] exI [of _ f] exI [of _ s]) auto
qed

definition small_flavor :: os_flavor where
  "small_flavor = \<lparr>of_id = Some ''f1'', of_name = Some ''m1.small'', of_vcpus = Some 2, of_ram = Some 4096, of_disk = Some 40\<rparr>"

definition large_flavor :: os_flavor where
  "large_flavor = \<lparr>of_id = Some ''f2'', of_name = Some ''m1.large'', of_vcpus = Some 8, of_ram = Some 16384, of_disk = Some 160\<rparr>"

definition no_size_flavor :: os_flavor where
  "no_size_flavor = \<lparr>of_id = Some ''f3'', of_name = None, of_vcpus = Some 9, of_ram = None, of_disk = Some 9\<rparr>"

definition small_target :: flavor_size where
  "small_target = \<lparr>fs_vcpus = 2, fs_ram = 4096, fs_disk = 40\<rparr>"

lemma small_target_choice:
  "choose_flavor small_target [no_size_flavor, small_flavor] = Inr (Some
    \<lparr>fm_flavor_id = ''f1'', fm_flavor_name = ''m1.small'', fm_score = 1, fm_vcpus = 2, fm_ram = 4096,
     fm_disk = 40, fm_overprovisioned = True, fm_underprovisioned = False\<rparr>)"
  by code_simp

text \<open>C5: An exact fit is always found: if some offered flavor has exactly the machine's sizes, the
  match has these sizes, score 1 and is not underprovisioned, whatever the other flavors are.\<close>

theorem exact_flavor_is_chosen:
  assumes "f \<in> set flavors" "size_of f = Some target"
  shows "\<exists>fm. choose_flavor target flavors = Inr (Some fm) \<and> fm_vcpus fm = fs_vcpus target \<and>
    fm_ram fm = fs_ram target \<and> fm_disk fm = fs_disk target \<and> fm_score fm = 1 \<and> \<not> fm_underprovisioned fm"
proof -
  obtain maxs where m: "flavor_maxima flavors = Inr maxs" using flavor_maxima_complete [OF assms] by blast
  have ne: "flavors \<noteq> []" using assms(1) by auto
  obtain b g s where b: "best_flavor (distance maxs target) flavors None = Some (b, g, s)"
    using best_flavor_None [of "distance maxs target" flavors None] assms
    by (cases "best_flavor (distance maxs target) flavors None") auto
  from best_flavor_spec [OF b] have "b = distance maxs target s" "b \<le> distance maxs target target"
    using assms by auto
  moreover have "distance maxs target target = 0" by (simp add: distance_0 flavor_maxima_nonzero [OF m])
  ultimately have "b = 0" using distance_nonneg [of maxs target s] by simp
  with \<open>b = distance maxs target s\<close> have "s = target" using distance_0 [OF flavor_maxima_nonzero [OF m]] by simp
  then show ?thesis using b \<open>b = 0\<close>
    by (simp add: choose_flavor_eq [OF ne m] fsub_def too_small_def)
qed

theorem exact_flavor_is_chosen_witness:
  "\<exists>fm. choose_flavor \<lparr>fs_vcpus = 2, fs_ram = 4096, fs_disk = 40\<rparr> [large_flavor, small_flavor] = Inr (Some fm) \<and> fm_score fm = 1"
  using exact_flavor_is_chosen [of small_flavor "[large_flavor, small_flavor]" "\<lparr>fs_vcpus = 2, fs_ram = 4096, fs_disk = 40\<rparr>"]
  by (auto simp: small_flavor_def size_of_def)

text \<open>The flavor choice raises exactly when flavors are offered but for one of the three sizes no
  flavor gives a value: then the maximum of no values is a ValueError, although the code that
  follows is prepared to skip flavors with missing sizes.\<close>

theorem choose_flavor_raises:
  "(\<exists>e. choose_flavor target flavors = Inl e) =
   (flavors \<noteq> [] \<and> (list_all (\<lambda>f. of_vcpus f = None) flavors \<or> list_all (\<lambda>f. of_ram f = None) flavors \<or>
      list_all (\<lambda>f. of_disk f = None) flavors))"
proof (cases "flavors = [] \<or> (\<exists>e. flavor_maxima flavors = Inl e)")
  case True
  then show ?thesis using flavor_maxima_error [of flavors]
    by (auto simp: choose_flavor_def list_all_iff)
next
  case False
  then obtain m where m: "flavor_maxima flavors = Inr m" by (cases "flavor_maxima flavors") auto
  have "\<not> (\<exists>e. choose_flavor target flavors = Inl e)"
    using False by (auto simp: choose_flavor_eq [OF _ m] split: option.splits)
  then show ?thesis using False flavor_maxima_error [of flavors] by (auto simp: list_all_iff)
qed

text \<open>How a port group is matched.\<close>

definition nic_match :: "os_network list \<Rightarrow> string \<Rightarrow> network_mapping_result \<Rightarrow> bool" where
  "nic_match networks vm_net r \<longleftrightarrow> nm_vm_network r = vm_net \<and>
    (if Some vm_net \<in> on_name ` set networks then
       nm_match_type r = ''exact_name'' \<and> nm_openstack_network_name r = Some vm_net \<and>
       (\<exists>n \<in> set networks. on_name n = Some vm_net \<and> nm_openstack_network_id r = on_id n)
     else if \<exists>n \<in> set networks. \<exists>s. on_name n = Some s \<and> s \<noteq> [] \<and> py_lower s = py_lower vm_net then
       nm_match_type r = ''case_insensitive'' \<and>
       (\<exists>n \<in> set networks. \<exists>s. on_name n = Some s \<and> py_lower s = py_lower vm_net \<and>
          nm_openstack_network_name r = Some s \<and> nm_openstack_network_id r = on_id n)
     else nm_match_type r = ''not_found'' \<and> nm_openstack_network_id r = None \<and> nm_openstack_network_name r = None)"

lemma find_witness: "find P xs = Some x \<Longrightarrow> x \<in> set xs \<and> P x"
  by (auto simp: find_Some_iff)

lemma fl_nine_tenths: "0 \<le> fl (9 / 10)" "fl (9 / 10) \<le> 1"
  using fl_mono [of "9 / 10" 1] by (simp_all add: fl_nonneg)

lemma map_nic_match: "\<exists>r. map_nic networks nic = Inr r \<and> nic_match networks (vn_network_name nic) r"
proof (cases "find (\<lambda>n. on_name n = Some (vn_network_name nic)) networks")
  case (Some n)
  then have "n \<in> set networks" "on_name n = Some (vn_network_name nic)" by (auto dest: find_witness)
  then show ?thesis using Some
    by (auto simp: map_nic_def Let_def new_network_mapping_def check_unit_def nic_match_def image_iff intro: bexI [of _ n])
next
  case None
  then have none: "Some (vn_network_name nic) \<notin> on_name ` set networks" by (auto simp: find_None_iff)
  let ?P = "\<lambda>n. str_truthy (on_name n) \<and> map_option py_lower (on_name n) = Some (py_lower (vn_network_name nic))"
  show ?thesis
  proof (cases "find ?P networks")
    case (Some n)
    then have n: "n \<in> set networks" "?P n" by (auto dest: find_witness)
    then obtain s where "on_name n = Some s" "s \<noteq> []" "py_lower s = py_lower (vn_network_name nic)"
      by (cases "on_name n") auto
    then show ?thesis using none None Some n(1)
      by (auto simp: map_nic_def Let_def new_network_mapping_def check_unit_def nic_match_def fl_nine_tenths)
  next
    case None2: None
    then have "\<not> (\<exists>n \<in> set networks. \<exists>s. on_name n = Some s \<and> s \<noteq> [] \<and> py_lower s = py_lower (vn_network_name nic))"
      by (auto simp: find_None_iff) (metis str_truthy_simps(2))
    then show ?thesis using none None None2
      by (auto simp: map_nic_def Let_def new_network_mapping_def check_unit_def nic_match_def)
  qed
qed

lemma mapE_pure:
  "(\<And>x. x \<in> set xs \<Longrightarrow> f x = Inr (g x)) \<Longrightarrow> mapE (\<lambda>x. outcomeE (f x)) xs w = (Inr (map g xs), w)"
  by (induction xs) (simp_all add: retE_def bindE_def outcomeE_def)

text \<open>Mapping a machine when flavors and networks have been read: no request is made and the state
  is unchanged; the mapping has one entry per network adapter, in order, each matched by exact name
  before case-insensitive name before not found, and one volume per disk in order, of the disk's
  own size, of which exactly the first is bootable.\<close>

theorem map_vm_networks_and_disks:
  assumes "mp_flavor_cache w = Some flavors" "mp_network_cache w = Some networks" "vm_hardware vm = Some hw"
    and "choose_flavor (target_size hw) flavors = Inr fm"
  shows "\<exists>m. map_vm settings sdk vm w = (Inr m, w) \<and> vmr_flavor_match m = fm \<and>
    list_all2 (\<lambda>nic r. nic_match networks (vn_network_name nic) r) (hw_nics hw) (vmr_network_mappings m) \<and>
    map dm_openstack_size_gb (vmr_disk_mappings m) = map vd_capacity_gb (hw_disks hw) \<and>
    map dm_bootable (vmr_disk_mappings m) = map (\<lambda>i. i = 0) [0 ..< length (hw_disks hw)]"
proof -
  have "\<forall>nic. \<exists>r. map_nic networks nic = Inr r \<and> nic_match networks (vn_network_name nic) r"
    using map_nic_match by blast
  from choice [OF this] obtain g where g: "\<And>nic. map_nic networks nic = Inr (g nic)"
      "\<And>nic. nic_match networks (vn_network_name nic) (g nic)" by blast
  have nets: "map_networks settings sdk vm w = (Inr (map g (hw_nics hw)), w)"
    using assms(2,3) g(1)
    by (simp add: map_networks_def get_networks_def bindE_def mapE_pure retE_def)
  have fl: "match_flavor settings sdk vm w = (Inr fm, w)"
    using assms by (simp add: match_flavor_def get_flavors_def bindE_def outcomeE_def)
  define m where "m = \<lparr>vmr_vm_id = vm_id vm, vmr_vm_name = vm_name vm, vmr_flavor_match = fm,
      vmr_network_mappings = map g (hw_nics hw), vmr_disk_mappings = map_disks vm\<rparr>"
  have fields: "vmr_flavor_match m = fm" "vmr_network_mappings m = map g (hw_nics hw)" "vmr_disk_mappings m = map_disks vm"
    by (simp_all add: m_def)
  have "map_vm settings sdk vm w = (Inr m, w)"
    by (simp add: map_vm_def bindE_def nets fl retE_def m_def)
  moreover have "map dm_openstack_size_gb (vmr_disk_mappings m) = map vd_capacity_gb (hw_disks hw)"
    using assms(3) unfolding fields by (intro nth_equalityI) (simp_all add: map_disks_def map_disk_def nth_enumerate_eq)
  moreover have "map dm_bootable (vmr_disk_mappings m) = map (\<lambda>i. i = 0) [0 ..< length (hw_disks hw)]"
    using assms(3) unfolding fields by (intro nth_equalityI) (simp_all add: map_disks_def map_disk_def nth_enumerate_eq)
  moreover have "list_all2 (\<lambda>nic r. nic_match networks (vn_network_name nic) r) (hw_nics hw) (vmr_network_mappings m)"
    unfolding fields using g(2) by (simp add: list_all2_map2 list.rel_refl)
  ultimately show ?thesis using fields(1) by blast
qed

definition demo_vm :: vm_summary where
  "demo_vm = \<lparr>vm_id = ''vm-1'', vm_name = ''web'', vm_power_state = ''poweredOn'', vm_guest_os = None,
     vm_hardware = Some \<lparr>hw_cpu_count = 2, hw_cpu_cores_per_socket = 1, hw_memory_mb = 4096,
       hw_disks = [\<lparr>vd_label = ''d0'', vd_capacity_gb = 30, vd_thin_provisioned = True, vd_datastore_name = None, vd_controller_type = None\<rparr>,
                   \<lparr>vd_label = ''d1'', vd_capacity_gb = 10, vd_thin_provisioned = False, vd_datastore_name = None, vd_controller_type = None\<rparr>],
       hw_nics = [\<lparr>vn_label = ''n0'', vn_network_name = ''Prod'', vn_mac_address = None, vn_ip_addresses = [], vn_nic_type = None\<rparr>]\<rparr>,
     vm_cluster_name = None, vm_datastores = [], vm_tags = [], vm_annotation = None, vm_firmware = None,
     vm_secure_boot_enabled = None, vm_vmware_tools_status = None, vm_disk_controller_types = None\<rparr>"

definition demo_state :: "pyval list mapping_state" where
  "demo_state = \<lparr>os_connected = True, os_cloud = [], os_api_errors = [], os_api_durations = [],
     mp_flavor_cache = Some [no_size_flavor, small_flavor], mp_network_cache = Some [\<lparr>on_id = Some ''net-1'', on_name = Some ''prod''\<rparr>],
     mp_api_durations = []\<rparr>"

theorem map_vm_networks_and_disks_witness:
  "\<exists>m. map_vm ready_settings scripted_sdk demo_vm demo_state = (Inr m, demo_state) \<and>
     map dm_bootable (vmr_disk_mappings m) = [True, False]"
proof -
  have "target_size (the (vm_hardware demo_vm)) = small_target" by code_simp
  then have "choose_flavor (target_size (the (vm_hardware demo_vm))) [no_size_flavor, small_flavor] = Inr (Some
    \<lparr>fm_flavor_id = ''f1'', fm_flavor_name = ''m1.small'', fm_score = 1, fm_vcpus = 2, fm_ram = 4096,
     fm_disk = 40, fm_overprovisioned = True, fm_underprovisioned = False\<rparr>)" by (simp only: small_target_choice)
  from map_vm_networks_and_disks [OF _ _ _ this, of demo_state "[\<lparr>on_id = Some ''net-1'', on_name = Some ''prod''\<rparr>]" demo_vm
      ready_settings scripted_sdk]
  show ?thesis by (auto simp: demo_state_def demo_vm_def)
qed

end
