(* ===== verification/Vmware_Plan.thy ===== *)
theory Vmware_Plan
  imports Vmware_Mapping Py_Datetime "HOL-Library.List_Lexorder" "HOL-Library.Char_ord"
    "HOL-Library.Product_Lexorder" "HOL-Library.Multiset"
begin

text \<open>
  app/services/vmware/plan_service.py: the migration plan for a list of assessed machines. Strings
  compare code unit by code unit, which for UTF-8 is the code point order of Python. list.sort with a
  key is the stable sort_key.
\<close>

section \<open>Steps\<close>

text \<open>steps.append(MigrationStep(order=order, ...)); order += 1\<close>

definition add_step :: "string \<Rightarrow> string \<Rightarrow> string option \<Rightarrow> int \<Rightarrow> migration_step list \<times> int \<Rightarrow> migration_step list \<times> int" where
  "add_step action description resource_id est st =
    (case st of (steps, order) \<Rightarrow>
      (steps @ [\<lparr>ms_order = order, ms_action = action, ms_description = description,
                 ms_resource_id = resource_id, ms_estimated_minutes = est\<rparr>], order + 1))"

abbreviation quoted :: "string \<Rightarrow> string" where
  "quoted s \<equiv> [CHR 0x27] @ s @ [CHR 0x27]"

definition add_network_step :: "network_mapping_result \<Rightarrow> migration_step list \<times> int \<Rightarrow> migration_step list \<times> int" where
  "add_network_step nm =
    (if nm_match_type nm \<noteq> ''not_found'' then
       add_step ''verify_network''
         (''Map VMware network '' @ quoted (nm_vm_network nm) @ '' to OpenStack network '' @
          quoted (str_or (nm_openstack_network_name nm) ''?'')) (nm_openstack_network_id nm) 1
     else add_step ''create_network''
         (''Create OpenStack network for VMware port group '' @ quoted (nm_vm_network nm)) None 3)"

definition add_volume_step :: "disk_mapping_result \<Rightarrow> migration_step list \<times> int \<Rightarrow> migration_step list \<times> int" where
  "add_volume_step dm = add_step ''create_volume''
     (''Create '' @ str_int (dm_openstack_size_gb dm) @ '' GB volume for '' @ quoted (dm_vm_disk_label dm)) None
     (if dm_bootable dm then 2 else 1)"

definition build_steps :: "vm_summary \<Rightarrow> vm_mapping_result option \<Rightarrow> migration_step list" where
  "build_steps vm mapping =
    (let s0 = ([], 1);
         s1 = (case mapping of None \<Rightarrow> s0 | Some m \<Rightarrow> (case vmr_flavor_match m of None \<Rightarrow> s0
           | Some fm \<Rightarrow> add_step ''verify_flavor''
               (''Verify target flavor '' @ quoted (fm_flavor_name fm) @ '' exists in OpenStack'')
               (Some (fm_flavor_id fm)) 1 s0));
         s2 = (case mapping of None \<Rightarrow> s1 | Some m \<Rightarrow> fold add_network_step (vmr_network_mappings m) s1);
         s3 = (case mapping of None \<Rightarrow> s2 | Some m \<Rightarrow> fold add_volume_step (vmr_disk_mappings m) s2);
         s4 = add_step ''import_image'' (''Export VM '' @ quoted (vm_name vm) @ '' disk and upload to OpenStack Glance'') None 15 s3;
         s5 = add_step ''create_server'' ''Create OpenStack server from imported image with matched flavor and networks'' None 5 s4;
         s6 = add_step ''cleanup'' ''Clean up temporary exported disk files'' None 1 s5
     in fst s6)"

definition total_disk_gb :: "vm_summary \<Rightarrow> int" where
  "total_disk_gb vm = (case vm_hardware vm of None \<Rightarrow> 0 | Some hw \<Rightarrow> sum_list (map vd_capacity_gb (hw_disks hw)))"

definition estimate_downtime :: "vm_summary \<Rightarrow> int" where
  "estimate_downtime vm =
    (let power = py_lower (vm_power_state vm) in
     if power = ''poweredoff'' then 0 else if power = ''suspended'' then 5
     else if total_disk_gb vm > 500 then 30 else if total_disk_gb vm > 100 then 15 else 10)"

section \<open>The plan\<close>

type_synonym assessed = "vm_summary \<times> scored_compatibility_result \<times> vm_mapping_result option"

definition plan_entry :: "(string, int) dict \<Rightarrow> assessed \<Rightarrow> migration_plan_vm" where
  "plan_entry overrides a = (case a of (vm, compatibility, mapping) \<Rightarrow>
    (let steps = build_steps vm mapping in
     \<lparr>mpv_vm_id = vm_id vm, mpv_vm_name = vm_name vm,
      mpv_priority = dict_get_default overrides (vm_id vm) 5,
      mpv_target_flavor_id = Option.bind mapping (\<lambda>m. map_option fm_flavor_id (vmr_flavor_match m)),
      mpv_target_network_ids = map the (filter str_truthy (map nm_openstack_network_id
         (case mapping of None \<Rightarrow> [] | Some m \<Rightarrow> vmr_network_mappings m))),
      mpv_target_volume_types = map the (filter str_truthy (map dm_openstack_volume_type
         (case mapping of None \<Rightarrow> [] | Some m \<Rightarrow> vmr_disk_mappings m))),
      mpv_estimated_downtime_minutes = estimate_downtime vm, mpv_steps = steps,
      mpv_estimated_total_minutes = sum_list (map ms_estimated_minutes steps)\<rparr>))"

text \<open>The loop over the machines: incompatible ones are skipped, a priority outside 1..10 is the
  ValidationError of the plan entry.\<close>

fun plan_entries :: "(string, int) dict \<Rightarrow> assessed list \<Rightarrow> exn + migration_plan_vm list" where
  "plan_entries overrides [] = Inr []"
| "plan_entries overrides (a # as) =
    (if \<not> sc_compatible (fst (snd a)) then plan_entries overrides as
     else case new_plan_vm (plan_entry overrides a) of Inl e \<Rightarrow> Inl e
       | Inr p \<Rightarrow> (case plan_entries overrides as of Inl e \<Rightarrow> Inl e | Inr ps \<Rightarrow> Inr (p # ps)))"

definition plan_key :: "migration_plan_vm \<Rightarrow> int \<times> string" where
  "plan_key p = (mpv_priority p, mpv_vm_name p)"

definition generate_plan :: "string \<Rightarrow> timestamp \<Rightarrow> assessed list \<Rightarrow> (string, int) dict option \<Rightarrow>
    exn + migration_plan_response" where
  "generate_plan uuid now vms priority_overrides =
    (let overrides = (case priority_overrides of None \<Rightarrow> [] | Some d \<Rightarrow> d) in
     case plan_entries overrides vms of Inl e \<Rightarrow> Inl e
     | Inr unsorted \<Rightarrow>
        (let plan_vms = sort_key plan_key unsorted
         in Inr \<lparr>mpr_plan_id = uuid, mpr_vms = plan_vms, mpr_total_vms = length plan_vms,
                 mpr_total_estimated_minutes = sum_list (map mpv_estimated_total_minutes plan_vms),
                 mpr_created_at = isoformat now, mpr_operation_task_id = None\<rparr>))"

section \<open>Numbering\<close>

text \<open>What every step-adding function keeps: the orders are 1, 2, ... and the counter is the next one.\<close>

definition numbered :: "migration_step list \<times> int \<Rightarrow> bool" where
  "numbered st \<longleftrightarrow> map ms_order (fst st) = map int [1 ..< length (fst st) + 1] \<and> snd st = int (length (fst st)) + 1"

lemma numbered_start: "numbered ([], 1)"
  by (simp add: numbered_def)

lemma numbered_add: "numbered st \<Longrightarrow> numbered (add_step a d r m st)"
  by (cases st) (simp add: numbered_def add_step_def)

lemma numbered_network: "numbered st \<Longrightarrow> numbered (add_network_step nm st)"
  by (simp add: add_network_step_def numbered_add)

lemma numbered_volume: "numbered st \<Longrightarrow> numbered (add_volume_step dm st)"
  by (simp add: add_volume_step_def numbered_add)

lemma numbered_fold:
  "(\<And>x st. numbered st \<Longrightarrow> numbered (f x st)) \<Longrightarrow> numbered st \<Longrightarrow> numbered (fold f xs st)"
  by (induction xs arbitrary: st) simp_all

lemma build_steps_numbered:
  "map ms_order (build_steps vm mapping) = map int [1 ..< length (build_steps vm mapping) + 1]"
proof -
  have "\<exists>st. numbered st \<and> build_steps vm mapping = fst st"
    unfolding build_steps_def Let_def
    by (intro exI conjI refl numbered_add)
       (auto intro!: numbered_fold numbered_network numbered_volume numbered_add numbered_start split: option.split)
  then show ?thesis by (auto simp: numbered_def)
qed

lemma add_step_snoc: "map ms_action (fst (add_step a d r m st)) = map ms_action (fst st) @ [a]"
  by (cases st) (simp add: add_step_def)

lemma build_steps_actions:
  "\<exists>pre. map ms_action (build_steps vm mapping) = pre @ [''import_image'', ''create_server'', ''cleanup'']"
  unfolding build_steps_def Let_def add_step_snoc by simp

lemma plan_entries_result:
  "plan_entries overrides as = Inr ps \<Longrightarrow>
     ps = map (plan_entry overrides) (filter (\<lambda>a. sc_compatible (fst (snd a))) as) \<and>
     (\<forall>p \<in> set ps. 1 \<le> mpv_priority p \<and> mpv_priority p \<le> 10)"
proof (induction as arbitrary: ps)
  case (Cons a as)
  then show ?case
    by (cases "plan_entries overrides as")
       (auto simp: new_plan_vm_def split: if_splits)
qed simp

lemma plan_entries_error:
  "(\<exists>e. plan_entries overrides as = Inl e) \<longleftrightarrow>
     (\<exists>a \<in> set as. sc_compatible (fst (snd a)) \<and>
        \<not> (1 \<le> mpv_priority (plan_entry overrides a) \<and> mpv_priority (plan_entry overrides a) \<le> 10))"
proof (induction as)
  case (Cons a as)
  then show ?case
    by (cases "plan_entries overrides as") (auto simp: new_plan_vm_def)
qed simp

lemma entries_without_overrides: "\<exists>ps. plan_entries [] as = Inr ps"
proof (cases "plan_entries [] as")
  case (Inl e)
  then show ?thesis using plan_entries_error [of "[]" as] by (auto simp: plan_entry_def Let_def dict_get_default_def)
qed simp

section \<open>Properties\<close>

definition steps_ok :: "migration_plan_vm \<Rightarrow> bool" where
  "steps_ok p \<longleftrightarrow> map ms_order (mpv_steps p) = map int [1 ..< length (mpv_steps p) + 1] \<and>
     (\<exists>pre. map ms_action (mpv_steps p) = pre @ [''import_image'', ''create_server'', ''cleanup'']) \<and>
     mpv_estimated_total_minutes p = sum_list (map ms_estimated_minutes (mpv_steps p)) \<and>
     1 \<le> mpv_priority p \<and> mpv_priority p \<le> 10"

lemma plan_entry_steps:
  "mpv_steps (plan_entry overrides a) = build_steps (fst a) (snd (snd a))"
  "mpv_estimated_total_minutes (plan_entry overrides a)
     = sum_list (map ms_estimated_minutes (build_steps (fst a) (snd (snd a))))"
  "mpv_vm_id (plan_entry overrides a) = vm_id (fst a)"
  by (cases a; simp add: plan_entry_def Let_def)+

lemma generate_plan_sound:
  assumes "generate_plan uuid now vms overrides = Inr plan"
  shows "mset (map mpv_vm_id (mpr_vms plan)) = mset (map (\<lambda>a. vm_id (fst a)) (filter (\<lambda>a. sc_compatible (fst (snd a))) vms)) \<and>
    sorted (map plan_key (mpr_vms plan)) \<and> list_all steps_ok (mpr_vms plan) \<and>
    mpr_total_vms plan = length (filter (\<lambda>a. sc_compatible (fst (snd a))) vms) \<and>
    mpr_total_estimated_minutes plan = sum_list (map (\<lambda>p. sum_list (map ms_estimated_minutes (mpv_steps p))) (mpr_vms plan))"
proof -
  let ?ov = "case overrides of None \<Rightarrow> [] | Some d \<Rightarrow> d"
  obtain ps where ps: "plan_entries ?ov vms = Inr ps"
    and plan: "mpr_vms plan = sort_key plan_key ps" "mpr_total_vms plan = length ps"
      "mpr_total_estimated_minutes plan = sum_list (map mpv_estimated_total_minutes (sort_key plan_key ps))"
    using assms by (auto simp: generate_plan_def Let_def split: sum.splits)
  note r = plan_entries_result [OF ps]
  have each: "steps_ok p" if p: "p \<in> set ps" for p
  proof -
    obtain a where "p = plan_entry ?ov a" using p r by auto
    then show ?thesis using r p build_steps_numbered build_steps_actions
      by (auto simp: steps_ok_def plan_entry_steps)
  qed
  have "mset (map mpv_vm_id (sort_key plan_key ps)) = mset (map mpv_vm_id ps)" by simp
  also have "map mpv_vm_id ps = map (\<lambda>a. vm_id (fst a)) (filter (\<lambda>a. sc_compatible (fst (snd a))) vms)"
    using r by (simp add: plan_entry_steps comp_def)
  finally have ids: "mset (map mpv_vm_id (mpr_vms plan)) = mset \<dots>" using plan(1) by simp
  have "map mpv_estimated_total_minutes (mpr_vms plan)
      = map (\<lambda>p. sum_list (map ms_estimated_minutes (mpv_steps p))) (mpr_vms plan)"
    using each plan(1) by (auto simp: steps_ok_def)
  then have mins: "mpr_total_estimated_minutes plan
      = sum_list (map (\<lambda>p. sum_list (map ms_estimated_minutes (mpv_steps p))) (mpr_vms plan))"
    using plan(3) unfolding plan(1) [symmetric] by (simp only:)
  have "length ps = length (filter (\<lambda>a. sc_compatible (fst (snd a))) vms)" using r by simp
  moreover have "sorted (map plan_key (mpr_vms plan)) \<and> list_all steps_ok (mpr_vms plan)"
    using plan(1) each by (simp add: list_all_iff)
  ultimately show ?thesis using ids mins plan(2) by simp
qed


definition verdict :: "string \<Rightarrow> bool \<Rightarrow> scored_compatibility_result" where
  "verdict name ok = \<lparr>sc_vm_id = name, sc_vm_name = name, sc_compatible = ok, sc_score = 1, sc_issues = [], sc_summary = []\<rparr>"

lemma demo_plan:
  "\<exists>plan. generate_plan ''p'' 0 [(demo_vm, verdict ''web'' True, None), (demo_vm, verdict ''web'' False, None)] None = Inr plan \<and>
     mpr_total_vms plan = 1"
proof -
  let ?vms = "[(demo_vm, verdict ''web'' True, None), (demo_vm, verdict ''web'' False, None)]"
  have "case generate_plan ''p'' 0 ?vms None of Inr plan \<Rightarrow> mpr_total_vms plan = 1 | Inl _ \<Rightarrow> False" by code_simp
  then show ?thesis by (auto split: sum.splits)
qed


text \<open>Planning fails exactly when some compatible machine has a priority override outside 1 to 10;
  overrides of machines that are not compatible or not in the list are never looked at.\<close>

theorem plan_fails_on_bad_priority:
  "(\<exists>e. generate_plan uuid now vms (Some overrides) = Inl e) =
   (\<exists>a \<in> set vms. sc_compatible (fst (snd a)) \<and>
      (dict_get_default overrides (vm_id (fst a)) 5 < 1 \<or> 10 < dict_get_default overrides (vm_id (fst a)) 5))"
proof -
  have p: "mpv_priority (plan_entry overrides a) = dict_get_default overrides (vm_id (fst a)) 5" for a
    by (cases a) (simp add: plan_entry_def Let_def)
  have "(\<exists>e. generate_plan uuid now vms (Some overrides) = Inl e) \<longleftrightarrow> (\<exists>e. plan_entries overrides vms = Inl e)"
    by (auto simp: generate_plan_def Let_def split: sum.splits)
  then show ?thesis unfolding plan_entries_error p by (auto simp: not_le)
qed

end
