(* ===== verification/Vm_Engine.thy ===== *)
theory Vm_Engine
  imports Openstack_Connection Audit_Log
begin

text \<open>
  app/services/openstack/vm_provisioning_engine.py: creating, starting, stopping, rebooting and
  deleting virtual machines through Nova, with state validation, polling with a deadline, metrics
  and audit entries.

  asyncio.sleep, and whatever happens in the cloud meanwhile, is the parameter ee_sleep. A wait loop
  runs while the monotonic clock is before its deadline. Its fuel is the number of polls that fit
  before the deadline (wait_fuel); clock_law states what the loops rely on: sleeping for s seconds
  advances the clock by at least s and no call turns it back. Under clock_law the fuel is enough:
  the loops satisfy their unbounded loop equations (wait_for_unfold). Clock readings are exact.
\<close>

section \<open>State\<close>

record 'c engine_env =
  ee_settings :: os_settings
  ee_sdk :: "'c os_sdk"
  ee_sleep :: "rat \<Rightarrow> ('c, unit) act"

record vm_payload =
  vp_error_type :: "string option"
  vp_elapsed_seconds :: rat

record 'c engine_state = "'c os_state" +
  ve_create_durations :: "(string \<times> rat) list"
  ve_create_failures :: "(string, int) dict"
  ve_lifecycle_operations :: "(string \<times> string, int) dict"
  ve_active_count :: int
  ve_audit :: "vm_payload audit_args list"

type_synonym ('c, 'm) engine_world = "('c, 'm) engine_state_scheme"

record vm_detail =
  vd_id :: string
  vd_name :: string
  vd_status :: string
  vd_flavor_id :: "string option"
  vd_image_id :: "string option"
  vd_addresses :: "(string, string list) dict"
  vd_metadata :: "(string, string) dict"
  vd_created :: "string option"
  vd_updated :: "string option"
  vd_key_name :: "string option"
  vd_availability_zone :: "string option"
  vd_power_state :: "string option"
  vd_progress :: "int option"

record vm_create_request =
  vc_name :: string
  vc_flavor_id :: string
  vc_image_id :: string
  vc_network_ids :: "string list"
  vc_keypair :: "string option"
  vc_security_groups :: "string list option"
  vc_availability_zone :: "string option"
  vc_metadata :: "(string, string) dict"

record vm_operation_response =
  vr_server_id :: string
  vr_operation :: string
  vr_status :: string
  vr_elapsed_seconds :: rat

definition VALID_STATE_TRANSITIONS :: "(string, string list) dict" where
  "VALID_STATE_TRANSITIONS =
    [(''start'', [''SHUTOFF'', ''STOPPED'', ''SUSPENDED'', ''ERROR'']),
     (''stop'', [''ACTIVE'', ''PAUSED'']),
     (''reboot'', [''ACTIVE'']),
     (''delete'', [''ACTIVE'', ''SHUTOFF'', ''STOPPED'', ''ERROR'', ''SUSPENDED''])]"

abbreviation PROVISIONING_TIMEOUT :: rat where "PROVISIONING_TIMEOUT \<equiv> 300"
abbreviation LIFECYCLE_TIMEOUT :: rat where "LIFECYCLE_TIMEOUT \<equiv> 120"
abbreviation SERVER_POLL_INTERVAL :: rat where "SERVER_POLL_INTERVAL \<equiv> 3"

section \<open>Helpers\<close>

text \<open>The text of a list of plain strings in an f-string.\<close>

definition str_list_repr :: "string list \<Rightarrow> string" where
  "str_list_repr xs = ''['' @ py_join '', '' (map (\<lambda>s. [CHR 0x27] @ s @ [CHR 0x27]) xs) @ '']''"

definition validate_state :: "string \<Rightarrow> string \<Rightarrow> exn + unit" where
  "validate_state current_status operation =
    (let allowed = dict_get_default VALID_STATE_TRANSITIONS operation [] in
     if current_status \<notin> set allowed
     then Inl (AppException (''Cannot '' @ operation @ '' VM in state '' @ [CHR 0x27] @ current_status @ [CHR 0x27] @
                '' (allowed: '' @ str_list_repr allowed @ '')'') 409 ''invalid_state_transition'')
     else Inr ())"

definition operation_to_sdk :: "string \<Rightarrow> exn + string" where
  "operation_to_sdk operation =
    (case dict_get [(''start'', ''start_server''), (''stop'', ''stop_server''), (''reboot'', ''reboot_server''),
                    (''delete'', ''delete_server'')] operation of
       None \<Rightarrow> Inl (AppException (''Unsupported operation: '' @ operation) 400 ''invalid_operation'')
     | Some sdk \<Rightarrow> Inr sdk)"

definition extract_reference_id :: "(pyval \<Rightarrow> string) \<Rightarrow> pyval \<Rightarrow> string option" where
  "extract_reference_id repr v =
    (let rid = (case mapping_items v of Some items \<Rightarrow> dict_get_default items (PStr ''id'') PNone
                | None \<Rightarrow> getattr v ''id'' PNone)
     in if rid = PNone then None else Some (py_str repr rid))"

definition entry_addr :: "pyval \<Rightarrow> string list" where
  "entry_addr entry = (case mapping_items entry of
     None \<Rightarrow> []
   | Some items \<Rightarrow> (case dict_get_default items (PStr ''addr'') PNone of PStr a \<Rightarrow> [a] | _ \<Rightarrow> []))"

definition extract_addresses :: "pyval \<Rightarrow> (string, string list) dict" where
  "extract_addresses v = (case mapping_items v of
     None \<Rightarrow> []
   | Some items \<Rightarrow> foldl (\<lambda>result (net_name, entries). case (net_name, entries) of
        (PStr n, PList es) \<Rightarrow> dict_set result n (concat (map entry_addr es))
      | _ \<Rightarrow> result) [] items)"

definition get_id :: "(pyval \<Rightarrow> string) \<Rightarrow> pyval \<Rightarrow> exn + string" where
  "get_id repr server =
    (let sid = getattr server ''id'' PNone in
     if truthy sid then Inr (py_str repr sid) else Inl (OpenStackError ''Server object has no id attribute''))"

text \<open>A field of type str that has no None.\<close>

definition req_str :: "'c os_sdk \<Rightarrow> pyval \<Rightarrow> exn + string" where
  "req_str sdk v = (case pd_opt_str sdk v of Inl e \<Rightarrow> Inl e
     | Inr None \<Rightarrow> Inl (PyException ''ValidationError'' ''Input should be a valid string'') | Inr (Some s) \<Rightarrow> Inr s)"

definition vm_metadata :: "(pyval \<Rightarrow> string) \<Rightarrow> pyval \<Rightarrow> (string, string) dict" where
  "vm_metadata repr server =
    (let raw = getattr server ''metadata'' PNone in
     if \<not> truthy raw then [] else case mapping_items raw of
       Some items \<Rightarrow> dict_comp (\<lambda>kv. py_str repr (fst kv)) (\<lambda>kv. py_str repr (snd kv)) items
     | None \<Rightarrow> [])"

definition vm_power :: "(pyval \<Rightarrow> string) \<Rightarrow> pyval \<Rightarrow> string option" where
  "vm_power repr server =
    (let ps = (case mapping_items (getattr server ''OS-EXT-STS'' PNone) of
                 Some items \<Rightarrow> dict_get_default items (PStr ''power_state'') PNone | None \<Rightarrow> PNone);
         vm_state = getattr server ''vm_state'' PNone
     in if ps \<noteq> PNone then Some (py_str repr ps)
        else if truthy vm_state then Some (py_str repr vm_state) else None)"

definition serialize_vm :: "'c os_sdk \<Rightarrow> pyval \<Rightarrow> exn + vm_detail" where
  "serialize_vm sdk server =
    (let field = (\<lambda>n. getattr server n PNone) in fst (
     bindE (outcomeE (req_str sdk (field ''id''))) (\<lambda>i.
     bindE (outcomeE (req_str sdk (field ''name''))) (\<lambda>n.
     bindE (outcomeE (req_str sdk (field ''status''))) (\<lambda>st.
     bindE (outcomeE (pd_opt_str sdk (field ''created''))) (\<lambda>cr.
     bindE (outcomeE (pd_opt_str sdk (field ''updated''))) (\<lambda>up.
     bindE (outcomeE (pd_opt_str sdk (field ''key_name''))) (\<lambda>kn.
     bindE (outcomeE (pd_opt_str sdk (field ''availability_zone''))) (\<lambda>az.
     bindE (outcomeE (pd_opt_int sdk (field ''progress''))) (\<lambda>pr.
     retE \<lparr>vd_id = i, vd_name = n, vd_status = st,
       vd_flavor_id = extract_reference_id (sdk_repr sdk) (field ''flavor''),
       vd_image_id = extract_reference_id (sdk_repr sdk) (field ''image''),
       vd_addresses = extract_addresses (field ''addresses''),
       vd_metadata = vm_metadata (sdk_repr sdk) server, vd_created = cr, vd_updated = up, vd_key_name = kn,
       vd_availability_zone = az, vd_power_state = vm_power (sdk_repr sdk) server, vd_progress = pr\<rparr>)))))))) ()))"

section \<open>Calls to Nova\<close>

definition now_of :: "'c engine_env \<Rightarrow> ('c, 'm) os_state_scheme \<Rightarrow> rat" where
  "now_of env w = sdk_now (ee_sdk env) (os_cloud w)"

definition nova_call :: "'c engine_env \<Rightarrow> string \<Rightarrow> rat \<Rightarrow> pyval list \<Rightarrow> (string, pyval) dict \<Rightarrow>
    (('c, 'm) engine_world, pyval) act" where
  "nova_call env method_name timeout args kwargs =
    thenE (os_create (ee_settings env) (ee_sdk env))
    (if \<not> sdk_has_service (ee_sdk env) ''compute'' then raiseE (OpenStackError ''OpenStack compute service not available'')
     else if \<not> sdk_has_operation (ee_sdk env) ''compute'' method_name then
       raiseE (OpenStackError (''Unknown compute method: '' @ method_name))
     else call_with_timeout (ee_sdk env) timeout (cloudE (sdk_invoke (ee_sdk env) ''compute'' method_name args kwargs)))"

definition get_vm :: "'c engine_env \<Rightarrow> string \<Rightarrow> (('c, 'm) engine_world, vm_detail) act" where
  "get_vm env server_id =
    bindE (nova_call env ''get_server'' LIFECYCLE_TIMEOUT [PStr server_id] []) (\<lambda>server.
    if \<not> truthy server then raiseE (AppException ''Server not found'' 404 ''server_not_found'')
    else outcomeE (serialize_vm (ee_sdk env) server))"

definition list_vms :: "'c engine_env \<Rightarrow> (('c, 'm) engine_world, vm_detail list) act" where
  "list_vms env =
    bindE (nova_call env ''servers'' LIFECYCLE_TIMEOUT [] []) (\<lambda>servers.
    bindE (cloudE (sdk_iter (ee_sdk env) servers)) (\<lambda>objs.
    mapE (\<lambda>s. outcomeE (serialize_vm (ee_sdk env) s)) objs))"

definition get_active_count :: "'c engine_env \<Rightarrow> (('c, 'm) engine_world, int) act" where
  "get_active_count env =
    bindE (list_vms env) (\<lambda>servers.
    (let active = int (length (filter (\<lambda>s. vd_status s = ''ACTIVE'') servers))
     in thenE (updE (\<lambda>w. w\<lparr>ve_active_count := active\<rparr>)) (retE active)))"

section \<open>Waiting\<close>

text \<open>The text of a timeout in seconds: a float with an integral value.\<close>

definition secs_str :: "rat \<Rightarrow> string" where
  "secs_str t = str_int (rat_trunc t) @ ''.0''"

datatype 'a poll = Done 'a | Again

text \<open>\<^verbatim>\<open>while time.monotonic() < deadline: body; await _async_sleep(SERVER_POLL_INTERVAL)\<close>, then the
  code after the loop. The body ends the loop with Done or by raising.\<close>

fun wait_loop :: "'c engine_env \<Rightarrow> rat \<Rightarrow> (('c, 'm) engine_world, 'a poll) act \<Rightarrow>
    (('c, 'm) engine_world, 'a) act \<Rightarrow> nat \<Rightarrow> (('c, 'm) engine_world, 'a) act" where
  "wait_loop env deadline body after 0 w = after w"
| "wait_loop env deadline body after (Suc n) w =
    (if now_of env w < deadline then
       bindE body (\<lambda>p. case p of
           Done x \<Rightarrow> retE x
         | Again \<Rightarrow> thenE (cloudE (ee_sleep env SERVER_POLL_INTERVAL)) (wait_loop env deadline body after n)) w
     else after w)"

definition wait_fuel :: "rat \<Rightarrow> nat" where
  "wait_fuel timeout = nat \<lceil>timeout / SERVER_POLL_INTERVAL\<rceil>"

definition wait_for :: "'c engine_env \<Rightarrow> rat \<Rightarrow> (('c, 'm) engine_world, 'a poll) act \<Rightarrow>
    (('c, 'm) engine_world, 'a) act \<Rightarrow> (('c, 'm) engine_world, 'a) act" where
  "wait_for env timeout body after w = wait_loop env (now_of env w + timeout) body after (wait_fuel timeout) w"

definition poll_active :: "'c engine_env \<Rightarrow> string \<Rightarrow> (('c, 'm) engine_world, vm_detail poll) act" where
  "poll_active env server_id =
    bindE (get_vm env server_id) (\<lambda>detail.
    if vd_status detail = ''ACTIVE'' then retE (Done detail)
    else if vd_status detail \<in> {''ERROR'', ''UNKNOWN''} then
      raiseE (AppException (''VM entered '' @ vd_status detail @ '' state during provisioning'') 500 ''vm_provisioning_failed'')
    else retE Again)"

definition wait_for_active :: "'c engine_env \<Rightarrow> string \<Rightarrow> rat \<Rightarrow> (('c, 'm) engine_world, vm_detail) act" where
  "wait_for_active env server_id timeout =
    wait_for env timeout (poll_active env server_id)
      (raiseE (TimeoutError (''VM '' @ server_id @ '' did not reach ACTIVE within '' @ secs_str timeout @ ''s'')))"

definition poll_stopped :: "'c engine_env \<Rightarrow> string \<Rightarrow> (('c, 'm) engine_world, vm_detail poll) act" where
  "poll_stopped env server_id =
    bindE (get_vm env server_id) (\<lambda>detail.
    if vd_status detail \<in> {''SHUTOFF'', ''STOPPED''} then retE (Done detail)
    else if vd_status detail \<in> {''ERROR'', ''UNKNOWN''} then
      raiseE (AppException (''VM entered '' @ vd_status detail @ '' state while stopping'') 500 ''vm_stop_failed'')
    else retE Again)"

definition wait_for_stopped :: "'c engine_env \<Rightarrow> string \<Rightarrow> rat \<Rightarrow> (('c, 'm) engine_world, vm_detail) act" where
  "wait_for_stopped env server_id timeout =
    wait_for env timeout (poll_stopped env server_id)
      (raiseE (TimeoutError (''VM '' @ server_id @ '' did not reach SHUTOFF within '' @ secs_str timeout @ ''s'')))"

definition poll_deleted :: "'c engine_env \<Rightarrow> string \<Rightarrow> (('c, 'm) engine_world, unit poll) act" where
  "poll_deleted env server_id =
    tryE (bindE (get_vm env server_id) (\<lambda>_. retE Again))
      (\<lambda>exc. if is_app_exception exc \<and> exn_status_code exc = 404 then retE (Done ()) else raiseE exc)"

definition wait_for_deleted :: "'c engine_env \<Rightarrow> string \<Rightarrow> rat \<Rightarrow> (('c, 'm) engine_world, unit) act" where
  "wait_for_deleted env server_id timeout = wait_for env timeout (poll_deleted env server_id) (retE ())"

definition cleanup_failed_server :: "'c engine_env \<Rightarrow> string \<Rightarrow> (('c, 'm) engine_world, unit) act" where
  "cleanup_failed_server env server_id =
    tryE (bindE (nova_call env ''delete_server'' 30 [PStr server_id] [(''ignore_missing'', PBool True)]) (\<lambda>_. retE ()))
      (\<lambda>_. retE ())"

section \<open>Operations\<close>

definition vm_audit :: "string \<Rightarrow> string option \<Rightarrow> string \<Rightarrow> vm_payload \<Rightarrow> (('c, 'm) engine_world, unit) act" where
  "vm_audit action resource_id status payload = updE (\<lambda>w. w\<lparr>ve_audit := ve_audit w @
     [\<lparr>aa_actor = None, aa_action = Some action, aa_resource_type = Some ''vm'', aa_resource_id = resource_id,
       aa_status = status, aa_request_id = None, aa_payload = Some payload\<rparr>]\<rparr>)"

definition elapsed_since :: "'c engine_env \<Rightarrow> rat \<Rightarrow> ('c, 'm) os_state_scheme \<Rightarrow> rat" where
  "elapsed_since env t0 w = fsub (now_of env w) t0"

definition count_operation :: "string \<Rightarrow> string \<Rightarrow> (('c, 'm) engine_world, unit) act" where
  "count_operation operation status = updE (\<lambda>w. w\<lparr>ve_lifecycle_operations :=
     counter_add (ve_lifecycle_operations w) (operation, status) 1\<rparr>)"

definition create_kwargs :: "vm_create_request \<Rightarrow> (string, pyval) dict" where
  "create_kwargs request =
    [(''name'', PStr (vc_name request)), (''image_id'', PStr (vc_image_id request)),
     (''flavor_id'', PStr (vc_flavor_id request)),
     (''networks'', PList (map (\<lambda>nid. PDict [(PStr ''uuid'', PStr nid)]) (vc_network_ids request))),
     (''metadata'', PDict (map (\<lambda>(k, v). (PStr k, PStr v)) (vc_metadata request)))] @
    (if str_truthy (vc_keypair request) then [(''key_name'', PStr (the (vc_keypair request)))] else []) @
    (case vc_security_groups request of None \<Rightarrow> [] | Some sgs \<Rightarrow>
       if sgs = [] then [] else [(''security_groups'', PList (map (\<lambda>sg. PDict [(PStr ''name'', PStr sg)]) sgs))]) @
    (if str_truthy (vc_availability_zone request) then [(''availability_zone'', PStr (the (vc_availability_zone request)))] else [])"

text \<open>The except clause of create_vm; server is PNone when create_server did not return.\<close>

definition create_failed :: "'c engine_env \<Rightarrow> rat \<Rightarrow> pyval \<Rightarrow> exn \<Rightarrow> (('c, 'm) engine_world, vm_detail) act" where
  "create_failed env t0 server exc =
    bindE (getE (elapsed_since env t0)) (\<lambda>elapsed.
    thenE (updE (\<lambda>w. w\<lparr>ve_create_durations := ve_create_durations w @ [(''failed'', elapsed)],
                       ve_create_failures := counter_add (ve_create_failures w) (exn_name exc) 1\<rparr>))
    (thenE (if server \<noteq> PNone
            then bindE (outcomeE (get_id (sdk_repr (ee_sdk env)) server)) (cleanup_failed_server env)
            else retE ())
    (bindE (if truthy server then bindE (outcomeE (get_id (sdk_repr (ee_sdk env)) server)) (\<lambda>i. retE (Some i)) else retE None)
      (\<lambda>rid. thenE (vm_audit ''vm.create'' rid ''failed''
                \<lparr>vp_error_type = Some (exn_name exc), vp_elapsed_seconds = py_round elapsed 1\<rparr>)
        (raiseE exc)))))"

definition create_rest :: "'c engine_env \<Rightarrow> rat \<Rightarrow> pyval \<Rightarrow> (('c, 'm) engine_world, vm_detail) act" where
  "create_rest env t0 server =
    bindE (outcomeE (get_id (sdk_repr (ee_sdk env)) server)) (\<lambda>server_id.
    bindE (wait_for_active env server_id PROVISIONING_TIMEOUT) (\<lambda>detail.
    bindE (getE (elapsed_since env t0)) (\<lambda>elapsed.
    thenE (updE (\<lambda>w. w\<lparr>ve_create_durations := ve_create_durations w @ [(''success'', elapsed)],
                       ve_active_count := ve_active_count w + 1\<rparr>))
    (thenE (vm_audit ''vm.create'' (Some server_id) ''success''
              \<lparr>vp_error_type = None, vp_elapsed_seconds = py_round elapsed 1\<rparr>)
      (retE detail)))))"

definition create_vm :: "'c engine_env \<Rightarrow> vm_create_request \<Rightarrow> (('c, 'm) engine_world, vm_detail) act" where
  "create_vm env request w =
    (let t0 = now_of env w in
     case nova_call env ''create_server'' PROVISIONING_TIMEOUT [] (create_kwargs request) w of
       (Inl exc, w1) \<Rightarrow> create_failed env t0 PNone exc w1
     | (Inr server, w1) \<Rightarrow> tryE (create_rest env t0 server) (create_failed env t0 server) w1)"

text \<open>The except clause shared by the lifecycle operations.\<close>

definition operation_failed :: "'c engine_env \<Rightarrow> rat \<Rightarrow> string \<Rightarrow> string \<Rightarrow> exn \<Rightarrow>
    (('c, 'm) engine_world, vm_operation_response) act" where
  "operation_failed env t0 server_id operation exc =
    bindE (getE (elapsed_since env t0)) (\<lambda>elapsed.
    thenE (count_operation operation ''failed'')
    (thenE (vm_audit (''vm.'' @ operation) (Some server_id) ''failed''
              \<lparr>vp_error_type = Some (exn_name exc), vp_elapsed_seconds = py_round elapsed 1\<rparr>)
      (raiseE exc)))"

definition operation_succeeded :: "rat \<Rightarrow> string \<Rightarrow> string \<Rightarrow> (('c, 'm) engine_world, vm_operation_response) act" where
  "operation_succeeded elapsed server_id operation =
    thenE (vm_audit (''vm.'' @ operation) (Some server_id) ''success''
             \<lparr>vp_error_type = None, vp_elapsed_seconds = py_round elapsed 1\<rparr>)
      (retE \<lparr>vr_server_id = server_id, vr_operation = operation, vr_status = ''success'', vr_elapsed_seconds = elapsed\<rparr>)"

definition lifecycle_body :: "'c engine_env \<Rightarrow> string \<Rightarrow> string \<Rightarrow> (('c, 'm) engine_world, unit) act" where
  "lifecycle_body env server_id operation =
    bindE (get_vm env server_id) (\<lambda>detail.
    thenE (outcomeE (validate_state (vd_status detail) operation))
    (bindE (outcomeE (operation_to_sdk operation)) (\<lambda>sdk_method.
    thenE (nova_call env sdk_method LIFECYCLE_TIMEOUT [PStr server_id]
             (if operation = ''reboot'' then [(''reboot_type'', PStr ''SOFT'')] else []))
    (if operation = ''start'' then
       thenE (wait_for_active env server_id LIFECYCLE_TIMEOUT) (updE (\<lambda>w. w\<lparr>ve_active_count := ve_active_count w + 1\<rparr>))
     else if operation = ''stop'' then
       thenE (wait_for_stopped env server_id LIFECYCLE_TIMEOUT) (thenE (get_active_count env) (retE ()))
     else if operation = ''reboot'' then
       thenE (wait_for_active env server_id LIFECYCLE_TIMEOUT) (retE ())
     else retE ()))))"

definition lifecycle_operation :: "'c engine_env \<Rightarrow> string \<Rightarrow> string \<Rightarrow> (('c, 'm) engine_world, vm_operation_response) act" where
  "lifecycle_operation env server_id operation =
    bindE (getE (now_of env)) (\<lambda>t0.
    tryE (thenE (lifecycle_body env server_id operation)
           (bindE (getE (elapsed_since env t0)) (\<lambda>elapsed.
            thenE (count_operation operation ''success'') (operation_succeeded elapsed server_id operation))))
      (operation_failed env t0 server_id operation))"

definition start_vm :: "'c engine_env \<Rightarrow> string \<Rightarrow> (('c, 'm) engine_world, vm_operation_response) act" where
  "start_vm env server_id = lifecycle_operation env server_id ''start''"

definition stop_vm :: "'c engine_env \<Rightarrow> string \<Rightarrow> (('c, 'm) engine_world, vm_operation_response) act" where
  "stop_vm env server_id = lifecycle_operation env server_id ''stop''"

definition reboot_vm :: "'c engine_env \<Rightarrow> string \<Rightarrow> (('c, 'm) engine_world, vm_operation_response) act" where
  "reboot_vm env server_id = lifecycle_operation env server_id ''reboot''"

definition delete_vm :: "'c engine_env \<Rightarrow> string \<Rightarrow> (('c, 'm) engine_world, vm_operation_response) act" where
  "delete_vm env server_id =
    bindE (getE (now_of env)) (\<lambda>t0.
    tryE
      (bindE (get_vm env server_id) (\<lambda>detail.
       thenE (outcomeE (validate_state (vd_status detail) ''delete''))
       (thenE (nova_call env ''delete_server'' LIFECYCLE_TIMEOUT [PStr server_id] [(''ignore_missing'', PBool True)])
       (thenE (tryE (wait_for_deleted env server_id 60) (\<lambda>_. retE ()))
       (bindE (getE (elapsed_since env t0)) (\<lambda>elapsed.
        thenE (count_operation ''delete'' ''success'')
        (thenE (get_active_count env) (operation_succeeded elapsed server_id ''delete''))))))))
      (operation_failed env t0 server_id ''delete''))"

section \<open>The wait loops have enough fuel\<close>

definition clock_law :: "'c engine_env \<Rightarrow> bool" where
  "clock_law env \<longleftrightarrow>
    (\<forall>s c. sdk_now (ee_sdk env) c + s \<le> sdk_now (ee_sdk env) (snd (ee_sleep env s c))) \<and>
    (\<forall>sv op as ks c. sdk_now (ee_sdk env) c \<le> sdk_now (ee_sdk env) (snd (sdk_invoke (ee_sdk env) sv op as ks c))) \<and>
    (\<forall>c. sdk_now (ee_sdk env) c \<le> sdk_now (ee_sdk env) (snd (sdk_connect (ee_sdk env) c))) \<and>
    (\<forall>t c. sdk_now (ee_sdk env) c \<le> sdk_now (ee_sdk env) (snd (sdk_patch_session (ee_sdk env) t c)))"

abbreviation after_time :: "'c engine_env \<Rightarrow> rat \<Rightarrow> ('c, 'm) engine_world \<Rightarrow> bool" where
  "after_time env t \<equiv> \<lambda>w. t \<le> now_of env w"

text \<open>The introduction rules that do not look into the cloud.\<close>

lemmas keeps_core = keeps_ret keeps_raise keeps_get keeps_bind keeps_then keeps_try keeps_if keeps_outcomeE

lemma keeps_clock_cloudE:
  "(\<And>c. sdk_now (ee_sdk env) c \<le> sdk_now (ee_sdk env) (snd (m c))) \<Longrightarrow> keeps (after_time env t) (cloudE m)"
  by (auto simp: keeps_def cloudE_def now_of_def split: prod.split) (metis order_trans snd_conv)

lemma keeps_clock_create: "clock_law env \<Longrightarrow> keeps (after_time env t) (os_create (ee_settings env) (ee_sdk env))"
proof -
  assume law: "clock_law env"
  let ?patch = "\<lambda>w. if sdk_has_session (ee_sdk env) (os_cloud w)
      then cloudE (sdk_patch_session (ee_sdk env) (ost_timeout (ee_settings env))) w else (Inr (), w)"
  have "keeps (after_time env t) (cloudE (sdk_patch_session (ee_sdk env) (ost_timeout (ee_settings env))))"
    using law by (intro keeps_clock_cloudE) (simp add: clock_law_def)
  then have p: "keeps (after_time env t) ?patch" by (auto simp: keeps_def)
  have "keeps (after_time env t) (cloudE (sdk_connect (ee_sdk env)))"
    using law by (intro keeps_clock_cloudE) (simp add: clock_law_def)
  with p have "keeps (after_time env t) (tryE (thenE (cloudE (sdk_connect (ee_sdk env)))
      (thenE (updE (\<lambda>w. w\<lparr>os_connected := True\<rparr>)) ?patch))
      (\<lambda>exc. raiseE (OpenStackError (''Failed to create OpenStack connection: '' @ exn_str exc))))"
    by (intro keeps_core keeps_upd) (simp_all add: now_of_def)
  then show ?thesis by (auto simp: keeps_def os_create_def)
qed

lemma keeps_timeout: "keeps P m \<Longrightarrow> keeps P (call_with_timeout sdk t m)"
  by (auto simp: keeps_def call_with_timeout_def split: prod.split; metis snd_conv)

lemma keeps_clock_nova:
  assumes "clock_law env"
  shows "keeps (after_time env t) (nova_call env meth timeout args kwargs)"
proof -
  have "keeps (after_time env t) (cloudE (sdk_invoke (ee_sdk env) ''compute'' meth args kwargs))"
    using assms by (intro keeps_clock_cloudE) (simp add: clock_law_def)
  then show ?thesis unfolding nova_call_def
    by (intro keeps_core keeps_clock_create [OF assms] keeps_timeout)
qed

lemma keeps_clock_get_vm: "clock_law env \<Longrightarrow> keeps (after_time env t) (get_vm env sid)"
  unfolding get_vm_def by (intro keeps_core keeps_clock_nova)

lemma keeps_clock_polls:
  assumes "clock_law env"
  shows "keeps (after_time env t) (poll_active env sid)" "keeps (after_time env t) (poll_stopped env sid)"
    "keeps (after_time env t) (poll_deleted env sid)"
  unfolding poll_active_def poll_stopped_def poll_deleted_def
  by (intro keeps_core keeps_clock_get_vm [OF assms])+

lemma wait_loop_more:
  assumes "clock_law env" "\<And>t. keeps (after_time env t) body"
    and "deadline \<le> now_of env w + SERVER_POLL_INTERVAL * of_nat n"
  shows "wait_loop env deadline body after (n + k) w = wait_loop env deadline body after n w"
  using assms(3)
proof (induction n arbitrary: w)
  case 0
  then show ?case by (cases k) auto
next
  case (Suc n)
  show ?case
  proof (cases "now_of env w < deadline")
    case True
    obtain r w1 where b: "body w = (r, w1)" by fastforce
    have t1: "now_of env w \<le> now_of env w1" using keepsD [OF assms(2) _ b, of "now_of env w"] by simp
    have "thenE (cloudE (ee_sleep env SERVER_POLL_INTERVAL)) (wait_loop env deadline body after (n + k)) w1
        = thenE (cloudE (ee_sleep env SERVER_POLL_INTERVAL)) (wait_loop env deadline body after n) w1"
    proof -
      obtain r2 c2 where sl: "ee_sleep env SERVER_POLL_INTERVAL (os_cloud w1) = (r2, c2)" by fastforce
      have "now_of env w1 + SERVER_POLL_INTERVAL \<le> now_of env (w1\<lparr>os_cloud := c2\<rparr>)"
        using assms(1) sl unfolding clock_law_def now_of_def
        by (metis os_state.select_convs(2) os_state.surjective os_state.update_convs(2) snd_conv)
      then have "deadline \<le> now_of env (w1\<lparr>os_cloud := c2\<rparr>) + SERVER_POLL_INTERVAL * of_nat n"
        using Suc.prems t1 by (simp add: algebra_simps)
      from Suc.IH [OF this] show ?thesis by (cases r2) (simp_all add: thenE_def cloudE_def sl)
    qed
    with True b show ?thesis by (simp add: bindE_def split: sum.split poll.split)
  qed simp
qed

lemma wait_fuel_bound: "timeout \<le> SERVER_POLL_INTERVAL * of_nat (wait_fuel timeout)"
proof -
  have "timeout / 3 \<le> of_int \<lceil>timeout / 3\<rceil>" by (rule le_of_int_ceiling)
  also have "\<dots> \<le> of_nat (wait_fuel timeout)"
    unfolding wait_fuel_def by linarith
  finally show ?thesis by (simp add: field_simps)
qed

lemma wait_for_enough:
  assumes "clock_law env" "\<And>t. keeps (after_time env t) body" "wait_fuel timeout \<le> n"
  shows "wait_loop env (now_of env w + timeout) body after n w = wait_for env timeout body after w"
proof -
  obtain k where n: "n = wait_fuel timeout + k" using assms(3) le_Suc_ex by blast
  show ?thesis unfolding wait_for_def n
    using wait_fuel_bound [of timeout] by (intro wait_loop_more assms) simp
qed

section \<open>What the calls leave alone\<close>

abbreviation same_engine :: "'m \<Rightarrow> ('c, 'm) os_state_scheme \<Rightarrow> bool" where
  "same_engine m \<equiv> \<lambda>w. os_state.more w = m"

lemma os_frame_more: "os_frame (same_engine m)"
  by (simp add: os_frame_def)

lemma keeps_more_cloudE: "keeps (same_engine m) (cloudE a)"
  by (rule keeps_cloudE) simp

lemma keeps_more_nova: "keeps (same_engine m) (nova_call env meth timeout args kwargs)"
  unfolding nova_call_def
  by (intro keeps_core keeps_timeout keeps_more_cloudE keeps_os_create os_frame_more)

lemma keeps_more_get_vm: "keeps (same_engine m) (get_vm env sid)"
  unfolding get_vm_def by (intro keeps_core keeps_more_nova)

lemma keeps_more_polls:
  "keeps (same_engine m) (poll_active env sid)" "keeps (same_engine m) (poll_stopped env sid)"
  "keeps (same_engine m) (poll_deleted env sid)"
  unfolding poll_active_def poll_stopped_def poll_deleted_def by (intro keeps_core keeps_more_get_vm)+

lemma keeps_wait_loop:
  fixes env :: "'c engine_env"
  assumes "keeps P body" "keeps P after" "\<And>a :: ('c, unit) act. keeps P (cloudE a)"
  shows "keeps P (wait_loop env deadline body after n)"
proof (induction n)
  case 0
  have "wait_loop env deadline body after 0 = after" by (rule ext) simp
  with assms(2) show ?case by simp
next
  case (Suc n)
  have "keeps P (bindE body (\<lambda>p. case p of Done x \<Rightarrow> retE x
      | Again \<Rightarrow> thenE (cloudE (ee_sleep env SERVER_POLL_INTERVAL)) (wait_loop env deadline body after n)))"
    using Suc.IH assms by (intro keeps_bind) (simp_all split: poll.split add: keeps_ret keeps_then)
  with assms(2) show ?case by (auto simp: keeps_def)
qed

lemma keeps_wait_for:
  fixes env :: "'c engine_env"
  assumes "keeps P body" "keeps P after" "\<And>a :: ('c, unit) act. keeps P (cloudE a)"
  shows "keeps P (wait_for env timeout body after)"
proof -
  have "keeps P (wait_loop env d body after n)" for d n
    using assms by (rule keeps_wait_loop)
  then show ?thesis by (simp add: keeps_def wait_for_def)
qed

lemma keeps_more_waits:
  "keeps (same_engine m) (wait_for_active env sid t)" "keeps (same_engine m) (wait_for_stopped env sid t)"
  "keeps (same_engine m) (wait_for_deleted env sid t)"
  unfolding wait_for_active_def wait_for_stopped_def wait_for_deleted_def
  by (intro keeps_wait_for keeps_more_cloudE keeps_more_polls keeps_core)+

lemma keeps_more_list: "keeps (same_engine m) (list_vms env)"
  unfolding list_vms_def by (intro keeps_core keeps_map keeps_more_nova keeps_more_cloudE)

lemma keeps_more_cleanup: "keeps (same_engine m) (cleanup_failed_server env sid)"
  unfolding cleanup_failed_server_def by (intro keeps_core keeps_more_nova)

lemma more_engine_eq:
  fixes w w' :: "('c, 'm) engine_world"
  assumes "os_state.more w' = os_state.more w"
  shows "ve_audit w' = ve_audit w" "ve_lifecycle_operations w' = ve_lifecycle_operations w"
    "ve_active_count w' = ve_active_count w" "ve_create_durations w' = ve_create_durations w"
    "ve_create_failures w' = ve_create_failures w"
  using assms by (cases w; cases w'; simp)+

text \<open>Where the result of a wait loop comes from.\<close>

lemma wait_loop_result:
  "wait_loop env deadline body after n w = (Inr x, w') \<Longrightarrow>
     (\<exists>w1. body w1 = (Inr (Done x), w')) \<or> (\<exists>w1. after w1 = (Inr x, w'))"
proof (induction n arbitrary: w)
  case (Suc n)
  show ?case
  proof (cases "now_of env w < deadline")
    case True
    then obtain p w1 where p: "body w = (Inr p, w1)"
        "(case p of Done x \<Rightarrow> retE x | Again \<Rightarrow> thenE (cloudE (ee_sleep env SERVER_POLL_INTERVAL))
           (wait_loop env deadline body after n)) w1 = (Inr x, w')"
      using Suc.prems by (auto simp: bindE_Inr_iff)
    show ?thesis
    proof (cases p)
      case (Done y)
      with p show ?thesis by (auto simp: retE_def)
    next
      case Again
      with p Suc.IH show ?thesis by (auto simp: thenE_Inr_iff)
    qed
  next
    case False
    with Suc.prems show ?thesis by auto
  qed
qed auto

lemma wait_for_active_result:
  "wait_for_active env sid t w = (Inr d, w') \<Longrightarrow> vd_status d = ''ACTIVE''"
  unfolding wait_for_active_def wait_for_def
  by (drule wait_loop_result) (auto simp: poll_active_def bindE_Inr_iff retE_def raiseE_def split: if_splits)

lemma wait_for_stopped_result:
  "wait_for_stopped env sid t w = (Inr d, w') \<Longrightarrow> vd_status d \<in> {''SHUTOFF'', ''STOPPED''}"
  unfolding wait_for_stopped_def wait_for_def
  by (drule wait_loop_result) (auto simp: poll_stopped_def bindE_Inr_iff retE_def raiseE_def split: if_splits)

text \<open>The audit entries and operation counters so far.\<close>

abbreviation logged :: "vm_payload audit_args list \<Rightarrow> (string \<times> string, int) dict \<Rightarrow> ('c, 'm) engine_world \<Rightarrow> bool" where
  "logged A L \<equiv> \<lambda>w. ve_audit w = A \<and> ve_lifecycle_operations w = L"

lemma keeps_logged:
  assumes "\<And>m. keeps (same_engine m) a"
  shows "keeps (logged A L) a"
proof -
  have "os_state.more (snd (a w)) = os_state.more w" for w
    using assms [of "os_state.more w"] by (simp add: keeps_def)
  then have "ve_audit (snd (a w)) = ve_audit w" "ve_lifecycle_operations (snd (a w)) = ve_lifecycle_operations w" for w
    using more_engine_eq(1,2) by blast+
  then show ?thesis by (simp add: keeps_def)
qed

lemma keeps_logged_count: "keeps (logged A L) (get_active_count env)"
  unfolding get_active_count_def Let_def
  by (intro keeps_core keeps_upd keeps_logged keeps_more_list) simp

lemma keeps_logged_body: "keeps (logged A L) (lifecycle_body env sid op)"
  unfolding lifecycle_body_def
  by (intro keeps_core keeps_upd keeps_logged_count keeps_logged [OF keeps_more_get_vm]
      keeps_logged [OF keeps_more_nova] keeps_logged [OF keeps_more_waits(1)] keeps_logged [OF keeps_more_waits(2)])
     simp

definition vm_entry :: "string \<Rightarrow> string option \<Rightarrow> string \<Rightarrow> vm_payload audit_args \<Rightarrow> bool" where
  "vm_entry action resource_id status a \<longleftrightarrow> aa_action a = Some action \<and> aa_resource_type a = Some ''vm'' \<and>
     aa_resource_id a = resource_id \<and> aa_status a = status"

section \<open>Properties\<close>

text \<open>C3: The polling loops are bounded by their deadlines: when sleeping advances the clock by at least
  the time slept and calls do not turn it back, the number of polls that fit before the deadline is
  enough. Running any of the three wait loops with any larger bound on the number of polls gives the
  same outcome, so the bound never decides the result and every wait ends.\<close>

theorem wait_loops_bounded_by_deadline:
  assumes "clock_law env" "wait_fuel timeout \<le> n"
  shows "wait_loop env (now_of env w + timeout) (poll_active env sid) after n w
      = wait_for env timeout (poll_active env sid) after w \<and>
    wait_loop env (now_of env w + timeout) (poll_stopped env sid) after n w
      = wait_for env timeout (poll_stopped env sid) after w \<and>
    wait_loop env (now_of env w + timeout) (poll_deleted env sid) after_deleted n w
      = wait_for env timeout (poll_deleted env sid) after_deleted w"
  using assms by (simp add: wait_for_enough keeps_clock_polls)

text \<open>A cloud whose state is its clock: servers build for six seconds and are active afterwards.\<close>

definition server_at :: "rat \<Rightarrow> pyval" where
  "server_at t = PObj True [(''id'', PStr ''s1''), (''name'', PStr ''web''),
     (''status'', PStr (if t < 6 then ''BUILD'' else ''ACTIVE''))] None"

definition clock_sdk :: "rat os_sdk" where
  "clock_sdk = \<lparr>sdk_connect = retE (), sdk_has_session = (\<lambda>_. True), sdk_patch_session = (\<lambda>_. retE ()),
     sdk_has_service = (\<lambda>_. True), sdk_has_operation = (\<lambda>_ _. True),
     sdk_invoke = (\<lambda>_ op _ _ t. if op = ''servers'' then (Inl (PyException ''HttpException'' ''busy''), t) else (Inr (server_at t), t)),
     sdk_iter = (\<lambda>v. retE [v]), sdk_now = (\<lambda>t. t), sdk_repr = (\<lambda>_. ''object''),
     pd_opt_str = (\<lambda>v. case v of PNone \<Rightarrow> Inr None | PStr s \<Rightarrow> Inr (Some s) | _ \<Rightarrow> Inl (PyException ''ValidationError'' [])),
     pd_opt_int = (\<lambda>v. case v of PNone \<Rightarrow> Inr None | PInt i \<Rightarrow> Inr (Some i) | _ \<Rightarrow> Inl (PyException ''ValidationError'' []))\<rparr>"

definition clock_env :: "rat engine_env" where
  "clock_env = \<lparr>ee_settings = ready_settings, ee_sdk = clock_sdk, ee_sleep = (\<lambda>s t. (Inr (), t + s))\<rparr>"

definition clock_start :: "rat engine_state" where
  "clock_start = \<lparr>os_connected = False, os_cloud = 0, os_api_errors = [], os_api_durations = [],
     ve_create_durations = [], ve_create_failures = [], ve_lifecycle_operations = [], ve_active_count = 0, ve_audit = []\<rparr>"

lemma clock_env_law: "clock_law clock_env"
  by (simp add: clock_law_def clock_env_def clock_sdk_def retE_def)

theorem wait_loops_bounded_by_deadline_witness:
  "wait_loop clock_env (now_of clock_env clock_start + 120) (poll_active clock_env ''s1'') (raiseE (TimeoutError [])) 1000 clock_start
    = wait_for clock_env 120 (poll_active clock_env ''s1'') (raiseE (TimeoutError [])) clock_start"
proof -
  have "wait_fuel 120 \<le> 1000" by (simp add: wait_fuel_def)
  from wait_loops_bounded_by_deadline [OF clock_env_law this] show ?thesis by blast
qed

text \<open>C10: The state guard of the lifecycle operations: if the machine is in a state the operation is not
  allowed in, the operation makes no further call to the cloud after reading the machine, raises
  the 409 error, and leaves exactly one failure in the operation counter and one failed audit entry.\<close>

theorem lifecycle_guard:
  assumes "get_vm env sid w = (Inr d, w1)"
    and "vd_status d \<notin> set (dict_get_default VALID_STATE_TRANSITIONS operation [])"
  shows "\<exists>msg a w'. lifecycle_operation env sid operation w = (Inl (AppException msg 409 ''invalid_state_transition''), w') \<and>
    os_cloud w' = os_cloud w1 \<and> ve_audit w' = ve_audit w @ [a] \<and> vm_entry (''vm.'' @ operation) (Some sid) ''failed'' a \<and>
    ve_lifecycle_operations w' = counter_add (ve_lifecycle_operations w) (operation, ''failed'') 1"
proof -
  have "os_state.more w1 = os_state.more w"
    using keepsD [OF keeps_more_get_vm _ assms(1)] by blast
  note same = more_engine_eq [OF this]
  obtain msg where v: "validate_state (vd_status d) operation = Inl (AppException msg 409 ''invalid_state_transition'')"
    using assms(2) by (simp add: validate_state_def Let_def)
  have "lifecycle_body env sid operation w = (Inl (AppException msg 409 ''invalid_state_transition''), w1)"
    by (simp add: lifecycle_body_def bindE_def assms(1) thenE_def outcomeE_def v)
  then show ?thesis using same
    by (auto simp: lifecycle_operation_def bindE_def getE_def tryE_def thenE_def operation_failed_def
        count_operation_def vm_audit_def updE_def raiseE_def vm_entry_def)
qed

theorem lifecycle_guard_witness:
  "\<exists>msg w'. lifecycle_operation clock_env ''s1'' ''start'' (clock_start\<lparr>os_cloud := 9\<rparr>)
     = (Inl (AppException msg 409 ''invalid_state_transition''), w') \<and> os_cloud w' = 9"
proof -
  let ?w = "clock_start\<lparr>os_cloud := 9\<rparr>"
  have g: "case get_vm clock_env ''s1'' ?w of (Inr d, w1) \<Rightarrow> vd_status d = ''ACTIVE'' \<and> os_cloud w1 = 9 | _ \<Rightarrow> False"
    by code_simp
  then obtain d w1 where d: "get_vm clock_env ''s1'' ?w = (Inr d, w1)" "vd_status d = ''ACTIVE''" "os_cloud w1 = 9"
    by (auto split: prod.splits sum.splits)
  from lifecycle_guard [OF d(1), of "''start''"] d(2,3) show ?thesis
    by (fastforce simp: VALID_STATE_TRANSITIONS_def dict_get_default_def)
qed

text \<open>Every start, stop and reboot is accounted for once: whatever the cloud does, the operation
  adds exactly one audit entry and one count, with status success if it returns and failed if it
  raises.\<close>

theorem lifecycle_accounted_once:
  "\<exists>a status. ve_audit (snd (lifecycle_operation env sid operation w)) = ve_audit w @ [a] \<and>
    vm_entry (''vm.'' @ operation) (Some sid) status a \<and>
    ve_lifecycle_operations (snd (lifecycle_operation env sid operation w))
      = counter_add (ve_lifecycle_operations w) (operation, status) 1 \<and>
    status = (case fst (lifecycle_operation env sid operation w) of Inr _ \<Rightarrow> ''success'' | Inl _ \<Rightarrow> ''failed'')"
proof -
  obtain r w1 where b: "lifecycle_body env sid operation w = (r, w1)" by fastforce
  have "logged (ve_audit w) (ve_lifecycle_operations w) w1"
    using keepsD [OF keeps_logged_body _ b] by blast
  with b show ?thesis
    by (cases r) (auto simp: lifecycle_operation_def bindE_def getE_def tryE_def thenE_def operation_failed_def
        operation_succeeded_def count_operation_def vm_audit_def updE_def raiseE_def retE_def vm_entry_def)
qed

lemma create_rest_outcome:
  assumes "create_rest env t0 server w = (r, w')"
  shows "case r of
      Inl e \<Rightarrow> os_state.more w' = os_state.more w
    | Inr d \<Rightarrow> vd_status d = ''ACTIVE'' \<and> ve_active_count w' = ve_active_count w + 1 \<and>
        ve_create_failures w' = ve_create_failures w \<and>
        (\<exists>el. ve_create_durations w' = ve_create_durations w @ [(''success'', el)]) \<and>
        (\<exists>a sid. ve_audit w' = ve_audit w @ [a] \<and> vm_entry ''vm.create'' (Some sid) ''success'' a)"
proof (cases "get_id (sdk_repr (ee_sdk env)) server")
  case (Inl e)
  with assms show ?thesis by (auto simp: create_rest_def bindE_def outcomeE_def)
next
  case (Inr sid)
  obtain x w1 where wa: "wait_for_active env sid PROVISIONING_TIMEOUT w = (x, w1)" by fastforce
  have m: "os_state.more w1 = os_state.more w" using keepsD [OF keeps_more_waits(1) _ wa] by blast
  show ?thesis
  proof (cases x)
    case (Inl e)
    with assms Inr wa m show ?thesis by (auto simp: create_rest_def bindE_def outcomeE_def)
  next
    case (Inr d)
    with wa have "vd_status d = ''ACTIVE''" using wait_for_active_result by blast
    with assms Inr \<open>get_id _ server = Inr sid\<close> wa more_engine_eq [OF m] show ?thesis
      by (auto simp: create_rest_def bindE_def thenE_def outcomeE_def getE_def updE_def vm_audit_def retE_def vm_entry_def)
  qed
qed

lemma create_failed_outcome:
  assumes "create_failed env t0 server exc w = (r, w')"
  shows "(\<exists>e. r = Inl e) \<and> ve_active_count w' = ve_active_count w \<and>
    ve_create_failures w' = counter_add (ve_create_failures w) (exn_name exc) 1 \<and>
    (\<exists>el. ve_create_durations w' = ve_create_durations w @ [(''failed'', el)]) \<and>
    (ve_audit w' = ve_audit w \<or> (\<exists>a rid. ve_audit w' = ve_audit w @ [a] \<and> vm_entry ''vm.create'' rid ''failed'' a))"
proof -
  let ?el = "elapsed_since env t0 w"
  let ?w1 = "w\<lparr>ve_create_durations := ve_create_durations w @ [(''failed'', ?el)],
      ve_create_failures := counter_add (ve_create_failures w) (exn_name exc) 1\<rparr>"
  let ?cl = "if server \<noteq> PNone then bindE (outcomeE (get_id (sdk_repr (ee_sdk env)) server)) (cleanup_failed_server env) else retE ()"
  obtain x w2 where c: "?cl ?w1 = (x, w2)" by fastforce
  have "keeps (same_engine (os_state.more ?w1)) ?cl" by (intro keeps_core keeps_more_cleanup)
  from keepsD [OF this _ c] have "os_state.more w2 = os_state.more ?w1" by blast
  note same = more_engine_eq [OF this]
  have r: "create_failed env t0 server exc w = thenE ?cl
    (bindE (if truthy server then bindE (outcomeE (get_id (sdk_repr (ee_sdk env)) server)) (\<lambda>i. retE (Some i)) else retE None)
      (\<lambda>rid. thenE (vm_audit ''vm.create'' rid ''failed''
                \<lparr>vp_error_type = Some (exn_name exc), vp_elapsed_seconds = py_round ?el 1\<rparr>) (raiseE exc))) ?w1"
    by (simp add: create_failed_def bindE_def getE_def thenE_def updE_def)
  show ?thesis
  proof (cases x)
    case (Inl e)
    with assms r c same show ?thesis by (auto simp: thenE_def)
  next
    case (Inr u)
    with assms r c same show ?thesis
      by (cases "get_id (sdk_repr (ee_sdk env)) server"; cases "truthy server")
         (auto simp: thenE_def bindE_def outcomeE_def retE_def raiseE_def updE_def vm_audit_def vm_entry_def)
  qed
qed

text \<open>C2: Creating a machine has one of two outcomes. If it returns, the machine is ACTIVE, the active
  gauge has gone up by one, one success duration and one success audit entry were recorded and no
  failure; if it raises, one failure and one failed duration were recorded, the active gauge is
  unchanged, and at most one audit entry, with status failed, was written.\<close>

theorem create_vm_outcome:
  "case create_vm env request w of
     (Inr d, w') \<Rightarrow> vd_status d = ''ACTIVE'' \<and> ve_active_count w' = ve_active_count w + 1 \<and>
        ve_create_failures w' = ve_create_failures w \<and>
        (\<exists>el. ve_create_durations w' = ve_create_durations w @ [(''success'', el)]) \<and>
        (\<exists>a sid. ve_audit w' = ve_audit w @ [a] \<and> vm_entry ''vm.create'' (Some sid) ''success'' a)
   | (Inl e, w') \<Rightarrow> ve_active_count w' = ve_active_count w \<and>
        (\<exists>n. ve_create_failures w' = counter_add (ve_create_failures w) n 1) \<and>
        (\<exists>el. ve_create_durations w' = ve_create_durations w @ [(''failed'', el)]) \<and>
        (ve_audit w' = ve_audit w \<or> (\<exists>a rid. ve_audit w' = ve_audit w @ [a] \<and> vm_entry ''vm.create'' rid ''failed'' a))"
proof -
  obtain x w1 where n: "nova_call env ''create_server'' PROVISIONING_TIMEOUT [] (create_kwargs request) w = (x, w1)"
    by fastforce
  have "os_state.more w1 = os_state.more w" using keepsD [OF keeps_more_nova _ n] by blast
  note s1 = more_engine_eq [OF this]
  show ?thesis
  proof (cases x)
    case (Inl exc)
    obtain r w' where f: "create_failed env (now_of env w) PNone exc w1 = (r, w')" by fastforce
    from create_failed_outcome [OF f] f Inl n s1 show ?thesis by (auto simp: create_vm_def Let_def)
  next
    case (Inr server)
    obtain y w2 where rest: "create_rest env (now_of env w) server w1 = (y, w2)" by fastforce
    note o = create_rest_outcome [OF rest]
    show ?thesis
    proof (cases y)
      case (Inr d)
      with o rest n \<open>x = Inr server\<close> s1 show ?thesis by (simp add: create_vm_def Let_def tryE_def)
    next
      case (Inl exc)
      with o have "os_state.more w2 = os_state.more w1" by simp
      note s2 = more_engine_eq [OF this]
      obtain r w' where f: "create_failed env (now_of env w) server exc w2 = (r, w')" by fastforce
      from create_failed_outcome [OF f] f Inl rest n \<open>x = Inr server\<close> s1 s2 show ?thesis
        by (auto simp: create_vm_def Let_def tryE_def)
    qed
  qed
qed

lemma keeps_connected_nova: "keeps os_connected (nova_call env meth timeout args kwargs)"
proof -
  have "keeps os_connected (os_create (ee_settings env) (ee_sdk env))" by (simp add: keeps_def os_create_connected)
  moreover have "keeps os_connected (cloudE a)" for a :: "('c, pyval) act" by (rule keeps_cloudE) simp
  ultimately show ?thesis unfolding nova_call_def by (intro keeps_core keeps_timeout)
qed

lemma nova_call_returns:
  assumes "nova_call env meth timeout args kwargs w = (Inr v, w')"
  shows "os_connected w'" "sdk_has_service (ee_sdk env) ''compute''"
proof -
  obtain r w1 where c: "os_create (ee_settings env) (ee_sdk env) w = (r, w1)" by fastforce
  from assms c obtain u where u: "r = Inr u" by (cases r) (auto simp: nova_call_def thenE_def)
  with c have "os_connected w1" using os_create_outcome(4) by blast
  with assms c u show "os_connected w'" "sdk_has_service (ee_sdk env) ''compute''"
    by (auto simp: nova_call_def thenE_def raiseE_def call_with_timeout_def cloudE_def split: if_splits prod.splits)
qed

lemma keeps_connected_rest: "keeps os_connected (create_rest env t0 server)"
proof -
  have g: "keeps os_connected (get_vm env sid)" for sid
    unfolding get_vm_def by (intro keeps_core keeps_connected_nova)
  have p: "keeps os_connected (poll_active env sid)" for sid
    unfolding poll_active_def by (intro keeps_core g)
  have "keeps os_connected (wait_for_active env sid t)" for sid t
    unfolding wait_for_active_def by (intro keeps_wait_for p keeps_raise keeps_cloudE) simp
  then show ?thesis unfolding create_rest_def vm_audit_def by (intro keeps_core keeps_upd) simp_all
qed

text \<open>C1: No failed machine is left behind: if Nova has returned a server with an id and the rest of the
  creation then raises, delete_server has been called with this id before create_vm raises. So whatever
  holds of the cloud after such a call (for instance that the server is gone) holds of it when
  create_vm returns to its caller.\<close>

theorem failed_create_is_cleaned_up:
  assumes "nova_call env ''create_server'' PROVISIONING_TIMEOUT [] (create_kwargs request) w = (Inr server, w1)"
    and "get_id (sdk_repr (ee_sdk env)) server = Inr sid"
    and "sdk_has_operation (ee_sdk env) ''compute'' ''delete_server''"
    and "\<And>c. gone (snd (sdk_invoke (ee_sdk env) ''compute'' ''delete_server'' [PStr sid] [(''ignore_missing'', PBool True)] c))"
    and "create_vm env request w = (Inl e, w')"
  shows "gone (os_cloud w')"
proof -
  note n = nova_call_returns [OF assms(1)]
  have sv: "server \<noteq> PNone" using assms(2) by (auto simp: get_id_def)
  obtain y w2 where rest: "create_rest env (now_of env w) server w1 = (y, w2)" by fastforce
  with assms(1,5) obtain exc where y: "y = Inl exc" and f: "create_failed env (now_of env w) server exc w2 = (Inl e, w')"
    by (cases y) (auto simp: create_vm_def Let_def tryE_def)
  have conn: "os_connected w2" using keepsD [OF keeps_connected_rest n(1) rest] .
  let ?w3 = "w2\<lparr>ve_create_durations := ve_create_durations w2 @ [(''failed'', elapsed_since env (now_of env w) w2)],
      ve_create_failures := counter_add (ve_create_failures w2) (exn_name exc) 1\<rparr>"
  obtain r c where inv: "sdk_invoke (ee_sdk env) ''compute'' ''delete_server'' [PStr sid] [(''ignore_missing'', PBool True)] (os_cloud w2) = (r, c)"
    by fastforce
  have "gone c" using assms(4) [of "os_cloud w2"] inv by simp
  have "cleanup_failed_server env sid ?w3 = (Inr (), ?w3\<lparr>os_cloud := c\<rparr>)"
    using conn n(2) assms(3) inv
    by (cases r) (auto simp: cleanup_failed_server_def tryE_def bindE_def nova_call_def thenE_def os_create_connected
        call_with_timeout_def cloudE_def retE_def)
  then have "os_cloud w' = c" using f sv assms(2)
    by (auto simp: create_failed_def bindE_def getE_def thenE_def updE_def outcomeE_def vm_audit_def retE_def raiseE_def split: if_splits)
  with \<open>gone c\<close> show ?thesis by simp
qed

text \<open>A cloud that remembers the last deletion; its servers end in the ERROR state.\<close>

definition error_sdk :: "string option os_sdk" where
  "error_sdk = \<lparr>sdk_connect = retE (), sdk_has_session = (\<lambda>_. False), sdk_patch_session = (\<lambda>_. retE ()),
     sdk_has_service = (\<lambda>_. True), sdk_has_operation = (\<lambda>_ _. True),
     sdk_invoke = (\<lambda>_ op args _ c. if op = ''delete_server'' then (Inr PNone, case args of [PStr i] \<Rightarrow> Some i | _ \<Rightarrow> c)
       else (Inr (PObj True [(''id'', PStr ''s1''), (''name'', PStr ''web''), (''status'', PStr ''ERROR'')] None), c)),
     sdk_iter = (\<lambda>v. retE [v]), sdk_now = (\<lambda>_. 0), sdk_repr = (\<lambda>_. ''object''),
     pd_opt_str = (\<lambda>v. case v of PNone \<Rightarrow> Inr None | PStr s \<Rightarrow> Inr (Some s) | _ \<Rightarrow> Inl (PyException ''ValidationError'' [])),
     pd_opt_int = (\<lambda>v. case v of PNone \<Rightarrow> Inr None | PInt i \<Rightarrow> Inr (Some i) | _ \<Rightarrow> Inl (PyException ''ValidationError'' []))\<rparr>"

definition error_env :: "string option engine_env" where
  "error_env = \<lparr>ee_settings = ready_settings, ee_sdk = error_sdk, ee_sleep = (\<lambda>_ c. (Inr (), c))\<rparr>"

definition error_start :: "string option engine_state" where
  "error_start = \<lparr>os_connected = False, os_cloud = None, os_api_errors = [], os_api_durations = [],
     ve_create_durations = [], ve_create_failures = [], ve_lifecycle_operations = [], ve_active_count = 0, ve_audit = []\<rparr>"

definition web_request :: vm_create_request where
  "web_request = \<lparr>vc_name = ''web'', vc_flavor_id = ''f'', vc_image_id = ''i'', vc_network_ids = [''n''], vc_keypair = None,
     vc_security_groups = None, vc_availability_zone = None, vc_metadata = []\<rparr>"

theorem failed_create_is_cleaned_up_witness:
  "os_cloud (snd (create_vm error_env web_request error_start)) = Some ''s1''"
proof -
  let ?srv = "PObj True [(''id'', PStr ''s1''), (''name'', PStr ''web''), (''status'', PStr ''ERROR'')] None"
  have n: "nova_call error_env ''create_server'' PROVISIONING_TIMEOUT [] (create_kwargs web_request) error_start
      = (Inr ?srv, error_start\<lparr>os_connected := True\<rparr>)" by code_simp
  have i: "get_id (sdk_repr (ee_sdk error_env)) ?srv = Inr ''s1''" by code_simp
  have h: "sdk_has_operation (ee_sdk error_env) ''compute'' ''delete_server''" by (simp add: error_env_def error_sdk_def)
  have "case create_vm error_env web_request error_start of (Inl _, _) \<Rightarrow> True | _ \<Rightarrow> False" by code_simp
  then obtain e w' where c: "create_vm error_env web_request error_start = (Inl e, w')"
    by (auto split: prod.splits sum.splits)
  have "os_cloud w' = Some ''s1''"
    by (rule failed_create_is_cleaned_up [OF n i h _ c, of "\<lambda>c. c = Some ''s1''"]) (simp add: error_env_def error_sdk_def)
  with c show ?thesis by simp
qed

text \<open>A deletion can be counted twice: on a cloud that deletes the machine but then refuses to list the
  servers, delete_vm raises although the machine was deleted, and both the success and the failed
  counter of the operation have been incremented, while the only audit entry says failed.\<close>

theorem delete_counted_twice:
  "case delete_vm clock_env ''s1'' (clock_start\<lparr>os_cloud := 9\<rparr>) of
     (Inl _, w') \<Rightarrow> ve_lifecycle_operations w' = [((''delete'', ''success''), 1), ((''delete'', ''failed''), 1)] \<and>
        map aa_status (ve_audit w') = [''failed'']
   | (Inr _, _) \<Rightarrow> False"
  by code_simp

end
