(* ===== verification/Vmware_Pool.thy ===== *)
theory Vmware_Pool
  imports Py_Effects Py_Float "HOL-Library.Sublist"
begin

text \<open>
  app/clients/vmware/pool.py: the pool of vCenter sessions. The pool is shared by threads: each method
  of the pool consists of sections that run under the lock, with SmartConnect outside the lock. The
  sections are functions on the pool state, the methods compose them, and pool_event lists them as the
  steps of an interleaving, so that the invariant is proved for every schedule.

  Sessions are values of an arbitrary type 's; SmartConnect's outcome and the answer of CurrentTime are
  arguments. A PooledConnection object is identified by its number pc_ref (Python compares these objects by
  identity). pl_disconnected records the sessions passed to Disconnect.
\<close>

record 's pooled_connection =
  pc_ref :: nat
  pc_si :: 's
  pc_created_at :: rat
  pc_last_used_at :: rat
  pc_use_count :: int

record pool_config =
  pf_ready :: bool
  pf_max_pool_size :: int
  pf_session_ttl :: rat
  pf_health_check_interval :: rat

record 's pool_state =
  pl_pool :: "'s pooled_connection list"
  pl_last_health_check :: rat
  pl_next :: nat
  pl_created :: int
  pl_reused :: int
  pl_reconnected :: int
  pl_failed :: int
  pl_disconnected :: "'s list"

definition new_pool :: "'s pool_state" where
  "new_pool = \<lparr>pl_pool = [], pl_last_health_check = 0, pl_next = 0, pl_created = 0, pl_reused = 0,
     pl_reconnected = 0, pl_failed = 0, pl_disconnected = []\<rparr>"

definition age_seconds :: "rat \<Rightarrow> 's pooled_connection \<Rightarrow> rat" where
  "age_seconds now pc = fsub now (pc_created_at pc)"

text \<open>_disconnect_one: an exception of Disconnect is swallowed.\<close>

definition disconnect_one :: "'s pooled_connection \<Rightarrow> 's pool_state \<Rightarrow> 's pool_state" where
  "disconnect_one pc s = s\<lparr>pl_disconnected := pl_disconnected s @ [pc_si pc]\<rparr>"

section \<open>Sections under the lock\<close>

definition remove_connection :: "'s pooled_connection \<Rightarrow> 's pool_state \<Rightarrow> 's pool_state" where
  "remove_connection pc s = s\<lparr>pl_pool := filter (\<lambda>c. pc_ref c \<noteq> pc_ref pc) (pl_pool s)\<rparr>"

definition check_connection :: "('s \<Rightarrow> bool) \<Rightarrow> 's pooled_connection \<Rightarrow> 's pool_state \<Rightarrow> 's pool_state" where
  "check_connection alive pc s = (if alive (pc_si pc) then s
     else disconnect_one pc (remove_connection pc (s\<lparr>pl_reconnected := pl_reconnected s + 1\<rparr>)))"

definition health_section :: "('s \<Rightarrow> bool) \<Rightarrow> 's pool_state \<Rightarrow> 's pool_state" where
  "health_section alive s = fold (check_connection alive) (pl_pool s) s"

definition health_check_if_needed :: "pool_config \<Rightarrow> rat \<Rightarrow> ('s \<Rightarrow> bool) \<Rightarrow> 's pool_state \<Rightarrow> 's pool_state" where
  "health_check_if_needed cf now alive s =
    (if fsub now (pl_last_health_check s) < pf_health_check_interval cf then s
     else health_section alive (s\<lparr>pl_last_health_check := now\<rparr>))"

text \<open>min with a key: the first of the smallest.\<close>

fun min_by :: "('a \<Rightarrow> int) \<Rightarrow> 'a \<Rightarrow> 'a list \<Rightarrow> 'a" where
  "min_by k x [] = x"
| "min_by k x (y # ys) = (if k y < k x then min_by k y ys else min_by k x ys)"

definition expired :: "pool_config \<Rightarrow> rat \<Rightarrow> 's pooled_connection \<Rightarrow> bool" where
  "expired cf now pc \<longleftrightarrow> fsub now (pc_created_at pc) > pf_session_ttl cf"

definition find_healthy :: "pool_config \<Rightarrow> rat \<Rightarrow> 's pool_state \<Rightarrow> 's pooled_connection option \<times> 's pool_state" where
  "find_healthy cf now s =
    (let survivors = filter (\<lambda>pc. \<not> expired cf now pc) (pl_pool s);
         s1 = fold disconnect_one (filter (expired cf now) (pl_pool s)) s;
         s2 = s1\<lparr>pl_pool := survivors\<rparr>
     in case survivors of [] \<Rightarrow> (None, s2) | c # cs \<Rightarrow> (Some (min_by pc_use_count c cs), s2))"

text \<open>The section of acquire: the connection found is marked as used.\<close>

definition acquire_section :: "pool_config \<Rightarrow> rat \<Rightarrow> rat \<Rightarrow> 's pool_state \<Rightarrow> 's pooled_connection option \<times> 's pool_state" where
  "acquire_section cf now used_at s = (case find_healthy cf now s of
     (None, s1) \<Rightarrow> (None, s1)
   | (Some pc, s1) \<Rightarrow>
      (let mark = (\<lambda>c. c\<lparr>pc_use_count := pc_use_count c + 1, pc_last_used_at := used_at\<rparr>)
       in (Some (mark pc),
           s1\<lparr>pl_pool := map (\<lambda>c. if pc_ref c = pc_ref pc then mark c else c) (pl_pool s1),
              pl_reused := pl_reused s1 + 1\<rparr>)))"

text \<open>_create_new after SmartConnect has returned the session si: the object is made and, if there is
  room, put into the pool.\<close>

definition register_new :: "pool_config \<Rightarrow> rat \<Rightarrow> 's \<Rightarrow> 's pool_state \<Rightarrow> 's pooled_connection \<times> 's pool_state" where
  "register_new cf t0 si s =
    (let pc = \<lparr>pc_ref = pl_next s, pc_si = si, pc_created_at = t0, pc_last_used_at = t0, pc_use_count = 1\<rparr>;
         s1 = s\<lparr>pl_next := pl_next s + 1\<rparr>;
         s2 = (if int (length (pl_pool s1)) < pf_max_pool_size cf then s1\<lparr>pl_pool := pl_pool s1 @ [pc]\<rparr> else s1)
     in (pc, s2\<lparr>pl_created := pl_created s2 + 1\<rparr>))"

definition create_new :: "pool_config \<Rightarrow> rat \<Rightarrow> exn + 's \<Rightarrow> ('s pool_state, 's pooled_connection) act" where
  "create_new cf t0 smart_connect s =
    (if \<not> pf_ready cf then (Inl (AppException ''VMware settings are incomplete.'' 500 ''vmware_integration_error''), s)
     else case smart_connect of
       Inl exc \<Rightarrow> (Inl (AppException (''Failed to connect to VMware: '' @ exn_str exc) 500 ''vmware_integration_error''),
                  s\<lparr>pl_failed := pl_failed s + 1\<rparr>)
     | Inr si \<Rightarrow> (case register_new cf t0 si s of (pc, s') \<Rightarrow> (Inr pc, s')))"

definition eject :: "'s pooled_connection \<Rightarrow> 's pool_state \<Rightarrow> 's pool_state" where
  "eject pc s = disconnect_one pc (remove_connection pc s)"

definition disconnect_all :: "'s pool_state \<Rightarrow> 's pool_state" where
  "disconnect_all s = (fold disconnect_one (pl_pool s) s)\<lparr>pl_pool := []\<rparr>"

section \<open>Methods, when no other thread interferes\<close>

text \<open>The times of the clock readings and what the outside answers during one acquire.\<close>

record 's acquire_env =
  ae_now_check :: rat
  ae_alive :: "'s \<Rightarrow> bool"
  ae_now_find :: rat
  ae_now_used :: rat
  ae_now_connect :: rat
  ae_smart_connect :: "exn + 's"

definition acquire :: "pool_config \<Rightarrow> 's acquire_env \<Rightarrow> ('s pool_state, 's pooled_connection) act" where
  "acquire cf env s =
    (let s1 = health_check_if_needed cf (ae_now_check env) (ae_alive env) s in
     case acquire_section cf (ae_now_find env) (ae_now_used env) s1 of
       (Some pc, s2) \<Rightarrow> (Inr pc, s2)
     | (None, s2) \<Rightarrow> create_new cf (ae_now_connect env) (ae_smart_connect env) s2)"

text \<open>The context manager: the body runs with the session; if it raises, the connection is ejected.\<close>

definition connection :: "pool_config \<Rightarrow> 's acquire_env \<Rightarrow> ('s \<Rightarrow> exn + 'a) \<Rightarrow> ('s pool_state, 'a) act" where
  "connection cf env body =
    bindE (acquire cf env) (\<lambda>pc. case body (pc_si pc) of
        Inr x \<Rightarrow> retE x
      | Inl e \<Rightarrow> thenE (updE (eject pc)) (raiseE e))"

record pool_stats =
  pt_pool_size :: nat
  pt_max_pool_size :: int
  pt_session_ttl_seconds :: rat
  pt_conn_created :: int
  pt_conn_reused :: int
  pt_conn_reconnected :: int
  pt_conn_failed :: int
  pt_connections :: "(int \<times> rat \<times> rat) list"

definition get_stats :: "pool_config \<Rightarrow> rat \<Rightarrow> 's pool_state \<Rightarrow> pool_stats" where
  "get_stats cf now s =
    \<lparr>pt_pool_size = length (pl_pool s), pt_max_pool_size = pf_max_pool_size cf,
     pt_session_ttl_seconds = pf_session_ttl cf, pt_conn_created = pl_created s, pt_conn_reused = pl_reused s,
     pt_conn_reconnected = pl_reconnected s, pt_conn_failed = pl_failed s,
     pt_connections = map (\<lambda>c. (pc_use_count c, age_seconds now c, fsub now (pc_last_used_at c))) (pl_pool s)\<rparr>"

section \<open>Interleavings\<close>

text \<open>The atomic pieces: what a thread does between two points where another one may run. The time stamp
  of a health check is written before the lock is taken, Disconnect of an ejected connection is called
  after the lock is released.\<close>

datatype 's pool_event =
    HealthStamp rat
  | HealthSection "'s \<Rightarrow> bool"
  | AcquireSection rat rat
  | Connected rat 's
  | ConnectFailed
  | EjectSection "'s pooled_connection"
  | Disconnected "'s pooled_connection"
  | DisconnectAll

fun pool_step :: "pool_config \<Rightarrow> 's pool_event \<Rightarrow> 's pool_state \<Rightarrow> 's pool_state" where
  "pool_step cf (HealthStamp now) s = s\<lparr>pl_last_health_check := now\<rparr>"
| "pool_step cf (HealthSection alive) s = health_section alive s"
| "pool_step cf (AcquireSection now used_at) s = snd (acquire_section cf now used_at s)"
| "pool_step cf (Connected t0 si) s = snd (register_new cf t0 si s)"
| "pool_step cf ConnectFailed s = s\<lparr>pl_failed := pl_failed s + 1\<rparr>"
| "pool_step cf (EjectSection pc) s = remove_connection pc s"
| "pool_step cf (Disconnected pc) s = disconnect_one pc s"
| "pool_step cf DisconnectAll s = disconnect_all s"

definition pool_inv :: "pool_config \<Rightarrow> 's pool_state \<Rightarrow> bool" where
  "pool_inv cf s \<longleftrightarrow> int (length (pl_pool s)) \<le> max 0 (pf_max_pool_size cf) \<and>
     distinct (map pc_ref (pl_pool s)) \<and> (\<forall>c \<in> set (pl_pool s). pc_ref c < pl_next s)"

lemma fold_disconnect [simp]:
  "pl_pool (fold disconnect_one cs s) = pl_pool s" "pl_next (fold disconnect_one cs s) = pl_next s"
  "pl_disconnected (fold disconnect_one cs s) = pl_disconnected s @ map pc_si cs"
  "pl_created (fold disconnect_one cs s) = pl_created s"
  by (induction cs arbitrary: s) (simp_all add: disconnect_one_def)

text \<open>Every section only drops connections or changes their use counts, except for the new one.\<close>

definition shrinks :: "'s pool_state \<Rightarrow> 's pool_state \<Rightarrow> bool" where
  "shrinks s s' \<longleftrightarrow> subseq (map pc_ref (pl_pool s')) (map pc_ref (pl_pool s)) \<and> pl_next s' = pl_next s"

lemma shrinks_refl: "shrinks s s"
  by (simp add: shrinks_def)

lemma shrinks_trans: "shrinks s t \<Longrightarrow> shrinks t u \<Longrightarrow> shrinks s u"
  by (auto simp: shrinks_def intro: subseq_order.order_trans)

lemma shrinks_filter:
  "map pc_ref (pl_pool s') = map pc_ref (filter P (pl_pool s)) \<Longrightarrow> pl_next s' = pl_next s \<Longrightarrow> shrinks s s'"
  by (simp add: shrinks_def subseq_map)

lemma shrinks_inv:
  assumes "shrinks s s'" "pool_inv cf s"
  shows "pool_inv cf s'"
proof -
  obtain N where N: "map pc_ref (pl_pool s') = nths (map pc_ref (pl_pool s)) N" and n: "pl_next s' = pl_next s"
    using assms(1) by (auto simp: shrinks_def subseq_conv_nths)
  have "length (pl_pool s') \<le> length (pl_pool s)"
    using list_emb_length [of "(=)" "map pc_ref (pl_pool s')" "map pc_ref (pl_pool s)"] assms(1) by (simp add: shrinks_def)
  moreover have "distinct (map pc_ref (pl_pool s'))" using assms(2) by (simp add: pool_inv_def N)
  moreover have old: "\<forall>r \<in> pc_ref ` set (pl_pool s). r < pl_next s" using assms(2) by (simp add: pool_inv_def)
  moreover have "pc_ref ` set (pl_pool s') \<subseteq> pc_ref ` set (pl_pool s)"
    using set_nths_subset [of "map pc_ref (pl_pool s)" N] by (simp flip: N)
  then have "\<forall>r \<in> pc_ref ` set (pl_pool s'). r < pl_next s" using old by blast
  ultimately show ?thesis using assms(2) n by (simp add: pool_inv_def)
qed

lemma shrinks_same: "pl_pool s' = pl_pool s \<Longrightarrow> pl_next s' = pl_next s \<Longrightarrow> shrinks s s'"
  by (simp add: shrinks_def)

lemma shrinks_remove: "shrinks s (remove_connection pc s)"
  by (rule shrinks_filter) (simp_all add: remove_connection_def)

lemma shrinks_check: "shrinks s (check_connection alive pc s)"
proof (cases "alive (pc_si pc)")
  case True then show ?thesis by (simp add: check_connection_def shrinks_refl)
next
  case False
  then show ?thesis
    by (intro shrinks_filter [of _ "\<lambda>c. pc_ref c \<noteq> pc_ref pc"]) (simp_all add: check_connection_def disconnect_one_def remove_connection_def)
qed

lemma shrinks_fold: "(\<And>x s. shrinks s (f x s)) \<Longrightarrow> shrinks s (fold f xs s)"
  by (induction xs arbitrary: s) (auto simp: shrinks_refl intro: shrinks_trans)

lemma shrinks_health: "shrinks s (health_section alive s)"
  unfolding health_section_def by (rule shrinks_fold) (rule shrinks_check)

text \<open>What is left after _find_healthy, and the choice it makes.\<close>

lemma min_by_in: "min_by k x xs \<in> set (x # xs)"
  by (induction xs arbitrary: x) auto

lemma min_by_le: "y \<in> set (x # xs) \<Longrightarrow> k (min_by k x xs) \<le> k y"
proof (induction xs arbitrary: x y)
  case (Cons a xs)
  have "k (min_by k a xs) \<le> k a" "k (min_by k x xs) \<le> k x" by (simp_all add: Cons.IH)
  then show ?case using Cons.prems Cons.IH [of y a] Cons.IH [of y x] by (auto split: if_splits)
qed simp

lemma find_healthy_pool:
  "pl_pool (snd (find_healthy cf now s)) = filter (\<lambda>pc. \<not> expired cf now pc) (pl_pool s)"
  "pl_next (snd (find_healthy cf now s)) = pl_next s"
  "pl_disconnected (snd (find_healthy cf now s)) = pl_disconnected s @ map pc_si (filter (expired cf now) (pl_pool s))"
  by (simp_all add: find_healthy_def Let_def split: list.split)

lemma find_healthy_some:
  assumes "find_healthy cf now s = (Some pc, s')"
  shows "pc \<in> set (pl_pool s)" "\<not> expired cf now pc"
    "\<forall>c \<in> set (pl_pool s). \<not> expired cf now c \<longrightarrow> pc_use_count pc \<le> pc_use_count c"
proof -
  obtain c cs where cs: "filter (\<lambda>pc. \<not> expired cf now pc) (pl_pool s) = c # cs" and pc: "pc = min_by pc_use_count c cs"
    using assms by (auto simp: find_healthy_def Let_def split: list.splits)
  have mem: "set (c # cs) = {x \<in> set (pl_pool s). \<not> expired cf now x}" using arg_cong [OF cs, of set] by simp
  show "pc \<in> set (pl_pool s)" "\<not> expired cf now pc" using min_by_in [of pc_use_count c cs] mem pc by blast+
  show "\<forall>c \<in> set (pl_pool s). \<not> expired cf now c \<longrightarrow> pc_use_count pc \<le> pc_use_count c"
    using min_by_le [of _ c cs pc_use_count] mem pc by blast
qed

lemma find_healthy_none:
  "find_healthy cf now s = (None, s') \<longleftrightarrow> (\<forall>c \<in> set (pl_pool s). expired cf now c) \<and> s' = snd (find_healthy cf now s)"
  by (auto simp: find_healthy_def Let_def filter_empty_conv split: list.splits)

lemma acquire_section_pool:
  "map pc_ref (pl_pool (snd (acquire_section cf now used_at s))) = map pc_ref (filter (\<lambda>c. \<not> expired cf now c) (pl_pool s))"
  "pl_next (snd (acquire_section cf now used_at s)) = pl_next s"
proof -
  obtain r s1 where f: "find_healthy cf now s = (r, s1)" by (cases "find_healthy cf now s")
  note p = find_healthy_pool [of cf now s, unfolded f, simplified]
  show "map pc_ref (pl_pool (snd (acquire_section cf now used_at s))) = map pc_ref (filter (\<lambda>c. \<not> expired cf now c) (pl_pool s))"
    "pl_next (snd (acquire_section cf now used_at s)) = pl_next s"
    by (auto simp: acquire_section_def f p Let_def split: option.split)
qed

lemma shrinks_acquire: "shrinks s (snd (acquire_section cf now used_at s))"
  by (rule shrinks_filter) (rule acquire_section_pool)+

lemma register_new_inv: "pool_inv cf s \<Longrightarrow> pool_inv cf (snd (register_new cf t0 si s))"
  by (auto simp: pool_inv_def register_new_def Let_def less_Suc_eq)

lemma shrinks_disconnect_all: "shrinks s (disconnect_all s)"
  by (simp add: shrinks_def disconnect_all_def)

lemma pool_step_inv:
  assumes "pool_inv cf s" shows "pool_inv cf (pool_step cf e s)"
proof (cases "\<exists>t0 si. e = Connected t0 si")
  case True then show ?thesis using assms by (auto intro: register_new_inv)
next
  case False
  have "shrinks s (pool_step cf e s)"
    using False by (cases e) (auto simp: shrinks_health shrinks_acquire shrinks_remove shrinks_disconnect_all
        disconnect_one_def intro: shrinks_same)
  then show ?thesis using assms by (rule shrinks_inv)
qed

lemma pool_steps_inv: "pool_inv cf s \<Longrightarrow> pool_inv cf (fold (pool_step cf) evs s)"
  by (induction evs arbitrary: s) (auto intro: pool_step_inv)

section \<open>One caller at a time\<close>

text \<open>Which sessions survive a health check, and that each of the others is passed to Disconnect.\<close>

lemma health_fold:
  "pl_pool (fold (check_connection alive) cs s) =
     filter (\<lambda>c. \<forall>d \<in> set cs. alive (pc_si d) \<or> pc_ref d \<noteq> pc_ref c) (pl_pool s)"
  "pl_disconnected (fold (check_connection alive) cs s) =
     pl_disconnected s @ map pc_si (filter (\<lambda>c. \<not> alive (pc_si c)) cs)"
  "pl_created (fold (check_connection alive) cs s) = pl_created s"
  by (induction cs arbitrary: s) (auto simp: check_connection_def disconnect_one_def remove_connection_def
      intro: filter_cong)

lemma health_section_pool:
  assumes "distinct (map pc_ref (pl_pool s))"
  shows "pl_pool (health_section alive s) = filter (\<lambda>c. alive (pc_si c)) (pl_pool s)"
  unfolding health_section_def health_fold
  by (rule filter_cong [OF refl]) (use assms in \<open>auto simp: distinct_map dest: inj_onD\<close>)

lemma acquire_section_cases:
  assumes "acquire_section cf now used_at s = (r, s')"
  obtains (none) "r = None" "\<forall>c \<in> set (pl_pool s). expired cf now c" "pl_pool s' = []"
  | (some) c where "c \<in> set (pl_pool s)" "\<not> expired cf now c"
      "\<forall>d \<in> set (pl_pool s). \<not> expired cf now d \<longrightarrow> pc_use_count c \<le> pc_use_count d"
      "r = Some (c\<lparr>pc_use_count := pc_use_count c + 1, pc_last_used_at := used_at\<rparr>)"
      "\<forall>d \<in> set (pl_pool s'). \<not> expired cf now d"
proof (cases "fst (find_healthy cf now s)")
  case None
  then obtain s1 where f: "find_healthy cf now s = (None, s1)" by (cases "find_healthy cf now s") auto
  show ?thesis using none assms f find_healthy_none [of cf now s s1] find_healthy_pool(1) [of cf now s]
    by (auto simp: acquire_section_def filter_empty_conv)
next
  case (Some c)
  then obtain s1 where f: "find_healthy cf now s = (Some c, s1)" by (cases "find_healthy cf now s") auto
  have "\<forall>d \<in> set (pl_pool s1). \<not> expired cf now d" using find_healthy_pool(1) [of cf now s] f by simp
  then have "\<forall>d \<in> set (pl_pool s'). \<not> expired cf now d"
    using assms f by (auto simp: acquire_section_def Let_def expired_def)
  moreover have "r = Some (c\<lparr>pc_use_count := pc_use_count c + 1, pc_last_used_at := used_at\<rparr>)"
    using assms f by (auto simp: acquire_section_def Let_def)
  ultimately show ?thesis using some [OF find_healthy_some [OF f]] by blast
qed

text \<open>C28: The size of the pool never exceeds max_pool_size and the pooled connections are distinct objects,
  whatever the interleaving of the locked sections of any number of threads.\<close>

theorem pool_size_bounded:
  "let s = fold (pool_step cf) evs new_pool in
     int (length (pl_pool s)) \<le> max 0 (pf_max_pool_size cf) \<and> distinct (map pc_ref (pl_pool s))"
proof -
  have "pool_inv cf new_pool" by (simp add: pool_inv_def new_pool_def)
  then show ?thesis using pool_steps_inv by (fastforce simp: pool_inv_def Let_def)
qed

text \<open>C27: What acquire hands out. A reused session comes from the pool, is not older than the session
  lifetime, has passed the health check if one was due, and is the least used of the sessions that are not
  expired; otherwise it is the one SmartConnect has just returned, and then every pooled session was expired
  or dead. Either way no expired session is left in the pool, apart possibly from the new one.\<close>

theorem acquire_hands_out_fresh:
  assumes "pool_inv cf s" and acq: "acquire cf env s = (Inr pc, s')"
  shows "let due = \<not> fsub (ae_now_check env) (pl_last_health_check s) < pf_health_check_interval cf;
             usable = (\<lambda>c. (due \<longrightarrow> ae_alive env (pc_si c)) \<and> \<not> expired cf (ae_now_find env) c)
    in ((\<exists>c \<in> set (pl_pool s). usable c \<and>
           (\<forall>d \<in> set (pl_pool s). usable d \<longrightarrow> pc_use_count c \<le> pc_use_count d) \<and>
           pc = c\<lparr>pc_use_count := pc_use_count c + 1, pc_last_used_at := ae_now_used env\<rparr>) \<or>
        ((\<forall>c \<in> set (pl_pool s). \<not> usable c) \<and> ae_smart_connect env = Inr (pc_si pc) \<and>
          pc_created_at pc = ae_now_connect env \<and> pc_use_count pc = 1)) \<and>
       (\<forall>c \<in> set (pl_pool s'). \<not> expired cf (ae_now_find env) c \<or> c = pc)"
proof -
  define due where "due = (\<not> fsub (ae_now_check env) (pl_last_health_check s) < pf_health_check_interval cf)"
  define s1 where "s1 = health_check_if_needed cf (ae_now_check env) (ae_alive env) s"
  obtain r s2 where sec: "acquire_section cf (ae_now_find env) (ae_now_used env) s1 = (r, s2)"
    by (cases "acquire_section cf (ae_now_find env) (ae_now_used env) s1")
  have pool1: "pl_pool s1 = filter (\<lambda>c. due \<longrightarrow> ae_alive env (pc_si c)) (pl_pool s)"
    using assms(1) by (auto simp: s1_def due_def health_check_if_needed_def health_section_pool pool_inv_def)
  have whole: "acquire cf env s = (case r of Some pc \<Rightarrow> (Inr pc, s2)
      | None \<Rightarrow> create_new cf (ae_now_connect env) (ae_smart_connect env) s2)"
    by (simp add: acquire_def Let_def s1_def [symmetric] sec split: option.split)
  from sec show ?thesis
  proof (cases rule: acquire_section_cases)
    case none
    then show ?thesis using acq whole pool1 unfolding due_def [symmetric] Let_def
      by (auto simp: create_new_def register_new_def Let_def split: if_splits sum.splits)
  next
    case (some c)
    then show ?thesis using acq whole pool1 unfolding due_def [symmetric] Let_def by auto
  qed
qed

text \<open>The books of a pool used by one caller at a time: at most one connection is pooled, and every session
  ever created is either that one or has been passed to Disconnect.\<close>

definition one_session :: "pool_config \<Rightarrow> 's pool_state \<Rightarrow> bool" where
  "one_session cf s \<longleftrightarrow> pool_inv cf s \<and> length (pl_pool s) \<le> 1 \<and>
     pl_created s = int (length (pl_pool s) + length (pl_disconnected s))"

lemma health_one_session:
  assumes "one_session cf s" shows "one_session cf (health_check_if_needed cf now alive s)"
proof -
  define t where "t = s\<lparr>pl_last_health_check := now\<rparr>"
  have t: "one_session cf t" using assms by (simp add: one_session_def pool_inv_def t_def)
  then have pool: "pl_pool (health_section alive t) = filter (\<lambda>c. alive (pc_si c)) (pl_pool t)"
    by (intro health_section_pool) (simp add: one_session_def pool_inv_def)
  have "pool_inv cf (health_section alive t)" using t by (simp add: one_session_def shrinks_inv [OF shrinks_health])
  moreover have "length (filter (\<lambda>c. alive (pc_si c)) (pl_pool t)) \<le> length (pl_pool t)" by simp
  moreover have "pl_disconnected (health_section alive t) = pl_disconnected t @ map pc_si (filter (\<lambda>c. \<not> alive (pc_si c)) (pl_pool t))"
    "pl_created (health_section alive t) = pl_created t" by (simp_all add: health_section_def health_fold)
  ultimately have "one_session cf (health_section alive t)"
    using t sum_length_filter_compl [of "\<lambda>c. alive (pc_si c)" "pl_pool t"] by (simp add: one_session_def pool)
  then show ?thesis using assms by (simp add: health_check_if_needed_def t_def)
qed

lemma acquire_section_one_session:
  assumes "one_session cf s" shows "one_session cf (snd (acquire_section cf now used_at s))"
proof -
  define s' where "s' = snd (acquire_section cf now used_at s)"
  have "length (pl_pool s') = length (filter (\<lambda>c. \<not> expired cf now c) (pl_pool s))"
    using arg_cong [OF acquire_section_pool(1) [of cf now used_at s], of length] by (simp add: s'_def)
  moreover have "pool_inv cf s'" using assms by (simp add: one_session_def s'_def shrinks_inv [OF shrinks_acquire])
  moreover have "pl_disconnected s' = pl_disconnected s @ map pc_si (filter (expired cf now) (pl_pool s))" "pl_created s' = pl_created s"
    by (auto simp: s'_def acquire_section_def find_healthy_def Let_def split: list.split)
  moreover have "length (filter (\<lambda>c. \<not> expired cf now c) (pl_pool s)) \<le> length (pl_pool s)" by simp
  ultimately show ?thesis using assms sum_length_filter_compl [of "expired cf now" "pl_pool s"]
    by (simp add: one_session_def s'_def [symmetric])
qed

lemma acquire_one_session:
  assumes "one_session cf s" and "1 \<le> pf_max_pool_size cf" and acq: "acquire cf env s = (r, s')"
  shows "one_session cf s'" "r = Inr pc \<Longrightarrow> map pc_ref (pl_pool s') = [pc_ref pc]"
proof -
  define s1 where "s1 = health_check_if_needed cf (ae_now_check env) (ae_alive env) s"
  obtain q s2 where sec: "acquire_section cf (ae_now_find env) (ae_now_used env) s1 = (q, s2)"
    by (cases "acquire_section cf (ae_now_find env) (ae_now_used env) s1")
  have one1: "one_session cf s1" using assms(1) by (simp add: s1_def health_one_session)
  then have one2: "one_session cf s2" using acquire_section_one_session [of cf s1] sec by (metis snd_conv)
  have whole: "(r, s') = (case q of Some pc \<Rightarrow> (Inr pc, s2)
      | None \<Rightarrow> create_new cf (ae_now_connect env) (ae_smart_connect env) s2)"
    using acq by (simp add: acquire_def Let_def s1_def [symmetric] sec split: option.split)
  from sec have "one_session cf s' \<and> (r = Inr pc \<longrightarrow> map pc_ref (pl_pool s') = [pc_ref pc])"
  proof (cases rule: acquire_section_cases)
    case none
    then show ?thesis using one2 whole assms(2)
      by (auto simp: create_new_def register_new_def Let_def one_session_def pool_inv_def split: if_splits sum.splits)
  next
    case (some c)
    have "pl_pool s1 = [c]" using some(1) one1 by (cases "pl_pool s1") (auto simp: one_session_def)
    then have "map pc_ref (pl_pool s2) = [pc_ref c]"
      using acquire_section_pool(1) [of cf "ae_now_find env" "ae_now_used env" s1] sec some(2) by simp
    then show ?thesis using whole one2 some(4) by auto
  qed
  then show "one_session cf s'" "r = Inr pc \<Longrightarrow> map pc_ref (pl_pool s') = [pc_ref pc]" by blast+
qed

lemma connection_one_session:
  assumes "one_session cf s" "1 \<le> pf_max_pool_size cf"
  shows "one_session cf (snd (connection cf env body s))"
proof (cases "acquire cf env s")
  case (Pair r s')
  note one = acquire_one_session [OF assms Pair]
  show ?thesis
  proof (cases r)
    case (Inr pc)
    obtain c where c: "pl_pool s' = [c]" "pc_ref c = pc_ref pc" using one(2) [OF Inr] by auto
    show ?thesis using one(1) Pair Inr c
      by (cases "body (pc_si pc)") (auto simp: connection_def effect_defs eject_def remove_connection_def
          disconnect_one_def one_session_def pool_inv_def)
  qed (use one(1) Pair in \<open>simp add: connection_def bindE_def\<close>)
qed

definition run_uses :: "pool_config \<Rightarrow> ('s acquire_env \<times> ('s \<Rightarrow> exn + 'a)) list \<Rightarrow> 's pool_state" where
  "run_uses cf uses = fold (\<lambda>(env, body) s. snd (connection cf env body s)) uses new_pool"

lemma run_uses_one_session:
  assumes "1 \<le> pf_max_pool_size cf"
  shows "one_session cf (run_uses cf uses)"
proof -
  have "one_session cf (fold (\<lambda>(env, body) s. snd (connection cf env body s)) us t)" if "one_session cf t" for t us
    using that by (induction us arbitrary: t) (auto simp: connection_one_session [OF _ assms])
  moreover have "one_session cf new_pool" by (simp add: one_session_def new_pool_def pool_inv_def)
  ultimately show ?thesis by (simp add: run_uses_def)
qed

text \<open>C16: One caller at a time, with room for at least one connection: after any sequence of uses of the
  context manager the pool holds at most one connection, and every session ever created is either that one or
  has been passed to Disconnect, so no session is leaked. A body that raises leaves the pool empty, its
  session is the last one disconnected, and its exception is the outcome.\<close>

theorem sequential_pool_leaks_no_session:
  assumes "1 \<le> pf_max_pool_size cf"
  shows "let s = run_uses cf uses; t = connection cf env body s in
    length (pl_pool s) \<le> 1 \<and> pl_created s = int (length (pl_pool s) + length (pl_disconnected s)) \<and>
    (\<forall>pc s1 e. acquire cf env s = (Inr pc, s1) \<and> body (pc_si pc) = Inl e \<longrightarrow>
       fst t = Inl e \<and> pl_pool (snd t) = [] \<and> pl_disconnected (snd t) = pl_disconnected s1 @ [pc_si pc])"
proof -
  define s where "s = run_uses cf uses"
  have one: "one_session cf s" using run_uses_one_session [OF assms] by (simp add: s_def)
  have "fst (connection cf env body s) = Inl e \<and> pl_pool (snd (connection cf env body s)) = [] \<and>
      pl_disconnected (snd (connection cf env body s)) = pl_disconnected s1 @ [pc_si pc]"
    if acq: "acquire cf env s = (Inr pc, s1)" and "body (pc_si pc) = Inl e" for pc s1 e
  proof -
    obtain c where "pl_pool s1 = [c]" "pc_ref c = pc_ref pc"
      using acquire_one_session(2) [OF one assms acq refl] by auto
    then show ?thesis using that
      by (simp add: connection_def effect_defs eject_def remove_connection_def disconnect_one_def)
  qed
  then show ?thesis using one by (simp add: Let_def s_def [symmetric] one_session_def)
qed

text \<open>A pool of one connection and a vCenter that answers; session numbers are plain numbers.\<close>

definition small_pool :: pool_config where
  "small_pool = \<lparr>pf_ready = True, pf_max_pool_size = 4, pf_session_ttl = 600, pf_health_check_interval = 60\<rparr>"

definition vcenter_at :: "rat \<Rightarrow> nat \<Rightarrow> nat acquire_env" where
  "vcenter_at t si = \<lparr>ae_now_check = t, ae_alive = (\<lambda>_. True), ae_now_find = t, ae_now_used = t,
     ae_now_connect = t, ae_smart_connect = Inr si\<rparr>"

theorem acquire_hands_out_fresh_witness:
  "let s = snd (acquire small_pool (vcenter_at 100 7) new_pool); pc = projr (fst (acquire small_pool (vcenter_at 130 8) s)) in
   pc_si pc = 7 \<and> pc_use_count pc = 2 \<and> (\<exists>c \<in> set (pl_pool s). \<not> expired small_pool 130 c)"
proof -
  define s where "s = snd (acquire small_pool (vcenter_at 100 7) new_pool)"
  define a where "a = acquire small_pool (vcenter_at 130 8) s"
  have inv: "pool_inv small_pool s" unfolding s_def by code_simp
  have res: "isl (fst a) = False" "pc_si (projr (fst a)) = 7" "pc_use_count (projr (fst a)) = 2" unfolding a_def s_def by code_simp+
  have "a = (Inr (projr (fst a)), snd a)" using res(1) by (cases a; cases "fst a") auto
  from acquire_hands_out_fresh [OF inv this [unfolded a_def]] res
  have "\<exists>c \<in> set (pl_pool s). \<not> expired small_pool 130 c"
    by (auto simp: Let_def vcenter_at_def a_def)
  with res show ?thesis by (simp add: Let_def a_def s_def)
qed

definition two_uses :: "(nat acquire_env \<times> (nat \<Rightarrow> exn + nat)) list" where
  "two_uses = [(vcenter_at 100 7, Inr), (vcenter_at 900 8, Inr)]"

theorem sequential_pool_leaks_no_session_witness:
  "length (pl_pool (run_uses small_pool two_uses)) \<le> 1 \<and> pl_disconnected (run_uses small_pool two_uses) = [7] \<and>
   pl_pool (snd (connection small_pool (vcenter_at 910 9) (\<lambda>_. Inl (AppException ''x'' 500 ''y'') :: exn + nat)
     (run_uses small_pool two_uses))) = []"
proof -
  define s where "s = run_uses small_pool two_uses"
  define a where "a = acquire small_pool (vcenter_at 910 9) s"
  have room: "1 \<le> pf_max_pool_size small_pool" by (simp add: small_pool_def)
  have "isl (fst a) = False" unfolding a_def s_def by code_simp
  then have "a = (Inr (projr (fst a)), snd a)" by (cases a; cases "fst a") auto
  with sequential_pool_leaks_no_session [OF room, of two_uses "vcenter_at 910 9" "\<lambda>_. Inl (AppException ''x'' 500 ''y'')"]
  have "length (pl_pool s) \<le> 1" "pl_pool (snd (connection small_pool (vcenter_at 910 9)
      (\<lambda>_. Inl (AppException ''x'' 500 ''y'') :: exn + nat) s)) = []"
    unfolding s_def [symmetric] a_def [symmetric] Let_def by blast+
  moreover have "pl_disconnected s = [7]" unfolding s_def by code_simp
  ultimately show ?thesis by (simp add: s_def)
qed

end
