(* ===== verification/Vmware_Client.thy ===== *)
theory Vmware_Client
  imports Vmware_Pool Vmware_Schemas Py_Library
begin

text \<open>
  app/clients/vmware/connection.py: reading the inventory of a vCenter through the session pool, and the
  extraction of a machine's description from the pyVmomi object.

  pyVmomi's objects are values here, the state of the object while it is read: records with one field per
  attribute the code looks at. A field of type option is None where the code's test (an absent attribute,
  None or another false value) fails; option option keeps apart an absent attribute (None) and an attribute
  whose value is None (Some None) where the code does. The class of a device is the list of the names of
  its class and its base classes, so that isinstance is membership.
\<close>

section \<open>Objects of the vSphere API\<close>

record vim_backing =
  bk_file_name :: "string option"
  bk_thin_provisioned :: "bool option option"
  bk_device_name :: "string option"
  bk_port :: "string option option"

record vim_device =
  dv_classes :: "string list"
  dv_label :: "string option"
  dv_backing :: "vim_backing option"
  dv_capacity_kb :: "int option"
  dv_capacity_bytes :: "int option"
  dv_mac_address :: "string option"
  dv_sub_type :: "string option"

record vim_hardware =
  vh_num_cpu :: "int option"
  vh_num_cores_per_socket :: "int option"
  vh_memory_mb :: "int option"
  vh_device :: "vim_device list option"

record vim_config =
  cf_hardware :: "vim_hardware option"
  cf_annotation :: "string option"
  cf_firmware :: "string option option"
  cf_boot_options :: "bool option option"

record vim_guest =
  vg_full_name :: "string option option"
  vg_net :: "string list list option"
  vg_tools_status :: "string option option"

record vim_vm_summary =
  vs_config_full_name :: "string option option option"
  vs_runtime_power_state :: "string option option"
  vs_mo_id :: "string option"

record vim_vm =
  vv_id :: "string option"
  vv_mo_id :: "string option"
  vv_name :: "string option"
  vv_config :: "vim_config option"
  vv_guest :: "vim_guest option"
  vv_summary :: "vim_vm_summary option"
  vv_layout_disk :: "string list option list option"
  vv_datastore :: "string option list"
  vv_parent_name :: "string option"

abbreviation isa :: "vim_device \<Rightarrow> string \<Rightarrow> bool" where
  "isa dev c \<equiv> c \<in> set (dv_classes dev)"

text \<open>str of a value that may be None.\<close>

definition str_opt :: "string option \<Rightarrow> string" where
  "str_opt s = (case s of None \<Rightarrow> ''None'' | Some t \<Rightarrow> t)"

text \<open>The devices of a machine that has a configuration with hardware; None if it has none.\<close>

definition hardware_of :: "vim_vm \<Rightarrow> vim_hardware option" where
  "hardware_of vm = Option.bind (vv_config vm) cf_hardware"

section \<open>Disks\<close>

record raw_disk =
  rd_disk_file :: string
  rd_capacity_gb :: int
  rd_thin_provisioned :: bool
  rd_datastore_name :: "string option"

text \<open>str.strip and str.split with the two arguments the code uses.\<close>

definition strip_brackets :: "string \<Rightarrow> string" where
  "strip_brackets s = (let b = (\<lambda>c. c \<in> set ''[]'') in rev (dropWhile b (rev (dropWhile b s))))"

fun before_close :: "string \<Rightarrow> string" where
  "before_close (a # b # s) = (if [a, b] = ''] '' then [] else a # before_close (b # s))"
| "before_close s = s"

definition disk_datastore :: "vim_device \<Rightarrow> string option" where
  "disk_datastore dev = (case dv_backing dev of None \<Rightarrow> None
     | Some b \<Rightarrow> if str_truthy (bk_file_name b) then Some (before_close (strip_brackets (the (bk_file_name b)))) else None)"

definition int_truthy :: "int option \<Rightarrow> bool" where
  "int_truthy i = (case i of None \<Rightarrow> False | Some n \<Rightarrow> n \<noteq> 0)"

definition device_disk :: "nat \<Rightarrow> vim_device \<Rightarrow> raw_disk" where
  "device_disk n dev =
    \<lparr>rd_disk_file = str_or (dv_label dev) (''Hard disk '' @ str_int (int n + 1)),
     rd_capacity_gb = (if int_truthy (dv_capacity_kb dev) then the (dv_capacity_kb dev) div (1024 * 1024)
                       else if int_truthy (dv_capacity_bytes dev) then the (dv_capacity_bytes dev) div 1024 ^ 3 else 0),
     rd_thin_provisioned = (case dv_backing dev of None \<Rightarrow> False
       | Some b \<Rightarrow> (case bk_thin_provisioned b of Some (Some t) \<Rightarrow> t | _ \<Rightarrow> False)),
     rd_datastore_name = disk_datastore dev\<rparr>"

definition layout_disk :: "string \<Rightarrow> raw_disk" where
  "layout_disk df = \<lparr>rd_disk_file = df, rd_capacity_gb = 0, rd_thin_provisioned = True, rd_datastore_name = None\<rparr>"

definition append_device :: "vim_device \<Rightarrow> raw_disk list \<Rightarrow> raw_disk list" where
  "append_device dev disks = (if isa dev ''VirtualDisk'' then disks @ [device_disk (length disks) dev] else disks)"

text \<open>The last loop keeps the first disk of each name.\<close>

fun unique_disks :: "string set \<Rightarrow> raw_disk list \<Rightarrow> raw_disk list" where
  "unique_disks seen [] = []"
| "unique_disks seen (d # ds) = (if rd_disk_file d \<in> seen then unique_disks seen ds
     else d # unique_disks (insert (rd_disk_file d) seen) ds)"

definition layout_files :: "string list option list \<Rightarrow> string list" where
  "layout_files ls = concat (map (\<lambda>l. case l of None \<Rightarrow> [] | Some fs \<Rightarrow> fs) ls)"

definition extract_vm_disks :: "vim_vm \<Rightarrow> raw_disk list" where
  "extract_vm_disks vm = (case vv_layout_disk vm of
     None \<Rightarrow> []
   | Some [] \<Rightarrow> []
   | Some ls \<Rightarrow>
      (let disks = map layout_disk (layout_files ls);
           disks' = (case hardware_of vm of None \<Rightarrow> disks
             | Some hw \<Rightarrow> (case vh_device hw of None \<Rightarrow> disks | Some devs \<Rightarrow> fold append_device devs disks))
       in unique_disks {} disks'))"

section \<open>Adapters, controllers and the other parts\<close>

record raw_nic =
  rn_label :: string
  rn_network_name :: string
  rn_mac_address :: "string option"
  rn_nic_type :: string

definition nic_type_of :: "vim_device \<Rightarrow> string" where
  "nic_type_of dev =
    (if isa dev ''VirtualVmxnet3'' then ''vmxnet3'' else if isa dev ''VirtualVmxnet2'' then ''vmxnet2''
     else if isa dev ''VirtualE1000e'' then ''e1000e'' else if isa dev ''VirtualE1000'' then ''e1000''
     else if isa dev ''VirtualPCNet32'' then ''pcnet32''
     else if isa dev ''VirtualSriovEthernetCard'' then ''sriov'' else ''unknown'')"

definition network_name_of :: "vim_device \<Rightarrow> string option" where
  "network_name_of dev = (case dv_backing dev of None \<Rightarrow> None
     | Some b \<Rightarrow> if str_truthy (bk_device_name b) then bk_device_name b
        else case bk_port b of None \<Rightarrow> None
          | Some key \<Rightarrow> if str_truthy key then Some (''dvportgroup-'' @ the key) else None)"

definition append_nic :: "vim_device \<Rightarrow> raw_nic list \<Rightarrow> raw_nic list" where
  "append_nic dev nics = (if isa dev ''VirtualEthernetCard'' then nics @
     [\<lparr>rn_label = str_or (dv_label dev) (''NIC '' @ str_int (int (length nics) + 1)),
       rn_network_name = str_or (network_name_of dev) ''unknown'',
       rn_mac_address = dv_mac_address dev, rn_nic_type = nic_type_of dev\<rparr>] else nics)"

text \<open>Here the attribute device is read without a test.\<close>

definition extract_vm_nics :: "vim_vm \<Rightarrow> exn + raw_nic list" where
  "extract_vm_nics vm = (case hardware_of vm of None \<Rightarrow> Inr []
     | Some hw \<Rightarrow> (case vh_device hw of
          None \<Rightarrow> Inl (PyException ''AttributeError'' ''device'')
        | Some devs \<Rightarrow> Inr (fold append_nic devs [])))"

definition extract_vm_datastores :: "vim_vm \<Rightarrow> string list" where
  "extract_vm_datastores vm = map the (filter str_truthy (vv_datastore vm))"

definition get_firmware :: "vim_vm \<Rightarrow> string option" where
  "get_firmware vm = (case vv_config vm of None \<Rightarrow> None | Some c \<Rightarrow> map_option str_opt (cf_firmware c))"

definition get_secure_boot :: "vim_vm \<Rightarrow> bool option" where
  "get_secure_boot vm = (case vv_config vm of None \<Rightarrow> None
     | Some c \<Rightarrow> map_option (\<lambda>b. case b of None \<Rightarrow> False | Some x \<Rightarrow> x) (cf_boot_options c))"

definition get_tools_status :: "vim_vm \<Rightarrow> string option" where
  "get_tools_status vm = (case vv_guest vm of None \<Rightarrow> None | Some g \<Rightarrow> map_option str_opt (vg_tools_status g))"

definition controller_of :: "vim_device \<Rightarrow> string option" where
  "controller_of dev =
    (if isa dev ''VirtualSCSIController'' then
       Some (if str_truthy (dv_sub_type dev) then py_lower (the (dv_sub_type dev)) else ''lsilogic'')
     else if isa dev ''VirtualAHCIController'' then Some ''sata''
     else if isa dev ''VirtualNVMEController'' then Some ''nvme''
     else if isa dev ''ParaVirtualSCSIController'' then Some ''pvscsi''
     else if isa dev ''VirtualIDEController'' then Some ''ide'' else None)"

definition get_disk_controller_types :: "vim_vm \<Rightarrow> string list" where
  "get_disk_controller_types vm = (case hardware_of vm of None \<Rightarrow> []
     | Some hw \<Rightarrow> (case vh_device hw of None \<Rightarrow> [] | Some devs \<Rightarrow> List.map_filter controller_of devs))"

definition get_nic_types :: "vim_vm \<Rightarrow> (string \<times> string) list" where
  "get_nic_types vm = (case hardware_of vm of None \<Rightarrow> []
     | Some hw \<Rightarrow> (case vh_device hw of None \<Rightarrow> []
        | Some devs \<Rightarrow> map (\<lambda>dev. (str_or (dv_label dev) [], nic_type_of dev))
                          (filter (\<lambda>dev. isa dev ''VirtualEthernetCard'') devs)))"

record vm_description =
  ds_id :: string
  ds_name :: string
  ds_power_state :: string
  ds_guest_os :: string
  ds_cpu_count :: int
  ds_cpu_cores_per_socket :: int
  ds_memory_mb :: int
  ds_disks :: "raw_disk list"
  ds_nics :: "raw_nic list"
  ds_datastores :: "string list"
  ds_cluster_name :: "string option"
  ds_ip_addresses :: "string list"
  ds_annotation :: string
  ds_firmware :: "string option"
  ds_secure_boot_enabled :: "bool option"
  ds_vmware_tools_status :: "string option"
  ds_disk_controller_types :: "string list"
  ds_nic_types :: "(string \<times> string) list"

text \<open>guest_fullname: the attribute of the summary is looked at only if the guest object is missing or
  has no such attribute. Some e in the field vs_config_full_name is the attribute config of the summary.\<close>

definition guest_full_name :: "vim_vm \<Rightarrow> exn + string option" where
  "guest_full_name vm = (case Option.bind (vv_guest vm) vg_full_name of
     Some n \<Rightarrow> Inr n
   | None \<Rightarrow> (case vv_summary vm of None \<Rightarrow> Inr None
      | Some s \<Rightarrow> (case vs_config_full_name s of
           None \<Rightarrow> Inl (PyException ''AttributeError'' ''config'')
         | Some None \<Rightarrow> Inr None
         | Some (Some n) \<Rightarrow> Inr n)))"

definition get_vm_detail :: "vim_vm \<Rightarrow> exn + vm_description" where
  "get_vm_detail vm = (case guest_full_name vm of Inl e \<Rightarrow> Inl e
   | Inr full \<Rightarrow> (case extract_vm_nics vm of Inl e \<Rightarrow> Inl e
   | Inr nics \<Rightarrow>
      (let hw = hardware_of vm in
       Inr \<lparr>ds_id = str_or (vv_mo_id vm) (case Option.bind (vv_summary vm) vs_mo_id of None \<Rightarrow> [] | Some i \<Rightarrow> i),
            ds_name = (case vv_name vm of None \<Rightarrow> [] | Some n \<Rightarrow> n),
            ds_power_state = (case Option.bind (vv_summary vm) vs_runtime_power_state of
               Some (Some p) \<Rightarrow> p | _ \<Rightarrow> ''unknown''),
            ds_guest_os = str_or full [],
            ds_cpu_count = (case Option.bind hw vh_num_cpu of None \<Rightarrow> 0 | Some n \<Rightarrow> n),
            ds_cpu_cores_per_socket = (case Option.bind hw vh_num_cores_per_socket of None \<Rightarrow> 1 | Some n \<Rightarrow> n),
            ds_memory_mb = (case Option.bind hw vh_memory_mb of None \<Rightarrow> 0 | Some n \<Rightarrow> n),
            ds_disks = extract_vm_disks vm, ds_nics = nics, ds_datastores = extract_vm_datastores vm,
            ds_cluster_name = vv_parent_name vm,
            ds_ip_addresses = (case Option.bind (vv_guest vm) vg_net of None \<Rightarrow> [] | Some ns \<Rightarrow> concat ns),
            ds_annotation = str_or (Option.bind (vv_config vm) cf_annotation) [],
            ds_firmware = get_firmware vm, ds_secure_boot_enabled = get_secure_boot vm,
            ds_vmware_tools_status = get_tools_status vm,
            ds_disk_controller_types = get_disk_controller_types vm, ds_nic_types = get_nic_types vm\<rparr>)))"

section \<open>The factory\<close>

text \<open>Datastores and networks: capacities in bytes; vn_kind is the class of the network object.\<close>

record vim_datastore =
  vd_ds_name :: "string option"
  vd_ds_summary :: "(int option \<times> int option \<times> string option \<times> bool option) option"
  vd_ds_overall_status :: "string option"
  vd_ds_id :: "string option"

datatype network_kind = PlainNetwork | DistributedPortgroup | OpaqueNetwork

record vim_network =
  vn_net_name :: "string option"
  vn_net_kind :: network_kind
  vn_net_vlan :: "int option"
  vn_net_id :: "string option"

record datastore_description =
  dd_name :: string
  dd_type :: string
  dd_capacity_gb :: rat
  dd_free_gb :: rat
  dd_accessible :: bool
  dd_maintenance_mode :: string

record network_description =
  nd_name :: string
  nd_type :: string
  nd_vlan_id :: "int option"
  nd_accessible :: bool

text \<open>round(n / 1024**3, 2) of a number that may be 0 or absent.\<close>

definition gigabytes :: "int option \<Rightarrow> rat" where
  "gigabytes n = (if int_truthy n then py_round (int_truediv (the n) (1024 ^ 3)) 2 else 0)"

definition get_datastore_detail :: "vim_datastore \<Rightarrow> datastore_description" where
  "get_datastore_detail ds =
    \<lparr>dd_name = (case vd_ds_name ds of None \<Rightarrow> [] | Some n \<Rightarrow> n),
     dd_type = (case vd_ds_summary ds of None \<Rightarrow> [] | Some (_, _, t, _) \<Rightarrow> (case t of None \<Rightarrow> [] | Some x \<Rightarrow> x)),
     dd_capacity_gb = (case vd_ds_summary ds of None \<Rightarrow> 0 | Some (c, _) \<Rightarrow> gigabytes c),
     dd_free_gb = (case vd_ds_summary ds of None \<Rightarrow> 0 | Some (_, f, _) \<Rightarrow> gigabytes f),
     dd_accessible = (case vd_ds_summary ds of None \<Rightarrow> True
        | Some (_, _, _, a) \<Rightarrow> (case a of None \<Rightarrow> True | Some x \<Rightarrow> x)),
     dd_maintenance_mode = (case vd_ds_overall_status ds of None \<Rightarrow> ''normal'' | Some x \<Rightarrow> x)\<rparr>"

definition get_network_detail :: "vim_network \<Rightarrow> network_description" where
  "get_network_detail net =
    \<lparr>nd_name = (case vn_net_name net of None \<Rightarrow> [] | Some n \<Rightarrow> n),
     nd_type = (case vn_net_kind net of PlainNetwork \<Rightarrow> ''network'' | DistributedPortgroup \<Rightarrow> ''distributed''
        | OpaqueNetwork \<Rightarrow> ''opaque''),
     nd_vlan_id = (if vn_net_kind net = DistributedPortgroup then vn_net_vlan net else None),
     nd_accessible = True\<rparr>"

text \<open>What vCenter answers during one call, and the readings of the clock: the views list the objects
  of a type in the inventory of the session.\<close>

record 's vcenter =
  vc_config :: pool_config
  vc_env :: "'s acquire_env"
  vc_vms :: "'s \<Rightarrow> exn + vim_vm list"
  vc_datastores :: "'s \<Rightarrow> exn + vim_datastore list"
  vc_networks :: "'s \<Rightarrow> exn + vim_network list"
  vc_clusters :: "'s \<Rightarrow> exn + string list"
  vc_hosts :: "'s \<Rightarrow> exn + string list"
  vc_t0 :: rat
  vc_t1 :: rat

record 's vc_state =
  vc_pool :: "'s pool_state"
  vc_durations :: "(string \<times> string \<times> rat) list"

definition poolE :: "('s pool_state, 'a) act \<Rightarrow> (('s, 'm) vc_state_scheme, 'a) act" where [effect_defs]:
  "poolE m w = (case m (vc_pool w) of (r, p) \<Rightarrow> (r, w\<lparr>vc_pool := p\<rparr>))"

definition vc_connect :: "'s vcenter \<Rightarrow> (('s, 'm) vc_state_scheme, 's) act" where
  "vc_connect vc =
    (if \<not> pf_ready (vc_config vc) then raiseE (VMwareClientException ''VMware settings are incomplete.'')
     else bindE (poolE (acquire (vc_config vc) (vc_env vc))) (\<lambda>pc. retE (pc_si pc)))"

definition vc_disconnect :: "(('s, 'm) vc_state_scheme, unit) act" where
  "vc_disconnect = updE (\<lambda>w. w\<lparr>vc_pool := disconnect_all (vc_pool w)\<rparr>)"

definition observe_vc :: "'s vcenter \<Rightarrow> string \<Rightarrow> string \<Rightarrow> (('s, 'm) vc_state_scheme, unit) act" where
  "observe_vc vc operation status =
    updE (\<lambda>w. w\<lparr>vc_durations := vc_durations w @ [(operation, status, fsub (vc_t1 vc) (vc_t0 vc))]\<rparr>)"

definition get_all_objects :: "'s vcenter \<Rightarrow> ('s \<Rightarrow> exn + 'o list) \<Rightarrow> (('s, 'm) vc_state_scheme, 'o list) act" where
  "get_all_objects vc view = bindE (vc_connect vc) (\<lambda>si. outcomeE (view si))"

definition instrument :: "'s vcenter \<Rightarrow> string \<Rightarrow> (('s, 'm) vc_state_scheme, 'a) act \<Rightarrow> (('s, 'm) vc_state_scheme, 'a) act" where
  "instrument vc operation fn =
    tryE (bindE fn (\<lambda>result. thenE (observe_vc vc operation ''success'') (retE result)))
      (\<lambda>exc. thenE (observe_vc vc operation ''error'') (raiseE exc))"

definition vc_list_vms :: "'s vcenter \<Rightarrow> (('s, 'm) vc_state_scheme, vim_vm list) act" where
  "vc_list_vms vc = instrument vc ''list_vms'' (get_all_objects vc (vc_vms vc))"

definition vc_list_datastores :: "'s vcenter \<Rightarrow> (('s, 'm) vc_state_scheme, vim_datastore list) act" where
  "vc_list_datastores vc = instrument vc ''list_datastores'' (get_all_objects vc (vc_datastores vc))"

definition vc_list_networks :: "'s vcenter \<Rightarrow> (('s, 'm) vc_state_scheme, vim_network list) act" where
  "vc_list_networks vc = instrument vc ''list_networks'' (get_all_objects vc (vc_networks vc))"

definition vc_list_clusters :: "'s vcenter \<Rightarrow> (('s, 'm) vc_state_scheme, string list) act" where
  "vc_list_clusters vc = instrument vc ''list_clusters'' (get_all_objects vc (vc_clusters vc))"

definition vc_list_hosts :: "'s vcenter \<Rightarrow> (('s, 'm) vc_state_scheme, string list) act" where
  "vc_list_hosts vc = instrument vc ''list_hosts'' (get_all_objects vc (vc_hosts vc))"

text \<open>get_vm_by_name: the two except clauses are told apart by the class of the exception; a machine that
  is found is returned without an observation.\<close>

definition vc_get_vm_by_name :: "'s vcenter \<Rightarrow> string \<Rightarrow> (('s, 'm) vc_state_scheme, vim_vm) act" where
  "vc_get_vm_by_name vc name =
    tryE (bindE (get_all_objects vc (vc_vms vc)) (\<lambda>vms.
            case List.find (\<lambda>vm. vv_name vm = Some name) vms of
              Some vm \<Rightarrow> retE vm
            | None \<Rightarrow> raiseE (VMwareClientException (''VM '' @ [CHR 0x27] @ name @ [CHR 0x27] @ '' not found in VMware''))))
      (\<lambda>exc. case exc of
          VMwareClientException _ \<Rightarrow> thenE (observe_vc vc ''get_vm_by_name'' ''success'') (raiseE exc)
        | _ \<Rightarrow> thenE (observe_vc vc ''get_vm_by_name'' ''error'') (raiseE exc))"

definition validate_credentials :: "'s vcenter \<Rightarrow> (('s, 'm) vc_state_scheme, bool) act" where
  "validate_credentials vc =
    tryE (thenE (vc_connect vc) (thenE (observe_vc vc ''validate_credentials'' ''success'') (retE True)))
      (\<lambda>_. thenE (observe_vc vc ''validate_credentials'' ''error'') (retE False))"

definition export_vm_disk :: "vim_vm \<Rightarrow> string \<Rightarrow> exn + string" where
  "export_vm_disk vm export_path = (case vv_name vm of
     None \<Rightarrow> Inl (PyException ''AttributeError'' ''name'')
   | Some n \<Rightarrow> Inr (export_path @ ''/'' @ n @ ''.vmdk''))"

section \<open>What the extraction yields\<close>

lemma unique_disks_names:
  "distinct (map rd_disk_file (unique_disks seen ds)) \<and> set (map rd_disk_file (unique_disks seen ds)) \<inter> seen = {}"
  by (induction seen ds rule: unique_disks.induct) auto

lemma unique_disks_id:
  "distinct (map rd_disk_file ds) \<Longrightarrow> set (map rd_disk_file ds) \<inter> seen = {} \<Longrightarrow> unique_disks seen ds = ds"
  by (induction seen ds rule: unique_disks.induct) auto

lemma device_disk_label: "str_truthy (dv_label dev) \<Longrightarrow> device_disk n dev = device_disk 0 dev"
  by (cases "dv_label dev") (auto simp: device_disk_def)

lemma fold_append_device:
  "\<forall>dev \<in> set devs. isa dev ''VirtualDisk'' \<longrightarrow> str_truthy (dv_label dev) \<Longrightarrow>
   fold append_device devs disks = disks @ map (device_disk 0) (filter (\<lambda>dev. isa dev ''VirtualDisk'') devs)"
  by (induction devs arbitrary: disks) (auto simp: append_device_def intro: device_disk_label)

lemma extract_vm_disks_distinct: "distinct (map rd_disk_file (extract_vm_disks vm))"
  by (simp add: extract_vm_disks_def Let_def unique_disks_names split: option.split list.split)

lemma extract_vm_disks_both:
  assumes lay: "vv_layout_disk vm = Some ls" "ls \<noteq> []"
    and hw: "hardware_of vm = Some hw" "vh_device hw = Some devs"
    and lab: "\<forall>dev \<in> set devs. isa dev ''VirtualDisk'' \<longrightarrow> str_truthy (dv_label dev)"
    and dist: "distinct (layout_files ls @ map (\<lambda>dev. the (dv_label dev)) (filter (\<lambda>dev. isa dev ''VirtualDisk'') devs))"
  shows "extract_vm_disks vm =
    map layout_disk (layout_files ls) @ map (device_disk 0) (filter (\<lambda>dev. isa dev ''VirtualDisk'') devs)"
proof -
  let ?ds = "map layout_disk (layout_files ls) @ map (device_disk 0) (filter (\<lambda>dev. isa dev ''VirtualDisk'') devs)"
  have "map rd_disk_file (map (device_disk 0) (filter (\<lambda>dev. isa dev ''VirtualDisk'') devs)) =
      map (\<lambda>dev. the (dv_label dev)) (filter (\<lambda>dev. isa dev ''VirtualDisk'') devs)"
    using lab by (auto simp: device_disk_def str_truthy_def split: option.splits)
  moreover have "map rd_disk_file (map layout_disk (layout_files ls)) = layout_files ls"
    by (simp add: layout_disk_def comp_def)
  ultimately have "map rd_disk_file ?ds =
      layout_files ls @ map (\<lambda>dev. the (dv_label dev)) (filter (\<lambda>dev. isa dev ''VirtualDisk'') devs)"
    by (simp only: map_append)
  with dist have "distinct (map rd_disk_file ?ds)" by (simp only:)
  then have "unique_disks {} ?ds = ?ds" by (rule unique_disks_id) (simp only: Int_empty_right)
  then show ?thesis using lay hw fold_append_device [OF lab]
    by (auto simp: extract_vm_disks_def Let_def split: list.split)
qed

text \<open>The instrumentation adds exactly one observation and changes neither outcome nor pool.\<close>

lemma instrument_result: "fst (instrument vc op fn w) = fst (fn w)"
  by (simp add: instrument_def effect_defs observe_vc_def split: prod.split sum.split)

lemma instrument_state:
  "snd (instrument vc op fn w) = (snd (fn w))\<lparr>vc_durations := vc_durations (snd (fn w)) @
     [(op, if isl (fst (fn w)) then ''error'' else ''success'', fsub (vc_t1 vc) (vc_t0 vc))]\<rparr>"
  by (auto simp: instrument_def effect_defs observe_vc_def split: prod.split sum.split)

end
