(* ===== verification/Vmware_Inventory.thy ===== *)
theory Vmware_Inventory
  imports Vmware_Client Ttl_Cache Sql_Table
begin

text \<open>
  app/services/vmware/inventory_service.py: machines, datastores and networks of a vCenter, read through the
  client factory and kept in three TTL caches of 300 seconds, and the synchronisation of the inventory into
  the table of resource snapshots.

  The service's state extends the factory's. The times now_get and now_set are the clock readings of the cache
  lookup and the cache update of a call. The coroutines that sync_inventory hands to the event loop are the
  list iv_pending, in the order they were created; run_upserts runs them.
\<close>

section \<open>Summaries\<close>

definition build_disk :: "raw_disk \<Rightarrow> vm_disk" where
  "build_disk d = \<lparr>vd_label = rd_disk_file d, vd_capacity_gb = rd_capacity_gb d,
     vd_thin_provisioned = rd_thin_provisioned d, vd_datastore_name = rd_datastore_name d, vd_controller_type = None\<rparr>"

definition build_nic :: "raw_nic \<Rightarrow> vm_nic" where
  "build_nic n = \<lparr>vn_label = rn_label n, vn_network_name = rn_network_name n, vn_mac_address = rn_mac_address n,
     vn_ip_addresses = [], vn_nic_type = Some (rn_nic_type n)\<rparr>"

definition build_vm_summary :: "vim_vm \<Rightarrow> exn + vm_summary" where
  "build_vm_summary vm = (case get_vm_detail vm of Inl e \<Rightarrow> Inl e
   | Inr d \<Rightarrow> Inr
      \<lparr>vm_id = ds_id d, vm_name = ds_name d, vm_power_state = ds_power_state d, vm_guest_os = Some (ds_guest_os d),
       vm_hardware = Some \<lparr>hw_cpu_count = ds_cpu_count d, hw_cpu_cores_per_socket = ds_cpu_cores_per_socket d,
          hw_memory_mb = ds_memory_mb d, hw_disks = map build_disk (ds_disks d), hw_nics = map build_nic (ds_nics d)\<rparr>,
       vm_cluster_name = ds_cluster_name d, vm_datastores = ds_datastores d, vm_tags = [],
       vm_annotation = Some (ds_annotation d), vm_firmware = ds_firmware d,
       vm_secure_boot_enabled = ds_secure_boot_enabled d, vm_vmware_tools_status = ds_vmware_tools_status d,
       vm_disk_controller_types = Some (ds_disk_controller_types d)\<rparr>)"

record datastore_summary =
  dss_name :: string
  dss_type :: string
  dss_capacity_gb :: rat
  dss_free_gb :: rat
  dss_accessible :: bool
  dss_maintenance_mode :: string

record network_summary =
  nws_name :: string
  nws_type :: string
  nws_vlan_id :: "int option"
  nws_accessible :: bool

text \<open>_get_raw_ds_detail and _get_raw_net_detail repeat the statements of the factory's methods.\<close>

definition build_datastore_summary :: "vim_datastore \<Rightarrow> datastore_summary" where
  "build_datastore_summary ds = (let d = get_datastore_detail ds in
    \<lparr>dss_name = dd_name d, dss_type = dd_type d, dss_capacity_gb = dd_capacity_gb d, dss_free_gb = dd_free_gb d,
     dss_accessible = dd_accessible d, dss_maintenance_mode = dd_maintenance_mode d\<rparr>)"

definition build_network_summary :: "vim_network \<Rightarrow> network_summary" where
  "build_network_summary net = (let d = get_network_detail net in
    \<lparr>nws_name = nd_name d, nws_type = nd_type d, nws_vlan_id = nd_vlan_id d, nws_accessible = nd_accessible d\<rparr>)"

section \<open>The service\<close>

datatype raw_data = VmData vm_description | DatastoreData datastore_description | NetworkData network_description

record snapshot_request =
  sr_resource_type :: string
  sr_external_id :: string
  sr_resource_name :: string
  sr_raw_data :: raw_data

record 's inventory_state = "'s vc_state" +
  iv_vm_cache :: "vm_summary list ttl_cache"
  iv_ds_cache :: "datastore_summary list ttl_cache"
  iv_net_cache :: "network_summary list ttl_cache"
  iv_counters :: cache_counters
  iv_pending :: "snapshot_request list"

type_synonym ('s, 'm) inventory_world = "('s, 'm) inventory_state_scheme"

text \<open>The constructor: three empty caches; the pool belongs to the factory.\<close>

definition new_inventory :: "'s pool_state \<Rightarrow> 's inventory_state" where
  "new_inventory p = \<lparr>vc_pool = p, vc_durations = [], iv_vm_cache = TTLCache 300 ''default'',
     iv_ds_cache = TTLCache 300 ''default'', iv_net_cache = TTLCache 300 ''default'',
     iv_counters = no_counters, iv_pending = []\<rparr>"

text \<open>The lookup and the update of the caches as effects on the state.\<close>

definition vm_cache_get :: "rat \<Rightarrow> (('s, 'm) inventory_world, vm_summary list option) act" where
  "vm_cache_get now w = (case ttl_get now ''vms'' (iv_vm_cache w, iv_counters w) of
     (v, c, m) \<Rightarrow> (Inr v, w\<lparr>iv_vm_cache := c, iv_counters := m\<rparr>))"

definition ds_cache_get :: "rat \<Rightarrow> (('s, 'm) inventory_world, datastore_summary list option) act" where
  "ds_cache_get now w = (case ttl_get now ''datastores'' (iv_ds_cache w, iv_counters w) of
     (v, c, m) \<Rightarrow> (Inr v, w\<lparr>iv_ds_cache := c, iv_counters := m\<rparr>))"

definition net_cache_get :: "rat \<Rightarrow> (('s, 'm) inventory_world, network_summary list option) act" where
  "net_cache_get now w = (case ttl_get now ''networks'' (iv_net_cache w, iv_counters w) of
     (v, c, m) \<Rightarrow> (Inr v, w\<lparr>iv_net_cache := c, iv_counters := m\<rparr>))"

definition inventory_list_vms :: "'s vcenter \<Rightarrow> rat \<Rightarrow> rat \<Rightarrow> bool \<Rightarrow> (('s, 'm) inventory_world, vm_summary list) act" where
  "inventory_list_vms vc now_get now_set use_cache =
    bindE (if use_cache then vm_cache_get now_get else retE None) (\<lambda>cached. case cached of
      Some items \<Rightarrow> retE items
    | None \<Rightarrow>
        bindE (vc_list_vms vc) (\<lambda>raw_vms.
        bindE (mapE (\<lambda>vm. outcomeE (build_vm_summary vm)) raw_vms) (\<lambda>items.
        thenE (updE (\<lambda>w. w\<lparr>iv_vm_cache := ttl_set now_set ''vms'' items (iv_vm_cache w)\<rparr>)) (retE items))))"

definition inventory_list_datastores :: "'s vcenter \<Rightarrow> rat \<Rightarrow> rat \<Rightarrow> bool \<Rightarrow> (('s, 'm) inventory_world, datastore_summary list) act" where
  "inventory_list_datastores vc now_get now_set use_cache =
    bindE (if use_cache then ds_cache_get now_get else retE None) (\<lambda>cached. case cached of
      Some items \<Rightarrow> retE items
    | None \<Rightarrow>
        bindE (vc_list_datastores vc) (\<lambda>raw_ds.
        (let items = map build_datastore_summary raw_ds in
         thenE (updE (\<lambda>w. w\<lparr>iv_ds_cache := ttl_set now_set ''datastores'' items (iv_ds_cache w)\<rparr>)) (retE items))))"

definition inventory_list_networks :: "'s vcenter \<Rightarrow> rat \<Rightarrow> rat \<Rightarrow> bool \<Rightarrow> (('s, 'm) inventory_world, network_summary list) act" where
  "inventory_list_networks vc now_get now_set use_cache =
    bindE (if use_cache then net_cache_get now_get else retE None) (\<lambda>cached. case cached of
      Some items \<Rightarrow> retE items
    | None \<Rightarrow>
        bindE (vc_list_networks vc) (\<lambda>raw_nets.
        (let items = map build_network_summary raw_nets in
         thenE (updE (\<lambda>w. w\<lparr>iv_net_cache := ttl_set now_set ''networks'' items (iv_net_cache w)\<rparr>)) (retE items))))"

definition inventory_get_vm :: "'s vcenter \<Rightarrow> rat \<Rightarrow> rat \<Rightarrow> string \<Rightarrow> (('s, 'm) inventory_world, vm_summary option) act" where
  "inventory_get_vm vc now_get now_set wanted =
    bindE (inventory_list_vms vc now_get now_set True) (\<lambda>items. retE (List.find (\<lambda>vm. vm_id vm = wanted) items))"

section \<open>Synchronisation\<close>

definition upsert_snapshot :: "string \<Rightarrow> string option \<Rightarrow> string \<Rightarrow> raw_data \<Rightarrow> (('s, 'm) inventory_world, unit) act" where
  "upsert_snapshot resource_type external_id resource_name raw = (case external_id of
     None \<Rightarrow> raiseE (PyException ''AttributeError'' ''id'')
   | Some i \<Rightarrow> updE (\<lambda>w. w\<lparr>iv_pending := iv_pending w @ [\<lparr>sr_resource_type = resource_type, sr_external_id = i,
       sr_resource_name = resource_name, sr_raw_data = raw\<rparr>]\<rparr>))"

record inventory_sync_response =
  is_synced_vms :: nat
  is_synced_datastores :: nat
  is_synced_networks :: nat
  is_operation_task_id :: "string option"

definition sync_vm :: "vim_vm \<Rightarrow> (('s, 'm) inventory_world, unit) act" where
  "sync_vm vm = bindE (outcomeE (get_vm_detail vm)) (\<lambda>detail.
     upsert_snapshot ''vmware_vm'' (vv_id vm) (ds_name detail) (VmData detail))"

definition sync_datastore :: "vim_datastore \<Rightarrow> (('s, 'm) inventory_world, unit) act" where
  "sync_datastore ds = (let detail = get_datastore_detail ds in
     upsert_snapshot ''vmware_datastore'' (vd_ds_id ds) (dd_name detail) (DatastoreData detail))"

definition sync_network :: "vim_network \<Rightarrow> (('s, 'm) inventory_world, unit) act" where
  "sync_network net = (let detail = get_network_detail net in
     upsert_snapshot ''vmware_network'' (vn_net_id net) (nd_name detail) (NetworkData detail))"

definition invalidate_caches :: "('s, 'm) inventory_world \<Rightarrow> ('s, 'm) inventory_world" where
  "invalidate_caches w =
    (let (vc, m1) = ttl_invalidate_all (iv_vm_cache w, iv_counters w);
         (dc, m2) = ttl_invalidate_all (iv_ds_cache w, m1);
         (nc, m3) = ttl_invalidate_all (iv_net_cache w, m2)
     in w\<lparr>iv_vm_cache := vc, iv_ds_cache := dc, iv_net_cache := nc, iv_counters := m3\<rparr>)"

definition sync_inventory :: "'s vcenter \<Rightarrow> string option \<Rightarrow> (('s, 'm) inventory_world, inventory_sync_response) act" where
  "sync_inventory vc task_id =
    bindE (vc_list_vms vc) (\<lambda>vms.
    bindE (vc_list_datastores vc) (\<lambda>datastores.
    bindE (vc_list_networks vc) (\<lambda>networks.
    thenE (forE sync_vm vms)
    (thenE (forE sync_datastore datastores)
    (thenE (forE sync_network networks)
    (thenE (updE invalidate_caches)
    (retE \<lparr>is_synced_vms = length vms, is_synced_datastores = length datastores,
           is_synced_networks = length networks, is_operation_task_id = task_id\<rparr>)))))))"

text \<open>One of the scheduled coroutines on the table of snapshots; the column external_id is unique.\<close>

record resource_snapshot =
  sn_id :: string
  sn_resource_type :: string
  sn_external_id :: string
  sn_resource_name :: string
  sn_sync_status :: string
  sn_raw_data :: raw_data

definition do_upsert :: "string \<Rightarrow> snapshot_request \<Rightarrow> (resource_snapshot list, unit) act" where
  "do_upsert uuid r table =
    (let same = (\<lambda>s. sn_resource_type s = sr_resource_type r \<and> sn_external_id s = sr_external_id r) in
     case filter same table of
       [] \<Rightarrow> if sr_external_id r \<in> sn_external_id ` set table
             then (Inl (PyException ''IntegrityError'' ''resource_snapshots.external_id''), table)
             else (Inr (), sql_add \<lparr>sn_id = uuid, sn_resource_type = sr_resource_type r, sn_external_id = sr_external_id r,
                     sn_resource_name = sr_resource_name r, sn_sync_status = ''active'', sn_raw_data = sr_raw_data r\<rparr> table)
     | [s] \<Rightarrow> (Inr (), map (\<lambda>x. if same x then x\<lparr>sn_raw_data := sr_raw_data r, sn_sync_status := ''active'',
                     sn_resource_name := sr_resource_name r\<rparr> else x) table)
     | _ \<Rightarrow> (Inl (PyException ''MultipleResultsFound'' ''Multiple rows were found when one or none was required''), table))"

text \<open>The event loop runs the coroutines; an exception ends only the one that raised it.\<close>

fun run_upserts :: "(nat \<Rightarrow> string) \<Rightarrow> nat \<Rightarrow> snapshot_request list \<Rightarrow> resource_snapshot list \<Rightarrow> resource_snapshot list" where
  "run_upserts uuid n [] table = table"
| "run_upserts uuid n (r # rs) table = run_upserts uuid (Suc n) rs (snd (do_upsert (uuid n) r table))"

section \<open>Machines are read once in five minutes\<close>

lemma get_all_objects_caches:
  "get_all_objects vc view w = (r, w') \<Longrightarrow> \<exists>p. w' = w\<lparr>vc_pool := p\<rparr>"
  by (auto simp: get_all_objects_def vc_connect_def effect_defs split: prod.splits sum.splits if_splits)
    (metis vc_state.surjective vc_state.update_convs(1))+

lemma instrumented_frame:
  assumes "instrument vc op (get_all_objects vc view) w = (r, w')"
  shows "\<exists>p d. w' = w\<lparr>vc_pool := p, vc_durations := vc_durations w @ [d]\<rparr>"
proof -
  obtain r1 w1 where g: "get_all_objects vc view w = (r1, w1)" by (cases "get_all_objects vc view w")
  then obtain p where "w1 = w\<lparr>vc_pool := p\<rparr>" using get_all_objects_caches by blast
  then show ?thesis using assms g instrument_state [of vc op "get_all_objects vc view" w] by auto
qed

lemma mapE_outcome_state: "mapE (\<lambda>x. outcomeE (f x)) xs w = (r, w') \<Longrightarrow> w' = w"
  by (induction xs arbitrary: w r w') (auto simp: effect_defs split: prod.splits sum.splits)

lemma list_vms_fresh:
  assumes "inventory_list_vms vc t0 t1 False w = (Inr items, w')"
  shows "iv_vm_cache w' = ttl_set t1 ''vms'' items (iv_vm_cache w)"
proof -
  obtain raw w1 where l: "vc_list_vms vc w = (Inr raw, w1)"
    and m: "mapE (\<lambda>vm. outcomeE (build_vm_summary vm)) raw w1 = (Inr items, w1)"
    and w': "w' = w1\<lparr>iv_vm_cache := ttl_set t1 ''vms'' items (iv_vm_cache w1)\<rparr>"
    using assms mapE_outcome_state
    by (fastforce simp: inventory_list_vms_def bindE_Inr_iff thenE_Inr_iff retE_def updE_def)
  have "iv_vm_cache w1 = iv_vm_cache w"
    using instrumented_frame [OF l [unfolded vc_list_vms_def]] by auto
  then show ?thesis using w' by simp
qed

lemma list_vms_hit:
  assumes "visible t (contents (iv_vm_cache w) ''vms'') = Some items"
  shows "inventory_list_vms vc t t' True w =
    (Inr items, w\<lparr>iv_counters := (iv_counters w)\<lparr>cache_hits := incr (cache_hits (iv_counters w)) (tc_name (iv_vm_cache w))\<rparr>\<rparr>)"
  using assms
  by (auto simp: inventory_list_vms_def bindE_def vm_cache_get_def retE_def ttl_get_def contents_def is_expired_def visible_def
      split: option.splits if_splits)

text \<open>C29: Machines read from vCenter at some time are served from the cache for the 300 seconds of its lifetime: every
  get_vm in this time answers with the first machine of that list with the given id and makes no request.\<close>

theorem inventory_read_once:
  assumes "inventory_list_vms vc t0 t1 False w = (Inr items, w1)"
    and "tc_ttl (iv_vm_cache w) = 300" and "t < fadd t1 300"
  shows "\<exists>m. inventory_get_vm vc' t t' i w1 = (Inr (List.find (\<lambda>vm. vm_id vm = i) items), w1\<lparr>iv_counters := m\<rparr>)"
proof -
  have "contents (iv_vm_cache w1) ''vms'' = Some (items, fadd t1 300)"
    using list_vms_fresh [OF assms(1)] assms(2) by (simp add: contents_set)
  then have "visible t (contents (iv_vm_cache w1) ''vms'') = Some items" using assms(3) by simp
  from list_vms_hit [OF this, of vc' t'] show ?thesis
    by (intro exI) (simp add: inventory_get_vm_def bindE_def retE_def)
qed

section \<open>Synchronisation\<close>

definition snapshots_of :: "vim_vm list \<Rightarrow> vim_datastore list \<Rightarrow> vim_network list \<Rightarrow> snapshot_request list" where
  "snapshots_of vms dss nets =
     map (\<lambda>vm. (let d = projr (get_vm_detail vm) in \<lparr>sr_resource_type = ''vmware_vm'', sr_external_id = the (vv_id vm),
        sr_resource_name = ds_name d, sr_raw_data = VmData d\<rparr>)) vms @
     map (\<lambda>ds. (let d = get_datastore_detail ds in \<lparr>sr_resource_type = ''vmware_datastore'', sr_external_id = the (vd_ds_id ds),
        sr_resource_name = dd_name d, sr_raw_data = DatastoreData d\<rparr>)) dss @
     map (\<lambda>net. (let d = get_network_detail net in \<lparr>sr_resource_type = ''vmware_network'', sr_external_id = the (vn_net_id net),
        sr_resource_name = nd_name d, sr_raw_data = NetworkData d\<rparr>)) nets"

text \<open>A loop whose body schedules one request or raises.\<close>

lemma forE_schedules:
  assumes body: "\<And>x w. f x w = (if ok x then (Inr (), w\<lparr>iv_pending := iv_pending w @ [g x]\<rparr>) else (Inl (ex x), w))"
  shows "forE f xs w = (if list_all ok xs then (Inr (), w\<lparr>iv_pending := iv_pending w @ map g xs\<rparr>)
     else (Inl (ex (hd (dropWhile ok xs))), w\<lparr>iv_pending := iv_pending w @ map g (takeWhile ok xs)\<rparr>))"
  by (induction xs arbitrary: w) (simp_all add: effect_defs body)

lemma sync_vm_schedules:
  "sync_vm vm w = (if \<not> isl (get_vm_detail vm) \<and> vv_id vm \<noteq> None
     then (Inr (), w\<lparr>iv_pending := iv_pending w @ [(let d = projr (get_vm_detail vm) in
        \<lparr>sr_resource_type = ''vmware_vm'', sr_external_id = the (vv_id vm), sr_resource_name = ds_name d, sr_raw_data = VmData d\<rparr>)]\<rparr>)
     else (Inl (case get_vm_detail vm of Inl e \<Rightarrow> e | Inr _ \<Rightarrow> PyException ''AttributeError'' ''id''), w))"
  by (cases "get_vm_detail vm") (auto simp: sync_vm_def upsert_snapshot_def effect_defs)

lemma sync_datastore_schedules:
  "sync_datastore ds w = (if vd_ds_id ds \<noteq> None
     then (Inr (), w\<lparr>iv_pending := iv_pending w @ [(let d = get_datastore_detail ds in
        \<lparr>sr_resource_type = ''vmware_datastore'', sr_external_id = the (vd_ds_id ds), sr_resource_name = dd_name d, sr_raw_data = DatastoreData d\<rparr>)]\<rparr>)
     else (Inl (PyException ''AttributeError'' ''id''), w))"
  by (auto simp: sync_datastore_def upsert_snapshot_def effect_defs Let_def)

lemma sync_network_schedules:
  "sync_network net w = (if vn_net_id net \<noteq> None
     then (Inr (), w\<lparr>iv_pending := iv_pending w @ [(let d = get_network_detail net in
        \<lparr>sr_resource_type = ''vmware_network'', sr_external_id = the (vn_net_id net), sr_resource_name = nd_name d, sr_raw_data = NetworkData d\<rparr>)]\<rparr>)
     else (Inl (PyException ''AttributeError'' ''id''), w))"
  by (auto simp: sync_network_def upsert_snapshot_def effect_defs Let_def)

lemmas sync_loops = forE_schedules [of sync_vm, OF sync_vm_schedules]
  forE_schedules [of sync_datastore, OF sync_datastore_schedules]
  forE_schedules [of sync_network, OF sync_network_schedules]

text \<open>What the loops do to a state: they only schedule requests.\<close>

definition only_schedules :: "('s, 'm) inventory_world \<Rightarrow> ('s, 'm) inventory_world \<Rightarrow> bool" where
  "only_schedules w w' \<longleftrightarrow> iv_vm_cache w' = iv_vm_cache w \<and> iv_ds_cache w' = iv_ds_cache w \<and>
     iv_net_cache w' = iv_net_cache w \<and> (\<exists>rs. iv_pending w' = iv_pending w @ rs)"

lemma only_schedules_refl [simp]: "only_schedules w w"
  by (simp add: only_schedules_def)

lemma only_schedules_trans: "only_schedules u v \<Longrightarrow> only_schedules v w \<Longrightarrow> only_schedules u w"
  by (auto simp: only_schedules_def)

lemma sync_loops_only_schedule:
  "only_schedules w (snd (forE sync_vm vms w))" "only_schedules w (snd (forE sync_datastore dss w))"
  "only_schedules w (snd (forE sync_network nets w))"
  by (simp_all add: sync_loops only_schedules_def)

lemma instrumented_only_schedules: "only_schedules w (snd (instrument vc op (get_all_objects vc view) w))"
proof -
  obtain r w' where i: "instrument vc op (get_all_objects vc view) w = (r, w')"
    by (cases "instrument vc op (get_all_objects vc view) w")
  from instrumented_frame [OF this] show ?thesis by (auto simp: i only_schedules_def)
qed

lemma schedulesD:
  "vc_list_vms vc w = (r1, w') \<Longrightarrow> only_schedules w w'" "vc_list_datastores vc w = (r2, w') \<Longrightarrow> only_schedules w w'"
  "vc_list_networks vc w = (r3, w') \<Longrightarrow> only_schedules w w'" "forE sync_vm vms w = (r4, w') \<Longrightarrow> only_schedules w w'"
  "forE sync_datastore dss w = (r4, w') \<Longrightarrow> only_schedules w w'" "forE sync_network nets w = (r4, w') \<Longrightarrow> only_schedules w w'"
  using instrumented_only_schedules [of w vc "''list_vms''" "vc_vms vc"]
    instrumented_only_schedules [of w vc "''list_datastores''" "vc_datastores vc"]
    instrumented_only_schedules [of w vc "''list_networks''" "vc_networks vc"]
    sync_loops_only_schedule(1) [of w vms] sync_loops_only_schedule(2) [of w dss] sync_loops_only_schedule(3) [of w nets]
  by (simp_all add: vc_list_vms_def vc_list_datastores_def vc_list_networks_def)

lemma get_all_objects_view: "get_all_objects vc view w = (Inr xs, w') \<Longrightarrow> \<exists>si. view si = Inr xs"
  by (auto simp: get_all_objects_def bindE_Inr_iff outcomeE_def)

lemma listed:
  assumes "instrument vc op (get_all_objects vc view) w = (Inr xs, w')"
  shows "(\<exists>si. view si = Inr xs) \<and> iv_pending w' = iv_pending w"
proof -
  have "fst (get_all_objects vc view w) = Inr xs"
    using instrument_result [of vc op "get_all_objects vc view" w] assms by simp
  then have "\<exists>si. view si = Inr xs" using get_all_objects_view by (cases "get_all_objects vc view w") auto
  then show ?thesis using instrumented_frame [OF assms] by auto
qed

lemma invalidate_caches_empty:
  "contents (iv_vm_cache (invalidate_caches w)) k = None" "contents (iv_ds_cache (invalidate_caches w)) k = None"
  "contents (iv_net_cache (invalidate_caches w)) k = None" "iv_pending (invalidate_caches w) = iv_pending w"
  by (simp_all add: invalidate_caches_def ttl_invalidate_all_def contents_def)

lemma sync_inventory_raises:
  assumes "sync_inventory vc task_id w = (Inl e, w')"
  shows "only_schedules w w'"
  using assms unfolding sync_inventory_def thenE_bindE bindE_Inl_iff updE_def retE_def
  by (auto dest!: schedulesD elim!: only_schedules_trans)

lemma sync_inventory_returns:
  assumes "sync_inventory vc task_id w = (Inr r, w')"
  obtains s1 s2 s3 vms dss nets w1 where "vc_vms vc s1 = Inr vms" "vc_datastores vc s2 = Inr dss" "vc_networks vc s3 = Inr nets"
    "iv_pending w1 = iv_pending w @ snapshots_of vms dss nets" "w' = invalidate_caches w1"
    "r = \<lparr>is_synced_vms = length vms, is_synced_datastores = length dss, is_synced_networks = length nets, is_operation_task_id = task_id\<rparr>"
proof -
  obtain vms dss nets a b c d f g where l: "vc_list_vms vc w = (Inr vms, a)" "vc_list_datastores vc a = (Inr dss, b)"
      "vc_list_networks vc b = (Inr nets, c)" "forE sync_vm vms c = (Inr (), d)" "forE sync_datastore dss d = (Inr (), f)"
      "forE sync_network nets f = (Inr (), g)" and w': "w' = invalidate_caches g"
    and r: "r = \<lparr>is_synced_vms = length vms, is_synced_datastores = length dss, is_synced_networks = length nets, is_operation_task_id = task_id\<rparr>"
    using assms by (auto simp: sync_inventory_def bindE_Inr_iff thenE_Inr_iff updE_def retE_def)
  note views = listed [OF l(1) [unfolded vc_list_vms_def]] listed [OF l(2) [unfolded vc_list_datastores_def]]
    listed [OF l(3) [unfolded vc_list_networks_def]]
  have "iv_pending g = iv_pending c @ snapshots_of vms dss nets"
    using l(4-6) by (auto simp: sync_loops snapshots_of_def split: if_splits)
  then have "iv_pending g = iv_pending w @ snapshots_of vms dss nets" using views by simp
  with views w' r that [of _ vms _ dss _ nets g] show ?thesis by blast
qed

text \<open>A synchronisation that returns has scheduled exactly one snapshot per machine, datastore and network that
  vCenter listed, in this order, and has emptied the three caches; one that raises leaves the caches as they were,
  and keeps what it had scheduled before.\<close>

theorem sync_inventory_outcome:
  "case sync_inventory vc task_id w of
     (Inr r, w') \<Rightarrow> (\<exists>s1 s2 s3 vms dss nets. vc_vms vc s1 = Inr vms \<and> vc_datastores vc s2 = Inr dss \<and> vc_networks vc s3 = Inr nets \<and>
        iv_pending w' = iv_pending w @ snapshots_of vms dss nets \<and>
        r = \<lparr>is_synced_vms = length vms, is_synced_datastores = length dss, is_synced_networks = length nets,
             is_operation_task_id = task_id\<rparr>) \<and>
        (\<forall>k. contents (iv_vm_cache w') k = None \<and> contents (iv_ds_cache w') k = None \<and> contents (iv_net_cache w') k = None)
   | (Inl e, w') \<Rightarrow> only_schedules w w'"
proof (cases "sync_inventory vc task_id w")
  case (Pair x w')
  show ?thesis
  proof (cases x)
    case (Inl e)
    then show ?thesis using Pair sync_inventory_raises [of vc task_id w e w'] by simp
  next
    case (Inr r)
    with Pair have "sync_inventory vc task_id w = (Inr r, w')" by simp
    then show ?thesis
      by (rule sync_inventory_returns) (simp add: Pair Inr invalidate_caches_empty, blast)
  qed
qed

section \<open>The table of snapshots\<close>

definition recorded :: "snapshot_request \<Rightarrow> resource_snapshot \<Rightarrow> bool" where
  "recorded r s \<longleftrightarrow> sn_resource_type s = sr_resource_type r \<and> sn_external_id s = sr_external_id r \<and>
     sn_resource_name s = sr_resource_name r \<and> sn_sync_status s = ''active'' \<and> sn_raw_data s = sr_raw_data r"

text \<open>No row of the table has the id of a request under another resource type.\<close>

definition same_types :: "snapshot_request list \<Rightarrow> resource_snapshot list \<Rightarrow> bool" where
  "same_types rs table \<longleftrightarrow> (\<forall>s \<in> set table. \<forall>r \<in> set rs.
     sn_external_id s = sr_external_id r \<longrightarrow> sn_resource_type s = sr_resource_type r)"

lemma filter_distinct_map:
  assumes "distinct (map f xs)" "x \<in> set xs"
  shows "filter (\<lambda>y. f y = f x) xs = [x]"
  using assms by (induction xs) (auto simp: filter_empty_conv image_iff)

lemma do_upsert_keys:
  assumes "distinct (map sn_external_id table)"
  shows "distinct (map sn_external_id (snd (do_upsert uuid r table)))"
proof -
  have same: "(\<lambda>x. sn_external_id (if P x then x\<lparr>sn_raw_data := d, sn_sync_status := st, sn_resource_name := nm\<rparr> else x)) =
      sn_external_id" for P d st nm
    by (rule ext) simp
  show ?thesis using assms by (auto simp: do_upsert_def Let_def sql_add_def comp_def same split: list.splits)
qed

lemma do_upsert_recorded:
  assumes "distinct (map sn_external_id table)" "same_types [r] table"
  shows "\<exists>s \<in> set (snd (do_upsert uuid r table)). recorded r s"
proof (cases "\<exists>s \<in> set table. sn_external_id s = sr_external_id r")
  case True
  then obtain s where s: "s \<in> set table" "sn_external_id s = sr_external_id r" by blast
  have "filter (\<lambda>x. sn_resource_type x = sr_resource_type r \<and> sn_external_id x = sr_external_id r) table =
      filter (\<lambda>x. sn_external_id x = sn_external_id s) table"
    using s(2) assms(2) by (intro filter_cong) (auto simp: same_types_def)
  also have "\<dots> = [s]" by (rule filter_distinct_map [OF assms(1) s(1)])
  finally have f: "filter (\<lambda>x. sn_resource_type x = sr_resource_type r \<and> sn_external_id x = sr_external_id r) table = [s]" .
  have "sn_resource_type s = sr_resource_type r" using s assms(2) by (simp add: same_types_def)
  then show ?thesis using s f by (intro bexI [where x = "s\<lparr>sn_raw_data := sr_raw_data r, sn_sync_status := ''active'', sn_resource_name := sr_resource_name r\<rparr>"])
      (auto simp: recorded_def do_upsert_def Let_def intro!: image_eqI [where x = s])
next
  case False
  then have "filter (\<lambda>x. sn_resource_type x = sr_resource_type r \<and> sn_external_id x = sr_external_id r) table = []"
    "sr_external_id r \<notin> sn_external_id ` set table" by (auto simp: filter_empty_conv)
  then show ?thesis by (simp add: do_upsert_def Let_def sql_add_def recorded_def)
qed

lemma do_upsert_other:
  "sn_external_id s \<noteq> sr_external_id r \<Longrightarrow> s \<in> set (snd (do_upsert uuid r table)) \<longleftrightarrow> s \<in> set table"
  by (auto simp: do_upsert_def Let_def sql_add_def split: list.splits if_splits)

lemma run_upserts_other:
  "sn_external_id s \<notin> sr_external_id ` set rs \<Longrightarrow> s \<in> set (run_upserts uuid n rs table) \<longleftrightarrow> s \<in> set table"
  by (induction rs arbitrary: n table) (auto simp: do_upsert_other)

lemma run_upserts_keys: "distinct (map sn_external_id table) \<Longrightarrow> distinct (map sn_external_id (run_upserts uuid n rs table))"
  by (induction rs arbitrary: n table) (auto simp: do_upsert_keys)

lemma same_types_step:
  assumes "same_types (r # rs) table" "sr_external_id r \<notin> sr_external_id ` set rs"
  shows "same_types rs (snd (do_upsert uuid r table))"
  unfolding same_types_def
proof (intro ballI impI)
  fix s q assume q: "s \<in> set (snd (do_upsert uuid r table))" "q \<in> set rs" "sn_external_id s = sr_external_id q"
  then have "sn_external_id s \<noteq> sr_external_id r" using assms(2) by (metis image_eqI)
  with q have "s \<in> set table" by (simp add: do_upsert_other)
  then show "sn_resource_type s = sr_resource_type q" using q assms(1) by (simp add: same_types_def)
qed

text \<open>When the scheduled coroutines have run, every requested snapshot is in the table with the data read
  from vCenter, external ids are still unique, and the rows of all other resources are untouched, provided the
  requested ids are distinct and not taken by a resource of another type.\<close>

theorem snapshots_recorded:
  assumes "distinct (map sn_external_id table)" "distinct (map sr_external_id rs)" "same_types rs table"
  shows "(\<forall>r \<in> set rs. \<exists>s \<in> set (run_upserts uuid n rs table). recorded r s) \<and>
    distinct (map sn_external_id (run_upserts uuid n rs table)) \<and>
    (\<forall>s. sn_external_id s \<notin> sr_external_id ` set rs \<longrightarrow>
      (s \<in> set (run_upserts uuid n rs table) \<longleftrightarrow> s \<in> set table))"
proof -
  have "\<forall>r \<in> set rs. \<exists>s \<in> set (run_upserts uuid n rs table). recorded r s"
    using assms
  proof (induction rs arbitrary: n table)
    case (Cons r rs)
    let ?t = "snd (do_upsert (uuid n) r table)"
    have r: "sr_external_id r \<notin> sr_external_id ` set rs" using Cons.prems(2) by simp
    have "\<forall>q \<in> set rs. \<exists>s \<in> set (run_upserts uuid (Suc n) rs ?t). recorded q s"
      using Cons.prems r by (intro Cons.IH) (auto simp: do_upsert_keys same_types_step)
    moreover obtain s where "s \<in> set ?t" "recorded r s"
      using do_upsert_recorded [of table r "uuid n"] Cons.prems by (auto simp: same_types_def)
    moreover from this have "s \<in> set (run_upserts uuid (Suc n) rs ?t)"
      using r by (subst run_upserts_other) (auto simp: recorded_def)
    ultimately show ?case by auto
  qed simp
  then show ?thesis using assms by (simp add: run_upserts_keys run_upserts_other)
qed

section \<open>A small inventory\<close>

definition bare_vm :: "string \<Rightarrow> string \<Rightarrow> vim_vm" where
  "bare_vm i name = \<lparr>vv_id = Some i, vv_mo_id = Some i, vv_name = Some name, vv_config = None, vv_guest = None,
     vv_summary = None, vv_layout_disk = None, vv_datastore = [], vv_parent_name = None\<rparr>"

definition demo_vcenter :: "nat vcenter" where
  "demo_vcenter = \<lparr>vc_config = small_pool, vc_env = vcenter_at 100 7,
     vc_vms = (\<lambda>_. Inr [bare_vm ''vm-1'' ''web'', bare_vm ''vm-2'' ''db'']), vc_datastores = (\<lambda>_. Inr []),
     vc_networks = (\<lambda>_. Inr []), vc_clusters = (\<lambda>_. Inr []), vc_hosts = (\<lambda>_. Inr []), vc_t0 = 0, vc_t1 = 1\<rparr>"

theorem inventory_read_once_witness:
  "map_option vm_name (projr (fst (inventory_get_vm demo_vcenter 200 200 ''vm-2''
     (snd (inventory_list_vms demo_vcenter 100 100 False (new_inventory new_pool)))))) = Some ''db''"
proof -
  define a where "a = inventory_list_vms demo_vcenter 100 100 False (new_inventory new_pool)"
  have ok: "isl (fst a) = False" and vm: "map_option vm_name (List.find (\<lambda>vm. vm_id vm = ''vm-2'') (projr (fst a))) = Some ''db''"
    and t: "(200 :: rat) < fadd 100 300" unfolding a_def by code_simp+
  have "a = (Inr (projr (fst a)), snd a)" using ok by (cases a; cases "fst a") auto
  from inventory_read_once [OF this [unfolded a_def] _ t, of demo_vcenter 200 "''vm-2''"] vm
  show ?thesis by (auto simp: a_def new_inventory_def)
qed

theorem snapshots_recorded_witness:
  "\<exists>s \<in> set (run_upserts (\<lambda>n. str_int (int n)) 0 [\<lparr>sr_resource_type = ''vmware_vm'', sr_external_id = ''vm-1'',
     sr_resource_name = ''web'', sr_raw_data = NetworkData \<lparr>nd_name = ''n'', nd_type = ''network'', nd_vlan_id = None, nd_accessible = True\<rparr>\<rparr>] []).
   sn_external_id s = ''vm-1''"
  using snapshots_recorded [of "[]" "[\<lparr>sr_resource_type = ''vmware_vm'', sr_external_id = ''vm-1'',
     sr_resource_name = ''web'', sr_raw_data = NetworkData \<lparr>nd_name = ''n'', nd_type = ''network'', nd_vlan_id = None, nd_accessible = True\<rparr>\<rparr>]"
     "\<lambda>n. str_int (int n)" 0]
  by (auto simp: same_types_def recorded_def)

end
