(* ===== verification/Task_Tracking.thy ===== *)
theory Task_Tracking
  imports Task_Store
begin

text \<open>
  The shape of the endpoints that record an operation task (app/api/v1/endpoints): create the task, set it
  running, run the service's operation inside try, set the task succeeded, or failed with the exception's text
  and raise the exception again. tracked is this shape; the endpoints of the components are instances of it.

  The state of an endpoint is the state of the services it calls together with the table of operation tasks.
  The locale recorded_endpoint is what a caller relies on: an endpoint adds at most one row, and that row is
  finished.
\<close>

record task_env =
  tk_uuid :: string
  tk_created :: timestamp
  tk_started :: timestamp
  tk_ended :: timestamp

type_synonym 'w tracked_world = "'w \<times> operation_task list"

definition serviceE :: "('w, 'a) act \<Rightarrow> ('w tracked_world, 'a) act" where [effect_defs]:
  "serviceE m wt = (case m (fst wt) of (r, w) \<Rightarrow> (r, w, snd wt))"

definition tasksE :: "(operation_task list, 'a) act \<Rightarrow> ('w tracked_world, 'a) act" where [effect_defs]:
  "tasksE m wt = (case m (snd wt) of (r, t) \<Rightarrow> (r, fst wt, t))"

definition tracked :: "task_env \<Rightarrow> string \<Rightarrow> string \<Rightarrow> string option \<Rightarrow> ('a \<Rightarrow> string option) \<Rightarrow> string option \<Rightarrow>
    ('w, 'a) act \<Rightarrow> ('w tracked_world, 'a \<times> string) act" where
  "tracked env operation_type target_type target_id succeeded_target failed_target body =
    bindE (tasksE (create_task (tk_uuid env) (tk_created env) operation_type target_type target_id)) (\<lambda>task.
    thenE (tasksE (update_task (tk_started env) (os_id task) ''running'' None None))
    (tryE
      (bindE (serviceE body) (\<lambda>x.
       thenE (tasksE (update_task (tk_ended env) (os_id task) ''succeeded'' (succeeded_target x) None))
       (retE (x, os_id task))))
      (\<lambda>exc. thenE (tasksE (update_task (tk_ended env) (os_id task) ''failed'' failed_target (Some (exn_str exc))))
        (raiseE exc))))"

text \<open>The row a tracked operation leaves behind.\<close>

definition finished_row :: "task_env \<Rightarrow> string \<Rightarrow> string \<Rightarrow> string option \<Rightarrow> string \<Rightarrow> string option \<Rightarrow> string option \<Rightarrow> operation_task" where
  "finished_row env operation_type target_type target_id state new_target msg =
    \<lparr>ot_id = tk_uuid env, ot_operation_type = operation_type, ot_target_type = target_type,
     ot_target_id = (case new_target of None \<Rightarrow> target_id | Some i \<Rightarrow> Some i), ot_state = state,
     ot_error_message = msg, ot_submitted_at = tk_created env, ot_finished_at = Some (tk_ended env)\<rparr>"

lemma update_task_last:
  assumes "sql_get ot_id i t = None" "ot_id r = i"
  shows "update_task now i st tid msg (t @ [r]) =
    (Inr (serialize_task (apply_update now st tid msg r)), t @ [apply_update now st tid msg r])"
proof -
  have "ot_id s \<noteq> i" if "s \<in> set t" for s using assms(1) that by (auto simp: sql_get_None_iff)
  then have "map (\<lambda>s. if ot_id s = i then apply_update now st tid msg s else s) t = t"
    by (intro map_idI) auto
  moreover have "sql_get ot_id i (t @ [r]) = Some r" using assms by (simp add: sql_get_append) (simp add: sql_get_def)
  ultimately show ?thesis using assms by (simp add: update_task_def sql_update_def)
qed

lemma tracked_run:
  assumes "sql_get ot_id (tk_uuid env) t = None"
  shows "tracked env op tt tid succ fail body (w, t) =
    (case body w of
       (Inr x, w') \<Rightarrow> (Inr (x, tk_uuid env), w', t @ [finished_row env op tt tid ''succeeded'' (succ x) None])
     | (Inl exc, w') \<Rightarrow> (Inl exc, w', t @ [finished_row env op tt tid ''failed'' fail (Some (exn_str exc))]))"
  using assms
  by (auto simp: tracked_def bindE_def thenE_def tryE_def retE_def raiseE_def serviceE_def tasksE_def create_task_def Let_def
      sql_add_def serialize_task_def update_task_last finished_row_def apply_update_def split: prod.split sum.split option.split)

section \<open>The contract of a recorded endpoint\<close>

definition task_finished :: "operation_task \<Rightarrow> bool" where
  "task_finished r \<longleftrightarrow> ot_state r \<in> {''succeeded'', ''failed''} \<and> ot_finished_at r \<noteq> None"

lemma finished_row_finished [simp]:
  "task_finished (finished_row env op tt tid ''succeeded'' nt msg)" "task_finished (finished_row env op tt tid ''failed'' nt msg)"
  "ot_id (finished_row env op tt tid st nt msg) = tk_uuid env"
  by (simp_all add: task_finished_def finished_row_def)

locale recorded_endpoint =
  fixes endpoint :: "task_env \<Rightarrow> ('w tracked_world, 'a) act"
  assumes records: "sql_get ot_id (tk_uuid env) t = None \<Longrightarrow>
    snd (snd (endpoint env (w, t))) = t \<or>
    (\<exists>r. snd (snd (endpoint env (w, t))) = t @ [r] \<and> ot_id r = tk_uuid env \<and> task_finished r)"
begin

lemma keeps_finished:
  assumes "sql_get ot_id (tk_uuid env) t = None" "list_all task_finished t"
  shows "list_all task_finished (snd (snd (endpoint env (w, t))))"
  using records [OF assms(1), of w] assms(2) by auto

lemma keeps_unique:
  assumes "sql_get ot_id (tk_uuid env) t = None" "pk_unique ot_id t"
  shows "pk_unique ot_id (snd (snd (endpoint env (w, t))))"
  using records [OF assms(1), of w] assms by (auto simp: pk_unique_def sql_get_None_iff)

text \<open>Any sequence of calls with fresh ids leaves only finished tasks.\<close>

fun calls :: "task_env list \<Rightarrow> 'w tracked_world \<Rightarrow> 'w tracked_world" where
  "calls [] wt = wt"
| "calls (e # es) wt = calls es (snd (endpoint e wt))"

lemma calls_finished:
  assumes "distinct (map tk_uuid es)" "\<forall>e \<in> set es. sql_get ot_id (tk_uuid e) (snd wt) = None" "list_all task_finished (snd wt)"
  shows "list_all task_finished (snd (calls es wt))"
  using assms
proof (induction es arbitrary: wt)
  case (Cons e es)
  obtain w t where wt: "wt = (w, t)" by (cases wt)
  have fresh: "sql_get ot_id (tk_uuid e) t = None" using Cons.prems(2) wt by simp
  have "sql_get ot_id (tk_uuid f) (snd (snd (endpoint e (w, t)))) = None" if "f \<in> set es" for f
    using records [OF fresh, of w] Cons.prems(1,2) that wt
    by (auto simp: sql_get_None_iff) (metis image_eqI)+
  then show ?case using Cons.IH [of "snd (endpoint e wt)"] Cons.prems keeps_finished [OF fresh] wt by auto
qed simp

end

lemma tracked_recorded: "recorded_endpoint (\<lambda>env. tracked env op tt tid succ fail body)"
  by unfold_locales (auto simp: tracked_run split: prod.split sum.split)

text \<open>C14: An endpoint of this shape passes on exactly the outcome of the service operation, which runs once, and
  adds exactly one row to the table of operation tasks: succeeded with the target the operation determines and
  no message, or failed with the exception's text; either way with its finishing time. No other row changes.\<close>

theorem tracked_outcome:
  assumes "sql_get ot_id (tk_uuid env) t = None"
  shows "tracked env op tt tid succ fail body (w, t) =
    (case body w of
       (Inr x, w') \<Rightarrow> (Inr (x, tk_uuid env), w', t @ [finished_row env op tt tid ''succeeded'' (succ x) None])
     | (Inl exc, w') \<Rightarrow> (Inl exc, w', t @ [finished_row env op tt tid ''failed'' fail (Some (exn_str exc))]))"
  by (rule tracked_run [OF assms])

theorem tracked_outcome_witness:
  "snd (snd (tracked \<lparr>tk_uuid = ''u'', tk_created = 1, tk_started = 2, tk_ended = 3\<rparr> ''delete_server'' ''server''
     (Some ''s'') (\<lambda>_. Some ''s'') None (raiseE (AppException ''Server not found'' 404 ''server_not_found'') :: (unit, unit) act) ((), []))) =
   [finished_row \<lparr>tk_uuid = ''u'', tk_created = 1, tk_started = 2, tk_ended = 3\<rparr> ''delete_server'' ''server'' (Some ''s'') ''failed'' None
     (Some ''Server not found'')]"
  by (subst tracked_outcome) (simp_all add: sql_get_def raiseE_def)

end
