(* ===== verification/Vmware_Assessment.thy ===== *)
theory Vmware_Assessment
  imports Vmware_Inventory Vmware_Compatibility Vmware_Plan Task_Tracking "HOL-Library.Sublist"
begin

text \<open>
  The assessment of VMware machines: the endpoints of app/api/v1/endpoints/vmware/assessment.py and
  inventory.py, which put inventory, compatibility check, mapping engine, planning and operation tasks
  together, and app/services/vmware/parallel_assessment.py.

  The services' states are the fields of assess_state. The outside, and the clock, answer the n-th machine of a request
  by the n-th components of assess_env.
\<close>

record ('c, 's) assess_state =
  as_inventory :: "'s inventory_state"
  as_mapping :: "'c mapping_state"
  as_unsupported :: "(string, int) dict"

record ('c, 's) assess_env =
  ax_vc :: "nat \<Rightarrow> 's vcenter"
  ax_now_get :: "nat \<Rightarrow> rat"
  ax_now_set :: "nat \<Rightarrow> rat"
  ax_settings :: os_settings
  ax_sdk :: "'c os_sdk"

definition inventoryE :: "('s inventory_state, 'a) act \<Rightarrow> (('c, 's, 'm) assess_state_scheme, 'a) act" where [effect_defs]:
  "inventoryE m w = (case m (as_inventory w) of (r, i) \<Rightarrow> (r, w\<lparr>as_inventory := i\<rparr>))"

definition mappingE :: "('c mapping_state, 'a) act \<Rightarrow> (('c, 's, 'm) assess_state_scheme, 'a) act" where [effect_defs]:
  "mappingE m w = (case m (as_mapping w) of (r, i) \<Rightarrow> (r, w\<lparr>as_mapping := i\<rparr>))"

definition compatibilityE :: "((string, int) dict, 'a) act \<Rightarrow> (('c, 's, 'm) assess_state_scheme, 'a) act" where [effect_defs]:
  "compatibilityE m w = (case m (as_unsupported w) of (r, i) \<Rightarrow> (r, w\<lparr>as_unsupported := i\<rparr>))"

definition lookup_vm :: "('c, 's) assess_env \<Rightarrow> nat \<Rightarrow> string \<Rightarrow> (('c, 's, 'm) assess_state_scheme, vm_summary option) act" where
  "lookup_vm env n i = inventoryE (inventory_get_vm (ax_vc env n) (ax_now_get env n) (ax_now_set env n) i)"

section \<open>Assessing one machine and many\<close>

text \<open>The body of the loops: None for a machine that is not in the inventory.\<close>

definition assess_one :: "('c, 's) assess_env \<Rightarrow> bool \<Rightarrow> nat \<times> string \<Rightarrow> (('c, 's, 'm) assess_state_scheme, assessed option) act" where
  "assess_one env include_mapping ni =
    bindE (lookup_vm env (fst ni) (snd ni)) (\<lambda>found. case found of
      None \<Rightarrow> retE None
    | Some vm \<Rightarrow>
        bindE (compatibilityE (evaluate vm)) (\<lambda>compatibility.
        bindE (if include_mapping then bindE (mappingE (map_vm (ax_settings env) (ax_sdk env) vm)) (\<lambda>m. retE (Some m)) else retE None)
          (\<lambda>mapping. retE (Some (vm, compatibility, mapping)))))"

definition assess_all :: "('c, 's) assess_env \<Rightarrow> bool \<Rightarrow> string list \<Rightarrow> (('c, 's, 'm) assess_state_scheme, assessed list) act" where
  "assess_all env include_mapping vm_ids =
    bindE (mapE (assess_one env include_mapping) (enumerate 0 vm_ids)) (\<lambda>rs. retE (map the (filter (\<lambda>r. r \<noteq> None) rs)))"

record assessment_response =
  ar_assessments :: "assessed list"
  ar_total :: nat
  ar_compatible :: nat
  ar_incompatible :: nat
  ar_warning_count :: nat

definition summarize :: "assessed list \<Rightarrow> assessment_response" where
  "summarize as =
    (let compatible = length (filter (\<lambda>a. sc_compatible (fst (snd a))) as) in
     \<lparr>ar_assessments = as, ar_total = length as, ar_compatible = compatible, ar_incompatible = length as - compatible,
      ar_warning_count = sum_list (map (\<lambda>a. length (sc_issues (fst (snd a)))) as)\<rparr>)"

definition join_ids :: "string list \<Rightarrow> string" where
  "join_ids ids = (case take 5 ids of [] \<Rightarrow> [] | x # xs \<Rightarrow> x @ concat (map (\<lambda>y. '','' @ y) xs))"

abbreviation empty_request :: exn where
  "empty_request \<equiv> PyException ''ValidationError'' ''vm_ids: List should have at least 1 item after validation''"

definition assess_vms :: "('c, 's) assess_env \<Rightarrow> string list \<Rightarrow> task_env \<Rightarrow>
    (('c, 's, 'm) assess_state_scheme tracked_world, assessment_response \<times> string) act" where
  "assess_vms env vm_ids tenv =
    (if vm_ids = [] then raiseE empty_request
     else tracked tenv ''vmware_assessment'' ''assessment'' (Some (join_ids vm_ids)) (\<lambda>_. None) None
       (bindE (assess_all env True vm_ids) (\<lambda>as. retE (summarize as))))"

definition assess_single_compatibility :: "('c, 's) assess_env \<Rightarrow> string \<Rightarrow> (('c, 's, 'm) assess_state_scheme, scored_compatibility_result) act" where
  "assess_single_compatibility env i =
    bindE (lookup_vm env 0 i) (\<lambda>found. case found of
      None \<Rightarrow> raiseE (HTTPException 404 (''VM '' @ quoted i @ '' not found''))
    | Some vm \<Rightarrow> compatibilityE (evaluate vm))"

definition map_single_vm :: "('c, 's) assess_env \<Rightarrow> string \<Rightarrow> (('c, 's, 'm) assess_state_scheme, vm_mapping_result) act" where
  "map_single_vm env i =
    bindE (lookup_vm env 0 i) (\<lambda>found. case found of
      None \<Rightarrow> raiseE (HTTPException 404 (''VM '' @ quoted i @ '' not found''))
    | Some vm \<Rightarrow> mappingE (map_vm (ax_settings env) (ax_sdk env) vm))"

definition create_migration_plan :: "('c, 's) assess_env \<Rightarrow> string \<Rightarrow> timestamp \<Rightarrow> string list \<Rightarrow> task_env \<Rightarrow>
    (('c, 's, 'm) assess_state_scheme tracked_world, migration_plan_response) act" where
  "create_migration_plan env uuid now vm_ids tenv =
    (if vm_ids = [] then raiseE empty_request
     else bindE (tracked tenv ''vmware_migration_plan'' ''plan'' (Some (join_ids vm_ids)) (\<lambda>_. None) None
        (bindE (assess_all env True vm_ids) (\<lambda>vms. outcomeE (generate_plan uuid now vms (Some [])))))
       (\<lambda>(plan, task_id). retE (plan\<lparr>mpr_operation_task_id := Some task_id\<rparr>)))"

definition sync_inventory_endpoint :: "'s vcenter \<Rightarrow> task_env \<Rightarrow>
    (('c, 's, 'm) assess_state_scheme tracked_world, inventory_sync_response) act" where
  "sync_inventory_endpoint vc tenv =
    bindE (tracked tenv ''vmware_inventory_sync'' ''inventory'' (Some ''vmware'') (\<lambda>_. None) None
       (inventoryE (sync_inventory vc (Some (tk_uuid tenv)))))
     (\<lambda>(result, task_id). retE result)"

section \<open>What an assessment says\<close>

definition migratable :: "vm_summary \<Rightarrow> bool" where
  "migratable vm \<longleftrightarrow> \<not> blocked vm \<and> high_risks vm \<le> 2"

lemma evaluate_migratable: "evaluate vm m = (Inr c, m') \<Longrightarrow> sc_compatible c \<longleftrightarrow> migratable vm"
  using evaluate_verdict_conditions [of vm m] by (auto simp: migratable_def)

lemma lookup_vm_id: "lookup_vm env n i w = (Inr (Some vm), w') \<Longrightarrow> vm_id vm = i"
  by (auto simp: lookup_vm_def inventoryE_def inventory_get_vm_def bindE_Inr_iff retE_def find_Some_iff split: prod.splits)

lemma assess_one_Some:
  assumes "assess_one env inc ni w = (Inr (Some a), w')"
  shows "vm_id (fst a) = snd ni" "sc_compatible (fst (snd a)) \<longleftrightarrow> migratable (fst a)"
proof -
  obtain vm w1 where g: "lookup_vm env (fst ni) (snd ni) w = (Inr (Some vm), w1)"
    and r: "bindE (compatibilityE (evaluate vm)) (\<lambda>c. bindE (if inc then bindE (mappingE (map_vm (ax_settings env) (ax_sdk env) vm))
        (\<lambda>m. retE (Some m)) else retE None) (\<lambda>m. retE (Some (vm, c, m)))) w1 = (Inr (Some a), w')"
    using assms by (auto simp: assess_one_def bindE_Inr_iff [of "lookup_vm env (fst ni) (snd ni)"] retE_def split: option.splits)
  from r obtain c m w2 where c: "compatibilityE (evaluate vm) w1 = (Inr c, w2)" and a: "a = (vm, c, m)"
    by (auto simp: bindE_Inr_iff retE_def)
  show "vm_id (fst a) = snd ni" using lookup_vm_id [OF g] a by simp
  show "sc_compatible (fst (snd a)) \<longleftrightarrow> migratable (fst a)"
    using c a by (auto simp: compatibilityE_def evaluate_migratable split: prod.splits)
qed

text \<open>The loop of assess_one: one answer per machine, in order.\<close>

definition answers :: "nat \<times> string \<Rightarrow> assessed option \<Rightarrow> bool" where
  "answers ni r \<longleftrightarrow> (\<forall>a. r = Some a \<longrightarrow> vm_id (fst a) = snd ni \<and> (sc_compatible (fst (snd a)) \<longleftrightarrow> migratable (fst a)))"

lemma assess_one_answers: "assess_one env inc ni w = (Inr r, w') \<Longrightarrow> answers ni r"
  unfolding answers_def using assess_one_Some by blast

lemma mapE_assess_one: "mapE (assess_one env inc) nis w = (Inr rs, w') \<Longrightarrow> list_all2 answers nis rs"
proof (induction nis arbitrary: w rs w')
  case (Cons ni nis)
  then obtain r rs' w1 w2 where "assess_one env inc ni w = (Inr r, w1)" "mapE (assess_one env inc) nis w1 = (Inr rs', w2)" "rs = r # rs'"
    by (auto simp: bindE_Inr_iff retE_def)
  then show ?case using Cons.IH assess_one_answers by simp
qed (simp add: retE_def)

lemma answered_ids:
  "list_all2 answers nis rs \<Longrightarrow>
   subseq (map (\<lambda>a. vm_id (fst a)) (map the (filter (\<lambda>r. r \<noteq> None) rs))) (map snd nis) \<and>
   list_all (\<lambda>a. sc_compatible (fst (snd a)) \<longleftrightarrow> migratable (fst a)) (map the (filter (\<lambda>r. r \<noteq> None) rs))"
proof (induction rule: list_all2_induct)
  case (Cons ni nis r rs)
  then show ?case by (cases r) (auto simp: answers_def)
qed simp

lemma assess_all_sound:
  assumes "assess_all env inc ids w = (Inr as, w')"
  shows "subseq (map (\<lambda>a. vm_id (fst a)) as) ids" "list_all (\<lambda>a. sc_compatible (fst (snd a)) \<longleftrightarrow> migratable (fst a)) as"
proof -
  obtain rs where rs: "mapE (assess_one env inc) (enumerate 0 ids) w = (Inr rs, w')" and as: "as = map the (filter (\<lambda>r. r \<noteq> None) rs)"
    using assms by (auto simp: assess_all_def bindE_Inr_iff retE_def)
  from answered_ids [OF mapE_assess_one [OF rs]]
  show "subseq (map (\<lambda>a. vm_id (fst a)) as) ids" "list_all (\<lambda>a. sc_compatible (fst (snd a)) \<longleftrightarrow> migratable (fst a)) as"
    by (simp_all add: as)
qed

lemma compatible_is_migratable:
  "list_all (\<lambda>a. sc_compatible (fst (snd a)) \<longleftrightarrow> migratable (fst a)) as \<Longrightarrow>
   filter (\<lambda>a. sc_compatible (fst (snd a))) as = filter (\<lambda>a. migratable (fst a)) as"
  by (induction as) auto


interpretation assess: recorded_endpoint "assess_vms env ids"
  by unfold_locales (auto simp: assess_vms_def raiseE_def tracked_run split: prod.split sum.split)

interpretation plan: recorded_endpoint "create_migration_plan env uuid now ids"
  by unfold_locales (auto simp: create_migration_plan_def raiseE_def bindE_def retE_def tracked_run split: prod.split sum.split)

interpretation sync: recorded_endpoint "sync_inventory_endpoint vc"
  by unfold_locales (auto simp: sync_inventory_endpoint_def bindE_def retE_def tracked_run split: prod.split sum.split)

section \<open>Disks of a machine on their way to volumes\<close>

text \<open>VCenter lists the files of a disk in the layout and the disk itself among the devices, under different names, so
  the extraction reports both: as many volumes as files and disks together, and the bootable one is the first
  file, with a size of 0 GB.\<close>

theorem bootable_volume_has_no_size:
  assumes "build_vm_summary vm = Inr s"
    and "vv_layout_disk vm = Some ls" "layout_files ls = f # fs" "hardware_of vm = Some hw" "vh_device hw = Some devs"
    and "\<forall>dev \<in> set devs. isa dev ''VirtualDisk'' \<longrightarrow> str_truthy (dv_label dev)"
    and "distinct (layout_files ls @ map (\<lambda>dev. the (dv_label dev)) (filter (\<lambda>dev. isa dev ''VirtualDisk'') devs))"
  shows "length (map_disks s) = length (f # fs) + length (filter (\<lambda>dev. isa dev ''VirtualDisk'') devs) \<and>
    dm_bootable (hd (map_disks s)) \<and> dm_openstack_size_gb (hd (map_disks s)) = 0 \<and> dm_vm_disk_label (hd (map_disks s)) = f"
proof -
  have "ls \<noteq> []" using assms(3) by (auto simp: layout_files_def)
  then have d: "extract_vm_disks vm = map layout_disk (f # fs) @ map (device_disk 0) (filter (\<lambda>dev. isa dev ''VirtualDisk'') devs)"
    using extract_vm_disks_both [OF assms(2) _ assms(4-7)] assms(3) by simp
  obtain h where h: "vm_hardware s = Some h" "hw_disks h = map build_disk (extract_vm_disks vm)"
    using assms(1) by (auto simp: build_vm_summary_def get_vm_detail_def Let_def split: sum.splits)
  show ?thesis using h d by (simp add: map_disks_def map_disk_def build_disk_def layout_disk_def)
qed

definition demo_disk :: vim_device where
  "demo_disk = \<lparr>dv_classes = [''VirtualDisk'', ''VirtualDevice''], dv_label = Some ''Hard disk 1'', dv_backing = None,
     dv_capacity_kb = Some 41943040, dv_capacity_bytes = None, dv_mac_address = None, dv_sub_type = None\<rparr>"

definition demo_hardware :: vim_hardware where
  "demo_hardware = \<lparr>vh_num_cpu = Some 2, vh_num_cores_per_socket = Some 1, vh_memory_mb = Some 2048, vh_device = Some [demo_disk]\<rparr>"

definition two_names_vm :: vim_vm where
  "two_names_vm = (bare_vm ''vm-1'' ''web'')\<lparr>vv_layout_disk := Some [Some [''[ds1] web/web.vmdk'']],
     vv_config := Some \<lparr>cf_hardware = Some demo_hardware, cf_annotation = None, cf_firmware = None, cf_boot_options = None\<rparr>\<rparr>"

theorem bootable_volume_has_no_size_witness:
  "map (\<lambda>d. (dm_openstack_size_gb d, dm_bootable d)) (map_disks (projr (build_vm_summary two_names_vm))) = [(0, True), (40, False)] \<and>
   dm_openstack_size_gb (hd (map_disks (projr (build_vm_summary two_names_vm)))) = 0"
proof -
  have ok: "isl (build_vm_summary two_names_vm) = False" by code_simp
  then have b: "build_vm_summary two_names_vm = Inr (projr (build_vm_summary two_names_vm))"
    by (cases "build_vm_summary two_names_vm") auto
  have lay: "vv_layout_disk two_names_vm = Some [Some [''[ds1] web/web.vmdk'']]"
    "layout_files [Some [''[ds1] web/web.vmdk'']] = ''[ds1] web/web.vmdk'' # []" and hw: "hardware_of two_names_vm = Some demo_hardware"
    "vh_device demo_hardware = Some [demo_disk]"
    by (simp_all add: two_names_vm_def layout_files_def hardware_of_def demo_hardware_def)
  have "dm_openstack_size_gb (hd (map_disks (projr (build_vm_summary two_names_vm)))) = 0"
    using bootable_volume_has_no_size [OF b lay hw] by (simp add: demo_disk_def layout_files_def)
  moreover have "map (\<lambda>d. (dm_openstack_size_gb d, dm_bootable d)) (map_disks (projr (build_vm_summary two_names_vm))) = [(0, True), (40, False)]"
    by code_simp
  ultimately show ?thesis by blast
qed

section \<open>An example\<close>

definition demo_env :: "(pyval list, nat) assess_env" where
  "demo_env = \<lparr>ax_vc = (\<lambda>_. demo_vcenter), ax_now_get = (\<lambda>_. 100), ax_now_set = (\<lambda>_. 100), ax_settings = ready_settings, ax_sdk = scripted_sdk\<rparr>"

definition demo_assess_state :: "(pyval list, nat) assess_state" where
  "demo_assess_state = \<lparr>as_inventory = new_inventory new_pool,
     as_mapping = \<lparr>os_connected = False, os_cloud = [], os_api_errors = [], os_api_durations = [],
       mp_flavor_cache = Some [], mp_network_cache = Some [], mp_api_durations = []\<rparr>, as_unsupported = []\<rparr>"

definition demo_task_env :: task_env where
  "demo_task_env = \<lparr>tk_uuid = ''u'', tk_created = 1, tk_started = 2, tk_ended = 3\<rparr>"


end
