(* ===== verification/Parallel_Assessment.thy ===== *)
theory Parallel_Assessment
  imports Vmware_Assessment "HOL-Library.Multiset"
begin

text \<open>
  app/services/vmware/parallel_assessment.py: many machines assessed as coroutines of one event loop.

  The coroutine _evaluate_single has no await point, so it runs as one step; asyncio.as_completed delivers the
  coroutines in some order, which is the argument order, a permutation of the positions of the request. The
  argument timed_out says for the first attempt and the retry of each machine whether asyncio.wait_for gave up
  before the coroutine ran; the first attempt for the machine at position n meets the answers of the outside at
  2 * n, the retry those at 2 * n + 1. The state extends assess_state by the service's dictionaries and the metrics.
\<close>

record single_vm_result =
  sv_vm_id :: string
  sv_vm_name :: string
  sv_status :: string
  sv_compatibility :: "scored_compatibility_result option"
  sv_mapping :: "vm_mapping_result option"
  sv_error_message :: "string option"
  sv_duration_ms :: rat
  sv_evaluated_at :: string

record progress =
  pg_task_id :: string
  pg_total_vms :: int
  pg_completed :: int
  pg_failed :: int
  pg_in_progress :: int
  pg_status :: string

record ('c, 's) parallel_state = "('c, 's) assess_state" +
  pa_tasks :: "(string, progress) dict"
  pa_results :: "(string, single_vm_result list) dict"
  pa_queue_depth :: int
  pa_retries :: int
  pa_timeouts :: int

type_synonym ('c, 's, 'm) parallel_world = "('c, 's, 'm) parallel_state_scheme"

record ('c, 's) parallel_env = "('c, 's) assess_env" +
  px_timed_out :: "nat \<Rightarrow> bool \<times> bool"
  px_duration :: "nat \<Rightarrow> rat"
  px_now :: "nat \<Rightarrow> string"

section \<open>One machine\<close>

definition base_env :: "('c, 's) parallel_env \<Rightarrow> ('c, 's) assess_env" where
  "base_env env = assess_env.truncate env"

definition evaluate_single :: "('c, 's) parallel_env \<Rightarrow> bool \<Rightarrow> nat \<Rightarrow> string \<Rightarrow> (('c, 's, 'm) parallel_world, single_vm_result) act" where
  "evaluate_single env include_mapping n i =
    bindE (assess_one (base_env env) include_mapping (n, i)) (\<lambda>found. retE (case found of
      None \<Rightarrow> \<lparr>sv_vm_id = i, sv_vm_name = [], sv_status = ''failed'', sv_compatibility = None, sv_mapping = None,
         sv_error_message = Some (''VM '' @ quoted i @ '' not found in inventory''), sv_duration_ms = 0, sv_evaluated_at = []\<rparr>
    | Some (vm, c, m) \<Rightarrow> \<lparr>sv_vm_id = vm_id vm, sv_vm_name = vm_name vm, sv_status = ''completed'', sv_compatibility = Some c,
         sv_mapping = m, sv_error_message = None, sv_duration_ms = 0, sv_evaluated_at = px_now env n\<rparr>))"

definition wait_for_result :: "bool \<Rightarrow> ('w, 'a) act \<Rightarrow> ('w, 'a) act" where
  "wait_for_result timed_out m = (if timed_out then raiseE (TimeoutError []) else m)"

definition timeout_result :: "string \<Rightarrow> int \<Rightarrow> string \<Rightarrow> single_vm_result" where
  "timeout_result i timeout_seconds remark =
    \<lparr>sv_vm_id = i, sv_vm_name = [], sv_status = ''timeout'', sv_compatibility = None, sv_mapping = None,
     sv_error_message = Some (''Evaluation timed out after '' @ str_int timeout_seconds @ ''s'' @ remark),
     sv_duration_ms = of_int (timeout_seconds * 1000), sv_evaluated_at = []\<rparr>"

definition count_timeout :: "(('c, 's, 'm) parallel_world, unit) act" where
  "count_timeout = updE (\<lambda>w. w\<lparr>pa_timeouts := pa_timeouts w + 1\<rparr>)"

definition evaluate_one :: "('c, 's) parallel_env \<Rightarrow> bool \<Rightarrow> int \<Rightarrow> nat \<Rightarrow> string \<Rightarrow> (('c, 's, 'm) parallel_world, single_vm_result) act" where
  "evaluate_one env include_mapping timeout_seconds n i =
    tryE (bindE (wait_for_result (fst (px_timed_out env n)) (evaluate_single env include_mapping (2 * n) i))
            (\<lambda>result. retE (result\<lparr>sv_duration_ms := px_duration env n\<rparr>)))
      (\<lambda>exc.
        if exn_name exc = ''TimeoutError'' then thenE count_timeout (retE (timeout_result i timeout_seconds []))
        else thenE (updE (\<lambda>w. w\<lparr>pa_retries := pa_retries w + 1\<rparr>))
          (tryE (bindE (wait_for_result (snd (px_timed_out env n)) (evaluate_single env include_mapping (2 * n + 1) i))
                   (\<lambda>result. retE (result\<lparr>sv_duration_ms := px_duration env n\<rparr>)))
            (\<lambda>exc2.
              if exn_name exc2 = ''TimeoutError'' then thenE count_timeout (retE (timeout_result i timeout_seconds '' (retry)''))
              else retE \<lparr>sv_vm_id = i, sv_vm_name = [], sv_status = ''failed'', sv_compatibility = None, sv_mapping = None,
                sv_error_message = Some (exn_str exc), sv_duration_ms = px_duration env n, sv_evaluated_at = []\<rparr>)))"

section \<open>Many machines\<close>

definition set_progress :: "string \<Rightarrow> (progress \<Rightarrow> progress) \<Rightarrow> (('c, 's, 'm) parallel_world, unit) act" where
  "set_progress tid f = updE (\<lambda>w. case dict_get (pa_tasks w) tid of None \<Rightarrow> w
     | Some p \<Rightarrow> w\<lparr>pa_tasks := dict_set (pa_tasks w) tid (f p)\<rparr>)"

definition set_depth :: "int \<Rightarrow> (('c, 's, 'm) parallel_world, unit) act" where
  "set_depth n = updE (\<lambda>w. w\<lparr>pa_queue_depth := n\<rparr>)"

fun completion_loop :: "('c, 's) parallel_env \<Rightarrow> bool \<Rightarrow> int \<Rightarrow> string \<Rightarrow> string list \<Rightarrow> nat list \<Rightarrow> int \<Rightarrow> int \<Rightarrow> single_vm_result list \<Rightarrow>
    (('c, 's, 'm) parallel_world, int \<times> int \<times> single_vm_result list) act" where
  "completion_loop env inc tmo tid vm_ids [] completed failed results = retE (completed, failed, results)"
| "completion_loop env inc tmo tid vm_ids (n # ns) completed failed results =
    bindE (evaluate_one env inc tmo n (vm_ids ! n)) (\<lambda>single.
      (let completed' = (if sv_status single = ''completed'' then completed + 1 else completed);
           failed' = (if sv_status single = ''completed'' then failed else failed + 1);
           remaining = int (length vm_ids) - completed' - failed'
       in thenE (set_progress tid (\<lambda>p. p\<lparr>pg_completed := completed', pg_failed := failed', pg_in_progress := remaining\<rparr>))
          (thenE (set_depth remaining)
            (completion_loop env inc tmo tid vm_ids ns completed' failed' (results @ [single])))))"

definition finallyE :: "('w, 'a) act \<Rightarrow> ('w \<Rightarrow> 'w) \<Rightarrow> ('w, 'a) act" where [effect_defs]:
  "finallyE m f w = (case m w of (r, w') \<Rightarrow> (r, f w'))"

definition assess_parallel :: "('c, 's) parallel_env \<Rightarrow> string \<Rightarrow> string list \<Rightarrow> bool \<Rightarrow> int \<Rightarrow> nat list \<Rightarrow> task_env \<Rightarrow>
    (('c, 's, 'm) parallel_world tracked_world, progress) act" where
  "assess_parallel env task_id vm_ids include_mapping timeout_seconds order tenv =
    thenE (serviceE (updE (\<lambda>w. w\<lparr>pa_tasks := dict_set (pa_tasks w) task_id
       \<lparr>pg_task_id = task_id, pg_total_vms = int (length vm_ids), pg_completed = 0, pg_failed = 0,
        pg_in_progress = int (length vm_ids), pg_status = ''running''\<rparr>,
       pa_results := dict_set (pa_results w) task_id [], pa_queue_depth := int (length vm_ids)\<rparr>)))
    (bindE (tasksE (create_task (tk_uuid tenv) (tk_created tenv) ''vmware_parallel_assessment'' ''assessment'' (Some (join_ids vm_ids)))) (\<lambda>op_task.
    thenE (tasksE (update_task (tk_started tenv) (os_id op_task) ''running'' None None))
    (thenE (finallyE
       (bindE (serviceE (completion_loop env include_mapping timeout_seconds task_id vm_ids order 0 0 [])) (\<lambda>(completed, failed, results).
          (let final_status = (if failed = 0 then ''completed'' else ''completed_with_errors'') in
           thenE (serviceE (set_progress task_id (\<lambda>p. p\<lparr>pg_status := final_status, pg_completed := completed, pg_failed := failed, pg_in_progress := 0\<rparr>)))
           (thenE (serviceE (updE (\<lambda>w. w\<lparr>pa_results := dict_set (pa_results w) task_id results\<rparr>)))
           (thenE (tasksE (update_task (tk_ended tenv) (os_id op_task) (if final_status = ''completed'' then ''succeeded'' else ''failed'') None None))
             (retE ()))))))
       (\<lambda>wt. ((fst wt)\<lparr>pa_queue_depth := 0\<rparr>, snd wt)))
    (bindE (getE (\<lambda>wt. dict_get (pa_tasks (fst wt)) task_id)) (\<lambda>p. case p of
       Some pr \<Rightarrow> retE pr | None \<Rightarrow> raiseE (PyException ''KeyError'' task_id))))))"

definition get_progress :: "string \<Rightarrow> ('c, 's, 'm) parallel_world \<Rightarrow> progress option" where
  "get_progress task_id w = dict_get (pa_tasks w) task_id"

definition get_results :: "string \<Rightarrow> ('c, 's, 'm) parallel_world \<Rightarrow> single_vm_result list option" where
  "get_results task_id w = dict_get (pa_results w) task_id"

text \<open>The endpoints (assessment.py). The dependency get_parallel_assessment_service (app/api/deps/services.py) makes
  a new service for every request, with empty dictionaries; the metrics are global.\<close>

definition get_parallel_assessment_service :: "('c, 's, 'm) parallel_world \<Rightarrow> ('c, 's, 'm) parallel_world" where
  "get_parallel_assessment_service w = w\<lparr>pa_tasks := [], pa_results := []\<rparr>"

definition get_parallel_progress :: "string \<Rightarrow> (('c, 's, 'm) parallel_world, progress) act" where
  "get_parallel_progress task_id =
    thenE (updE get_parallel_assessment_service)
    (bindE (getE (get_progress task_id)) (\<lambda>p. case p of
       None \<Rightarrow> raiseE (HTTPException 404 (''Parallel task '' @ quoted task_id @ '' not found''))
     | Some progress \<Rightarrow> retE progress))"

section \<open>Every machine is accounted for\<close>

lemma evaluate_one_returns: "\<exists>single w'. evaluate_one env inc tmo n i w = (Inr single, w')"
  by (auto simp: evaluate_one_def effect_defs count_timeout_def split: prod.split sum.split)

definition tally :: "single_vm_result list \<Rightarrow> int" where
  "tally rs = int (length (filter (\<lambda>r. sv_status r = ''completed'') rs))"

lemma tally_simps [simp]:
  "tally [] = 0" "tally (rs @ [r]) = tally rs + (if sv_status r = ''completed'' then 1 else 0)"
  by (simp_all add: tally_def)

text \<open>The services below leave the dictionaries of the parallel service alone.\<close>

lemma keeps_lifts [keeps_intros]:
  "(\<And>w i. P w \<Longrightarrow> P (w\<lparr>as_inventory := i\<rparr>)) \<Longrightarrow> keeps P (inventoryE m)"
  "(\<And>w i. P w \<Longrightarrow> P (w\<lparr>as_mapping := i\<rparr>)) \<Longrightarrow> keeps P (mappingE m')"
  "(\<And>w i. P w \<Longrightarrow> P (w\<lparr>as_unsupported := i\<rparr>)) \<Longrightarrow> keeps P (compatibilityE m'')"
  by (simp_all add: keeps_def inventoryE_def mappingE_def compatibilityE_def split: prod.split)

lemma assess_one_keeps:
  assumes "\<And>w i. P w \<Longrightarrow> P (w\<lparr>as_inventory := i\<rparr>)" "\<And>w i. P w \<Longrightarrow> P (w\<lparr>as_mapping := i\<rparr>)"
    "\<And>w i. P w \<Longrightarrow> P (w\<lparr>as_unsupported := i\<rparr>)"
  shows "keeps P (assess_one env inc ni)"
  unfolding assess_one_def lookup_vm_def by (intro keeps_intros assms)

lemma evaluate_one_keeps:
  assumes "\<And>w i. P w \<Longrightarrow> P (w\<lparr>as_inventory := i\<rparr>)" "\<And>w i. P w \<Longrightarrow> P (w\<lparr>as_mapping := i\<rparr>)"
    "\<And>w i. P w \<Longrightarrow> P (w\<lparr>as_unsupported := i\<rparr>)" "\<And>w i. P w \<Longrightarrow> P (w\<lparr>pa_timeouts := i\<rparr>)" "\<And>w i. P w \<Longrightarrow> P (w\<lparr>pa_retries := i\<rparr>)"
  shows "keeps P (evaluate_one env inc tmo n i)"
  unfolding evaluate_one_def evaluate_single_def wait_for_result_def count_timeout_def
  by (intro keeps_intros assms assess_one_keeps)

lemma evaluate_one_frame:
  assumes "evaluate_one env inc tmo n i w = (r, w')"
  shows "pa_tasks w' = pa_tasks w \<and> pa_results w' = pa_results w"
proof -
  have "keeps (\<lambda>v. pa_tasks v = pa_tasks w \<and> pa_results v = pa_results w) (evaluate_one env inc tmo n i)"
    by (rule evaluate_one_keeps) auto
  from keepsD [OF this _ assms] show ?thesis by simp
qed

lemma evaluate_single_id:
  "evaluate_single env inc n i w = (Inr single, w') \<Longrightarrow> sv_vm_id single = i"
  using assess_one_Some(1) by (fastforce simp: evaluate_single_def bindE_Inr_iff retE_def split: option.splits prod.splits)

lemma evaluate_one_id: "evaluate_one env inc tmo n i w = (Inr single, w') \<Longrightarrow> sv_vm_id single = i"
  by (auto simp: evaluate_one_def effect_defs count_timeout_def wait_for_result_def timeout_result_def
      split: prod.splits sum.splits if_splits dest: evaluate_single_id)

text \<open>The progress entry of a task while it runs: what is counted and what remains.\<close>

definition counted :: "string \<Rightarrow> int \<Rightarrow> single_vm_result list \<Rightarrow> ('c, 's, 'm) parallel_world \<Rightarrow> bool" where
  "counted tid sz results w \<longleftrightarrow> dict_get (pa_tasks w) tid = Some
     \<lparr>pg_task_id = tid, pg_total_vms = sz, pg_completed = tally results, pg_failed = int (length results) - tally results,
      pg_in_progress = sz - int (length results), pg_status = ''running''\<rparr>"

lemma completion_loop_spec:
  assumes "counted tid (int (length ids)) results w"
  shows "\<exists>rs w'. completion_loop env inc tmo tid ids ns (tally results) (int (length results) - tally results) results w =
      (Inr (tally (results @ rs), int (length (results @ rs)) - tally (results @ rs), results @ rs), w') \<and>
      map sv_vm_id rs = map ((!) ids) ns \<and> counted tid (int (length ids)) (results @ rs) w' \<and> pa_results w' = pa_results w"
  using assms
proof (induction ns arbitrary: results w)
  case (Cons n ns)
  obtain single w1 where e: "evaluate_one env inc tmo n (ids ! n) w = (Inr single, w1)" using evaluate_one_returns by blast
  note frame = evaluate_one_frame [OF e]
  define p where "p = \<lparr>pg_task_id = tid, pg_total_vms = int (length ids), pg_completed = tally (results @ [single]),
     pg_failed = int (length (results @ [single])) - tally (results @ [single]),
     pg_in_progress = int (length ids) - int (length (results @ [single])), pg_status = ''running''\<rparr>"
  define w2 where "w2 = w1\<lparr>pa_tasks := dict_set (pa_tasks w1) tid p, pa_queue_depth := int (length ids) - int (length (results @ [single]))\<rparr>"
  have c: "counted tid (int (length ids)) (results @ [single]) w2"
    by (simp add: counted_def w2_def p_def dict_simps)
  have step: "completion_loop env inc tmo tid ids (n # ns) (tally results) (int (length results) - tally results) results w =
     completion_loop env inc tmo tid ids ns (tally (results @ [single])) (int (length (results @ [single])) - tally (results @ [single])) (results @ [single]) w2"
    using e Cons.prems frame
    by (auto simp: bindE_def thenE_def updE_def set_progress_def set_depth_def Let_def counted_def w2_def p_def algebra_simps)
  obtain rs w' where r: "completion_loop env inc tmo tid ids ns (tally (results @ [single])) (int (length (results @ [single])) - tally (results @ [single])) (results @ [single]) w2 =
      (Inr (tally ((results @ [single]) @ rs), int (length ((results @ [single]) @ rs)) - tally ((results @ [single]) @ rs), (results @ [single]) @ rs), w')"
      "map sv_vm_id rs = map ((!) ids) ns" "counted tid (int (length ids)) ((results @ [single]) @ rs) w'" "pa_results w' = pa_results w2"
    using Cons.IH [OF c] by blast
  show ?case using r step evaluate_one_id [OF e] frame
    by (intro exI [of _ "single # rs"] exI [of _ w']) (simp add: w2_def)
qed (simp add: retE_def)

lemma permuted_ids:
  assumes "mset order = mset [0..<length ids]"
  shows "mset (map ((!) ids) order) = mset ids"
proof -
  have "mset (map ((!) ids) order) = image_mset ((!) ids) (mset [0..<length ids])" by (simp only: mset_map assms)
  also have "\<dots> = mset (map ((!) ids) [0..<length ids])" by simp
  finally show ?thesis by (simp add: map_nth)
qed

definition started :: "string \<Rightarrow> nat \<Rightarrow> ('c, 's, 'm) parallel_world \<Rightarrow> ('c, 's, 'm) parallel_world" where
  "started tid n w = w\<lparr>pa_tasks := dict_set (pa_tasks w) tid \<lparr>pg_task_id = tid, pg_total_vms = int n, pg_completed = 0,
      pg_failed = 0, pg_in_progress = int n, pg_status = ''running''\<rparr>,
    pa_results := dict_set (pa_results w) tid [], pa_queue_depth := int n\<rparr>"

lemma started_counted: "counted tid (int n) [] (started tid n w)"
  by (simp add: counted_def started_def dict_simps)

text \<open>Whatever the order in which the coroutines complete, whoever polls the progress of a running parallel assessment
  after k of them sees counts that add up: completed and failed together k, and with those in progress the total.\<close>

theorem parallel_progress_adds_up:
  "\<exists>c f rs w' p. completion_loop env inc tmo tid ids (take k order) 0 0 [] (started tid (length ids) w) = (Inr (c, f, rs), w') \<and>
     get_progress tid w' = Some p \<and> pg_completed p = c \<and> pg_failed p = f \<and> c + f = int (length (take k order)) \<and> 0 \<le> c \<and> 0 \<le> f \<and>
     pg_completed p + pg_failed p + pg_in_progress p = pg_total_vms p \<and> pg_total_vms p = int (length ids)"
proof -
  obtain rs w' where loop: "completion_loop env inc tmo tid ids (take k order) 0 0 [] (started tid (length ids) w) =
      (Inr (tally rs, int (length rs) - tally rs, rs), w')" and ids: "map sv_vm_id rs = map ((!) ids) (take k order)"
    and c: "counted tid (int (length ids)) rs w'"
    using completion_loop_spec [OF started_counted, where ns = "take k order"] by fastforce
  have "length rs = length (take k order)" using arg_cong [OF ids, of length] by simp
  moreover have "tally rs \<le> int (length rs)" "0 \<le> tally rs" by (simp_all add: tally_def)
  ultimately show ?thesis using loop c by (simp add: counted_def get_progress_def)
qed

text \<open>C15: A parallel assessment always returns: one result for each requested machine, whatever its outcome and in any
  order of completion; the counts of the final progress are those of the results, none is in progress, and the queue
  depth is back to 0. The operation task is succeeded if no machine failed and failed otherwise.\<close>

theorem parallel_assessment_accounts:
  assumes "sql_get ot_id (tk_uuid tenv) t = None" "mset order = mset [0..<length ids]"
  shows "\<exists>p w' rs. assess_parallel env tid ids inc tmo order tenv (w, t) =
      (Inr p, w', t @ [finished_row tenv ''vmware_parallel_assessment'' ''assessment'' (Some (join_ids ids))
         (if pg_failed p = 0 then ''succeeded'' else ''failed'') None None]) \<and>
    get_progress tid w' = Some p \<and> get_results tid w' = Some rs \<and> mset (map sv_vm_id rs) = mset ids \<and>
    p = \<lparr>pg_task_id = tid, pg_total_vms = int (length ids), pg_completed = tally rs, pg_failed = int (length ids) - tally rs,
         pg_in_progress = 0, pg_status = (if tally rs = int (length ids) then ''completed'' else ''completed_with_errors'')\<rparr> \<and>
    pa_queue_depth w' = 0"
proof -
  obtain rs w1 where loop: "completion_loop env inc tmo tid ids order 0 0 [] (started tid (length ids) w) =
      (Inr (tally rs, int (length rs) - tally rs, rs), w1)" and ids: "map sv_vm_id rs = map ((!) ids) order"
    and c: "counted tid (int (length ids)) rs w1"
    using completion_loop_spec [OF started_counted, where ns = order] by fastforce
  have m: "mset (map sv_vm_id rs) = mset ids" using permuted_ids [OF assms(2)] by (simp add: ids)
  then have len: "length rs = length ids" using size_mset by (metis length_map)
  let ?p = "\<lparr>pg_task_id = tid, pg_total_vms = int (length ids), pg_completed = tally rs, pg_failed = int (length ids) - tally rs,
         pg_in_progress = 0, pg_status = (if tally rs = int (length ids) then ''completed'' else ''completed_with_errors'')\<rparr>"
  let ?w = "w1\<lparr>pa_tasks := dict_set (pa_tasks w1) tid ?p, pa_results := dict_set (pa_results w1) tid rs, pa_queue_depth := 0\<rparr>"
  have "assess_parallel env tid ids inc tmo order tenv (w, t) =
      (Inr ?p, ?w, t @ [finished_row tenv ''vmware_parallel_assessment'' ''assessment'' (Some (join_ids ids))
         (if pg_failed ?p = 0 then ''succeeded'' else ''failed'') None None])"
    using assms(1) loop c len
    by (auto simp: assess_parallel_def bindE_def thenE_def serviceE_def tasksE_def updE_def retE_def getE_def finallyE_def started_def
        create_task_def sql_add_def serialize_task_def update_task_last finished_row_def apply_update_def set_progress_def counted_def
        Let_def dict_simps)
  then show ?thesis using m by (intro exI [of _ ?p] exI [of _ ?w] exI [of _ rs]) (simp add: get_progress_def get_results_def dict_simps)
qed

definition demo_parallel_env :: "(pyval list, nat) parallel_env" where
  "demo_parallel_env = \<lparr>ax_vc = (\<lambda>_. demo_vcenter), ax_now_get = (\<lambda>_. 100), ax_now_set = (\<lambda>_. 100), ax_settings = ready_settings,
     ax_sdk = scripted_sdk, px_timed_out = (\<lambda>n. (n = 1, False)), px_duration = (\<lambda>_. 1), px_now = (\<lambda>_. ''now'')\<rparr>"

definition demo_parallel_state :: "(pyval list, nat) parallel_state" where
  "demo_parallel_state = assess_state.extend demo_assess_state
     \<lparr>pa_tasks = [], pa_results = [], pa_queue_depth = 0, pa_retries = 0, pa_timeouts = 0\<rparr>"

theorem parallel_assessment_accounts_witness:
  "\<exists>p. fst (assess_parallel demo_parallel_env ''t'' [''vm-1'', ''vm-9''] True 300 [1, 0] demo_task_env (demo_parallel_state, [])) = Inr p \<and>
     pg_in_progress p = 0 \<and> pg_total_vms p = 2"
proof -
  have "mset [1, 0] = mset [0..<length [''vm-1'', ''vm-9'']]" by (simp add: upt_rec numeral_2_eq_2)
  from parallel_assessment_accounts [where t = "[]", OF _ this, of demo_task_env demo_parallel_env "''t''" True 300 demo_parallel_state]
  show ?thesis by (auto simp: sql_get_def)
qed

text \<open>The progress of a parallel assessment cannot be read: a request for it is answered with 404 for every task,
  also for the one whose id an assessment has just returned, because every request gets a service of its own.\<close>

theorem parallel_progress_never_found:
  "fst (get_parallel_progress task_id (fst (snd (assess_parallel env tid ids inc tmo order tenv (w, t))))) =
     Inl (HTTPException 404 (''Parallel task '' @ quoted task_id @ '' not found''))"
  by (simp add: get_parallel_progress_def get_parallel_assessment_service_def get_progress_def effect_defs)

end
