(* ===== verification/Assessment_Store.thy ===== *)
theory Assessment_Store
  imports Sql_Table Py_Datetime Py_Float
begin

text \<open>
  app/services/vmware/assessment_persistence.py and app/models/migration_assessment.py: the tables of
  persisted assessments and plans. A plan refers to its assessment by a foreign key with ON DELETE CASCADE.

  JSON columns hold values of an arbitrary type 'j. What SQLAlchemy does when a relationship attribute (plans,
  assessment) is read is the argument load, applied to the rows the relationship stands for: the rows, or an
  exception if the session cannot load them at that point.
\<close>

record 'j migration_assessment =
  ma_id :: string
  ma_vm_id :: string
  ma_vm_name :: string
  ma_vm_power_state :: "string option"
  ma_vm_guest_os :: "string option"
  ma_compatible :: bool
  ma_compatibility_score :: rat
  ma_compatibility_detail :: "'j option"
  ma_flavor_match :: "'j option"
  ma_network_mappings :: "'j option"
  ma_disk_mappings :: "'j option"
  ma_mapping_score :: rat
  ma_source_vm_metadata :: "'j option"
  ma_issues :: "string list option"
  ma_warnings :: "string list option"
  ma_assessed_at :: timestamp
  ma_expires_at :: "timestamp option"

record 'j migration_plan =
  mp_id :: string
  mp_assessment_id :: string
  mp_vm_id :: string
  mp_priority :: int
  mp_target_flavor_id :: "string option"
  mp_target_flavor_name :: "string option"
  mp_target_network_ids :: "'j option"
  mp_target_volume_types :: "'j option"
  mp_estimated_downtime_minutes :: int
  mp_estimated_total_minutes :: int
  mp_steps :: "'j option"
  mp_status :: string
  mp_notes :: "string option"
  mp_created_at :: timestamp
  mp_updated_at :: timestamp

record 'j assessment_db =
  ad_assessments :: "'j migration_assessment list"
  ad_plans :: "'j migration_plan list"

section \<open>Writing\<close>

text \<open>The parameters of save_assessment, without the lifetime, which the body does not use.\<close>

record 'j assessment_data =
  sa_vm_id :: string
  sa_vm_name :: string
  sa_compatible :: bool
  sa_compatibility_score :: rat
  sa_vm_power_state :: "string option"
  sa_vm_guest_os :: "string option"
  sa_compatibility_detail :: "'j option"
  sa_flavor_match :: "'j option"
  sa_network_mappings :: "'j option"
  sa_disk_mappings :: "'j option"
  sa_mapping_score :: rat
  sa_source_vm_metadata :: "'j option"
  sa_issues :: "string list option"
  sa_warnings :: "string list option"

definition save_assessment :: "string \<Rightarrow> timestamp \<Rightarrow> timestamp \<Rightarrow> int \<Rightarrow> 'j assessment_data \<Rightarrow>
    ('j assessment_db, 'j migration_assessment) act" where
  "save_assessment uuid now server_now ttl_minutes a db =
    (let record =
      \<lparr>ma_id = uuid, ma_vm_id = sa_vm_id a, ma_vm_name = sa_vm_name a, ma_vm_power_state = sa_vm_power_state a,
       ma_vm_guest_os = sa_vm_guest_os a, ma_compatible = sa_compatible a, ma_compatibility_score = sa_compatibility_score a,
       ma_compatibility_detail = sa_compatibility_detail a, ma_flavor_match = sa_flavor_match a,
       ma_network_mappings = sa_network_mappings a, ma_disk_mappings = sa_disk_mappings a, ma_mapping_score = sa_mapping_score a,
       ma_source_vm_metadata = sa_source_vm_metadata a, ma_issues = sa_issues a, ma_warnings = sa_warnings a,
       ma_assessed_at = server_now, ma_expires_at = Some (replace_time 23 59 0 now)\<rparr>
     in (Inr record, db\<lparr>ad_assessments := sql_add record (ad_assessments db)\<rparr>))"

record 'j plan_data =
  sp_assessment_id :: string
  sp_vm_id :: string
  sp_priority :: int
  sp_target_flavor_id :: "string option"
  sp_target_flavor_name :: "string option"
  sp_target_network_ids :: "'j option"
  sp_target_volume_types :: "'j option"
  sp_estimated_downtime_minutes :: int
  sp_estimated_total_minutes :: int
  sp_steps :: "'j option"
  sp_notes :: "string option"

definition save_plan :: "string \<Rightarrow> timestamp \<Rightarrow> 'j plan_data \<Rightarrow> ('j assessment_db, 'j migration_plan) act" where
  "save_plan uuid server_now p db =
    (if sql_get ma_id (sp_assessment_id p) (ad_assessments db) = None
     then (Inl (PyException ''IntegrityError'' ''migration_plans.assessment_id''), db)
     else (let record =
       \<lparr>mp_id = uuid, mp_assessment_id = sp_assessment_id p, mp_vm_id = sp_vm_id p, mp_priority = sp_priority p,
        mp_target_flavor_id = sp_target_flavor_id p, mp_target_flavor_name = sp_target_flavor_name p,
        mp_target_network_ids = sp_target_network_ids p, mp_target_volume_types = sp_target_volume_types p,
        mp_estimated_downtime_minutes = sp_estimated_downtime_minutes p, mp_estimated_total_minutes = sp_estimated_total_minutes p,
        mp_steps = sp_steps p, mp_status = ''pending'', mp_notes = sp_notes p, mp_created_at = server_now, mp_updated_at = server_now\<rparr>
      in (Inr record, db\<lparr>ad_plans := sql_add record (ad_plans db)\<rparr>)))"

definition delete_assessment :: "string \<Rightarrow> ('j assessment_db, bool) act" where
  "delete_assessment i db = (case sql_get ma_id i (ad_assessments db) of
     None \<Rightarrow> (Inr False, db)
   | Some _ \<Rightarrow> (Inr True, db\<lparr>ad_assessments := sql_delete ma_id i (ad_assessments db),
                            ad_plans := filter (\<lambda>p. mp_assessment_id p \<noteq> i) (ad_plans db)\<rparr>))"

section \<open>Reading\<close>

record assessment_summary =
  pa_id :: string
  pa_vm_id :: string
  pa_vm_name :: string
  pa_compatible :: bool
  pa_score :: rat
  pa_assessed_at :: string

record plan_summary =
  pp_id :: string
  pp_vm_id :: string
  pp_priority :: int
  pp_status :: string
  pp_estimated_total_minutes :: int
  pp_created_at :: string

definition to_summary :: "'j migration_assessment \<Rightarrow> assessment_summary" where
  "to_summary r = \<lparr>pa_id = ma_id r, pa_vm_id = ma_vm_id r, pa_vm_name = ma_vm_name r, pa_compatible = ma_compatible r,
     pa_score = ma_compatibility_score r, pa_assessed_at = isoformat (ma_assessed_at r)\<rparr>"

definition to_plan_summary :: "'j migration_plan \<Rightarrow> plan_summary" where
  "to_plan_summary p = \<lparr>pp_id = mp_id p, pp_vm_id = mp_vm_id p, pp_priority = mp_priority p, pp_status = mp_status p,
     pp_estimated_total_minutes = mp_estimated_total_minutes p, pp_created_at = isoformat (mp_created_at p)\<rparr>"

record 'j assessment_detail = assessment_summary +
  pa_compatibility_detail :: "'j option"
  pa_flavor_match :: "'j option"
  pa_network_mappings :: "'j option"
  pa_disk_mappings :: "'j option"
  pa_source_vm_metadata :: "'j option"
  pa_issues :: "string list option"
  pa_warnings :: "string list option"
  pa_plans :: "plan_summary list"

record 'j plan_detail = plan_summary +
  pp_assessment_id :: string
  pp_target_flavor_id :: "string option"
  pp_target_flavor_name :: "string option"
  pp_target_network_ids :: "'j option"
  pp_target_volume_types :: "'j option"
  pp_estimated_downtime_minutes :: int
  pp_steps :: "'j option"
  pp_notes :: "string option"
  pp_updated_at :: string
  pp_assessment :: "assessment_summary option"

definition to_detail :: "'j migration_assessment \<Rightarrow> 'j migration_plan list \<Rightarrow> 'j assessment_detail" where
  "to_detail r plans = assessment_summary.extend (to_summary r)
     \<lparr>pa_compatibility_detail = ma_compatibility_detail r, pa_flavor_match = ma_flavor_match r,
      pa_network_mappings = ma_network_mappings r, pa_disk_mappings = ma_disk_mappings r,
      pa_source_vm_metadata = ma_source_vm_metadata r, pa_issues = ma_issues r, pa_warnings = ma_warnings r,
      pa_plans = map to_plan_summary plans\<rparr>"

definition to_plan_detail :: "'j migration_plan \<Rightarrow> 'j migration_assessment option \<Rightarrow> 'j plan_detail" where
  "to_plan_detail p assessment = plan_summary.extend (to_plan_summary p)
     \<lparr>pp_assessment_id = mp_assessment_id p, pp_target_flavor_id = mp_target_flavor_id p,
      pp_target_flavor_name = mp_target_flavor_name p, pp_target_network_ids = mp_target_network_ids p,
      pp_target_volume_types = mp_target_volume_types p, pp_estimated_downtime_minutes = mp_estimated_downtime_minutes p,
      pp_steps = mp_steps p, pp_notes = mp_notes p, pp_updated_at = isoformat (mp_updated_at p),
      pp_assessment = map_option to_summary assessment\<rparr>"

definition get_assessment :: "('j migration_plan list \<Rightarrow> exn + 'j migration_plan list) \<Rightarrow> string \<Rightarrow>
    ('j assessment_db, 'j assessment_detail option) act" where
  "get_assessment load i db = (case sql_get ma_id i (ad_assessments db) of
     None \<Rightarrow> (Inr None, db)
   | Some r \<Rightarrow> (case load (filter (\<lambda>p. mp_assessment_id p = i) (ad_plans db)) of
        Inl e \<Rightarrow> (Inl e, db) | Inr plans \<Rightarrow> (Inr (Some (to_detail r plans)), db)))"

definition get_plan :: "('j migration_assessment option \<Rightarrow> exn + 'j migration_assessment option) \<Rightarrow> string \<Rightarrow>
    ('j assessment_db, 'j plan_detail option) act" where
  "get_plan load i db = (case sql_get mp_id i (ad_plans db) of
     None \<Rightarrow> (Inr None, db)
   | Some p \<Rightarrow> (case load (sql_get ma_id (mp_assessment_id p) (ad_assessments db)) of
        Inl e \<Rightarrow> (Inl e, db) | Inr a \<Rightarrow> (Inr (Some (to_plan_detail p a)), db)))"

definition sql_offset :: "int \<Rightarrow> 'r list \<Rightarrow> 'r list" where
  "sql_offset n rows = drop (nat n) rows"

definition list_assessments :: "int \<Rightarrow> int \<Rightarrow> bool option \<Rightarrow> 'j assessment_db \<Rightarrow> assessment_summary list" where
  "list_assessments limit offset compatible_only db =
    map to_summary (sql_limit limit (sql_offset offset (order_desc ma_assessed_at
      (filter (\<lambda>r. case compatible_only of None \<Rightarrow> True | Some c \<Rightarrow> ma_compatible r = c) (ad_assessments db)))))"

definition list_plans :: "string option \<Rightarrow> int \<Rightarrow> int \<Rightarrow> 'j assessment_db \<Rightarrow> plan_summary list" where
  "list_plans assessment_id limit offset db =
    map to_plan_summary (sql_limit limit (sql_offset offset (order_desc mp_created_at
      (filter (\<lambda>p. str_truthy assessment_id \<longrightarrow> Some (mp_assessment_id p) = assessment_id) (ad_plans db)))))"

section \<open>Pages of a query\<close>

text \<open>What a client that reads page after page relies on, and what it gets.\<close>

locale paged_query =
  fixes page :: "int \<Rightarrow> int \<Rightarrow> 'r list" and all :: "'r list"
  assumes page_def: "0 \<le> limit \<Longrightarrow> 0 \<le> offset \<Longrightarrow> page limit offset = take (nat limit) (drop (nat offset) all)"
begin

lemma pages_complete:
  assumes "0 < n"
  shows "concat (map (\<lambda>k. page n (int k * n)) [0..<m]) = take (nat n * m) all"
proof (induction m)
  case (Suc m)
  have "page n (int m * n) = take (nat n) (drop (nat n * m) all)"
    using assms by (simp add: page_def nat_mult_distrib mult.commute)
  then show ?case using Suc by (simp add: take_add [symmetric] add.commute)
qed simp

lemma pages_cover:
  assumes "0 < n" "length all \<le> nat n * m"
  shows "concat (map (\<lambda>k. page n (int k * n)) [0..<m]) = all"
  using pages_complete [OF assms(1), of m] assms(2) by simp

end

interpretation assessment_pages: paged_query "\<lambda>limit offset. list_assessments limit offset compatible_only db"
  "map to_summary (order_desc ma_assessed_at (filter (\<lambda>r. case compatible_only of None \<Rightarrow> True | Some c \<Rightarrow> ma_compatible r = c) (ad_assessments db)))"
  by unfold_locales (simp add: list_assessments_def sql_limit_def sql_offset_def take_map drop_map)

interpretation plan_pages: paged_query "\<lambda>limit offset. list_plans assessment_id limit offset db"
  "map to_plan_summary (order_desc mp_created_at (filter (\<lambda>p. str_truthy assessment_id \<longrightarrow> Some (mp_assessment_id p) = assessment_id) (ad_plans db)))"
  by unfold_locales (simp add: list_plans_def sql_limit_def sql_offset_def take_map drop_map)

interpretation assessments: keyed_table ma_id "sql_get ma_id" sql_add "sql_update ma_id" "pk_unique ma_id"
  by (rule sql_keyed_table)

interpretation plans: keyed_table mp_id "sql_get mp_id" sql_add "sql_update mp_id" "pk_unique mp_id"
  by (rule sql_keyed_table)

section \<open>Reachable tables\<close>

inductive assessment_tables :: "'j assessment_db \<Rightarrow> bool" where
  tables_empty: "assessment_tables \<lparr>ad_assessments = [], ad_plans = []\<rparr>"
| assessment_saved: "assessment_tables db \<Longrightarrow> sql_get ma_id uuid (ad_assessments db) = None \<Longrightarrow>
    assessment_tables (snd (save_assessment uuid now server_now ttl a db))"
| plan_saved: "assessment_tables db \<Longrightarrow> sql_get mp_id uuid (ad_plans db) = None \<Longrightarrow>
    assessment_tables (snd (save_plan uuid server_now p db))"
| assessment_deleted: "assessment_tables db \<Longrightarrow> assessment_tables (snd (delete_assessment i db))"

definition references_ok :: "'j assessment_db \<Rightarrow> bool" where
  "references_ok db \<longleftrightarrow> pk_unique ma_id (ad_assessments db) \<and> pk_unique mp_id (ad_plans db) \<and>
     (\<forall>p \<in> set (ad_plans db). mp_assessment_id p \<in> ma_id ` set (ad_assessments db))"

lemma save_assessment_ok:
  "references_ok db \<Longrightarrow> sql_get ma_id uuid (ad_assessments db) = None \<Longrightarrow> references_ok (snd (save_assessment uuid now server_now ttl a db))"
  by (auto simp: references_ok_def save_assessment_def Let_def assessments.wf_add) (auto simp: sql_add_def)

lemma save_plan_ok:
  assumes "references_ok db" "sql_get mp_id uuid (ad_plans db) = None"
  shows "references_ok (snd (save_plan uuid server_now p db))"
  using assms by (auto simp: references_ok_def save_plan_def Let_def plans.wf_add sql_get_None_iff [of ma_id]) (auto simp: sql_add_def)

lemma delete_assessment_ok: "references_ok db \<Longrightarrow> references_ok (snd (delete_assessment i db))"
  by (auto simp: references_ok_def delete_assessment_def pk_unique_def sql_delete_def distinct_map_filter split: option.split)


text \<open>Reading the persisted assessments page by page, with any positive page size, yields every matching assessment
  exactly once, newest first.\<close>

theorem assessment_pages_cover:
  assumes "0 < n" "length (ad_assessments db) \<le> nat n * m"
  shows "concat (map (\<lambda>k. list_assessments n (int k * n) c db) [0..<m]) =
    map to_summary (order_desc ma_assessed_at (filter (\<lambda>r. case c of None \<Rightarrow> True | Some b \<Rightarrow> ma_compatible r = b) (ad_assessments db)))"
proof (rule assessment_pages.pages_cover [OF assms(1)])
  show "length (map to_summary (order_desc ma_assessed_at (filter (\<lambda>r. case c of None \<Rightarrow> True | Some b \<Rightarrow> ma_compatible r = b)
      (ad_assessments db)))) \<le> nat n * m"
    unfolding length_map length_order_desc using assms(2) length_filter_le by (rule order.trans [rotated])
qed

text \<open>The lifetime passed to save_assessment has no effect: the expiry is 23:59 of the day (in UTC) on which the
  assessment is saved, so at most a day ahead, and already past for an assessment saved in the last minute of the day.\<close>

theorem assessment_expiry_ignores_ttl:
  "fst (save_assessment uuid now server_now ttl a db) = fst (save_assessment uuid now server_now ttl' a db) \<and>
   (\<exists>e. ma_expires_at (projr (fst (save_assessment uuid now server_now ttl a db))) = Some e \<and>
      e div us_per_day = now div us_per_day \<and> e - now < us_per_day \<and> (e < now \<longleftrightarrow> 86340000000 < now mod us_per_day))"
proof -
  have e: "replace_time 23 59 0 now = now div us_per_day * us_per_day + 86340000000" by (simp add: replace_time_def)
  have m: "now = now div us_per_day * us_per_day + now mod us_per_day" by simp
  have b: "0 \<le> now mod us_per_day" by simp
  have "replace_time 23 59 0 now div us_per_day = now div us_per_day" by (rule replace_time_same_day) simp_all
  moreover have "replace_time 23 59 0 now - now < us_per_day" using e m b by linarith
  moreover have "replace_time 23 59 0 now < now \<longleftrightarrow> 86340000000 < now mod us_per_day" using e m by linarith
  ultimately show ?thesis by (simp add: save_assessment_def Let_def)
qed


definition demo_data :: "nat assessment_data" where
  "demo_data = \<lparr>sa_vm_id = ''vm-1'', sa_vm_name = ''web'', sa_compatible = True, sa_compatibility_score = 1, sa_vm_power_state = None,
     sa_vm_guest_os = None, sa_compatibility_detail = None, sa_flavor_match = None, sa_network_mappings = None, sa_disk_mappings = None,
     sa_mapping_score = 0, sa_source_vm_metadata = None, sa_issues = None, sa_warnings = None\<rparr>"

definition demo_db :: "nat assessment_db" where
  "demo_db = snd (save_assessment ''a1'' 5 5 1440 demo_data \<lparr>ad_assessments = [], ad_plans = []\<rparr>)"


theorem assessment_pages_cover_witness:
  "map pa_id (list_assessments 1 0 None demo_db @ list_assessments 1 1 None demo_db) = [''a1'']"
proof -
  have "length (ad_assessments demo_db) \<le> nat 1 * 2" by (simp add: demo_db_def save_assessment_def Let_def sql_add_def)
  from assessment_pages_cover [OF _ this, of None] show ?thesis
    by (simp add: numeral_2_eq_2 demo_db_def save_assessment_def Let_def sql_add_def order_desc_def to_summary_def)
qed


end
