(* ===== verification/Openstack_Services.thy ===== *)
theory Openstack_Services
  imports Openstack_Connection Openstack_Cache Task_Tracking
begin

text \<open>
  The OpenStack resource services (app/services/openstack: compute, network, volume, image, flavor, router,
  security group and keypair service). Each runs operations of the SDK through the connection factory and
  turns what comes back into the pydantic models of app/schemas/openstack; servers, volumes, networks and images
  are listed through the response cache, which the operations that change them invalidate.

  The state extends the factory's by the module state of the cache. What a list operation returns is what it
  stores in the cache, a value of type cached. Validation of a pydantic field is a parameter of the model, as in
  the theory of the factory. A request that is read for a field its class does not declare raises AttributeError.
\<close>

section \<open>Summaries\<close>

record server_summary =
  ss_id :: "string option"
  ss_name :: "string option"
  ss_status :: "string option"
  ss_created :: "string option"
  ss_key_name :: "string option"
  ss_project_id :: "string option"
  ss_availability_zone :: "string option"
  ss_flavor_id :: "string option"
  ss_image_id :: "string option"
  ss_addresses :: "(string, string list) dict"

record server_detail = server_summary +
  ss_updated :: "string option"
  ss_metadata :: "(string, string) dict"

record volume_summary =
  vo_id :: "string option"
  vo_name :: "string option"
  vo_status :: "string option"
  vo_size :: "int option"
  vo_bootable :: "string option"

record network_summary_os =
  ne_id :: "string option"
  ne_name :: "string option"
  ne_status :: "string option"
  ne_shared :: "bool option"
  ne_admin_state_up :: "bool option"

record subnet_summary =
  su_id :: "string option"
  su_name :: "string option"
  su_cidr :: "string option"
  su_enable_dhcp :: "bool option"
  su_gateway_ip :: "string option"

record image_summary =
  im_id :: "string option"
  im_name :: "string option"
  im_status :: "string option"
  im_visibility :: "string option"

datatype cached = CServers "server_summary list" | CVolumes "volume_summary list"
  | CNetworks "network_summary_os list" | CImages "image_summary list"

record ('c, 'r) service_state = "'c os_state" +
  sv_cache :: "(cached, 'r) oc_module"

record ('c, 'r) service_env =
  se_settings :: os_settings
  se_sdk :: "'c os_sdk"
  se_redis :: "(cached, 'r) redis_client"
  se_list_limit :: int
  se_opt_bool :: "pyval \<Rightarrow> exn + bool option"
  se_now_get :: rat
  se_now_set :: rat
  se_elapsed :: rat

type_synonym ('c, 'r, 'm) service_world = "('c, 'r, 'm) service_state_scheme"

definition cacheE :: "((cached, 'r) oc_module, 'a) act \<Rightarrow> (('c, 'r, 'm) service_world, 'a) act" where [effect_defs]:
  "cacheE m w = (case m (sv_cache w) of (r, c) \<Rightarrow> (r, w\<lparr>sv_cache := c\<rparr>))"

definition call :: "('c, 'r) service_env \<Rightarrow> string \<Rightarrow> string \<Rightarrow> pyval list \<Rightarrow> (string, pyval) dict \<Rightarrow> (('c, 'r, 'm) service_world, pyval) act" where
  "call env service operation args kwargs = os_call (se_settings env) (se_sdk env) service operation args kwargs"

definition invalidate :: "('c, 'r) service_env \<Rightarrow> string \<Rightarrow> (('c, 'r, 'm) service_world, unit) act" where
  "invalidate env resource = cacheE (cache_invalidate (se_redis env) (se_elapsed env) resource)"

abbreviation not_found :: "string \<Rightarrow> string \<Rightarrow> exn" where
  "not_found message code \<equiv> AppException message 404 code"

text \<open>\<^verbatim>\<open>x = self.factory.call(...); if not x: raise ...\<close>\<close>

definition require :: "('c, 'r) service_env \<Rightarrow> string \<Rightarrow> string \<Rightarrow> pyval list \<Rightarrow> exn \<Rightarrow> (('c, 'r, 'm) service_world, pyval) act" where
  "require env service operation args exc =
    bindE (call env service operation args []) (\<lambda>v. if truthy v then retE v else raiseE exc)"

text \<open>\<^verbatim>\<open>deleted = self.factory.call(..., ignore_missing=True); if deleted is False: raise ...\<close>\<close>

definition delete_call :: "('c, 'r) service_env \<Rightarrow> string \<Rightarrow> string \<Rightarrow> string \<Rightarrow> exn \<Rightarrow> (('c, 'r, 'm) service_world, unit) act" where
  "delete_call env service operation i exc =
    bindE (call env service operation [PStr i] [(''ignore_missing'', PBool True)]) (\<lambda>deleted.
    if deleted = PBool False then raiseE exc else retE ())"

definition each :: "('c, 'r) service_env \<Rightarrow> (pyval \<Rightarrow> exn + 'a) \<Rightarrow> pyval \<Rightarrow> (('c, 'r, 'm) service_world, 'a list) act" where
  "each env f raw = bindE (cloudE (sdk_iter (se_sdk env) raw)) (\<lambda>objs. mapE (\<lambda>x. outcomeE (f x)) objs)"

text \<open>\<^verbatim>\<open>cached = cache_get(r); if cached is not None: return cached; ...; cache_set(r, result)\<close>\<close>

definition cached_list :: "('c, 'r) service_env \<Rightarrow> string \<Rightarrow> (('c, 'r, 'm) service_world, cached) act \<Rightarrow> (('c, 'r, 'm) service_world, cached) act" where
  "cached_list env resource fetch =
    bindE (cacheE (cache_get (se_redis env) (se_now_get env) (se_elapsed env) resource)) (\<lambda>hit. case hit of
      Some v \<Rightarrow> retE v
    | None \<Rightarrow> bindE fetch (\<lambda>result.
        thenE (cacheE (cache_set (se_redis env) (se_now_set env) (se_elapsed env) resource result)) (retE result)))"

section \<open>Serialisation\<close>

definition field :: "pyval \<Rightarrow> string \<Rightarrow> pyval" where
  "field v name = getattr v name PNone"

definition reference_id :: "(pyval \<Rightarrow> string) \<Rightarrow> pyval \<Rightarrow> string option" where
  "reference_id repr v =
    (let rid = (case mapping_items v of Some items \<Rightarrow> dict_get_default items (PStr ''id'') PNone
                | None \<Rightarrow> getattr v ''id'' PNone)
     in if rid = PNone then None else Some (py_str repr rid))"

definition entry_ips :: "pyval \<Rightarrow> string list" where
  "entry_ips entry = (case mapping_items entry of None \<Rightarrow> []
     | Some items \<Rightarrow> (case dict_get_default items (PStr ''addr'') PNone of PStr a \<Rightarrow> [a] | _ \<Rightarrow> []))"

definition server_addresses :: "pyval \<Rightarrow> (string, string list) dict" where
  "server_addresses v = (case mapping_items v of None \<Rightarrow> []
     | Some items \<Rightarrow> foldl (\<lambda>result (n, es). case (n, es) of
          (PStr name, PList entries) \<Rightarrow> dict_set result name (concat (map entry_ips entries)) | _ \<Rightarrow> result) [] items)"

definition string_mapping :: "(pyval \<Rightarrow> string) \<Rightarrow> pyval \<Rightarrow> (string, string) dict" where
  "string_mapping repr v = (case mapping_items v of None \<Rightarrow> []
     | Some items \<Rightarrow> dict_comp (\<lambda>kv. py_str repr (fst kv)) (\<lambda>kv. py_str repr (snd kv)) items)"

definition serialize_server_summary :: "('c, 'r) service_env \<Rightarrow> pyval \<Rightarrow> exn + server_summary" where
  "serialize_server_summary env server =
    (let str = (\<lambda>n. pd_opt_str (se_sdk env) (field server n)); repr = sdk_repr (se_sdk env) in
     checkS (str ''id'') (\<lambda>i. checkS (str ''name'') (\<lambda>n. checkS (str ''status'') (\<lambda>st. checkS (str ''created'') (\<lambda>cr.
     checkS (str ''key_name'') (\<lambda>k. checkS (str ''project_id'') (\<lambda>p. checkS (str ''availability_zone'') (\<lambda>az.
     Inr \<lparr>ss_id = i, ss_name = n, ss_status = st, ss_created = cr, ss_key_name = k, ss_project_id = p, ss_availability_zone = az,
       ss_flavor_id = reference_id repr (field server ''flavor''), ss_image_id = reference_id repr (field server ''image''),
       ss_addresses = server_addresses (field server ''addresses'')\<rparr>))))))))"

definition serialize_server_detail :: "('c, 'r) service_env \<Rightarrow> pyval \<Rightarrow> exn + server_detail" where
  "serialize_server_detail env server =
    checkS (serialize_server_summary env server) (\<lambda>summary.
    checkS (pd_opt_str (se_sdk env) (field server ''updated'')) (\<lambda>updated.
    Inr (server_summary.extend summary
      \<lparr>ss_updated = updated, ss_metadata = string_mapping (sdk_repr (se_sdk env)) (field server ''metadata'')\<rparr>)))"

definition serialize_volume :: "('c, 'r) service_env \<Rightarrow> pyval \<Rightarrow> exn + volume_summary" where
  "serialize_volume env v =
    (let str = (\<lambda>n. pd_opt_str (se_sdk env) (field v n)) in
     checkS (str ''id'') (\<lambda>i. checkS (str ''name'') (\<lambda>n. checkS (str ''status'') (\<lambda>st.
     checkS (pd_opt_int (se_sdk env) (field v ''size'')) (\<lambda>sz. checkS (str ''bootable'') (\<lambda>b.
     Inr \<lparr>vo_id = i, vo_name = n, vo_status = st, vo_size = sz, vo_bootable = b\<rparr>))))))"

definition serialize_network :: "('c, 'r) service_env \<Rightarrow> pyval \<Rightarrow> exn + network_summary_os" where
  "serialize_network env v =
    (let str = (\<lambda>n. pd_opt_str (se_sdk env) (field v n)) in
     checkS (str ''id'') (\<lambda>i. checkS (str ''name'') (\<lambda>n. checkS (str ''status'') (\<lambda>st.
     checkS (se_opt_bool env (field v ''shared'')) (\<lambda>sh. checkS (se_opt_bool env (field v ''admin_state_up'')) (\<lambda>a.
     Inr \<lparr>ne_id = i, ne_name = n, ne_status = st, ne_shared = sh, ne_admin_state_up = a\<rparr>))))))"

definition serialize_subnet :: "('c, 'r) service_env \<Rightarrow> pyval \<Rightarrow> exn + subnet_summary" where
  "serialize_subnet env v =
    (let str = (\<lambda>n. pd_opt_str (se_sdk env) (field v n)) in
     checkS (str ''id'') (\<lambda>i. checkS (str ''name'') (\<lambda>n. checkS (str ''cidr'') (\<lambda>c.
     checkS (se_opt_bool env (field v ''enable_dhcp'')) (\<lambda>d. checkS (str ''gateway_ip'') (\<lambda>g.
     Inr \<lparr>su_id = i, su_name = n, su_cidr = c, su_enable_dhcp = d, su_gateway_ip = g\<rparr>))))))"

definition serialize_image :: "('c, 'r) service_env \<Rightarrow> pyval \<Rightarrow> exn + image_summary" where
  "serialize_image env v =
    (let str = (\<lambda>n. pd_opt_str (se_sdk env) (field v n)) in
     checkS (str ''id'') (\<lambda>i. checkS (str ''name'') (\<lambda>n. checkS (str ''status'') (\<lambda>st. checkS (str ''visibility'') (\<lambda>vi.
     Inr \<lparr>im_id = i, im_name = n, im_status = st, im_visibility = vi\<rparr>)))))"

section \<open>Compute (compute_service.py)\<close>

definition list_servers :: "('c, 'r) service_env \<Rightarrow> (('c, 'r, 'm) service_world, cached) act" where
  "list_servers env = cached_list env ''servers''
     (bindE (call env ''compute'' ''servers'' [] [(''limit'', PInt (se_list_limit env))]) (\<lambda>raw.
      bindE (each env (serialize_server_summary env) raw) (\<lambda>xs. retE (CServers xs))))"

abbreviation server_not_found :: exn where
  "server_not_found \<equiv> not_found ''Server not found'' ''server_not_found''"

abbreviation require_server :: "('c, 'r) service_env \<Rightarrow> string \<Rightarrow> (('c, 'r, 'm) service_world, pyval) act" where
  "require_server env server_id \<equiv> require env ''compute'' ''get_server'' [PStr server_id] server_not_found"

definition get_server :: "('c, 'r) service_env \<Rightarrow> string \<Rightarrow> (('c, 'r, 'm) service_world, server_detail) act" where
  "get_server env server_id = bindE (require_server env server_id) (\<lambda>server. outcomeE (serialize_server_detail env server))"

record server_create_request =
  sc_name :: string
  sc_image_id :: string
  sc_flavor_id :: string
  sc_network_id :: string
  sc_key_name :: "string option"
  sc_availability_zone :: "string option"
  sc_metadata :: "(string, string) dict"
  sc_wait :: bool

definition server_kwargs :: "server_create_request \<Rightarrow> (string, pyval) dict" where
  "server_kwargs p =
    [(''name'', PStr (sc_name p)), (''image_id'', PStr (sc_image_id p)), (''flavor_id'', PStr (sc_flavor_id p)),
     (''networks'', PList [PDict [(PStr ''uuid'', PStr (sc_network_id p))]]),
     (''metadata'', PDict (map (\<lambda>(k, v). (PStr k, PStr v)) (sc_metadata p)))] @
    (if str_truthy (sc_key_name p) then [(''key_name'', PStr (the (sc_key_name p)))] else []) @
    (if str_truthy (sc_availability_zone p) then [(''availability_zone'', PStr (the (sc_availability_zone p)))] else [])"

definition create_server :: "('c, 'r) service_env \<Rightarrow> server_create_request \<Rightarrow> (('c, 'r, 'm) service_world, server_summary) act" where
  "create_server env p =
    thenE (require env ''image'' ''get_image'' [PStr (sc_image_id p)] (not_found ''Image not found'' ''image_not_found''))
    (thenE (require env ''compute'' ''get_flavor'' [PStr (sc_flavor_id p)] (not_found ''Flavor not found'' ''flavor_not_found''))
    (thenE (require env ''network'' ''get_network'' [PStr (sc_network_id p)] (not_found ''Network not found'' ''network_not_found''))
    (thenE (if str_truthy (sc_key_name p)
            then thenE (require env ''compute'' ''get_keypair'' [PStr (the (sc_key_name p))] (not_found ''Key pair not found'' ''keypair_not_found'')) (retE ())
            else retE ())
    (bindE (call env ''compute'' ''create_server'' [] (server_kwargs p)) (\<lambda>created.
    bindE (if sc_wait p then call env ''compute'' ''wait_for_server'' [created] [] else retE created) (\<lambda>server.
    thenE (invalidate env ''servers'')
    (outcomeE (serialize_server_summary env server))))))))"

record server_action_response =
  sr_server_id :: string
  sr_action :: string
  sr_accepted :: bool

definition action_map :: "(string, string) dict" where
  "action_map = [(''start'', ''start_server''), (''stop'', ''stop_server''), (''reboot'', ''reboot_server'')]"

definition perform_action :: "('c, 'r) service_env \<Rightarrow> string \<Rightarrow> string \<Rightarrow> (('c, 'r, 'm) service_world, server_action_response) act" where
  "perform_action env server_id action =
    bindE (require_server env server_id) (\<lambda>server.
    case dict_get action_map action of
      None \<Rightarrow> raiseE (AppException ''Unsupported action'' 400 ''invalid_action'')
    | Some sdk_action \<Rightarrow> thenE (call env ''compute'' sdk_action [server] [])
        (retE \<lparr>sr_server_id = server_id, sr_action = action, sr_accepted = True\<rparr>))"

definition delete_server :: "('c, 'r) service_env \<Rightarrow> string \<Rightarrow> (('c, 'r, 'm) service_world, unit) act" where
  "delete_server env server_id =
    thenE (delete_call env ''compute'' ''delete_server'' server_id server_not_found) (invalidate env ''servers'')"

definition resize_server :: "('c, 'r) service_env \<Rightarrow> string \<Rightarrow> string \<Rightarrow> (('c, 'r, 'm) service_world, unit) act" where
  "resize_server env server_id flavor_id =
    bindE (require_server env server_id) (\<lambda>server. thenE (call env ''compute'' ''resize_server'' [server, PStr flavor_id] []) (retE ()))"

definition confirm_resize :: "('c, 'r) service_env \<Rightarrow> string \<Rightarrow> (('c, 'r, 'm) service_world, unit) act" where
  "confirm_resize env server_id =
    bindE (require_server env server_id) (\<lambda>server. thenE (call env ''compute'' ''confirm_server_resize'' [server] []) (retE ()))"

definition revert_resize :: "('c, 'r) service_env \<Rightarrow> string \<Rightarrow> (('c, 'r, 'm) service_world, unit) act" where
  "revert_resize env server_id =
    bindE (require_server env server_id) (\<lambda>server. thenE (call env ''compute'' ''revert_server_resize'' [server] []) (retE ()))"

definition create_server_image :: "('c, 'r) service_env \<Rightarrow> string \<Rightarrow> string \<Rightarrow> (('c, 'r, 'm) service_world, pyval) act" where
  "create_server_image env server_id name =
    bindE (require_server env server_id) (\<lambda>server. call env ''compute'' ''create_server_image'' [server] [(''name'', PStr name)])"

definition attach_volume :: "('c, 'r) service_env \<Rightarrow> string \<Rightarrow> string \<Rightarrow> (('c, 'r, 'm) service_world, unit) act" where
  "attach_volume env server_id volume_id =
    bindE (require_server env server_id) (\<lambda>server.
    bindE (require env ''block_storage'' ''get_volume'' [PStr volume_id] (not_found ''Volume not found'' ''volume_not_found'')) (\<lambda>volume.
    bindE (outcomeE (attr volume ''id'')) (\<lambda>vid.
    thenE (call env ''compute'' ''create_volume_attachment'' [server] [(''volumeId'', vid)])
    (thenE (invalidate env ''servers'') (invalidate env ''volumes'')))))"

text \<open>next((a for a in attachments if a.volume_id == volume_id), None) takes the first match; the
  iteration over what the SDK returned is one step (sdk_iter).\<close>

fun first_attachment :: "string \<Rightarrow> pyval list \<Rightarrow> exn + pyval" where
  "first_attachment volume_id [] = Inr PNone"
| "first_attachment volume_id (a # as) = checkS (attr a ''volume_id'') (\<lambda>v.
     if v = PStr volume_id then Inr a else first_attachment volume_id as)"

definition detach_volume :: "('c, 'r) service_env \<Rightarrow> string \<Rightarrow> string \<Rightarrow> (('c, 'r, 'm) service_world, unit) act" where
  "detach_volume env server_id volume_id =
    bindE (require_server env server_id) (\<lambda>server.
    bindE (call env ''compute'' ''volume_attachments'' [server] []) (\<lambda>raw.
    bindE (cloudE (sdk_iter (se_sdk env) raw)) (\<lambda>attachments.
    bindE (outcomeE (first_attachment volume_id attachments)) (\<lambda>attachment.
    if \<not> truthy attachment then raiseE (not_found ''Volume attachment not found'' ''attachment_not_found'')
    else thenE (call env ''compute'' ''delete_volume_attachment'' [attachment, server] [])
      (thenE (invalidate env ''servers'') (invalidate env ''volumes''))))))"

section \<open>Which SDK operations a service operation runs\<close>

text \<open>The completed SDK operations, oldest first. runs_ops ops m: when m returns it has completed exactly the
  operations ops, in this order; when it raises, only some of the first of them.\<close>

named_theorems ops_intros \<open>introduction rules for the SDK operations of effectful code\<close>

definition op_trace :: "('c, 'm) os_state_scheme \<Rightarrow> (string \<times> string) list" where
  "op_trace w = map (\<lambda>(s, p, _). (s, p)) (os_api_durations w)"

definition runs_ops :: "(string \<times> string) list \<Rightarrow> (('c, 'm) os_state_scheme, 'a) act \<Rightarrow> bool" where
  "runs_ops ops m \<longleftrightarrow> (\<forall>w. case m w of
     (Inr x, w') \<Rightarrow> op_trace w' = op_trace w @ ops
   | (Inl e, w') \<Rightarrow> (\<exists>k \<le> length ops. op_trace w' = op_trace w @ take k ops))"

lemma runs_ops_silent:
  assumes "\<And>w. op_trace (snd (m w)) = op_trace w"
  shows "runs_ops [] m"
  unfolding runs_ops_def using assms by (auto split: prod.split sum.split) (metis snd_conv)+

lemma runs_ops_effects [ops_intros]:
  "runs_ops [] (retE x)" "runs_ops [] (outcomeE r)" "runs_ops [] (cloudE c)"
  by (rule runs_ops_silent, simp add: effect_defs op_trace_def split: prod.split)+

lemma runs_ops_raise [ops_intros]: "runs_ops ops (raiseE e)"
  by (auto simp: runs_ops_def raiseE_def intro!: exI [of _ 0])

lemma runs_ops_cache [ops_intros]: "runs_ops [] (cacheE c)"
  by (rule runs_ops_silent) (simp add: effect_defs op_trace_def split: prod.split)

lemma runs_ops_invalidate [ops_intros]: "runs_ops [] (invalidate env r)"
  unfolding invalidate_def by (rule runs_ops_cache)

lemma runs_ops_call [ops_intros]: "runs_ops [(service, operation)] (call env service operation args kwargs)"
  unfolding runs_ops_def call_def
proof
  fix w :: "('a, 'b, 'c) service_world"
  let ?out = "os_call (se_settings env) (se_sdk env) service operation args kwargs w"
  show "case ?out of (Inr x, w') \<Rightarrow> op_trace w' = op_trace w @ [(service, operation)]
    | (Inl e, w') \<Rightarrow> \<exists>k\<le>length [(service, operation)]. op_trace w' = op_trace w @ take k [(service, operation)]"
    using os_call_meets_contract [of service operation w "se_settings env" "se_sdk env" args kwargs]
    by (auto simp: call_contract_def op_trace_def split: prod.splits sum.splits intro!: exI [of _ 0])
qed

lemma runs_ops_bind [ops_intros]:
  assumes "runs_ops xs m" "\<And>x. runs_ops ys (f x)"
  shows "runs_ops (xs @ ys) (bindE m f)"
  unfolding runs_ops_def
proof
  fix w
  obtain r w1 where m: "m w = (r, w1)" by fastforce
  show "case bindE m f w of (Inr x, w') \<Rightarrow> op_trace w' = op_trace w @ xs @ ys
    | (Inl e, w') \<Rightarrow> \<exists>k\<le>length (xs @ ys). op_trace w' = op_trace w @ take k (xs @ ys)"
  proof (cases r)
    case (Inl e)
    then obtain k where "k \<le> length xs" "op_trace w1 = op_trace w @ take k xs"
      using assms(1) m by (auto simp: runs_ops_def dest!: spec [of _ w])
    then show ?thesis using m Inl by (auto simp: bindE_def intro!: exI [of _ k])
  next
    case (Inr x)
    then have t: "op_trace w1 = op_trace w @ xs" using assms(1) m by (auto simp: runs_ops_def dest!: spec [of _ w])
    obtain r2 w2 where f: "f x w1 = (r2, w2)" by fastforce
    have b: "bindE m f w = (r2, w2)" using m Inr f by (simp add: bindE_def)
    show ?thesis
    proof (cases r2)
      case (Inl e)
      then obtain k where "k \<le> length ys" "op_trace w2 = op_trace w1 @ take k ys"
        using assms(2) [of x] f by (auto simp: runs_ops_def dest!: spec [of _ w1])
      then show ?thesis using b t Inl by (auto intro!: exI [of _ "length xs + k"])
    next
      case (Inr y)
      then show ?thesis using assms(2) [of x] f b t by (auto simp: runs_ops_def dest!: spec [of _ w1])
    qed
  qed
qed

lemma runs_ops_then [ops_intros]: "runs_ops xs m \<Longrightarrow> runs_ops ys k \<Longrightarrow> runs_ops (xs @ ys) (thenE m k)"
  by (simp add: thenE_bindE runs_ops_bind)

lemma runs_ops_if [ops_intros]: "runs_ops xs m \<Longrightarrow> runs_ops ys k \<Longrightarrow> runs_ops (if b then xs else ys) (if b then m else k)"
  by simp

text \<open>A check that raises on one branch does not count.\<close>

lemma runs_ops_check: "runs_ops ops k \<Longrightarrow> runs_ops ops (if b then raiseE e else k)"
  "runs_ops ops k \<Longrightarrow> runs_ops ops (if b then k else raiseE e)"
  by (simp_all add: runs_ops_raise)

lemma runs_ops_map [ops_intros]: "(\<And>x. runs_ops [] (f x)) \<Longrightarrow> runs_ops [] (mapE f xs)"
proof (induction xs)
  case (Cons x xs)
  have "runs_ops ([] @ [] @ []) (bindE (f x) (\<lambda>y. bindE (mapE f xs) (\<lambda>ys. retE (y # ys))))"
    using Cons by (intro runs_ops_bind runs_ops_effects) auto
  then show ?case by simp
qed (simp add: runs_ops_effects)

lemma runs_ops_require [ops_intros]: "runs_ops [(service, operation)] (require env service operation args exc)"
proof -
  have "runs_ops ([(service, operation)] @ []) (require env service operation args exc)"
    unfolding require_def by (intro ops_intros runs_ops_check)
  then show ?thesis by simp
qed

lemma runs_ops_delete [ops_intros]: "runs_ops [(service, operation)] (delete_call env service operation i exc)"
proof -
  have "runs_ops ([(service, operation)] @ []) (delete_call env service operation i exc)"
    unfolding delete_call_def by (intro ops_intros runs_ops_check)
  then show ?thesis by simp
qed

section \<open>Cached listings\<close>

text \<open>With the in-memory backend: what is cached for a resource, and for how long new values are.\<close>

definition memory_cache :: "('c, 'r, 'm) service_world \<Rightarrow> bool" where
  "memory_cache w \<longleftrightarrow> (\<exists>st. oc_backend (sv_cache w) = Some (Memory st))"

definition module_state :: "(cached, 'r) oc_module \<Rightarrow> cached mem_state" where
  "module_state m = (case oc_backend m of Some (Memory st) \<Rightarrow> (st, oc_counters m) | _ \<Rightarrow> ([], oc_counters m))"

abbreviation mem_state_of :: "('c, 'r, 'm) service_world \<Rightarrow> cached mem_state" where
  "mem_state_of w \<equiv> module_state (sv_cache w)"

definition held_listing :: "string \<Rightarrow> ('c, 'r, 'm) service_world \<Rightarrow> (cached \<times> rat) option" where
  "held_listing r w = mem_live r (mem_state_of w)"

definition lifetime :: "string \<Rightarrow> ('c, 'r, 'm) service_world \<Rightarrow> rat option" where
  "lifetime r w = mem_ttl r (mem_state_of w)"

definition uncached :: "string \<Rightarrow> ('c, 'r, 'm) service_world \<Rightarrow> bool" where
  "uncached r w \<longleftrightarrow> memory_cache w \<and> held_listing r w = None"

lemma cache_read:
  assumes "memory_cache w"
  shows "\<exists>w'. cacheE (cache_get rc now el r) w = (Inr (visible now (held_listing r w)), w') \<and> memory_cache w' \<and>
     os_cloud w' = os_cloud w \<and> os_api_durations w' = os_api_durations w \<and>
     held_listing r w' = (if visible now (held_listing r w) = None then None else held_listing r w) \<and> lifetime r' w' = lifetime r' w"
proof -
  obtain st where b: "oc_backend (sv_cache w) = Some (Memory st)" using assms by (auto simp: memory_cache_def)
  let ?ms = "(st, oc_counters (sv_cache w))"
  obtain v st' m' where g: "mem_get now r ?ms = (v, st', m')" by (metis prod_cases3)
  show ?thesis using b g mem.get_value [of now r ?ms] mem.live_get [of r now r ?ms] mem.ttl_get [of r' now r ?ms]
    by (auto simp: cacheE_def cache_get_def memory_cache_def held_listing_def lifetime_def module_state_def)
qed

lemma cache_write:
  assumes "memory_cache w"
  shows "\<exists>w'. cacheE (cache_set rc now el r v) w = (Inr (), w') \<and> memory_cache w' \<and>
     os_cloud w' = os_cloud w \<and> os_api_durations w' = os_api_durations w \<and>
     held_listing r w' = (case lifetime r w of None \<Rightarrow> held_listing r w | Some d \<Rightarrow> Some (v, fadd now d))"
proof -
  obtain st where b: "oc_backend (sv_cache w) = Some (Memory st)" using assms by (auto simp: memory_cache_def)
  let ?ms = "(st, oc_counters (sv_cache w))"
  obtain st' m' where g: "mem_set now r v ?ms = (st', m')" by fastforce
  show ?thesis using b g mem.live_set [of r now r v ?ms]
    by (auto simp: cacheE_def cache_set_def memory_cache_def held_listing_def lifetime_def module_state_def split: option.split)
qed

lemma invalidate_memory:
  assumes "memory_cache w"
  shows "\<exists>w'. invalidate env r w = (Inr (), w') \<and> memory_cache w' \<and> held_listing r' w' = (if r' = r then None else held_listing r' w)"
proof -
  obtain st where b: "oc_backend (sv_cache w) = Some (Memory st)" using assms by (auto simp: memory_cache_def)
  let ?ms = "(st, oc_counters (sv_cache w))"
  obtain st' m' where g: "mem_invalidate r ?ms = (st', m')" by fastforce
  show ?thesis using b g mem.live_invalidate [of r' r ?ms]
    by (auto simp: invalidate_def cacheE_def cache_invalidate_def memory_cache_def held_listing_def module_state_def)
qed

lemma frame_os [simp]: "os_frame memory_cache" "os_frame (uncached r)" "os_frame (\<lambda>w. P (sv_cache w))"
  by (simp_all add: os_frame_def memory_cache_def uncached_def held_listing_def)

lemma keeps_call [keeps_intros]: "os_frame P \<Longrightarrow> keeps P (call env service operation args kwargs)"
  unfolding call_def by (rule keeps_os_call)

lemma keeps_require [keeps_intros]: "os_frame P \<Longrightarrow> keeps P (require env service operation args exc)"
  unfolding require_def by (intro keeps_intros)

lemma keeps_delete_call [keeps_intros]: "os_frame P \<Longrightarrow> keeps P (delete_call env service operation i exc)"
  unfolding delete_call_def by (intro keeps_intros)

lemma keeps_each [keeps_intros]: "os_frame P \<Longrightarrow> keeps P (each env f raw)"
  unfolding each_def by (intro keeps_intros) (simp add: os_frame_def)

lemma keeps_invalidate [keeps_intros]: "keeps memory_cache (invalidate env r)" "keeps (uncached r') (invalidate env r)"
proof -
  show "keeps memory_cache (invalidate env r)"
    unfolding keeps_def using invalidate_memory [of _ env r r'] by fastforce
  show "keeps (uncached r') (invalidate env r)"
    unfolding keeps_def uncached_def using invalidate_memory [of _ env r r'] by fastforce
qed

text \<open>An operation that invalidates a resource: whenever it succeeds, nothing is cached for the resource afterwards.\<close>

definition invalidates :: "string \<Rightarrow> (('c, 'r, 'm) service_world, 'a) act \<Rightarrow> bool" where
  "invalidates r m \<longleftrightarrow> (\<forall>w x w'. memory_cache w \<longrightarrow> m w = (Inr x, w') \<longrightarrow> uncached r w')"

named_theorems invalidates_intros \<open>introduction rules for invalidation\<close>

lemma invalidates_invalidate [invalidates_intros]: "invalidates r (invalidate env r)"
  using invalidate_memory [of _ env r r] by (fastforce simp: invalidates_def uncached_def)

lemma invalidates_bind_left: "invalidates r m \<Longrightarrow> (\<And>x. keeps (uncached r) (f x)) \<Longrightarrow> invalidates r (bindE m f)"
  unfolding invalidates_def bindE_Inr_iff by (blast dest: keepsD)

lemma invalidates_bind [invalidates_intros]: "keeps memory_cache m \<Longrightarrow> (\<And>x. invalidates r (f x)) \<Longrightarrow> invalidates r (bindE m f)"
  unfolding invalidates_def bindE_Inr_iff by (blast dest: keepsD)

lemma invalidates_then_left: "invalidates r m \<Longrightarrow> keeps (uncached r) k \<Longrightarrow> invalidates r (thenE m k)"
  by (simp add: thenE_bindE invalidates_bind_left)

lemma invalidates_then [invalidates_intros]: "keeps memory_cache m \<Longrightarrow> invalidates r k \<Longrightarrow> invalidates r (thenE m k)"
  by (simp add: thenE_bindE invalidates_bind)

lemma invalidates_check [invalidates_intros]: "invalidates r k \<Longrightarrow> invalidates r (if b then raiseE e else k)"
  by (simp add: invalidates_def raiseE_def)

text \<open>A listing that is served from the cache: after a read that missed, every read before the lifetime of the
  stored value is over returns the same value and does not reach the cloud.\<close>

definition reads_through :: "string \<Rightarrow> (('c, 'r) service_env \<Rightarrow> (('c, 'r, 'm) service_world, cached) act) \<Rightarrow> bool" where
  "reads_through resource listing \<longleftrightarrow> (\<forall>env env' w v w' d.
     memory_cache w \<longrightarrow> visible (se_now_get env) (held_listing resource w) = None \<longrightarrow> lifetime resource w = Some d \<longrightarrow>
     listing env w = (Inr v, w') \<longrightarrow> se_now_get env' < fadd (se_now_set env) d \<longrightarrow>
     (\<exists>w''. listing env' w' = (Inr v, w'') \<and> os_cloud w'' = os_cloud w' \<and> os_api_durations w'' = os_api_durations w'))"

text \<open>A listing that reads through the cache: fetch makes the SDK calls and does not touch the cache.\<close>

locale cached_listing =
  fixes resource :: string
    and listing :: "('c, 'r) service_env \<Rightarrow> (('c, 'r, 'm) service_world, cached) act"
    and fetch :: "('c, 'r) service_env \<Rightarrow> (('c, 'r, 'm) service_world, cached) act"
  assumes listing: "listing env = cached_list env resource (fetch env)"
    and fetch_frame: "keeps (\<lambda>w. P (sv_cache w)) (fetch env)"
begin

lemma hit:
  assumes "memory_cache w" "visible (se_now_get env) (held_listing resource w) = Some v"
  shows "\<exists>w'. listing env w = (Inr v, w') \<and> os_cloud w' = os_cloud w \<and> os_api_durations w' = os_api_durations w"
proof -
  obtain w' where "cacheE (cache_get (se_redis env) (se_now_get env) (se_elapsed env) resource) w = (Inr (Some v), w')"
      "os_cloud w' = os_cloud w" "os_api_durations w' = os_api_durations w"
    using cache_read [OF assms(1)] assms(2) by metis
  then show ?thesis by (simp add: listing cached_list_def bindE_def retE_def)
qed

lemma miss:
  assumes "memory_cache w" "visible (se_now_get env) (held_listing resource w) = None"
  shows "\<exists>w0. os_cloud w0 = os_cloud w \<and> os_api_durations w0 = os_api_durations w \<and> memory_cache w0 \<and>
     lifetime resource w0 = lifetime resource w \<and>
     listing env w = bindE (fetch env) (\<lambda>result. thenE
       (cacheE (cache_set (se_redis env) (se_now_set env) (se_elapsed env) resource result)) (retE result)) w0"
proof -
  obtain w0 where "cacheE (cache_get (se_redis env) (se_now_get env) (se_elapsed env) resource) w = (Inr None, w0)"
      "os_cloud w0 = os_cloud w" "os_api_durations w0 = os_api_durations w" "memory_cache w0" "lifetime resource w0 = lifetime resource w"
    using cache_read [OF assms(1), of _ _ _ resource resource] assms(2) by metis
  then show ?thesis by (auto simp: listing cached_list_def bindE_def)
qed

lemma miss_stores:
  assumes "memory_cache w" "visible (se_now_get env) (held_listing resource w) = None" "lifetime resource w = Some d"
    "listing env w = (Inr v, w')"
  shows "memory_cache w' \<and> held_listing resource w' = Some (v, fadd (se_now_set env) d)"
proof -
  obtain w0 where w0: "memory_cache w0" "lifetime resource w0 = Some d" "bindE (fetch env) (\<lambda>result. thenE
       (cacheE (cache_set (se_redis env) (se_now_set env) (se_elapsed env) resource result)) (retE result)) w0 = (Inr v, w')"
    using miss [OF assms(1,2)] assms(3,4) by auto
  then obtain w1 where f: "fetch env w0 = (Inr v, w1)"
      and s: "cacheE (cache_set (se_redis env) (se_now_set env) (se_elapsed env) resource v) w1 = (Inr (), w')"
    by (auto simp: bindE_Inr_iff thenE_Inr_iff retE_def)
  have "sv_cache w1 = sv_cache w0" using keepsD [OF fetch_frame [of "\<lambda>c. c = sv_cache w0"] _ f] by simp
  then have "memory_cache w1" "lifetime resource w1 = Some d"
    using w0(1,2) by (simp_all add: memory_cache_def lifetime_def module_state_def)
  then show ?thesis using cache_write [of w1 "se_redis env" "se_now_set env" "se_elapsed env" resource v] s by auto
qed

lemma second_read:
  assumes "memory_cache w" "visible (se_now_get env) (held_listing resource w) = None" "lifetime resource w = Some d"
    "listing env w = (Inr v, w')" "se_now_get env' < fadd (se_now_set env) d"
  shows "\<exists>w''. listing env' w' = (Inr v, w'') \<and> os_cloud w'' = os_cloud w' \<and> os_api_durations w'' = os_api_durations w'"
  using miss_stores [OF assms(1-4)] assms(5) by (intro hit) auto

lemma through: "reads_through resource listing"
  unfolding reads_through_def by (intro allI impI) (rule second_read)

end

interpretation servers: cached_listing "''servers''" list_servers
  "\<lambda>env. bindE (call env ''compute'' ''servers'' [] [(''limit'', PInt (se_list_limit env))]) (\<lambda>raw.
      bindE (each env (serialize_server_summary env) raw) (\<lambda>xs. retE (CServers xs)))"
  by unfold_locales (simp add: list_servers_def, intro keeps_intros frame_os)

section \<open>Properties of the compute service\<close>

text \<open>The SDK operations of creating a server, in their order.\<close>

definition create_server_ops :: "server_create_request \<Rightarrow> (string \<times> string) list" where
  "create_server_ops p =
    [(''image'', ''get_image''), (''compute'', ''get_flavor''), (''network'', ''get_network'')] @
    (if str_truthy (sc_key_name p) then [(''compute'', ''get_keypair'')] else []) @
    [(''compute'', ''create_server'')] @
    (if sc_wait p then [(''compute'', ''wait_for_server'')] else [])"

lemma create_server_runs_ops: "runs_ops (create_server_ops p) (create_server env p)"
proof -
  have "runs_ops ([(''image'', ''get_image'')] @ [(''compute'', ''get_flavor'')] @ [(''network'', ''get_network'')] @
      (if str_truthy (sc_key_name p) then [(''compute'', ''get_keypair'')] @ [] else []) @
      [(''compute'', ''create_server'')] @ (if sc_wait p then [(''compute'', ''wait_for_server'')] else []) @ [] @ [])
    (create_server env p)"
    unfolding create_server_def by (intro ops_intros)
  then show ?thesis by (simp add: create_server_ops_def cong: if_cong)
qed

text \<open>Creating a server completes the SDK operations in a fixed order: it looks up the image, the flavor, the
  network and, when one is named, the key pair, then creates the server, then waits for it when asked to. When it
  succeeds, each was completed exactly once; when it raises, no operation was completed out of this order, so
  in particular a server exists only after every lookup has succeeded.\<close>

theorem create_server_order:
  "case create_server env p w of
     (Inr s, w') \<Rightarrow> op_trace w' = op_trace w @ create_server_ops p
   | (Inl e, w') \<Rightarrow> (\<exists>k \<le> length (create_server_ops p). op_trace w' = op_trace w @ take k (create_server_ops p))"
  by (rule create_server_runs_ops [unfolded runs_ops_def, THEN spec])

lemma compute_invalidates:
  "invalidates ''servers'' (create_server env p)" "invalidates ''servers'' (delete_server env i)"
  "invalidates ''servers'' (attach_volume env i j)" "invalidates ''volumes'' (attach_volume env i j)"
  "invalidates ''servers'' (detach_volume env i j)" "invalidates ''volumes'' (detach_volume env i j)"
proof -
  have both: "invalidates ''servers'' (thenE (invalidate env ''servers'') (invalidate env ''volumes''))"
    "invalidates ''volumes'' (thenE (invalidate env ''servers'') (invalidate env ''volumes''))"
    by (intro invalidates_then_left invalidates_invalidate keeps_intros, intro invalidates_intros keeps_intros)
  have s: "invalidates ''servers'' (thenE (invalidate env ''servers'') (outcomeE (serialize_server_summary env x)))" for x
    by (intro invalidates_then_left invalidates_invalidate keeps_intros)
  show "invalidates ''servers'' (create_server env p)"
    unfolding create_server_def by (intro invalidates_intros keeps_intros frame_os s)
  show "invalidates ''servers'' (delete_server env i)"
    unfolding delete_server_def by (intro invalidates_intros keeps_intros frame_os)
  show "invalidates ''servers'' (attach_volume env i j)" "invalidates ''volumes'' (attach_volume env i j)"
    unfolding attach_volume_def by (intro invalidates_bind invalidates_then both keeps_intros frame_os)+
  show "invalidates ''servers'' (detach_volume env i j)" "invalidates ''volumes'' (detach_volume env i j)"
    unfolding detach_volume_def
    by (intro invalidates_bind invalidates_check invalidates_then both keeps_intros frame_os; simp add: memory_cache_def)+
qed

end
