(* ===== verification/Openstack_Resources.thy ===== *)
theory Openstack_Resources
  imports Openstack_Services
begin

text \<open>
  The other resource services of app/services/openstack: network_service.py, volume_service.py,
  image_service.py, flavor_service.py, router_service.py, security_group_service.py and keypair_service.py.
\<close>

section \<open>Networks\<close>

definition os_list_networks :: "('c, 'r) service_env \<Rightarrow> (('c, 'r, 'm) service_world, cached) act" where
  "os_list_networks env = cached_list env ''networks''
     (bindE (call env ''network'' ''networks'' [] [(''limit'', PInt (se_list_limit env))]) (\<lambda>raw.
      bindE (each env (serialize_network env) raw) (\<lambda>xs. retE (CNetworks xs))))"

definition get_network :: "('c, 'r) service_env \<Rightarrow> string \<Rightarrow> (('c, 'r, 'm) service_world, network_summary_os) act" where
  "get_network env network_id =
    bindE (require env ''network'' ''get_network'' [PStr network_id] (not_found ''Network not found'' ''network_not_found''))
      (\<lambda>n. outcomeE (serialize_network env n))"

definition get_network_subnets :: "('c, 'r) service_env \<Rightarrow> string \<Rightarrow> (('c, 'r, 'm) service_world, subnet_summary list) act" where
  "get_network_subnets env network_id =
    bindE (call env ''network'' ''subnets'' [] []) (\<lambda>raw.
    bindE (cloudE (sdk_iter (se_sdk env) raw)) (\<lambda>objs.
    mapE (\<lambda>s. outcomeE (serialize_subnet env s)) (filter (\<lambda>s. field s ''network_id'' = PStr network_id) objs)))"

definition get_subnet :: "('c, 'r) service_env \<Rightarrow> string \<Rightarrow> (('c, 'r, 'm) service_world, subnet_summary) act" where
  "get_subnet env subnet_id =
    bindE (require env ''network'' ''get_subnet'' [PStr subnet_id] (not_found ''Subnet not found'' ''subnet_not_found''))
      (\<lambda>s. outcomeE (serialize_subnet env s))"

text \<open>The request also has a subnet name, an IP version and more, which the service does not use.\<close>

record network_create_request =
  nr_name :: string
  nr_cidr :: string

abbreviation already_exists :: "string \<Rightarrow> string \<Rightarrow> string \<Rightarrow> exn" where
  "already_exists kind name code \<equiv> AppException (kind @ '' '' @ [CHR 0x27] @ name @ [CHR 0x27] @ '' already exists'') 409 code"

text \<open>\<^verbatim>\<open>existing = self.factory.call(..., ignore_missing=True); if existing: raise ...\<close>\<close>

definition require_absent :: "('c, 'r) service_env \<Rightarrow> string \<Rightarrow> string \<Rightarrow> string \<Rightarrow> exn \<Rightarrow> (('c, 'r, 'm) service_world, unit) act" where
  "require_absent env service operation name exc =
    bindE (call env service operation [PStr name] [(''ignore_missing'', PBool True)]) (\<lambda>existing.
    if truthy existing then raiseE exc else retE ())"

definition create_network :: "('c, 'r) service_env \<Rightarrow> network_create_request \<Rightarrow> (('c, 'r, 'm) service_world, network_summary_os) act" where
  "create_network env p =
    thenE (require_absent env ''network'' ''find_network'' (nr_name p) (already_exists ''Network'' (nr_name p) ''network_already_exists''))
    (bindE (call env ''network'' ''create_network'' [] [(''name'', PStr (nr_name p)), (''admin_state_up'', PBool True)]) (\<lambda>network.
    bindE (outcomeE (attr network ''id'')) (\<lambda>nid.
    thenE (call env ''network'' ''create_subnet'' []
       [(''name'', PStr (nr_name p @ ''-subnet'')), (''network_id'', nid), (''cidr'', PStr (nr_cidr p)),
        (''ip_version'', PInt 4), (''enable_dhcp'', PBool True)])
    (thenE (invalidate env ''networks'') (outcomeE (serialize_network env network))))))"

definition delete_network :: "('c, 'r) service_env \<Rightarrow> string \<Rightarrow> (('c, 'r, 'm) service_world, unit) act" where
  "delete_network env network_id =
    thenE (delete_call env ''network'' ''delete_network'' network_id (not_found ''Network not found'' ''network_not_found''))
      (invalidate env ''networks'')"

section \<open>Volumes\<close>

definition list_volumes :: "('c, 'r) service_env \<Rightarrow> (('c, 'r, 'm) service_world, cached) act" where
  "list_volumes env = cached_list env ''volumes''
     (bindE (call env ''block_storage'' ''volumes'' [] [(''limit'', PInt (se_list_limit env))]) (\<lambda>raw.
      bindE (each env (serialize_volume env) raw) (\<lambda>xs. retE (CVolumes xs))))"

abbreviation volume_not_found :: exn where
  "volume_not_found \<equiv> not_found ''Volume not found'' ''volume_not_found''"

definition get_volume :: "('c, 'r) service_env \<Rightarrow> string \<Rightarrow> (('c, 'r, 'm) service_world, volume_summary) act" where
  "get_volume env volume_id =
    bindE (require env ''block_storage'' ''get_volume'' [PStr volume_id] volume_not_found) (\<lambda>v. outcomeE (serialize_volume env v))"

definition delete_volume :: "('c, 'r) service_env \<Rightarrow> string \<Rightarrow> (('c, 'r, 'm) service_world, unit) act" where
  "delete_volume env volume_id =
    thenE (delete_call env ''block_storage'' ''delete_volume'' volume_id volume_not_found) (invalidate env ''volumes'')"

record volume_create_request =
  vr_name :: string
  vr_size :: int
  vr_description :: "string option"
  vr_image_id :: "string option"

definition create_volume :: "('c, 'r) service_env \<Rightarrow> volume_create_request \<Rightarrow> (('c, 'r, 'm) service_world, volume_summary) act" where
  "create_volume env p =
    bindE (call env ''block_storage'' ''create_volume'' []
      ([(''name'', PStr (vr_name p)), (''size'', PInt (vr_size p))] @
       (if str_truthy (vr_description p) then [(''description'', PStr (the (vr_description p)))] else []) @
       (if str_truthy (vr_image_id p) then [(''image'', PStr (the (vr_image_id p)))] else []))) (\<lambda>volume.
    thenE (invalidate env ''volumes'') (outcomeE (serialize_volume env volume)))"

section \<open>Images\<close>

definition list_images :: "('c, 'r) service_env \<Rightarrow> (('c, 'r, 'm) service_world, cached) act" where
  "list_images env = cached_list env ''images''
     (bindE (call env ''image'' ''images'' [] [(''limit'', PInt (se_list_limit env))]) (\<lambda>raw.
      bindE (each env (serialize_image env) raw) (\<lambda>xs. retE (CImages xs))))"

definition get_image :: "('c, 'r) service_env \<Rightarrow> string \<Rightarrow> (('c, 'r, 'm) service_world, image_summary) act" where
  "get_image env image_id =
    bindE (require env ''image'' ''get_image'' [PStr image_id] (not_found ''Image not found'' ''image_not_found''))
      (\<lambda>i. outcomeE (serialize_image env i))"

record image_create_request =
  ir_name :: string
  ir_container_format :: string
  ir_disk_format :: string
  ir_min_disk :: int
  ir_min_ram :: int
  ir_visibility :: string
  ir_protected :: bool

text \<open>A request object: the fields its class declares, so that reading any other field raises AttributeError.\<close>

definition request_obj :: "(string, pyval) dict \<Rightarrow> pyval" where
  "request_obj kvs = PObj True kvs None"

definition image_payload :: "image_create_request \<Rightarrow> pyval" where
  "image_payload p = request_obj [(''name'', PStr (ir_name p)), (''container_format'', PStr (ir_container_format p)),
     (''disk_format'', PStr (ir_disk_format p)), (''min_disk'', PInt (ir_min_disk p)), (''min_ram'', PInt (ir_min_ram p)),
     (''visibility'', PStr (ir_visibility p)), (''protected'', PBool (ir_protected p))]"

definition or_default :: "pyval \<Rightarrow> pyval \<Rightarrow> pyval" where
  "or_default v d = (if truthy v then v else d)"

text \<open>\<^verbatim>\<open>if payload.x: kwargs["x"] = payload.x\<close>\<close>

definition add_if_set :: "pyval \<Rightarrow> string \<Rightarrow> (string, pyval) dict \<Rightarrow> exn + (string, pyval) dict" where
  "add_if_set payload name kwargs = checkS (attr payload name) (\<lambda>v. Inr (if truthy v then dict_set kwargs name v else kwargs))"

definition image_kwargs :: "pyval \<Rightarrow> exn + (string, pyval) dict" where
  "image_kwargs p =
    checkS (attr p ''name'') (\<lambda>n. checkS (attr p ''disk_format'') (\<lambda>df. checkS (attr p ''container_format'') (\<lambda>cf.
    checkS (attr p ''visibility'') (\<lambda>v.
    checkS (add_if_set p ''tags'' [(''name'', n), (''disk_format'', or_default df (PStr ''qcow2'')),
       (''container_format'', or_default cf (PStr ''bare'')), (''visibility'', or_default v (PStr ''private''))]) (\<lambda>k1.
    checkS (add_if_set p ''architecture'' k1) (\<lambda>k2. checkS (add_if_set p ''min_disk'' k2) (add_if_set p ''min_ram'')))))))"

definition create_image :: "('c, 'r) service_env \<Rightarrow> pyval \<Rightarrow> (('c, 'r, 'm) service_world, image_summary) act" where
  "create_image env payload =
    bindE (outcomeE (image_kwargs payload)) (\<lambda>kwargs.
    bindE (call env ''image'' ''create_image'' [] kwargs) (\<lambda>image.
    thenE (invalidate env ''images'') (outcomeE (serialize_image env image))))"

definition upload_image_data :: "('c, 'r) service_env \<Rightarrow> string \<Rightarrow> pyval \<Rightarrow> (('c, 'r, 'm) service_world, unit) act" where
  "upload_image_data env image_id data =
    thenE (call env ''image'' ''upload_image'' [PStr image_id, data] [(''backend'', PStr ''store'')]) (retE ())"

definition import_image :: "('c, 'r) service_env \<Rightarrow> string \<Rightarrow> string \<Rightarrow> (('c, 'r, 'm) service_world, unit) act" where
  "import_image env image_id uri =
    thenE (call env ''image'' ''import_image'' [PStr image_id] [(''method'', PStr ''web-download''), (''uri'', PStr uri)]) (retE ())"

definition delete_image :: "('c, 'r) service_env \<Rightarrow> string \<Rightarrow> (('c, 'r, 'm) service_world, unit) act" where
  "delete_image env image_id =
    thenE (call env ''image'' ''delete_image'' [PStr image_id] [(''ignore_missing'', PBool True)]) (invalidate env ''images'')"

section \<open>Flavors\<close>

record flavor_summary =
  fs_id :: "string option"
  fs_name :: "string option"
  fs_vcpus :: "int option"
  fs_ram :: "int option"
  fs_disk :: "int option"

definition serialize_flavor :: "('c, 'r) service_env \<Rightarrow> pyval \<Rightarrow> exn + flavor_summary" where
  "serialize_flavor env f =
    checkS (attr f ''id'') (\<lambda>i. checkS (attr f ''name'') (\<lambda>n. checkS (attr f ''vcpus'') (\<lambda>c. checkS (attr f ''ram'') (\<lambda>r. checkS (attr f ''disk'') (\<lambda>d.
    checkS (pd_opt_str (se_sdk env) i) (\<lambda>i'. checkS (pd_opt_str (se_sdk env) n) (\<lambda>n'. checkS (pd_opt_int (se_sdk env) c) (\<lambda>c'.
    checkS (pd_opt_int (se_sdk env) r) (\<lambda>r'. checkS (pd_opt_int (se_sdk env) d) (\<lambda>d'.
    Inr \<lparr>fs_id = i', fs_name = n', fs_vcpus = c', fs_ram = r', fs_disk = d'\<rparr>))))))))))"

definition list_flavors :: "('c, 'r) service_env \<Rightarrow> (('c, 'r, 'm) service_world, flavor_summary list) act" where
  "list_flavors env = bindE (call env ''compute'' ''flavors'' [] [(''limit'', PInt (se_list_limit env))]) (each env (serialize_flavor env))"

definition get_flavor :: "('c, 'r) service_env \<Rightarrow> string \<Rightarrow> (('c, 'r, 'm) service_world, flavor_summary) act" where
  "get_flavor env flavor_id =
    bindE (require env ''compute'' ''get_flavor'' [PStr flavor_id] (not_found ''Flavor not found'' ''flavor_not_found''))
      (\<lambda>f. outcomeE (serialize_flavor env f))"

record flavor_create_request =
  fr_name :: string
  fr_vcpus :: int
  fr_ram :: int
  fr_disk :: int

definition flavor_payload :: "flavor_create_request \<Rightarrow> pyval" where
  "flavor_payload p = request_obj [(''name'', PStr (fr_name p)), (''vcpus'', PInt (fr_vcpus p)), (''ram'', PInt (fr_ram p)),
     (''disk'', PInt (fr_disk p))]"

text \<open>\<^verbatim>\<open>f(name=..., **(payload.extra_specs or {}))\<close>: the items of the mapping as further keyword arguments.\<close>

definition spread :: "(string, pyval) dict \<Rightarrow> pyval \<Rightarrow> exn + (string, pyval) dict" where
  "spread kwargs v = (case mapping_items v of
     None \<Rightarrow> Inl (PyException ''TypeError'' ''argument after ** must be a mapping'')
   | Some items \<Rightarrow> if list_all (\<lambda>(k, _). case k of PStr s \<Rightarrow> dict_get kwargs s = None | _ \<Rightarrow> False) items
       then Inr (kwargs @ map (\<lambda>(k, x). (case k of PStr s \<Rightarrow> s | _ \<Rightarrow> [], x)) items)
       else Inl (PyException ''TypeError'' ''keywords must be strings and given once''))"

definition create_flavor :: "('c, 'r) service_env \<Rightarrow> pyval \<Rightarrow> (('c, 'r, 'm) service_world, flavor_summary) act" where
  "create_flavor env payload =
    bindE (outcomeE (
      checkS (attr payload ''name'') (\<lambda>n. checkS (attr payload ''ram'') (\<lambda>r. checkS (attr payload ''vcpus'') (\<lambda>c.
      checkS (attr payload ''disk'') (\<lambda>d. checkS (attr payload ''extra_specs'') (\<lambda>x.
      spread [(''name'', n), (''ram'', r), (''vcpus'', c), (''disk'', d)] (or_default x (PDict []))))))))) (\<lambda>kwargs.
    bindE (call env ''compute'' ''create_flavor'' [] kwargs) (\<lambda>flavor. outcomeE (serialize_flavor env flavor)))"

definition delete_flavor :: "('c, 'r) service_env \<Rightarrow> string \<Rightarrow> (('c, 'r, 'm) service_world, unit) act" where
  "delete_flavor env flavor_id = delete_call env ''compute'' ''delete_flavor'' flavor_id (not_found ''Flavor not found'' ''flavor_not_found'')"

section \<open>Routers\<close>

record router_summary =
  rs_id :: "string option"
  rs_name :: "string option"
  rs_status :: "string option"
  rs_admin_state_up :: "bool option"

definition serialize_router :: "('c, 'r) service_env \<Rightarrow> pyval \<Rightarrow> exn + router_summary" where
  "serialize_router env r =
    checkS (attr r ''id'') (\<lambda>i.
    checkS (pd_opt_str (se_sdk env) i) (\<lambda>i'. checkS (pd_opt_str (se_sdk env) (getattr r ''name'' (PStr []))) (\<lambda>n.
    checkS (pd_opt_str (se_sdk env) (getattr r ''status'' (PStr []))) (\<lambda>st.
    checkS (se_opt_bool env (getattr r ''admin_state_up'' (PBool True))) (\<lambda>a.
    Inr \<lparr>rs_id = i', rs_name = n, rs_status = st, rs_admin_state_up = a\<rparr>)))))"

abbreviation require_router :: "('c, 'r) service_env \<Rightarrow> string \<Rightarrow> (('c, 'r, 'm) service_world, pyval) act" where
  "require_router env router_id \<equiv>
     require env ''network'' ''get_router'' [PStr router_id] (not_found ''Router not found'' ''router_not_found'')"

definition get_router :: "('c, 'r) service_env \<Rightarrow> string \<Rightarrow> (('c, 'r, 'm) service_world, router_summary) act" where
  "get_router env router_id = bindE (require_router env router_id) (\<lambda>r. outcomeE (serialize_router env r))"

definition list_routers :: "('c, 'r) service_env \<Rightarrow> (('c, 'r, 'm) service_world, router_summary list) act" where
  "list_routers env = bindE (call env ''network'' ''routers'' [] []) (each env (serialize_router env))"

definition create_router :: "('c, 'r) service_env \<Rightarrow> string \<Rightarrow> (('c, 'r, 'm) service_world, router_summary) act" where
  "create_router env name =
    thenE (require_absent env ''network'' ''find_router'' name (already_exists ''Router'' name ''router_already_exists''))
    (bindE (call env ''network'' ''create_router'' [] [(''name'', PStr name), (''admin_state_up'', PBool True)]) (\<lambda>r.
     outcomeE (serialize_router env r)))"

definition delete_router :: "('c, 'r) service_env \<Rightarrow> string \<Rightarrow> (('c, 'r, 'm) service_world, unit) act" where
  "delete_router env router_id = delete_call env ''network'' ''delete_router'' router_id (not_found ''Router not found'' ''router_not_found'')"

definition attach_subnet :: "('c, 'r) service_env \<Rightarrow> string \<Rightarrow> string \<Rightarrow> (('c, 'r, 'm) service_world, unit) act" where
  "attach_subnet env router_id subnet_id = bindE (require_router env router_id) (\<lambda>r.
     thenE (call env ''network'' ''add_interface_to_router'' [r] [(''subnet_id'', PStr subnet_id)]) (retE ()))"

definition detach_subnet :: "('c, 'r) service_env \<Rightarrow> string \<Rightarrow> string \<Rightarrow> (('c, 'r, 'm) service_world, unit) act" where
  "detach_subnet env router_id subnet_id = bindE (require_router env router_id) (\<lambda>r.
     thenE (call env ''network'' ''remove_interface_from_router'' [r] [(''subnet_id'', PStr subnet_id)]) (retE ()))"

section \<open>Security groups\<close>

record security_group_summary =
  sg_id :: "string option"
  sg_name :: "string option"
  sg_description :: "string option"

record security_group_rule =
  sgr_id :: "string option"
  sgr_direction :: "string option"
  sgr_protocol :: "string option"
  sgr_port_range_min :: "int option"
  sgr_port_range_max :: "int option"
  sgr_remote_ip_prefix :: "string option"
  sgr_ethertype :: "string option"

definition serialize_security_group :: "('c, 'r) service_env \<Rightarrow> pyval \<Rightarrow> exn + security_group_summary" where
  "serialize_security_group env g =
    checkS (attr g ''id'') (\<lambda>i. checkS (attr g ''name'') (\<lambda>n.
    checkS (pd_opt_str (se_sdk env) i) (\<lambda>i'. checkS (pd_opt_str (se_sdk env) n) (\<lambda>n'.
    checkS (pd_opt_str (se_sdk env) (getattr g ''description'' (PStr []))) (\<lambda>d.
    Inr \<lparr>sg_id = i', sg_name = n', sg_description = d\<rparr>)))))"

definition serialize_rule :: "('c, 'r) service_env \<Rightarrow> pyval \<Rightarrow> exn + security_group_rule" where
  "serialize_rule env r =
    (let str = (\<lambda>n d. pd_opt_str (se_sdk env) (getattr r n d)); num = (\<lambda>n. pd_opt_int (se_sdk env) (field r n)) in
     checkS (attr r ''id'') (\<lambda>i.
     checkS (pd_opt_str (se_sdk env) i) (\<lambda>i'. checkS (str ''direction'' (PStr [])) (\<lambda>d. checkS (str ''protocol'' PNone) (\<lambda>p.
     checkS (num ''port_range_min'') (\<lambda>mn. checkS (num ''port_range_max'') (\<lambda>mx. checkS (str ''remote_ip_prefix'' PNone) (\<lambda>rp.
     checkS (str ''ethertype'' (PStr ''IPv4'')) (\<lambda>e.
     Inr \<lparr>sgr_id = i', sgr_direction = d, sgr_protocol = p, sgr_port_range_min = mn, sgr_port_range_max = mx,
          sgr_remote_ip_prefix = rp, sgr_ethertype = e\<rparr>)))))))))"

abbreviation require_security_group :: "('c, 'r) service_env \<Rightarrow> string \<Rightarrow> (('c, 'r, 'm) service_world, pyval) act" where
  "require_security_group env i \<equiv> require env ''network'' ''get_security_group'' [PStr i]
     (not_found ''Security group not found'' ''security_group_not_found'')"

definition list_security_groups :: "('c, 'r) service_env \<Rightarrow> (('c, 'r, 'm) service_world, security_group_summary list) act" where
  "list_security_groups env = bindE (call env ''network'' ''security_groups'' [] []) (each env (serialize_security_group env))"

definition get_security_group :: "('c, 'r) service_env \<Rightarrow> string \<Rightarrow> (('c, 'r, 'm) service_world, security_group_summary) act" where
  "get_security_group env i = bindE (require_security_group env i) (\<lambda>g. outcomeE (serialize_security_group env g))"

definition create_security_group :: "('c, 'r) service_env \<Rightarrow> string \<Rightarrow> string option \<Rightarrow> (('c, 'r, 'm) service_world, security_group_summary) act" where
  "create_security_group env name description =
    bindE (call env ''network'' ''create_security_group'' []
      [(''name'', PStr name), (''description'', case description of None \<Rightarrow> PNone | Some d \<Rightarrow> PStr d)])
      (\<lambda>g. outcomeE (serialize_security_group env g))"

definition delete_security_group :: "('c, 'r) service_env \<Rightarrow> string \<Rightarrow> (('c, 'r, 'm) service_world, unit) act" where
  "delete_security_group env i = delete_call env ''network'' ''delete_security_group'' i
     (not_found ''Security group not found'' ''security_group_not_found'')"

text \<open>The rules are a list the group object carries; no further request is made.\<close>

definition list_rules :: "('c, 'r) service_env \<Rightarrow> string \<Rightarrow> (('c, 'r, 'm) service_world, security_group_rule list) act" where
  "list_rules env i = bindE (require_security_group env i) (\<lambda>g. each env (serialize_rule env) (getattr g ''security_group_rules'' (PList [])))"

record rule_create_request =
  rr_direction :: string
  rr_ethertype :: string
  rr_protocol :: "string option"
  rr_port_range_min :: "int option"
  rr_port_range_max :: "int option"
  rr_remote_ip_prefix :: "string option"

definition rule_kwargs :: "rule_create_request \<Rightarrow> (string, pyval) dict" where
  "rule_kwargs p =
    [(''direction'', PStr (rr_direction p)), (''protocol'', case rr_protocol p of None \<Rightarrow> PNone | Some x \<Rightarrow> PStr x),
     (''ethertype'', PStr (if rr_ethertype p = [] then ''IPv4'' else rr_ethertype p))] @
    (case rr_port_range_min p of None \<Rightarrow> [] | Some n \<Rightarrow> [(''port_range_min'', PInt n)]) @
    (case rr_port_range_max p of None \<Rightarrow> [] | Some n \<Rightarrow> [(''port_range_max'', PInt n)]) @
    (if str_truthy (rr_remote_ip_prefix p) then [(''remote_ip_prefix'', PStr (the (rr_remote_ip_prefix p)))] else [])"

definition create_rule :: "('c, 'r) service_env \<Rightarrow> rule_create_request \<Rightarrow> (('c, 'r, 'm) service_world, security_group_rule) act" where
  "create_rule env p = bindE (call env ''network'' ''create_security_group_rule'' [] (rule_kwargs p)) (\<lambda>r. outcomeE (serialize_rule env r))"

definition delete_rule :: "('c, 'r) service_env \<Rightarrow> string \<Rightarrow> (('c, 'r, 'm) service_world, unit) act" where
  "delete_rule env i = delete_call env ''network'' ''delete_security_group_rule'' i (not_found ''Security group rule not found'' ''rule_not_found'')"

section \<open>Key pairs\<close>

record keypair_summary =
  ks_name :: "string option"
  ks_fingerprint :: "string option"

definition serialize_keypair :: "('c, 'r) service_env \<Rightarrow> pyval \<Rightarrow> exn + keypair_summary" where
  "serialize_keypair env k =
    checkS (attr k ''name'') (\<lambda>n. checkS (pd_opt_str (se_sdk env) n) (\<lambda>n'.
    checkS (pd_opt_str (se_sdk env) (getattr k ''fingerprint'' (PStr []))) (\<lambda>f. Inr \<lparr>ks_name = n', ks_fingerprint = f\<rparr>)))"

definition list_keypairs :: "('c, 'r) service_env \<Rightarrow> (('c, 'r, 'm) service_world, keypair_summary list) act" where
  "list_keypairs env = bindE (call env ''compute'' ''keypairs'' [] []) (each env (serialize_keypair env))"

definition get_keypair :: "('c, 'r) service_env \<Rightarrow> string \<Rightarrow> (('c, 'r, 'm) service_world, keypair_summary) act" where
  "get_keypair env name =
    bindE (call env ''compute'' ''find_keypair'' [PStr name] [(''ignore_missing'', PBool True)]) (\<lambda>k.
    if \<not> truthy k then raiseE (not_found ''Keypair not found'' ''keypair_not_found'') else outcomeE (serialize_keypair env k))"

definition keypair_payload :: "string \<Rightarrow> string option \<Rightarrow> pyval" where
  "keypair_payload name public_key =
    request_obj [(''name'', PStr name), (''public_key'', case public_key of None \<Rightarrow> PNone | Some k \<Rightarrow> PStr k)]"

definition create_keypair :: "('c, 'r) service_env \<Rightarrow> pyval \<Rightarrow> (('c, 'r, 'm) service_world, keypair_summary) act" where
  "create_keypair env payload =
    bindE (outcomeE (attr payload ''name'')) (\<lambda>name.
    bindE (call env ''compute'' ''find_keypair'' [name] [(''ignore_missing'', PBool True)]) (\<lambda>existing.
    if truthy existing then raiseE (already_exists ''Keypair'' (py_str (sdk_repr (se_sdk env)) name) ''keypair_already_exists'')
    else bindE (outcomeE (checkS (attr payload ''type'') (\<lambda>ty.
           add_if_set payload ''public_key'' [(''name'', name), (''type'', or_default ty (PStr ''ssh''))]))) (\<lambda>kwargs.
         bindE (call env ''compute'' ''create_keypair'' [] kwargs) (\<lambda>k. outcomeE (serialize_keypair env k)))))"

definition delete_keypair :: "('c, 'r) service_env \<Rightarrow> string \<Rightarrow> (('c, 'r, 'm) service_world, unit) act" where
  "delete_keypair env name = delete_call env ''compute'' ''delete_keypair'' name (not_found ''Keypair not found'' ''keypair_not_found'')"

section \<open>Caching of the listings\<close>

lemmas listing_frame = keeps_intros frame_os

interpretation networks: cached_listing "''networks''" os_list_networks
  "\<lambda>env. bindE (call env ''network'' ''networks'' [] [(''limit'', PInt (se_list_limit env))]) (\<lambda>raw.
      bindE (each env (serialize_network env) raw) (\<lambda>xs. retE (CNetworks xs)))"
  by unfold_locales (simp add: os_list_networks_def, intro listing_frame)

interpretation volumes: cached_listing "''volumes''" list_volumes
  "\<lambda>env. bindE (call env ''block_storage'' ''volumes'' [] [(''limit'', PInt (se_list_limit env))]) (\<lambda>raw.
      bindE (each env (serialize_volume env) raw) (\<lambda>xs. retE (CVolumes xs)))"
  by unfold_locales (simp add: list_volumes_def, intro listing_frame)

interpretation images: cached_listing "''images''" list_images
  "\<lambda>env. bindE (call env ''image'' ''images'' [] [(''limit'', PInt (se_list_limit env))]) (\<lambda>raw.
      bindE (each env (serialize_image env) raw) (\<lambda>xs. retE (CImages xs)))"
  by unfold_locales (simp add: list_images_def, intro listing_frame)

lemma listings_read_through:
  "reads_through ''servers'' list_servers" "reads_through ''networks'' os_list_networks"
  "reads_through ''volumes'' list_volumes" "reads_through ''images'' list_images"
  by (rule servers.through networks.through volumes.through images.through)+

lemma resource_invalidates:
  "invalidates ''networks'' (create_network env np)" "invalidates ''networks'' (delete_network env i)"
  "invalidates ''volumes'' (create_volume env vp)" "invalidates ''volumes'' (delete_volume env i)"
  "invalidates ''images'' (create_image env ip)" "invalidates ''images'' (delete_image env i)"
proof -
  have s: "invalidates r (thenE (invalidate env r) (outcomeE x))" for r x
    by (intro invalidates_then_left invalidates_invalidate keeps_intros)
  show "invalidates ''networks'' (create_network env np)"
    unfolding create_network_def require_absent_def by (intro invalidates_bind invalidates_then s listing_frame)
  show "invalidates ''networks'' (delete_network env i)" "invalidates ''volumes'' (delete_volume env i)"
    "invalidates ''images'' (delete_image env i)"
    unfolding delete_network_def delete_volume_def delete_image_def by (intro invalidates_intros listing_frame)+
  show "invalidates ''volumes'' (create_volume env vp)"
    unfolding create_volume_def by (intro invalidates_bind s listing_frame)
  show "invalidates ''images'' (create_image env ip)"
    unfolding create_image_def by (intro invalidates_bind s listing_frame)
qed

section \<open>Properties\<close>


text \<open>A request read for a field it does not declare raises.\<close>

lemma undeclared_fields:
  "create_image env (image_payload ip) w = (Inl (PyException ''AttributeError'' ''object has no attribute tags''), w)"
  "create_flavor env (flavor_payload fp) w = (Inl (PyException ''AttributeError'' ''object has no attribute extra_specs''), w)"
  by (simp_all add: create_image_def image_kwargs_def image_payload_def create_flavor_def flavor_payload_def request_obj_def checkS_def
      attr_def add_if_set_def bindE_def outcomeE_def dict_get_default_def)

lemma create_keypair_raises:
  "\<exists>e. fst (create_keypair env (keypair_payload name key) w) = Inl e"
  "runs_ops [(''compute'', ''find_keypair'')] (create_keypair env (keypair_payload name key))"
proof -
  have f: "create_keypair env (keypair_payload name key) =
    bindE (call env ''compute'' ''find_keypair'' [PStr name] [(''ignore_missing'', PBool True)]) (\<lambda>existing.
      raiseE (if truthy existing then already_exists ''Keypair'' name ''keypair_already_exists''
        else PyException ''AttributeError'' ''object has no attribute type''))"
    by (rule ext) (simp add: create_keypair_def keypair_payload_def request_obj_def checkS_def attr_def outcomeE_def bindE_def raiseE_def
        dict_get_default_def split: prod.split sum.split)
  show "\<exists>e. fst (create_keypair env (keypair_payload name key) w) = Inl e"
    unfolding f by (simp add: bindE_def raiseE_def split: prod.split sum.split)
  have "runs_ops ([(''compute'', ''find_keypair'')] @ []) (create_keypair env (keypair_payload name key))"
    unfolding f by (intro ops_intros)
  then show "runs_ops [(''compute'', ''find_keypair'')] (create_keypair env (keypair_payload name key))" by simp
qed

end
