(* ===== verification/Openstack_Endpoints.thy ===== *)
theory Openstack_Endpoints
  imports Openstack_Resources
begin

text \<open>
  The HTTP endpoints of app/api/v1/endpoints/openstack that change something: compute.py, volumes.py, networks.py,
  images.py, flavors.py, routers.py, security_groups.py and keypairs.py. Each runs an operation of a service and
  records it as an operation task, in the shape of tracked. The result is what the service returned together with
  the id of the task, which the code copies into the response or its header.

  An endpoint reads attributes of the service's result and calls methods of the service by name; both raise when
  the class has no such attribute. The objects below have the fields their classes declare.
\<close>

section \<open>Results as objects\<close>

definition pv_str :: "string option \<Rightarrow> pyval" where
  "pv_str s = (case s of None \<Rightarrow> PNone | Some t \<Rightarrow> PStr t)"

definition pv_bool :: "bool option \<Rightarrow> pyval" where
  "pv_bool b = (case b of None \<Rightarrow> PNone | Some c \<Rightarrow> PBool c)"

definition network_obj :: "network_summary_os \<Rightarrow> pyval" where
  "network_obj r = request_obj [(''id'', pv_str (ne_id r)), (''name'', pv_str (ne_name r)), (''status'', pv_str (ne_status r)),
     (''subnets'', PList []), (''admin_state_up'', pv_bool (ne_admin_state_up r)), (''shared'', pv_bool (ne_shared r)),
     (''is_router_external'', PNone)]"

definition router_obj :: "router_summary \<Rightarrow> pyval" where
  "router_obj r = request_obj [(''id'', pv_str (rs_id r)), (''name'', pv_str (rs_name r)), (''status'', pv_str (rs_status r)),
     (''admin_state_up'', pv_bool (rs_admin_state_up r)), (''external_gateway_info'', PNone)]"

definition security_group_obj :: "security_group_summary \<Rightarrow> pyval" where
  "security_group_obj g = request_obj [(''id'', pv_str (sg_id g)), (''name'', pv_str (sg_name g)),
     (''description'', pv_str (sg_description g)), (''project_id'', PNone)]"

text \<open>\<^verbatim>\<open>target_id=response.name\<close>: the attribute is read after the operation and before the task is updated.\<close>

definition with_target :: "('w, 'a) act \<Rightarrow> ('a \<Rightarrow> pyval) \<Rightarrow> string \<Rightarrow> ('w, 'a \<times> pyval) act" where
  "with_target m obj name = bindE m (\<lambda>r. bindE (outcomeE (attr (obj r) name)) (\<lambda>i. retE (r, i)))"

definition target_of :: "pyval \<Rightarrow> string option" where
  "target_of v = (case v of PStr s \<Rightarrow> Some s | _ \<Rightarrow> None)"

section \<open>Servers (compute.py)\<close>

definition create_server_endpoint :: "('c, 'r) service_env \<Rightarrow> task_env \<Rightarrow> server_create_request \<Rightarrow>
    (('c, 'r, 'm) service_world tracked_world, server_summary \<times> string) act" where
  "create_server_endpoint env tenv payload =
    tracked tenv ''create_server'' ''server'' (Some (sc_name payload)) ss_id None (create_server env payload)"

definition server_action_endpoint :: "('c, 'r) service_env \<Rightarrow> task_env \<Rightarrow> string \<Rightarrow> string \<Rightarrow>
    (('c, 'r, 'm) service_world tracked_world, server_action_response \<times> string) act" where
  "server_action_endpoint env tenv server_id action =
    tracked tenv (action @ ''_server'') ''server'' (Some server_id) (\<lambda>_. Some server_id) (Some server_id) (perform_action env server_id action)"

definition delete_server_endpoint :: "('c, 'r) service_env \<Rightarrow> task_env \<Rightarrow> string \<Rightarrow> (('c, 'r, 'm) service_world tracked_world, unit \<times> string) act" where
  "delete_server_endpoint env tenv server_id =
    tracked tenv ''delete_server'' ''server'' (Some server_id) (\<lambda>_. Some server_id) (Some server_id) (delete_server env server_id)"

definition attach_volume_endpoint :: "('c, 'r) service_env \<Rightarrow> task_env \<Rightarrow> string \<Rightarrow> string \<Rightarrow>
    (('c, 'r, 'm) service_world tracked_world, unit \<times> string) act" where
  "attach_volume_endpoint env tenv server_id volume_id =
    tracked tenv ''attach_volume'' ''server'' (Some server_id) (\<lambda>_. Some server_id) (Some server_id) (attach_volume env server_id volume_id)"

definition detach_volume_endpoint :: "('c, 'r) service_env \<Rightarrow> task_env \<Rightarrow> string \<Rightarrow> string \<Rightarrow>
    (('c, 'r, 'm) service_world tracked_world, unit \<times> string) act" where
  "detach_volume_endpoint env tenv server_id volume_id =
    tracked tenv ''detach_volume'' ''server'' (Some server_id) (\<lambda>_. Some server_id) (Some server_id) (detach_volume env server_id volume_id)"

definition resize_server_endpoint :: "('c, 'r) service_env \<Rightarrow> task_env \<Rightarrow> string \<Rightarrow> string \<Rightarrow>
    (('c, 'r, 'm) service_world tracked_world, unit \<times> string) act" where
  "resize_server_endpoint env tenv server_id flavor_id =
    tracked tenv ''resize_server'' ''server'' (Some server_id) (\<lambda>_. Some server_id) (Some server_id) (resize_server env server_id flavor_id)"

definition resize_server_action :: "('c, 'r) service_env \<Rightarrow> task_env \<Rightarrow> string \<Rightarrow> string \<Rightarrow>
    (('c, 'r, 'm) service_world tracked_world, unit \<times> string) act" where
  "resize_server_action env tenv server_id action =
    tracked tenv (if action = ''confirm'' then ''confirm_resize'' else ''revert_resize'') ''server'' (Some server_id)
      (\<lambda>_. Some server_id) (Some server_id)
      (if action = ''confirm'' then confirm_resize env server_id else revert_resize env server_id)"

text \<open>The response is built, and its image id validated, after the task has been set succeeded but inside the
  same try: a validation error sets the task failed after all.\<close>

record server_image_response =
  si_server_id :: string
  si_image_name :: string
  si_image_id :: "string option"
  si_operation_task_id :: string

definition create_server_snapshot :: "('c, 'r) service_env \<Rightarrow> timestamp \<Rightarrow> task_env \<Rightarrow> string \<Rightarrow> string \<Rightarrow>
    (('c, 'r, 'm) service_world tracked_world, server_image_response) act" where
  "create_server_snapshot env failed_at tenv server_id name =
    bindE (tasksE (create_task (tk_uuid tenv) (tk_created tenv) ''create_server_image'' ''server'' (Some server_id))) (\<lambda>task.
    thenE (tasksE (update_task (tk_started tenv) (os_id task) ''running'' None None))
    (tryE
      (bindE (serviceE (create_server_image env server_id name)) (\<lambda>image_id.
       thenE (tasksE (update_task (tk_ended tenv) (os_id task) ''succeeded'' (Some server_id) None))
       (bindE (outcomeE (pd_opt_str (se_sdk env) image_id)) (\<lambda>i.
        retE \<lparr>si_server_id = server_id, si_image_name = name, si_image_id = i, si_operation_task_id = os_id task\<rparr>))))
      (\<lambda>exc. thenE (tasksE (update_task failed_at (os_id task) ''failed'' (Some server_id) (Some (exn_str exc))))
        (raiseE exc))))"

section \<open>Volumes, images, flavors and key pairs\<close>

definition create_volume_endpoint :: "('c, 'r) service_env \<Rightarrow> task_env \<Rightarrow> volume_create_request \<Rightarrow>
    (('c, 'r, 'm) service_world tracked_world, volume_summary \<times> string) act" where
  "create_volume_endpoint env tenv payload =
    tracked tenv ''create_volume'' ''volume'' (Some (vr_name payload)) vo_id None (create_volume env payload)"

definition delete_volume_endpoint :: "('c, 'r) service_env \<Rightarrow> task_env \<Rightarrow> string \<Rightarrow> (('c, 'r, 'm) service_world tracked_world, unit \<times> string) act" where
  "delete_volume_endpoint env tenv i =
    tracked tenv ''delete_volume'' ''volume'' (Some i) (\<lambda>_. Some i) (Some i) (delete_volume env i)"

definition create_image_endpoint :: "('c, 'r) service_env \<Rightarrow> task_env \<Rightarrow> image_create_request \<Rightarrow>
    (('c, 'r, 'm) service_world tracked_world, image_summary \<times> string) act" where
  "create_image_endpoint env tenv payload =
    tracked tenv ''create_image'' ''image'' (Some (ir_name payload)) im_id None (create_image env (image_payload payload))"

definition delete_image_endpoint :: "('c, 'r) service_env \<Rightarrow> task_env \<Rightarrow> string \<Rightarrow> (('c, 'r, 'm) service_world tracked_world, unit \<times> string) act" where
  "delete_image_endpoint env tenv i =
    tracked tenv ''delete_image'' ''image'' (Some i) (\<lambda>_. Some i) (Some i) (delete_image env i)"

definition create_flavor_endpoint :: "('c, 'r) service_env \<Rightarrow> task_env \<Rightarrow> flavor_create_request \<Rightarrow>
    (('c, 'r, 'm) service_world tracked_world, flavor_summary \<times> string) act" where
  "create_flavor_endpoint env tenv payload =
    tracked tenv ''create_flavor'' ''flavor'' (Some (fr_name payload)) fs_id None (create_flavor env (flavor_payload payload))"

definition delete_flavor_endpoint :: "('c, 'r) service_env \<Rightarrow> task_env \<Rightarrow> string \<Rightarrow> (('c, 'r, 'm) service_world tracked_world, unit \<times> string) act" where
  "delete_flavor_endpoint env tenv i =
    tracked tenv ''delete_flavor'' ''flavor'' (Some i) (\<lambda>_. Some i) (Some i) (delete_flavor env i)"

definition create_keypair_endpoint :: "('c, 'r) service_env \<Rightarrow> task_env \<Rightarrow> string \<Rightarrow> string option \<Rightarrow>
    (('c, 'r, 'm) service_world tracked_world, keypair_summary \<times> string) act" where
  "create_keypair_endpoint env tenv name public_key =
    tracked tenv ''create_keypair'' ''keypair'' (Some name) (\<lambda>_. Some name) None (create_keypair env (keypair_payload name public_key))"

definition delete_keypair_endpoint :: "('c, 'r) service_env \<Rightarrow> task_env \<Rightarrow> string \<Rightarrow> (('c, 'r, 'm) service_world tracked_world, unit \<times> string) act" where
  "delete_keypair_endpoint env tenv name =
    tracked tenv ''delete_keypair'' ''keypair'' (Some name) (\<lambda>_. Some name) (Some name) (delete_keypair env name)"

section \<open>Networks, routers and security groups\<close>

definition create_network_endpoint :: "('c, 'r) service_env \<Rightarrow> task_env \<Rightarrow> network_create_request \<Rightarrow>
    (('c, 'r, 'm) service_world tracked_world, (network_summary_os \<times> pyval) \<times> string) act" where
  "create_network_endpoint env tenv payload =
    tracked tenv ''create_network'' ''network'' (Some (nr_name payload)) (target_of \<circ> snd) None
      (with_target (create_network env payload) network_obj ''network_id'')"

definition delete_network_endpoint :: "('c, 'r) service_env \<Rightarrow> task_env \<Rightarrow> string \<Rightarrow> (('c, 'r, 'm) service_world tracked_world, unit \<times> string) act" where
  "delete_network_endpoint env tenv i =
    tracked tenv ''delete_network'' ''network'' (Some i) (\<lambda>_. Some i) (Some i) (delete_network env i)"

definition create_router_endpoint :: "('c, 'r) service_env \<Rightarrow> task_env \<Rightarrow> string \<Rightarrow>
    (('c, 'r, 'm) service_world tracked_world, (router_summary \<times> pyval) \<times> string) act" where
  "create_router_endpoint env tenv name =
    tracked tenv ''create_router'' ''router'' (Some name) (target_of \<circ> snd) None (with_target (create_router env name) router_obj ''router_id'')"

definition delete_router_endpoint :: "('c, 'r) service_env \<Rightarrow> task_env \<Rightarrow> string \<Rightarrow> (('c, 'r, 'm) service_world tracked_world, unit \<times> string) act" where
  "delete_router_endpoint env tenv i =
    tracked tenv ''delete_router'' ''router'' (Some i) (\<lambda>_. Some i) (Some i) (delete_router env i)"

text \<open>Calling a method by name; the methods of RouterService that take a router and a subnet.\<close>

definition call_method :: "(string, ('w, 'a) act) dict \<Rightarrow> string \<Rightarrow> ('w, 'a) act" where
  "call_method methods name = (case dict_get methods name of
     Some m \<Rightarrow> m | None \<Rightarrow> raiseE (PyException ''AttributeError'' (''object has no attribute '' @ name)))"

definition router_subnet_methods :: "('c, 'r) service_env \<Rightarrow> string \<Rightarrow> string \<Rightarrow> (string, (('c, 'r, 'm) service_world, unit) act) dict" where
  "router_subnet_methods env router_id subnet_id =
    [(''attach_subnet'', attach_subnet env router_id subnet_id), (''detach_subnet'', detach_subnet env router_id subnet_id)]"

definition add_interface :: "('c, 'r) service_env \<Rightarrow> task_env \<Rightarrow> string \<Rightarrow> string \<Rightarrow> (('c, 'r, 'm) service_world tracked_world, unit \<times> string) act" where
  "add_interface env tenv router_id subnet_id =
    tracked tenv ''add_interface'' ''router'' (Some router_id) (\<lambda>_. Some router_id) (Some router_id)
      (call_method (router_subnet_methods env router_id subnet_id) ''add_interface'')"

definition remove_interface :: "('c, 'r) service_env \<Rightarrow> task_env \<Rightarrow> string \<Rightarrow> string \<Rightarrow> (('c, 'r, 'm) service_world tracked_world, unit \<times> string) act" where
  "remove_interface env tenv router_id subnet_id =
    tracked tenv ''remove_interface'' ''router'' (Some router_id) (\<lambda>_. Some router_id) (Some router_id)
      (call_method (router_subnet_methods env router_id subnet_id) ''remove_interface'')"

definition create_security_group_endpoint :: "('c, 'r) service_env \<Rightarrow> task_env \<Rightarrow> string \<Rightarrow> string option \<Rightarrow>
    (('c, 'r, 'm) service_world tracked_world, (security_group_summary \<times> pyval) \<times> string) act" where
  "create_security_group_endpoint env tenv name description =
    tracked tenv ''create_security_group'' ''security_group'' (Some name) (target_of \<circ> snd) None
      (with_target (create_security_group env name description) security_group_obj ''security_group_id'')"

definition delete_security_group_endpoint :: "('c, 'r) service_env \<Rightarrow> task_env \<Rightarrow> string \<Rightarrow> (('c, 'r, 'm) service_world tracked_world, unit \<times> string) act" where
  "delete_security_group_endpoint env tenv i =
    tracked tenv ''delete_security_group'' ''security_group'' (Some i) (\<lambda>_. Some i) (Some i) (delete_security_group env i)"

text \<open>create_rule takes the request only, and is called with the group's id before it.\<close>

definition create_security_group_rule :: "('c, 'r) service_env \<Rightarrow> task_env \<Rightarrow> string \<Rightarrow> rule_create_request \<Rightarrow>
    (('c, 'r, 'm) service_world tracked_world, security_group_rule \<times> string) act" where
  "create_security_group_rule env tenv security_group_id payload =
    tracked tenv ''create_security_group_rule'' ''security_group'' (Some security_group_id) (\<lambda>_. None) (Some security_group_id)
      (raiseE (PyException ''TypeError'' ''SecurityGroupService.create_rule() takes 2 positional arguments but 3 were given''))"

definition delete_security_group_rule :: "('c, 'r) service_env \<Rightarrow> task_env \<Rightarrow> string \<Rightarrow> (('c, 'r, 'm) service_world tracked_world, unit \<times> string) act" where
  "delete_security_group_rule env tenv i =
    tracked tenv ''delete_security_group_rule'' ''security_group_rule'' (Some i) (\<lambda>_. Some i) (Some i) (delete_rule env i)"

section \<open>Every endpoint records what it did\<close>

lemmas endpoint_defs = create_server_endpoint_def server_action_endpoint_def delete_server_endpoint_def attach_volume_endpoint_def
  detach_volume_endpoint_def resize_server_endpoint_def resize_server_action_def create_volume_endpoint_def delete_volume_endpoint_def
  create_image_endpoint_def delete_image_endpoint_def create_flavor_endpoint_def delete_flavor_endpoint_def create_keypair_endpoint_def
  delete_keypair_endpoint_def create_network_endpoint_def delete_network_endpoint_def create_router_endpoint_def delete_router_endpoint_def
  add_interface_def remove_interface_def create_security_group_endpoint_def delete_security_group_endpoint_def
  create_security_group_rule_def delete_security_group_rule_def

interpretation created_server: recorded_endpoint "\<lambda>tenv. create_server_endpoint env tenv payload"
  unfolding endpoint_defs by (rule tracked_recorded)

interpretation server_acted: recorded_endpoint "\<lambda>tenv. server_action_endpoint env tenv i action"
  unfolding endpoint_defs by (rule tracked_recorded)

interpretation deleted_server: recorded_endpoint "\<lambda>tenv. delete_server_endpoint env tenv i"
  unfolding endpoint_defs by (rule tracked_recorded)

interpretation created_network: recorded_endpoint "\<lambda>tenv. create_network_endpoint env tenv np"
  unfolding endpoint_defs by (rule tracked_recorded)

interpretation snapshot: recorded_endpoint "\<lambda>tenv. create_server_snapshot env failed_at tenv i name"
proof
  fix tenv :: task_env and t :: "operation_task list" and w :: "('a, 'b, 'c) service_world"
  assume "sql_get ot_id (tk_uuid tenv) t = None"
  then show "snd (snd (create_server_snapshot env failed_at tenv i name (w, t))) = t \<or>
    (\<exists>r. snd (snd (create_server_snapshot env failed_at tenv i name (w, t))) = t @ [r] \<and> ot_id r = tk_uuid tenv \<and> task_finished r)"
    by (auto simp: create_server_snapshot_def bindE_def thenE_def tryE_def retE_def raiseE_def outcomeE_def serviceE_def tasksE_def
        create_task_def Let_def sql_add_def serialize_task_def update_task_last apply_update_def task_finished_def
        split: prod.split sum.split option.split)
qed

section \<open>Properties\<close>


definition demo_service_env :: "(pyval list, unit) service_env" where
  "demo_service_env = \<lparr>se_settings = ready_settings, se_sdk = scripted_sdk,
     se_redis = \<lparr>rc_connect = (\<lambda>_. Inr ()), rc_get = (\<lambda>_. retE None), rc_setex = (\<lambda>_ _ _. retE ()), rc_delete = (\<lambda>_. retE ()),
       rc_is_redis_error = (\<lambda>_. True), rc_dumps = (\<lambda>_. Inr []), rc_loads = (\<lambda>_. Inr (CServers []))\<rparr>,
     se_list_limit = 100, se_opt_bool = (\<lambda>_. Inr None), se_now_get = 0, se_now_set = 0, se_elapsed = 0\<rparr>"

definition demo_service_state :: "pyval list \<Rightarrow> (pyval list, unit) service_state" where
  "demo_service_state answers = \<lparr>os_connected = True, os_cloud = answers, os_api_errors = [], os_api_durations = [],
     sv_cache = \<lparr>oc_ttls = DEFAULT_TTLS, oc_backend = Some (Memory (MemoryCacheBackend DEFAULT_TTLS)), oc_counters = no_counters\<rparr>\<rparr>"

definition demo_resource :: pyval where
  "demo_resource = PObj True [(''id'', PStr ''r1''), (''name'', PStr ''web'')] None"

definition demo_request :: server_create_request where
  "demo_request = \<lparr>sc_name = ''web'', sc_image_id = ''i'', sc_flavor_id = ''f'', sc_network_id = ''n'', sc_key_name = None,
     sc_availability_zone = None, sc_metadata = [], sc_wait = False\<rparr>"

definition demo_task :: task_env where
  "demo_task = \<lparr>tk_uuid = ''u'', tk_created = 1, tk_started = 2, tk_ended = 3\<rparr>"


lemma missing_attr:
  "attr (network_obj r) ''network_id'' = Inl (PyException ''AttributeError'' ''object has no attribute network_id'')"
  "attr (router_obj q) ''router_id'' = Inl (PyException ''AttributeError'' ''object has no attribute router_id'')"
  "attr (security_group_obj g) ''security_group_id'' = Inl (PyException ''AttributeError'' ''object has no attribute security_group_id'')"
  by (simp_all add: attr_def network_obj_def router_obj_def security_group_obj_def request_obj_def)

lemma with_target_missing:
  assumes "\<And>r. attr (obj r) name = Inl e"
  shows "with_target m obj name w = (case m w of (Inr r, w') \<Rightarrow> (Inl e, w') | (Inl e', w') \<Rightarrow> (Inl e', w'))"
  using assms by (simp add: with_target_def bindE_def outcomeE_def split: prod.split sum.split)

text \<open>How an endpoint misreports an operation: whatever the service does, the caller gets an exception and the task
  is recorded as failed; if the service succeeded, its effects on the cloud stay and the exception is the
  AttributeError of the missing field.\<close>

definition misreported :: "task_env \<Rightarrow> string \<Rightarrow> string \<Rightarrow> string \<Rightarrow> string \<Rightarrow> ('w, 'a) act \<Rightarrow> ('w tracked_world, 'b) act \<Rightarrow>
    'w \<Rightarrow> operation_task list \<Rightarrow> bool" where
  "misreported tenv op tt target fld service endpoint w t \<longleftrightarrow>
     (let e = (case fst (service w) of Inl e \<Rightarrow> e | Inr _ \<Rightarrow> PyException ''AttributeError'' (''object has no attribute '' @ fld))
      in endpoint (w, t) = (Inl e, snd (service w), t @ [finished_row tenv op tt (Some target) ''failed'' None (Some (exn_str e))]))"

text \<open>The endpoints that create a network, a router or a security group never report success. They read a field
  of the service's result that its class does not have, after the operation: a network (with its subnet), a router
  or a security group that was created stays, while the caller gets an internal error and the task is recorded as
  failed.\<close>

theorem create_endpoints_misreport:
  assumes "sql_get ot_id (tk_uuid tenv) t = None"
  shows "misreported tenv ''create_network'' ''network'' (nr_name np) ''network_id'' (create_network env np) (create_network_endpoint env tenv np) w t \<and>
    misreported tenv ''create_router'' ''router'' name ''router_id'' (create_router env name) (create_router_endpoint env tenv name) w t \<and>
    misreported tenv ''create_security_group'' ''security_group'' name ''security_group_id''
           (create_security_group env name descr) (create_security_group_endpoint env tenv name descr) w t"
  unfolding misreported_def endpoint_defs tracked_run [OF assms] with_target_missing [OF missing_attr(1)]
    with_target_missing [OF missing_attr(2)] with_target_missing [OF missing_attr(3)]
  by (simp_all add: Let_def split: prod.split sum.split)

text \<open>A router is created and the caller gets an error.\<close>

theorem create_endpoints_misreport_witness:
  "case create_router_endpoint demo_service_env demo_task ''edge'' (demo_service_state [PNone, demo_resource], []) of
     (r, w', t') \<Rightarrow> r = Inl (PyException ''AttributeError'' ''object has no attribute router_id'') \<and>
       op_trace w' = [(''network'', ''find_router''), (''network'', ''create_router'')] \<and> map ot_state t' = [''failed'']"
proof -
  let ?w = "demo_service_state [PNone, demo_resource]"
  have "fst (create_router demo_service_env ''edge'' ?w) = Inr \<lparr>rs_id = Some ''r1'', rs_name = Some ''web'', rs_status = Some [], rs_admin_state_up = None\<rparr> \<and>
    op_trace (snd (create_router demo_service_env ''edge'' ?w)) = [(''network'', ''find_router''), (''network'', ''create_router'')]"
    by (simp add: create_router_def require_absent_def call_def os_call_connected serialize_router_def checkS_def attr_def op_trace_def
        demo_service_env_def demo_service_state_def scripted_sdk_def demo_resource_def effect_defs dict_get_default_def)
  then show ?thesis
    using create_endpoints_misreport [where tenv = demo_task and t = "[]" and env = demo_service_env and w = ?w and name = "''edge''"]
    by (auto simp: misreported_def sql_get_def finished_row_def)
qed

text \<open>How an endpoint fails before it has reached the cloud.\<close>

definition always_fails :: "task_env \<Rightarrow> string \<Rightarrow> string \<Rightarrow> string \<Rightarrow> string option \<Rightarrow> exn \<Rightarrow> ('w tracked_world, 'b) act \<Rightarrow>
    'w \<Rightarrow> operation_task list \<Rightarrow> bool" where
  "always_fails tenv op tt target failed_target e endpoint w t \<longleftrightarrow>
     endpoint (w, t) = (Inl e, w, t @ [finished_row tenv op tt (Some target) ''failed'' failed_target (Some (exn_str e))])"

abbreviation no_attribute :: "string \<Rightarrow> exn" where
  "no_attribute name \<equiv> PyException ''AttributeError'' (''object has no attribute '' @ name)"

text \<open>Six endpoints fail on every request, whatever the cloud does: creating an image or a flavor reads a field
  the request does not have, connecting a router to a subnet and disconnecting it call methods the service does not
  have, and adding a rule to a security group passes an argument too many; none of these sends a request to the cloud.
  Creating a key pair only looks for an existing one and then fails. Every attempt is recorded as a failed task.\<close>

theorem endpoints_always_fail:
  assumes "sql_get ot_id (tk_uuid tenv) t = None"
  shows "always_fails tenv ''create_image'' ''image'' (ir_name ip) None (no_attribute ''tags'') (create_image_endpoint env tenv ip) w t \<and>
    always_fails tenv ''create_flavor'' ''flavor'' (fr_name fp) None (no_attribute ''extra_specs'') (create_flavor_endpoint env tenv fp) w t \<and>
    always_fails tenv ''add_interface'' ''router'' i (Some i) (no_attribute ''add_interface'') (add_interface env tenv i j) w t \<and>
    always_fails tenv ''remove_interface'' ''router'' i (Some i) (no_attribute ''remove_interface'') (remove_interface env tenv i j) w t \<and>
    always_fails tenv ''create_security_group_rule'' ''security_group'' i (Some i)
      (PyException ''TypeError'' ''SecurityGroupService.create_rule() takes 2 positional arguments but 3 were given'')
      (create_security_group_rule env tenv i rp) w t \<and>
    (case create_keypair_endpoint env tenv name key (w, t) of (r, w', t') \<Rightarrow>
      (\<exists>e. r = Inl e \<and> t' = t @ [finished_row tenv ''create_keypair'' ''keypair'' (Some name) ''failed'' None (Some (exn_str e))]) \<and>
      op_trace w' \<in> {op_trace w, op_trace w @ [(''compute'', ''find_keypair'')]})"
proof -
  obtain e w' where k: "create_keypair env (keypair_payload name key) w = (Inl e, w')"
    using create_keypair_raises(1) [of env name key w] by (metis prod.collapse)
  have "op_trace w' \<in> {op_trace w, op_trace w @ [(''compute'', ''find_keypair'')]}"
    using create_keypair_raises(2) [of env name key, unfolded runs_ops_def, THEN spec, of w]
    by (auto simp: k le_Suc_eq)
  then show ?thesis
    unfolding always_fails_def endpoint_defs tracked_run [OF assms] undeclared_fields k
    by (simp add: call_method_def router_subnet_methods_def raiseE_def)
qed

theorem endpoints_always_fail_witness:
  "fst (create_image_endpoint demo_service_env demo_task \<lparr>ir_name = ''ubuntu'', ir_container_format = ''bare'', ir_disk_format = ''qcow2'',
     ir_min_disk = 0, ir_min_ram = 0, ir_visibility = ''private'', ir_protected = False\<rparr> (demo_service_state [], [])) =
   Inl (PyException ''AttributeError'' ''object has no attribute tags'')"
  using endpoints_always_fail [where tenv = demo_task and t = "[]" and w = "demo_service_state []" and env = demo_service_env
      and ip = "\<lparr>ir_name = ''ubuntu'', ir_container_format = ''bare'', ir_disk_format = ''qcow2'',
        ir_min_disk = 0, ir_min_ram = 0, ir_visibility = ''private'', ir_protected = False\<rparr>"]
  by (simp add: always_fails_def sql_get_def)

end
