(* ===== verification/Identity.thy ===== *)
theory Identity
  imports Openstack_Endpoints
begin

text \<open>
  app/services/identity: tenant_service.py and auth_service.py, the project endpoints of
  app/api/v1/endpoints/identity/tenants.py, and the API key guard of app/core/auth.py.

  The operations of a connection and its session that auth_service.py uses beyond those of the factory are the
  record auth_sdk; they act on the cloud's state.
\<close>

section \<open>Projects\<close>

record project_summary =
  pj_id :: "string option"
  pj_name :: "string option"
  pj_domain_id :: "string option"
  pj_enabled :: "bool option"

definition serialize_project :: "('c, 'r) service_env \<Rightarrow> pyval \<Rightarrow> exn + project_summary" where
  "serialize_project env v =
    (let str = (\<lambda>n. pd_opt_str (se_sdk env) (field v n)) in
     checkS (str ''id'') (\<lambda>i. checkS (str ''name'') (\<lambda>n. checkS (str ''domain_id'') (\<lambda>d.
     checkS (se_opt_bool env (field v ''enabled'')) (\<lambda>e.
     Inr \<lparr>pj_id = i, pj_name = n, pj_domain_id = d, pj_enabled = e\<rparr>)))))"

abbreviation project_not_found :: exn where
  "project_not_found \<equiv> not_found ''Project not found'' ''project_not_found''"

definition list_projects :: "('c, 'r) service_env \<Rightarrow> (('c, 'r, 'm) service_world, project_summary list) act" where
  "list_projects env = bindE (call env ''identity'' ''projects'' [] []) (each env (serialize_project env))"

definition get_project :: "('c, 'r) service_env \<Rightarrow> string \<Rightarrow> (('c, 'r, 'm) service_world, project_summary) act" where
  "get_project env project_id =
    bindE (require env ''identity'' ''get_project'' [PStr project_id] project_not_found) (\<lambda>p. outcomeE (serialize_project env p))"

record project_create_request =
  pq_name :: string
  pq_description :: "string option"
  pq_enabled :: bool

definition create_project :: "('c, 'r) service_env \<Rightarrow> project_create_request \<Rightarrow> (('c, 'r, 'm) service_world, project_summary) act" where
  "create_project env p =
    bindE (call env ''identity'' ''create_project'' []
       [(''name'', PStr (pq_name p)), (''description'', pv_str (pq_description p)), (''enabled'', PBool (pq_enabled p))])
      (\<lambda>project. outcomeE (serialize_project env project))"

definition delete_project :: "('c, 'r) service_env \<Rightarrow> string \<Rightarrow> (('c, 'r, 'm) service_world, unit) act" where
  "delete_project env project_id = delete_call env ''identity'' ''delete_project'' project_id project_not_found"

definition create_project_endpoint :: "('c, 'r) service_env \<Rightarrow> task_env \<Rightarrow> project_create_request \<Rightarrow>
    (('c, 'r, 'm) service_world tracked_world, project_summary \<times> string) act" where
  "create_project_endpoint env tenv p =
    tracked tenv ''create_project'' ''project'' (Some (pq_name p)) pj_id None (create_project env p)"

definition delete_project_endpoint :: "('c, 'r) service_env \<Rightarrow> task_env \<Rightarrow> string \<Rightarrow> (('c, 'r, 'm) service_world tracked_world, unit \<times> string) act" where
  "delete_project_endpoint env tenv i =
    tracked tenv ''delete_project'' ''project'' (Some i) (\<lambda>_. Some i) (Some i) (delete_project env i)"

interpretation project_created: recorded_endpoint "\<lambda>tenv. create_project_endpoint env tenv p"
  unfolding create_project_endpoint_def by (rule tracked_recorded)

interpretation project_deleted: recorded_endpoint "\<lambda>tenv. delete_project_endpoint env tenv i"
  unfolding delete_project_endpoint_def by (rule tracked_recorded)

section \<open>Authentication against OpenStack\<close>

record auth_settings = os_settings +
  at_auth_url :: string
  at_region_name :: string
  at_interface :: string
  at_project_name :: string
  at_username :: string

record 'c auth_sdk =
  au_authorize :: "('c, pyval) act"
  au_get_token :: "('c, string option) act"
  au_get_project_id :: "('c, string option) act"
  au_get_user_id :: "('c, string option) act"
  au_get_endpoint :: "string \<Rightarrow> string \<Rightarrow> string \<Rightarrow> ('c, string option) act"

record token_info =
  ti_configured :: bool
  ti_auth_url :: "string option"
  ti_region_name :: "string option"
  ti_interface :: "string option"
  ti_project_name :: "string option"
  ti_user_name :: "string option"

definition none_if_empty :: "string \<Rightarrow> string option" where
  "none_if_empty s = (if s = [] then None else Some s)"

definition get_token_info :: "auth_settings \<Rightarrow> token_info" where
  "get_token_info s = \<lparr>ti_configured = ost_ready s, ti_auth_url = none_if_empty (at_auth_url s),
     ti_region_name = none_if_empty (at_region_name s), ti_interface = none_if_empty (at_interface s),
     ti_project_name = none_if_empty (at_project_name s), ti_user_name = none_if_empty (at_username s)\<rparr>"

definition redact_token :: "string option \<Rightarrow> string option" where
  "redact_token token = (case token of None \<Rightarrow> None
     | Some t \<Rightarrow> if t = [] then None else if length t \<le> 10 then Some t
         else Some (take 6 t @ ''...'' @ drop (length t - 4) t))"

record validation_response =
  vr_connected :: bool
  vr_region_name :: string
  vr_project_name :: string
  vr_user_name :: string
  vr_interface :: string
  vr_project_id :: "string option"
  vr_user_id :: "string option"
  vr_token_preview :: "string option"

definition create_connection :: "auth_settings \<Rightarrow> 'c os_sdk \<Rightarrow> (('c, 'm) os_state_scheme, unit) act" where
  "create_connection s sdk = os_create (os_settings.truncate s) sdk"

definition validate_connection :: "auth_settings \<Rightarrow> 'c os_sdk \<Rightarrow> 'c auth_sdk \<Rightarrow> (('c, 'm) os_state_scheme, validation_response) act" where
  "validate_connection s sdk au =
    thenE (create_connection s sdk)
    (bindE (tryE (cloudE (au_authorize au))
        (\<lambda>exc. raiseE (OpenStackError (''OpenStack authorization failed: '' @ exn_str exc)))) (\<lambda>authenticated.
    if \<not> truthy authenticated then raiseE (OpenStackError ''OpenStack authorization failed'')
    else bindE (cloudE (au_get_token au)) (\<lambda>token.
      bindE (cloudE (au_get_project_id au)) (\<lambda>pid.
      bindE (cloudE (au_get_user_id au)) (\<lambda>uid.
      retE \<lparr>vr_connected = True, vr_region_name = at_region_name s, vr_project_name = at_project_name s, vr_user_name = at_username s,
        vr_interface = at_interface s, vr_project_id = pid, vr_user_id = uid, vr_token_preview = redact_token token\<rparr>)))))"

record service_endpoint =
  en_service_type :: string
  en_url :: "string option"

definition get_endpoint_url :: "auth_settings \<Rightarrow> 'c auth_sdk \<Rightarrow> string \<Rightarrow> (('c, 'm) os_state_scheme, string option) act" where
  "get_endpoint_url s au service_type =
    tryE (cloudE (au_get_endpoint au service_type (at_interface s) (at_region_name s))) (\<lambda>_. retE None)"

definition catalog_types :: "string list" where
  "catalog_types = [''identity'', ''image'', ''compute'', ''network'', ''volumev3'', ''placement'']"

definition get_service_catalog :: "auth_settings \<Rightarrow> 'c os_sdk \<Rightarrow> 'c auth_sdk \<Rightarrow> (('c, 'm) os_state_scheme, service_endpoint list) act" where
  "get_service_catalog s sdk au =
    thenE (create_connection s sdk)
    (tryE (thenE (cloudE (au_authorize au))
       (mapE (\<lambda>ty. bindE (get_endpoint_url s au ty) (\<lambda>url. retE \<lparr>en_service_type = ty, en_url = url\<rparr>)) catalog_types))
     (\<lambda>exc. raiseE (OpenStackError (''Failed to load OpenStack service catalog: '' @ exn_str exc))))"

section \<open>The API key guard (app/core/auth.py)\<close>

definition verify_api_key :: "string \<Rightarrow> string option \<Rightarrow> exn + unit" where
  "verify_api_key api_key x_api_key =
    (if api_key = [] then Inr ()
     else if \<not> str_truthy x_api_key then Inl (HTTPException 401 ''Missing X-API-Key header'')
     else if x_api_key \<noteq> Some api_key then Inl (HTTPException 403 ''Invalid API key'')
     else Inr ())"

section \<open>Properties\<close>

text \<open>The preview of the token in the answer of a validation gives away at most its first six and last four
  characters: of two connections that differ only in the token, with tokens of more than ten characters that agree
  there, the answers are the same. The preview has at most thirteen characters.\<close>

theorem token_preview_redacted:
  assumes "10 < length t" "10 < length t'" "take 6 t = take 6 t'" "drop (length t - 4) t = drop (length t' - 4) t'"
  shows "fst (validate_connection s sdk (au\<lparr>au_get_token := retE (Some t)\<rparr>) w) =
      fst (validate_connection s sdk (au\<lparr>au_get_token := retE (Some t')\<rparr>) w) \<and>
    length (the (redact_token (Some t))) = 13"
proof -
  have "redact_token (Some t) = redact_token (Some t')" using assms by (auto simp: redact_token_def)
  then have "fst (validate_connection s sdk (au\<lparr>au_get_token := retE (Some t)\<rparr>) w) =
      fst (validate_connection s sdk (au\<lparr>au_get_token := retE (Some t')\<rparr>) w)"
    by (simp add: validate_connection_def effect_defs split: prod.split sum.split)
  moreover have "length (the (redact_token (Some t))) = 13" using assms(1) by (auto simp: redact_token_def)
  ultimately show ?thesis by blast
qed

definition demo_auth :: "unit auth_sdk" where
  "demo_auth = \<lparr>au_authorize = retE (PStr ''token''), au_get_token = retE None, au_get_project_id = retE (Some ''p''),
     au_get_user_id = retE (Some ''u''), au_get_endpoint = (\<lambda>_ _ _. retE None)\<rparr>"

definition demo_auth_sdk :: "unit os_sdk" where
  "demo_auth_sdk = \<lparr>sdk_connect = retE (), sdk_has_session = (\<lambda>_. False), sdk_patch_session = (\<lambda>_. retE ()),
     sdk_has_service = (\<lambda>_. True), sdk_has_operation = (\<lambda>_ _. True), sdk_invoke = (\<lambda>_ _ _ _. retE PNone),
     sdk_iter = (\<lambda>_. retE []), sdk_now = (\<lambda>_. 0), sdk_repr = (\<lambda>_. []), pd_opt_str = (\<lambda>_. Inr None), pd_opt_int = (\<lambda>_. Inr None)\<rparr>"

definition demo_auth_settings :: auth_settings where
  "demo_auth_settings = \<lparr>ost_ready = True, ost_timeout = 60, at_auth_url = ''http://keystone'', at_region_name = ''r'', at_interface = ''public'',
     at_project_name = ''admin'', at_username = ''admin''\<rparr>"

theorem token_preview_redacted_witness:
  "fst (validate_connection demo_auth_settings demo_auth_sdk (demo_auth\<lparr>au_get_token := retE (Some ''gAAAAAone-secretWXYZ'')\<rparr>)
      (\<lparr>os_connected = False, os_cloud = (), os_api_errors = [], os_api_durations = []\<rparr> :: unit os_state)) =
   fst (validate_connection demo_auth_settings demo_auth_sdk (demo_auth\<lparr>au_get_token := retE (Some ''gAAAAAanotherWXYZ'')\<rparr>)
      (\<lparr>os_connected = False, os_cloud = (), os_api_errors = [], os_api_durations = []\<rparr> :: unit os_state))"
  by (rule token_preview_redacted [THEN conjunct1]) simp_all

end
