(* ===== verification/Kubernetes.thy ===== *)
theory Kubernetes
  imports Py_Library Task_Tracking
begin

text \<open>
  app/clients/kubernetes/connection.py, app/services/kubernetes/kubernetes_service.py and the endpoints of
  app/api/v1/endpoints/kubernetes that change something.

  The Kubernetes client and the cluster behind it are the record k8s_api: loading the configuration, and a request,
  named by the method of CoreV1Api, AppsV1Api or VersionApi and given its arguments. The state 'k is that of the
  cluster. The validators of pydantic for fields of type str, str or None, int and dict[str, str], the ISO text of a
  time and str() of the other values are parameters too. The lists of the client's models are lists; iterating
  over anything else raises.
\<close>

section \<open>Requests\<close>

record v1_container =
  ct_name :: string
  ct_image :: string
  ct_ports :: "int list option"

record v1_pod =
  po_name :: string
  po_namespace :: string
  po_labels :: "(string, string) dict"
  po_containers :: "v1_container list"

record v1_deployment =
  dp_name :: string
  dp_namespace :: string
  dp_labels :: "(string, string) dict"
  dp_replicas :: int
  dp_match_labels :: "(string, string) dict"
  dp_template_labels :: "(string, string) dict"
  dp_containers :: "v1_container list"

record v1_service =
  sv_name :: string
  sv_namespace :: string
  sv_type :: string
  sv_ports :: "(int \<times> int) list"
  sv_selector :: "(string, string) dict"

datatype k8s_body = NoBody | PodBody v1_pod | DeploymentBody v1_deployment | ScaleBody int | ServiceBody v1_service

record k8s_request =
  kr_operation :: string
  kr_name :: "string option"
  kr_namespace :: "string option"
  kr_body :: k8s_body

record k8s_settings =
  kt_kubeconfig_path :: string
  kt_in_cluster :: bool
  kt_namespace :: string

record 'k k8s_api =
  ka_load_config :: "bool \<Rightarrow> string \<Rightarrow> ('k, unit) act"
  ka_request :: "k8s_request \<Rightarrow> ('k, pyval) act"
  ka_isoformat :: "pyval \<Rightarrow> string"
  ka_repr :: "pyval \<Rightarrow> string"
  ka_str :: "pyval \<Rightarrow> exn + string"
  ka_opt_str :: "pyval \<Rightarrow> exn + string option"
  ka_int :: "pyval \<Rightarrow> exn + int"
  ka_labels :: "pyval \<Rightarrow> exn + (string, string) dict"

section \<open>The client factory\<close>

definition kubernetes_ready :: "k8s_settings \<Rightarrow> bool" where
  "kubernetes_ready s \<longleftrightarrow> kt_kubeconfig_path s \<noteq> [] \<or> kt_in_cluster s"

definition reraise_app :: "(exn \<Rightarrow> exn) \<Rightarrow> ('w, 'a) act \<Rightarrow> ('w, 'a) act" where
  "reraise_app wrap m = tryE m (\<lambda>exc. if is_app_exception exc then raiseE exc else raiseE (wrap exc))"

definition get_api :: "k8s_settings \<Rightarrow> 'k k8s_api \<Rightarrow> string \<Rightarrow> ('k, unit) act" where
  "get_api s api api_name =
    (if \<not> kubernetes_ready s then raiseE (AppException
       ''Kubernetes settings are incomplete. Set KUBERNETES_KUBECONFIG_PATH or KUBERNETES_IN_CLUSTER.'' 503 ''kubernetes_not_configured'')
     else reraise_app (\<lambda>exc. AppException (''Failed to initialize Kubernetes '' @ api_name @ '': '' @ exn_str exc) 503 ''kubernetes_client_error'')
       (ka_load_config api (kt_in_cluster s) (kt_kubeconfig_path s)))"

abbreviation create_core_api :: "k8s_settings \<Rightarrow> 'k k8s_api \<Rightarrow> ('k, unit) act" where
  "create_core_api s api \<equiv> get_api s api ''CoreV1Api''"

abbreviation create_apps_api :: "k8s_settings \<Rightarrow> 'k k8s_api \<Rightarrow> ('k, unit) act" where
  "create_apps_api s api \<equiv> get_api s api ''AppsV1Api''"

section \<open>Serialisation\<close>

definition as_list :: "pyval \<Rightarrow> exn + pyval list" where
  "as_list v = (case v of PList xs \<Rightarrow> Inr xs | _ \<Rightarrow> Inl (PyException ''TypeError'' ''object is not iterable''))"

definition py_or :: "pyval \<Rightarrow> pyval \<Rightarrow> pyval" where
  "py_or v d = (if truthy v then v else d)"

definition created_str :: "'k k8s_api \<Rightarrow> pyval \<Rightarrow> string option" where
  "created_str api metadata =
    (let created = getattr metadata ''creation_timestamp'' PNone in
     if truthy created then Some (if getattr created ''isoformat'' PNone \<noteq> PNone then ka_isoformat api created else py_str (ka_repr api) created)
     else None)"

record container_summary =
  cs_name :: string
  cs_image :: string
  cs_ports :: "int list"

record pod_summary =
  ps_name :: string
  ps_namespace :: string
  ps_status :: string
  ps_node :: "string option"
  ps_pod_ip :: "string option"
  ps_created :: "string option"
  ps_containers :: "container_summary list"
  ps_labels :: "(string, string) dict"

text \<open>The ports of a container: container_port or port, those without either left out.\<close>

fun container_ports :: "pyval list \<Rightarrow> exn + int list" where
  "container_ports [] = Inr []"
| "container_ports (p # ps) =
    (let cp = py_or (getattr p ''container_port'' PNone) (getattr p ''port'' PNone) in
     if cp = PNone then container_ports ps
     else checkS (py_int cp) (\<lambda>i. checkS (container_ports ps) (\<lambda>is. Inr (i # is))))"

definition serialize_container :: "'k k8s_api \<Rightarrow> pyval \<Rightarrow> exn + container_summary" where
  "serialize_container api c =
    checkS (as_list (py_or (py_or (getattr c ''port'' PNone) (getattr c ''ports'' (PList []))) (PList []))) (\<lambda>raw.
    checkS (container_ports raw) (\<lambda>ports.
    checkS (ka_str api (getattr c ''name'' (PStr []))) (\<lambda>n. checkS (ka_str api (getattr c ''image'' (PStr []))) (\<lambda>i.
    Inr \<lparr>cs_name = n, cs_image = i, cs_ports = ports\<rparr>))))"

definition serialize_pod :: "'k k8s_api \<Rightarrow> pyval \<Rightarrow> exn + pod_summary" where
  "serialize_pod api pod =
    (let metadata = getattr pod ''metadata'' PNone; spec = getattr pod ''spec'' PNone; status = getattr pod ''status'' PNone;
         labels = py_or (getattr metadata ''labels'' PNone) (PDict []) in
     checkS (as_list (py_or (getattr spec ''containers'' (PList [])) (PList []))) (\<lambda>raw.
     checkS (mapS (serialize_container api) raw) (\<lambda>containers.
     checkS (case mapping_items labels of Some _ \<Rightarrow> Inr () | None \<Rightarrow> Inl (PyException ''TypeError'' ''object is not iterable'')) (\<lambda>_.
     checkS (ka_str api (getattr metadata ''name'' (PStr []))) (\<lambda>n. checkS (ka_str api (getattr metadata ''namespace'' (PStr []))) (\<lambda>ns.
     checkS (ka_str api (getattr status ''phase'' (PStr ''Unknown''))) (\<lambda>ph. checkS (ka_opt_str api (getattr spec ''node_name'' PNone)) (\<lambda>node.
     checkS (ka_opt_str api (getattr status ''pod_ip'' PNone)) (\<lambda>ip. checkS (ka_labels api labels) (\<lambda>ls.
     Inr \<lparr>ps_name = n, ps_namespace = ns, ps_status = ph, ps_node = node, ps_pod_ip = ip, ps_created = created_str api metadata,
          ps_containers = containers, ps_labels = ls\<rparr>))))))))))"

record deployment_summary =
  ds_name :: string
  ds_namespace :: string
  ds_replicas :: int
  ds_ready_replicas :: int
  ds_available_replicas :: int
  ds_strategy :: string
  ds_created :: "string option"

definition serialize_deployment :: "'k k8s_api \<Rightarrow> pyval \<Rightarrow> exn + deployment_summary" where
  "serialize_deployment api dep =
    (let metadata = getattr dep ''metadata'' PNone; spec = getattr dep ''spec'' PNone; status = getattr dep ''status'' PNone;
         count = (\<lambda>obj name. py_or (getattr obj name (PInt 0)) (PInt 0));
         strategy_obj = getattr spec ''strategy'' PNone;
         strategy = (if truthy strategy_obj then py_or (getattr strategy_obj ''type'' (PStr ''RollingUpdate'')) (PStr ''RollingUpdate'')
                     else PStr ''RollingUpdate'') in
     checkS (ka_str api (getattr metadata ''name'' (PStr []))) (\<lambda>n. checkS (ka_str api (getattr metadata ''namespace'' (PStr []))) (\<lambda>ns.
     checkS (ka_int api (count spec ''replicas'')) (\<lambda>r. checkS (ka_int api (count status ''ready_replicas'')) (\<lambda>rr.
     checkS (ka_int api (count status ''available_replicas'')) (\<lambda>ar. checkS (ka_str api strategy) (\<lambda>st.
     Inr \<lparr>ds_name = n, ds_namespace = ns, ds_replicas = r, ds_ready_replicas = rr, ds_available_replicas = ar,
          ds_strategy = st, ds_created = created_str api metadata\<rparr>)))))))"

record port_info =
  pi_port :: pyval
  pi_target_port :: string
  pi_protocol :: pyval

record service_summary =
  vs_name :: string
  vs_namespace :: string
  vs_type :: string
  vs_cluster_ip :: "string option"
  vs_ports :: "port_info list"
  vs_created :: "string option"

definition service_port :: "'k k8s_api \<Rightarrow> pyval \<Rightarrow> port_info" where
  "service_port api p =
    \<lparr>pi_port = getattr p ''port'' PNone, pi_target_port = py_str (ka_repr api) (getattr p ''target_port'' (PStr [])),
     pi_protocol = getattr p ''protocol'' (PStr ''TCP'')\<rparr>"

definition serialize_service :: "'k k8s_api \<Rightarrow> pyval \<Rightarrow> exn + service_summary" where
  "serialize_service api svc =
    (let metadata = getattr svc ''metadata'' PNone; spec = getattr svc ''spec'' PNone in
     checkS (as_list (py_or (getattr spec ''ports'' (PList [])) (PList []))) (\<lambda>raw.
     checkS (ka_str api (getattr metadata ''name'' (PStr []))) (\<lambda>n. checkS (ka_str api (getattr metadata ''namespace'' (PStr []))) (\<lambda>ns.
     checkS (ka_str api (py_or (getattr spec ''type'' (PStr ''ClusterIP'')) (PStr ''ClusterIP''))) (\<lambda>ty.
     checkS (ka_opt_str api (getattr spec ''cluster_ip'' PNone)) (\<lambda>ip.
     Inr \<lparr>vs_name = n, vs_namespace = ns, vs_type = ty, vs_cluster_ip = ip, vs_ports = map (service_port api) raw,
          vs_created = created_str api metadata\<rparr>))))))"

section \<open>The operations\<close>

definition k8s_failed :: "string \<Rightarrow> ('k, 'a) act \<Rightarrow> ('k, 'a) act" where
  "k8s_failed what m = reraise_app (\<lambda>exc. KubernetesIntegrationException (''Failed to '' @ what @ '': '' @ exn_str exc) 502) m"

definition namespace_or :: "k8s_settings \<Rightarrow> string option \<Rightarrow> string" where
  "namespace_or s namespace = str_or namespace (kt_namespace s)"

definition request :: "string \<Rightarrow> string option \<Rightarrow> string option \<Rightarrow> k8s_body \<Rightarrow> k8s_request" where
  "request operation name ns body = \<lparr>kr_operation = operation, kr_name = name, kr_namespace = ns, kr_body = body\<rparr>"

definition quote :: "string \<Rightarrow> string" where
  "quote s = [CHR 0x27] @ s @ [CHR 0x27]"

text \<open>\<^verbatim>\<open>v.name\<close>, where the attribute must exist, and \<^verbatim>\<open>[f(x) for x in resp.items]\<close>\<close>

definition strict_attr :: "pyval \<Rightarrow> string \<Rightarrow> exn + pyval" where
  "strict_attr v name = (case v of
     PObj _ attrs _ \<Rightarrow> (case dict_get attrs name of Some x \<Rightarrow> Inr x | None \<Rightarrow> Inl (PyException ''AttributeError'' name))
   | _ \<Rightarrow> Inl (PyException ''AttributeError'' name))"

definition items_of :: "pyval \<Rightarrow> exn + pyval list" where
  "items_of resp = checkS (strict_attr resp ''items'') as_list"

definition list_pods :: "k8s_settings \<Rightarrow> 'k k8s_api \<Rightarrow> string option \<Rightarrow> ('k, pod_summary list) act" where
  "list_pods s api namespace = k8s_failed ''list pods''
    (thenE (create_core_api s api)
    (bindE (ka_request api (request ''list_namespaced_pod'' None (Some (namespace_or s namespace)) NoBody)) (\<lambda>resp.
    outcomeE (checkS (items_of resp) (mapS (serialize_pod api))))))"

definition get_pod :: "k8s_settings \<Rightarrow> 'k k8s_api \<Rightarrow> string \<Rightarrow> string option \<Rightarrow> ('k, pod_summary) act" where
  "get_pod s api name namespace = k8s_failed (''get pod '' @ quote name)
    (thenE (create_core_api s api)
    (bindE (ka_request api (request ''read_namespaced_pod'' (Some name) (Some (namespace_or s namespace)) NoBody)) (\<lambda>pod.
    outcomeE (serialize_pod api pod))))"

record pod_create_request =
  pr_name :: string
  pr_image :: string
  pr_namespace :: string
  pr_port :: "int option"
  pr_labels :: "(string, string) dict"

text \<open>\<^verbatim>\<open>labels or {"app": name}\<close>, the container of a request\<close>

definition labels_or_app :: "(string, string) dict \<Rightarrow> string \<Rightarrow> (string, string) dict" where
  "labels_or_app labels name = (if labels \<noteq> [] then labels else [(''app'', name)])"

definition container_of :: "string \<Rightarrow> string \<Rightarrow> int option \<Rightarrow> v1_container" where
  "container_of name img port = \<lparr>ct_name = name, ct_image = img,
     ct_ports = (case port of None \<Rightarrow> None | Some p \<Rightarrow> if p = 0 then None else Some [p])\<rparr>"

definition pod_body :: "k8s_settings \<Rightarrow> pod_create_request \<Rightarrow> v1_pod" where
  "pod_body s p = \<lparr>po_name = pr_name p, po_namespace = namespace_or s (Some (pr_namespace p)),
     po_labels = labels_or_app (pr_labels p) (pr_name p), po_containers = [container_of (pr_name p) (pr_image p) (pr_port p)]\<rparr>"

definition create_pod :: "k8s_settings \<Rightarrow> 'k k8s_api \<Rightarrow> pod_create_request \<Rightarrow> ('k, pod_summary) act" where
  "create_pod s api p = k8s_failed (''create pod '' @ quote (pr_name p))
    (thenE (create_core_api s api)
    (bindE (ka_request api (request ''create_namespaced_pod'' None (Some (namespace_or s (Some (pr_namespace p)))) (PodBody (pod_body s p)))) (\<lambda>pod.
    outcomeE (serialize_pod api pod))))"

definition delete_pod :: "k8s_settings \<Rightarrow> 'k k8s_api \<Rightarrow> string \<Rightarrow> string option \<Rightarrow> ('k, unit) act" where
  "delete_pod s api name namespace = k8s_failed (''delete pod '' @ quote name)
    (thenE (create_core_api s api)
    (thenE (ka_request api (request ''delete_namespaced_pod'' (Some name) (Some (namespace_or s namespace)) NoBody)) (retE ())))"

definition list_deployments :: "k8s_settings \<Rightarrow> 'k k8s_api \<Rightarrow> string option \<Rightarrow> ('k, deployment_summary list) act" where
  "list_deployments s api namespace = k8s_failed ''list deployments''
    (thenE (create_apps_api s api)
    (bindE (ka_request api (request ''list_namespaced_deployment'' None (Some (namespace_or s namespace)) NoBody)) (\<lambda>resp.
    outcomeE (checkS (items_of resp) (mapS (serialize_deployment api))))))"

definition get_deployment :: "k8s_settings \<Rightarrow> 'k k8s_api \<Rightarrow> string \<Rightarrow> string option \<Rightarrow> ('k, deployment_summary) act" where
  "get_deployment s api name namespace = k8s_failed (''get deployment '' @ quote name)
    (thenE (create_apps_api s api)
    (bindE (ka_request api (request ''read_namespaced_deployment'' (Some name) (Some (namespace_or s namespace)) NoBody)) (\<lambda>dep.
    outcomeE (serialize_deployment api dep))))"

record deployment_create_request =
  dr_name :: string
  dr_image :: string
  dr_namespace :: string
  dr_replicas :: int
  dr_port :: "int option"
  dr_labels :: "(string, string) dict"

definition deployment_body :: "k8s_settings \<Rightarrow> deployment_create_request \<Rightarrow> v1_deployment" where
  "deployment_body s p =
    (let labels = labels_or_app (dr_labels p) (dr_name p) in
     \<lparr>dp_name = dr_name p, dp_namespace = namespace_or s (Some (dr_namespace p)), dp_labels = labels, dp_replicas = dr_replicas p,
      dp_match_labels = labels, dp_template_labels = labels, dp_containers = [container_of (dr_name p) (dr_image p) (dr_port p)]\<rparr>)"

definition create_deployment :: "k8s_settings \<Rightarrow> 'k k8s_api \<Rightarrow> deployment_create_request \<Rightarrow> ('k, deployment_summary) act" where
  "create_deployment s api p = k8s_failed (''create deployment '' @ quote (dr_name p))
    (thenE (create_apps_api s api)
    (bindE (ka_request api (request ''create_namespaced_deployment'' None (Some (namespace_or s (Some (dr_namespace p))))
       (DeploymentBody (deployment_body s p)))) (\<lambda>dep.
    outcomeE (serialize_deployment api dep))))"

definition delete_deployment :: "k8s_settings \<Rightarrow> 'k k8s_api \<Rightarrow> string \<Rightarrow> string option \<Rightarrow> ('k, unit) act" where
  "delete_deployment s api name namespace = k8s_failed (''delete deployment '' @ quote name)
    (thenE (create_apps_api s api)
    (thenE (ka_request api (request ''delete_namespaced_deployment'' (Some name) (Some (namespace_or s namespace)) NoBody)) (retE ())))"

definition scale_deployment :: "k8s_settings \<Rightarrow> 'k k8s_api \<Rightarrow> string \<Rightarrow> int \<Rightarrow> string option \<Rightarrow> ('k, deployment_summary) act" where
  "scale_deployment s api name replicas namespace = k8s_failed (''scale deployment '' @ quote name)
    (thenE (create_apps_api s api)
    (thenE (ka_request api (request ''patch_namespaced_deployment_scale'' (Some name) (Some (namespace_or s namespace)) (ScaleBody replicas)))
    (bindE (ka_request api (request ''read_namespaced_deployment'' (Some name) (Some (namespace_or s namespace)) NoBody)) (\<lambda>dep.
    outcomeE (serialize_deployment api dep)))))"

definition list_services :: "k8s_settings \<Rightarrow> 'k k8s_api \<Rightarrow> string option \<Rightarrow> ('k, service_summary list) act" where
  "list_services s api namespace = k8s_failed ''list services''
    (thenE (create_core_api s api)
    (bindE (ka_request api (request ''list_namespaced_service'' None (Some (namespace_or s namespace)) NoBody)) (\<lambda>resp.
    outcomeE (checkS (items_of resp) (mapS (serialize_service api))))))"

definition get_service :: "k8s_settings \<Rightarrow> 'k k8s_api \<Rightarrow> string \<Rightarrow> string option \<Rightarrow> ('k, service_summary) act" where
  "get_service s api name namespace = k8s_failed (''get service '' @ quote name)
    (thenE (create_core_api s api)
    (bindE (ka_request api (request ''read_namespaced_service'' (Some name) (Some (namespace_or s namespace)) NoBody)) (\<lambda>svc.
    outcomeE (serialize_service api svc))))"

record service_create_request =
  cr_name :: string
  cr_namespace :: string
  cr_type :: string
  cr_port :: int
  cr_target_port :: "int option"
  cr_selector :: "(string, string) dict"

definition service_body :: "k8s_settings \<Rightarrow> service_create_request \<Rightarrow> v1_service" where
  "service_body s p =
    (let target_port = (case cr_target_port p of None \<Rightarrow> cr_port p | Some t \<Rightarrow> if t = 0 then cr_port p else t) in
     \<lparr>sv_name = cr_name p, sv_namespace = namespace_or s (Some (cr_namespace p)), sv_type = cr_type p,
      sv_ports = [(cr_port p, target_port)], sv_selector = labels_or_app (cr_selector p) (cr_name p)\<rparr>)"

definition create_service :: "k8s_settings \<Rightarrow> 'k k8s_api \<Rightarrow> service_create_request \<Rightarrow> ('k, service_summary) act" where
  "create_service s api p = k8s_failed (''create service '' @ quote (cr_name p))
    (thenE (create_core_api s api)
    (bindE (ka_request api (request ''create_namespaced_service'' None (Some (namespace_or s (Some (cr_namespace p))))
       (ServiceBody (service_body s p)))) (\<lambda>svc.
    outcomeE (serialize_service api svc))))"

definition delete_service :: "k8s_settings \<Rightarrow> 'k k8s_api \<Rightarrow> string \<Rightarrow> string option \<Rightarrow> ('k, unit) act" where
  "delete_service s api name namespace = k8s_failed (''delete service '' @ quote name)
    (thenE (create_core_api s api)
    (thenE (ka_request api (request ''delete_namespaced_service'' (Some name) (Some (namespace_or s namespace)) NoBody)) (retE ())))"

record k8s_cluster_info =
  ki_node_count :: nat
  ki_namespaces :: "string list"
  ki_version :: "string option"

definition get_cluster_info :: "k8s_settings \<Rightarrow> 'k k8s_api \<Rightarrow> ('k, k8s_cluster_info) act" where
  "get_cluster_info s api = k8s_failed ''get cluster info''
    (thenE (create_core_api s api)
    (bindE (ka_request api (request ''list_node'' None None NoBody)) (\<lambda>nodes.
    bindE (ka_request api (request ''list_namespace'' None None NoBody)) (\<lambda>namespaces.
    bindE (ka_request api (request ''get_code'' None None NoBody)) (\<lambda>version_info.
    outcomeE (
      checkS (strict_attr version_info ''git_version'') (\<lambda>v.
      checkS (items_of nodes) (\<lambda>ns. checkS (items_of namespaces) (\<lambda>xs.
      checkS (mapS (\<lambda>x. checkS (strict_attr x ''metadata'') (\<lambda>m. strict_attr m ''name'')) xs) (\<lambda>names.
      checkS (mapS (ka_str api) names) (\<lambda>names'. checkS (ka_opt_str api v) (\<lambda>v'.
      Inr \<lparr>ki_node_count = length ns, ki_namespaces = names', ki_version = v'\<rparr>))))))))))))"

section \<open>Endpoints (kubernetes.py)\<close>

definition create_pod_endpoint :: "k8s_settings \<Rightarrow> 'k k8s_api \<Rightarrow> task_env \<Rightarrow> pod_create_request \<Rightarrow> ('k tracked_world, pod_summary \<times> string) act" where
  "create_pod_endpoint s api tenv p =
    tracked tenv ''create_pod'' ''k8s_pod'' (Some (pr_name p)) (\<lambda>pod. Some (ps_name pod)) None (create_pod s api p)"

definition delete_pod_endpoint :: "k8s_settings \<Rightarrow> 'k k8s_api \<Rightarrow> task_env \<Rightarrow> string \<Rightarrow> ('k tracked_world, unit \<times> string) act" where
  "delete_pod_endpoint s api tenv name =
    tracked tenv ''delete_pod'' ''k8s_pod'' (Some name) (\<lambda>_. Some name) (Some name) (delete_pod s api name None)"

definition create_deployment_endpoint :: "k8s_settings \<Rightarrow> 'k k8s_api \<Rightarrow> task_env \<Rightarrow> deployment_create_request \<Rightarrow>
    ('k tracked_world, deployment_summary \<times> string) act" where
  "create_deployment_endpoint s api tenv p =
    tracked tenv ''create_deployment'' ''k8s_deployment'' (Some (dr_name p)) (\<lambda>d. Some (ds_name d)) None (create_deployment s api p)"

definition delete_deployment_endpoint :: "k8s_settings \<Rightarrow> 'k k8s_api \<Rightarrow> task_env \<Rightarrow> string \<Rightarrow> ('k tracked_world, unit \<times> string) act" where
  "delete_deployment_endpoint s api tenv name =
    tracked tenv ''delete_deployment'' ''k8s_deployment'' (Some name) (\<lambda>_. Some name) (Some name) (delete_deployment s api name None)"

definition scale_deployment_endpoint :: "k8s_settings \<Rightarrow> 'k k8s_api \<Rightarrow> task_env \<Rightarrow> string \<Rightarrow> int \<Rightarrow>
    ('k tracked_world, deployment_summary \<times> string) act" where
  "scale_deployment_endpoint s api tenv name replicas =
    tracked tenv ''scale_deployment'' ''k8s_deployment'' (Some name) (\<lambda>d. Some (ds_name d)) (Some name) (scale_deployment s api name replicas None)"

definition create_service_endpoint :: "k8s_settings \<Rightarrow> 'k k8s_api \<Rightarrow> task_env \<Rightarrow> service_create_request \<Rightarrow>
    ('k tracked_world, service_summary \<times> string) act" where
  "create_service_endpoint s api tenv p =
    tracked tenv ''create_service'' ''k8s_service'' (Some (cr_name p)) (\<lambda>v. Some (vs_name v)) None (create_service s api p)"

definition delete_service_endpoint :: "k8s_settings \<Rightarrow> 'k k8s_api \<Rightarrow> task_env \<Rightarrow> string \<Rightarrow> ('k tracked_world, unit \<times> string) act" where
  "delete_service_endpoint s api tenv name =
    tracked tenv ''delete_service'' ''k8s_service'' (Some name) (\<lambda>_. Some name) (Some name) (delete_service s api name None)"

lemmas k8s_endpoint_defs = create_pod_endpoint_def delete_pod_endpoint_def create_deployment_endpoint_def delete_deployment_endpoint_def
  scale_deployment_endpoint_def create_service_endpoint_def delete_service_endpoint_def

interpretation pod_created: recorded_endpoint "\<lambda>tenv. create_pod_endpoint s api tenv p"
  unfolding k8s_endpoint_defs by (rule tracked_recorded)

interpretation deployment_scaled: recorded_endpoint "\<lambda>tenv. scale_deployment_endpoint s api tenv name replicas"
  unfolding k8s_endpoint_defs by (rule tracked_recorded)

section \<open>Errors\<close>

text \<open>The exceptions of the Kubernetes component: the platform is not configured or its client cannot be set up
  (503), or the request failed (502).\<close>

definition platform_error :: "exn \<Rightarrow> bool" where
  "platform_error e \<longleftrightarrow> (\<exists>m c. e = AppException m 503 c) \<or> (\<exists>m. e = KubernetesIntegrationException m 502)"

text \<open>What is relied on: neither the Kubernetes client nor pydantic raises an exception class of this application.\<close>

definition client_ok :: "'k k8s_api \<Rightarrow> bool" where
  "client_ok api \<longleftrightarrow> (\<forall>b c. fails_with foreign (ka_load_config api b c)) \<and> (\<forall>r. fails_with foreign (ka_request api r)) \<and>
     (\<forall>v. raises_only foreign (ka_str api v)) \<and> (\<forall>v. raises_only foreign (ka_opt_str api v)) \<and>
     (\<forall>v. raises_only foreign (ka_int api v)) \<and> (\<forall>v. raises_only foreign (ka_labels api v))"

abbreviation inner :: "exn \<Rightarrow> bool" where
  "inner e \<equiv> foreign e \<or> platform_error e"

lemma weaken_raises: "raises_only foreign r \<Longrightarrow> raises_only inner r"
  by (simp add: raises_only_def)

lemma weaken_fails: "fails_with foreign m \<Longrightarrow> fails_with inner m"
  by (simp add: fails_with_def weaken_raises)

lemma foreign_basics [fails_intros]:
  "raises_only foreign (as_list v)" "raises_only foreign (py_int v)" "raises_only foreign (strict_attr v name)"
  "raises_only foreign (container_ports ps)"
proof -
  show p: "raises_only foreign (py_int v)" for v
    by (cases v) (auto simp: raises_only_def foreign_def split: option.splits)
  show "raises_only foreign (as_list v)" "raises_only foreign (strict_attr v name)"
    by (auto simp: raises_only_def foreign_def as_list_def strict_attr_def split: pyval.splits option.splits)
  show "raises_only foreign (container_ports ps)"
    by (induction ps) (auto simp: Let_def intro!: raises_only_rules p)
qed

lemma foreign_items [fails_intros]: "raises_only foreign (items_of resp)"
  unfolding items_of_def by (intro fails_intros)

lemma fails_with_reraise:
  assumes "fails_with Q m" "\<And>e. Q e \<Longrightarrow> is_app_exception e \<Longrightarrow> P e" "\<And>e. P (wrap e)"
  shows "fails_with P (reraise_app wrap m)"
  unfolding fails_with_def raises_only_def
proof (intro allI impI)
  fix w e assume e: "fst (reraise_app wrap m w) = Inl e"
  obtain r w' where m: "m w = (r, w')" by fastforce
  then show "P e"
    using e assms(2,3) assms(1) [unfolded fails_with_def raises_only_def, THEN spec, of w]
    by (cases r) (auto simp: reraise_app_def tryE_def raiseE_def split: if_splits)
qed

lemma get_api_fails:
  assumes "client_ok api"
  shows "fails_with inner (get_api s api name)"
proof -
  have "fails_with foreign (ka_load_config api b c)" for b c using assms by (simp add: client_ok_def)
  then show ?thesis
    unfolding get_api_def
    by (intro fails_intros fails_with_reraise [where Q = foreign]) (auto simp: foreign_def platform_error_def)
qed

lemma k8s_failed_platform: "fails_with inner m \<Longrightarrow> fails_with platform_error (k8s_failed what m)"
  unfolding k8s_failed_def by (erule fails_with_reraise) (auto simp: foreign_def platform_error_def)

lemma client_laws:
  assumes "client_ok api"
  shows "fails_with foreign (ka_request api r)" "raises_only foreign (ka_str api v)" "raises_only foreign (ka_opt_str api v)"
    "raises_only foreign (ka_int api v)" "raises_only foreign (ka_labels api v)"
  using assms by (simp_all add: client_ok_def)

lemma serializers_foreign:
  assumes "client_ok api"
  shows "raises_only foreign (serialize_pod api v)" "raises_only foreign (serialize_deployment api v)"
    "raises_only foreign (serialize_service api v)"
proof -
  note rules = fails_intros client_laws [OF assms]
  have "raises_only foreign (serialize_container api c)" for c
    unfolding serialize_container_def by (intro rules)
  moreover have "raises_only foreign (case mapping_items l of Some _ \<Rightarrow> Inr () | None \<Rightarrow> Inl (PyException ''TypeError'' ''object is not iterable''))" for l
    by (auto simp: raises_only_def foreign_def split: option.splits)
  ultimately show "raises_only foreign (serialize_pod api v)"
    unfolding serialize_pod_def Let_def by (intro rules)
  show "raises_only foreign (serialize_deployment api v)" "raises_only foreign (serialize_service api v)"
    unfolding serialize_deployment_def serialize_service_def Let_def by (intro rules)+
qed

lemma operations_platform:
  assumes "client_ok api"
  shows "fails_with platform_error (list_pods s api ns)" "fails_with platform_error (get_pod s api name ns)"
    "fails_with platform_error (create_pod s api pp)" "fails_with platform_error (delete_pod s api name ns)"
    "fails_with platform_error (list_deployments s api ns)" "fails_with platform_error (get_deployment s api name ns)"
    "fails_with platform_error (create_deployment s api dp)" "fails_with platform_error (delete_deployment s api name ns)"
    "fails_with platform_error (scale_deployment s api name n ns)" "fails_with platform_error (list_services s api ns)"
    "fails_with platform_error (get_service s api name ns)" "fails_with platform_error (create_service s api sp)"
    "fails_with platform_error (delete_service s api name ns)" "fails_with platform_error (get_cluster_info s api)"
proof -
  have items: "raises_only foreign (checkS (items_of resp) (mapS f))" if "\<And>v. raises_only foreign (f v)" for resp and f :: "pyval \<Rightarrow> exn + 'x"
    using that by (intro fails_intros)
  note rules = k8s_failed_platform fails_with_rules get_api_fails [OF assms] weaken_fails client_laws(1) [OF assms]
    weaken_raises serializers_foreign [OF assms] items
  show "fails_with platform_error (list_pods s api ns)" "fails_with platform_error (get_pod s api name ns)"
    "fails_with platform_error (create_pod s api pp)" "fails_with platform_error (delete_pod s api name ns)"
    unfolding list_pods_def get_pod_def create_pod_def delete_pod_def by (intro rules)+
  show "fails_with platform_error (list_deployments s api ns)" "fails_with platform_error (get_deployment s api name ns)"
    "fails_with platform_error (create_deployment s api dp)" "fails_with platform_error (delete_deployment s api name ns)"
    "fails_with platform_error (scale_deployment s api name n ns)"
    unfolding list_deployments_def get_deployment_def create_deployment_def delete_deployment_def scale_deployment_def by (intro rules)+
  show "fails_with platform_error (list_services s api ns)" "fails_with platform_error (get_service s api name ns)"
    "fails_with platform_error (create_service s api sp)" "fails_with platform_error (delete_service s api name ns)"
    unfolding list_services_def get_service_def create_service_def delete_service_def by (intro rules)+
  show "fails_with platform_error (get_cluster_info s api)"
    unfolding get_cluster_info_def
    by (intro k8s_failed_platform fails_with_rules(2-4) get_api_fails [OF assms] weaken_fails [OF client_laws(1) [OF assms]] weaken_raises
        fails_intros client_laws [OF assms])
qed

section \<open>Properties\<close>


text \<open>A cluster for examples: it answers every request with the same value, or refuses it.\<close>

definition demo_k8s_api :: "pyval option \<Rightarrow> nat k8s_api" where
  "demo_k8s_api answer = \<lparr>ka_load_config = (\<lambda>_ _. retE ()),
     ka_request = (\<lambda>_ w. case answer of None \<Rightarrow> (Inl (PyException ''ApiException'' ''(409) Conflict''), Suc w) | Some v \<Rightarrow> (Inr v, Suc w)),
     ka_isoformat = (\<lambda>_. ''2025-01-01T00:00:00+00:00''), ka_repr = (\<lambda>_. ''object''),
     ka_str = (\<lambda>v. case v of PStr t \<Rightarrow> Inr t | _ \<Rightarrow> Inl (PyException ''ValidationError'' ''str'')),
     ka_opt_str = (\<lambda>v. case v of PNone \<Rightarrow> Inr None | PStr t \<Rightarrow> Inr (Some t) | _ \<Rightarrow> Inl (PyException ''ValidationError'' ''str'')),
     ka_int = (\<lambda>v. case v of PInt i \<Rightarrow> Inr i | _ \<Rightarrow> Inl (PyException ''ValidationError'' ''int'')),
     ka_labels = (\<lambda>_. Inr [])\<rparr>"

lemma demo_k8s_api_ok: "client_ok (demo_k8s_api answer)"
  by (auto simp: client_ok_def demo_k8s_api_def fails_with_def raises_only_def foreign_def retE_def split: pyval.splits option.splits)

definition demo_k8s :: k8s_settings where
  "demo_k8s = \<lparr>kt_kubeconfig_path = ''/etc/kubeconfig'', kt_in_cluster = False, kt_namespace = ''default''\<rparr>"


text \<open>Equality-based selection, as Kubernetes documents it: a service selects the pods of its namespace that have all
  labels of its selector.\<close>

definition selects :: "v1_service \<Rightarrow> string \<Rightarrow> (string, string) dict \<Rightarrow> bool" where
  "selects svc ns labels \<longleftrightarrow> sv_namespace svc = ns \<and> (\<forall>kv \<in> set (sv_selector svc). kv \<in> set labels)"

text \<open>The requests fit together. A deployment's selector is never empty and always matches the labels of its own pod
  template, which the cluster requires. A service made without a selector selects the pods of a deployment and the
  pod that were made under the same name, in the same namespace and without labels, and forwards to the port their
  container exposes unless another target port is given.\<close>

theorem service_selects_namesake:
  assumes "cr_selector v = []" "cr_target_port v = None" "0 < cr_port v"
    and "dr_name d = cr_name v" "dr_namespace d = cr_namespace v" "dr_labels d = []" "dr_port d = Some (cr_port v)"
    and "pr_name p = cr_name v" "pr_namespace p = cr_namespace v" "pr_labels p = []" "pr_port p = Some (cr_port v)"
  shows "selects (service_body s v) (dp_namespace (deployment_body s d)) (dp_template_labels (deployment_body s d)) \<and>
    selects (service_body s v) (po_namespace (pod_body s p)) (po_labels (pod_body s p)) \<and>
    map ct_ports (dp_containers (deployment_body s d)) = [Some (map snd (sv_ports (service_body s v)))] \<and>
    map ct_ports (po_containers (pod_body s p)) = [Some (map snd (sv_ports (service_body s v)))] \<and>
    (\<forall>d'. dp_match_labels (deployment_body s d') = dp_template_labels (deployment_body s d') \<and> dp_match_labels (deployment_body s d') \<noteq> [])"
  using assms by (simp add: selects_def service_body_def deployment_body_def pod_body_def labels_or_app_def container_of_def Let_def)

theorem service_selects_namesake_witness:
  "selects (service_body demo_k8s \<lparr>cr_name = ''web'', cr_namespace = ''default'', cr_type = ''ClusterIP'', cr_port = 80, cr_target_port = None, cr_selector = []\<rparr>)
     ''default'' (dp_template_labels (deployment_body demo_k8s
       \<lparr>dr_name = ''web'', dr_image = ''nginx'', dr_namespace = ''default'', dr_replicas = 2, dr_port = Some 80, dr_labels = []\<rparr>))"
  using service_selects_namesake [where s = demo_k8s
      and v = "\<lparr>cr_name = ''web'', cr_namespace = ''default'', cr_type = ''ClusterIP'', cr_port = 80, cr_target_port = None, cr_selector = []\<rparr>"
      and d = "\<lparr>dr_name = ''web'', dr_image = ''nginx'', dr_namespace = ''default'', dr_replicas = 2, dr_port = Some 80, dr_labels = []\<rparr>"
      and p = "\<lparr>pr_name = ''web'', pr_image = ''nginx'', pr_namespace = ''default'', pr_port = Some 80, pr_labels = []\<rparr>"]
  by (simp add: deployment_body_def namespace_or_def demo_k8s_def Let_def)

end
