(* ===== verification/Http_Layer.thy ===== *)
theory Http_Layer
  imports Identity Kubernetes Vm_Engine
begin

text \<open>
  What stands between a request and the endpoints: the exception handlers (app/common/exceptions/handlers.py), the
  request id middleware (app/common/middleware/request_id.py), its composition with the audit middleware in
  app/main.py, and the endpoints of the provisioning engine behind the API key guard
  (app/api/v1/endpoints/openstack/vm_lifecycle.py).

  How FastAPI answers an HTTPException raised in an endpoint is documented behaviour of the framework: the status of
  the exception with its detail.
\<close>

section \<open>Exception handlers\<close>

record error_response =
  er_status :: int
  er_code :: "string option"
  er_message :: string

definition handle_app_exception :: "exn \<Rightarrow> error_response" where
  "handle_app_exception exc = \<lparr>er_status = exn_status_code exc, er_code = Some (exn_error_code exc), er_message = exn_str exc\<rparr>"

definition handle_unexpected_exception :: "exn \<Rightarrow> error_response" where
  "handle_unexpected_exception exc = \<lparr>er_status = 500, er_code = Some ''internal_server_error'', er_message = exn_str exc\<rparr>"

definition respond :: "exn \<Rightarrow> error_response" where
  "respond exc =
    (if is_app_exception exc then handle_app_exception exc
     else case exc of HTTPException s d \<Rightarrow> \<lparr>er_status = s, er_code = None, er_message = d\<rparr> | _ \<Rightarrow> handle_unexpected_exception exc)"

section \<open>Request ids\<close>

text \<open>request.headers.get ignores the case of the name and returns the first value, as the audit middleware's search
  does. The audit middleware is added last and so is outermost; it sees the headers the client sent.\<close>

definition request_id_dispatch :: "string \<Rightarrow> (string \<times> string) list \<Rightarrow> string" where
  "request_id_dispatch uuid headers = (case extract_request_id headers of Some i \<Rightarrow> i | None \<Rightarrow> uuid)"

text \<open>A request through both: the audit entry, and the X-Request-ID header of the response, if there is one.\<close>

definition http_request :: "string \<Rightarrow> string \<Rightarrow> asgi_scope \<Rightarrow> asgi_run \<Rightarrow>
    ('p option audit_entry worker_state, string) act" where
  "http_request audit_uuid uuid scope app =
    thenE (audit_middleware audit_uuid scope app)
      (retE (request_id_dispatch uuid (case sc_headers scope of None \<Rightarrow> [] | Some h \<Rightarrow> h)))"

section \<open>The engine's endpoints (vm_lifecycle.py)\<close>

definition guarded :: "string \<Rightarrow> string option \<Rightarrow> ('w, 'a) act \<Rightarrow> ('w, 'a) act" where
  "guarded api_key x_api_key endpoint = thenE (outcomeE (verify_api_key api_key x_api_key)) endpoint"

datatype vm_operation = CreateVm vm_create_request | StartVm string | StopVm string | RebootVm string | DeleteVm string

datatype vm_answer = VmDetail vm_detail | VmDone vm_operation_response

definition run_vm_operation :: "'c engine_env \<Rightarrow> vm_operation \<Rightarrow> (('c, 'm) engine_world, vm_answer) act" where
  "run_vm_operation env op = (case op of
     CreateVm req \<Rightarrow> bindE (create_vm env req) (\<lambda>d. retE (VmDetail d))
   | StartVm i \<Rightarrow> bindE (start_vm env i) (\<lambda>r. retE (VmDone r))
   | StopVm i \<Rightarrow> bindE (stop_vm env i) (\<lambda>r. retE (VmDone r))
   | RebootVm i \<Rightarrow> bindE (reboot_vm env i) (\<lambda>r. retE (VmDone r))
   | DeleteVm i \<Rightarrow> bindE (delete_vm env i) (\<lambda>r. retE (VmDone r)))"

definition vm_endpoint :: "string \<Rightarrow> string option \<Rightarrow> 'c engine_env \<Rightarrow> vm_operation \<Rightarrow> (('c, 'm) engine_world, vm_answer) act" where
  "vm_endpoint api_key x_api_key env op = guarded api_key x_api_key (run_vm_operation env op)"

definition vm_list_endpoint :: "string \<Rightarrow> string option \<Rightarrow> 'c engine_env \<Rightarrow> (('c, 'm) engine_world, vm_detail list) act" where
  "vm_list_endpoint api_key x_api_key env = guarded api_key x_api_key (list_vms env)"

definition vm_get_endpoint :: "string \<Rightarrow> string option \<Rightarrow> 'c engine_env \<Rightarrow> string \<Rightarrow> (('c, 'm) engine_world, vm_detail) act" where
  "vm_get_endpoint api_key x_api_key env i = guarded api_key x_api_key (get_vm env i)"

definition active_vm_count :: "string \<Rightarrow> string option \<Rightarrow> 'c engine_env \<Rightarrow> (('c, 'm) engine_world, int) act" where
  "active_vm_count api_key x_api_key env = guarded api_key x_api_key (get_active_count env)"

section \<open>Which exceptions the OpenStack services raise\<close>

definition env_ok :: "('c, 'r) service_env \<Rightarrow> bool" where
  "env_ok env \<longleftrightarrow> (\<forall>v. fails_with foreign (sdk_iter (se_sdk env) v)) \<and>
     (\<forall>v. raises_only foreign (pd_opt_str (se_sdk env) v)) \<and> (\<forall>v. raises_only foreign (pd_opt_int (se_sdk env) v)) \<and>
     (\<forall>v. raises_only foreign (se_opt_bool env v)) \<and>
     (\<forall>k. fails_with foreign (rc_get (se_redis env) k)) \<and> (\<forall>k t v. fails_with foreign (rc_setex (se_redis env) k t v)) \<and>
     (\<forall>k. fails_with foreign (rc_delete (se_redis env) k)) \<and> (\<forall>v. raises_only foreign (rc_dumps (se_redis env) v)) \<and>
     (\<forall>t. raises_only foreign (rc_loads (se_redis env) t))"

definition service_error :: "exn \<Rightarrow> bool" where
  "service_error e \<longleftrightarrow> sdk_boundary_exn e \<or> foreign e \<or> (\<exists>m c. e = AppException m 400 c \<or> e = AppException m 404 c \<or> e = AppException m 409 c)"

lemma service_errors [fails_intros]:
  "service_error (AppException m 400 c)" "service_error (AppException m 404 c)" "service_error (AppException m 409 c)"
  "service_error (PyException n m)"
  by (simp_all add: service_error_def foreign_def)

lemma service_foreign: "raises_only foreign r \<Longrightarrow> raises_only service_error r"
  by (simp add: raises_only_def service_error_def)

lemma fails_call [fails_intros]: "fails_with service_error (call env service operation args kwargs)"
  unfolding fails_with_def call_def
proof
  fix w
  show "raises_only service_error (fst (os_call (se_settings env) (se_sdk env) service operation args kwargs w))"
    using os_call_meets_contract [of service operation w "se_settings env" "se_sdk env" args kwargs]
    by (auto simp: raises_only_def service_error_def call_contract_def split: prod.splits sum.splits)
qed

lemma fails_cloudE: "fails_with P m \<Longrightarrow> fails_with P (cloudE m)"
  by (simp add: fails_with_def cloudE_def split: prod.split) (metis fst_conv)

lemma fails_cacheE: "fails_with P m \<Longrightarrow> fails_with P (cacheE m)"
  by (simp add: fails_with_def cacheE_def split: prod.split) (metis fst_conv)

lemma fails_require [fails_intros]: "service_error e \<Longrightarrow> fails_with service_error (require env service operation args e)"
  unfolding require_def by (intro fails_intros)

lemma fails_delete_call [fails_intros]: "service_error e \<Longrightarrow> fails_with service_error (delete_call env service operation i e)"
  unfolding delete_call_def by (intro fails_intros)

lemma env_laws:
  assumes "env_ok env"
  shows "fails_with foreign (sdk_iter (se_sdk env) v)" "raises_only foreign (pd_opt_str (se_sdk env) v)"
    "raises_only foreign (pd_opt_int (se_sdk env) v)" "raises_only foreign (se_opt_bool env v)"
  using assms by (simp_all add: env_ok_def)

lemma fails_foreign: "fails_with foreign m \<Longrightarrow> fails_with service_error m"
  by (simp add: fails_with_def service_foreign)

lemma cache_operations_foreign:
  assumes "env_ok env"
  shows "fails_with foreign (cache_get (se_redis env) now el r)" "fails_with foreign (cache_set (se_redis env) now el r v)"
    "fails_with foreign (cache_invalidate (se_redis env) el r)"
proof -
  have laws: "raises_only foreign (fst (rc_get (se_redis env) k srv))" "raises_only foreign (fst (rc_setex (se_redis env) k t x srv))"
    "raises_only foreign (fst (rc_delete (se_redis env) k srv))" "raises_only foreign (rc_dumps (se_redis env) y)"
    "raises_only foreign (rc_loads (se_redis env) x)" for k t x y srv
    using assms by (simp_all add: env_ok_def fails_with_def)
  have get: "raises_only foreign (fst (redis_get (se_redis env) el r s))" for s
    using laws(1) [of "redis_key s r" "rd_server s"] laws(5)
    by (auto simp: redis_get_def raises_only_def Let_def map_sum_def split: prod.splits sum.splits option.splits)
  have set: "raises_only foreign (fst (redis_set (se_redis env) ttls el r v s))" for ttls s
    using laws(2) [of "redis_key s r" "ttl_for ttls r" _ "rd_server s"] laws(4) [of v]
    by (auto simp: redis_set_def raises_only_def Let_def split: prod.splits sum.splits) (metis fst_conv)+
  have del: "raises_only foreign (fst (redis_invalidate (se_redis env) el r s))" for s
    using laws(3) [of "redis_key s r" "rd_server s"]
    by (auto simp: redis_invalidate_def raises_only_def Let_def split: prod.splits sum.splits)
  show "fails_with foreign (cache_get (se_redis env) now el r)"
    using get by (auto simp: fails_with_def cache_get_def raises_only_rules split: option.split backend.split prod.split) (metis fst_conv)
  show "fails_with foreign (cache_set (se_redis env) now el r v)"
    using set by (auto simp: fails_with_def cache_set_def raises_only_rules split: option.split backend.split prod.split) (metis fst_conv)
  show "fails_with foreign (cache_invalidate (se_redis env) el r)"
    using del by (auto simp: fails_with_def cache_invalidate_def raises_only_rules split: option.split backend.split prod.split) (metis fst_conv)
qed

lemma fails_attr [fails_intros]: "raises_only service_error (attr v name)"
  by (simp add: raises_only_def attr_def service_error_def foreign_def)

lemma fails_first_attachment [fails_intros]: "raises_only service_error (first_attachment i as)"
  by (induction as) (auto intro!: fails_intros)

lemma fails_serializers:
  assumes "env_ok env"
  shows "raises_only service_error (serialize_server_summary env v)" "raises_only service_error (serialize_server_detail env v)"
    "raises_only service_error (serialize_volume env v)" "raises_only service_error (serialize_network env v)"
    "raises_only service_error (serialize_subnet env v)" "raises_only service_error (serialize_image env v)"
  unfolding serialize_server_summary_def serialize_server_detail_def serialize_volume_def serialize_network_def serialize_subnet_def
    serialize_image_def Let_def
  by (intro fails_intros service_foreign env_laws [OF assms])+

lemma fails_shared:
  assumes "env_ok env"
  shows "fails_with service_error (invalidate env r)"
    "fails_with service_error fetch \<Longrightarrow> fails_with service_error (cached_list env r fetch)"
    "(\<And>v. raises_only service_error (f v)) \<Longrightarrow> fails_with service_error (each env f raw)"
    "fails_with service_error (cloudE (sdk_iter (se_sdk env) raw))"
proof -
  note cache = fails_cacheE [OF fails_foreign [OF cache_operations_foreign(1) [OF assms]]]
    fails_cacheE [OF fails_foreign [OF cache_operations_foreign(2) [OF assms]]]
    fails_cacheE [OF fails_foreign [OF cache_operations_foreign(3) [OF assms]]]
  show "fails_with service_error (invalidate env r)" unfolding invalidate_def by (rule cache)
  show "fails_with service_error fetch \<Longrightarrow> fails_with service_error (cached_list env r fetch)"
    unfolding cached_list_def by (intro fails_intros cache)
  show i: "fails_with service_error (cloudE (sdk_iter (se_sdk env) raw))"
    by (intro fails_cloudE fails_foreign env_laws [OF assms])
  show "(\<And>v. raises_only service_error (f v)) \<Longrightarrow> fails_with service_error (each env f raw)"
    unfolding each_def by (intro fails_intros i)
qed

lemma compute_errors:
  assumes "env_ok env"
  shows "fails_with service_error (list_servers env)" "fails_with service_error (get_server env i)"
    "fails_with service_error (create_server env sp)" "fails_with service_error (perform_action env i act)"
    "fails_with service_error (delete_server env i)" "fails_with service_error (resize_server env i j)"
    "fails_with service_error (confirm_resize env i)" "fails_with service_error (revert_resize env i)"
    "fails_with service_error (create_server_image env i nm)" "fails_with service_error (attach_volume env i j)"
    "fails_with service_error (detach_volume env i j)"
proof -
  note rules = fails_intros fails_shared [OF assms] fails_serializers [OF assms]
  show "fails_with service_error (list_servers env)" "fails_with service_error (get_server env i)"
    "fails_with service_error (create_server env sp)" "fails_with service_error (perform_action env i act)"
    "fails_with service_error (delete_server env i)"
    unfolding list_servers_def get_server_def create_server_def perform_action_def delete_server_def by (intro rules)+
  show "fails_with service_error (resize_server env i j)"
    "fails_with service_error (confirm_resize env i)" "fails_with service_error (revert_resize env i)"
    "fails_with service_error (create_server_image env i nm)" "fails_with service_error (attach_volume env i j)"
    "fails_with service_error (detach_volume env i j)"
    unfolding resize_server_def confirm_resize_def revert_resize_def create_server_image_def attach_volume_def detach_volume_def
    by (intro rules)+
qed

lemma storage_and_network_errors:
  assumes "env_ok env"
  shows "fails_with service_error (os_list_networks env)" "fails_with service_error (get_network env i)"
    "fails_with service_error (get_network_subnets env i)" "fails_with service_error (get_subnet env i)"
    "fails_with service_error (create_network env np)" "fails_with service_error (delete_network env i)"
    "fails_with service_error (list_volumes env)" "fails_with service_error (get_volume env i)"
    "fails_with service_error (create_volume env vp)" "fails_with service_error (delete_volume env i)"
    "fails_with service_error (list_images env)" "fails_with service_error (get_image env i)" "fails_with service_error (delete_image env i)"
proof -
  note rules = fails_intros fails_shared [OF assms] fails_serializers [OF assms]
  show "fails_with service_error (os_list_networks env)" "fails_with service_error (get_network env i)"
    "fails_with service_error (get_network_subnets env i)" "fails_with service_error (get_subnet env i)"
    "fails_with service_error (create_network env np)" "fails_with service_error (delete_network env i)"
    unfolding os_list_networks_def get_network_def get_network_subnets_def get_subnet_def create_network_def delete_network_def
      require_absent_def by (intro rules)+
  show "fails_with service_error (list_volumes env)" "fails_with service_error (get_volume env i)"
    "fails_with service_error (create_volume env vp)" "fails_with service_error (delete_volume env i)"
    "fails_with service_error (list_images env)" "fails_with service_error (get_image env i)" "fails_with service_error (delete_image env i)"
    unfolding list_volumes_def get_volume_def create_volume_def delete_volume_def list_images_def get_image_def delete_image_def
    by (intro rules)+
qed

section \<open>Properties\<close>

definition answers_within :: "int set \<Rightarrow> ('w, 'a) act \<Rightarrow> bool" where
  "answers_within S m \<longleftrightarrow> fails_with (\<lambda>e. er_status (respond e) \<in> S) m"

lemma answers_service: "fails_with service_error m \<Longrightarrow> answers_within {400, 404, 409, 500, 502, 503} m"
  by (fastforce simp: answers_within_def fails_with_def raises_only_def service_error_def sdk_boundary_exn_def foreign_def respond_def
      handle_app_exception_def handle_unexpected_exception_def)


lemma demo_env_ok: "env_ok demo_service_env"
  by (auto simp: env_ok_def demo_service_env_def scripted_sdk_def fails_with_def raises_only_def foreign_def retE_def raiseE_def
      split: pyval.splits)


text \<open>C25: With an API key configured, the engine's endpoints do nothing for a request without it: neither the cloud nor any
  record of the engine changes, and the answer is 401 without a key and 403 with a wrong one. With the configured key,
  or when none is configured, they are the engine's operations.\<close>

theorem engine_endpoints_guarded:
  "let denied = (if str_truthy h then HTTPException 403 ''Invalid API key'' else HTTPException 401 ''Missing X-API-Key header'');
       allowed = (k = [] \<or> h = Some k)
   in vm_endpoint k h env op w = (if allowed then run_vm_operation env op w else (Inl denied, w)) \<and>
      vm_list_endpoint k h env w = (if allowed then list_vms env w else (Inl denied, w)) \<and>
      vm_get_endpoint k h env i w = (if allowed then get_vm env i w else (Inl denied, w)) \<and>
      active_vm_count k h env w = (if allowed then get_active_count env w else (Inl denied, w))"
  by (auto simp: vm_endpoint_def vm_list_endpoint_def vm_get_endpoint_def active_vm_count_def guarded_def verify_api_key_def
      effect_defs Let_def)

text \<open>A response and the audit entry of its request carry the same request id when the client sent one; for the other
  requests the response has a fresh id and the audit entry none, so that the two cannot be matched.\<close>

theorem request_id_correlation:
  assumes "sc_type scope = ''http''" "ar_raises app = None"
  shows "\<exists>e rid s'. http_request audit_uuid uuid scope app s = (Inr rid, s') \<and> ws_queue s' = ws_queue s @ [Some e] \<and>
    (case extract_request_id (case sc_headers scope of None \<Rightarrow> [] | Some h \<Rightarrow> h) of
       Some i \<Rightarrow> rid = i \<and> ae_request_id e = Some i
     | None \<Rightarrow> rid = uuid \<and> ae_request_id e = None)"
proof -
  let ?h = "case sc_headers scope of None \<Rightarrow> [] | Some h \<Rightarrow> h"
  obtain e where "audit_middleware audit_uuid scope app s = (Inr (), s\<lparr>ws_queue := ws_queue s @ [Some e]\<rparr>)"
      "ae_request_id e = extract_request_id ?h"
    using assms by (auto simp: audit_middleware_def enqueue_audit_entry_def make_entry_def Let_def)
  then show ?thesis
    by (intro exI [of _ e]) (simp add: http_request_def request_id_dispatch_def thenE_def retE_def split: option.split)
qed

theorem request_id_correlation_witness:
  "\<exists>e rid s'. http_request ''a1'' ''u1'' \<lparr>sc_type = ''http'', sc_method = Some ''GET'', sc_path = Some ''/api/v1/health'', sc_headers = Some []\<rparr>
      \<lparr>ar_sent = [(''http.response.start'', Some 200)], ar_raises = None\<rparr> (ws_init :: int option audit_entry worker_state) = (Inr rid, s') \<and>
    ws_queue s' = ws_queue (ws_init :: int option audit_entry worker_state) @ [Some e] \<and> rid = ''u1'' \<and> ae_request_id e = None"
  using request_id_correlation [where scope = "\<lparr>sc_type = ''http'', sc_method = Some ''GET'', sc_path = Some ''/api/v1/health'', sc_headers = Some []\<rparr>"
      and app = "\<lparr>ar_sent = [(''http.response.start'', Some 200)], ar_raises = None\<rparr>" and audit_uuid = "''a1''" and uuid = "''u1''"
      and s = "ws_init :: int option audit_entry worker_state"]
  by auto

end
