(* ===== verification/Orchestration_Endpoints.thy ===== *)
theory Orchestration_Endpoints
  imports Orchestration Openstack_Endpoints
begin

text \<open>
  The endpoints of app/api/v1/endpoints/orchestration and of openstack/storage.py that record an operation task:
  clusters, scaling policies, scheduled tasks, storage pools and migrations. Each works on the table of its service;
  a batch deployment works on the table of clusters and the compute service, whose create_server it calls with a
  request per instance.
\<close>

section \<open>Tables\<close>

text \<open>The row ids and times are drawn by the service; created_at is its time, tk_created that of the task.\<close>

definition create_cluster_endpoint :: "task_env \<Rightarrow> string \<Rightarrow> timestamp \<Rightarrow> cluster_create_request \<Rightarrow>
    (cluster_deployment list tracked_world, cluster_summary \<times> string) act" where
  "create_cluster_endpoint tenv uuid now payload =
    tracked tenv ''create_cluster'' ''cluster'' (Some (cc_name payload)) (\<lambda>c. Some (cu_id c)) None (create_cluster uuid now payload)"

definition delete_cluster_endpoint :: "task_env \<Rightarrow> string \<Rightarrow> (cluster_deployment list tracked_world, unit \<times> string) act" where
  "delete_cluster_endpoint tenv i = tracked tenv ''delete_cluster'' ''cluster'' (Some i) (\<lambda>_. None) None (delete_cluster i)"

definition create_scaling_policy_endpoint :: "task_env \<Rightarrow> string \<Rightarrow> timestamp \<Rightarrow> scaling_policy_request \<Rightarrow>
    (scaling_policy list tracked_world, scaling_policy_summary \<times> string) act" where
  "create_scaling_policy_endpoint tenv uuid now payload =
    tracked tenv ''create_scaling_policy'' ''scaling_policy'' (Some (pr_name payload)) (\<lambda>p. Some (sq_id p)) None
      (create_scaling_policy uuid now payload)"

definition delete_scaling_policy_endpoint :: "task_env \<Rightarrow> string \<Rightarrow> (scaling_policy list tracked_world, unit \<times> string) act" where
  "delete_scaling_policy_endpoint tenv i =
    tracked tenv ''delete_scaling_policy'' ''scaling_policy'' (Some i) (\<lambda>_. None) None (delete_scaling_policy i)"

definition create_scheduled_task_endpoint :: "task_env \<Rightarrow> string \<Rightarrow> timestamp \<Rightarrow> scheduled_task_request \<Rightarrow>
    (scheduled_task list tracked_world, scheduled_task_summary \<times> string) act" where
  "create_scheduled_task_endpoint tenv uuid now payload =
    tracked tenv ''create_scheduled_task'' ''scheduled_task'' (Some (tr_name payload)) (\<lambda>st. Some (scheduled_task_summary.su_id st)) None
      (create_scheduled_task uuid now payload)"

definition delete_scheduled_task_endpoint :: "task_env \<Rightarrow> string \<Rightarrow> (scheduled_task list tracked_world, unit \<times> string) act" where
  "delete_scheduled_task_endpoint tenv i =
    tracked tenv ''delete_scheduled_task'' ''scheduled_task'' (Some i) (\<lambda>_. None) None (delete_scheduled_task i)"

definition create_pool_endpoint :: "task_env \<Rightarrow> string \<Rightarrow> timestamp \<Rightarrow> storage_pool_request \<Rightarrow>
    (storage_pool list tracked_world, storage_pool_summary \<times> string) act" where
  "create_pool_endpoint tenv uuid now payload =
    tracked tenv ''create_storage_pool'' ''storage_pool'' (Some (pc_name payload)) (\<lambda>p. Some (pv_id p)) None (create_pool uuid now payload)"

definition delete_pool_endpoint :: "task_env \<Rightarrow> string \<Rightarrow> (storage_pool list tracked_world, unit \<times> string) act" where
  "delete_pool_endpoint tenv i = tracked tenv ''delete_storage_pool'' ''storage_pool'' (Some i) (\<lambda>_. None) None (delete_pool i)"

definition create_migration_endpoint :: "task_env \<Rightarrow> string \<Rightarrow> timestamp \<Rightarrow> migration_create_request \<Rightarrow>
    (migration_task list tracked_world, migration_summary \<times> string) act" where
  "create_migration_endpoint tenv uuid now payload =
    tracked tenv (mc_migration_type payload @ ''_migration'') ''migration'' (Some (mc_source_ref payload)) (\<lambda>m. Some (mg_id m)) None
      (create_migration uuid now payload)"

section \<open>Batch deployment\<close>

text \<open>The request object batch_deploy makes for create_server; it does not wait for the server.\<close>

definition server_request :: "deploy_server_request \<Rightarrow> server_create_request" where
  "server_request d = \<lparr>sc_name = dr_name d, sc_image_id = dr_image_id d, sc_flavor_id = dr_flavor_id d, sc_network_id = dr_network_id d,
     sc_key_name = dr_key_name d, sc_availability_zone = dr_availability_zone d, sc_metadata = dr_metadata d, sc_wait = False\<rparr>"

definition deploy_batch :: "('c, 'r) service_env \<Rightarrow> string \<Rightarrow> batch_deploy_request \<Rightarrow>
    (('c, 'r, 'm) service_world \<times> cluster_deployment list, batch_deploy_response) act" where
  "deploy_batch env cluster_id payload w = (case w of (c, table) \<Rightarrow>
     (case batch_deploy (Some (\<lambda>d. create_server env (server_request d))) cluster_id payload table c of (r, c') \<Rightarrow> (r, c', table)))"

definition batch_deploy_endpoint :: "('c, 'r) service_env \<Rightarrow> task_env \<Rightarrow> string \<Rightarrow> batch_deploy_request \<Rightarrow>
    ((('c, 'r, 'm) service_world \<times> cluster_deployment list) tracked_world, batch_deploy_response \<times> string) act" where
  "batch_deploy_endpoint env tenv cluster_id payload =
    tracked tenv ''batch_deploy'' ''cluster'' (Some cluster_id) (\<lambda>_. None) None (deploy_batch env cluster_id payload)"

lemmas orchestration_endpoint_defs = create_cluster_endpoint_def delete_cluster_endpoint_def create_scaling_policy_endpoint_def
  delete_scaling_policy_endpoint_def create_scheduled_task_endpoint_def delete_scheduled_task_endpoint_def create_pool_endpoint_def
  delete_pool_endpoint_def create_migration_endpoint_def batch_deploy_endpoint_def

interpretation cluster_created: recorded_endpoint "\<lambda>tenv. create_cluster_endpoint tenv uuid now payload"
  unfolding orchestration_endpoint_defs by (rule tracked_recorded)

interpretation batch_deployed: recorded_endpoint "\<lambda>tenv. batch_deploy_endpoint env tenv i payload"
  unfolding orchestration_endpoint_defs by (rule tracked_recorded)

text \<open>The SDK operations of one instance: the same for every instance of a batch.\<close>

definition instance_ops :: "batch_deploy_request \<Rightarrow> (string \<times> string) list" where
  "instance_ops p =
    [(''image'', ''get_image''), (''compute'', ''get_flavor''), (''network'', ''get_network'')] @
    (if str_truthy (bd_key_name p) then [(''compute'', ''get_keypair'')] else []) @ [(''compute'', ''create_server'')]"

lemma instance_request_ops: "create_server_ops (server_request (deploy_request cid p n)) = instance_ops p"
  by (simp add: create_server_ops_def instance_ops_def server_request_def deploy_request_def)

lemma deploy_loop_trace:
  fixes w :: "('c, 'r, 'm) service_world"
  assumes "\<And>n. create_server_ops (server_request (req n)) = ops"
    and "deploy_loop (Some (\<lambda>d. create_server env (server_request d))) req is k w = (k', w')"
  shows "\<exists>n part. k' = k + int n \<and> n \<le> length is \<and> op_trace w' = op_trace w @ concat (replicate n ops) @ part \<and>
    (\<exists>j \<le> length ops. part = take j ops) \<and> (n = length is \<longrightarrow> part = [])"
  using assms(2)
proof (induction "is" arbitrary: k w)
  case (Cons i "is")
  obtain r w1 where c: "create_server env (server_request (req i)) w = (r, w1)" by fastforce
  have t: "case (r, w1) of (Inr s, w') \<Rightarrow> op_trace w' = op_trace w @ ops
      | (Inl e, w') \<Rightarrow> \<exists>j\<le>length ops. op_trace w' = op_trace w @ take j ops"
    unfolding c [symmetric] assms(1) [of i, symmetric] by (rule create_server_runs_ops [unfolded runs_ops_def, THEN spec])
  show ?case
  proof (cases r)
    case (Inl e)
    then obtain j where "j \<le> length ops" "op_trace w1 = op_trace w @ take j ops" using t by auto
    then show ?thesis using Inl Cons.prems c by (intro exI [of _ "0 :: nat"] exI [of _ "take j ops"]) auto
  next
    case (Inr s)
    then have "deploy_loop (Some (\<lambda>d. create_server env (server_request d))) req is (k + 1) w1 = (k', w')"
      using Cons.prems c by simp
    from Cons.IH [OF this] obtain n part where n: "k' = k + 1 + int n" "n \<le> length is"
        "op_trace w' = op_trace w1 @ concat (replicate n ops) @ part" "\<exists>j \<le> length ops. part = take j ops" "n = length is \<longrightarrow> part = []"
      by blast
    then show ?thesis using Inr t by (intro exI [of _ "Suc n"] exI [of _ part]) auto
  qed
qed auto

section \<open>Properties\<close>

text \<open>C18: A batch deployment to an existing cluster reports as created exactly as many instances as the compute service has
  created: their SDK operations were completed one instance after the other, followed, if fewer were created than requested,
  by a first part of those of the instance that failed. The task is recorded as succeeded also when instances are missing.
  For an unknown cluster nothing is done and the task has failed.\<close>

theorem batch_deploy_endpoint_outcome:
  assumes "sql_get ot_id (tk_uuid tenv) t = None" "0 \<le> bd_instance_count p"
  shows "case sql_get cl_id cid table of
      None \<Rightarrow> batch_deploy_endpoint env tenv cid p ((w, table), t) = (Inl cluster_not_found, (w, table),
         t @ [finished_row tenv ''batch_deploy'' ''cluster'' (Some cid) ''failed'' None (Some ''Cluster not found'')])
    | Some c \<Rightarrow> (\<exists>n part w'. batch_deploy_endpoint env tenv cid p ((w, table), t) =
         (Inr (\<lparr>br_template_name = bd_template_name p, br_requested = bd_instance_count p, br_created = int n\<rparr>, tk_uuid tenv), (w', table),
          t @ [finished_row tenv ''batch_deploy'' ''cluster'' (Some cid) ''succeeded'' None None]) \<and>
         int n \<le> bd_instance_count p \<and> op_trace w' = op_trace w @ concat (replicate n (instance_ops p)) @ part \<and>
         (\<exists>j \<le> length (instance_ops p). part = take j (instance_ops p)) \<and> (int n = bd_instance_count p \<longrightarrow> part = []))"
proof (cases "sql_get cl_id cid table")
  case None
  then show ?thesis by (simp add: batch_deploy_endpoint_def tracked_run [OF assms(1)] deploy_batch_def batch_deploy_def)
next
  case (Some c)
  obtain k w' where l: "deploy_loop (Some (\<lambda>d. create_server env (server_request d))) (deploy_request cid p)
      [0..<nat (bd_instance_count p)] 0 w = (k, w')" by fastforce
  from deploy_loop_trace [OF instance_request_ops l] obtain n part where
    "k = int n" "n \<le> nat (bd_instance_count p)" "op_trace w' = op_trace w @ concat (replicate n (instance_ops p)) @ part"
    "\<exists>j \<le> length (instance_ops p). part = take j (instance_ops p)" "n = nat (bd_instance_count p) \<longrightarrow> part = []" by auto
  then show ?thesis using Some l assms(2)
    by (auto simp: batch_deploy_endpoint_def tracked_run [OF assms(1)] deploy_batch_def batch_deploy_def le_nat_iff
        intro!: exI [of _ n] exI [of _ part])
qed

definition demo_row :: cluster_deployment where
  "demo_row = \<lparr>cl_id = ''c'', cl_name = ''web'', cl_description = None, cl_cluster_type = ''compute'', cl_status = ''active'',
     cl_node_count = 2, cl_extra_config = [], cl_created_at = 1\<rparr>"

definition demo_batch :: batch_deploy_request where
  "demo_batch = \<lparr>bd_template_name = ''web'', bd_instance_count = 2, bd_image_id = ''i'', bd_flavor_id = ''f'', bd_network_id = ''n'',
     bd_key_name = None, bd_availability_zone = None\<rparr>"

text \<open>The cloud answers nothing: no instance is created and the task has succeeded.\<close>

theorem batch_deploy_endpoint_outcome_witness:
  "map ot_state (snd (snd (batch_deploy_endpoint demo_service_env demo_task ''c'' demo_batch ((demo_service_state [], [demo_row]), [])))) = [''succeeded'']"
proof -
  have "sql_get cl_id ''c'' [demo_row] = Some demo_row" by (simp add: sql_get_def demo_row_def)
  then show ?thesis
    using batch_deploy_endpoint_outcome [where tenv = demo_task and t = "[]" and p = demo_batch and cid = "''c''"
      and table = "[demo_row]" and env = demo_service_env and w = "demo_service_state []"]
    by (auto simp: sql_get_def demo_batch_def finished_row_def)
qed

end
