(* ===== verification/Managers.thy ===== *)
theory Managers
  imports Orchestration_Endpoints Kubernetes Monitoring
begin

text \<open>
  The managers of app/modules that combine operations of the services: compute, volumes, flavors, networks, routers,
  snapshots, kubernetes, cluster, monitoring and health. A manager's services may be absent (None); an operation then
  does nothing. Managers that only pass a call on are not listed again.

  The managers build the requests themselves, so the declared constraints of the request classes are checked here:
  pydantic raises its ValidationError, whose text is the parameter msg.
\<close>

section \<open>Requests built by the managers\<close>

definition constructed :: "string \<Rightarrow> ('p \<Rightarrow> bool) \<Rightarrow> 'p \<Rightarrow> ('w, 'p) act" where
  "constructed msg ok p = (if ok p then retE p else raiseE (PyException ''ValidationError'' msg))"

definition valid_deployment_request :: "deployment_create_request \<Rightarrow> bool" where
  "valid_deployment_request p \<longleftrightarrow> 1 \<le> code_points (deployment_create_request.dr_name p) \<and> code_points (deployment_create_request.dr_name p) \<le> 253 \<and>
     1 \<le> dr_replicas p \<and> dr_replicas p \<le> 100 \<and> (case dr_port p of None \<Rightarrow> True | Some n \<Rightarrow> 1 \<le> n \<and> n \<le> 65535)"

definition valid_service_request :: "service_create_request \<Rightarrow> bool" where
  "valid_service_request p \<longleftrightarrow> 1 \<le> code_points (cr_name p) \<and> code_points (cr_name p) \<le> 253 \<and> 1 \<le> cr_port p \<and> cr_port p \<le> 65535 \<and>
     (case cr_target_port p of None \<Rightarrow> True | Some n \<Rightarrow> 1 \<le> n \<and> n \<le> 65535)"

definition valid_network_request :: "network_create_request \<Rightarrow> bool" where
  "valid_network_request p \<longleftrightarrow> 1 \<le> code_points (nr_name p) \<and> code_points (nr_name p) \<le> 255"

definition valid_router_name :: "string \<Rightarrow> bool" where
  "valid_router_name name \<longleftrightarrow> 1 \<le> code_points name \<and> code_points name \<le> 255"

definition valid_cluster_request :: "cluster_create_request \<Rightarrow> bool" where
  "valid_cluster_request p \<longleftrightarrow> 1 \<le> code_points (cc_name p) \<and> code_points (cc_name p) \<le> 255 \<and>
     (case cc_description p of None \<Rightarrow> True | Some d \<Rightarrow> code_points d \<le> 2000) \<and> 0 \<le> cc_node_count p"

definition valid_batch_request :: "batch_deploy_request \<Rightarrow> bool" where
  "valid_batch_request p \<longleftrightarrow> 1 \<le> code_points (bd_template_name p) \<and> code_points (bd_template_name p) \<le> 255 \<and>
     1 \<le> bd_instance_count p \<and> bd_instance_count p \<le> 100"

section \<open>Flavors (modules/flavors)\<close>

definition at_least :: "int option \<Rightarrow> int \<Rightarrow> bool" where
  "at_least sz needed = (case sz of None \<Rightarrow> False | Some n \<Rightarrow> n \<ge> needed)"

definition find_suitable_flavor :: "('c, 'r) service_env \<Rightarrow> int \<Rightarrow> int \<Rightarrow> int \<Rightarrow> (('c, 'r, 'm) service_world, flavor_summary option) act" where
  "find_suitable_flavor env vcpus ram_mb disk_gb =
    bindE (list_flavors env) (\<lambda>flavors.
    retE (List.find (\<lambda>f. at_least (fs_vcpus f) vcpus \<and> at_least (fs_ram f) ram_mb \<and> at_least (fs_disk f) disk_gb) flavors))"

section \<open>Servers, volumes and snapshots\<close>

definition provision_server :: "('c, 'r) service_env \<Rightarrow> server_create_request \<Rightarrow> (('c, 'r, 'm) service_world, server_summary \<times> string) act" where
  "provision_server env req = bindE (create_server env req) (\<lambda>server. retE (server, ''Server provisioned successfully''))"

definition teardown_server :: "('c, 'r) service_env \<Rightarrow> string \<Rightarrow> (('c, 'r, 'm) service_world, unit) act" where
  "teardown_server env server_id = delete_server env server_id"

definition attach_to_server :: "('c, 'r) service_env \<Rightarrow> bool \<Rightarrow> string \<Rightarrow> string \<Rightarrow> (('c, 'r, 'm) service_world, unit) act" where
  "attach_to_server env has_compute volume_id server_id = (if has_compute then attach_volume env server_id volume_id else retE ())"

definition detach_from_server :: "('c, 'r) service_env \<Rightarrow> bool \<Rightarrow> string \<Rightarrow> string \<Rightarrow> (('c, 'r, 'm) service_world, unit) act" where
  "detach_from_server env has_compute volume_id server_id = (if has_compute then detach_volume env server_id volume_id else retE ())"

definition create_vm_snapshot :: "('c, 'r) service_env \<Rightarrow> string \<Rightarrow> string \<Rightarrow> (('c, 'r, 'm) service_world, string \<times> pyval \<times> string) act" where
  "create_vm_snapshot env server_id snapshot_name =
    bindE (create_server_image env server_id snapshot_name) (\<lambda>image_id. retE (server_id, image_id, snapshot_name))"

section \<open>Networks and routers\<close>

definition provision_network_with_subnet :: "('c, 'r) service_env \<Rightarrow> string \<Rightarrow> string \<Rightarrow> string \<Rightarrow> (('c, 'r, 'm) service_world, network_summary_os) act" where
  "provision_network_with_subnet env msg name cidr =
    bindE (constructed msg valid_network_request \<lparr>nr_name = name, nr_cidr = cidr\<rparr>) (create_network env)"

text \<open>The arguments of add_interface are evaluated after the method has been looked up: the missing method is the first
  error, and with no subnet the missing field of the result.\<close>

definition provision_router_with_interfaces :: "('c, 'r) service_env \<Rightarrow> string \<Rightarrow> string \<Rightarrow> string list \<Rightarrow> (('c, 'r, 'm) service_world, pyval \<times> nat) act" where
  "provision_router_with_interfaces env msg name subnet_ids =
    bindE (bindE (constructed msg valid_router_name name) (create_router env)) (\<lambda>router.
    thenE (forE (\<lambda>subnet_id. call_method (router_subnet_methods env [] subnet_id) ''add_interface'') subnet_ids)
    (bindE (outcomeE (attr (router_obj router) ''router_id'')) (\<lambda>i. retE (i, length subnet_ids))))"

definition teardown_router :: "('c, 'r) service_env \<Rightarrow> string \<Rightarrow> string list option \<Rightarrow> (('c, 'r, 'm) service_world, unit) act" where
  "teardown_router env router_id subnet_ids =
    thenE (forE (\<lambda>subnet_id. tryE (call_method (router_subnet_methods env router_id subnet_id) ''remove_interface'') (\<lambda>_. retE ()))
       (case subnet_ids of None \<Rightarrow> [] | Some ids \<Rightarrow> ids))
    (delete_router env router_id)"

section \<open>The full stack (modules/orchestration)\<close>

definition provision_full_stack :: "bool \<Rightarrow> bool \<Rightarrow> bool \<Rightarrow> string list \<Rightarrow> (string, string) dict" where
  "provision_full_stack has_compute has_network has_volume spec =
    (if has_network \<and> ''network'' \<in> set spec then [(''network'', ''created'')] else []) @
    (if has_volume \<and> ''volume'' \<in> set spec then [(''volume'', ''created'')] else []) @
    (if has_compute \<and> ''server'' \<in> set spec then [(''server'', ''created'')] else [])"

definition teardown_full_stack :: "('c, 'r) service_env \<Rightarrow> bool \<Rightarrow> string option \<Rightarrow> string list option \<Rightarrow> (('c, 'r, 'm) service_world, unit) act" where
  "teardown_full_stack env has_compute server_id volume_ids =
    (if has_compute \<and> str_truthy server_id then delete_server env (the server_id) else retE ())"

section \<open>Workloads (modules/kubernetes)\<close>

definition deploy_workload :: "k8s_settings \<Rightarrow> 'k k8s_api \<Rightarrow> string \<Rightarrow> string \<Rightarrow> string \<Rightarrow> int \<Rightarrow> int option \<Rightarrow>
    ('k, deployment_summary \<times> service_summary \<times> string) act" where
  "deploy_workload s api msg name img replicas port =
    bindE (bindE (constructed msg valid_deployment_request \<lparr>deployment_create_request.dr_name = name, dr_image = img,
       dr_namespace = ''default'', dr_replicas = replicas, dr_port = port, dr_labels = []\<rparr>) (create_deployment s api)) (\<lambda>dep.
    bindE (bindE (constructed msg valid_service_request \<lparr>cr_name = name, cr_namespace = ''default'', cr_type = ''ClusterIP'',
       cr_port = (case port of None \<Rightarrow> 80 | Some p \<Rightarrow> if p = 0 then 80 else p), cr_target_port = None, cr_selector = [(''app'', name)]\<rparr>)
       (create_service s api)) (\<lambda>svc.
    retE (dep, svc, ''Workload deployed successfully'')))"

definition remove_workload :: "k8s_settings \<Rightarrow> 'k k8s_api \<Rightarrow> string \<Rightarrow> ('k, unit) act" where
  "remove_workload s api name = thenE (delete_service s api name None) (delete_deployment s api name None)"

section \<open>Clusters (modules/cluster)\<close>

datatype cluster_provisioned = ClusterServiceMissing string | ClusterProvisioned string batch_deploy_response string

definition provision_cluster_with_instances :: "('c, 'r) service_env \<Rightarrow> bool \<Rightarrow> string \<Rightarrow> string \<Rightarrow> timestamp \<Rightarrow> string \<Rightarrow> int \<Rightarrow>
    string \<Rightarrow> string \<Rightarrow> string \<Rightarrow> (('c, 'r, 'm) service_world \<times> cluster_deployment list, cluster_provisioned) act" where
  "provision_cluster_with_instances env has_cluster msg uuid now name instance_count image_id flavor_id network_id =
    (if \<not> has_cluster then retE (ClusterServiceMissing ''Cluster service not available'')
     else
       bindE (bindE (constructed msg valid_cluster_request \<lparr>cc_name = name, cc_description = None, cc_cluster_type = ''compute'',
          cc_node_count = instance_count, cc_metadata = []\<rparr>)
         (\<lambda>p (w, table). case create_cluster uuid now p table of (r, table') \<Rightarrow> (r, w, table'))) (\<lambda>cluster.
       bindE (bindE (constructed msg valid_batch_request \<lparr>bd_template_name = name, bd_instance_count = instance_count, bd_image_id = image_id,
          bd_flavor_id = flavor_id, bd_network_id = network_id, bd_key_name = None, bd_availability_zone = None\<rparr>)
         (deploy_batch env (cu_id cluster))) (\<lambda>deploy_result.
       retE (ClusterProvisioned (cu_id cluster) deploy_result
         (''Cluster '' @ quote name @ '' with '' @ str_int (br_created deploy_result) @ '' instances provisioned'')))))"

section \<open>Health and monitoring (modules/health, modules/monitoring)\<close>

definition probe :: "bool \<Rightarrow> string \<Rightarrow> ('w, 'a) act \<Rightarrow> ('w, (string, string) dict) act" where
  "probe present name m =
    (if present then tryE (thenE m (retE [(name, ''ok'')])) (\<lambda>_. retE [(name, ''unreachable'')]) else retE [])"

definition check_all :: "('c, 'r) service_env \<Rightarrow> bool \<Rightarrow> bool \<Rightarrow> bool \<Rightarrow> (('c, 'r, 'm) service_world, (string, string) dict) act" where
  "check_all env has_compute has_network has_image =
    bindE (probe has_compute ''compute'' (list_servers env)) (\<lambda>a.
    bindE (probe has_network ''network'' (os_list_networks env)) (\<lambda>b.
    bindE (probe has_image ''image'' (list_images env)) (\<lambda>c. retE (a @ b @ c))))"

definition cached_length :: "cached \<Rightarrow> nat" where
  "cached_length v = (case v of CServers xs \<Rightarrow> length xs | CVolumes xs \<Rightarrow> length xs | CNetworks xs \<Rightarrow> length xs | CImages xs \<Rightarrow> length xs)"

text \<open>The metric goes to the queue of the monitoring service.\<close>

definition collect_hypervisor_metrics :: "('c, 'r) service_env \<Rightarrow> bool \<Rightarrow> (('c, 'r, 'm) service_world \<times> metric_entry worker_state, int) act" where
  "collect_hypervisor_metrics env has_services w = (case w of (c, q) \<Rightarrow>
     if \<not> has_services then (Inr 0, w)
     else (case list_servers env c of
        (Inr servers, c') \<Rightarrow> (Inr (int (cached_length servers)), c',
           record_metric ''total_instances'' ''openstack'' (of_nat (cached_length servers)) (Some ''count'') None None None q)
      | (Inl _, c') \<Rightarrow> (Inr (-1), c', q)))"

definition get_resource_summary :: "('c, 'r) service_env \<Rightarrow> bool \<Rightarrow> (('c, 'r, 'm) service_world, (string, int) dict) act" where
  "get_resource_summary env has_compute =
    bindE (if has_compute then tryE (bindE (list_servers env) (\<lambda>servers. retE (int (cached_length servers)))) (\<lambda>_. retE (-1)) else retE 0)
      (\<lambda>n. retE [(''servers'', n), (''networks'', 0), (''volumes'', 0)])"

section \<open>Properties\<close>

definition suitable :: "int \<Rightarrow> int \<Rightarrow> int \<Rightarrow> flavor_summary \<Rightarrow> bool" where
  "suitable vcpus ram_mb disk_gb f \<longleftrightarrow> (\<exists>c r d. fs_vcpus f = Some c \<and> fs_ram f = Some r \<and> fs_disk f = Some d \<and>
     vcpus \<le> c \<and> ram_mb \<le> r \<and> disk_gb \<le> d)"

lemma suitable_iff: "suitable vcpus ram_mb disk_gb f \<longleftrightarrow> at_least (fs_vcpus f) vcpus \<and> at_least (fs_ram f) ram_mb \<and> at_least (fs_disk f) disk_gb"
  by (auto simp: suitable_def at_least_def split: option.splits)

lemma find_suitable_flavor_suitable:
  "find_suitable_flavor env c r d = bindE (list_flavors env) (\<lambda>fs. retE (List.find (suitable c r d) fs))"
  by (simp add: find_suitable_flavor_def suitable_iff [abs_def])

text \<open>The search for a flavor finds one exactly when the cloud offers one with at least the required vCPUs, memory and
  disk, and returns the first such in the order of the cloud's listing; flavors with an unknown size are skipped.\<close>

theorem suitable_flavor_found:
  "case list_flavors env w of
     (Inl e, w') \<Rightarrow> find_suitable_flavor env c r d w = (Inl e, w')
   | (Inr fs, w') \<Rightarrow> (\<exists>found. find_suitable_flavor env c r d w = (Inr found, w') \<and>
       (case found of
          None \<Rightarrow> list_all (\<lambda>f. \<not> suitable c r d f) fs
        | Some f \<Rightarrow> (\<exists>pre post. fs = pre @ f # post \<and> suitable c r d f \<and> list_all (\<lambda>f. \<not> suitable c r d f) pre)))"
proof -
  have "case List.find (suitable c r d) fs of
          None \<Rightarrow> list_all (\<lambda>f. \<not> suitable c r d f) fs
        | Some f \<Rightarrow> (\<exists>pre post. fs = pre @ f # post \<and> suitable c r d f \<and> list_all (\<lambda>f. \<not> suitable c r d f) pre)" for fs
  proof (induction fs)
    case (Cons x xs)
    show ?case
    proof (cases "suitable c r d x")
      case False
      then show ?thesis using Cons.IH
        by (auto split: option.splits) (metis append_Cons list.pred_inject(2))
    qed (simp, rule exI [of _ "[]"], simp)
  qed simp
  then show ?thesis
    by (simp add: find_suitable_flavor_suitable bindE_def retE_def split: prod.split sum.split)
qed

lemma probe_eq:
  "probe b name m w = (if b then (Inr [(name, if isl (fst (m w)) then ''unreachable'' else ''ok'')], snd (m w)) else (Inr [], w))"
  by (auto simp: probe_def tryE_def thenE_def retE_def split: prod.split sum.split)

text \<open>The health check always returns, with one entry for each service it was given; an entry says unreachable exactly
  when the listing of that service failed, and the listings are made one after the other, whether the earlier ones
  failed or not.\<close>

theorem check_all_total:
  "let state = (\<lambda>m w. if isl (fst (m w)) then ''unreachable'' else ''ok'');
       w1 = (if hc then snd (list_servers env w) else w);
       w2 = (if hn then snd (os_list_networks env w1) else w1);
       w3 = (if hi then snd (list_images env w2) else w2)
   in check_all env hc hn hi w =
     (Inr ((if hc then [(''compute'', state (list_servers env) w)] else []) @
           (if hn then [(''network'', state (os_list_networks env) w1)] else []) @
           (if hi then [(''image'', state (list_images env) w2)] else [])), w3)"
  by (simp add: check_all_def bindE_def retE_def probe_eq Let_def)

text \<open>Provisioning a cluster under a new name with no instance or with more than a hundred raises a validation error
  without any call to the cloud, but the cluster is stored, as active with that node count: the request for the
  instances is checked only after the cluster has been created.\<close>

theorem cluster_left_without_instances:
  assumes "1 \<le> code_points name" "code_points name \<le> 255" and range: "n = 0 \<or> 100 < n"
    and fresh: "name \<notin> cl_name ` set table"
  shows "\<exists>row. provision_cluster_with_instances env True msg uuid now name n img flavor net (w, table) =
      (Inl (PyException ''ValidationError'' msg), w, sql_add row table) \<and>
    cl_id row = uuid \<and> cl_name row = name \<and> cl_status row = ''active'' \<and> cl_node_count row = n"
proof -
  have "valid_cluster_request \<lparr>cc_name = name, cc_description = None, cc_cluster_type = ''compute'', cc_node_count = n, cc_metadata = []\<rparr>"
    using assms by (auto simp: valid_cluster_request_def)
  then show ?thesis using range fresh
    by (subst provision_cluster_with_instances_def)
      (auto simp: bindE_def constructed_def retE_def raiseE_def valid_batch_request_def create_cluster_cases Let_def)
qed

theorem cluster_left_without_instances_witness:
  "\<exists>row. provision_cluster_with_instances demo_service_env True [] ''u'' 0 ''web'' 0 ''i'' ''f'' ''n'' (demo_service_state [], []) =
      (Inl (PyException ''ValidationError'' []), demo_service_state [], sql_add row []) \<and>
    cl_id row = ''u'' \<and> cl_name row = ''web'' \<and> cl_status row = ''active'' \<and> cl_node_count row = 0"
  by (rule cluster_left_without_instances) (simp_all add: code_points_def continuation_unit_def)

end
