(* ===== verification/Benchmark_Inventory.thy ===== *)
theory Benchmark_Inventory
  imports Vmware_Compatibility Py_Library "HOL-Library.State_Monad"
begin

text \<open>
  scripts/generate_benchmark_inventory.py: the generator of the inventories on which the assessment is measured and
  validated.

  The generator threads one random.Random through all draws, so it is written in the state monad; 'r is the state of
  the random numbers. The draws (random, the index choice picks, randint, uniform) and the order in which Python lists
  the elements of a set of strings are fields of the record gen_env; rng_ok states their documented ranges. Writing the
  files and parsing the command line are not modelled.
\<close>

section \<open>Draws\<close>

record 'r gen_env =
  rg_random :: "('r, rat) state"
  rg_below :: "nat \<Rightarrow> ('r, nat) state"
  rg_randint :: "int \<Rightarrow> int \<Rightarrow> ('r, int) state"
  rg_uniform :: "rat \<Rightarrow> rat \<Rightarrow> ('r, rat) state"
  rg_set_order :: "string list \<Rightarrow> string list"

text \<open>Every result of a draw satisfies P, in whatever state it is made.\<close>

definition draws :: "('a \<Rightarrow> bool) \<Rightarrow> ('r, 'a) state \<Rightarrow> bool" where
  "draws P m \<longleftrightarrow> (\<forall>s. P (fst (run_state m s)))"

definition rng_ok :: "'r gen_env \<Rightarrow> bool" where
  "rng_ok g \<longleftrightarrow> draws (\<lambda>x. 0 \<le> x \<and> x < 1) (rg_random g) \<and> (\<forall>n > 0. draws (\<lambda>i. i < n) (rg_below g n)) \<and>
     (\<forall>a b. a \<le> b \<longrightarrow> draws (\<lambda>i. a \<le> i \<and> i \<le> b) (rg_randint g a b)) \<and>
     (\<forall>xs. distinct (rg_set_order g xs) \<and> set (rg_set_order g xs) = set xs)"

definition rand_choice :: "'r gen_env \<Rightarrow> 'a list \<Rightarrow> ('r, 'a) state" where
  "rand_choice g items = do {i \<leftarrow> rg_below g (length items); State_Monad.return (items ! i)}"

definition pick :: "'r gen_env \<Rightarrow> 'a list \<Rightarrow> rat \<Rightarrow> ('r, 'a) state" where
  "pick g items p = do {r \<leftarrow> rg_random g; if r < p then State_Monad.return (items ! 0) else rand_choice g items}"

definition bool_with_prob :: "'r gen_env \<Rightarrow> rat \<Rightarrow> ('r, bool) state" where
  "bool_with_prob g prob = do {r \<leftarrow> rg_random g; State_Monad.return (r < prob)}"

section \<open>Templates\<close>

definition OS_TEMPLATES :: "(string \<times> string \<times> bool) list" where
  "OS_TEMPLATES =
    [(''CentOS 7'', ''linux'', True),
     (''CentOS 8'', ''linux'', True),
     (''CentOS 9'', ''linux'', True),
     (''Ubuntu 20.04'', ''linux'', True),
     (''Ubuntu 22.04'', ''linux'', True),
     (''Ubuntu 24.04'', ''linux'', True),
     (''Debian 11'', ''linux'', True),
     (''Debian 12'', ''linux'', True),
     (''Red Hat Enterprise Linux 8'', ''linux'', True),
     (''Red Hat Enterprise Linux 9'', ''linux'', True),
     (''SUSE Linux Enterprise Server 15'', ''linux'', True),
     (''Windows Server 2019'', ''windows'', True),
     (''Windows Server 2022'', ''windows'', True),
     (''Windows 10'', ''windows'', True),
     (''Windows 11'', ''windows'', True),
     (''FreeBSD 13'', ''unix'', True),
     (''FreeBSD 14'', ''unix'', True),
     (''Solaris 11'', ''unix'', False),
     (''HP-UX 11i'', ''unix'', False),
     (''macOS Ventura'', ''unix'', False)]"

definition POWER_STATES :: "string list" where
  "POWER_STATES = [''poweredOn'', ''poweredOff'', ''suspended'']"

definition DISK_CONTROLLER_SETS :: "string list list" where
  "DISK_CONTROLLER_SETS = [[''lsilogic''], [''lsilogic'', ''ide''], [''pvscsi''], [''nvme''], [''lsilogic'', ''nvme''],
     [''pvscsi'', ''nvme''], [''ide''], [''sata''], [''lsilogic'', ''sata''], []]"

definition NIC_TYPES :: "string list" where
  "NIC_TYPES = [''vmxnet3'', ''e1000'', ''vmxnet2'', ''sriov'', ''e1000e'', ''unknown'']"

definition FIRMWARE_TYPES :: "string list" where
  "FIRMWARE_TYPES = [''bios'', ''efi'']"

definition DATASTORE_NAMES :: "string list" where
  "DATASTORE_NAMES = [''datastore1'', ''datastore2'', ''datastore3'', ''datastore4'', ''datastore5'', ''vsanDatastore'',
     ''nfsDatastore'', ''ssdDatastore'', ''localDatastore'']"

definition NETWORK_NAMES :: "string list" where
  "NETWORK_NAMES = [''VM Network'', ''Management Network'', ''Storage Network'', ''vMotion Network'', ''Public Network'',
     ''Private Network'', ''DMZ Network'', ''iSCSI Network'']"

definition CLUSTER_NAMES :: "string list" where
  "CLUSTER_NAMES = [''Compute-Cluster'', ''GPU-Cluster'', ''Management-Cluster'', ''Storage-Cluster'', ''DR-Cluster'']"

definition HOST_NAMES :: "string list" where
  "HOST_NAMES = [''esxi-01.local'', ''esxi-02.local'', ''esxi-03.local'', ''esxi-04.local'', ''esxi-05.local'',
     ''esxi-06.local'', ''esxi-07.local'', ''esxi-08.local'']"

record scenario =
  sn_linux_pct :: rat
  sn_windows_pct :: rat
  sn_unsupported_os_pct :: rat
  sn_efi_pct :: rat
  sn_secure_boot_pct :: rat
  sn_suspended_pct :: rat
  sn_multi_disk_pct :: rat
  sn_multi_nic_pct :: rat
  sn_e1000_nic_pct :: rat
  sn_legacy_controller_pct :: rat
  sn_tools_ok_pct :: rat
  sn_no_tools_pct :: rat

text \<open>A literal such as 0.60 is the nearest float.\<close>

definition pct :: "int \<Rightarrow> rat" where
  "pct n = fl (of_int n / 100)"

definition SCENARIOS :: "(string, scenario) dict" where
  "SCENARIOS =
     [(''normal'', \<lparr>sn_linux_pct = pct 60, sn_windows_pct = pct 30, sn_unsupported_os_pct = pct 10, sn_efi_pct = pct 15,
        sn_secure_boot_pct = pct 5, sn_suspended_pct = pct 5, sn_multi_disk_pct = pct 50, sn_multi_nic_pct = pct 40,
        sn_e1000_nic_pct = pct 20, sn_legacy_controller_pct = pct 15, sn_tools_ok_pct = pct 85, sn_no_tools_pct = pct 15\<rparr>),
      (''mixed_compatibility'', \<lparr>sn_linux_pct = pct 45, sn_windows_pct = pct 25, sn_unsupported_os_pct = pct 30, sn_efi_pct = pct 40,
        sn_secure_boot_pct = pct 25, sn_suspended_pct = pct 10, sn_multi_disk_pct = pct 60, sn_multi_nic_pct = pct 50,
        sn_e1000_nic_pct = pct 35, sn_legacy_controller_pct = pct 30, sn_tools_ok_pct = pct 60, sn_no_tools_pct = pct 40\<rparr>),
      (''high_risk'', \<lparr>sn_linux_pct = pct 20, sn_windows_pct = pct 20, sn_unsupported_os_pct = pct 60, sn_efi_pct = pct 70,
        sn_secure_boot_pct = pct 50, sn_suspended_pct = pct 25, sn_multi_disk_pct = pct 70, sn_multi_nic_pct = pct 60,
        sn_e1000_nic_pct = pct 50, sn_legacy_controller_pct = pct 50, sn_tools_ok_pct = pct 30, sn_no_tools_pct = pct 70\<rparr>),
      (''large_scale'', \<lparr>sn_linux_pct = pct 55, sn_windows_pct = pct 30, sn_unsupported_os_pct = pct 15, sn_efi_pct = pct 20,
        sn_secure_boot_pct = pct 10, sn_suspended_pct = pct 5, sn_multi_disk_pct = pct 60, sn_multi_nic_pct = pct 50,
        sn_e1000_nic_pct = pct 15, sn_legacy_controller_pct = pct 10, sn_tools_ok_pct = pct 80, sn_no_tools_pct = pct 20\<rparr>)]"

definition scenario_config :: "string \<Rightarrow> scenario" where
  "scenario_config name = dict_get_default SCENARIOS name (the (dict_get SCENARIOS ''normal''))"

section \<open>Formatting\<close>

definition hex_char :: "nat \<Rightarrow> char" where
  "hex_char d = ''0123456789abcdef'' ! d"

fun hex_digits :: "nat \<Rightarrow> string" where
  "hex_digits n = (if n < 16 then [hex_char n] else hex_digits (n div 16) @ [hex_char (n mod 16)])"

definition zero_pad :: "nat \<Rightarrow> string \<Rightarrow> string" where
  "zero_pad w s = replicate (w - length s) (CHR ''0'') @ s"

definition hex02 :: "nat \<Rightarrow> string" where
  "hex02 n = zero_pad 2 (hex_digits n)"

definition mac_text :: "int \<Rightarrow> nat \<Rightarrow> int \<Rightarrow> string" where
  "mac_text a j b = ''00:50:56:'' @ hex02 (nat a) @ '':'' @ hex02 j @ '':'' @ hex02 (nat b)"

section \<open>One machine\<close>

record gen_disk =
  gd_label :: string
  gd_capacity_gb :: int
  gd_datastore :: string
  gd_controller_type :: string
  gd_disk_type :: string

record gen_nic =
  gn_label :: string
  gn_mac :: string
  gn_network :: string
  gn_nic_type :: string

record gen_vm =
  gv_id :: string
  gv_name :: string
  gv_power_state :: string
  gv_guest_os :: string
  gv_os_family :: string
  gv_os_supported :: bool
  gv_cpu_count :: int
  gv_memory_mb :: int
  gv_disks :: "gen_disk list"
  gv_nics :: "gen_nic list"
  gv_firmware :: string
  gv_secure_boot_enabled :: bool
  gv_vmware_tools_status :: "string option"
  gv_disk_controller_types :: "string list"
  gv_cluster :: string
  gv_host :: string

definition pick_os :: "'r gen_env \<Rightarrow> scenario \<Rightarrow> ('r, string \<times> string \<times> bool) state" where
  "pick_os g cfg = do {
     r \<leftarrow> rg_random g;
     rand_choice g
       (if r < sn_unsupported_os_pct cfg then filter (\<lambda>(os, family, supported). \<not> supported) OS_TEMPLATES
        else if r < fadd (sn_unsupported_os_pct cfg) (sn_linux_pct cfg) then filter (\<lambda>(os, family, supported). family = ''linux'') OS_TEMPLATES
        else filter (\<lambda>(os, family, supported). family = ''windows'') OS_TEMPLATES)}"

definition generate_disk :: "'r gen_env \<Rightarrow> string list \<Rightarrow> nat \<Rightarrow> ('r, gen_disk) state" where
  "generate_disk g controller_set j = do {
     capacity_gb \<leftarrow> rand_choice g [10, 20, 40, 80, 100, 250, 500, 1000, 2000];
     drawn \<leftarrow> rand_choice g [''thin'', ''thick'', ''thick'', ''thin''];
     r \<leftarrow> rg_random g;
     datastore \<leftarrow> rand_choice g DATASTORE_NAMES;
     controller_type \<leftarrow> (if controller_set \<noteq> [] then rand_choice g controller_set else State_Monad.return ''scsi'');
     State_Monad.return \<lparr>gd_label = ''disk'' @ str_int (int j), gd_capacity_gb = capacity_gb, gd_datastore = datastore,
       gd_controller_type = controller_type, gd_disk_type = (if r < pct 15 then ''thick'' else drawn)\<rparr>}"

definition generate_nic :: "'r gen_env \<Rightarrow> scenario \<Rightarrow> nat \<Rightarrow> ('r, gen_nic) state" where
  "generate_nic g cfg j = do {
     drawn \<leftarrow> rand_choice g NIC_TYPES;
     nic_type \<leftarrow> (if drawn = ''e1000'' then do {r \<leftarrow> rg_random g; State_Monad.return (if r > sn_e1000_nic_pct cfg then ''vmxnet3'' else drawn)}
                 else State_Monad.return drawn);
     a \<leftarrow> rg_randint g 0 255;
     b \<leftarrow> rg_randint g 0 255;
     network \<leftarrow> rand_choice g NETWORK_NAMES;
     State_Monad.return \<lparr>gn_label = ''nic'' @ str_int (int j), gn_mac = mac_text a j b, gn_network = network, gn_nic_type = nic_type\<rparr>}"

definition vm_number :: "nat \<Rightarrow> string" where
  "vm_number i = ''vm-'' @ zero_pad 5 (str_int (int i))"

definition vm_name_of :: "nat \<Rightarrow> string \<Rightarrow> string" where
  "vm_name_of i os = vm_number i @ ''-'' @ map (\<lambda>c. if c = CHR '' '' then CHR ''-'' else c) (take 10 os)"

definition generate_vm :: "'r gen_env \<Rightarrow> scenario \<Rightarrow> nat \<Rightarrow> ('r, gen_vm) state" where
  "generate_vm g cfg vm_index = do {
     (os, family, supported) \<leftarrow> pick_os g cfg;
     power \<leftarrow> pick g POWER_STATES (sn_suspended_pct cfg);
     firmware \<leftarrow> pick g FIRMWARE_TYPES (sn_efi_pct cfg);
     secure_boot \<leftarrow> (if firmware = ''efi'' then bool_with_prob g (sn_secure_boot_pct cfg) else State_Monad.return False);
     tools_ok \<leftarrow> bool_with_prob g (sn_tools_ok_pct cfg);
     tools_status \<leftarrow> (if tools_ok then State_Monad.return (Some ''toolsOk'')
                     else rand_choice g [Some ''toolsNotRunning'', Some ''toolsNotInstalled'', None]);
     cpu \<leftarrow> rg_randint g 1 32;
     no_cpus \<leftarrow> rg_random g;
     memory \<leftarrow> rand_choice g [512, 1024, 2048, 4096, 8192, 16384, 32768, 65536];
     no_mem \<leftarrow> rg_random g;
     multi_disk \<leftarrow> bool_with_prob g (sn_multi_disk_pct cfg);
     drawn_disks \<leftarrow> (if multi_disk then rg_randint g 1 8 else State_Monad.return 1);
     diskless \<leftarrow> rg_random g;
     drawn_set \<leftarrow> rand_choice g DISK_CONTROLLER_SETS;
     legacy \<leftarrow> bool_with_prob g (sn_legacy_controller_pct cfg);
     let controller_set = (if legacy \<and> ''ide'' \<notin> set drawn_set then rg_set_order g (drawn_set @ [''ide'']) else drawn_set);
     disks \<leftarrow> State_Monad.traverse_list (generate_disk g controller_set) [0 ..< nat (if diskless < pct 3 then 0 else drawn_disks)];
     multi_nic \<leftarrow> bool_with_prob g (sn_multi_nic_pct cfg);
     num_nics \<leftarrow> (if multi_nic then rg_randint g 1 4 else State_Monad.return 1);
     nics \<leftarrow> State_Monad.traverse_list (generate_nic g cfg) [0 ..< nat num_nics];
     cluster \<leftarrow> rand_choice g CLUSTER_NAMES;
     host \<leftarrow> rand_choice g HOST_NAMES;
     State_Monad.return \<lparr>gv_id = vm_number vm_index, gv_name = vm_name_of vm_index os, gv_power_state = power, gv_guest_os = os,
       gv_os_family = family, gv_os_supported = supported, gv_cpu_count = (if no_cpus < pct 2 then 0 else cpu),
       gv_memory_mb = (if no_mem < pct 2 then 0 else memory), gv_disks = disks, gv_nics = nics, gv_firmware = firmware,
       gv_secure_boot_enabled = secure_boot, gv_vmware_tools_status = tools_status, gv_disk_controller_types = controller_set,
       gv_cluster = cluster, gv_host = host\<rparr>}"

section \<open>The inventory\<close>

text \<open>Without the block that records script, seed, scenario and time of the generation.\<close>

record gen_datastore =
  gs_id :: string
  gs_name :: string
  gs_capacity_gb :: int
  gs_free_gb :: int
  gs_type :: string

record gen_network =
  gw_id :: string
  gw_name :: string
  gw_type :: string
  gw_vlan_id :: "int option"

record gen_cluster =
  gc_id :: string
  gc_name :: string
  gc_host_count :: int
  gc_total_cpu_ghz :: rat
  gc_total_mem_gb :: int

record gen_host =
  gh_id :: string
  gh_name :: string
  gh_cluster :: string
  gh_cpu_cores :: int
  gh_memory_gb :: int
  gh_vm_count :: int

record inventory_summary =
  is_vm_count :: nat
  is_datastore_count :: nat
  is_network_count :: nat
  is_cluster_count :: nat
  is_host_count :: nat
  is_linux_vms :: nat
  is_windows_vms :: nat
  is_unsupported_os_vms :: nat
  is_uefi_vms :: nat
  is_secure_boot_vms :: nat
  is_suspended_vms :: nat
  is_no_tools_vms :: nat

record gen_inventory =
  gi_summary :: inventory_summary
  gi_datastores :: "gen_datastore list"
  gi_networks :: "gen_network list"
  gi_clusters :: "gen_cluster list"
  gi_hosts :: "gen_host list"
  gi_vms :: "gen_vm list"

definition id2 :: "string \<Rightarrow> nat \<Rightarrow> string" where
  "id2 kind i = kind @ zero_pad 2 (str_int (int i))"

definition generate_datastore :: "'r gen_env \<Rightarrow> nat \<times> string \<Rightarrow> ('r, gen_datastore) state" where
  "generate_datastore g = (\<lambda>(i, name). do {
     capacity_gb \<leftarrow> rand_choice g [1000, 2000, 4000, 8000, 16000];
     free_gb \<leftarrow> rg_randint g 100 2000;
     ty \<leftarrow> rand_choice g [''VMFS'', ''NFS'', ''vSAN''];
     State_Monad.return \<lparr>gs_id = id2 ''ds-'' i, gs_name = name, gs_capacity_gb = capacity_gb, gs_free_gb = free_gb, gs_type = ty\<rparr>})"

definition generate_network :: "'r gen_env \<Rightarrow> nat \<times> string \<Rightarrow> ('r, gen_network) state" where
  "generate_network g = (\<lambda>(i, name). do {
     ty \<leftarrow> rand_choice g [''standard'', ''distributed''];
     r \<leftarrow> rg_random g;
     vlan_id \<leftarrow> (if r > pct 30 then do {v \<leftarrow> rg_randint g 1 4094; State_Monad.return (Some v)} else State_Monad.return None);
     State_Monad.return \<lparr>gw_id = id2 ''net-'' i, gw_name = name, gw_type = ty, gw_vlan_id = vlan_id\<rparr>})"

definition generate_cluster :: "'r gen_env \<Rightarrow> nat \<times> string \<Rightarrow> ('r, gen_cluster) state" where
  "generate_cluster g = (\<lambda>(i, name). do {
     host_count \<leftarrow> rg_randint g 2 8;
     ghz \<leftarrow> rg_uniform g 50 500;
     mem \<leftarrow> rg_randint g 256 2048;
     State_Monad.return \<lparr>gc_id = id2 ''cl-'' i, gc_name = name, gc_host_count = host_count, gc_total_cpu_ghz = py_round ghz 1,
       gc_total_mem_gb = mem\<rparr>})"

definition generate_host :: "'r gen_env \<Rightarrow> nat \<times> string \<Rightarrow> ('r, gen_host) state" where
  "generate_host g = (\<lambda>(i, name). do {
     cluster \<leftarrow> rand_choice g CLUSTER_NAMES;
     cores \<leftarrow> rand_choice g [16, 24, 32, 48, 64];
     mem \<leftarrow> rand_choice g [128, 256, 512, 1024];
     vm_count \<leftarrow> rg_randint g 5 50;
     State_Monad.return \<lparr>gh_id = id2 ''host-'' i, gh_name = name, gh_cluster = cluster, gh_cpu_cores = cores, gh_memory_gb = mem,
       gh_vm_count = vm_count\<rparr>})"

definition count_if :: "('a \<Rightarrow> bool) \<Rightarrow> 'a list \<Rightarrow> nat" where
  "count_if P xs = length (filter P xs)"

definition summarise :: "gen_vm list \<Rightarrow> nat \<Rightarrow> nat \<Rightarrow> nat \<Rightarrow> nat \<Rightarrow> inventory_summary" where
  "summarise vms datastores networks clusters hosts =
    \<lparr>is_vm_count = length vms, is_datastore_count = datastores, is_network_count = networks, is_cluster_count = clusters,
     is_host_count = hosts, is_linux_vms = count_if (\<lambda>v. gv_os_family v = ''linux'') vms,
     is_windows_vms = count_if (\<lambda>v. gv_os_family v = ''windows'') vms,
     is_unsupported_os_vms = count_if (\<lambda>v. \<not> gv_os_supported v) vms, is_uefi_vms = count_if (\<lambda>v. gv_firmware v = ''efi'') vms,
     is_secure_boot_vms = count_if gv_secure_boot_enabled vms, is_suspended_vms = count_if (\<lambda>v. gv_power_state v = ''suspended'') vms,
     is_no_tools_vms = count_if (\<lambda>v. gv_vmware_tools_status v \<notin> {Some ''toolsOk'', None}) vms\<rparr>"

definition generate_inventory :: "'r gen_env \<Rightarrow> scenario \<Rightarrow> nat \<Rightarrow> ('r, gen_inventory) state" where
  "generate_inventory g cfg vm_count = do {
     vms \<leftarrow> State_Monad.traverse_list (generate_vm g cfg) [0 ..< vm_count];
     datastores \<leftarrow> State_Monad.traverse_list (generate_datastore g) (List.enumerate 0 DATASTORE_NAMES);
     networks \<leftarrow> State_Monad.traverse_list (generate_network g) (List.enumerate 0 NETWORK_NAMES);
     clusters \<leftarrow> State_Monad.traverse_list (generate_cluster g) (List.enumerate 0 CLUSTER_NAMES);
     hosts \<leftarrow> State_Monad.traverse_list (generate_host g) (List.enumerate 0 HOST_NAMES);
     State_Monad.return \<lparr>gi_summary = summarise vms (length datastores) (length networks) (length clusters) (length hosts),
       gi_datastores = datastores, gi_networks = networks, gi_clusters = clusters, gi_hosts = hosts, gi_vms = vms\<rparr>}"

section \<open>What every draw satisfies\<close>

lemma draw_bind: "draws P m \<Longrightarrow> (\<And>x. P x \<Longrightarrow> draws Q (f x)) \<Longrightarrow> draws Q (m \<bind> f)"
  by (simp add: draws_def split: prod.split) (metis fst_conv)

lemma draw_return: "P x \<Longrightarrow> draws P (State_Monad.return x)"
  by (simp add: draws_def)

lemma draw_any: "draws (\<lambda>_. True) m"
  by (simp add: draws_def)

lemma draw_weaken: "draws P m \<Longrightarrow> (\<And>x. P x \<Longrightarrow> Q x) \<Longrightarrow> draws Q m"
  by (simp add: draws_def)

lemma draw_choice: "rng_ok g \<Longrightarrow> items \<noteq> [] \<Longrightarrow> draws (\<lambda>x. x \<in> set items) (rand_choice g items)"
  unfolding rand_choice_def
  by (rule draw_bind [where P = "\<lambda>i. i < length items"]) (simp_all add: rng_ok_def draw_return)

lemma draw_pick: "rng_ok g \<Longrightarrow> items \<noteq> [] \<Longrightarrow> draws (\<lambda>x. x \<in> set items) (pick g items p)"
  unfolding pick_def by (rule draw_bind [OF draw_any]) (simp add: draw_return draw_choice)

lemma draw_randint: "rng_ok g \<Longrightarrow> a \<le> b \<Longrightarrow> draws (\<lambda>i. a \<le> i \<and> i \<le> b) (rg_randint g a b)"
  by (simp add: rng_ok_def)

lemma draw_traverse:
  "(\<And>x. x \<in> set xs \<Longrightarrow> draws (P x) (f x)) \<Longrightarrow> draws (list_all2 P xs) (State_Monad.traverse_list f xs)"
proof (induction xs)
  case (Cons x xs)
  show ?case unfolding State_Monad.traverse_list.simps
  proof (rule draw_bind)
    show "draws (P x) (f x)" using Cons.prems by simp
    fix y assume y: "P x y"
    show "draws (list_all2 P (x # xs)) (State_Monad.traverse_list f xs \<bind> (\<lambda>ys. State_Monad.return (y # ys)))"
    proof (rule draw_bind)
      show "draws (list_all2 P xs) (State_Monad.traverse_list f xs)" using Cons by simp
    qed (simp add: draw_return y)
  qed
qed (simp add: draw_return)

text \<open>Draws made under a condition.\<close>

lemma draw_randint_or: "rng_ok g \<Longrightarrow> 1 \<le> n \<Longrightarrow> draws (\<lambda>i. 1 \<le> i \<and> i \<le> n) (if b then rg_randint g 1 n else State_Monad.return 1)"
  by (simp add: draw_randint draw_return)

section \<open>Well-formed machines\<close>

definition os_entry_ok :: "string \<times> string \<times> bool \<Rightarrow> bool" where
  "os_entry_ok t \<longleftrightarrow> t \<in> set OS_TEMPLATES \<and> (if snd (snd t) then fst (snd t) \<in> {''linux'', ''windows''} else fst (snd t) = ''unix'')"

definition disk_ok :: "string list \<Rightarrow> nat \<Rightarrow> gen_disk \<Rightarrow> bool" where
  "disk_ok controllers j d \<longleftrightarrow> gd_label d = ''disk'' @ str_int (int j) \<and> 10 \<le> gd_capacity_gb d \<and> gd_capacity_gb d \<le> 2000 \<and>
     gd_datastore d \<in> set DATASTORE_NAMES \<and> gd_disk_type d \<in> {''thin'', ''thick''} \<and>
     (if controllers = [] then gd_controller_type d = ''scsi'' else gd_controller_type d \<in> set controllers)"

definition nic_ok :: "nat \<Rightarrow> gen_nic \<Rightarrow> bool" where
  "nic_ok j n \<longleftrightarrow> gn_label n = ''nic'' @ str_int (int j) \<and> gn_network n \<in> set NETWORK_NAMES \<and> gn_nic_type n \<in> set NIC_TYPES \<and>
     (\<exists>a b. 0 \<le> a \<and> a < 256 \<and> 0 \<le> b \<and> b < 256 \<and> gn_mac n = mac_text a j b)"

definition vm_ok :: "nat \<Rightarrow> gen_vm \<Rightarrow> bool" where
  "vm_ok i v \<longleftrightarrow> gv_id v = vm_number i \<and> os_entry_ok (gv_guest_os v, gv_os_family v, gv_os_supported v) \<and>
     gv_power_state v \<in> set POWER_STATES \<and> gv_firmware v \<in> set FIRMWARE_TYPES \<and> (gv_secure_boot_enabled v \<longrightarrow> gv_firmware v = ''efi'') \<and>
     0 \<le> gv_cpu_count v \<and> gv_cpu_count v \<le> 32 \<and> 0 \<le> gv_memory_mb v \<and> gv_memory_mb v \<le> 65536 \<and>
     length (gv_disks v) \<le> 8 \<and> list_all2 (disk_ok (gv_disk_controller_types v)) [0 ..< length (gv_disks v)] (gv_disks v) \<and>
     1 \<le> length (gv_nics v) \<and> length (gv_nics v) \<le> 4 \<and> list_all2 nic_ok [0 ..< length (gv_nics v)] (gv_nics v) \<and>
     distinct (gv_disk_controller_types v)"

lemma pick_os_ok:
  assumes "rng_ok g"
  shows "draws os_entry_ok (pick_os g cfg)"
  unfolding pick_os_def
proof (rule draw_bind [OF draw_any])
  fix r :: rat
  let ?c = "if r < sn_unsupported_os_pct cfg then filter (\<lambda>(os, family, supported). \<not> supported) OS_TEMPLATES
    else if r < fadd (sn_unsupported_os_pct cfg) (sn_linux_pct cfg) then filter (\<lambda>(os, family, supported). family = ''linux'') OS_TEMPLATES
    else filter (\<lambda>(os, family, supported). family = ''windows'') OS_TEMPLATES"
  have "?c \<noteq> []" by (simp add: OS_TEMPLATES_def)
  then have "draws (\<lambda>x. x \<in> set ?c) (rand_choice g ?c)" by (rule draw_choice [OF assms])
  then show "draws os_entry_ok (rand_choice g ?c)"
    by (rule draw_weaken) (auto simp: os_entry_ok_def OS_TEMPLATES_def split: if_splits)
qed

lemma generate_disk_ok:
  assumes "rng_ok g"
  shows "draws (disk_ok controllers j) (generate_disk g controllers j)"
proof -
  have c: "draws (\<lambda>c. if controllers = [] then c = ''scsi'' else c \<in> set controllers)
      (if controllers \<noteq> [] then rand_choice g controllers else State_Monad.return ''scsi'')"
    using draw_choice [OF assms, of controllers] by (simp add: draw_return)
  show ?thesis unfolding generate_disk_def
    by (rule draw_bind [OF draw_choice [OF assms]], simp, rule draw_bind [OF draw_choice [OF assms]], simp, rule draw_bind [OF draw_any],
        rule draw_bind [OF draw_choice [OF assms]], simp add: DATASTORE_NAMES_def, rule draw_bind [OF c], rule draw_return)
      (auto simp: disk_ok_def)
qed

lemma generate_nic_ok:
  assumes "rng_ok g"
  shows "draws (nic_ok j) (generate_nic g cfg j)"
  unfolding generate_nic_def
proof (rule draw_bind [OF draw_choice [OF assms]])
  show "NIC_TYPES \<noteq> []" by (simp add: NIC_TYPES_def)
  fix drawn assume d: "drawn \<in> set NIC_TYPES"
  have v: "''vmxnet3'' \<in> set NIC_TYPES" by (simp add: NIC_TYPES_def)
  have t: "draws (\<lambda>t. t \<in> set NIC_TYPES)
     (if drawn = ''e1000'' then rg_random g \<bind> (\<lambda>r. State_Monad.return (if r > sn_e1000_nic_pct cfg then ''vmxnet3'' else drawn))
      else State_Monad.return drawn)"
    using d v by (simp add: draw_return) (intro impI draw_bind [OF draw_any] draw_return, simp)
  show "draws (nic_ok j)
     ((if drawn = ''e1000'' then rg_random g \<bind> (\<lambda>r. State_Monad.return (if r > sn_e1000_nic_pct cfg then ''vmxnet3'' else drawn))
       else State_Monad.return drawn) \<bind>
      (\<lambda>nic_type. rg_randint g 0 255 \<bind> (\<lambda>a. rg_randint g 0 255 \<bind> (\<lambda>b. rand_choice g NETWORK_NAMES \<bind> (\<lambda>network.
         State_Monad.return \<lparr>gn_label = ''nic'' @ str_int (int j), gn_mac = mac_text a j b, gn_network = network, gn_nic_type = nic_type\<rparr>)))))"
    by (rule draw_bind [OF t], rule draw_bind [OF draw_randint [OF assms]], simp, rule draw_bind [OF draw_randint [OF assms]], simp,
        rule draw_bind [OF draw_choice [OF assms]], simp add: NETWORK_NAMES_def, rule draw_return)
      (force simp: nic_ok_def)
qed

lemma draw_bind_triple:
  "draws P m \<Longrightarrow> (\<And>a b c. P (a, b, c) \<Longrightarrow> draws Q (f a b c)) \<Longrightarrow> draws Q (m \<bind> (\<lambda>(a, b, c). f a b c))"
  by (erule draw_bind) clarsimp

lemma controller_sets_distinct: "cs \<in> set DISK_CONTROLLER_SETS \<Longrightarrow> distinct cs"
  by (auto simp: DISK_CONTROLLER_SETS_def)

lemma set_order_distinct: "rng_ok g \<Longrightarrow> distinct (rg_set_order g xs)"
  by (simp add: rng_ok_def)

lemma templates_nonempty: "POWER_STATES \<noteq> []" "FIRMWARE_TYPES \<noteq> []" "DISK_CONTROLLER_SETS \<noteq> []" "CLUSTER_NAMES \<noteq> []" "HOST_NAMES \<noteq> []"
  by (simp_all add: POWER_STATES_def FIRMWARE_TYPES_def DISK_CONTROLLER_SETS_def CLUSTER_NAMES_def HOST_NAMES_def)

lemma draw_secure_boot:
  "draws (\<lambda>b. b \<longrightarrow> firmware = ''efi'') (if firmware = ''efi'' then bool_with_prob g p else State_Monad.return False)"
  by (simp add: draws_def)

lemma numbered_length: "list_all2 P [0 ..< n] xs \<Longrightarrow> length xs = n \<and> list_all2 P [0 ..< length xs] xs"
  using list_all2_lengthD [of P "[0 ..< n]" xs] by simp

lemma draw_disks:
  "rng_ok g \<Longrightarrow> n \<le> 8 \<Longrightarrow> draws (\<lambda>ds. length ds \<le> 8 \<and> list_all2 (disk_ok controllers) [0 ..< length ds] ds)
     (State_Monad.traverse_list (generate_disk g controllers) [0 ..< n])"
  by (rule draw_weaken [OF draw_traverse [where P = "disk_ok controllers"]]) (auto intro: generate_disk_ok dest: numbered_length)

lemma draw_nics:
  "rng_ok g \<Longrightarrow> 1 \<le> n \<Longrightarrow> n \<le> 4 \<Longrightarrow> draws (\<lambda>ns. 1 \<le> length ns \<and> length ns \<le> 4 \<and> list_all2 nic_ok [0 ..< length ns] ns)
     (State_Monad.traverse_list (generate_nic g cfg) [0 ..< n])"
  by (rule draw_weaken [OF draw_traverse [where P = nic_ok]]) (auto intro: generate_nic_ok dest: numbered_length)

lemma generate_vm_ok:
  assumes g: "rng_ok g"
  shows "draws (vm_ok i) (generate_vm g cfg i)"
  unfolding generate_vm_def
  apply (rule draw_bind_triple [OF pick_os_ok [OF g]])
  apply (rule draw_bind [OF draw_pick [OF g templates_nonempty(1)]])
  apply (rule draw_bind [OF draw_pick [OF g templates_nonempty(2)]])
  apply (rule draw_bind [OF draw_secure_boot])
  apply (rule draw_bind [OF draw_any])
  apply (rule draw_bind [OF draw_any])
  apply (rule draw_bind [OF draw_randint [OF g]], simp)
  apply (rule draw_bind [OF draw_any])
  apply (rule draw_bind [OF draw_choice [OF g]], simp)
  apply (rule draw_bind [OF draw_any])
  apply (rule draw_bind [OF draw_any])
  apply (rule draw_bind [OF draw_randint_or [OF g]], simp)
  apply (rule draw_bind [OF draw_any])
  apply (rule draw_bind [OF draw_choice [OF g templates_nonempty(3)]])
  apply (rule draw_bind [OF draw_any])
  apply (unfold Let_def)
  apply (rule draw_bind [OF draw_disks [OF g]], force)
  apply (rule draw_bind [OF draw_any])
  apply (rule draw_bind [OF draw_randint_or [OF g]], simp)
  apply (rule draw_bind [OF draw_nics [OF g]], force, force)
  apply (rule draw_bind [OF draw_any])
  apply (rule draw_bind [OF draw_any])
  apply (rule draw_return)
  apply (auto simp: vm_ok_def controller_sets_distinct set_order_distinct [OF g])
  done

section \<open>Numbers in names\<close>

lemma digits_value_zeros: "digits_value 0 (replicate k (CHR ''0'') @ s) = digits_value 0 s"
  by (induction k) (simp_all add: digit_value_def)

lemma digits_value_nat_digits: "digits_value 0 (nat_digits n) = Some (int n)"
proof -
  obtain c cs where c: "nat_digits n = c # cs" by (cases "nat_digits n") auto
  have "c \<noteq> CHR ''_''" using nat_digits_chars [of c n] c digit_char_plain by auto
  then show ?thesis using unsigned_value_nat_digits [of n] by (auto simp: c unsigned_value_def split: option.splits)
qed

lemma vm_number_inj: "vm_number i = vm_number j \<Longrightarrow> i = j"
proof -
  assume "vm_number i = vm_number j"
  then have "digits_value 0 (zero_pad 5 (nat_digits i)) = digits_value 0 (zero_pad 5 (nat_digits j))"
    by (simp add: vm_number_def str_int_def)
  then show "i = j" by (simp add: zero_pad_def digits_value_zeros digits_value_nat_digits)
qed

text \<open>Random numbers for examples: a counter, with draws spread over their ranges.\<close>

definition demo_rng :: "nat gen_env" where
  "demo_rng = \<lparr>rg_random = State (\<lambda>s. (of_nat (s mod 10) / 10, s + 1)), rg_below = (\<lambda>n. State (\<lambda>s. (s mod n, s + 1))),
     rg_randint = (\<lambda>a b. State (\<lambda>s. (a + int s mod (b - a + 1), s + 1))), rg_uniform = (\<lambda>a b. State (\<lambda>s. (a, s + 1))),
     rg_set_order = remdups\<rparr>"

lemma demo_rng_ok: "rng_ok demo_rng"
proof -
  have "a + int s mod (b - a + 1) \<le> b \<and> a \<le> a + int s mod (b - a + 1)" if "a \<le> b" for a b s
    using that pos_mod_bound [of "b - a + 1" "int s"] pos_mod_sign [of "b - a + 1" "int s"] by simp
  moreover have "of_nat (s mod 10) / 10 < (1 :: rat)" for s
  proof -
    have "of_nat (s mod 10) < (of_nat 10 :: rat)" by (simp only: of_nat_less_iff)
    then show ?thesis by simp
  qed
  ultimately show ?thesis by (simp add: rng_ok_def demo_rng_def draws_def)
qed

section \<open>Properties\<close>

lemma os_families:
  "list_all2 vm_ok is vs \<Longrightarrow>
     count_if (\<lambda>v. gv_os_family v = ''linux'') vs + count_if (\<lambda>v. gv_os_family v = ''windows'') vs +
     count_if (\<lambda>v. \<not> gv_os_supported v) vs = length vs"
  by (induction rule: list_all2_induct) (auto simp: count_if_def vm_ok_def os_entry_ok_def split: if_splits)

lemma secure_boot_needs_efi:
  "list_all2 vm_ok is vs \<Longrightarrow> count_if gv_secure_boot_enabled vs \<le> count_if (\<lambda>v. gv_firmware v = ''efi'') vs"
  by (induction rule: list_all2_induct) (auto simp: count_if_def vm_ok_def)

lemma vm_ids: "list_all2 vm_ok is vs \<Longrightarrow> map gv_id vs = map vm_number is"
  by (induction rule: list_all2_induct) (auto simp: vm_ok_def)

lemma traverse_length: "length (fst (run_state (State_Monad.traverse_list f xs) s)) = length xs"
  by (induction xs arbitrary: s) (auto split: prod.splits, metis fst_conv)

lemma generated_vms:
  assumes "rng_ok g"
  shows "\<exists>vms datastores networks clusters hosts s'. run_state (generate_inventory g cfg n) s =
      (\<lparr>gi_summary = summarise vms (length datastores) (length networks) (length clusters) (length hosts), gi_datastores = datastores,
        gi_networks = networks, gi_clusters = clusters, gi_hosts = hosts, gi_vms = vms\<rparr>, s') \<and> list_all2 vm_ok [0 ..< n] vms"
proof -
  obtain vms s1 where v: "run_state (State_Monad.traverse_list (generate_vm g cfg) [0 ..< n]) s = (vms, s1)" by fastforce
  have "draws (list_all2 vm_ok [0 ..< n]) (State_Monad.traverse_list (generate_vm g cfg) [0 ..< n])"
    by (rule draw_traverse) (rule generate_vm_ok [OF assms])
  then have "list_all2 vm_ok [0 ..< n] vms" using v by (metis draws_def fst_conv)
  then show ?thesis using v by (simp add: generate_inventory_def split: prod.split)
qed

text \<open>C38: Whatever is drawn, a generated inventory is consistent: every machine is well formed (known templates, secure
  boot only with EFI, sizes in range, at most eight disks and one to four adapters, numbered), the ids are
  distinct, and the counts of the summary agree: Linux, Windows and unsupported machines add up to all machines.\<close>

theorem generated_inventory_consistent:
  assumes "rng_ok g"
  shows "let inv = fst (run_state (generate_inventory g cfg n) s); sm = gi_summary inv
    in list_all2 vm_ok [0 ..< n] (gi_vms inv) \<and> distinct (map gv_id (gi_vms inv)) \<and> is_vm_count sm = n \<and>
       is_linux_vms sm + is_windows_vms sm + is_unsupported_os_vms sm = n \<and> is_secure_boot_vms sm \<le> is_uefi_vms sm"
proof -
  obtain inv s' where r: "run_state (generate_inventory g cfg n) s = (inv, s')" by fastforce
  have ok: "list_all2 vm_ok [0 ..< n] (gi_vms inv)"
    using generated_vms [OF assms, of cfg n s] r by auto
  obtain a b c d where sm: "gi_summary inv = summarise (gi_vms inv) a b c d"
    using generated_vms [OF assms, of cfg n s] r by auto
  have "distinct (map gv_id (gi_vms inv))"
    unfolding vm_ids [OF ok] by (auto simp: distinct_map inj_on_def dest: vm_number_inj)
  moreover have "length (gi_vms inv) = n" using list_all2_lengthD [OF ok] by simp
  ultimately show ?thesis using ok sm os_families [OF ok] secure_boot_needs_efi [OF ok]
    by (auto simp: r summarise_def Let_def)
qed

theorem generated_inventory_consistent_witness:
  "length (gi_vms (fst (run_state (generate_inventory demo_rng (scenario_config ''high_risk'') 12) 0))) = 12 \<and>
   distinct (map gv_id (gi_vms (fst (run_state (generate_inventory demo_rng (scenario_config ''high_risk'') 12) 0))))"
  using generated_inventory_consistent [OF demo_rng_ok, of "scenario_config ''high_risk''" 12 0]
  by (auto simp: Let_def dest: list_all2_lengthD)

text \<open>The configured shares of EFI and of suspended machines work the wrong way round: raising the share can only
  turn a machine that was drawn as EFI or as suspended into something else, never the other way.\<close>

theorem configured_shares_inverted:
  assumes "p \<le> q"
  shows "(fst (run_state (pick g FIRMWARE_TYPES q) s) = ''efi'' \<longrightarrow> fst (run_state (pick g FIRMWARE_TYPES p) s) = ''efi'') \<and>
    (fst (run_state (pick g POWER_STATES q) s) = ''suspended'' \<longrightarrow> fst (run_state (pick g POWER_STATES p) s) = ''suspended'')"
  using assms by (auto simp: pick_def FIRMWARE_TYPES_def POWER_STATES_def split: prod.split)

theorem configured_shares_inverted_witness:
  "fst (run_state (pick demo_rng FIRMWARE_TYPES (pct 15)) 6) = ''efi''"
proof -
  have "fst (run_state (pick demo_rng FIRMWARE_TYPES (pct 50)) 6) = ''efi''"
    by (simp add: pick_def rand_choice_def demo_rng_def FIRMWARE_TYPES_def pct_def flip: numeral_2_eq_2)
  moreover have "pct 15 \<le> pct 50" unfolding pct_def by (rule fl_mono) simp
  ultimately show ?thesis using configured_shares_inverted [of "pct 15" "pct 50" demo_rng 6] by blast
qed

end
