(* ===== verification/Benchmark_Stats.thy ===== *)
theory Benchmark_Stats
  imports Py_Float Py_Library
begin

text \<open>
  The latency statistics of the benchmark scripts: DatasetBenchmarkRun (scripts/benchmark_from_dataset.py),
  ConcurrencySample (concurrency_sweep.py) and BenchmarkSample (stress_benchmark_assessment.py), which compute the
  same values, and LatencySample (benchmark_vmware_assessment.py), which rounds them. The samples are floats, given as
  rationals; statistics.mean adds exactly and rounds once.
\<close>

section \<open>Averages and percentiles\<close>

definition stat_mean :: "rat list \<Rightarrow> rat" where
  "stat_mean vs = fl (sum_list vs / of_nat (length vs))"

definition avg_ms :: "rat list \<Rightarrow> rat" where
  "avg_ms vs = (if vs = [] then 0 else stat_mean vs)"

text \<open>\<^verbatim>\<open>s[i]\<close> for a computed index\<close>

definition index_list :: "rat list \<Rightarrow> int \<Rightarrow> exn + rat" where
  "index_list s i = (if 0 \<le> i \<and> i < int (length s) then Inr (s ! nat i)
     else if i < 0 \<and> - i \<le> int (length s) then Inr (s ! nat (int (length s) + i))
     else Inl (PyException ''IndexError'' ''list index out of range''))"

text \<open>\<^verbatim>\<open>int(len(s) * q)\<close>\<close>

definition percentile_index :: "rat \<Rightarrow> nat \<Rightarrow> int" where
  "percentile_index q n = rat_trunc (fmul (fl (of_nat n)) (fl q))"

definition p50_ms :: "rat list \<Rightarrow> exn + rat" where
  "p50_ms vs = (if vs = [] then Inr 0 else index_list (sort vs) (int (length vs) div 2))"

definition p95_ms :: "rat list \<Rightarrow> exn + rat" where
  "p95_ms vs = (if vs = [] then Inr 0 else index_list (sort vs) (percentile_index (95 / 100) (length vs)))"

definition p99_ms :: "rat list \<Rightarrow> exn + rat" where
  "p99_ms vs = (if vs = [] then Inr 0 else index_list (sort vs) (percentile_index (99 / 100) (length vs)))"

definition min_ms :: "rat list \<Rightarrow> rat" where
  "min_ms vs = (if vs = [] then 0 else Min (set vs))"

definition max_ms :: "rat list \<Rightarrow> rat" where
  "max_ms vs = (if vs = [] then 0 else Max (set vs))"

definition throughput_vms :: "nat \<Rightarrow> rat list \<Rightarrow> rat" where
  "throughput_vms vm_count vs =
    (if vs = [] \<or> avg_ms vs \<le> 0 then 0 else fdiv (fl (of_nat vm_count)) (fdiv (avg_ms vs) 1000))"

section \<open>LatencySample\<close>

definition record_sample :: "rat \<Rightarrow> rat list \<Rightarrow> rat list" where
  "record_sample duration_s vs = vs @ [py_round (fmul duration_s 1000) 4]"

definition stat_median :: "rat list \<Rightarrow> rat" where
  "stat_median vs = (let s = sort vs; n = length vs in
     if n mod 2 = 1 then s ! (n div 2) else fdiv (fadd (s ! (n div 2 - 1)) (s ! (n div 2))) 2)"

definition sample_avg :: "rat list \<Rightarrow> rat" where
  "sample_avg vs = (if vs = [] then 0 else py_round (stat_mean vs) 2)"

definition sample_p50 :: "rat list \<Rightarrow> rat" where
  "sample_p50 vs = (if vs = [] then 0 else py_round (stat_median vs) 2)"

definition sample_percentile :: "rat \<Rightarrow> rat list \<Rightarrow> exn + rat" where
  "sample_percentile q vs =
    (if length vs < 2 then Inr (sample_avg vs)
     else map_sum id (\<lambda>x. py_round x 2) (index_list (sort vs) (percentile_index q (length vs))))"

definition sample_min :: "rat list \<Rightarrow> rat" where
  "sample_min vs = (if vs = [] then 0 else py_round (Min (set vs)) 2)"

definition sample_max :: "rat list \<Rightarrow> rat" where
  "sample_max vs = (if vs = [] then 0 else py_round (Max (set vs)) 2)"

text \<open>The float sum() of the samples is the argument py_sum: up to Python 3.11 it adds from the left with a rounding at
  every step, later versions compensate the rounding errors.\<close>

definition sample_throughput :: "(rat list \<Rightarrow> rat) \<Rightarrow> nat \<Rightarrow> rat list \<Rightarrow> rat" where
  "sample_throughput py_sum batch_size vs =
    (if vs = [] then 0
     else let total_s = fdiv (py_sum vs) 1000 in
       if total_s > 0 then py_round (fdiv (fl (of_nat batch_size)) total_s) 1 else 0)"

section \<open>Memory and time-outs (stress_benchmark_assessment.py)\<close>

record memory_stability =
  mm_readings :: "rat list"
  mm_min_mb :: rat
  mm_max_mb :: rat
  mm_delta_mb :: rat
  mm_leak_detected :: bool

text \<open>The readings are taken after each repetition; min() of no readings raises.\<close>

definition memory_report :: "rat list \<Rightarrow> exn + memory_stability" where
  "memory_report readings =
    (if readings = [] then Inl (ValueError ''min() arg is an empty sequence'')
     else let lo = Min (set readings); hi = Max (set readings) in
       Inr \<lparr>mm_readings = map (\<lambda>m. py_round m 1) readings, mm_min_mb = py_round lo 1, mm_max_mb = py_round hi 1,
            mm_delta_mb = py_round (fsub hi lo) 1, mm_leak_detected = (fsub hi lo > 10)\<rparr>)"

record timeout_behavior =
  tb_threshold_s :: rat
  tb_timed_out :: nat
  tb_completed :: nat
  tb_timeout_pct :: rat

definition timeout_report :: "rat \<Rightarrow> rat list \<Rightarrow> timeout_behavior" where
  "timeout_report timeout_s elapsed =
    (let timed_out = length (filter (\<lambda>e. e > timeout_s) elapsed); completed = length elapsed in
     \<lparr>tb_threshold_s = timeout_s, tb_timed_out = timed_out, tb_completed = completed,
      tb_timeout_pct = (if completed = 0 then 0 else py_round (fmul (int_truediv (int timed_out) (int completed)) 100) 2)\<rparr>)"

section \<open>Positions in the sorted samples\<close>

lemma sort_nth_bounds:
  fixes vs :: "rat list"
  assumes "i < length vs"
  shows "Min (set vs) \<le> sort vs ! i" "sort vs ! i \<le> Max (set vs)"
  using assms nth_mem [of i "sort vs"] by auto

lemma sort_nth_mono: "i \<le> j \<Longrightarrow> j < length vs \<Longrightarrow> sort vs ! i \<le> (sort vs ! j :: rat)"
  by (rule sorted_nth_mono) simp_all

text \<open>Lists of up to 2 ^ 46 samples: rounding never carries a percentile past the end.\<close>

lemma fl_length: "n < 2 ^ 46 \<Longrightarrow> fl (of_nat n) = of_nat n"
  using fl_of_int [of "int n"] by simp

lemma fl_127_128: "fl (127 / 128) = 127 / 128"
  using fl_exact [of 127 "- 7"] by (simp add: p2_minus p2_nonneg)

lemma fl_scaled: "n < 2 ^ 46 \<Longrightarrow> fl (of_nat n * (127 / 128)) = of_nat n * (127 / 128)"
  using fl_exact [of "127 * int n" "- 7"] by (simp add: p2_minus p2_nonneg mult.commute)

lemma percentile_index_bounds:
  assumes n: "0 < n" "n < 2 ^ 46" and q: "1 / 2 \<le> q" "q \<le> 127 / 128"
  shows "int n div 2 \<le> percentile_index q n" "percentile_index q n < int n"
proof -
  let ?x = "fmul (fl (of_nat n)) (fl q)"
  have q': "1 / 2 \<le> fl q" "fl q \<le> 127 / 128"
    using fl_mono [OF q(1)] fl_mono [OF q(2)] by (simp_all add: fl_127_128)
  have "of_nat n * fl q \<le> of_nat n * (127 / 128)" by (intro mult_left_mono q') simp
  then have "?x \<le> fl (of_nat n * (127 / 128))"
    unfolding fmul_def fl_length [OF n(2)] by (rule fl_mono)
  also have "\<dots> < of_nat n" unfolding fl_scaled [OF n(2)] using n by simp
  finally have hi: "?x < of_nat n" .
  have "of_int (int n div 2) \<le> (of_nat n / 2 :: rat)"
  proof -
    have "2 * (int n div 2) \<le> int n" by simp
    then have "(of_int (2 * (int n div 2)) :: rat) \<le> of_int (int n)" by (rule of_int_le_iff [THEN iffD2])
    then show ?thesis by simp
  qed
  also have "\<dots> \<le> of_nat n * fl q" using mult_left_mono [OF q'(1), of "of_nat n"] by simp
  finally have "fl (of_int (int n div 2)) \<le> fl (of_nat n * fl q)" by (rule fl_mono)
  moreover have "\<bar>int n div 2\<bar> < 2 ^ 53" using n by simp
  ultimately have lo: "of_int (int n div 2) \<le> ?x"
    unfolding fmul_def fl_length [OF n(2)] by (simp only: fl_of_int)
  have "0 \<le> ?x" using lo by (rule order_trans [rotated]) simp
  then have "percentile_index q n = \<lfloor>?x\<rfloor>" by (simp add: percentile_index_def rat_trunc_def)
  then show "int n div 2 \<le> percentile_index q n" "percentile_index q n < int n"
    using lo hi by (simp_all add: le_floor_iff floor_less_iff)
qed

lemma percentile_index_mono: "q \<le> r \<Longrightarrow> 0 \<le> q \<Longrightarrow> percentile_index q n \<le> percentile_index r n"
proof -
  assume q: "q \<le> r" "0 \<le> q"
  have "fmul (fl (of_nat n)) (fl q) \<le> fmul (fl (of_nat n)) (fl r)"
    unfolding fmul_def by (intro fl_mono mult_left_mono fl_nonneg q) simp
  moreover have "0 \<le> fmul (fl (of_nat n)) (fl q)" unfolding fmul_def using q by (simp add: fl_nonneg)
  ultimately show ?thesis by (simp add: percentile_index_def rat_trunc_def floor_mono)
qed

lemma index_in_range: "0 \<le> i \<Longrightarrow> i < int (length s) \<Longrightarrow> index_list s i = Inr (s ! nat i)"
  by (simp add: index_list_def)

lemma percentiles_defined:
  assumes "vs \<noteq> []" "length vs < 2 ^ 46"
  shows "\<exists>a b c. p50_ms vs = Inr a \<and> p95_ms vs = Inr b \<and> p99_ms vs = Inr c"
proof -
  have n: "0 < length vs" using assms(1) by simp
  have i: "0 \<le> int (length vs) div 2" by simp
  show ?thesis
    using assms(1) i percentile_index_bounds [OF n assms(2), of "95 / 100"] percentile_index_bounds [OF n assms(2), of "99 / 100"]
    by (simp add: p50_ms_def p95_ms_def p99_ms_def index_in_range)
qed

section \<open>Properties\<close>

text \<open>For a non-empty sample the percentiles never raise an IndexError and are ordered: minimum, p50, p95, p99,
  maximum, each of them one of the samples.\<close>

theorem percentiles_ordered:
  assumes "vs \<noteq> []" "length vs < 2 ^ 46"
  shows "\<exists>a b c. p50_ms vs = Inr a \<and> p95_ms vs = Inr b \<and> p99_ms vs = Inr c \<and> min_ms vs \<le> a \<and> a \<le> b \<and> b \<le> c \<and> c \<le> max_ms vs \<and>
    set [a, b, c] \<subseteq> set vs"
proof -
  let ?n = "length vs" and ?i = "int (length vs) div 2" and ?j = "percentile_index (95 / 100) (length vs)" and ?k = "percentile_index (99 / 100) (length vs)"
  have n: "0 < ?n" using assms(1) by simp
  have j: "?i \<le> ?j" "?j < int ?n" using percentile_index_bounds [OF n assms(2), of "95 / 100"] by simp_all
  have k: "?j \<le> ?k" "?k < int ?n"
    using percentile_index_mono [of "95 / 100" "99 / 100" ?n] percentile_index_bounds [OF n assms(2), of "99 / 100"] by simp_all
  have i: "0 \<le> ?i" by simp
  have nat: "nat ?i \<le> nat ?j" "nat ?j \<le> nat ?k" "nat ?k < ?n" using i j k by simp_all
  have "p50_ms vs = Inr (sort vs ! nat ?i)" "p95_ms vs = Inr (sort vs ! nat ?j)" "p99_ms vs = Inr (sort vs ! nat ?k)"
    using assms(1) i j k by (simp_all add: p50_ms_def p95_ms_def p99_ms_def index_in_range)
  moreover have "sort vs ! nat ?i \<le> sort vs ! nat ?j" "sort vs ! nat ?j \<le> sort vs ! nat ?k"
    using nat by (auto intro: sort_nth_mono)
  moreover have "min_ms vs \<le> sort vs ! nat ?i" "sort vs ! nat ?k \<le> max_ms vs"
    using assms(1) nat sort_nth_bounds [of _ vs] by (simp_all add: min_ms_def max_ms_def)
  moreover have "sort vs ! m \<in> set vs" if "m < ?n" for m using that nth_mem [of m "sort vs"] by simp
  ultimately show ?thesis using nat by fastforce
qed

theorem percentiles_ordered_witness:
  "\<exists>a b c. p50_ms [5, 1, 4] = Inr a \<and> p95_ms [5, 1, 4] = Inr b \<and> p99_ms [5, 1, 4] = Inr c \<and> min_ms [5, 1, 4] \<le> a \<and> a \<le> b \<and> b \<le> c \<and>
    c \<le> max_ms [5, 1, 4] \<and> set [a, b, c] \<subseteq> set [5, 1, 4]"
  by (rule percentiles_ordered) simp_all

end
