(* ===== verification/Benchmark_Dataset.thy ===== *)
theory Benchmark_Dataset
  imports Benchmark_Inventory Benchmark_Stats Vmware_Plan
begin

text \<open>
  scripts/benchmark_from_dataset.py: reading a generated inventory back from JSON, validating it, and measuring the
  assessment and the planning on it (concurrency_sweep.py has the same reader).

  JSON values are pyval. The validators of pydantic for the field types are the record dataset_validators;
  validators_ok says that each accepts the values of its own type unchanged. The clock readings of a measurement are
  arguments, one pair for each repetition.
\<close>

section \<open>The inventory as JSON (generate_benchmark_inventory.py)\<close>

definition json_object :: "(string \<times> pyval) list \<Rightarrow> pyval" where
  "json_object entries = PDict (map (\<lambda>(k, v). (PStr k, v)) entries)"

definition disk_json :: "gen_disk \<Rightarrow> pyval" where
  "disk_json d = json_object [(''label'', PStr (gd_label d)), (''capacity_gb'', PInt (gd_capacity_gb d)), (''datastore'', PStr (gd_datastore d)),
     (''controller_type'', PStr (gd_controller_type d)), (''disk_type'', PStr (gd_disk_type d))]"

definition nic_json :: "gen_nic \<Rightarrow> pyval" where
  "nic_json n = json_object [(''label'', PStr (gn_label n)), (''mac'', PStr (gn_mac n)), (''network'', PStr (gn_network n)), (''nic_type'', PStr (gn_nic_type n))]"

definition vm_json :: "gen_vm \<Rightarrow> pyval" where
  "vm_json v = json_object [(''id'', PStr (gv_id v)), (''name'', PStr (gv_name v)), (''power_state'', PStr (gv_power_state v)),
     (''guest_os'', PStr (gv_guest_os v)), (''os_family'', PStr (gv_os_family v)), (''os_supported'', PBool (gv_os_supported v)),
     (''hardware'', json_object [(''cpu_count'', PInt (gv_cpu_count v)), (''memory_mb'', PInt (gv_memory_mb v)),
        (''disks'', PList (map disk_json (gv_disks v))), (''nics'', PList (map nic_json (gv_nics v)))]),
     (''firmware'', PStr (gv_firmware v)), (''secure_boot_enabled'', PBool (gv_secure_boot_enabled v)),
     (''vmware_tools_status'', case gv_vmware_tools_status v of None \<Rightarrow> PNone | Some t \<Rightarrow> PStr t),
     (''disk_controller_types'', PList (map PStr (gv_disk_controller_types v))), (''cluster'', PStr (gv_cluster v)), (''host'', PStr (gv_host v))]"

section \<open>Reading it\<close>

record dataset_validators =
  dv_str :: "pyval \<Rightarrow> exn + string"
  dv_int :: "pyval \<Rightarrow> exn + int"
  dv_opt_str :: "pyval \<Rightarrow> exn + string option"
  dv_opt_bool :: "pyval \<Rightarrow> exn + bool option"
  dv_opt_str_list :: "pyval \<Rightarrow> exn + string list option"

definition validators_ok :: "dataset_validators \<Rightarrow> bool" where
  "validators_ok V \<longleftrightarrow> (\<forall>s. dv_str V (PStr s) = Inr s) \<and> (\<forall>i. dv_int V (PInt i) = Inr i) \<and>
     (\<forall>s. dv_opt_str V (PStr s) = Inr (Some s)) \<and> dv_opt_str V PNone = Inr None \<and> (\<forall>b. dv_opt_bool V (PBool b) = Inr (Some b)) \<and>
     (\<forall>ss. dv_opt_str_list V (PList (map PStr ss)) = Inr (Some ss))"

text \<open>\<^verbatim>\<open>v.get(name, default)\<close>, \<^verbatim>\<open>for x in v\<close> and \<^verbatim>\<open>name in v\<close> on JSON values\<close>

definition json_get :: "pyval \<Rightarrow> string \<Rightarrow> pyval \<Rightarrow> exn + pyval" where
  "json_get v name dflt = (case v of
     PDict items \<Rightarrow> Inr (dict_get_default items (PStr name) dflt) | _ \<Rightarrow> Inl (PyException ''AttributeError'' ''get''))"

definition json_iter :: "pyval \<Rightarrow> exn + pyval list" where
  "json_iter v = (case v of
     PList xs \<Rightarrow> Inr xs | PDict items \<Rightarrow> Inr (map fst items) | PStr s \<Rightarrow> Inr (map (\<lambda>c. PStr [c]) s)
   | _ \<Rightarrow> Inl (PyException ''TypeError'' ''object is not iterable''))"

definition json_contains :: "pyval \<Rightarrow> string \<Rightarrow> exn + bool" where
  "json_contains v name = (case v of
     PDict items \<Rightarrow> Inr (PStr name \<in> fst ` set items) | PList xs \<Rightarrow> Inr (PStr name \<in> set xs) | PStr s \<Rightarrow> Inr (py_in name s)
   | _ \<Rightarrow> Inl (PyException ''TypeError'' ''argument is not iterable''))"

definition disk_from_dict :: "dataset_validators \<Rightarrow> pyval \<Rightarrow> exn + vm_disk" where
  "disk_from_dict V d =
    checkS (json_get d ''label'' (PStr [])) (\<lambda>label. checkS (json_get d ''capacity_gb'' (PInt 0)) (\<lambda>cap.
    checkS (json_get d ''datastore'' PNone) (\<lambda>ds. checkS (json_get d ''controller_type'' PNone) (\<lambda>ct.
    checkS (json_get d ''disk_type'' (PStr ''thick'')) (\<lambda>dt.
    checkS (dv_str V label) (\<lambda>label'. checkS (dv_int V cap) (\<lambda>cap'. checkS (dv_opt_str V ds) (\<lambda>ds'. checkS (dv_opt_str V ct) (\<lambda>ct'.
    Inr \<lparr>vd_label = label', vd_capacity_gb = cap', vd_thin_provisioned = (dt \<noteq> PStr ''thick''), vd_datastore_name = ds',
         vd_controller_type = ct'\<rparr>)))))))))"

definition nic_from_dict :: "dataset_validators \<Rightarrow> pyval \<Rightarrow> exn + vm_nic" where
  "nic_from_dict V n =
    checkS (json_get n ''label'' (PStr [])) (\<lambda>label. checkS (json_get n ''network'' PNone) (\<lambda>net.
    checkS (json_get n ''mac'' PNone) (\<lambda>mac. checkS (json_get n ''nic_type'' PNone) (\<lambda>ty.
    checkS (dv_str V label) (\<lambda>label'. checkS (dv_str V net) (\<lambda>net'. checkS (dv_opt_str V mac) (\<lambda>mac'. checkS (dv_opt_str V ty) (\<lambda>ty'.
    Inr \<lparr>vn_label = label', vn_network_name = net', vn_mac_address = mac', vn_ip_addresses = [], vn_nic_type = ty'\<rparr>))))))))"

definition vm_summary_from_dict :: "dataset_validators \<Rightarrow> pyval \<Rightarrow> exn + vm_summary" where
  "vm_summary_from_dict V vm_dict =
    checkS (json_get vm_dict ''hardware'' (PDict [])) (\<lambda>hw.
    checkS (json_get hw ''disks'' (PList [])) (\<lambda>ds. checkS (json_iter ds) (\<lambda>ds'. checkS (mapS (disk_from_dict V) ds') (\<lambda>disks.
    checkS (json_get hw ''nics'' (PList [])) (\<lambda>ns. checkS (json_iter ns) (\<lambda>ns'. checkS (mapS (nic_from_dict V) ns') (\<lambda>nics.
    checkS (json_get hw ''cpu_count'' (PInt 0)) (\<lambda>c. checkS (json_get hw ''memory_mb'' (PInt 0)) (\<lambda>m.
    checkS (dv_int V c) (\<lambda>cpu. checkS (dv_int V m) (\<lambda>mem.
    checkS (json_get vm_dict ''id'' (PStr [])) (\<lambda>i. checkS (json_get vm_dict ''name'' (PStr [])) (\<lambda>n.
    checkS (json_get vm_dict ''power_state'' (PStr ''poweredOff'')) (\<lambda>ps. checkS (json_get vm_dict ''guest_os'' (PStr [])) (\<lambda>os.
    checkS (json_get vm_dict ''firmware'' PNone) (\<lambda>fw. checkS (json_get vm_dict ''secure_boot_enabled'' PNone) (\<lambda>sb.
    checkS (json_get vm_dict ''vmware_tools_status'' PNone) (\<lambda>ts. checkS (json_get vm_dict ''disk_controller_types'' (PList [])) (\<lambda>dc.
    checkS (dv_str V i) (\<lambda>i'. checkS (dv_str V n) (\<lambda>n'. checkS (dv_str V ps) (\<lambda>ps'. checkS (dv_opt_str V os) (\<lambda>os'.
    checkS (dv_opt_str V fw) (\<lambda>fw'. checkS (dv_opt_bool V sb) (\<lambda>sb'. checkS (dv_opt_str V ts) (\<lambda>ts'. checkS (dv_opt_str_list V dc) (\<lambda>dc'.
    Inr \<lparr>vm_id = i', vm_name = n', vm_power_state = ps', vm_guest_os = os',
      vm_hardware = Some \<lparr>hw_cpu_count = cpu, hw_cpu_cores_per_socket = 1, hw_memory_mb = mem, hw_disks = disks, hw_nics = nics\<rparr>,
      vm_cluster_name = None, vm_datastores = [], vm_tags = [], vm_annotation = None, vm_firmware = fw', vm_secure_boot_enabled = sb',
      vm_vmware_tools_status = ts', vm_disk_controller_types = dc'\<rparr>)))))))))))))))))))))))))))"

text \<open>The warnings for one machine of the dataset, by its position.\<close>

definition vm_warnings :: "(pyval \<Rightarrow> string) \<Rightarrow> nat \<times> pyval \<Rightarrow> exn + string list" where
  "vm_warnings repr = (\<lambda>(i, vm).
    checkS (json_contains vm ''id'') (\<lambda>has_id. checkS (json_contains vm ''hardware'') (\<lambda>has_hw.
    checkS (json_get vm ''id'' (PInt (int i))) (\<lambda>name. checkS (json_get vm ''hardware'' (PDict [])) (\<lambda>hw.
    checkS (json_contains hw ''disks'') (\<lambda>has_disks. checkS (json_contains hw ''nics'') (\<lambda>has_nics.
    Inr ((if has_id then [] else [''VM at index '' @ str_int (int i) @ '' missing '' @ [CHR 0x27] @ ''id'' @ [CHR 0x27]]) @
         (if has_hw then [] else [''VM '' @ py_str repr name @ '' missing '' @ [CHR 0x27] @ ''hardware'' @ [CHR 0x27]]) @
         (if has_disks then [] else [''VM '' @ py_str repr name @ '' hardware missing '' @ [CHR 0x27] @ ''disks'' @ [CHR 0x27]]) @
         (if has_nics then [] else [''VM '' @ py_str repr name @ '' hardware missing '' @ [CHR 0x27] @ ''nics'' @ [CHR 0x27]])))))))))"

definition validate_dataset :: "(pyval \<Rightarrow> string) \<Rightarrow> pyval \<Rightarrow> exn + string list" where
  "validate_dataset repr inventory =
    checkS (json_get inventory ''vms'' (PList [])) (\<lambda>vms.
    checkS (json_iter vms) (\<lambda>xs. checkS (mapS (vm_warnings repr) (List.enumerate 0 xs)) (\<lambda>ws.
    Inr ((if truthy vms then [] else [''No VMs found in inventory dataset'']) @ concat ws))))"

section \<open>Measuring the assessment\<close>

record dataset_run =
  dr_compatible :: nat
  dr_incompatible :: nat
  dr_warning_count :: nat
  dr_top_reasons :: "(string, int) dict"
  dr_durations_ms :: "rat list"

definition reason_text :: "compatibility_issue \<Rightarrow> string" where
  "reason_text i = ci_severity i @ '': '' @ ci_category i @ '' '' @ em_dash @ '' '' @ py_take 60 (ci_message i)"

definition elapsed_ms :: "rat \<times> rat \<Rightarrow> rat" where
  "elapsed_ms t = fmul (fsub (snd t) (fst t)) 1000"

fun compatibility_rounds :: "vm_summary list \<Rightarrow> (rat \<times> rat) list \<Rightarrow> scored_compatibility_result list option \<Rightarrow> rat list \<Rightarrow>
    ((string, int) dict, scored_compatibility_result list option \<times> rat list) act" where
  "compatibility_rounds vms [] latest durations = retE (latest, durations)"
| "compatibility_rounds vms (t # ts) latest durations =
    bindE (mapE evaluate vms) (\<lambda>all_results. compatibility_rounds vms ts (Some all_results) (durations @ [elapsed_ms t]))"

definition tally_reasons :: "(string, int) dict \<Rightarrow> scored_compatibility_result \<Rightarrow> (string, int) dict" where
  "tally_reasons d r = foldl (\<lambda>d i. counter_add d (reason_text i) 1) d (filter (\<lambda>i. \<not> ci_compatible i) (sc_issues r))"

definition is_warning :: "compatibility_issue \<Rightarrow> bool" where
  "is_warning i \<longleftrightarrow> ci_severity i \<in> {''low'', ''medium'', ''high''}"

definition analyse :: "scored_compatibility_result list \<Rightarrow> rat list \<Rightarrow> dataset_run" where
  "analyse results durations =
    \<lparr>dr_compatible = length (filter sc_compatible results), dr_incompatible = length (filter (\<lambda>r. \<not> sc_compatible r) results),
     dr_warning_count = sum_list (map (\<lambda>r. length (filter is_warning (sc_issues r))) results),
     dr_top_reasons = take 10 (sort_key (\<lambda>x. - snd x) (foldl tally_reasons [] results)), dr_durations_ms = durations\<rparr>"

text \<open>Without a repetition all_results is not bound.\<close>

definition benchmark_compatibility :: "dataset_validators \<Rightarrow> pyval list \<Rightarrow> (rat \<times> rat) list \<Rightarrow> ((string, int) dict, dataset_run) act" where
  "benchmark_compatibility V vm_dicts clock =
    bindE (outcomeE (mapS (vm_summary_from_dict V) vm_dicts)) (\<lambda>vms.
    bindE (compatibility_rounds vms clock None []) (\<lambda>(latest, durations).
    case latest of None \<Rightarrow> raiseE (PyException ''UnboundLocalError'' ''all_results'') | Some results \<Rightarrow> retE (analyse results durations)))"

fun plan_rounds :: "string \<Rightarrow> timestamp \<Rightarrow> vm_summary list \<Rightarrow> (rat \<times> rat) list \<Rightarrow> rat list \<Rightarrow> ((string, int) dict, rat list) act" where
  "plan_rounds uuid now vms [] durations = retE durations"
| "plan_rounds uuid now vms (t # ts) durations =
    bindE (mapE (\<lambda>vm. bindE (evaluate vm) (\<lambda>r. retE (vm, r, None))) vms) (\<lambda>results_list.
    bindE (outcomeE (generate_plan uuid now results_list None)) (\<lambda>_. plan_rounds uuid now vms ts (durations @ [elapsed_ms t])))"

definition benchmark_plan_generation :: "dataset_validators \<Rightarrow> string \<Rightarrow> timestamp \<Rightarrow> pyval list \<Rightarrow> (rat \<times> rat) list \<Rightarrow> ((string, int) dict, rat list) act" where
  "benchmark_plan_generation V uuid now vm_dicts clock =
    bindE (outcomeE (mapS (vm_summary_from_dict V) vm_dicts)) (\<lambda>vms. plan_rounds uuid now vms clock [])"

section \<open>Round trip\<close>

definition disk_of :: "gen_disk \<Rightarrow> vm_disk" where
  "disk_of d = \<lparr>vd_label = gd_label d, vd_capacity_gb = gd_capacity_gb d, vd_thin_provisioned = (gd_disk_type d \<noteq> ''thick''),
     vd_datastore_name = Some (gd_datastore d), vd_controller_type = Some (gd_controller_type d)\<rparr>"

definition nic_of :: "gen_nic \<Rightarrow> vm_nic" where
  "nic_of n = \<lparr>vn_label = gn_label n, vn_network_name = gn_network n, vn_mac_address = Some (gn_mac n), vn_ip_addresses = [],
     vn_nic_type = Some (gn_nic_type n)\<rparr>"

definition vm_of :: "gen_vm \<Rightarrow> vm_summary" where
  "vm_of v = \<lparr>vm_id = gv_id v, vm_name = gv_name v, vm_power_state = gv_power_state v, vm_guest_os = Some (gv_guest_os v),
     vm_hardware = Some \<lparr>hw_cpu_count = gv_cpu_count v, hw_cpu_cores_per_socket = 1, hw_memory_mb = gv_memory_mb v,
       hw_disks = map disk_of (gv_disks v), hw_nics = map nic_of (gv_nics v)\<rparr>,
     vm_cluster_name = None, vm_datastores = [], vm_tags = [], vm_annotation = None, vm_firmware = Some (gv_firmware v),
     vm_secure_boot_enabled = Some (gv_secure_boot_enabled v), vm_vmware_tools_status = gv_vmware_tools_status v,
     vm_disk_controller_types = Some (gv_disk_controller_types v)\<rparr>"

lemma json_get_object: "json_get (json_object kvs) name d = Inr (dict_get_default kvs name d)"
proof -
  have "map_of (map (\<lambda>(k, v). (PStr k, v)) kvs) (PStr name) = map_of kvs name" by (induction kvs) auto
  then show ?thesis by (simp add: json_get_def json_object_def dict_get_default_def)
qed

lemma mapS_pure: "(\<And>x. x \<in> set xs \<Longrightarrow> f x = Inr (g x)) \<Longrightarrow> mapS f xs = Inr (map g xs)"
  by (induction xs) (simp_all add: checkS_def)

lemma mapS_map: "mapS f (map g xs) = mapS (f \<circ> g) xs"
  by (induction xs) simp_all

lemma disk_round_trip: "validators_ok V \<Longrightarrow> disk_from_dict V (disk_json d) = Inr (disk_of d)"
  by (simp add: disk_from_dict_def disk_json_def json_get_object dict_get_default_def checkS_def validators_ok_def disk_of_def)

lemma nic_round_trip: "validators_ok V \<Longrightarrow> nic_from_dict V (nic_json n) = Inr (nic_of n)"
  by (simp add: nic_from_dict_def nic_json_def json_get_object dict_get_default_def checkS_def validators_ok_def nic_of_def)

lemma vm_round_trip:
  assumes "validators_ok V"
  shows "vm_summary_from_dict V (vm_json v) = Inr (vm_of v)"
proof -
  have "mapS (disk_from_dict V) (map disk_json ds) = Inr (map disk_of ds)" for ds
    by (simp add: mapS_map mapS_pure disk_round_trip assms)
  moreover have "mapS (nic_from_dict V) (map nic_json ns) = Inr (map nic_of ns)" for ns
    by (simp add: mapS_map mapS_pure nic_round_trip assms)
  ultimately show ?thesis using assms
    by (cases "gv_vmware_tools_status v")
      (simp_all add: vm_summary_from_dict_def vm_json_def json_get_object dict_get_default_def json_iter_def checkS_def validators_ok_def vm_of_def)
qed

section \<open>Results of the rounds\<close>

lemma evaluate_all: "\<exists>rs m'. mapE evaluate vms m = (Inr rs, m') \<and>
   map sc_compatible rs = map (\<lambda>vm. \<not> blocked vm \<and> high_risks vm \<le> 2) vms"
proof (induction vms arbitrary: m)
  case (Cons vm vms)
  obtain r m1 where "evaluate vm m = (Inr r, m1)" "sc_compatible r \<longleftrightarrow> \<not> blocked vm \<and> high_risks vm \<le> 2"
    using evaluate_verdict_conditions [of vm m] by (metis fst_conv surj_pair)
  moreover obtain rs m2 where "mapE evaluate vms m1 = (Inr rs, m2)" "map sc_compatible rs = map (\<lambda>vm. \<not> blocked vm \<and> high_risks vm \<le> 2) vms"
    using Cons.IH by blast
  ultimately show ?case by (simp add: bindE_def retE_def)
qed (simp add: retE_def)

lemma rounds_result:
  "\<exists>rs m'. compatibility_rounds vms (t # ts) latest ds m = (Inr (Some rs, ds @ map elapsed_ms (t # ts)), m') \<and>
     map sc_compatible rs = map (\<lambda>vm. \<not> blocked vm \<and> high_risks vm \<le> 2) vms"
proof (induction ts arbitrary: t latest ds m)
  case Nil
  show ?case using evaluate_all [of vms m] by (auto simp: bindE_def retE_def)
next
  case (Cons t' ts)
  obtain rs m1 where e: "mapE evaluate vms m = (Inr rs, m1)" using evaluate_all by blast
  show ?case using Cons.IH [of t' "Some rs" "ds @ [elapsed_ms t]" m1] by (simp add: e bindE_def)
qed

lemma filter_by_map: "map f xs = map g ys \<Longrightarrow> length (filter f xs) = length (filter g ys)"
proof (induction xs arbitrary: ys)
  case (Cons x xs)
  then show ?case by (cases ys) auto
qed simp

section \<open>Properties\<close>

text \<open>C39: A generated machine written to the dataset and read back by the benchmark is the same machine: every field the
  assessment looks at survives, a disk is thin exactly when it was not drawn as thick, and validation
  of the dataset has no complaint about it.\<close>

theorem dataset_round_trip:
  assumes "validators_ok V"
  shows "vm_summary_from_dict V (vm_json v) = Inr (vm_of v) \<and> vm_warnings repr (i, vm_json v) = Inr []"
proof
  show "vm_summary_from_dict V (vm_json v) = Inr (vm_of v)" by (rule vm_round_trip [OF assms])
  have has: "json_contains (json_object kvs) name = Inr (name \<in> fst ` set kvs)" for kvs name
    by (force simp: json_contains_def json_object_def)
  show "vm_warnings repr (i, vm_json v) = Inr []"
    by (simp add: vm_warnings_def vm_json_def has json_get_object dict_get_default_def checkS_def)
qed

definition strict_validators :: dataset_validators where
  "strict_validators = \<lparr>dv_str = (\<lambda>v. case v of PStr s \<Rightarrow> Inr s | _ \<Rightarrow> Inl (ValidationError ''str'')),
     dv_int = (\<lambda>v. case v of PInt i \<Rightarrow> Inr i | _ \<Rightarrow> Inl (ValidationError ''int'')),
     dv_opt_str = (\<lambda>v. case v of PStr s \<Rightarrow> Inr (Some s) | PNone \<Rightarrow> Inr None | _ \<Rightarrow> Inl (ValidationError ''str'')),
     dv_opt_bool = (\<lambda>v. case v of PBool b \<Rightarrow> Inr (Some b) | PNone \<Rightarrow> Inr None | _ \<Rightarrow> Inl (ValidationError ''bool'')),
     dv_opt_str_list = (\<lambda>v. case v of PNone \<Rightarrow> Inr None
       | PList xs \<Rightarrow> map_sum id Some (mapS (\<lambda>x. case x of PStr s \<Rightarrow> Inr s | _ \<Rightarrow> Inl (ValidationError ''str'')) xs) | _ \<Rightarrow> Inl (ValidationError ''list''))\<rparr>"

lemma strict_validators_ok: "validators_ok strict_validators"
  by (simp add: validators_ok_def strict_validators_def mapS_map mapS_pure [where g = id] o_def)

definition demo_gen_vm :: gen_vm where
  "demo_gen_vm = \<lparr>gv_id = ''vm-00000'', gv_name = ''vm-00000-Solaris-11'', gv_power_state = ''poweredOn'', gv_guest_os = ''Solaris 11'',
     gv_os_family = ''unix'', gv_os_supported = False, gv_cpu_count = 2, gv_memory_mb = 2048, gv_disks = [], gv_nics = [],
     gv_firmware = ''bios'', gv_secure_boot_enabled = False, gv_vmware_tools_status = None, gv_disk_controller_types = [''ide''],
     gv_cluster = ''DR-Cluster'', gv_host = ''esxi-01.local''\<rparr>"

theorem dataset_round_trip_witness:
  "vm_summary_from_dict strict_validators (vm_json demo_gen_vm) = Inr (vm_of demo_gen_vm)"
  using dataset_round_trip [OF strict_validators_ok] by blast

text \<open>Measuring the compatibility check on a dataset of generated machines, with at least one repetition, always
  returns: one duration per repetition, and counts that account for every machine, compatible exactly
  when it is not blocked and has at most two high risks.\<close>

theorem dataset_benchmark_accounts:
  assumes "validators_ok V" "clock \<noteq> []"
  shows "\<exists>run m'. benchmark_compatibility V (map vm_json vs) clock m = (Inr run, m') \<and>
    dr_durations_ms run = map elapsed_ms clock \<and> dr_compatible run + dr_incompatible run = length vs \<and>
    dr_compatible run = length (filter (\<lambda>v. \<not> blocked (vm_of v) \<and> high_risks (vm_of v) \<le> 2) vs) \<and> length (dr_top_reasons run) \<le> 10"
proof -
  have c: "mapS (vm_summary_from_dict V) (map vm_json vs) = Inr (map vm_of vs)"
    by (simp add: mapS_map mapS_pure vm_round_trip assms)
  obtain t ts where t: "clock = t # ts" using assms(2) by (cases clock) auto
  obtain rs m' where r: "compatibility_rounds (map vm_of vs) clock None [] m = (Inr (Some rs, map elapsed_ms clock), m')"
      "map sc_compatible rs = map (\<lambda>vm. \<not> blocked vm \<and> high_risks vm \<le> 2) (map vm_of vs)"
    using rounds_result [of "map vm_of vs" t ts None "[]" m] unfolding t by auto
  have "length (filter sc_compatible rs) = length (filter (\<lambda>v. \<not> blocked (vm_of v) \<and> high_risks (vm_of v) \<le> 2) vs)"
    using filter_by_map [OF r(2)] by (simp add: filter_map o_def)
  moreover have "length rs = length vs" using arg_cong [OF r(2), of length] by simp
  moreover have "length (filter sc_compatible rs) + length (filter (\<lambda>r. \<not> sc_compatible r) rs) = length rs"
    by (rule sum_length_filter_compl)
  ultimately show ?thesis
    by (simp add: benchmark_compatibility_def c r(1) bindE_def outcomeE_def retE_def analyse_def)
qed

theorem dataset_benchmark_accounts_witness:
  "\<exists>run m'. benchmark_compatibility strict_validators (map vm_json [demo_gen_vm]) [(0, 1)] [] = (Inr run, m') \<and>
    dr_compatible run + dr_incompatible run = 1"
  using dataset_benchmark_accounts [OF strict_validators_ok, of "[(0, 1)]" "[demo_gen_vm]" "[]"] by auto

lemma templates_verdict:
  "list_all (\<lambda>(os, family, supported). list_ex (\<lambda>bad. py_in bad (py_lower os)) UNSUPPORTED_OS_PREFIXES =
     (\<not> supported \<and> os \<noteq> ''macOS Ventura'')) OS_TEMPLATES"
  by code_simp

text \<open>On every generated inventory the assessment blocks exactly the machines the generator marks as having an
  unsupported operating system, except those with macOS: that name does not contain any of the
  unsupported names, so a macOS machine is not blocked for its operating system.\<close>

theorem unsupported_os_recognised:
  assumes "rng_ok g" "v \<in> set (gi_vms (fst (run_state (generate_inventory g cfg n) s)))"
  shows "os_unsupported (vm_of v) \<longleftrightarrow> \<not> gv_os_supported v \<and> gv_guest_os v \<noteq> ''macOS Ventura''"
proof -
  have "list_all2 vm_ok [0 ..< n] (gi_vms (fst (run_state (generate_inventory g cfg n) s)))"
    using generated_vms [OF assms(1), of cfg n s] by auto
  then obtain i where "vm_ok i v" using assms(2) by (auto simp: list_all2_conv_all_nth in_set_conv_nth)
  then have "(gv_guest_os v, gv_os_family v, gv_os_supported v) \<in> set OS_TEMPLATES"
    by (simp add: vm_ok_def os_entry_ok_def)
  then have "list_ex (\<lambda>bad. py_in bad (py_lower (gv_guest_os v))) UNSUPPORTED_OS_PREFIXES =
     (\<not> gv_os_supported v \<and> gv_guest_os v \<noteq> ''macOS Ventura'')"
    using templates_verdict by (force simp: list_all_iff)
  then show ?thesis by (auto simp: os_unsupported_def vm_of_def list_ex_iff py_in_sublist)
qed

theorem unsupported_os_recognised_witness:
  "os_unsupported (vm_of (hd (gi_vms (fst (run_state (generate_inventory demo_rng (scenario_config ''high_risk'') 1) 0)))))
    \<longleftrightarrow> \<not> gv_os_supported (hd (gi_vms (fst (run_state (generate_inventory demo_rng (scenario_config ''high_risk'') 1) 0)))) \<and>
      gv_guest_os (hd (gi_vms (fst (run_state (generate_inventory demo_rng (scenario_config ''high_risk'') 1) 0)))) \<noteq> ''macOS Ventura''"
proof -
  let ?vms = "gi_vms (fst (run_state (generate_inventory demo_rng (scenario_config ''high_risk'') 1) 0))"
  have "?vms \<noteq> []" using generated_vms [OF demo_rng_ok, of "scenario_config ''high_risk''" 1 0] by auto
  then have "hd ?vms \<in> set ?vms" by simp
  from unsupported_os_recognised [OF demo_rng_ok this] show ?thesis .
qed

end
