(* ===== verification/Synthetic_Benchmark.thy ===== *)
theory Synthetic_Benchmark
  imports Benchmark_Dataset
begin

text \<open>
  The synthetic inventories of scripts/benchmark_vmware_assessment.py and scripts/stress_benchmark_assessment.py, whose i-th
  machine is a function of i, and the stress benchmark that assesses them.

  The order in which Python lists a set of strings is the parameter set_order. A clock is the list of the readings at the
  start and the end of each measured section; the coroutines of the parallel benchmark have no await point, so
  gather runs them one after the other.
\<close>

section \<open>The inventory of the stress benchmark\<close>

definition MOCK_OS_TEMPLATES :: "string list" where
  "MOCK_OS_TEMPLATES =
    [''CentOS 7'', ''CentOS 8'', ''CentOS 9'', ''Ubuntu 20.04'', ''Ubuntu 22.04'', ''Ubuntu 24.04'', ''Debian 11'', ''Debian 12'',
     ''Red Hat Enterprise Linux 8'', ''Red Hat Enterprise Linux 9'', ''SUSE Linux Enterprise Server 15'', ''Windows Server 2019'',
     ''Windows Server 2022'', ''Windows 10'', ''Windows 11'', ''FreeBSD 13'', ''FreeBSD 14'', ''Solaris 11'', ''macOS Ventura'', ''HP-UX 11i'']"

definition MOCK_POWER_STATES :: "string list" where
  "MOCK_POWER_STATES = concat (replicate 3 [''poweredOn'', ''poweredOff'', ''suspended''])"

definition MOCK_TOOLS_STATUSES :: "string option list" where
  "MOCK_TOOLS_STATUSES = [Some ''toolsOk'', Some ''toolsOk'', Some ''toolsOk'', Some ''toolsNotRunning'', Some ''toolsNotInstalled'', None]"

definition MOCK_DISK_CONTROLLER_SETS :: "string list list" where
  "MOCK_DISK_CONTROLLER_SETS =
    [[''lsilogic''], [''lsilogic'', ''ide''], [''pvscsi''], [''nvme''], [''lsilogic'', ''nvme''], [''sata''], [''ide''], []]"

definition MOCK_NIC_TYPES :: "string list" where
  "MOCK_NIC_TYPES = [''vmxnet3'', ''vmxnet3'', ''vmxnet3'', ''e1000'', ''vmxnet2'', ''sriov'', ''unknown'']"

text \<open>\<^verbatim>\<open>xs[i % len(xs)]\<close>\<close>

definition cyclic :: "'a list \<Rightarrow> nat \<Rightarrow> 'a" where
  "cyclic xs i = xs ! (i mod length xs)"

definition stress_os :: "nat \<Rightarrow> string" where
  "stress_os i = (if i mod 23 = 0 then ''Unknown OS '' @ str_int (int i) else cyclic MOCK_OS_TEMPLATES i)"

definition stress_disk :: "nat \<Rightarrow> string list \<Rightarrow> nat \<Rightarrow> vm_disk" where
  "stress_disk i controllers j =
    \<lparr>vd_label = ''disk'' @ str_int (int j), vd_capacity_gb = (int i * int j + 10) mod 500 + 10, vd_thin_provisioned = True,
     vd_datastore_name = None, vd_controller_type = Some (if controllers \<noteq> [] then cyclic controllers j else ''scsi'')\<rparr>"

definition stress_nic :: "nat \<Rightarrow> nat \<Rightarrow> vm_nic" where
  "stress_nic i j =
    \<lparr>vn_label = ''nic'' @ str_int (int j), vn_network_name = ''VM Network '' @ str_int (int (j mod 5 + 1)),
     vn_mac_address = Some (''00:50:56:'' @ hex02 (i mod 256) @ '':'' @ hex02 j @ '':'' @ hex02 (i * j mod 256)),
     vn_ip_addresses = [], vn_nic_type = Some (cyclic MOCK_NIC_TYPES (i + j))\<rparr>"

definition stress_vm :: "(string list \<Rightarrow> string list) \<Rightarrow> nat \<Rightarrow> vm_summary" where
  "stress_vm set_order i =
    (let os_name = stress_os i;
         cpu_count = (if i mod 13 = 0 then 0 else int (i mod 16) + 1);
         memory_mb = (if i mod 17 = 0 then 0 else (int (i mod 8) + 1) * 1024);
         disk_count = (if i mod 19 = 0 then 0 else i mod 4 + 1);
         nic_count = i mod 3 + 1;
         controllers = cyclic MOCK_DISK_CONTROLLER_SETS i;
         firmware = (if i mod 11 = 0 \<or> i mod 7 = 0 then ''efi'' else ''bios'')
     in \<lparr>vm_id = ''vm-'' @ zero_pad 4 (str_int (int i)),
         vm_name = ''stress-vm-'' @ zero_pad 4 (str_int (int i)) @ ''-'' @ map (\<lambda>c. if c = CHR '' '' then CHR ''-'' else c) (take 10 os_name),
         vm_power_state = cyclic MOCK_POWER_STATES i, vm_guest_os = Some os_name,
         vm_hardware = Some \<lparr>hw_cpu_count = cpu_count, hw_cpu_cores_per_socket = 1, hw_memory_mb = memory_mb,
           hw_disks = map (stress_disk i controllers) [0..<disk_count], hw_nics = map (stress_nic i) [0..<nic_count]\<rparr>,
         vm_cluster_name = None, vm_datastores = [], vm_tags = [], vm_annotation = None, vm_firmware = Some firmware,
         vm_secure_boot_enabled = Some (i mod 11 = 0), vm_vmware_tools_status = cyclic MOCK_TOOLS_STATUSES i,
         vm_disk_controller_types = Some (if controllers \<noteq> [] then set_order controllers else [])\<rparr>)"

definition stress_vms :: "(string list \<Rightarrow> string list) \<Rightarrow> nat \<Rightarrow> vm_summary list" where
  "stress_vms set_order n = map (stress_vm set_order) [0..<n]"

section \<open>The inventory of the assessment benchmark\<close>

record os_template =
  ot_guest_os :: "string option"
  ot_firmware :: string
  ot_secure_boot :: bool

definition BENCH_OS_TEMPLATES :: "os_template list" where
  "BENCH_OS_TEMPLATES = map (\<lambda>(g, f, s). \<lparr>ot_guest_os = g, ot_firmware = f, ot_secure_boot = s\<rparr>)
    [(Some ''CentOS 7.9.2009'', ''bios'', False), (Some ''Ubuntu 22.04.3 LTS'', ''bios'', False),
     (Some ''Red Hat Enterprise Linux 8.8'', ''bios'', False), (Some ''Windows Server 2022 Datacenter'', ''efi'', False),
     (Some ''Windows Server 2019 Standard'', ''efi'', False), (Some ''Debian GNU/Linux 12 (bookworm)'', ''bios'', False),
     (Some ''SUSE Linux Enterprise Server 15 SP5'', ''bios'', False), (Some ''Oracle Linux Server 8.8'', ''bios'', False),
     (Some ''Rocky Linux 9.2'', ''bios'', False), (Some ''FreeBSD 13.2-RELEASE'', ''bios'', False), (Some ''Windows 11 Pro'', ''efi'', False),
     (Some ''Windows 10 Enterprise'', ''bios'', False), (Some ''AlmaLinux 9.2'', ''bios'', False), (Some ''Fedora 38'', ''bios'', False),
     (Some ''Solaris 11.4'', ''bios'', False), (Some ''Ubuntu 20.04.6 LTS'', ''efi'', True), (Some ''Windows Server 2016 Standard'', ''efi'', True),
     (Some ''CentOS Stream 9'', ''efi'', False), (Some ''macOS 14 Sonoma'', ''efi'', False), (None, ''bios'', False)]"

definition BENCH_NETWORKS :: "(string \<times> string) list" where
  "BENCH_NETWORKS =
    [(''internal-mgmt'', ''net-internal-mgmt''), (''external-public'', ''net-external-public''), (''storage-backend'', ''net-storage-backend''),
     (''dmz'', ''net-dmz''), (''dev-vlan-100'', ''net-dev-vlan-100''), (''prod-vlan-200'', ''net-prod-vlan-200''), (''db-tier'', ''net-db-tier'')]"

definition BENCH_TOOLS_STATUSES :: "string option list" where
  "BENCH_TOOLS_STATUSES = [Some ''toolsOk'', Some ''toolsNotInstalled'', Some ''toolsNotRunning'', Some ''toolsOld'', None]"

definition BENCH_CONTROLLER_SETS :: "string list option list" where
  "BENCH_CONTROLLER_SETS =
    [Some [''pvscsi''], Some [''lsilogic''], Some [''nvme''], Some [''pvscsi'', ''sata''], Some [''lsilogic'', ''ide''], Some [''nvme'', ''pvscsi''],
     Some [''ide''], None]"

definition bench_disk :: "nat \<Rightarrow> string list option \<Rightarrow> nat \<Rightarrow> vm_disk" where
  "bench_disk i controller_set d =
    \<lparr>vd_label = ''Hard disk '' @ str_int (int d + 1), vd_capacity_gb = [20, 40, 80, 100, 200, 500, 1000, 2000] ! ((i + d) mod 8),
     vd_thin_provisioned = ((i + d) mod 3 \<noteq> 0), vd_datastore_name = Some (''datastore-'' @ str_int (int ((i + d) mod 4 + 1))),
     vd_controller_type = (case controller_set of None \<Rightarrow> None | Some cs \<Rightarrow> if cs \<noteq> [] then Some (cyclic cs d) else None)\<rparr>"

definition bench_nic :: "nat \<Rightarrow> string \<Rightarrow> nat \<Rightarrow> vm_nic" where
  "bench_nic i nic_type n =
    \<lparr>vn_label = ''Network adapter '' @ str_int (int n + 1), vn_network_name = fst (cyclic BENCH_NETWORKS (i + n)),
     vn_mac_address = Some (''00:50:56:'' @ hex02 i @ '':'' @ hex02 n @ '':'' @ hex02 ((i + n) mod 256)),
     vn_ip_addresses = [''10.0.'' @ str_int (int i) @ ''.'' @ str_int (int n + 1)], vn_nic_type = Some nic_type\<rparr>"

definition bench_vm :: "(string list \<Rightarrow> string list) \<Rightarrow> nat \<Rightarrow> vm_summary" where
  "bench_vm set_order i =
    (let tmpl = cyclic BENCH_OS_TEMPLATES i;
         controller_set = cyclic BENCH_CONTROLLER_SETS i;
         cpu = (let c = int (i mod 16) + 1 in if c = 1 \<and> i mod 7 = 0 then 0 else c);
         mem = (let m = [512, 1024, 2048, 4096, 8192, 16384, 32768, 65536] ! (i mod 8) in if m = 512 \<and> i mod 11 = 0 then 0 else m);
         disks = map (bench_disk i controller_set) [0..<i mod 5 + 1];
         nic_type = cyclic [''vmxnet3'', ''e1000'', ''vmxnet2'', ''e1000e'', ''sriov''] i;
         nics = map (bench_nic i nic_type) [0..<i mod 3 + 1]
     in \<lparr>vm_id = ''vm-'' @ zero_pad 4 (str_int (int i)), vm_name = ''bench-vm-'' @ zero_pad 4 (str_int (int i)),
         vm_power_state = cyclic [''poweredOn'', ''poweredOff'', ''suspended''] i, vm_guest_os = ot_guest_os tmpl,
         vm_hardware = Some \<lparr>hw_cpu_count = cpu, hw_cpu_cores_per_socket = (if cpu > 0 then min cpu 4 else 1), hw_memory_mb = mem,
           hw_disks = disks, hw_nics = nics\<rparr>,
         vm_cluster_name = Some (''cluster-'' @ str_int (int (i mod 5 + 1))),
         vm_datastores = set_order (List.map_filter vd_datastore_name disks),
         vm_tags = (if i mod 2 = 0 then [''env-'' @ cyclic [''dev'', ''staging'', ''prod''] i] else []),
         vm_annotation = Some (''Benchmark VM #'' @ str_int (int i) @ '' '' @ em_dash @ '' '' @ str_or (ot_guest_os tmpl) ''Unknown OS''),
         vm_firmware = Some (ot_firmware tmpl), vm_secure_boot_enabled = Some (ot_secure_boot tmpl),
         vm_vmware_tools_status = cyclic BENCH_TOOLS_STATUSES i, vm_disk_controller_types = controller_set\<rparr>)"

section \<open>The stress benchmark\<close>

fun evaluation_rounds :: "vm_summary list \<Rightarrow> (rat \<times> rat) list \<Rightarrow> rat list \<Rightarrow> ((string, int) dict, rat list) act" where
  "evaluation_rounds vms [] values_ms = retE values_ms"
| "evaluation_rounds vms (t # ts) values_ms =
    thenE (mapE evaluate vms) (evaluation_rounds vms ts (values_ms @ [elapsed_ms t]))"

text \<open>benchmark_parallel_assessment: the semaphore never makes a coroutine wait.\<close>

definition parallel_rounds :: "vm_summary list \<Rightarrow> (rat \<times> rat) list \<Rightarrow> ((string, int) dict, rat list) act" where
  "parallel_rounds vms clock = evaluation_rounds vms clock []"

fun memory_readings :: "vm_summary list \<Rightarrow> rat list \<Rightarrow> ((string, int) dict, rat list) act" where
  "memory_readings vms [] = retE []"
| "memory_readings vms (rss # later) =
    thenE (mapE evaluate vms) (bindE (memory_readings vms later) (\<lambda>rest. retE (rss # rest)))"

definition measure_memory_stability :: "vm_summary list \<Rightarrow> rat list \<Rightarrow> ((string, int) dict, memory_stability) act" where
  "measure_memory_stability vms rss = bindE (memory_readings vms rss) (\<lambda>readings. outcomeE (memory_report readings))"

definition timed_evaluation :: "(nat \<Rightarrow> rat) \<Rightarrow> nat \<times> vm_summary \<Rightarrow> ((string, int) dict, rat) act" where
  "timed_evaluation elapsed nv = thenE (evaluate (snd nv)) (retE (elapsed (fst nv)))"

definition measure_timeout_behavior :: "vm_summary list \<Rightarrow> rat \<Rightarrow> (nat \<Rightarrow> rat) \<Rightarrow> ((string, int) dict, timeout_behavior) act" where
  "measure_timeout_behavior vms timeout_s elapsed =
    bindE (mapE (timed_evaluation elapsed) (enumerate 0 vms)) (\<lambda>es. retE (timeout_report timeout_s es))"

record stress_run =
  sx_vm_count :: nat
  sx_results :: "(string, rat list) dict"
  sx_mem_before_mb :: rat
  sx_mem_after_mb :: rat
  sx_mem_delta_mb :: rat
  sx_timeout_count :: int
  sx_error_count :: int

text \<open>What one size meets: the clocks of the three benchmarks and the memory before and after.\<close>

record stress_readings =
  sz_compat :: "(rat \<times> rat) list"
  sz_plan :: "(rat \<times> rat) list"
  sz_parallel :: "(rat \<times> rat) list"
  sz_mem_before :: rat
  sz_mem_after :: rat

definition stress_size :: "(string list \<Rightarrow> string list) \<Rightarrow> string \<Rightarrow> timestamp \<Rightarrow> stress_readings \<Rightarrow> nat \<Rightarrow> ((string, int) dict, stress_run) act" where
  "stress_size set_order uuid now z vm_count =
    (let vms = stress_vms set_order vm_count in
     bindE (evaluation_rounds vms (sz_compat z) []) (\<lambda>compat.
     bindE (plan_rounds uuid now vms (sz_plan z) []) (\<lambda>plan.
     bindE (parallel_rounds vms (sz_parallel z)) (\<lambda>parallel.
     retE \<lparr>sx_vm_count = vm_count,
       sx_results = [(''Compatibility Check'', compat), (''Plan Generation'', plan), (''Parallel (concurrency=10)'', parallel)],
       sx_mem_before_mb = sz_mem_before z, sx_mem_after_mb = sz_mem_after z,
       sx_mem_delta_mb = fsub (sz_mem_after z) (sz_mem_before z), sx_timeout_count = 0, sx_error_count = 0\<rparr>))))"

text \<open>The loop of main. The memory stability is measured for the first size only; without a size the variable is not bound
  when the report is made.\<close>

fun stress_loop :: "(string list \<Rightarrow> string list) \<Rightarrow> string \<Rightarrow> timestamp \<Rightarrow> (nat \<Rightarrow> stress_readings) \<Rightarrow> rat list \<Rightarrow> nat list \<Rightarrow>
    stress_run list \<Rightarrow> memory_stability option \<Rightarrow> ((string, int) dict, stress_run list \<times> memory_stability option) act" where
  "stress_loop set_order uuid now z rss [] runs stability = retE (runs, stability)"
| "stress_loop set_order uuid now z rss (vm_count # sizes) runs stability =
    bindE (stress_size set_order uuid now (z vm_count) vm_count) (\<lambda>run.
    bindE (case stability of Some s \<Rightarrow> retE s | None \<Rightarrow> measure_memory_stability (stress_vms set_order vm_count) rss) (\<lambda>s.
    stress_loop set_order uuid now z rss sizes (runs @ [run]) (Some s)))"

definition stress_main :: "(string list \<Rightarrow> string list) \<Rightarrow> string \<Rightarrow> timestamp \<Rightarrow> (nat \<Rightarrow> stress_readings) \<Rightarrow> rat list \<Rightarrow> (nat \<Rightarrow> rat) \<Rightarrow> bool \<Rightarrow>
    ((string, int) dict, stress_run list \<times> memory_stability \<times> timeout_behavior) act" where
  "stress_main set_order uuid now z rss elapsed quick =
    (let sizes = (if quick then [100, 1000] else [100, 500, 1000]) in
     bindE (stress_loop set_order uuid now z rss sizes [] None) (\<lambda>(runs, stability).
     bindE (measure_timeout_behavior (stress_vms set_order (sum_list sizes)) (fl (1 / 1000)) elapsed) (\<lambda>timeouts.
     case stability of None \<Rightarrow> raiseE (PyException ''UnboundLocalError'' ''mem_stability'') | Some s \<Rightarrow> retE (runs, s, timeouts))))"

section \<open>Which machines are compatible\<close>

definition set_order_ok :: "(string list \<Rightarrow> string list) \<Rightarrow> bool" where
  "set_order_ok set_order \<longleftrightarrow> (\<forall>xs. distinct (set_order xs) \<and> set (set_order xs) = set xs)"

lemma cyclic_all: "list_all (\<lambda>(k, x). P k x) (enumerate 0 xs) \<Longrightarrow> xs \<noteq> [] \<Longrightarrow> P (i mod length xs) (cyclic xs i)"
  by (auto simp: list_all_length cyclic_def nth_enumerate_eq)

text \<open>The positions of the lists that count against a machine.\<close>

lemma power_positions: "list_all (\<lambda>(k, x). py_lower x = ''suspended'' \<longleftrightarrow> k mod 3 = 2) (enumerate 0 MOCK_POWER_STATES)"
  by code_simp

lemma os_positions:
  "list_all (\<lambda>(k, x). list_ex (\<lambda>bad. py_in bad (py_lower x)) UNSUPPORTED_OS_PREFIXES \<longleftrightarrow> k = 17 \<or> k = 19) (enumerate 0 MOCK_OS_TEMPLATES)"
  by code_simp

lemma os_names: "list_all (\<lambda>(k, x). x \<noteq> []) (enumerate 0 MOCK_OS_TEMPLATES)"
  by code_simp

lemma ide_positions:
  "list_all (\<lambda>(k, cs). list_ex (\<lambda>c. py_lower c = ''ide'') cs \<longleftrightarrow> k = 1 \<or> k = 6) (enumerate 0 MOCK_DISK_CONTROLLER_SETS)"
  by code_simp

lemma list_lengths: "length MOCK_POWER_STATES = 9" "length MOCK_OS_TEMPLATES = 20" "length MOCK_DISK_CONTROLLER_SETS = 8"
  by code_simp+

lemma mock_nonempty: "MOCK_POWER_STATES \<noteq> []" "MOCK_OS_TEMPLATES \<noteq> []" "MOCK_DISK_CONTROLLER_SETS \<noteq> []"
  using list_lengths by auto

text \<open>No unsupported name consists of the letters of Unknown OS and digits only.\<close>

lemma unknown_os_supported:
  assumes "bad \<in> set UNSUPPORTED_OS_PREFIXES"
  shows "\<not> sublist bad (py_lower (''Unknown OS '' @ str_int (int i)))"
proof
  let ?digits = "''0123456789''"
  have "list_all (\<lambda>d. lower_char (digit_char d) \<in> set ?digits) [0..<10]" by code_simp
  then have digit: "lower_char (digit_char d) \<in> set ?digits" if "d < 10" for d using that by (simp add: list_all_iff)
  have lower: "py_lower ''Unknown OS '' = ''unknown os ''" by code_simp
  have split: "py_lower (''Unknown OS '' @ str_int (int i)) = py_lower ''Unknown OS '' @ map lower_char (nat_digits i)"
    by (simp add: py_lower_def str_int_def)
  assume "sublist bad (py_lower (''Unknown OS '' @ str_int (int i)))"
  then have "set bad \<subseteq> set (py_lower (''Unknown OS '' @ str_int (int i)))" by (rule set_mono_sublist)
  also have "\<dots> \<subseteq> set (''unknown os '' @ ?digits)"
    using nat_digits_chars [of _ i] digit unfolding split lower by fastforce
  finally have "set bad \<subseteq> set (''unknown os '' @ ?digits)" .
  moreover have "list_all (\<lambda>bad. \<not> list_all (\<lambda>c. c \<in> set (''unknown os '' @ ?digits)) bad) UNSUPPORTED_OS_PREFIXES" by code_simp
  ultimately show False using assms unfolding list_all_iff by blast
qed

lemma stress_suspended: "suspended (stress_vm so i) \<longleftrightarrow> i mod 3 = 2"
proof -
  have "py_lower (cyclic MOCK_POWER_STATES i) = ''suspended'' \<longleftrightarrow> i mod 9 mod 3 = 2"
    using cyclic_all [OF power_positions mock_nonempty(1), of i] by (simp add: list_lengths)
  then show ?thesis by (simp add: suspended_def stress_vm_def Let_def mod_mod_cancel)
qed

lemma stress_os_unsupported: "os_unsupported (stress_vm so i) \<longleftrightarrow> i mod 23 \<noteq> 0 \<and> (i mod 20 = 17 \<or> i mod 20 = 19)"
proof (cases "i mod 23 = 0")
  case True
  then show ?thesis using unknown_os_supported [of _ i] by (auto simp: os_unsupported_def stress_vm_def stress_os_def Let_def)
next
  case False
  then show ?thesis
    using cyclic_all [OF os_positions mock_nonempty(2), of i]
    by (auto simp: os_unsupported_def stress_vm_def stress_os_def Let_def list_lengths list_ex_iff py_in_sublist)
qed

lemma stress_os_known: "\<not> os_missing (stress_vm so i)"
  using cyclic_all [OF os_names mock_nonempty(2), of i] by (simp add: os_missing_def stress_vm_def stress_os_def Let_def)

lemma stress_has_ide:
  assumes "set_order_ok so"
  shows "has_ide (stress_vm so i) \<longleftrightarrow> i mod 8 = 1 \<or> i mod 8 = 6"
proof -
  have "list_ex (\<lambda>c. py_lower c = ''ide'') (cyclic MOCK_DISK_CONTROLLER_SETS i) \<longleftrightarrow> i mod 8 = 1 \<or> i mod 8 = 6"
    using cyclic_all [OF ide_positions mock_nonempty(3), of i] by (simp add: list_lengths)
  then show ?thesis using assms by (auto simp: has_ide_def stress_vm_def set_order_ok_def list_ex_iff Let_def)
qed

lemma stress_sizes:
  "no_cpu (stress_vm so i) \<longleftrightarrow> i mod 13 = 0" "no_memory (stress_vm so i) \<longleftrightarrow> i mod 17 = 0"
  "no_disks (stress_vm so i) \<longleftrightarrow> i mod 19 = 0" "secure_boot (stress_vm so i) \<longleftrightarrow> i mod 11 = 0"
  by (simp_all add: no_cpu_def no_memory_def no_disks_def secure_boot_def stress_vm_def Let_def)

definition stress_compatible :: "nat \<Rightarrow> bool" where
  "stress_compatible i \<longleftrightarrow> i mod 3 \<noteq> 2 \<and> i mod 13 \<noteq> 0 \<and> i mod 17 \<noteq> 0 \<and> (i mod 23 = 0 \<or> i mod 20 \<notin> {17, 19}) \<and>
     \<not> (i mod 19 = 0 \<and> i mod 11 = 0 \<and> (i mod 8 = 1 \<or> i mod 8 = 6))"

lemma stress_verdict:
  assumes "set_order_ok so"
  shows "\<not> blocked (stress_vm so i) \<and> high_risks (stress_vm so i) \<le> 2 \<longleftrightarrow> stress_compatible i"
proof -
  have "high_risks (stress_vm so i) \<le> 2 \<longleftrightarrow> \<not> (i mod 19 = 0 \<and> i mod 11 = 0 \<and> (i mod 8 = 1 \<or> i mod 8 = 6))"
    by (simp add: high_risks_def stress_os_known stress_sizes stress_has_ide [OF assms])
  then show ?thesis
    unfolding blocked_def stress_suspended stress_os_unsupported stress_sizes stress_compatible_def insert_iff empty_iff by argo
qed

text \<open>The assessment of the stress inventory is known in advance: the i-th machine is judged compatible exactly when the
  remainders of i say so, for every number of machines and in every state of the metrics. The comment of the script
  counts macOS among the unsupported systems, but position 18 of the templates is not one of those that block.\<close>

theorem stress_verdicts:
  assumes "set_order_ok so"
  shows "\<exists>rs m'. mapE evaluate (stress_vms so n) m = (Inr rs, m') \<and> map sc_compatible rs = map stress_compatible [0..<n]"
  using evaluate_all [of "stress_vms so n" m] by (simp add: stress_vms_def o_def stress_verdict [OF assms])

text \<open>The same for the inventory of the assessment benchmark, where no machine has three high risks.\<close>

lemma bench_os_positions:
  "list_all (\<lambda>(k, t). (case ot_guest_os t of None \<Rightarrow> False | Some os \<Rightarrow> list_ex (\<lambda>bad. py_in bad (py_lower os)) UNSUPPORTED_OS_PREFIXES) = (k = 14) \<and>
     (ot_guest_os t = None \<or> ot_guest_os t = Some []) = (k = 19) \<and> ot_secure_boot t = (k = 15 \<or> k = 16)) (enumerate 0 BENCH_OS_TEMPLATES)"
  by code_simp

lemma bench_power_positions:
  "list_all (\<lambda>(k, x). py_lower x = ''suspended'' \<longleftrightarrow> k = 2) (enumerate 0 [''poweredOn'', ''poweredOff'', ''suspended''])"
  by code_simp

lemma bench_memory_positions:
  "list_all (\<lambda>(k, x). (x = 512) = (k = 0) \<and> 0 < x) (enumerate 0 [512, 1024, 2048, 4096, 8192, 16384, 32768, 65536 :: int])"
  by code_simp

lemma bench_template:
  fixes i :: nat
  defines "t \<equiv> cyclic BENCH_OS_TEMPLATES i"
  shows "(\<exists>os. ot_guest_os t = Some os \<and> list_ex (\<lambda>bad. py_in bad (py_lower os)) UNSUPPORTED_OS_PREFIXES) \<longleftrightarrow> i mod 20 = 14"
    "ot_guest_os t = None \<or> ot_guest_os t = Some [] \<longleftrightarrow> i mod 20 = 19" "ot_secure_boot t \<longleftrightarrow> i mod 20 = 15 \<or> i mod 20 = 16"
proof -
  have "length BENCH_OS_TEMPLATES = 20" by code_simp
  moreover from this have "BENCH_OS_TEMPLATES \<noteq> []" by auto
  ultimately have t: "(case ot_guest_os t of None \<Rightarrow> False | Some os \<Rightarrow> list_ex (\<lambda>bad. py_in bad (py_lower os)) UNSUPPORTED_OS_PREFIXES) = (i mod 20 = 14) \<and>
     (ot_guest_os t = None \<or> ot_guest_os t = Some []) = (i mod 20 = 19) \<and> ot_secure_boot t = (i mod 20 = 15 \<or> i mod 20 = 16)"
    using cyclic_all [OF bench_os_positions, of i] by (simp add: t_def)
  then show "(\<exists>os. ot_guest_os t = Some os \<and> list_ex (\<lambda>bad. py_in bad (py_lower os)) UNSUPPORTED_OS_PREFIXES) \<longleftrightarrow> i mod 20 = 14"
    by (cases "ot_guest_os t") auto
  show "ot_guest_os t = None \<or> ot_guest_os t = Some [] \<longleftrightarrow> i mod 20 = 19" "ot_secure_boot t \<longleftrightarrow> i mod 20 = 15 \<or> i mod 20 = 16"
    using t by blast+
qed

lemma bench_risks:
  "os_missing (bench_vm so i) \<longleftrightarrow> i mod 20 = 19" "secure_boot (bench_vm so i) \<longleftrightarrow> i mod 20 = 15 \<or> i mod 20 = 16" "\<not> no_disks (bench_vm so i)"
  "os_unsupported (bench_vm so i) \<longleftrightarrow> i mod 20 = 14" "suspended (bench_vm so i) \<longleftrightarrow> i mod 3 = 2"
  "no_cpu (bench_vm so i) \<longleftrightarrow> i mod 16 = 0 \<and> i mod 7 = 0" "no_memory (bench_vm so i) \<longleftrightarrow> i mod 8 = 0 \<and> i mod 11 = 0"
proof -
  show "os_missing (bench_vm so i) \<longleftrightarrow> i mod 20 = 19" using bench_template(2) [of i] by (simp add: os_missing_def bench_vm_def Let_def)
  show "secure_boot (bench_vm so i) \<longleftrightarrow> i mod 20 = 15 \<or> i mod 20 = 16" using bench_template(3) [of i] by (simp add: secure_boot_def bench_vm_def Let_def)
  show "\<not> no_disks (bench_vm so i)" by (simp add: no_disks_def bench_vm_def Let_def)
  show "os_unsupported (bench_vm so i) \<longleftrightarrow> i mod 20 = 14"
    using bench_template(1) [of i] by (simp add: os_unsupported_def bench_vm_def Let_def list_ex_iff py_in_sublist)
  show "suspended (bench_vm so i) \<longleftrightarrow> i mod 3 = 2"
    using cyclic_all [OF bench_power_positions, of i] by (simp add: suspended_def bench_vm_def Let_def)
  show "no_cpu (bench_vm so i) \<longleftrightarrow> i mod 16 = 0 \<and> i mod 7 = 0" by (simp add: no_cpu_def bench_vm_def Let_def)
  show "no_memory (bench_vm so i) \<longleftrightarrow> i mod 8 = 0 \<and> i mod 11 = 0"
    using cyclic_all [OF bench_memory_positions, of i] by (auto simp: no_memory_def bench_vm_def cyclic_def Let_def)
qed

lemma bench_verdict:
  "\<not> blocked (bench_vm so i) \<and> high_risks (bench_vm so i) \<le> 2 \<longleftrightarrow>
    i mod 3 \<noteq> 2 \<and> i mod 20 \<noteq> 14 \<and> \<not> (i mod 16 = 0 \<and> i mod 7 = 0) \<and> \<not> (i mod 8 = 0 \<and> i mod 11 = 0)"
proof -
  have "high_risks (bench_vm so i) \<le> 2" by (simp add: high_risks_def bench_risks)
  then show ?thesis unfolding blocked_def bench_risks by argo
qed

text \<open>The verdicts on the inventory of the assessment benchmark, in the same way.\<close>

theorem bench_verdicts:
  "\<exists>rs m'. mapE evaluate (map (bench_vm so) [0..<n]) m = (Inr rs, m') \<and>
    map sc_compatible rs = map (\<lambda>i. i mod 3 \<noteq> 2 \<and> i mod 20 \<noteq> 14 \<and> \<not> (i mod 16 = 0 \<and> i mod 7 = 0) \<and> \<not> (i mod 8 = 0 \<and> i mod 11 = 0)) [0..<n]"
  using evaluate_all [of "map (bench_vm so) [0..<n]" m] by (simp add: o_def bench_verdict)

section \<open>The stress benchmark runs through\<close>

lemma evaluation_rounds_result: "\<exists>m'. evaluation_rounds vms ts ds m = (Inr (ds @ map elapsed_ms ts), m')"
proof (induction ts arbitrary: ds m)
  case (Cons t ts)
  obtain rs m1 where "mapE evaluate vms m = (Inr rs, m1)" using evaluate_all by blast
  then show ?case using Cons.IH [of "ds @ [elapsed_ms t]" m1] by (simp add: thenE_def)
qed (simp add: retE_def)

lemma evaluate_returns: "returns (evaluate vm)"
  using evaluate_verdict_conditions [of vm] by (auto simp: fails_with_def raises_only_def) (metis sum.distinct(1))

lemma evaluated_pairs: "\<exists>(rs :: assessed list) m'. mapE (\<lambda>vm. bindE (evaluate vm) (\<lambda>r. retE (vm, r, None))) vms m = (Inr rs, m')"
  by (rule returnsD) (intro fails_intros evaluate_returns)

lemma plan_rounds_result: "\<exists>m'. plan_rounds uuid now vms ts ds m = (Inr (ds @ map elapsed_ms ts), m')"
proof (induction ts arbitrary: ds m)
  case (Cons t ts)
  obtain rs :: "assessed list" and m1 where rs: "mapE (\<lambda>vm. bindE (evaluate vm) (\<lambda>r. retE (vm, r, None))) vms m = (Inr rs, m1)" using evaluated_pairs by blast
  obtain ps where "plan_entries [] rs = Inr ps" using entries_without_overrides by blast
  then obtain plan where "generate_plan uuid now rs None = Inr plan" by (simp add: generate_plan_def Let_def)
  then show ?case using Cons.IH [of "ds @ [elapsed_ms t]" m1] rs by (simp add: bindE_def outcomeE_def)
qed (simp add: retE_def)

lemma memory_readings_result: "\<exists>m'. memory_readings vms rss m = (Inr rss, m')"
proof (induction rss arbitrary: m)
  case (Cons r rss)
  obtain rs m1 where "mapE evaluate vms m = (Inr rs, m1)" using evaluate_all by blast
  then show ?case using Cons.IH [of m1] by (auto simp: thenE_def bindE_def retE_def)
qed (simp add: retE_def)

lemma timed_evaluations: "\<exists>m'. mapE (timed_evaluation elapsed) nvs m = (Inr (map (\<lambda>nv. elapsed (fst nv)) nvs), m')"
proof (induction nvs arbitrary: m)
  case (Cons nv nvs)
  obtain r m1 where "evaluate (snd nv) m = (Inr r, m1)" using evaluate_verdict_conditions [of "snd nv" m] by (metis fst_conv surj_pair)
  then show ?case using Cons.IH [of m1] by (auto simp: timed_evaluation_def thenE_def bindE_def retE_def)
qed (simp add: retE_def)

definition run_of :: "(nat \<Rightarrow> stress_readings) \<Rightarrow> nat \<Rightarrow> stress_run" where
  "run_of z n = \<lparr>sx_vm_count = n, sx_results = [(''Compatibility Check'', map elapsed_ms (sz_compat (z n))),
     (''Plan Generation'', map elapsed_ms (sz_plan (z n))), (''Parallel (concurrency=10)'', map elapsed_ms (sz_parallel (z n)))],
     sx_mem_before_mb = sz_mem_before (z n), sx_mem_after_mb = sz_mem_after (z n),
     sx_mem_delta_mb = fsub (sz_mem_after (z n)) (sz_mem_before (z n)), sx_timeout_count = 0, sx_error_count = 0\<rparr>"

lemma stress_size_result: "\<exists>m'. stress_size so uuid now (z n) n m = (Inr (run_of z n), m')"
proof -
  let ?vms = "stress_vms so n"
  obtain m1 where 1: "evaluation_rounds ?vms (sz_compat (z n)) [] m = (Inr (map elapsed_ms (sz_compat (z n))), m1)"
    using evaluation_rounds_result [of ?vms _ "[]"] by fastforce
  obtain m2 where 2: "plan_rounds uuid now ?vms (sz_plan (z n)) [] m1 = (Inr (map elapsed_ms (sz_plan (z n))), m2)"
    using plan_rounds_result [of uuid now ?vms _ "[]"] by fastforce
  obtain m3 where 3: "evaluation_rounds ?vms (sz_parallel (z n)) [] m2 = (Inr (map elapsed_ms (sz_parallel (z n))), m3)"
    using evaluation_rounds_result [of ?vms _ "[]"] by fastforce
  show ?thesis by (simp add: stress_size_def parallel_rounds_def 1 2 3 bindE_def retE_def run_of_def Let_def)
qed

lemma stress_loop_rest: "\<exists>m'. stress_loop so uuid now z rss sizes runs (Some s) m = (Inr (runs @ map (run_of z) sizes, Some s), m')"
proof (induction sizes arbitrary: runs m)
  case (Cons n sizes)
  obtain m1 where "stress_size so uuid now (z n) n m = (Inr (run_of z n), m1)" using stress_size_result by blast
  then show ?case using Cons.IH [of "runs @ [run_of z n]" m1] by (simp add: bindE_def retE_def)
qed (simp add: retE_def)

text \<open>The stress benchmark returns, whatever the clocks show, as soon as the memory is read at least once: one run per size with the
  durations of its three benchmarks, the memory report of the readings of the first size, which is the smallest although the
  comment says the largest, and a time-out report over as many machines as the sizes have together.\<close>

theorem stress_benchmark_outcome:
  assumes "rss \<noteq> []"
  shows "\<exists>runs s t m'. stress_main so uuid now z rss elapsed quick m = (Inr (runs, s, t), m') \<and>
    runs = map (run_of z) (if quick then [100, 1000] else [100, 500, 1000]) \<and> memory_report rss = Inr s \<and>
    tb_completed t = (if quick then 1100 else 1600)"
proof -
  obtain s where s: "memory_report rss = Inr s" using assms by (simp add: memory_report_def Let_def)
  let ?rest = "if quick then [1000] else [500, 1000]"
  have sizes: "(if quick then [100, 1000] else [100, 500, 1000]) = 100 # ?rest" by simp
  obtain m1 where 1: "stress_size so uuid now (z 100) 100 m = (Inr (run_of z 100), m1)" using stress_size_result by blast
  obtain m2 where 2: "memory_readings (stress_vms so 100) rss m1 = (Inr rss, m2)" using memory_readings_result by blast
  obtain m3 where 3: "stress_loop so uuid now z rss ?rest [run_of z 100] (Some s) m2 = (Inr (run_of z 100 # map (run_of z) ?rest, Some s), m3)"
    using stress_loop_rest [of so uuid now z rss ?rest "[run_of z 100]" s m2] by auto
  let ?all = "stress_vms so (sum_list (100 # ?rest))"
  obtain m4 where 4: "mapE (timed_evaluation elapsed) (enumerate 0 ?all) m3 =
      (Inr (map (\<lambda>nv. elapsed (fst nv)) (enumerate 0 ?all)), m4)"
    using timed_evaluations by blast
  have "stress_main so uuid now z rss elapsed quick m =
      (Inr (run_of z 100 # map (run_of z) ?rest, s, timeout_report (fl (1 / 1000)) (map (\<lambda>nv. elapsed (fst nv)) (enumerate 0 ?all))), m4)"
    unfolding stress_main_def sizes Let_def
    by (simp add: 1 2 3 4 s measure_memory_stability_def measure_timeout_behavior_def bindE_def outcomeE_def retE_def del: sum_list.Cons)
  moreover have "length ?all = (if quick then 1100 else 1600)" by (simp add: stress_vms_def)
  ultimately show ?thesis using s by (simp add: timeout_report_def Let_def)
qed

theorem stress_verdicts_witness:
  "\<exists>rs m'. mapE evaluate (stress_vms remdups 3) [] = (Inr rs, m') \<and> map sc_compatible rs = [False, True, False]"
  using stress_verdicts [of remdups 3 "[]"] by (simp add: set_order_ok_def upt_rec stress_compatible_def)

end
