(* ===== verification/Engine_Suites.thy ===== *)
theory Engine_Suites
  imports Vm_Engine
begin

text \<open>
  scripts/negative_case_vm_engine.py: the suites that check the state transitions, the mapping of operations, the
  extraction of identifiers and the metrics of the provisioning engine without a cloud. The metrics are those of the
  state of the engine.
\<close>

section \<open>Cases and suites\<close>

record suite_case =
  tc_name :: string
  tc_passed :: bool
  tc_detail :: "(string, pyval) dict"
  tc_error :: "string option"

record suite_result =
  sr_suites :: "(string, suite_case list) dict"
  sr_all_passed :: bool

definition suite_passed_count :: "suite_result \<Rightarrow> nat" where
  "suite_passed_count r = length (filter tc_passed (concat (map snd (sr_suites r))))"

definition suite_total_count :: "suite_result \<Rightarrow> nat" where
  "suite_total_count r = sum_list (map (length \<circ> snd) (sr_suites r))"

definition failed_case :: "string \<Rightarrow> string \<Rightarrow> suite_case" where
  "failed_case name error = \<lparr>tc_name = name, tc_passed = False, tc_detail = [], tc_error = Some error\<rparr>"

definition passed_case :: "string \<Rightarrow> (string, pyval) dict \<Rightarrow> suite_case" where
  "passed_case name detail = \<lparr>tc_name = name, tc_passed = True, tc_detail = detail, tc_error = None\<rparr>"

definition compared_case :: "string \<Rightarrow> bool \<Rightarrow> (string, pyval) dict \<Rightarrow> suite_case" where
  "compared_case name passed detail = \<lparr>tc_name = name, tc_passed = passed, tc_detail = detail, tc_error = None\<rparr>"

section \<open>State transitions\<close>

definition valid_pairs :: "(string \<times> string) list" where
  "valid_pairs =
    [(''SHUTOFF'', ''start''), (''STOPPED'', ''start''), (''SUSPENDED'', ''start''), (''ERROR'', ''start''), (''ACTIVE'', ''stop''),
     (''PAUSED'', ''stop''), (''ACTIVE'', ''reboot''), (''ACTIVE'', ''delete''), (''SHUTOFF'', ''delete''), (''STOPPED'', ''delete''),
     (''ERROR'', ''delete''), (''SUSPENDED'', ''delete'')]"

definition invalid_pairs :: "(string \<times> string) list" where
  "invalid_pairs =
    [(''ACTIVE'', ''start''), (''SHUTOFF'', ''stop''), (''SHUTOFF'', ''reboot''), (''STOPPED'', ''reboot''), (''PAUSED'', ''start''),
     (''PAUSED'', ''reboot''), (''BUILDING'', ''start''), (''BUILDING'', ''stop''), (''BUILDING'', ''reboot''), (''BUILDING'', ''delete'')]"

definition valid_case :: "string \<times> string \<Rightarrow> suite_case" where
  "valid_case = (\<lambda>(state, op). let name = ''valid_'' @ op @ ''_'' @ state in
     case validate_state state op of
       Inr _ \<Rightarrow> passed_case name [] | Inl e \<Rightarrow> failed_case name (''Expected pass but failed: '' @ exn_str e))"

definition invalid_case :: "string \<times> string \<Rightarrow> suite_case" where
  "invalid_case = (\<lambda>(state, op). let name = ''invalid_'' @ op @ ''_'' @ state in
     case validate_state state op of
       Inr _ \<Rightarrow> failed_case name ''Expected AppException(409) but passed''
     | Inl e \<Rightarrow> if py_in ''409'' (exn_str e) \<or> py_in ''invalid_state_transition'' (exn_str e) \<or> py_in ''Cannot'' (exn_str e)
         then passed_case name [(''error_code'', PStr ''invalid_state_transition'')]
         else failed_case name (''Wrong exception: '' @ exn_str e))"

text \<open>The table has lists of strings by its type, so the test of the types is always true.\<close>

definition transition_dict_case :: "string \<times> string list \<Rightarrow> suite_case" where
  "transition_dict_case = (\<lambda>(op, states). passed_case (''transition_dict_'' @ op) [(''allowed'', PList (map PStr states))])"

definition validate_state_transitions :: "suite_case list" where
  "validate_state_transitions = map valid_case valid_pairs @ map invalid_case invalid_pairs @ map transition_dict_case VALID_STATE_TRANSITIONS"

section \<open>Mapping of operations and extraction of identifiers\<close>

definition mapping_case :: "string \<times> string \<Rightarrow> suite_case" where
  "mapping_case = (\<lambda>(op, expected_sdk). let name = ''mapping_'' @ op in
     case operation_to_sdk op of
       Inr result \<Rightarrow> compared_case name (result = expected_sdk) [(''expected'', PStr expected_sdk), (''got'', PStr result)]
     | Inl e \<Rightarrow> failed_case name (exn_str e))"

definition mapping_invalid_case :: "string \<Rightarrow> suite_case" where
  "mapping_invalid_case op = (case operation_to_sdk op of
     Inr _ \<Rightarrow> failed_case ''mapping_invalid_op'' ''Expected AppException for invalid operation''
   | Inl e \<Rightarrow> if py_in ''invalid_operation'' (exn_str e) \<or> py_in ''Unsupported'' (exn_str e)
       then passed_case ''mapping_invalid_op'' [(''error'', PStr (exn_str e))]
       else failed_case ''mapping_invalid_op'' (''Wrong exception: '' @ exn_str e))"

definition validate_operation_mapping :: "suite_case list" where
  "validate_operation_mapping =
    map mapping_case [(''start'', ''start_server''), (''stop'', ''stop_server''), (''reboot'', ''reboot_server''), (''delete'', ''delete_server'')] @
    [mapping_invalid_case ''nonexistent'']"

definition got :: "string option \<Rightarrow> pyval" where
  "got r = (case r of None \<Rightarrow> PNone | Some s \<Rightarrow> PStr s)"

definition validate_extraction_helpers :: "(pyval \<Rightarrow> string) \<Rightarrow> suite_case list" where
  "validate_extraction_helpers repr =
    (let from_dict = extract_reference_id repr (PDict [(PStr ''id'', PStr ''abc-123'')]);
         from_object = extract_reference_id repr (PObj True [(''id'', PStr ''obj-456'')] None);
         from_none = extract_reference_id repr PNone;
         from_empty = extract_reference_id repr (PDict []);
         quoted = (\<lambda>s. [CHR 0x22] @ s @ [CHR 0x22])
     in [compared_case ''extract_id_from_dict'' (from_dict = Some ''abc-123'')
           [(''input'', PStr (''{'' @ quoted ''id'' @ '': '' @ quoted ''abc-123'' @ ''}'')), (''got'', got from_dict)],
         compared_case ''extract_id_from_object'' (from_object = Some ''obj-456'')
           [(''input'', PStr (''FakeRef(id='' @ [CHR 0x27] @ ''obj-456'' @ [CHR 0x27] @ '')'')), (''got'', got from_object)],
         compared_case ''extract_id_from_none'' (from_none = None) [(''got'', got from_none)],
         compared_case ''extract_id_from_empty'' (from_empty = None) [(''got'', got from_empty)]])"

section \<open>Metrics\<close>

text \<open>The cases named metric_registered pass without looking at the registry.\<close>

definition registered_case :: "string \<Rightarrow> suite_case" where
  "registered_case name = passed_case (''metric_registered_'' @ name) [(''registered'', PBool True)]"

definition metric_inc_failures :: "(('c, 'm) engine_world, suite_case) act" where
  "metric_inc_failures w =
    (let before = dict_get_default (ve_create_failures w) ''test_error'' 0;
         w' = w\<lparr>ve_create_failures := counter_add (ve_create_failures w) ''test_error'' 1\<rparr>;
         after = dict_get_default (ve_create_failures w') ''test_error'' 0
     in (Inr (compared_case ''metric_inc_failures'' (after = before + 1) [(''before'', PFloat (of_int before)), (''after'', PFloat (of_int after))]), w'))"

definition metric_inc_lifecycle :: "(('c, 'm) engine_world, suite_case) act" where
  "metric_inc_lifecycle w =
    (let key = (''start'', ''success''); before = dict_get_default (ve_lifecycle_operations w) key 0;
         w' = w\<lparr>ve_lifecycle_operations := counter_add (ve_lifecycle_operations w) key 1\<rparr>;
         after = dict_get_default (ve_lifecycle_operations w') key 0
     in (Inr (compared_case ''metric_inc_lifecycle'' (after = before + 1) [(''before'', PFloat (of_int before)), (''after'', PFloat (of_int after))]), w'))"

definition metric_observe_duration :: "(('c, 'm) engine_world, suite_case) act" where
  "metric_observe_duration w =
    (Inr (passed_case ''metric_observe_duration'' []), w\<lparr>ve_create_durations := ve_create_durations w @ [(''success'', 3 / 2)]\<rparr>)"

definition metric_gauge_active :: "(('c, 'm) engine_world, suite_case) act" where
  "metric_gauge_active w =
    (let w1 = w\<lparr>ve_active_count := 10\<rparr>; mid = ve_active_count w1;
         w2 = w1\<lparr>ve_active_count := ve_active_count w1 - 1\<rparr>; after = ve_active_count w2
     in (Inr (compared_case ''metric_gauge_active'' (mid = 10 \<and> after = 9) [(''set(10)'', PFloat (of_int mid)), (''after_dec'', PFloat (of_int after))]), w2))"

definition validate_metrics :: "(('c, 'm) engine_world, suite_case list) act" where
  "validate_metrics =
    bindE metric_inc_failures (\<lambda>a. bindE metric_inc_lifecycle (\<lambda>b. bindE metric_observe_duration (\<lambda>c. bindE metric_gauge_active (\<lambda>d.
    retE (map registered_case [''vmware_vm_create_duration_seconds'', ''vmware_vm_create_failures_total'',
            ''vmware_vm_lifecycle_operations_total'', ''vmware_vm_active_count''] @ [a, b, c, d])))))"

definition run_suites :: "(pyval \<Rightarrow> string) \<Rightarrow> (('c, 'm) engine_world, suite_result) act" where
  "run_suites repr =
    bindE validate_metrics (\<lambda>metrics.
    (let suites = [(''state_transitions'', validate_state_transitions), (''operation_mapping'', validate_operation_mapping),
                   (''extraction_helpers'', validate_extraction_helpers repr), (''metrics'', metrics)]
     in retE \<lparr>sr_suites = suites, sr_all_passed = list_all (\<lambda>cases. list_all tc_passed (snd cases)) suites\<rparr>))"

section \<open>The suites pass\<close>

lemma state_suite: "list_all tc_passed validate_state_transitions \<and> length validate_state_transitions = 26"
  by code_simp

lemma mapping_suite: "list_all tc_passed validate_operation_mapping \<and> length validate_operation_mapping = 5"
  by code_simp

lemma extraction_suite: "list_all tc_passed (validate_extraction_helpers repr) \<and> length (validate_extraction_helpers repr) = 4"
  by (simp add: validate_extraction_helpers_def extract_reference_id_def compared_case_def dict_get_default_def Let_def)

text \<open>Against the engine as it is, every one of the 43 cases passes, in every state of the metrics. The suites are not
  free of effects: they leave one failure, one operation and one duration more in the metrics and set the gauge of active
  machines to 9, whatever it was.\<close>

theorem suites_pass:
  "\<exists>r w'. run_suites repr w = (Inr r, w') \<and> sr_all_passed r \<and> suite_passed_count r = 43 \<and> suite_total_count r = 43 \<and>
     ve_active_count w' = 9 \<and>
     dict_get_default (ve_create_failures w') ''test_error'' 0 = dict_get_default (ve_create_failures w) ''test_error'' 0 + 1 \<and>
     dict_get_default (ve_lifecycle_operations w') (''start'', ''success'') 0 =
       dict_get_default (ve_lifecycle_operations w) (''start'', ''success'') 0 + 1 \<and>
     ve_create_durations w' = ve_create_durations w @ [(''success'', 3 / 2)] \<and> ve_audit w' = ve_audit w \<and> os_cloud w' = os_cloud w"
proof -
  have all: "list_all P xs \<Longrightarrow> filter P xs = xs" for P and xs :: "'x list" by (simp add: list_all_iff)
  obtain ms w' where m: "validate_metrics w = (Inr ms, w')" "list_all tc_passed ms" "length ms = 8" "ve_active_count w' = 9"
     "dict_get_default (ve_create_failures w') ''test_error'' 0 = dict_get_default (ve_create_failures w) ''test_error'' 0 + 1"
     "dict_get_default (ve_lifecycle_operations w') (''start'', ''success'') 0 =
       dict_get_default (ve_lifecycle_operations w) (''start'', ''success'') 0 + 1"
     "ve_create_durations w' = ve_create_durations w @ [(''success'', 3 / 2)]" "ve_audit w' = ve_audit w" "os_cloud w' = os_cloud w"
    by (simp add: validate_metrics_def metric_inc_failures_def metric_inc_lifecycle_def metric_observe_duration_def metric_gauge_active_def
        registered_case_def passed_case_def compared_case_def bindE_def retE_def Let_def counter_add_get)
  show ?thesis using m state_suite mapping_suite extraction_suite [of repr]
    by (simp add: run_suites_def bindE_def retE_def Let_def suite_passed_count_def suite_total_count_def all)
qed

end
