(* ===== verification/Engine_Validation.thy ===== *)
theory Engine_Validation
  imports Vm_Engine
begin

text \<open>
  scripts/validate_vm_engine.py: the validation of the provisioning engine, as a dry run and against a cloud
  (discover resources, create a machine, reboot, stop, start and delete it, verify that it is gone).

  The functions run on the state of the engine. The states of a machine are observed by a task that runs
  beside an operation. poll_state_trace is that task on its own; what the task has observed when the operation
  awaits it is the parameter se_trace, and se_trace_done tells whether it had already ended. Wall-clock times are left out of
  the records; durations are differences of the monotonic clock.
\<close>

section \<open>Records\<close>

record state_trace_entry =
  st_state :: string
  st_elapsed_since_start :: rat
  st_detail :: "(string, pyval) dict"

record operation_timing =
  ot_operation :: string
  ot_passed :: bool
  ot_total_duration_s :: rat
  ot_api_latency_s :: rat
  ot_state_convergence_s :: rat
  ot_initial_state :: string
  ot_final_state :: string
  ot_state_trace :: "state_trace_entry list"
  ot_error :: "string option"
  ot_detail :: "(string, pyval) dict"

record validation_step =
  vs_name :: string
  vs_passed :: bool
  vs_duration_seconds :: rat
  vs_detail :: "(string, pyval) dict"
  vs_error :: "string option"

record lifecycle_timing =
  lt_vm_name :: string
  lt_server_id :: string
  lt_flavor_id :: pyval
  lt_image_id :: pyval
  lt_network_id :: pyval
  lt_poll_interval_s :: rat
  lt_all_passed :: bool
  lt_operations :: "operation_timing list"
  lt_full_state_trace :: "state_trace_entry list"
  lt_failure_observations :: "(string, pyval) dict list"

record validation_result =
  vx_steps :: "validation_step list"
  vx_all_passed :: bool
  vx_server_cleaned_up :: bool
  vx_engine_ready :: bool
  vx_lifecycle_timing :: "lifecycle_timing option"

definition passed_count :: "validation_result \<Rightarrow> nat" where
  "passed_count r = length (filter vs_passed (vx_steps r))"

definition total_count :: "validation_result \<Rightarrow> nat" where
  "total_count r = length (vx_steps r)"

record script_args =
  sa_flavor :: "string option"
  sa_image :: "string option"
  sa_network :: "string option"
  sa_vm_name :: "string option"
  sa_keypair :: "string option"
  sa_security_group :: "string option"
  sa_az :: "string option"
  sa_dry_run :: bool
  sa_poll_interval :: rat

record 'c script_env =
  se_engine :: "'c engine_env"
  se_time :: "'c \<Rightarrow> int"
  se_trace :: "string \<Rightarrow> rat \<Rightarrow> rat \<Rightarrow> 'c \<Rightarrow> state_trace_entry list \<times> 'c"
  se_trace_done :: "'c \<Rightarrow> bool"

text \<open>VMCreateRequest(...) of schemas/openstack/vm_lifecycle.py\<close>

definition new_create_request :: "'c os_sdk \<Rightarrow> string \<Rightarrow> pyval \<Rightarrow> pyval \<Rightarrow> pyval \<Rightarrow> string option \<Rightarrow> string list option \<Rightarrow>
    string option \<Rightarrow> exn + vm_create_request" where
  "new_create_request sdk name flavor_id image_id network_id keypair security_groups az =
    (if code_points name < 1 \<or> 255 < code_points name then Inl (PyException ''ValidationError'' ''name'')
     else checkS (req_str sdk flavor_id) (\<lambda>f. checkS (req_str sdk image_id) (\<lambda>i. checkS (req_str sdk network_id) (\<lambda>n.
       Inr \<lparr>vc_name = name, vc_flavor_id = f, vc_image_id = i, vc_network_ids = [n], vc_keypair = keypair,
            vc_security_groups = security_groups, vc_availability_zone = az, vc_metadata = []\<rparr>))))"

text \<open>\<^verbatim>\<open>[x] if x else None\<close> and \<^verbatim>\<open>x or None\<close>\<close>

definition singleton_or_none :: "string option \<Rightarrow> string list option" where
  "singleton_or_none s = (if str_truthy s then Some [the s] else None)"

definition or_none :: "string option \<Rightarrow> string option" where
  "or_none s = (if str_truthy s then s else None)"

section \<open>The dry run\<close>

definition validate_state_dry :: "string \<Rightarrow> string \<Rightarrow> bool \<Rightarrow> exn + unit" where
  "validate_state_dry state operation expect_pass =
    (let call = [CHR 0x27] @ state @ [CHR 0x27] @ '', '' @ [CHR 0x27] @ operation @ [CHR 0x27];
         attempt = (case validate_state state operation of
             Inl e \<Rightarrow> Inl e
           | Inr _ \<Rightarrow> if \<not> expect_pass
               then Inl (PyException ''AssertionError'' (''Expected _validate_state('' @ call @ '') to fail but it passed''))
               else Inr ())
     in case attempt of
       Inl exc \<Rightarrow> if expect_pass
         then Inl (PyException ''AssertionError'' (''Expected _validate_state('' @ call @ '') to pass but it failed: '' @ exn_str exc))
         else Inr ()
     | Inr _ \<Rightarrow> Inr ())"

definition dry_valid_cases :: "(string \<times> string \<times> bool) list" where
  "dry_valid_cases =
    [(''SHUTOFF'', ''start'', True), (''STOPPED'', ''start'', True), (''ACTIVE'', ''stop'', True), (''ACTIVE'', ''reboot'', True),
     (''ACTIVE'', ''delete'', True), (''SHUTOFF'', ''delete'', True), (''ERROR'', ''delete'', True)]"

definition dry_invalid_cases :: "(string \<times> string \<times> bool) list" where
  "dry_invalid_cases =
    [(''ACTIVE'', ''start'', False), (''SHUTOFF'', ''stop'', False), (''SHUTOFF'', ''reboot'', False), (''STOPPED'', ''reboot'', False)]"

definition opt_pystr :: "string option \<Rightarrow> pyval" where
  "opt_pystr s = (case s of None \<Rightarrow> PNone | Some t \<Rightarrow> PStr t)"

text \<open>A step whose body returns its detail or raises, taking the given time.\<close>

definition dry_step :: "string \<Rightarrow> rat \<Rightarrow> exn + (string, pyval) dict \<Rightarrow> validation_step" where
  "dry_step name duration body = (case body of
     Inr detail \<Rightarrow> \<lparr>vs_name = name, vs_passed = True, vs_duration_seconds = duration, vs_detail = detail, vs_error = None\<rparr>
   | Inl exc \<Rightarrow> \<lparr>vs_name = name, vs_passed = False, vs_duration_seconds = duration, vs_detail = [], vs_error = Some (exn_str exc)\<rparr>)"

definition construction_detail :: "bool \<Rightarrow> (string, pyval) dict" where
  "construction_detail engine_ready =
    [(''openstack_configured'', PBool engine_ready), (''factory_created'', PBool True),
     (''note'', PStr (if engine_ready then ''OpenStack is configured '' @ em_dash @ '' engine can connect to live API''
        else ''OpenStack not configured '' @ em_dash @ '' engine will fail on real calls (expected in dry-run)''))]"

definition dry_request :: "'c os_sdk \<Rightarrow> script_args \<Rightarrow> exn + (string, pyval) dict" where
  "dry_request sdk args =
    checkS (new_create_request sdk (str_or (sa_vm_name args) ''dry-run-test-vm'') (PStr (str_or (sa_flavor args) ''m1.tiny''))
       (PStr (str_or (sa_image args) ''cirros-0.6.2'')) (PStr (str_or (sa_network args) ''net-dry-run'')) (sa_keypair args)
       (singleton_or_none (sa_security_group args)) (sa_az args))
    (\<lambda>req. Inr [(''name'', PStr (vc_name req)), (''flavor_id'', PStr (vc_flavor_id req)), (''image_id'', PStr (vc_image_id req)),
       (''network_ids'', PList (map PStr (vc_network_ids req))), (''keypair'', opt_pystr (vc_keypair req)),
       (''security_groups'', case vc_security_groups req of None \<Rightarrow> PNone | Some sgs \<Rightarrow> PList (map PStr sgs)),
       (''availability_zone'', opt_pystr (vc_availability_zone req)),
       (''metadata'', PDict (map (\<lambda>(k, v). (PStr k, PStr v)) (vc_metadata req)))])"

definition dry_transitions :: "exn + (string, pyval) dict" where
  "dry_transitions =
    checkS (mapS (\<lambda>(state, operation, should_pass). validate_state_dry state operation should_pass) dry_valid_cases) (\<lambda>_.
    checkS (mapS (\<lambda>(state, operation, should_fail). validate_state_dry state operation should_fail) dry_invalid_cases) (\<lambda>_.
    Inr [(''valid_transitions_tested'', PInt (int (length dry_valid_cases))),
         (''invalid_transitions_tested'', PInt (int (length dry_invalid_cases))),
         (''all_valid'', PStr ''ACTIVE/SHUTOFF/STOPPED/SUSPENDED/ERROR -> start/stop/reboot/delete'')]))"

definition cleanup_plan :: "script_args \<Rightarrow> (string, pyval) dict" where
  "cleanup_plan args =
    [(''vm_name_prefix'', PStr (str_or (sa_vm_name args) ''vmachine-test-'')), (''delete_on_failure'', PBool True),
     (''safety_net_finally'', PBool True), (''only_delete_own_vms'', PBool True), (''timeout_per_operation_s'', PInt 120),
     (''create_timeout_s'', PInt 300)]"

text \<open>The durations of the four steps are an argument.\<close>

definition validate_dry_run :: "os_settings \<Rightarrow> 'c os_sdk \<Rightarrow> (nat \<Rightarrow> rat) \<Rightarrow> script_args \<Rightarrow> validation_result" where
  "validate_dry_run settings sdk durations args =
    (let steps =
       [dry_step ''engine_construction'' (durations 0) (Inr (construction_detail (ost_ready settings))),
        dry_step ''request_payload_validation'' (durations 1) (dry_request sdk args),
        dry_step ''state_transition_validation'' (durations 2) dry_transitions,
        dry_step ''cleanup_plan_validation'' (durations 3) (Inr (cleanup_plan args))]
     in \<lparr>vx_steps = steps, vx_all_passed = list_all vs_passed steps, vx_server_cleaned_up = False, vx_engine_ready = True,
         vx_lifecycle_timing = None\<rparr>)"

section \<open>Observing a machine\<close>

definition observe :: "'c engine_env \<Rightarrow> string \<Rightarrow> rat \<Rightarrow> (('c, 'm) engine_world, state_trace_entry) act" where
  "observe env server_id start_time =
    tryE (bindE (get_vm env server_id) (\<lambda>detail. bindE (getE (elapsed_since env start_time)) (\<lambda>elapsed.
            retE \<lparr>st_state = vd_status detail, st_elapsed_since_start = elapsed,
                  st_detail = [(''power_state'', opt_pystr (vd_power_state detail))]\<rparr>)))
      (\<lambda>_. bindE (getE (elapsed_since env start_time)) (\<lambda>elapsed.
            retE \<lparr>st_state = ''UNKNOWN'', st_elapsed_since_start = elapsed, st_detail = [(''error'', PStr ''poll_failed'')]\<rparr>))"

text \<open>The loop of _poll_state_trace. The stop event is a predicate on the state of the cloud, which the operation
  running meanwhile changes; fuel is the number of rounds.\<close>

fun trace_loop :: "'c engine_env \<Rightarrow> ('c \<Rightarrow> bool) \<Rightarrow> string \<Rightarrow> rat \<Rightarrow> rat \<Rightarrow> rat \<Rightarrow> nat \<Rightarrow> state_trace_entry list \<Rightarrow>
    (('c, 'm) engine_world, state_trace_entry list) act" where
  "trace_loop env stop server_id start_time poll_interval deadline 0 trace w = (Inr trace, w)"
| "trace_loop env stop server_id start_time poll_interval deadline (Suc n) trace w =
    (if now_of env w < deadline then
       if stop (os_cloud w) then (Inr trace, w)
       else bindE (observe env server_id start_time) (\<lambda>entry.
            thenE (cloudE (ee_sleep env poll_interval))
              (trace_loop env stop server_id start_time poll_interval deadline n (trace @ [entry]))) w
     else (Inr trace, w))"

definition trace_fuel :: "rat \<Rightarrow> rat \<Rightarrow> nat" where
  "trace_fuel timeout poll_interval = nat \<lceil>timeout / poll_interval\<rceil>"

definition poll_state_trace :: "'c engine_env \<Rightarrow> ('c \<Rightarrow> bool) \<Rightarrow> string \<Rightarrow> rat \<Rightarrow> rat \<Rightarrow> rat \<Rightarrow>
    (('c, 'm) engine_world, state_trace_entry list) act" where
  "poll_state_trace env stop server_id start_time poll_interval timeout w =
    trace_loop env stop server_id start_time poll_interval (now_of env w + timeout) (trace_fuel timeout poll_interval) [] w"

text \<open>\<^verbatim>\<open>await trace_task\<close>, and the same unless the task has ended\<close>

definition await_trace :: "'c script_env \<Rightarrow> string \<Rightarrow> rat \<Rightarrow> rat \<Rightarrow> (('c, 'm) engine_world, state_trace_entry list) act" where
  "await_trace E server_id start_time timeout w =
    (case se_trace E server_id start_time timeout (os_cloud w) of (trace, c) \<Rightarrow> (Inr trace, w\<lparr>os_cloud := c\<rparr>))"

definition trace_if_running :: "'c script_env \<Rightarrow> string \<Rightarrow> rat \<Rightarrow> rat \<Rightarrow> (('c, 'm) engine_world, state_trace_entry list) act" where
  "trace_if_running E server_id start_time timeout w =
    (if \<not> se_trace_done E (os_cloud w) then await_trace E server_id start_time timeout w else (Inr [], w))"

section \<open>Instrumented operations\<close>

text \<open>A call whose exception is handled by h, followed by code outside that handler\<close>

definition tryelseE :: "('w, 'a) act \<Rightarrow> (exn \<Rightarrow> ('w, 'b) act) \<Rightarrow> ('a \<Rightarrow> ('w, 'b) act) \<Rightarrow> ('w, 'b) act" where
  "tryelseE m h k w = (case m w of (Inl exc, w') \<Rightarrow> h exc w' | (Inr x, w') \<Rightarrow> k x w')"

definition build_operation_timing :: "string \<Rightarrow> bool \<Rightarrow> string \<Rightarrow> string \<Rightarrow> state_trace_entry list \<Rightarrow> rat \<Rightarrow> rat \<Rightarrow> rat \<Rightarrow>
    string option \<Rightarrow> (string, pyval) dict \<Rightarrow> operation_timing" where
  "build_operation_timing operation passed initial_state final_state state_trace total_duration_s api_latency_s state_convergence_s error detail =
    \<lparr>ot_operation = operation, ot_passed = passed, ot_total_duration_s = py_round total_duration_s 3,
     ot_api_latency_s = py_round api_latency_s 3, ot_state_convergence_s = py_round state_convergence_s 3,
     ot_initial_state = initial_state, ot_final_state = final_state, ot_state_trace = state_trace, ot_error = error, ot_detail = detail\<rparr>"

text \<open>Time from the end of the API call to now, not below zero.\<close>

definition convergence :: "rat \<Rightarrow> rat \<Rightarrow> rat" where
  "convergence elapsed api_latency = (let c = fsub elapsed api_latency in if c < 0 then 0 else c)"

definition create_failure :: "'c engine_env \<Rightarrow> rat \<Rightarrow> rat \<Rightarrow> (string, pyval) dict \<Rightarrow> exn \<Rightarrow>
    (('c, 'm) engine_world, validation_step \<times> operation_timing \<times> state_trace_entry list) act" where
  "create_failure env t0 api_latency detail exc =
    bindE (getE (elapsed_since env t0)) (\<lambda>elapsed.
    retE (\<lparr>vs_name = ''create_vm'', vs_passed = False, vs_duration_seconds = elapsed, vs_detail = detail, vs_error = Some (exn_str exc)\<rparr>,
          build_operation_timing ''create'' False ''BUILD'' ''ERROR'' [] elapsed api_latency 0 (Some (exn_str exc)) [], []))"

definition created_detail :: "vm_detail \<Rightarrow> (string, pyval) dict" where
  "created_detail vm = [(''server_id'', PStr (vd_id vm)), (''name'', PStr (vd_name vm)), (''status'', PStr (vd_status vm)),
     (''flavor_id'', opt_pystr (vd_flavor_id vm)), (''image_id'', opt_pystr (vd_image_id vm))]"

definition instrumented_create_vm :: "'c script_env \<Rightarrow> string \<Rightarrow> pyval \<Rightarrow> pyval \<Rightarrow> pyval \<Rightarrow> script_args \<Rightarrow>
    (('c, 'm) engine_world, validation_step \<times> operation_timing \<times> state_trace_entry list) act" where
  "instrumented_create_vm E vm_name flavor_id image_id network_id args =
    (let env = se_engine E in
     bindE (outcomeE (new_create_request (ee_sdk env) vm_name flavor_id image_id network_id (or_none (sa_keypair args))
       (singleton_or_none (sa_security_group args)) (or_none (sa_az args)))) (\<lambda>req.
     bindE (getE (now_of env)) (\<lambda>t0.
     tryelseE (create_vm env req) (create_failure env t0 0 []) (\<lambda>vm.
     bindE (getE (elapsed_since env t0)) (\<lambda>api_latency.
       (let conv = convergence api_latency api_latency; passed = (vd_status vm = ''ACTIVE'')
        in tryE
          (thenE (cloudE (ee_sleep env (sa_poll_interval args)))
           (bindE (await_trace E (vd_id vm) t0 15) (\<lambda>trace.
            bindE (getE (elapsed_since env t0)) (\<lambda>elapsed.
            retE (\<lparr>vs_name = ''create_vm'', vs_passed = passed, vs_duration_seconds = elapsed, vs_detail = created_detail vm, vs_error = None\<rparr>,
                  build_operation_timing ''create'' passed ''BUILD'' (vd_status vm) trace elapsed api_latency conv None [], trace)))))
          (create_failure env t0 api_latency (created_detail vm))))))))"

definition final_state :: "'c engine_env \<Rightarrow> string \<Rightarrow> (('c, 'm) engine_world, string) act" where
  "final_state env server_id = tryE (bindE (get_vm env server_id) (\<lambda>detail. retE (vd_status detail))) (\<lambda>_. retE ''UNKNOWN'')"

text \<open>\<^verbatim>\<open>getattr(engine, f"{operation}_vm")\<close>\<close>

definition engine_method :: "'c engine_env \<Rightarrow> string \<Rightarrow> string \<Rightarrow> (('c, 'm) engine_world, vm_operation_response) act" where
  "engine_method env operation server_id =
    (if operation = ''start'' then start_vm env server_id else if operation = ''stop'' then stop_vm env server_id
     else if operation = ''reboot'' then reboot_vm env server_id else if operation = ''delete'' then delete_vm env server_id
     else raiseE (PyException ''AttributeError'' (operation @ ''_vm'')))"

definition instrumented_lifecycle_operation :: "'c script_env \<Rightarrow> string \<Rightarrow> string \<Rightarrow> rat \<Rightarrow> (('c, 'm) engine_world, operation_timing) act" where
  "instrumented_lifecycle_operation E server_id operation poll_interval =
    (let env = se_engine E in
     bindE (getE (now_of env)) (\<lambda>t0.
     tryelseE (get_vm env server_id)
       (\<lambda>exc. retE (build_operation_timing operation False ''UNKNOWN'' ''UNKNOWN'' [] 0 0 0
           (Some (''Pre-flight check failed: '' @ exn_str exc)) []))
       (\<lambda>detail. tryE
         (bindE (engine_method env operation server_id) (\<lambda>resp.
          bindE (getE (elapsed_since env t0)) (\<lambda>api_latency.
          thenE (cloudE (ee_sleep env poll_interval))
          (bindE (await_trace E server_id t0 120) (\<lambda>trace.
           bindE (final_state env server_id) (\<lambda>final.
           bindE (getE (elapsed_since env t0)) (\<lambda>elapsed.
           retE (build_operation_timing operation (vr_status resp = ''success'') (vd_status detail) final trace elapsed api_latency
                  (convergence elapsed api_latency) None []))))))))
         (\<lambda>exc. bindE (trace_if_running E server_id t0 120) (\<lambda>trace.
           bindE (final_state env server_id) (\<lambda>final.
           bindE (getE (elapsed_since env t0)) (\<lambda>elapsed.
           retE (build_operation_timing operation False (vd_status detail) final trace elapsed elapsed 0 (Some (exn_str exc)) []))))))))"

definition says_gone :: "string \<Rightarrow> bool" where
  "says_gone text \<longleftrightarrow> py_in ''not found'' (py_lower text) \<or> py_in ''404'' text \<or> py_in ''no server'' (py_lower text)"

definition instrumented_delete_vm :: "'c script_env \<Rightarrow> string \<Rightarrow> rat \<Rightarrow> (('c, 'm) engine_world, operation_timing) act" where
  "instrumented_delete_vm E server_id poll_interval =
    (let env = se_engine E in
     bindE (getE (now_of env)) (\<lambda>t0.
     bindE (final_state env server_id) (\<lambda>initial_state.
     tryE
       (bindE (delete_vm env server_id) (\<lambda>resp.
        bindE (getE (elapsed_since env t0)) (\<lambda>api_latency.
        thenE (cloudE (ee_sleep env poll_interval))
        (bindE (await_trace E server_id t0 60) (\<lambda>trace.
         bindE (tryE (thenE (get_vm env server_id) (retE False)) (\<lambda>exc. retE (says_gone (py_lower (exn_str exc))))) (\<lambda>deleted.
         bindE (getE (elapsed_since env t0)) (\<lambda>elapsed.
         retE (build_operation_timing ''delete'' deleted initial_state (if deleted then ''DELETED'' else ''UNKNOWN'') trace elapsed api_latency
                (convergence elapsed api_latency) None [(''delete_api_status'', PStr (vr_status resp))]))))))))
       (\<lambda>exc. bindE (trace_if_running E server_id t0 60) (\<lambda>trace.
         bindE (getE (elapsed_since env t0)) (\<lambda>elapsed.
         retE (build_operation_timing ''delete'' False initial_state ''UNKNOWN'' trace elapsed elapsed 0 (Some (exn_str exc)) [])))))))"

definition cleanup_server :: "'c engine_env \<Rightarrow> string \<Rightarrow> (('c, 'm) engine_world, unit) act" where
  "cleanup_server env server_id = tryE (thenE (delete_vm env server_id) (retE ())) (\<lambda>_. retE ())"

section \<open>Discovery\<close>

text \<open>\<^verbatim>\<open>choice or (objs[0].id if objs else None)\<close>\<close>

definition selected_id :: "string option \<Rightarrow> pyval list \<Rightarrow> exn + pyval" where
  "selected_id choice objs =
    (if str_truthy choice then Inr (PStr (the choice)) else case objs of [] \<Rightarrow> Inr PNone | ob # _ \<Rightarrow> attr ob ''id'')"

record discovery =
  dc_detail :: "(string, pyval) dict"
  dc_flavor_id :: pyval
  dc_image_id :: pyval
  dc_network_id :: pyval

definition set_detail :: "string \<Rightarrow> pyval \<Rightarrow> ('d discovery_scheme \<times> 'w, unit) act" where
  "set_detail k v = updE (\<lambda>(d, w). (d\<lparr>dc_detail := dict_set (dc_detail d) k v\<rparr>, w))"

definition discovery_body :: "'c engine_env \<Rightarrow> script_args \<Rightarrow> (discovery \<times> ('c, 'm) engine_world, unit) act" where
  "discovery_body env args =
    bindE (besideE (bindE (nova_call env ''flavors'' 30 [] [(''get_all'', PBool True)]) (\<lambda>v. cloudE (sdk_iter (ee_sdk env) v)))) (\<lambda>flavors.
    thenE (set_detail ''flavor_count'' (PInt (int (length flavors))))
    (bindE (besideE (bindE (nova_call env ''images'' 30 [] []) (\<lambda>v. cloudE (sdk_iter (ee_sdk env) v)))) (\<lambda>images_list.
    thenE (set_detail ''image_count'' (PInt (int (length images_list))))
    (bindE (besideE (bindE (os_call (ee_settings env) (ee_sdk env) ''network'' ''networks'' [] []) (\<lambda>v. cloudE (sdk_iter (ee_sdk env) v)))) (\<lambda>networks_list.
    thenE (set_detail ''network_count'' (PInt (int (length networks_list))))
    (bindE (outcomeE (selected_id (sa_flavor args) flavors)) (\<lambda>f.
    thenE (updE (\<lambda>(d, w). (d\<lparr>dc_flavor_id := f\<rparr>, w)))
    (bindE (outcomeE (selected_id (sa_image args) images_list)) (\<lambda>i.
    thenE (updE (\<lambda>(d, w). (d\<lparr>dc_image_id := i\<rparr>, w)))
    (bindE (outcomeE (selected_id (sa_network args) networks_list)) (\<lambda>n.
    thenE (updE (\<lambda>(d, w). (d\<lparr>dc_network_id := n\<rparr>, w)))
    (if \<not> truthy f \<or> \<not> truthy i \<or> \<not> truthy n
     then raiseE (PyException ''RuntimeError'' (''Missing resources: flavor='' @ py_str (sdk_repr (ee_sdk env)) f @
       '' image='' @ py_str (sdk_repr (ee_sdk env)) i @ '' network='' @ py_str (sdk_repr (ee_sdk env)) n))
     else set_detail ''selected'' (PDict [(PStr ''flavor_id'', f), (PStr ''image_id'', i), (PStr ''network_id'', n)])))))))))))))"

definition discover_resources :: "'c engine_env \<Rightarrow> script_args \<Rightarrow> (('c, 'm) engine_world, validation_step \<times> discovery) act" where
  "discover_resources env args w =
    (let t0 = now_of env w;
         start = \<lparr>dc_detail = [], dc_flavor_id = PStr (str_or (sa_flavor args) []), dc_image_id = PStr (str_or (sa_image args) []),
                  dc_network_id = PStr (str_or (sa_network args) [])\<rparr>
     in case discovery_body env args (start, w) of (r, d, w') \<Rightarrow>
       (Inr (\<lparr>vs_name = ''discover_resources'', vs_passed = (case r of Inl _ \<Rightarrow> False | Inr _ \<Rightarrow> True),
              vs_duration_seconds = elapsed_since env t0 w', vs_detail = dc_detail d,
              vs_error = (case r of Inl exc \<Rightarrow> Some (exn_str exc) | Inr _ \<Rightarrow> None)\<rparr>, d), w'))"

section \<open>The live run\<close>

record live =
  lv_steps :: "validation_step list"
  lv_ops :: "operation_timing list"
  lv_full_state_trace :: "state_trace_entry list"
  lv_failure_observations :: "(string, pyval) dict list"
  lv_created_server_id :: string
  lv_cleanup_attempted :: bool
  lv_server_cleaned_up :: bool
  lv_discovery :: discovery

text \<open>\<^verbatim>\<open>step.detail.get("server_id")\<close>, where the empty string stands for None: both are false\<close>

definition detail_server_id :: "validation_step \<Rightarrow> string" where
  "detail_server_id step = (case dict_get (vs_detail step) ''server_id'' of Some (PStr s) \<Rightarrow> s | _ \<Rightarrow> [])"

definition timing_step :: "string \<Rightarrow> (string, pyval) dict \<Rightarrow> operation_timing \<Rightarrow> validation_step" where
  "timing_step name detail ot = \<lparr>vs_name = name, vs_passed = ot_passed ot, vs_duration_seconds = ot_total_duration_s ot,
     vs_detail = detail, vs_error = ot_error ot\<rparr>"

definition lifecycle_step :: "'c script_env \<Rightarrow> rat \<Rightarrow> string \<Rightarrow> (live \<times> ('c, 'm) engine_world, unit) act" where
  "lifecycle_step E poll_interval op_name =
    bindE (getE (lv_created_server_id \<circ> fst)) (\<lambda>server_id.
    bindE (besideE (instrumented_lifecycle_operation E server_id op_name poll_interval)) (\<lambda>ot.
    setE (\<lambda>l. l\<lparr>lv_ops := lv_ops l @ [ot],
      lv_steps := lv_steps l @ [timing_step (''vm_'' @ op_name) [(''server_id'', PStr server_id), (''operation'', PStr op_name),
        (''timing'', PDict [(PStr ''api_latency_s'', PFloat (ot_api_latency_s ot)), (PStr ''state_convergence_s'', PFloat (ot_state_convergence_s ot)),
          (PStr ''total_s'', PFloat (ot_total_duration_s ot))])] ot],
      lv_full_state_trace := lv_full_state_trace l @ ot_state_trace ot,
      lv_failure_observations := lv_failure_observations l @
        (if \<not> ot_passed ot then [[(''operation'', PStr op_name), (''error'', opt_pystr (ot_error ot)),
           (''duration_s'', PFloat (ot_total_duration_s ot)), (''final_state'', PStr (ot_final_state ot))]] else [])\<rparr>)))"

definition delete_step :: "'c script_env \<Rightarrow> rat \<Rightarrow> (live \<times> ('c, 'm) engine_world, unit) act" where
  "delete_step E poll_interval =
    bindE (getE (lv_created_server_id \<circ> fst)) (\<lambda>server_id.
    bindE (besideE (instrumented_delete_vm E server_id poll_interval)) (\<lambda>ot.
    setE (\<lambda>l. l\<lparr>lv_ops := lv_ops l @ [ot],
      lv_steps := lv_steps l @ [timing_step ''delete_vm'' [(''server_id'', PStr server_id), (''status'', PStr ''deleted''),
        (''timing'', PDict [(PStr ''api_latency_s'', PFloat (ot_api_latency_s ot)),
          (PStr ''state_convergence_s'', PFloat (ot_state_convergence_s ot))])] ot],
      lv_full_state_trace := lv_full_state_trace l @ ot_state_trace ot,
      lv_failure_observations := lv_failure_observations l @
        (if \<not> ot_passed ot then [[(''operation'', PStr ''delete''), (''error'', opt_pystr (ot_error ot)),
           (''duration_s'', PFloat (ot_total_duration_s ot))]] else [])\<rparr>)))"

definition verify_step :: "'c engine_env \<Rightarrow> string \<Rightarrow> (('c, 'm) engine_world, validation_step) act" where
  "verify_step env server_id w =
    (let t0 = now_of env w in case get_vm env server_id w of
       (Inr _, w') \<Rightarrow> (Inr \<lparr>vs_name = ''verify_cleanup'', vs_passed = False, vs_duration_seconds = elapsed_since env t0 w', vs_detail = [],
           vs_error = Some ''Server still exists after deletion''\<rparr>, w')
     | (Inl exc, w') \<Rightarrow> (Inr (if says_gone (exn_str exc)
         then \<lparr>vs_name = ''verify_cleanup'', vs_passed = True, vs_duration_seconds = elapsed_since env t0 w',
               vs_detail = [(''confirmed'', PStr ''server no longer exists'')], vs_error = None\<rparr>
         else \<lparr>vs_name = ''verify_cleanup'', vs_passed = False, vs_duration_seconds = elapsed_since env t0 w', vs_detail = [],
               vs_error = Some (exn_str exc)\<rparr>), w'))"

text \<open>What _validate_live does once the machine exists.\<close>

definition live_rest :: "'c script_env \<Rightarrow> rat \<Rightarrow> (live \<times> ('c, 'm) engine_world, bool) act" where
  "live_rest E poll =
    thenE (forE (lifecycle_step E poll) [''reboot'', ''stop'', ''start''])
    (thenE (delete_step E poll)
    (bindE (getE (lv_created_server_id \<circ> fst)) (\<lambda>server_id.
     bindE (besideE (verify_step (se_engine E) server_id)) (\<lambda>step.
     thenE (setE (\<lambda>l. l\<lparr>lv_steps := lv_steps l @ [step], lv_cleanup_attempted := True\<rparr>)) (retE False)))))"

text \<open>The body of the try statement of _validate_live; True stands for its early return.\<close>

definition live_body :: "'c script_env \<Rightarrow> script_args \<Rightarrow> string \<Rightarrow> (live \<times> ('c, 'm) engine_world, bool) act" where
  "live_body E args vm_name =
    (let env = se_engine E; poll = sa_poll_interval args in
     bindE (besideE (discover_resources env args)) (\<lambda>(step, d).
     thenE (setE (\<lambda>l. l\<lparr>lv_steps := lv_steps l @ [step], lv_discovery := d\<rparr>))
     (if \<not> vs_passed step then retE True
      else bindE (besideE (instrumented_create_vm E vm_name (dc_flavor_id d) (dc_image_id d) (dc_network_id d) args)) (\<lambda>(step, ot, trace).
        thenE (setE (\<lambda>l. l\<lparr>lv_full_state_trace := lv_full_state_trace l @ trace, lv_steps := lv_steps l @ [step], lv_ops := lv_ops l @ [ot]\<rparr>))
        (if \<not> vs_passed step then
           bindE (getE (lv_created_server_id \<circ> fst)) (\<lambda>created.
           thenE (if created \<noteq> [] then thenE (besideE (cleanup_server env created)) (setE (\<lambda>l. l\<lparr>lv_cleanup_attempted := True\<rparr>)) else retE ())
           (thenE (setE (\<lambda>l. l\<lparr>lv_server_cleaned_up := lv_cleanup_attempted l\<rparr>)) (retE True)))
         else thenE (setE (\<lambda>l. l\<lparr>lv_created_server_id := detail_server_id step\<rparr>))
           (live_rest E poll))))))"

text \<open>The finally clause: the safety clean-up.\<close>

definition live_finally :: "'c engine_env \<Rightarrow> (live \<times> ('c, 'm) engine_world, unit) act" where
  "live_finally env =
    bindE (getE fst) (\<lambda>l.
    if lv_created_server_id l \<noteq> [] \<and> \<not> lv_cleanup_attempted l
    then tryE (thenE (besideE (delete_vm env (lv_created_server_id l))) (setE (\<lambda>l. l\<lparr>lv_server_cleaned_up := True\<rparr>))) (\<lambda>_. retE ())
    else retE ())"

definition live_start :: live where
  "live_start = \<lparr>lv_steps = [], lv_ops = [], lv_full_state_trace = [], lv_failure_observations = [], lv_created_server_id = [],
     lv_cleanup_attempted = False, lv_server_cleaned_up = False,
     lv_discovery = \<lparr>dc_detail = [], dc_flavor_id = PStr [], dc_image_id = PStr [], dc_network_id = PStr []\<rparr>\<rparr>"

definition early_result :: "live \<Rightarrow> validation_result" where
  "early_result l = \<lparr>vx_steps = lv_steps l, vx_all_passed = False, vx_server_cleaned_up = lv_server_cleaned_up l, vx_engine_ready = True,
     vx_lifecycle_timing = None\<rparr>"

definition final_result :: "script_args \<Rightarrow> string \<Rightarrow> live \<Rightarrow> validation_result" where
  "final_result args vm_name l =
    (let all_passed = list_all vs_passed (lv_steps l) in
     \<lparr>vx_steps = lv_steps l, vx_all_passed = all_passed, vx_server_cleaned_up = lv_server_cleaned_up l, vx_engine_ready = True,
      vx_lifecycle_timing = Some \<lparr>lt_vm_name = vm_name, lt_server_id = lv_created_server_id l, lt_flavor_id = dc_flavor_id (lv_discovery l),
        lt_image_id = dc_image_id (lv_discovery l), lt_network_id = dc_network_id (lv_discovery l), lt_poll_interval_s = sa_poll_interval args,
        lt_all_passed = all_passed, lt_operations = lv_ops l, lt_full_state_trace = lv_full_state_trace l,
        lt_failure_observations = lv_failure_observations l\<rparr>\<rparr>)"

definition validate_live :: "'c script_env \<Rightarrow> script_args \<Rightarrow> (('c, 'm) engine_world, validation_result) act" where
  "validate_live E args w =
    (let env = se_engine E; vm_name = str_or (sa_vm_name args) (''vmachine-test-'' @ str_int (se_time E (os_cloud w))) in
     if \<not> ost_ready (ee_settings env) then
       (Inr \<lparr>vx_steps = [\<lparr>vs_name = ''engine_ready'', vs_passed = False, vs_duration_seconds = 0, vs_detail = [],
                          vs_error = Some ''OpenStack env vars not set''\<rparr>],
             vx_all_passed = False, vx_server_cleaned_up = False, vx_engine_ready = False, vx_lifecycle_timing = None\<rparr>, w)
     else case tryE (live_body E args vm_name)
          (\<lambda>exc. thenE (setE (\<lambda>l. l\<lparr>lv_steps := lv_steps l @ [\<lparr>vs_name = ''unexpected_error'', vs_passed = False, vs_duration_seconds = 0,
                     vs_detail = [], vs_error = Some (exn_str exc)\<rparr>]\<rparr>)) (retE False)) (live_start, w) of
       (r, l, w1) \<Rightarrow> case live_finally env (l, w1) of (_, l', w2) \<Rightarrow>
         (map_sum id (\<lambda>early. if early then early_result l' else final_result args vm_name l') r, w2))"

definition validate_engine :: "'c script_env \<Rightarrow> (nat \<Rightarrow> rat) \<Rightarrow> script_args \<Rightarrow> (('c, 'm) engine_world, validation_result) act" where
  "validate_engine E durations args w =
    (if sa_dry_run args then (Inr (validate_dry_run (ee_settings (se_engine E)) (ee_sdk (se_engine E)) durations args), w)
     else validate_live E args w)"

section \<open>Nothing in the live run raises but the request\<close>

lemma returns_await: "returns (await_trace E i t0 t)" "returns (trace_if_running E i t0 t)"
  by (simp_all add: fails_with_def raises_only_def await_trace_def trace_if_running_def split: prod.split)

lemma returns_tryelse: "(\<And>e. fails_with P (h e)) \<Longrightarrow> (\<And>x. fails_with P (k x)) \<Longrightarrow> fails_with P (tryelseE m h k)"
  by (auto simp: fails_with_def raises_only_def tryelseE_def split: prod.splits sum.splits)

lemmas returns_intros = fails_intros returns_await

lemma returns_final_state: "returns (final_state env server_id)"
  unfolding final_state_def by (intro returns_intros)

lemma returns_create_failure: "returns (create_failure env t0 a d exc)"
  unfolding create_failure_def by (intro returns_intros)

lemma returns_lifecycle: "returns (instrumented_lifecycle_operation E server_id operation poll)"
  unfolding instrumented_lifecycle_operation_def Let_def
  by (intro returns_intros returns_tryelse returns_final_state)

lemma returns_delete: "returns (instrumented_delete_vm E server_id poll)"
  unfolding instrumented_delete_vm_def Let_def by (intro returns_intros returns_final_state)

lemma returns_verify: "returns (verify_step env server_id)"
  by (simp add: fails_with_def raises_only_def verify_step_def Let_def split: prod.split sum.split)

section \<open>The steps and the variables of the live run\<close>

text \<open>A step with the given name is appended; the variables that decide about the clean-up stay.\<close>

definition appends :: "string \<Rightarrow> live \<Rightarrow> live \<Rightarrow> bool" where
  "appends name l l' \<longleftrightarrow> (\<exists>s. lv_steps l' = lv_steps l @ [s] \<and> vs_name s = name) \<and>
     lv_created_server_id l' = lv_created_server_id l \<and> lv_cleanup_attempted l' = lv_cleanup_attempted l \<and>
     lv_server_cleaned_up l' = lv_server_cleaned_up l"

lemma lifecycle_step_appends:
  "\<exists>l' w'. lifecycle_step E poll op (l, w) = (Inr (), l', w') \<and> appends (''vm_'' @ op) l l'"
proof -
  obtain ot w' where "instrumented_lifecycle_operation E (lv_created_server_id l) op poll w = (Inr ot, w')"
    using returnsD [OF returns_lifecycle] by blast
  then show ?thesis
    by (simp add: lifecycle_step_def bindE_def getE_def besideE_def setE_def updE_def appends_def timing_step_def)
qed

lemma delete_step_appends:
  "\<exists>l' w'. delete_step E poll (l, w) = (Inr (), l', w') \<and> appends ''delete_vm'' l l'"
proof -
  obtain ot w' where "instrumented_delete_vm E (lv_created_server_id l) poll w = (Inr ot, w')"
    using returnsD [OF returns_delete] by blast
  then show ?thesis
    by (simp add: delete_step_def bindE_def getE_def besideE_def setE_def updE_def appends_def timing_step_def)
qed

lemma create_step_name:
  "fst (instrumented_create_vm E vm_name f i n args w) = Inr (step, ot, trace) \<Longrightarrow> vs_name step = ''create_vm''"
  by (auto simp: instrumented_create_vm_def create_failure_def tryelseE_def Let_def bindE_def getE_def outcomeE_def tryE_def thenE_def retE_def
      split: prod.splits sum.splits)

lemma verify_step_passed:
  "verify_step env server_id w = (Inr s, w') \<Longrightarrow>
     vs_name s = ''verify_cleanup'' \<and> (vs_passed s \<longrightarrow> (\<exists>exc. get_vm env server_id w = (Inl exc, w') \<and> says_gone (exn_str exc)))"
  by (auto simp: verify_step_def Let_def split: prod.splits sum.splits if_splits)

definition live_step_names :: "string list" where
  "live_step_names = [''discover_resources'', ''create_vm'', ''vm_reboot'', ''vm_stop'', ''vm_start'', ''delete_vm'', ''verify_cleanup'']"

lemma live_rest_outcome:
  "\<exists>l' w1 w'. live_rest E poll (l, w) = (Inr False, l', w') \<and>
     map vs_name (lv_steps l') = map vs_name (lv_steps l) @ drop 2 live_step_names \<and>
     lv_cleanup_attempted l' \<and> lv_server_cleaned_up l' = lv_server_cleaned_up l \<and> lv_created_server_id l' = lv_created_server_id l \<and>
     (list_all vs_passed (lv_steps l') \<longrightarrow>
       (\<exists>exc. get_vm (se_engine E) (lv_created_server_id l) w1 = (Inl exc, w') \<and> says_gone (exn_str exc)))"
proof -
  obtain l1 w1 where s1: "lifecycle_step E poll ''reboot'' (l, w) = (Inr (), l1, w1)" "appends ''vm_reboot'' l l1"
    using lifecycle_step_appends [of E poll "''reboot''" l w] by auto
  obtain l2 w2 where s2: "lifecycle_step E poll ''stop'' (l1, w1) = (Inr (), l2, w2)" "appends ''vm_stop'' l1 l2"
    using lifecycle_step_appends [of E poll "''stop''" l1 w1] by auto
  obtain l3 w3 where s3: "lifecycle_step E poll ''start'' (l2, w2) = (Inr (), l3, w3)" "appends ''vm_start'' l2 l3"
    using lifecycle_step_appends [of E poll "''start''" l2 w2] by auto
  obtain l4 w4 where s4: "delete_step E poll (l3, w3) = (Inr (), l4, w4)" "appends ''delete_vm'' l3 l4"
    using delete_step_appends [of E poll l3 w3] by auto
  obtain s w5 where s5: "verify_step (se_engine E) (lv_created_server_id l4) w4 = (Inr s, w5)"
    using returnsD [OF returns_verify] by blast
  have same: "lv_created_server_id l4 = lv_created_server_id l" "lv_server_cleaned_up l4 = lv_server_cleaned_up l"
      "map vs_name (lv_steps l4) = map vs_name (lv_steps l) @ [''vm_reboot'', ''vm_stop'', ''vm_start'', ''delete_vm'']"
    using s1(2) s2(2) s3(2) s4(2) by (auto simp: appends_def)
  have "live_rest E poll (l, w) = (Inr False, l4\<lparr>lv_steps := lv_steps l4 @ [s], lv_cleanup_attempted := True\<rparr>, w5)"
    by (simp add: live_rest_def thenE_def bindE_def getE_def besideE_def setE_def updE_def retE_def s1 s2 s3 s4 s5)
  with verify_step_passed [OF s5] same show ?thesis
    by (intro exI [of _ w4] exI) (auto simp: live_step_names_def)
qed

lemma discover_returns: "\<exists>step d w'. discover_resources env args w = (Inr (step, d), w') \<and> vs_name step = ''discover_resources''"
  by (simp add: discover_resources_def Let_def split: prod.split)

lemma live_body_outcome:
  "\<exists>r l' w'. live_body E args vm_name (live_start, w) = (r, l', w') \<and> \<not> lv_server_cleaned_up l' \<and>
     (lv_created_server_id l' = [] \<or> lv_cleanup_attempted l') \<and>
     (case r of
        Inl exc \<Rightarrow> map vs_name (lv_steps l') = [''discover_resources'']
      | Inr True \<Rightarrow> map vs_name (lv_steps l') \<in> {[''discover_resources''], [''discover_resources'', ''create_vm'']}
      | Inr False \<Rightarrow> map vs_name (lv_steps l') = live_step_names \<and>
          (list_all vs_passed (lv_steps l') \<longrightarrow>
            (\<exists>w1 exc. get_vm (se_engine E) (lv_created_server_id l') w1 = (Inl exc, w') \<and> says_gone (exn_str exc))))"
proof -
  obtain step d w1 where d: "discover_resources (se_engine E) args w = (Inr (step, d), w1)" "vs_name step = ''discover_resources''"
    using discover_returns by blast
  show ?thesis
  proof (cases "vs_passed step")
    case False
    then show ?thesis using d
      by (simp add: live_body_def Let_def live_start_def bindE_def thenE_def besideE_def setE_def updE_def retE_def)
  next
    case True
    obtain r w2 where c: "instrumented_create_vm E vm_name (dc_flavor_id d) (dc_image_id d) (dc_network_id d) args w1 = (r, w2)"
      by fastforce
    show ?thesis
    proof (cases r)
      case (Inl exc)
      then show ?thesis using d True c
        by (simp add: live_body_def Let_def live_start_def bindE_def thenE_def besideE_def setE_def updE_def retE_def)
    next
      case (Inr x)
      obtain cs ot trace where x: "x = (cs, ot, trace)" by (cases x) auto
      have n: "vs_name cs = ''create_vm''" using create_step_name c Inr x by (metis fst_conv)
      let ?l = "live_start\<lparr>lv_steps := [step, cs], lv_discovery := d, lv_full_state_trace := trace, lv_ops := [ot]\<rparr>"
      show ?thesis
      proof (cases "vs_passed cs")
        case False
        then show ?thesis using d True c Inr x n
          by (simp add: live_body_def Let_def live_start_def bindE_def thenE_def getE_def besideE_def setE_def updE_def retE_def)
      next
        case pass: True
        let ?l' = "?l\<lparr>lv_created_server_id := detail_server_id cs\<rparr>"
        have "live_body E args vm_name (live_start, w) = live_rest E (sa_poll_interval args) (?l', w2)"
          using d True c Inr x pass
          by (simp add: live_body_def Let_def live_start_def bindE_def thenE_def besideE_def setE_def updE_def)
        moreover have "map vs_name (lv_steps ?l') @ drop 2 live_step_names = live_step_names"
          using d(2) n by (simp add: live_step_names_def)
        moreover have "\<not> lv_server_cleaned_up ?l'" by (simp add: live_start_def)
        ultimately show ?thesis using live_rest_outcome [of E "sa_poll_interval args" ?l' w2] by fastforce
      qed
    qed
  qed
qed

lemma finally_idle: "lv_created_server_id l = [] \<or> lv_cleanup_attempted l \<Longrightarrow> live_finally env (l, w) = (Inr (), l, w)"
  by (auto simp: live_finally_def bindE_def getE_def retE_def)

section \<open>The observation ends\<close>

lemma returns_observe: "returns (observe env server_id t0)"
  unfolding observe_def by (intro returns_intros)

lemma keeps_clock_observe: "clock_law env \<Longrightarrow> keeps (after_time env t) (observe env server_id t0)"
  unfolding observe_def by (intro keeps_core keeps_clock_get_vm)

lemma trace_loop_ends:
  assumes law: "clock_law env" and sleeps: "\<And>s c. \<exists>c'. ee_sleep env s c = (Inr (), c')"
    and "deadline \<le> now_of env w + of_nat n * poll_interval"
  shows "\<exists>tr w'. trace_loop env stop server_id t0 poll_interval deadline n trace w = (Inr (trace @ tr), w') \<and> length tr \<le> n \<and>
    (deadline \<le> now_of env w' \<or> stop (os_cloud w'))"
  using assms(3)
proof (induction n arbitrary: trace w)
  case (Suc n)
  show ?case
  proof (cases "now_of env w < deadline \<and> \<not> stop (os_cloud w)")
    case True
    obtain e w1 where o1: "observe env server_id t0 w = (Inr e, w1)" using returnsD [OF returns_observe] by blast
    have t1: "now_of env w \<le> now_of env w1" using keepsD [OF keeps_clock_observe [OF law], of "now_of env w" w] o1 by simp
    obtain c where sl: "ee_sleep env poll_interval (os_cloud w1) = (Inr (), c)" using sleeps by blast
    have "sdk_now (ee_sdk env) (os_cloud w1) + poll_interval \<le> sdk_now (ee_sdk env) (snd (ee_sleep env poll_interval (os_cloud w1)))"
      using law by (simp add: clock_law_def)
    then have "now_of env w1 + poll_interval \<le> now_of env (w1\<lparr>os_cloud := c\<rparr>)" by (simp add: now_of_def sl)
    then have "deadline \<le> now_of env (w1\<lparr>os_cloud := c\<rparr>) + of_nat n * poll_interval"
      using Suc.prems t1 by (simp add: algebra_simps)
    from Suc.IH [OF this, of "trace @ [e]"] show ?thesis using True o1 sl
      by (auto simp: bindE_def thenE_def cloudE_def)
  qed (use Suc.prems in auto)
qed auto

section \<open>Properties\<close>


text \<open>The dry run cannot notice an invalid transition that the engine would accept: a case that is expected to fail is
  accepted whatever the engine does, because the AssertionError is swallowed by the except clause around
  it. Only the expected transitions are checked. With a request the validators accept, the dry run passes.\<close>

theorem dry_run_accepts:
  "validate_state_dry state operation False = Inr () \<and>
   (validate_state_dry state operation True = Inr () \<longleftrightarrow> state \<in> set (dict_get_default VALID_STATE_TRANSITIONS operation [])) \<and>
   (vx_all_passed (validate_dry_run settings sdk durations args) \<longleftrightarrow> (\<exists>detail. dry_request sdk args = Inr detail))"
proof -
  have "dry_transitions = Inr [(''valid_transitions_tested'', PInt 7), (''invalid_transitions_tested'', PInt 4),
      (''all_valid'', PStr ''ACTIVE/SHUTOFF/STOPPED/SUSPENDED/ERROR -> start/stop/reboot/delete'')]"
    by (simp add: dry_transitions_def dry_valid_cases_def dry_invalid_cases_def validate_state_dry_def validate_state_def
        VALID_STATE_TRANSITIONS_def dict_get_default_def checkS_def Let_def)
  note transitions = this
  show ?thesis
    by (auto simp: validate_state_dry_def validate_state_def validate_dry_run_def dry_step_def transitions Let_def split: sum.splits)
qed

text \<open>The task that observes a machine ends: with a positive interval and a clock that a sleep advances, it returns a
  trace of at most timeout / interval entries, and it has then reached its deadline or seen the stop event, so the
  number of rounds the model allows is enough.\<close>

theorem state_trace_ends:
  assumes "clock_law env" "\<And>s c. \<exists>c'. ee_sleep env s c = (Inr (), c')" "0 < poll_interval" "0 \<le> timeout"
  shows "\<exists>trace w'. poll_state_trace env stop server_id t0 poll_interval timeout w = (Inr trace, w') \<and>
    length trace \<le> nat \<lceil>timeout / poll_interval\<rceil> \<and> (now_of env w + timeout \<le> now_of env w' \<or> stop (os_cloud w'))"
proof -
  have "timeout / poll_interval \<le> of_nat (trace_fuel timeout poll_interval)"
    using assms(3,4) by (simp add: trace_fuel_def of_nat_nat)
  then have "now_of env w + timeout \<le> now_of env w + of_nat (trace_fuel timeout poll_interval) * poll_interval"
    using assms(3) by (simp add: divide_le_eq)
  from trace_loop_ends [OF assms(1,2) this, of stop server_id t0 "[]"] show ?thesis
    by (auto simp: poll_state_trace_def trace_fuel_def)
qed

theorem state_trace_ends_witness:
  "\<exists>trace w'. poll_state_trace clock_env (\<lambda>_. False) ''s1'' 0 3 15 clock_start = (Inr trace, w') \<and> length trace \<le> 5"
proof -
  have "\<exists>c'. ee_sleep clock_env s c = (Inr (), c')" for s c by (simp add: clock_env_def)
  from state_trace_ends [OF clock_env_law this, of 3 15 "\<lambda>_. False" "''s1''" 0 clock_start] show ?thesis by auto
qed

end
