(* ===== verification/Engine_Benchmark.thy ===== *)
theory Engine_Benchmark
  imports Engine_Validation
begin

text \<open>
  scripts/benchmark_vm_engine.py: timing the creation and deletion of machines and a whole life cycle through the
  provisioning engine. Awaiting a value is the parameter be_await: the script awaits the result of factory.call, which
  is an ordinary function. The float sum() of durations is the parameter be_sum.
\<close>

section \<open>Cases\<close>

record benchmark_case =
  bk_name :: string
  bk_passed :: bool
  bk_duration_seconds :: rat
  bk_create_duration :: rat
  bk_delete_duration :: rat
  bk_operation_durations :: "(string, rat) dict"
  bk_errors :: "string list"
  bk_cleanup_ok :: bool
  bk_detail :: "(string, pyval) dict"

record benchmark_result =
  br_cases :: "benchmark_case list"
  br_all_passed :: bool

record 'c bench_env =
  be_engine :: "'c engine_env"
  be_time :: "'c \<Rightarrow> int"
  be_await :: "pyval \<Rightarrow> exn + pyval"
  be_sum :: "rat list \<Rightarrow> rat"

definition new_case :: "string \<Rightarrow> benchmark_case" where
  "new_case name = \<lparr>bk_name = name, bk_passed = False, bk_duration_seconds = 0, bk_create_duration = 0, bk_delete_duration = 0,
     bk_operation_durations = [], bk_errors = [], bk_cleanup_ok = False, bk_detail = []\<rparr>"

definition failed_bench_case :: "string \<Rightarrow> string \<Rightarrow> benchmark_case" where
  "failed_bench_case name error = (new_case name)\<lparr>bk_errors := [error]\<rparr>"

text \<open>The local variables case and server_id; an empty id stands for None.\<close>

record bench_local =
  bl_case :: benchmark_case
  bl_server_id :: string

definition set_case :: "(benchmark_case \<Rightarrow> benchmark_case) \<Rightarrow> (bench_local \<times> 'w, unit) act" where
  "set_case f = setE (\<lambda>l. l\<lparr>bl_case := f (bl_case l)\<rparr>)"

definition case_failed :: "exn \<Rightarrow> (bench_local \<times> 'w, unit) act" where
  "case_failed exc = set_case (\<lambda>c. c\<lparr>bk_errors := bk_errors c @ [exn_str exc], bk_passed := False\<rparr>)"

section \<open>One machine\<close>

definition single_body :: "'c engine_env \<Rightarrow> rat \<Rightarrow> string \<Rightarrow> pyval \<Rightarrow> pyval \<Rightarrow> pyval \<Rightarrow> (bench_local \<times> ('c, 'm) engine_world, unit) act" where
  "single_body env t0 vm_name flavor_id image_id network_id =
    bindE (outcomeE (new_create_request (ee_sdk env) vm_name flavor_id image_id network_id None None None)) (\<lambda>req.
    bindE (besideE (create_vm env req)) (\<lambda>vm.
    thenE (setE (\<lambda>l. l\<lparr>bl_server_id := vd_id vm\<rparr>))
    (bindE (besideE (getE (elapsed_since env t0))) (\<lambda>create_s.
    thenE (set_case (\<lambda>c. c\<lparr>bk_create_duration := create_s\<rparr>))
    (bindE (besideE (getE (now_of env))) (\<lambda>td.
    thenE (besideE (delete_vm env (vd_id vm)))
    (bindE (besideE (getE (elapsed_since env td))) (\<lambda>delete_s.
     set_case (\<lambda>c. c\<lparr>bk_delete_duration := delete_s, bk_cleanup_ok := True, bk_passed := True,
       bk_detail := [(''vm_name'', PStr vm_name), (''server_id'', PStr (vd_id vm)), (''create_s'', PFloat (py_round create_s 2)),
         (''delete_s'', PFloat (py_round delete_s 2))]\<rparr>)))))))))"

text \<open>The finally clause\<close>

definition single_finally :: "'c engine_env \<Rightarrow> (bench_local \<times> ('c, 'm) engine_world, unit) act" where
  "single_finally env =
    bindE (getE fst) (\<lambda>l.
    if bl_server_id l \<noteq> [] \<and> \<not> bk_cleanup_ok (bl_case l)
    then tryE (thenE (besideE (delete_vm env (bl_server_id l))) (set_case (\<lambda>c. c\<lparr>bk_cleanup_ok := True\<rparr>))) (\<lambda>_. retE ())
    else retE ())"

definition single_vm_name :: "int \<Rightarrow> int \<Rightarrow> string" where
  "single_vm_name idx time = ''vmachine-test-bench-'' @ str_int idx @ ''-'' @ str_int time"

definition single_start :: "int \<Rightarrow> bench_local" where
  "single_start idx = \<lparr>bl_case = new_case (''single_create_delete_'' @ str_int idx), bl_server_id = []\<rparr>"

definition benchmark_single_vm :: "'c bench_env \<Rightarrow> pyval \<Rightarrow> pyval \<Rightarrow> pyval \<Rightarrow> int \<Rightarrow> (('c, 'm) engine_world, benchmark_case) act" where
  "benchmark_single_vm B flavor_id image_id network_id idx w =
    (let env = be_engine B; t0 = now_of env w; vm_name = single_vm_name idx (be_time B (os_cloud w))
     in case thenE (tryE (single_body env t0 vm_name flavor_id image_id network_id) case_failed) (single_finally env) (single_start idx, w) of
       (r, l, w') \<Rightarrow> (map_sum id (\<lambda>_. (bl_case l)\<lparr>bk_duration_seconds := elapsed_since env t0 w'\<rparr>) r, w'))"

section \<open>Three machines in sequence\<close>

definition sequential_body :: "'c bench_env \<Rightarrow> pyval \<Rightarrow> pyval \<Rightarrow> pyval \<Rightarrow> benchmark_case \<Rightarrow> (('c, 'm) engine_world, benchmark_case) act" where
  "sequential_body B flavor_id image_id network_id c =
    bindE (mapE (benchmark_single_vm B flavor_id image_id network_id) [1, 2, 3]) (\<lambda>subs.
    (let create_times = map bk_create_duration subs; delete_times = map bk_delete_duration subs;
         create_avg = fdiv (be_sum B create_times) (fl (of_nat (length create_times)));
         delete_avg = fdiv (be_sum B delete_times) (fl (of_nat (length delete_times)))
     in retE (c\<lparr>bk_create_duration := create_avg, bk_delete_duration := delete_avg,
          bk_detail := [(''individual_create_times'', PList (map PFloat create_times)), (''individual_delete_times'', PList (map PFloat delete_times)),
            (''avg_create_s'', PFloat (py_round create_avg 2)), (''avg_delete_s'', PFloat (py_round delete_avg 2)),
            (''total_vms_created'', PInt 3)],
          bk_cleanup_ok := list_all bk_cleanup_ok subs, bk_passed := True\<rparr>)))"

definition benchmark_sequential :: "'c bench_env \<Rightarrow> pyval \<Rightarrow> pyval \<Rightarrow> pyval \<Rightarrow> (('c, 'm) engine_world, benchmark_case) act" where
  "benchmark_sequential B flavor_id image_id network_id =
    (let env = be_engine B; c = new_case ''sequential_create_delete_3'' in
     bindE (getE (now_of env)) (\<lambda>t0.
     bindE (tryE (sequential_body B flavor_id image_id network_id c) (\<lambda>exc. retE (c\<lparr>bk_errors := [exn_str exc]\<rparr>))) (\<lambda>c'.
     bindE (getE (elapsed_since env t0)) (\<lambda>d. retE (c'\<lparr>bk_duration_seconds := d\<rparr>)))))"

section \<open>A whole life cycle\<close>

text \<open>An operation of the engine and its duration, stored under the given name\<close>

definition timed_operation :: "'c engine_env \<Rightarrow> string \<Rightarrow> string \<Rightarrow> (bench_local \<times> ('c, 'm) engine_world, unit) act" where
  "timed_operation env name server_id =
    bindE (besideE (getE (now_of env))) (\<lambda>t.
    thenE (besideE (engine_method env name server_id))
    (bindE (besideE (getE (elapsed_since env t))) (\<lambda>d.
     set_case (\<lambda>c. c\<lparr>bk_operation_durations := dict_set (bk_operation_durations c) name d\<rparr>))))"

definition lifecycle_case_body :: "'c engine_env \<Rightarrow> rat \<Rightarrow> string \<Rightarrow> pyval \<Rightarrow> pyval \<Rightarrow> pyval \<Rightarrow> (bench_local \<times> ('c, 'm) engine_world, unit) act" where
  "lifecycle_case_body env t0 vm_name flavor_id image_id network_id =
    bindE (outcomeE (new_create_request (ee_sdk env) vm_name flavor_id image_id network_id None None None)) (\<lambda>req.
    bindE (besideE (create_vm env req)) (\<lambda>vm.
    thenE (setE (\<lambda>l. l\<lparr>bl_server_id := vd_id vm\<rparr>))
    (bindE (besideE (getE (elapsed_since env t0))) (\<lambda>create_s.
    thenE (set_case (\<lambda>c. c\<lparr>bk_create_duration := create_s\<rparr>))
    (thenE (forE (\<lambda>name. timed_operation env name (vd_id vm)) [''reboot'', ''stop'', ''start'', ''delete''])
    (thenE (tryE (thenE (besideE (get_vm env (vd_id vm)))
              (set_case (\<lambda>c. c\<lparr>bk_errors := bk_errors c @ [''Server still exists after deletion''], bk_cleanup_ok := False\<rparr>)))
            (\<lambda>_. set_case (\<lambda>c. c\<lparr>bk_cleanup_ok := True\<rparr>)))
     (set_case (\<lambda>c. c\<lparr>bk_detail := [(''vm_name'', PStr vm_name), (''server_id'', PStr (vd_id vm)),
        (''operations'', PDict ((PStr ''create_s'', PFloat (py_round (bk_create_duration c) 2)) #
           map (\<lambda>(k, v). (PStr k, PFloat (py_round v 2))) (bk_operation_durations c)))], bk_passed := True\<rparr>))))))))"

definition lifecycle_finally :: "'c engine_env \<Rightarrow> (bench_local \<times> ('c, 'm) engine_world, unit) act" where
  "lifecycle_finally env =
    bindE (getE fst) (\<lambda>l.
    if bl_server_id l \<noteq> [] \<and> \<not> bk_cleanup_ok (bl_case l)
    then tryE (thenE (besideE (delete_vm env (bl_server_id l))) (retE ())) (\<lambda>_. retE ())
    else retE ())"

definition benchmark_lifecycle :: "'c bench_env \<Rightarrow> pyval \<Rightarrow> pyval \<Rightarrow> pyval \<Rightarrow> (('c, 'm) engine_world, benchmark_case) act" where
  "benchmark_lifecycle B flavor_id image_id network_id w =
    (let env = be_engine B; t0 = now_of env w;
         vm_name = ''vmachine-test-bench-lifecycle-'' @ str_int (be_time B (os_cloud w));
         start = \<lparr>bl_case = new_case ''vm_lifecycle_operations'', bl_server_id = []\<rparr>
     in case thenE (tryE (lifecycle_case_body env t0 vm_name flavor_id image_id network_id) case_failed) (lifecycle_finally env) (start, w) of
       (r, l, w') \<Rightarrow> (map_sum id (\<lambda>_. (bl_case l)\<lparr>bk_duration_seconds := elapsed_since env t0 w'\<rparr>) r, w'))"

section \<open>The benchmark\<close>

text \<open>\<^verbatim>\<open>choice or (v[0].id if v else None)\<close>: images is not made a list, so v may have no index\<close>

definition first_id :: "string option \<Rightarrow> pyval \<Rightarrow> exn + pyval" where
  "first_id choice v =
    (if str_truthy choice then Inr (PStr (the choice))
     else if \<not> truthy v then Inr PNone
     else case v of PList (x # _) \<Rightarrow> attr x ''id'' | _ \<Rightarrow> Inl (PyException ''TypeError'' ''object is not subscriptable''))"

definition discover :: "'c bench_env \<Rightarrow> (('c, 'm) engine_world, pyval list \<times> pyval \<times> pyval) act" where
  "discover B =
    (let env = be_engine B in
     bindE (bindE (nova_call env ''flavors'' 30 [] [(''get_all'', PBool True)]) (\<lambda>v. cloudE (sdk_iter (ee_sdk env) v))) (\<lambda>flavors.
     bindE (nova_call env ''images'' 30 [] []) (\<lambda>images.
     bindE (bindE (os_call (ee_settings env) (ee_sdk env) ''network'' ''networks'' [] []) (\<lambda>v. outcomeE (be_await B v))) (\<lambda>networks_list.
     retE (flavors, images, networks_list)))))"

definition failed_result :: "string \<Rightarrow> string \<Rightarrow> benchmark_result" where
  "failed_result name error = \<lparr>br_cases = [failed_bench_case name error], br_all_passed = False\<rparr>"

definition benchmark_cases :: "'c bench_env \<Rightarrow> pyval \<Rightarrow> pyval \<Rightarrow> pyval \<Rightarrow> (('c, 'm) engine_world, benchmark_result) act" where
  "benchmark_cases B flavor_id image_id network_id =
    bindE (benchmark_single_vm B flavor_id image_id network_id 1) (\<lambda>case1.
    bindE (benchmark_sequential B flavor_id image_id network_id) (\<lambda>case2.
    bindE (benchmark_lifecycle B flavor_id image_id network_id) (\<lambda>case3.
    retE \<lparr>br_cases = [case1, case2, case3], br_all_passed = list_all bk_passed [case1, case2, case3]\<rparr>)))"

definition run_benchmark :: "'c bench_env \<Rightarrow> script_args \<Rightarrow> (('c, 'm) engine_world, benchmark_result) act" where
  "run_benchmark B args w =
    (if \<not> ost_ready (ee_settings (be_engine B)) then
       (Inr (failed_result ''all_cases_skipped''
          (''OpenStack not configured '' @ em_dash @ '' set OPENSTACK_AUTH_URL/USERNAME/PASSWORD/etc.'')), w)
     else case discover B w of
       (Inl exc, w1) \<Rightarrow> (Inr (failed_result ''resource_discovery'' (''OpenStack connection failed: '' @ exn_str exc)), w1)
     | (Inr (flavors, images, networks_list), w1) \<Rightarrow>
         bindE (outcomeE (selected_id (sa_flavor args) flavors)) (\<lambda>flavor_id.
         bindE (outcomeE (first_id (sa_image args) images)) (\<lambda>image_id.
         bindE (outcomeE (first_id (sa_network args) networks_list)) (\<lambda>network_id.
         if \<not> truthy flavor_id \<or> \<not> truthy image_id \<or> \<not> truthy network_id
         then retE (failed_result ''resource_discovery'' ''Failed to discover flavor/image/network'')
         else benchmark_cases B flavor_id image_id network_id))) w1)"

section \<open>Outcome of the cases\<close>

lemma case_setters [simp]:
  "set_case g (l, w) = (Inr (), l\<lparr>bl_case := g (bl_case l)\<rparr>, w)"
  "case_failed e (l, w) = (Inr (), l\<lparr>bl_case := (bl_case l)\<lparr>bk_errors := bk_errors (bl_case l) @ [exn_str e], bk_passed := False\<rparr>\<rparr>, w)"
  by (simp_all add: set_case_def case_failed_def)

lemma single_returns:
  fixes B :: "'c bench_env"
  shows "returns (benchmark_single_vm B f i n idx :: (('c, 'm) engine_world, benchmark_case) act)"
proof -
  have r: "returns (thenE (tryE m case_failed) (single_finally env))" for m :: "(bench_local \<times> ('c, 'm) engine_world, unit) act" and env
    unfolding case_failed_def set_case_def single_finally_def by (intro fails_intros)
  have "fst (benchmark_single_vm B f i n idx w) \<noteq> Inl e" for w :: "('c, 'm) engine_world" and e
  proof -
    obtain u l w' where "thenE (tryE (single_body (be_engine B) (now_of (be_engine B) w) (single_vm_name idx (be_time B (os_cloud w))) f i n) case_failed)
        (single_finally (be_engine B)) (single_start idx, w) = (Inr u, l, w')"
      using returnsD [OF r] by (metis surj_pair)
    then show ?thesis by (simp add: benchmark_single_vm_def Let_def)
  qed
  then show ?thesis by (simp add: fails_with_def raises_only_def)
qed

text \<open>The body and the clean-up, case by case\<close>

lemma single_body_cases:
  assumes "new_create_request (ee_sdk env) vm_name f i n None None None = Inr req"
  shows
    "create_vm env req w = (Inl exc, w1) \<Longrightarrow> single_body env t0 vm_name f i n (l, w) = (Inl exc, l, w1)"
    "create_vm env req w = (Inr vm, w1) \<Longrightarrow> delete_vm env (vd_id vm) w1 = (Inl exc, w2) \<Longrightarrow>
       \<exists>c. single_body env t0 vm_name f i n (l, w) = (Inl exc, l\<lparr>bl_server_id := vd_id vm, bl_case := (bl_case l)\<lparr>bk_create_duration := c\<rparr>\<rparr>, w2)"
    "create_vm env req w = (Inr vm, w1) \<Longrightarrow> delete_vm env (vd_id vm) w1 = (Inr x, w2) \<Longrightarrow>
       \<exists>l'. single_body env t0 vm_name f i n (l, w) = (Inr (), l', w2) \<and> bk_passed (bl_case l') \<and> bk_cleanup_ok (bl_case l') \<and>
         bk_errors (bl_case l') = bk_errors (bl_case l)"
  using assms by (auto simp: single_body_def bindE_def thenE_def outcomeE_def besideE_apply getE_def)

lemma single_finally_eq:
  "single_finally env (l, w) =
    (if bl_server_id l \<noteq> [] \<and> \<not> bk_cleanup_ok (bl_case l)
     then case delete_vm env (bl_server_id l) w of
       (Inr _, w') \<Rightarrow> (Inr (), l\<lparr>bl_case := (bl_case l)\<lparr>bk_cleanup_ok := True\<rparr>\<rparr>, w') | (Inl _, w') \<Rightarrow> (Inr (), l, w')
     else (Inr (), l, w))"
  by (auto simp: single_finally_def bindE_def getE_def tryE_def thenE_def besideE_apply retE_def split: prod.split sum.split)

section \<open>Properties\<close>

text \<open>Timing one machine always returns a case, and the machine it created is deleted or its deletion has been tried
  twice: when creation fails nothing is deleted; when the first deletion fails the case fails and a second
  one is made, whose outcome is the reported clean-up.\<close>

theorem single_vm_outcome:
  assumes "new_create_request (ee_sdk (be_engine B)) (single_vm_name idx (be_time B (os_cloud w))) f i n None None None = Inr req"
  shows "case create_vm (be_engine B) req w of
      (Inl exc, w1) \<Rightarrow> (\<exists>c. benchmark_single_vm B f i n idx w = (Inr c, w1) \<and> \<not> bk_passed c \<and> \<not> bk_cleanup_ok c \<and> bk_errors c = [exn_str exc])
    | (Inr vm, w1) \<Rightarrow> (case delete_vm (be_engine B) (vd_id vm) w1 of
        (Inr _, w2) \<Rightarrow> (\<exists>c. benchmark_single_vm B f i n idx w = (Inr c, w2) \<and> bk_passed c \<and> bk_cleanup_ok c \<and> bk_errors c = [])
      | (Inl exc, w2) \<Rightarrow> (\<exists>c. benchmark_single_vm B f i n idx w =
            (Inr c, if vd_id vm \<noteq> [] then snd (delete_vm (be_engine B) (vd_id vm) w2) else w2) \<and> \<not> bk_passed c \<and> bk_errors c = [exn_str exc] \<and>
            (bk_cleanup_ok c \<longleftrightarrow> vd_id vm \<noteq> [] \<and> (\<exists>x. fst (delete_vm (be_engine B) (vd_id vm) w2) = Inr x))))"
proof -
  let ?env = "be_engine B"
  note body = single_body_cases [OF assms]
  note run = benchmark_single_vm_def Let_def tryE_def thenE_def single_finally_eq
  have start: "bl_server_id (single_start idx) = []" "\<not> bk_passed (bl_case (single_start idx))" "\<not> bk_cleanup_ok (bl_case (single_start idx))"
      "bk_errors (bl_case (single_start idx)) = []" by (simp_all add: single_start_def new_case_def)
  obtain r w1 where c: "create_vm ?env req w = (r, w1)" by fastforce
  show ?thesis
  proof (cases r)
    case (Inl exc)
    then show ?thesis using c by (simp add: run body(1) start)
  next
    case (Inr vm)
    obtain r2 w2 where d: "delete_vm ?env (vd_id vm) w1 = (r2, w2)" by fastforce
    show ?thesis
    proof (cases r2)
      case ok: (Inr x)
      obtain l' where "single_body ?env (now_of ?env w) (single_vm_name idx (be_time B (os_cloud w))) f i n (single_start idx, w) = (Inr (), l', w2)"
          "bk_passed (bl_case l')" "bk_cleanup_ok (bl_case l')" "bk_errors (bl_case l') = []"
        using body(3) [of w vm w1 x w2 "now_of ?env w" "single_start idx"] c d Inr ok start by auto
      then show ?thesis using c d Inr ok by (simp add: run)
    next
      case (Inl exc)
      obtain s where b: "single_body ?env (now_of ?env w) (single_vm_name idx (be_time B (os_cloud w))) f i n (single_start idx, w) =
          (Inl exc, (single_start idx)\<lparr>bl_server_id := vd_id vm, bl_case := (bl_case (single_start idx))\<lparr>bk_create_duration := s\<rparr>\<rparr>, w2)"
        using body(2) [of w vm w1 exc w2 "now_of ?env w" "single_start idx"] c d Inr Inl by auto
      obtain r3 w3 where d2: "delete_vm ?env (vd_id vm) w2 = (r3, w3)" by fastforce
      show ?thesis using c d d2 Inr Inl b start by (cases r3) (auto simp: run)
    qed
  qed
qed

text \<open>The benchmark of three machines in sequence always passes, even when no machine could be created; only its
  clean-up flag tells whether the three machines were removed.\<close>

theorem sequential_always_passes:
  "\<exists>c w'. benchmark_sequential B f i n w = (Inr c, w') \<and> bk_passed c \<and> bk_errors c = [] \<and>
     (\<exists>subs. fst (mapE (benchmark_single_vm B f i n) [1, 2, 3] w) = Inr subs \<and> length subs = 3 \<and>
        (bk_cleanup_ok c \<longleftrightarrow> list_all bk_cleanup_ok subs))"
proof -
  let ?m = "mapE (benchmark_single_vm B f i n) [1, 2, 3]"
  have "\<exists>subs w1. ?m w = (Inr subs, w1)"
    by (rule returnsD) (rule fails_with_map, rule single_returns)
  then obtain subs w1 where s: "?m w = (Inr subs, w1)" by (elim exE)
  have "length subs = 3" using mapE_length [OF s] by (simp del: mapE.simps)
  with s show ?thesis
    by (simp add: benchmark_sequential_def sequential_body_def Let_def bindE_eqI tryE_def getE_def retE_def new_case_def bindE_def del: mapE.simps)
qed

text \<open>As long as the network listing of the SDK is not awaitable, the benchmark never times anything: it ends with one
  failed case and leaves durations, counters, gauge and audit entries of the engine as they were.\<close>

theorem benchmark_stops_at_discovery:
  assumes "\<And>v. \<exists>msg. be_await B v = Inl (PyException ''TypeError'' msg)"
  shows "\<exists>r w'. run_benchmark B args w = (Inr r, w') \<and> \<not> br_all_passed r \<and> length (br_cases r) = 1 \<and> os_state.more w' = os_state.more w"
proof -
  have await: "be_await B v \<noteq> Inr x" for v x using assms [of v] by auto
  have fails: "fst (discover B w) \<noteq> Inr x" for x
    using await by (auto simp: discover_def Let_def bindE_def outcomeE_def split: prod.splits sum.splits)
  have "keeps (\<lambda>w'. os_state.more w' = os_state.more w) (discover B)"
    unfolding discover_def Let_def
    by (intro keeps_core keeps_more_nova keeps_more_cloudE keeps_os_call os_frame_more)
  then have "os_state.more (snd (discover B w)) = os_state.more w" by (simp add: keeps_def)
  moreover obtain r w1 where d: "discover B w = (r, w1)" by fastforce
  moreover obtain exc where "r = Inl exc" using fails d by (cases r) auto
  ultimately show ?thesis by (simp add: run_benchmark_def failed_result_def)
qed

section \<open>Witnesses\<close>

definition demo_bench :: "string option bench_env" where
  "demo_bench = \<lparr>be_engine = error_env, be_time = (\<lambda>_. 0), be_await = (\<lambda>_. Inl (PyException ''TypeError'' ''object cannot be awaited'')),
     be_sum = sum_list\<rparr>"

definition demo_args :: script_args where
  "demo_args = \<lparr>sa_flavor = None, sa_image = None, sa_network = None, sa_vm_name = None, sa_keypair = None, sa_security_group = None,
     sa_az = None, sa_dry_run = False, sa_poll_interval = 3\<rparr>"

theorem single_vm_outcome_witness:
  "\<exists>c w'. benchmark_single_vm demo_bench (PStr ''f'') (PStr ''i'') (PStr ''n'') 1 error_start = (Inr c, w') \<and> \<not> bk_passed c \<and> \<not> bk_cleanup_ok c"
proof -
  let ?req = "web_request\<lparr>vc_name := single_vm_name 1 0\<rparr>"
  have "new_create_request (ee_sdk (be_engine demo_bench)) (single_vm_name 1 (be_time demo_bench (os_cloud error_start)))
      (PStr ''f'') (PStr ''i'') (PStr ''n'') None None None = Inr ?req" by code_simp
  note outcome = single_vm_outcome [OF this]
  have "case create_vm (be_engine demo_bench) ?req error_start of (Inl _, _) \<Rightarrow> True | _ \<Rightarrow> False" by code_simp
  then show ?thesis using outcome by (auto split: prod.splits sum.splits)
qed

theorem benchmark_stops_at_discovery_witness:
  "\<exists>r w'. run_benchmark demo_bench demo_args error_start = (Inr r, w') \<and> \<not> br_all_passed r \<and> length (br_cases r) = 1"
proof -
  have "\<exists>msg. be_await demo_bench v = Inl (PyException ''TypeError'' msg)" for v by (simp add: demo_bench_def)
  from benchmark_stops_at_discovery [OF this, of demo_args error_start] show ?thesis by blast
qed

end
