(* ===== verification/Recovery_Scenarios.thy ===== *)
theory Recovery_Scenarios
  imports Vmware_Pool Vmware_Compatibility
begin

text \<open>
  scripts/recovery_validation.py: six failure scenarios, three on the session pool and three on the assessment. The
  sessions, whether they are alive and the readings of the performance counter are those of the record
  recovery_env. The scenarios call pool.release; the class VMwareConnectionPool has no such method, so the call raises an
  AttributeError.
\<close>

section \<open>Scenarios\<close>

record failure_scenario =
  fs_name :: string
  fs_description :: string
  fs_passed :: bool
  fs_duration_ms :: rat
  fs_error_type :: "string option"
  fs_error_message :: string
  fs_recovered :: bool
  fs_recovery_time_ms :: rat
  fs_details :: "(string, pyval) dict"

definition new_scenario :: "string \<Rightarrow> string \<Rightarrow> failure_scenario" where
  "new_scenario name description = \<lparr>fs_name = name, fs_description = description, fs_passed = False, fs_duration_ms = 0,
     fs_error_type = None, fs_error_message = [], fs_recovered = False, fs_recovery_time_ms = 0, fs_details = []\<rparr>"

text \<open>The n-th acquire, liveness check and reading of the performance counter of a scenario\<close>

record 's recovery_env =
  rv_vmware_ready :: bool
  rv_acquire :: "nat \<Rightarrow> 's acquire_env"
  rv_alive :: "nat \<Rightarrow> 's \<Rightarrow> bool"
  rv_clock :: "nat \<Rightarrow> rat"

definition ms_between :: "'s recovery_env \<Rightarrow> nat \<Rightarrow> nat \<Rightarrow> rat" where
  "ms_between R i j = fmul (fsub (rv_clock R j) (rv_clock R i)) 1000"

definition note_detail :: "string \<Rightarrow> pyval \<Rightarrow> (failure_scenario \<times> 'w, unit) act" where
  "note_detail k v = setE (\<lambda>sc. sc\<lparr>fs_details := dict_set (fs_details sc) k v\<rparr>)"

text \<open>The except clause around the body of every scenario\<close>

definition scenario_failed :: "exn \<Rightarrow> (failure_scenario \<times> 'w, unit) act" where
  "scenario_failed e = setE (\<lambda>sc. sc\<lparr>fs_passed := False, fs_error_type := Some (exn_name e), fs_error_message := exn_str e\<rparr>)"

definition run_scenario :: "failure_scenario \<Rightarrow> (failure_scenario \<times> 'w, unit) act \<Rightarrow> 'w \<Rightarrow> failure_scenario \<times> 'w" where
  "run_scenario sc body w = snd (tryE body scenario_failed (sc, w))"

definition skipped :: "string \<Rightarrow> (string, pyval) dict \<Rightarrow> (failure_scenario \<times> 'w, unit) act" where
  "skipped message details = setE (\<lambda>sc. sc\<lparr>fs_passed := True, fs_error_type := Some ''skipped'', fs_error_message := message, fs_details := details\<rparr>)"

section \<open>The session pool\<close>

definition pool_release :: "'s pooled_connection \<Rightarrow> ('w, unit) act" where
  "pool_release conn = raiseE (PyException ''AttributeError'' ''VMwareConnectionPool object has no attribute release'')"

definition scenario_pool :: "rat \<Rightarrow> rat \<Rightarrow> pool_config" where
  "scenario_pool ttl interval = \<lparr>pf_ready = True, pf_max_pool_size = 2, pf_session_ttl = ttl, pf_health_check_interval = interval\<rparr>"

definition scenario_vcenter_disconnect :: "'s recovery_env \<Rightarrow> failure_scenario \<times> 's pool_state" where
  "scenario_vcenter_disconnect R =
    run_scenario (new_scenario ''vcenter_disconnect'' ''vCenter temporary disconnect, validate reconnect via pool health check'')
     (if \<not> rv_vmware_ready R
      then skipped (''VMware env not configured '' @ em_dash @ '' scenario skipped (expected behavior)'')
             [(''note'', PStr ''Requires VMWARE_HOST/USER/PASS to test real disconnect'')]
      else let pool = scenario_pool 600 5 in
        bindE (besideE (acquire pool (rv_acquire R 0))) (\<lambda>conn.
        thenE (note_detail ''alive_before'' (PBool (rv_alive R 0 (pc_si conn))))
        (thenE (pool_release conn)
        (thenE (besideE (updE disconnect_all))
        (thenE (note_detail ''disconnected'' (PBool True))
        (bindE (besideE (acquire pool (rv_acquire R 1))) (\<lambda>conn2.
         let reconnect_ms = ms_between R 1 2; alive_after = rv_alive R 1 (pc_si conn2) in
         thenE (pool_release conn2)
         (setE (\<lambda>sc. sc\<lparr>fs_passed := alive_after, fs_recovered := alive_after, fs_recovery_time_ms := reconnect_ms,
            fs_duration_ms := ms_between R 0 3,
            fs_details := dict_set (dict_set (fs_details sc) ''alive_after'' (PBool alive_after)) ''reconnect_ms'' (PFloat (py_round reconnect_ms 2))\<rparr>)))))))))
     new_pool"

definition scenario_expired_session :: "'s recovery_env \<Rightarrow> failure_scenario \<times> 's pool_state" where
  "scenario_expired_session R =
    run_scenario (new_scenario ''expired_session'' ''Expired vCenter session detection and auto-reconnect'')
     (if \<not> rv_vmware_ready R then skipped (''VMware env not configured '' @ em_dash @ '' scenario skipped'') []
      else let pool = scenario_pool 1 1 in
        bindE (besideE (acquire pool (rv_acquire R 0))) (\<lambda>conn.
        thenE (note_detail ''created_at'' (PFloat (pc_created_at conn)))
        (bindE (besideE (acquire pool (rv_acquire R 1))) (\<lambda>conn2.
         let reconnect_ms = ms_between R 0 1; alive = rv_alive R 0 (pc_si conn2) in
         thenE (pool_release conn2)
         (setE (\<lambda>sc. sc\<lparr>fs_passed := alive, fs_recovered := alive, fs_recovery_time_ms := reconnect_ms,
            fs_details := dict_set (dict_set (fs_details sc) ''alive_after_expiry'' (PBool alive)) ''reconnect_ms'' (PFloat (py_round reconnect_ms 2))\<rparr>))))))
     new_pool"

definition extra_connection :: "'s recovery_env \<Rightarrow> pool_config \<Rightarrow> (failure_scenario \<times> 's pool_state, unit) act" where
  "extra_connection R pool =
    tryE (bindE (besideE (acquire pool (rv_acquire R 2))) (\<lambda>extra.
          thenE (note_detail ''extra_acquired'' (PBool True)) (pool_release extra)))
      (\<lambda>e. thenE (note_detail ''extra_acquired'' (PBool False)) (note_detail ''extra_error'' (PStr (exn_str e))))"

definition scenario_pool_exhaustion :: "'s recovery_env \<Rightarrow> failure_scenario \<times> 's pool_state" where
  "scenario_pool_exhaustion R =
    run_scenario (new_scenario ''pool_exhaustion'' (''Connection pool exhaustion '' @ em_dash @ '' acquire beyond max_pool_size''))
     (if \<not> rv_vmware_ready R then skipped (''VMware env not configured '' @ em_dash @ '' scenario skipped'') []
      else let pool = scenario_pool 600 60 in
        bindE (mapE (\<lambda>i. besideE (acquire pool (rv_acquire R i))) [0 ..< nat (pf_max_pool_size pool)]) (\<lambda>conns.
        thenE (note_detail ''acquired'' (PInt (int (length conns))))
        (thenE (note_detail ''max_pool_size'' (PInt (pf_max_pool_size pool)))
        (thenE (extra_connection R pool)
        (let wait_ms = ms_between R 0 1 in
         thenE (note_detail ''wait_for_extra_ms'' (PFloat (py_round wait_ms 2)))
         (thenE (forE pool_release conns)
         (setE (\<lambda>sc. sc\<lparr>fs_passed := True, fs_recovered := True, fs_duration_ms := wait_ms\<rparr>))))))))
     new_pool"

section \<open>The assessment\<close>

definition scsi_disk :: "int \<Rightarrow> vm_disk" where
  "scsi_disk gb = \<lparr>vd_label = ''d1'', vd_capacity_gb = gb, vd_thin_provisioned = True, vd_datastore_name = Some ''ds1'', vd_controller_type = Some ''scsi''\<rparr>"

definition vmxnet_nic :: "string \<Rightarrow> string \<Rightarrow> vm_nic" where
  "vmxnet_nic network mac = \<lparr>vn_label = ''n1'', vn_network_name = network, vn_mac_address = Some mac, vn_ip_addresses = [], vn_nic_type = Some ''vmxnet3''\<rparr>"

definition scenario_hardware :: "int \<Rightarrow> int \<Rightarrow> vm_disk list \<Rightarrow> vm_nic list \<Rightarrow> vm_hardware" where
  "scenario_hardware cpus mem disks nics = \<lparr>hw_cpu_count = cpus, hw_cpu_cores_per_socket = 1, hw_memory_mb = mem, hw_disks = disks, hw_nics = nics\<rparr>"

text \<open>VMSummary with the fields the scenarios leave at their defaults\<close>

definition summary_of :: "string \<Rightarrow> string \<Rightarrow> string \<Rightarrow> string option \<Rightarrow> vm_hardware option \<Rightarrow> string option \<Rightarrow> bool option \<Rightarrow> string option \<Rightarrow>
    string list option \<Rightarrow> vm_summary" where
  "summary_of i name ps os hw firmware secure tools controllers =
    \<lparr>vm_id = i, vm_name = name, vm_power_state = ps, vm_guest_os = os, vm_hardware = hw, vm_cluster_name = None, vm_datastores = [],
     vm_tags = [], vm_annotation = None, vm_firmware = firmware, vm_secure_boot_enabled = secure, vm_vmware_tools_status = tools,
     vm_disk_controller_types = controllers\<rparr>"

definition edge_case_vms :: "vm_summary list" where
  "edge_case_vms =
    [summary_of ''null-vm'' [] [] None None None None None None,
     summary_of ''empty-vm'' [] [] (Some []) (Some (scenario_hardware 0 0 [] [])) (Some []) (Some False) (Some []) (Some []),
     summary_of ''partial-vm'' ''partial'' ''poweredOn'' (Some ''Some OS'')
       (Some (scenario_hardware 4 8192 [scsi_disk 100] [vmxnet_nic ''net1'' ''00:00:00:00:00:00''])) (Some ''bios'') (Some False) None None]"

text \<open>The loop over the machines: one error for each that raises. The result is never None.\<close>

definition count_evaluation_errors :: "vm_summary list \<Rightarrow> ((string, int) dict, int) act" where
  "count_evaluation_errors vms =
    bindE (mapE (\<lambda>vm. tryE (bindE (evaluate vm) (\<lambda>_. retE 0)) (\<lambda>_. retE 1)) vms) (\<lambda>ns. retE (sum_list ns))"

definition scenario_malformed_vm_metadata :: "(string, int) dict \<Rightarrow> failure_scenario \<times> (string, int) dict" where
  "scenario_malformed_vm_metadata =
    run_scenario (new_scenario ''malformed_vm_metadata'' (''Malformed VM metadata '' @ em_dash @ '' null fields, missing properties''))
     (bindE (besideE (count_evaluation_errors edge_case_vms)) (\<lambda>error_count.
      setE (\<lambda>sc. sc\<lparr>fs_passed := (error_count = 0),
        fs_details := [(''tested_vms'', PInt (int (length edge_case_vms))), (''errors'', PInt error_count)],
        fs_error_type := (if error_count > 0 then Some ''EvaluationError'' else fs_error_type sc),
        fs_error_message := (if error_count > 0
          then str_int error_count @ ''/'' @ str_int (int (length edge_case_vms)) @ '' edge case VMs caused errors'' else fs_error_message sc)\<rparr>)))"

definition issue_json :: "compatibility_issue \<Rightarrow> pyval" where
  "issue_json i = PDict [(PStr ''severity'', PStr (ci_severity i)), (PStr ''category'', PStr (ci_category i)),
     (PStr ''message'', PStr (py_take 80 (ci_message i)))]"

definition unsupported_oses :: "string list" where
  "unsupported_oses = [''Solaris 11'', ''HP-UX 11i'', ''AIX 7.2'', ''Darwin 23'']"

definition unsupported_vm :: "string \<Rightarrow> vm_summary" where
  "unsupported_vm os_name = summary_of (''unsupported-'' @ py_take 5 os_name) os_name ''poweredOn'' (Some os_name)
     (Some (scenario_hardware 2 4096 [scsi_disk 40] [vmxnet_nic ''net1'' ''00:00:00:00:00:01''])) (Some ''bios'') (Some False) (Some ''toolsOk'')
     (Some [''lsilogic''])"

definition evaluate_unsupported :: "string \<Rightarrow> (failure_scenario \<times> (string, int) dict, bool) act" where
  "evaluate_unsupported os_name =
    bindE (besideE (evaluate (unsupported_vm os_name))) (\<lambda>result.
    thenE (note_detail os_name (PDict [(PStr ''compatible'', PBool (sc_compatible result)), (PStr ''score'', PFloat (sc_score result)),
       (PStr ''has_critical_os_issue'', PBool (list_ex (\<lambda>i. ci_severity i = ''critical'' \<and> ci_category i = ''os'') (sc_issues result))),
       (PStr ''issues'', PList (map issue_json (sc_issues result)))]))
    (retE (sc_compatible result)))"

definition scenario_unsupported_guest_os :: "(string, int) dict \<Rightarrow> failure_scenario \<times> (string, int) dict" where
  "scenario_unsupported_guest_os =
    run_scenario (new_scenario ''unsupported_guest_os'' (''Unsupported guest OS detection '' @ em_dash @ '' graceful handling''))
     (bindE (mapE evaluate_unsupported unsupported_oses) (\<lambda>compatible.
      let all_blocked = list_all Not compatible in
      setE (\<lambda>sc. sc\<lparr>fs_passed := all_blocked,
        fs_error_type := (if \<not> all_blocked then Some ''DetectionError'' else fs_error_type sc),
        fs_error_message := (if \<not> all_blocked then ''Some unsupported OSes were not flagged as incompatible'' else fs_error_message sc)\<rparr>)))"

definition partial_vm :: vm_summary where
  "partial_vm = summary_of ''partial-vm-1'' ''partial-vm'' ''poweredOn'' (Some ''Ubuntu 22.04'')
     (Some (scenario_hardware 4 16384 [scsi_disk 80] [vmxnet_nic ''VM Network'' ''00:50:56:01:02:03''])) None None None None"

definition scenario_partial_inventory_failure :: "(string, int) dict \<Rightarrow> failure_scenario \<times> (string, int) dict" where
  "scenario_partial_inventory_failure =
    run_scenario (new_scenario ''partial_inventory_failure'' (''Partial infrastructure failure '' @ em_dash @
        '' some services unavailable, assessment engine should still function for available data''))
     (bindE (besideE (evaluate partial_vm)) (\<lambda>result.
      setE (\<lambda>sc. sc\<lparr>fs_passed := True,
        fs_details := [(''compatible'', PBool (sc_compatible result)), (''score'', PFloat (sc_score result)),
          (''issue_count'', PInt (int (length (sc_issues result)))), (''issues'', PList (map issue_json (sc_issues result)))]\<rparr>)))"

section \<open>Outcomes\<close>

lemma scenario_steps [simp]:
  "note_detail k v (sc, w) = (Inr (), sc\<lparr>fs_details := dict_set (fs_details sc) k v\<rparr>, w)"
  "scenario_failed e (sc, w) = (Inr (), sc\<lparr>fs_passed := False, fs_error_type := Some (exn_name e), fs_error_message := exn_str e\<rparr>, w)"
  "skipped m d (sc, w) = (Inr (), sc\<lparr>fs_passed := True, fs_error_type := Some ''skipped'', fs_error_message := m, fs_details := d\<rparr>, w)"
  by (simp_all add: note_detail_def scenario_failed_def skipped_def)

text \<open>Actions that raise in every state, and what becomes of a scenario with such a body\<close>

definition always_raises :: "('w, 'a) act \<Rightarrow> bool" where
  "always_raises m \<longleftrightarrow> (\<forall>w. \<exists>e. fst (m w) = Inl e)"

lemma raises_bind: "(\<And>x. always_raises (f x)) \<Longrightarrow> always_raises (bindE m f)"
  by (auto simp: always_raises_def bindE_def split: prod.split sum.split)

lemma raises_then: "always_raises k \<Longrightarrow> always_raises (thenE m k)"
  by (auto simp: always_raises_def thenE_def split: prod.split sum.split)

lemma raises_first: "always_raises m \<Longrightarrow> always_raises (thenE m k)"
  unfolding always_raises_def
proof
  fix w assume m: "\<forall>w. \<exists>e. fst (m w) = Inl e"
  then obtain e where "fst (m w) = Inl e" by blast
  then show "\<exists>e. fst (thenE m k w) = Inl e" by (cases "m w") (simp add: thenE_def)
qed

lemma raises_release: "always_raises (pool_release c)"
  by (simp add: always_raises_def pool_release_def raiseE_def)

lemma raises_releases: "conns \<noteq> [] \<Longrightarrow> always_raises (forE pool_release conns)"
  by (cases conns) (simp_all add: raises_first raises_release)

lemma run_scenario_raises: "always_raises body \<Longrightarrow> \<not> fs_passed (fst (run_scenario sc body w))"
  unfolding always_raises_def run_scenario_def tryE_def
  by (drule spec [of _ "(sc, w)"]) (auto split: prod.splits)

lemma disconnect_passes_iff: "fs_passed (fst (scenario_vcenter_disconnect R)) \<longleftrightarrow> \<not> rv_vmware_ready R"
proof (cases "rv_vmware_ready R")
  case True
  show ?thesis unfolding scenario_vcenter_disconnect_def Let_def
    by (simp add: True, rule run_scenario_raises, rule raises_bind, rule raises_then, rule raises_first, rule raises_release)
qed (simp add: scenario_vcenter_disconnect_def run_scenario_def tryE_def)

lemma expired_passes_iff: "fs_passed (fst (scenario_expired_session R)) \<longleftrightarrow> \<not> rv_vmware_ready R"
proof (cases "rv_vmware_ready R")
  case True
  show ?thesis unfolding scenario_expired_session_def Let_def
    by (simp add: True, rule run_scenario_raises, rule raises_bind, rule raises_then, rule raises_bind, rule raises_first, rule raises_release)
qed (simp add: scenario_expired_session_def run_scenario_def tryE_def)

lemma mapE_nonempty: "mapE f (x # xs) w = (Inr ys, w') \<Longrightarrow> ys \<noteq> []"
  by (auto simp: bindE_def retE_def split: prod.splits sum.splits)

lemma raises_after_map:
  assumes "\<And>ys. ys \<noteq> [] \<Longrightarrow> always_raises (k ys)"
  shows "always_raises (bindE (mapE f (x # xs)) k)"
  unfolding always_raises_def
proof
  fix w
  show "\<exists>e. fst (bindE (mapE f (x # xs)) k w) = Inl e"
  proof (cases "mapE f (x # xs) w")
    case (Pair r w')
    then show ?thesis using mapE_nonempty [of f x xs w] assms
      by (cases r) (auto simp: bindE_def always_raises_def simp del: mapE.simps)
  qed
qed

lemma exhaustion_passes_iff: "fs_passed (fst (scenario_pool_exhaustion R)) \<longleftrightarrow> \<not> rv_vmware_ready R"
proof (cases "rv_vmware_ready R")
  case True
  have two: "[0 ..< nat (pf_max_pool_size (scenario_pool 600 60))] = [0, 1]" by (simp add: scenario_pool_def upt_rec)
  show ?thesis unfolding scenario_pool_exhaustion_def Let_def two
    by (simp add: True del: mapE.simps, rule run_scenario_raises, rule raises_after_map, rule raises_then, rule raises_then, rule raises_then,
        rule raises_then, rule raises_first, rule raises_releases)
qed (simp add: scenario_pool_exhaustion_def run_scenario_def tryE_def)

lemma mapE_constant:
  "(\<And>x w. x \<in> set xs \<Longrightarrow> \<exists>w'. f x w = (Inr c, w')) \<Longrightarrow> \<exists>w'. mapE f xs w = (Inr (map (\<lambda>_. c) xs), w')"
proof (induction xs arbitrary: w)
  case (Cons x xs)
  obtain w1 where "f x w = (Inr c, w1)" using Cons.prems by fastforce
  moreover obtain w2 where "mapE f xs w1 = (Inr (map (\<lambda>_. c) xs), w2)" using Cons by fastforce
  ultimately show ?case by (simp add: bindE_def retE_def)
qed (simp add: retE_def)

lemma evaluated: "\<exists>r m'. evaluate vm m = (Inr r, m') \<and> (sc_compatible r \<longleftrightarrow> \<not> blocked vm \<and> high_risks vm \<le> 2)"
  using evaluate_verdict_conditions [of vm m] by (metis fst_conv surj_pair)

lemma no_evaluation_errors: "\<exists>m'. count_evaluation_errors vms m = (Inr 0, m')"
proof -
  let ?f = "\<lambda>vm. tryE (bindE (evaluate vm) (\<lambda>_. retE 0)) (\<lambda>_. retE (1 :: int))"
  have "\<exists>m'. ?f vm m = (Inr 0, m')" for vm m
    using evaluated [of vm m] by (auto simp: tryE_def bindE_def retE_def)
  then obtain m' where "mapE ?f vms m = (Inr (map (\<lambda>_. 0) vms), m')"
    using mapE_constant [of vms ?f 0 m] by blast
  then show ?thesis unfolding count_evaluation_errors_def
    by (simp add: bindE_eqI retE_def map_replicate_const sum_list_replicate)
qed

lemma unsupported_names: "list_all (\<lambda>os. list_ex (\<lambda>bad. py_in bad (py_lower os)) UNSUPPORTED_OS_PREFIXES) unsupported_oses"
  by code_simp

lemma unsupported_blocked: "os \<in> set unsupported_oses \<Longrightarrow> blocked (unsupported_vm os)"
  using unsupported_names
  by (auto simp: blocked_def os_unsupported_def unsupported_vm_def summary_of_def list_all_iff list_ex_iff py_in_sublist)

lemma unsupported_evaluated: "\<exists>l'. mapE evaluate_unsupported unsupported_oses l = (Inr (map (\<lambda>_. False) unsupported_oses), l')"
proof (rule mapE_constant)
  fix os and l :: "failure_scenario \<times> (string, int) dict"
  assume os: "os \<in> set unsupported_oses"
  obtain sc m where l: "l = (sc, m)" by fastforce
  obtain r m1 where "evaluate (unsupported_vm os) m = (Inr r, m1)" "\<not> sc_compatible r"
    using evaluated [of "unsupported_vm os" m] unsupported_blocked [OF os] by blast
  then show "\<exists>l'. evaluate_unsupported os l = (Inr False, l')"
    by (simp add: l evaluate_unsupported_def bindE_def thenE_def besideE_apply retE_def)
qed

section \<open>Properties\<close>

text \<open>The three scenarios of the session pool pass exactly when there is no vCenter to test them with: they are skipped
  and counted as passed; with a vCenter they end in an AttributeError, whatever the pool does. The
  three scenarios of the assessment always pass: evaluating never raises, and the four unsupported
  systems are reported as incompatible.\<close>

theorem recovery_scenarios_outcome:
  "(fs_passed (fst (scenario_vcenter_disconnect R)) \<longleftrightarrow> \<not> rv_vmware_ready R) \<and>
   (fs_passed (fst (scenario_expired_session R)) \<longleftrightarrow> \<not> rv_vmware_ready R) \<and>
   (fs_passed (fst (scenario_pool_exhaustion R)) \<longleftrightarrow> \<not> rv_vmware_ready R) \<and>
   fs_passed (fst (scenario_malformed_vm_metadata m)) \<and> fs_passed (fst (scenario_unsupported_guest_os m)) \<and>
   fs_passed (fst (scenario_partial_inventory_failure m))"
proof (intro conjI disconnect_passes_iff expired_passes_iff exhaustion_passes_iff)
  show "fs_passed (fst (scenario_malformed_vm_metadata m))"
    using no_evaluation_errors [of edge_case_vms m]
    by (auto simp: scenario_malformed_vm_metadata_def run_scenario_def tryE_def bindE_def besideE_apply)
  let ?sc = "new_scenario ''unsupported_guest_os'' (''Unsupported guest OS detection '' @ em_dash @ '' graceful handling'')"
  obtain sc' m' where "mapE evaluate_unsupported unsupported_oses (?sc, m) = (Inr (map (\<lambda>_. False) unsupported_oses), sc', m')"
    using unsupported_evaluated [of "(?sc, m)"] by (metis surj_pair)
  then show "fs_passed (fst (scenario_unsupported_guest_os m))"
    unfolding scenario_unsupported_guest_os_def run_scenario_def by (simp add: tryE_def bindE_def list_all_iff)
  show "fs_passed (fst (scenario_partial_inventory_failure m))"
    using evaluated [of partial_vm m]
    by (auto simp: scenario_partial_inventory_failure_def run_scenario_def tryE_def bindE_def besideE_apply)
qed

end
