(* ===== verification/Vcenter_Validation.thy ===== *)
theory Vcenter_Validation
  imports Vmware_Client Benchmark_Dataset Recovery_Scenarios
begin

text \<open>
  scripts/validate_vcenter.py: the validation of a vCenter connection: connecting, listing the inventory with a spot check
  of five machines, a latency profile and the session pool. Each call of the client has its own record vcenter (what
  vCenter answers at that moment), and each measurement its own pair of readings of the performance counter.
\<close>

section \<open>Results and measurements\<close>

record check_result =
  ck_operation :: string
  ck_success :: bool
  ck_duration_ms :: rat
  ck_detail :: string
  ck_properties :: "(string, pyval) dict"

definition check_ok :: "string \<Rightarrow> rat \<Rightarrow> string \<Rightarrow> (string, pyval) dict \<Rightarrow> check_result" where
  "check_ok operation dur detail properties =
    \<lparr>ck_operation = operation, ck_success = True, ck_duration_ms = dur, ck_detail = detail, ck_properties = properties\<rparr>"

definition check_failed :: "string \<Rightarrow> string \<Rightarrow> check_result" where
  "check_failed operation detail =
    \<lparr>ck_operation = operation, ck_success = False, ck_duration_ms = 0, ck_detail = detail, ck_properties = []\<rparr>"

text \<open>_measure: the duration in milliseconds; the metric gets one observation, on success and on error.\<close>

definition measured_ms :: "rat \<times> rat \<Rightarrow> rat" where
  "measured_ms t = fmul (fsub (snd t) (fst t)) 1000"

definition measure_call :: "rat \<times> rat \<Rightarrow> string \<Rightarrow> (('s, 'm) vc_state_scheme, 'a) act \<Rightarrow> (('s, 'm) vc_state_scheme, 'a \<times> rat) act" where
  "measure_call t label fn =
    (let dur = measured_ms t;
         observe = (\<lambda>status. updE (\<lambda>w. w\<lparr>vc_durations := vc_durations w @ [(label, status, fdiv dur 1000)]\<rparr>))
     in tryE (bindE fn (\<lambda>result. thenE (observe ''success'') (retE (result, dur))))
          (\<lambda>exc. thenE (observe ''error'') (raiseE exc)))"

section \<open>Connecting\<close>

record vcenter_about =
  ab_version :: string
  ab_build :: string
  ab_full_name :: string
  ab_os_type :: string

definition version_check :: "exn + vcenter_about \<Rightarrow> check_result" where
  "version_check about = (case about of
     Inr a \<Rightarrow> check_ok ''vcenter_version'' 0 [] [(''version'', PStr (ab_version a)), (''build'', PStr (ab_build a)),
       (''fullName'', PStr (ab_full_name a)), (''osType'', PStr (ab_os_type a))]
   | Inl e \<Rightarrow> check_failed ''vcenter_version'' (exn_str e))"

definition vcenter_connection_checks :: "'s vcenter \<Rightarrow> string \<Rightarrow> ('s \<Rightarrow> exn + vcenter_about) \<Rightarrow> rat \<times> rat \<Rightarrow> (('s, 'm) vc_state_scheme, check_result list) act" where
  "vcenter_connection_checks vc host about t =
    (if \<not> pf_ready (vc_config vc) then retE [check_failed ''vmware_connection'' ''VMware env vars not set (VMWARE_HOST/USER/PASS)'']
     else tryE
       (bindE (measure_call t ''connect'' (vc_connect vc)) (\<lambda>(si, dur).
        retE [check_ok ''vmware_connection'' dur (''Connected to vCenter at '' @ host) [], version_check (about si)]))
       (\<lambda>e. retE [check_failed ''vmware_connection'' (''Connection failed: '' @ exn_str e)]))"

section \<open>The spot check\<close>

text \<open>The dictionary get_vm_detail returns\<close>

definition opt_str_json :: "string option \<Rightarrow> pyval" where
  "opt_str_json s = (case s of None \<Rightarrow> PNone | Some t \<Rightarrow> PStr t)"

definition raw_disk_json :: "raw_disk \<Rightarrow> pyval" where
  "raw_disk_json d = json_object [(''disk_file'', PStr (rd_disk_file d)), (''capacity_gb'', PInt (rd_capacity_gb d)),
     (''thin_provisioned'', PBool (rd_thin_provisioned d)), (''datastore_name'', opt_str_json (rd_datastore_name d))]"

definition raw_nic_json :: "raw_nic \<Rightarrow> pyval" where
  "raw_nic_json n = json_object [(''label'', PStr (rn_label n)), (''network_name'', PStr (rn_network_name n)),
     (''mac_address'', opt_str_json (rn_mac_address n)), (''nic_type'', PStr (rn_nic_type n))]"

definition detail_json :: "vm_description \<Rightarrow> pyval" where
  "detail_json d = json_object
    [(''id'', PStr (ds_id d)), (''name'', PStr (ds_name d)), (''power_state'', PStr (ds_power_state d)), (''guest_os'', PStr (ds_guest_os d)),
     (''cpu_count'', PInt (ds_cpu_count d)), (''cpu_cores_per_socket'', PInt (ds_cpu_cores_per_socket d)), (''memory_mb'', PInt (ds_memory_mb d)),
     (''disks'', PList (map raw_disk_json (ds_disks d))), (''nics'', PList (map raw_nic_json (ds_nics d))),
     (''datastores'', PList (map PStr (ds_datastores d))), (''cluster_name'', opt_str_json (ds_cluster_name d)),
     (''ip_addresses'', PList (map PStr (ds_ip_addresses d))), (''annotation'', PStr (ds_annotation d)),
     (''firmware'', opt_str_json (ds_firmware d)),
     (''secure_boot_enabled'', case ds_secure_boot_enabled d of None \<Rightarrow> PNone | Some b \<Rightarrow> PBool b),
     (''vmware_tools_status'', opt_str_json (ds_vmware_tools_status d)),
     (''disk_controller_types'', PList (map PStr (ds_disk_controller_types d))),
     (''nic_types'', PList (map (\<lambda>(l, t). json_object [(''label'', PStr l), (''nic_type'', PStr t)]) (ds_nic_types d)))]"

record spot_detail =
  sk_name :: pyval
  sk_id :: pyval
  sk_power_state :: pyval
  sk_guest_os :: pyval
  sk_firmware :: pyval
  sk_secure_boot :: pyval
  sk_tools_status :: pyval
  sk_cpu_count :: pyval
  sk_memory_mb :: pyval
  sk_disk_count :: int
  sk_disk_controller_types :: pyval
  sk_nic_count :: int
  sk_nic_types :: "pyval list"

fun py_len :: "pyval \<Rightarrow> exn + int" where
  "py_len (PList xs) = Inr (int (length xs))"
| "py_len (PDict d) = Inr (int (length d))"
| "py_len (PStr s) = Inr (int (code_points s))"
| "py_len v = Inl (PyException ''TypeError'' ''object has no len()'')"

definition is_dict :: "pyval \<Rightarrow> bool" where
  "is_dict v = (case v of PDict _ \<Rightarrow> True | _ \<Rightarrow> False)"

text \<open>\<^verbatim>\<open>hw.get(name, default) if isinstance(hw, dict) else default\<close>\<close>

definition hw_get :: "pyval \<Rightarrow> string \<Rightarrow> pyval \<Rightarrow> exn + pyval" where
  "hw_get hw name dflt = (if is_dict hw then json_get hw name dflt else Inr dflt)"

definition spot_info :: "pyval \<Rightarrow> string \<Rightarrow> exn + spot_detail" where
  "spot_info detail vmname =
    checkS (json_get detail ''hardware'' (PDict [])) (\<lambda>hw.
    checkS (hw_get hw ''disk_controller_types'' (PList [])) (\<lambda>controllers.
    checkS (hw_get hw ''nics'' (PList [])) (\<lambda>nics.
    checkS (case nics of PList ns \<Rightarrow> mapS (\<lambda>n. json_get n ''nic_type'' (PStr ''unknown'')) ns | _ \<Rightarrow> Inr []) (\<lambda>nic_types.
    checkS (json_get detail ''name'' (PStr ''unknown'')) (\<lambda>name.
    checkS (json_get detail ''id'' (PStr vmname)) (\<lambda>i.
    checkS (json_get detail ''power_state'' (PStr ''unknown'')) (\<lambda>power.
    checkS (json_get detail ''guest_os'' (PStr ''unknown'')) (\<lambda>os.
    checkS (json_get detail ''firmware'' PNone) (\<lambda>firmware.
    checkS (json_get detail ''secure_boot_enabled'' PNone) (\<lambda>secure.
    checkS (json_get detail ''vmware_tools_status'' PNone) (\<lambda>tools.
    checkS (hw_get hw ''cpu_count'' (PInt 0)) (\<lambda>cpus.
    checkS (hw_get hw ''memory_mb'' (PInt 0)) (\<lambda>mem.
    checkS (checkS (hw_get hw ''disks'' (PList [])) py_len) (\<lambda>disk_count.
    checkS (py_len nics) (\<lambda>nic_count.
    Inr \<lparr>sk_name = name, sk_id = i, sk_power_state = power, sk_guest_os = os, sk_firmware = firmware, sk_secure_boot = secure,
         sk_tools_status = tools, sk_cpu_count = cpus, sk_memory_mb = mem, sk_disk_count = disk_count,
         sk_disk_controller_types = controllers, sk_nic_count = nic_count, sk_nic_types = nic_types\<rparr>)))))))))))))))"

text \<open>\<^verbatim>\<open>vm.name if hasattr(vm, "name") else "unknown"\<close>\<close>

definition shown_name :: "vim_vm \<Rightarrow> string" where
  "shown_name vm = (case vv_name vm of None \<Rightarrow> ''unknown'' | Some n \<Rightarrow> n)"

definition error_detail :: "vim_vm \<Rightarrow> spot_detail" where
  "error_detail vm = \<lparr>sk_name = PStr (shown_name vm), sk_id = PStr ''unknown'', sk_power_state = PStr ''error'', sk_guest_os = PStr [],
     sk_firmware = PNone, sk_secure_boot = PNone, sk_tools_status = PNone, sk_cpu_count = PInt 0, sk_memory_mb = PInt 0, sk_disk_count = 0,
     sk_disk_controller_types = PList [], sk_nic_count = 0, sk_nic_types = []\<rparr>"

text \<open>One round of the loop: whether the machine was counted, and what is noted about it. vms_checked is
  incremented before the properties are extracted.\<close>

definition spot_check_vm :: "(vim_vm \<Rightarrow> rat \<times> rat) \<Rightarrow> vim_vm \<Rightarrow> (('s, 'm) vc_state_scheme, bool \<times> spot_detail) act" where
  "spot_check_vm t vm w =
    (case measure_call (t vm) ''get_vm_detail'' (outcomeE (get_vm_detail vm)) w of
       (Inl _, w') \<Rightarrow> (Inr (False, error_detail vm), w')
     | (Inr (detail, dur), w') \<Rightarrow> (case spot_info (detail_json detail) (shown_name vm) of
           Inl _ \<Rightarrow> (Inr (True, error_detail vm), w') | Inr info \<Rightarrow> (Inr (True, info), w')))"

definition spot_json :: "spot_detail \<Rightarrow> pyval" where
  "spot_json d = json_object
    [(''name'', sk_name d), (''id'', sk_id d), (''power_state'', sk_power_state d), (''guest_os'', sk_guest_os d), (''firmware'', sk_firmware d),
     (''secure_boot'', sk_secure_boot d), (''tools_status'', sk_tools_status d), (''cpu_count'', sk_cpu_count d), (''memory_mb'', sk_memory_mb d),
     (''disk_count'', PInt (sk_disk_count d)), (''disk_controller_types'', sk_disk_controller_types d), (''nic_count'', PInt (sk_nic_count d)),
     (''nic_types'', PList (sk_nic_types d))]"

definition spot_check :: "(vim_vm \<Rightarrow> rat \<times> rat) \<Rightarrow> vim_vm list \<Rightarrow> (('s, 'm) vc_state_scheme, check_result) act" where
  "spot_check t raw_vms =
    bindE (mapE (spot_check_vm t) (take 5 raw_vms)) (\<lambda>checked.
    retE (check_ok ''spot_check_vms'' 0
      (''Checked '' @ str_int (int (length (filter fst checked))) @ ''/'' @ str_int (min 5 (int (length raw_vms))) @ '' VM details'')
      [(''vms'', PList (map (spot_json \<circ> snd) checked))]))"

section \<open>The inventory\<close>

text \<open>One listing with its check\<close>

definition listing_check :: "rat \<times> rat \<Rightarrow> string \<Rightarrow> string \<Rightarrow> string \<Rightarrow> string \<Rightarrow> (('s, 'm) vc_state_scheme, 'o list) act \<Rightarrow>
    (('s, 'm) vc_state_scheme, check_result \<times> 'o list) act" where
  "listing_check t label operation noun key fn =
    tryE (bindE (measure_call t label fn) (\<lambda>(items, dur).
            retE (check_ok operation dur (''Retrieved '' @ str_int (int (length items)) @ '' '' @ noun) [(key, PInt (int (length items)))], items)))
      (\<lambda>e. retE (check_failed operation (exn_str e), []))"

definition vcenter_inventory_checks :: "(nat \<Rightarrow> 's vcenter) \<Rightarrow> (nat \<Rightarrow> rat \<times> rat) \<Rightarrow> (vim_vm \<Rightarrow> rat \<times> rat) \<Rightarrow> (('s, 'm) vc_state_scheme, check_result list) act" where
  "vcenter_inventory_checks V t tv =
    bindE (listing_check (t 0) ''list_vms'' ''inventory_vms'' ''VMs'' ''vm_count'' (vc_list_vms (V 0))) (\<lambda>(vms, raw_vms).
    bindE (spot_check tv raw_vms) (\<lambda>spot.
    bindE (listing_check (t 1) ''list_datastores'' ''inventory_datastores'' ''datastores'' ''ds_count'' (vc_list_datastores (V 1))) (\<lambda>(ds, _).
    bindE (listing_check (t 2) ''list_networks'' ''inventory_networks'' ''networks'' ''net_count'' (vc_list_networks (V 2))) (\<lambda>(nets, _).
    bindE (listing_check (t 3) ''list_clusters'' ''inventory_clusters'' ''clusters'' ''cluster_count'' (vc_list_clusters (V 3))) (\<lambda>(cls, _).
    bindE (listing_check (t 4) ''list_hosts'' ''inventory_hosts'' ''hosts'' ''host_count'' (vc_list_hosts (V 4))) (\<lambda>(hosts, _).
    retE [vms, spot, ds, nets, cls, hosts]))))))"

section \<open>The latency profile\<close>

text \<open>A listing called for its duration only\<close>

definition timed_listing :: "'s vcenter \<Rightarrow> rat \<times> rat \<Rightarrow> string \<Rightarrow> (('s, 'm) vc_state_scheme, rat option) act" where
  "timed_listing vc t op_name =
    (let timed = (\<lambda>fn. tryE (bindE (measure_call t op_name (bindE fn (\<lambda>_. retE ()))) (\<lambda>(_, dur). retE (Some dur))) (\<lambda>_. retE None))
     in if op_name = ''list_vms'' then timed (bindE (vc_list_vms vc) (\<lambda>_. retE ()))
        else if op_name = ''list_datastores'' then timed (bindE (vc_list_datastores vc) (\<lambda>_. retE ()))
        else if op_name = ''list_networks'' then timed (bindE (vc_list_networks vc) (\<lambda>_. retE ()))
        else if op_name = ''list_clusters'' then timed (bindE (vc_list_clusters vc) (\<lambda>_. retE ()))
        else timed (bindE (vc_list_hosts vc) (\<lambda>_. retE ())))"

definition profiled_operations :: "string list" where
  "profiled_operations = [''list_vms'', ''list_datastores'', ''list_networks'', ''list_clusters'', ''list_hosts'']"

definition latency_round :: "(string \<Rightarrow> 's vcenter) \<Rightarrow> (string \<Rightarrow> rat \<times> rat) \<Rightarrow> (string, rat list) dict \<Rightarrow>
    (('s, 'm) vc_state_scheme, (string, rat list) dict) act" where
  "latency_round V t latencies =
    mapE (\<lambda>(op_name, durs). bindE (timed_listing (V op_name) (t op_name) op_name) (\<lambda>d.
       retE (op_name, case d of None \<Rightarrow> durs | Some x \<Rightarrow> durs @ [x]))) latencies"

fun latency_rounds :: "nat \<Rightarrow> (nat \<Rightarrow> string \<Rightarrow> 's vcenter) \<Rightarrow> (nat \<Rightarrow> string \<Rightarrow> rat \<times> rat) \<Rightarrow> (string, rat list) dict \<Rightarrow>
    (('s, 'm) vc_state_scheme, (string, rat list) dict) act" where
  "latency_rounds 0 V t latencies = retE latencies"
| "latency_rounds (Suc n) V t latencies = bindE (latency_round (V n) (t n) latencies) (latency_rounds n V t)"

definition latency_check :: "(rat list \<Rightarrow> rat) \<Rightarrow> string \<times> rat list \<Rightarrow> exn + check_result" where
  "latency_check py_sum = (\<lambda>(op_name, durs).
    let avg = fdiv (py_sum (sort durs)) (fl (of_nat (length durs))) in
    checkS (p50_ms durs) (\<lambda>p50. checkS (p95_ms durs) (\<lambda>p95. checkS (p99_ms durs) (\<lambda>p99.
    Inr (check_ok (''latency_'' @ op_name) avg
      (''p50='' @ fmt_fixed 2 p50 @ ''ms p95='' @ fmt_fixed 2 p95 @ ''ms p99='' @ fmt_fixed 2 p99 @ ''ms (n='' @ str_int (int (length durs)) @ '')'')
      [(''avg_ms'', PFloat (py_round avg 2)), (''p50_ms'', PFloat (py_round p50 2)), (''p95_ms'', PFloat (py_round p95 2)),
       (''p99_ms'', PFloat (py_round p99 2)), (''min_ms'', PFloat (py_round (min_ms durs) 2)), (''max_ms'', PFloat (py_round (max_ms durs) 2)),
       (''sample_count'', PInt (int (length durs)))])))))"

definition latency_profile :: "(rat list \<Rightarrow> rat) \<Rightarrow> nat \<Rightarrow> (nat \<Rightarrow> string \<Rightarrow> 's vcenter) \<Rightarrow> (nat \<Rightarrow> string \<Rightarrow> rat \<times> rat) \<Rightarrow>
    (('s, 'm) vc_state_scheme, check_result list) act" where
  "latency_profile py_sum repeat V t =
    bindE (latency_rounds repeat V t (map (\<lambda>op_name. (op_name, [])) profiled_operations)) (\<lambda>latencies.
    outcomeE (mapS (latency_check py_sum) (filter (\<lambda>(_, durs). durs \<noteq> []) latencies)))"

section \<open>The pool\<close>

definition note_check :: "check_result \<Rightarrow> (check_result list \<times> 'w, unit) act" where
  "note_check r = setE (\<lambda>rs. rs @ [r])"

definition pool_check_body :: "'s acquire_env \<Rightarrow> 's acquire_env \<Rightarrow> ('s \<Rightarrow> bool) \<Rightarrow> (check_result list \<times> 's pool_state, unit) act" where
  "pool_check_body env1 env2 is_alive =
    (let pool = scenario_pool 30 5 in
     bindE (besideE (acquire pool env1)) (\<lambda>conn1.
     thenE (note_check (check_ok ''pool_acquire'' 0 ''Connection acquired from pool'' []))
     (let alive = is_alive (pc_si conn1) in
      thenE (note_check \<lparr>ck_operation = ''pool_is_alive'', ck_success = alive, ck_duration_ms = 0,
        ck_detail = ''Connection alive check: '' @ (if alive then ''True'' else ''False''), ck_properties = []\<rparr>)
      (thenE (pool_release conn1)
      (thenE (note_check (check_ok ''pool_release'' 0 ''Connection released back to pool'' []))
      (bindE (besideE (acquire pool env2)) (\<lambda>conn2.
       thenE (note_check (check_ok ''pool_reacquire'' 0 ''Connection re-acquired from pool'' []))
       (thenE (pool_release conn2)
       (thenE (besideE (updE disconnect_all))
        (note_check (check_ok ''pool_disconnect_all'' 0 ''All pool connections disconnected'' [])))))))))))"

definition pool_reconnect_checks :: "'s acquire_env \<Rightarrow> 's acquire_env \<Rightarrow> ('s \<Rightarrow> bool) \<Rightarrow> check_result list" where
  "pool_reconnect_checks env1 env2 is_alive =
    fst (snd (tryE (pool_check_body env1 env2 is_alive)
      (\<lambda>e. note_check (check_failed ''pool_validation'' (''Pool validation failed: '' @ exn_str e))) ([], new_pool)))"

section \<open>The whole validation\<close>

text \<open>The readings and answers of one run\<close>

record 's validation_env =
  ve_host :: string
  ve_about :: "'s \<Rightarrow> exn + vcenter_about"
  ve_connect :: "'s vcenter"
  ve_listing :: "nat \<Rightarrow> 's vcenter"
  ve_profile :: "nat \<Rightarrow> string \<Rightarrow> 's vcenter"
  ve_time_connect :: "rat \<times> rat"
  ve_time_listing :: "nat \<Rightarrow> rat \<times> rat"
  ve_time_detail :: "vim_vm \<Rightarrow> rat \<times> rat"
  ve_time_profile :: "nat \<Rightarrow> string \<Rightarrow> rat \<times> rat"
  ve_pool_first :: "'s acquire_env"
  ve_pool_second :: "'s acquire_env"
  ve_alive :: "'s \<Rightarrow> bool"
  ve_sum :: "rat list \<Rightarrow> rat"

text \<open>The steps of main after its check of the settings. The script makes one client for the first step and one for
  the second and third; vc_pool is the pool of the client, empty at first.\<close>

definition vcenter_validation :: "'s validation_env \<Rightarrow> bool \<Rightarrow> 's vc_state \<Rightarrow> (exn + check_result list) \<times> 's vc_state" where
  "vcenter_validation N quick =
    bindE (vcenter_connection_checks (ve_connect N) (ve_host N) (ve_about N) (ve_time_connect N)) (\<lambda>connection.
    if quick then retE connection
    else thenE (updE (\<lambda>w. w\<lparr>vc_pool := new_pool\<rparr>))
      (bindE (vcenter_inventory_checks (ve_listing N) (ve_time_listing N) (ve_time_detail N)) (\<lambda>inventory.
       bindE (latency_profile (ve_sum N) 5 (ve_profile N) (ve_time_profile N)) (\<lambda>latency.
       retE (connection @ inventory @ latency @ pool_reconnect_checks (ve_pool_first N) (ve_pool_second N) (ve_alive N))))))"

section \<open>What the checks can show\<close>

text \<open>The spot check tells nothing about the hardware of a machine: it looks for the sizes under a key hardware that
  get_vm_detail does not have, so every machine whose detail can be read is noted with no CPU, no memory, no
  disk and no adapter, whatever it has.\<close>

theorem spot_check_blank:
  assumes "get_vm_detail vm = Inr d"
  shows "\<exists>info w'. spot_check_vm t vm w = (Inr (True, info), w') \<and> sk_name info = PStr (ds_name d) \<and> sk_id info = PStr (ds_id d) \<and>
    sk_cpu_count info = PInt 0 \<and> sk_memory_mb info = PInt 0 \<and> sk_disk_count info = 0 \<and> sk_nic_count info = 0 \<and> sk_nic_types info = []"
proof -
  have "json_get (PDict []) k v = Inr v" for k v by (simp add: json_get_def dict_get_default_def)
  then show ?thesis using assms
    by (simp add: spot_check_vm_def measure_call_def spot_info_def detail_json_def json_get_object dict_get_default_def checkS_def hw_get_def
        is_dict_def bindE_def thenE_def tryE_def retE_def outcomeE_def updE_def Let_def)
qed

lemma pool_checks_fail: "\<exists>msg. check_failed ''pool_validation'' msg \<in> set (pool_reconnect_checks env1 env2 is_alive)"
  by (auto simp: pool_reconnect_checks_def pool_check_body_def note_check_def tryE_def bindE_def thenE_def besideE_def Let_def
      pool_release_def raiseE_def split: prod.split sum.split)

lemma returns_listing: "returns (listing_check t label operation noun key fn)"
  unfolding listing_check_def by (intro fails_intros)

lemma returns_spot_vm: "returns (spot_check_vm t vm)"
  by (auto simp: fails_with_def raises_only_def spot_check_vm_def split: prod.splits sum.splits)

lemma returns_connection: "returns (vcenter_connection_checks vc host about t)"
  unfolding vcenter_connection_checks_def by (intro fails_intros)

lemma returns_pair: "(\<And>x y. fails_with P (f x y)) \<Longrightarrow> fails_with P (case p of (x, y) \<Rightarrow> f x y)"
  by (cases p) simp

lemma returns_inventory: "returns (vcenter_inventory_checks V t tv)"
  unfolding vcenter_inventory_checks_def spot_check_def
  by (intro fails_intros returns_listing returns_spot_vm returns_pair)

lemma returns_timed: "returns (timed_listing vc t op_name)"
  unfolding timed_listing_def Let_def by (intro fails_intros returns_pair)

text \<open>A round adds at most one duration to every list.\<close>

lemma latency_round_result:
  "\<exists>ls' w'. latency_round V t ls w = (Inr ls', w') \<and> list_all2 (\<lambda>a b. length (snd b) \<le> Suc (length (snd a))) ls ls'"
proof (induction ls arbitrary: w)
  case (Cons x ls)
  obtain op_name durs where x: "x = (op_name, durs)" by fastforce
  obtain d w1 where "timed_listing (V op_name) (t op_name) op_name w = (Inr d, w1)" using returnsD [OF returns_timed] by blast
  moreover obtain ls' w2 where "latency_round V t ls w1 = (Inr ls', w2)" "list_all2 (\<lambda>a b. length (snd b) \<le> Suc (length (snd a))) ls ls'"
    using Cons.IH by blast
  ultimately show ?case by (simp add: latency_round_def bindE_def retE_def x split: option.split)
qed (simp add: latency_round_def retE_def)

lemma longer_by_one:
  "list_all2 (\<lambda>a b. length (snd b) \<le> Suc (length (snd a))) xs ys \<Longrightarrow> list_all (\<lambda>x. length (snd x) \<le> k) xs \<Longrightarrow>
   list_all (\<lambda>x. length (snd x) \<le> Suc k) ys"
  by (induction rule: list_all2_induct) auto

lemma latency_rounds_result:
  "list_all (\<lambda>x. length (snd x) \<le> k) ls \<Longrightarrow>
   \<exists>ls' w'. latency_rounds n V t ls w = (Inr ls', w') \<and> list_all (\<lambda>x. length (snd x) \<le> k + n) ls'"
proof (induction n arbitrary: ls k w)
  case (Suc n)
  obtain ls1 w1 where r: "latency_round (V n) (t n) ls w = (Inr ls1, w1)" "list_all2 (\<lambda>a b. length (snd b) \<le> Suc (length (snd a))) ls ls1"
    using latency_round_result by blast
  have "list_all (\<lambda>x. length (snd x) \<le> Suc k) ls1" using r(2) Suc.prems by (rule longer_by_one)
  from Suc.IH [OF this, of w1] show ?case by (simp add: bindE_def r(1))
qed (simp add: retE_def)

lemma latency_check_returns: "durs \<noteq> [] \<Longrightarrow> length durs < 2 ^ 46 \<Longrightarrow> \<exists>r. latency_check py_sum (op_name, durs) = Inr r"
  using percentiles_defined [of durs] by (auto simp: latency_check_def checkS_def Let_def)

lemma mapS_returns: "(\<And>x. x \<in> set xs \<Longrightarrow> \<exists>y. f x = Inr y) \<Longrightarrow> \<exists>ys. mapS f xs = Inr ys"
proof (induction xs)
  case (Cons x xs)
  obtain y ys where "f x = Inr y" "mapS f xs = Inr ys" using Cons by (metis list.set_intros)
  then show ?case by (simp add: checkS_def)
qed simp

lemma latency_profile_returns: "\<exists>rs w'. latency_profile py_sum 5 V t w = (Inr rs, w')"
proof -
  let ?start = "map (\<lambda>op_name. (op_name, [])) profiled_operations"
  have "list_all (\<lambda>x. length (snd x) \<le> 0) ?start" by (simp add: list_all_iff)
  then obtain ls w1 where r: "latency_rounds 5 V t ?start w = (Inr ls, w1)" "list_all (\<lambda>x. length (snd x) \<le> 0 + 5) ls"
    using latency_rounds_result by blast
  have "\<exists>rs. mapS (latency_check py_sum) (filter (\<lambda>(_, durs). durs \<noteq> []) ls) = Inr rs"
  proof (rule mapS_returns)
    fix x assume "x \<in> set (filter (\<lambda>(_, durs). durs \<noteq> []) ls)"
    then obtain op_name durs where "x = (op_name, durs)" "durs \<noteq> []" "length durs \<le> 5"
      using r(2) by (auto simp: list_all_iff)
    then show "\<exists>y. latency_check py_sum x = Inr y" using latency_check_returns by simp
  qed
  then show ?thesis using r(1) by (auto simp: latency_profile_def bindE_def outcomeE_def)
qed

text \<open>A complete validation of a vCenter always returns its results and never passes: whatever vCenter answers, the
  check of the pool ends with a failure, because the script calls a method release that the pool does not have.\<close>

theorem vcenter_validation_never_passes:
  "\<exists>rs msg w'. vcenter_validation N False w = (Inr rs, w') \<and> check_failed ''pool_validation'' msg \<in> set rs"
proof -
  obtain c w1 where "vcenter_connection_checks (ve_connect N) (ve_host N) (ve_about N) (ve_time_connect N) w = (Inr c, w1)"
    using returnsD [OF returns_connection] by blast
  moreover obtain i w2 where "vcenter_inventory_checks (ve_listing N) (ve_time_listing N) (ve_time_detail N) (w1\<lparr>vc_pool := new_pool\<rparr>) = (Inr i, w2)"
    using returnsD [OF returns_inventory] by blast
  moreover obtain l w3 where "latency_profile (ve_sum N) 5 (ve_profile N) (ve_time_profile N) w2 = (Inr l, w3)"
    using latency_profile_returns by blast
  moreover obtain msg where "check_failed ''pool_validation'' msg \<in> set (pool_reconnect_checks (ve_pool_first N) (ve_pool_second N) (ve_alive N))"
    using pool_checks_fail by blast
  ultimately show ?thesis by (auto simp: vcenter_validation_def bindE_def thenE_def updE_def retE_def)
qed

definition demo_vim_vm :: vim_vm where
  "demo_vim_vm = \<lparr>vv_id = None, vv_mo_id = Some ''vm-1'', vv_name = Some ''web'',
     vv_config = Some \<lparr>cf_hardware = Some \<lparr>vh_num_cpu = Some 4, vh_num_cores_per_socket = Some 1, vh_memory_mb = Some 8192, vh_device = Some []\<rparr>,
       cf_annotation = None, cf_firmware = None, cf_boot_options = None\<rparr>,
     vv_guest = None, vv_summary = None, vv_layout_disk = None, vv_datastore = [], vv_parent_name = None\<rparr>"

theorem spot_check_blank_witness:
  "\<exists>d info w'. get_vm_detail demo_vim_vm = Inr d \<and> ds_cpu_count d = 4 \<and>
    spot_check_vm (\<lambda>_. (0, 1)) demo_vim_vm \<lparr>vc_pool = new_pool, vc_durations = []\<rparr> = (Inr (True, info), w') \<and> sk_cpu_count info = PInt 0"
proof -
  obtain d where d: "get_vm_detail demo_vim_vm = Inr d" "ds_cpu_count d = 4"
    by (simp add: get_vm_detail_def guest_full_name_def extract_vm_nics_def demo_vim_vm_def hardware_of_def Let_def)
  from spot_check_blank [OF d(1), of "\<lambda>_. (0, 1)" "\<lparr>vc_pool = new_pool, vc_durations = []\<rparr>"] d show ?thesis by blast
qed

end
