(* ===== verification/App_Runtime.thy ===== *)
theory App_Runtime
  imports Metrics_Sync Audit_Log Monitoring Identity
begin

text \<open>
  The application as a process: its settings (app/core/config/settings.py), the database engine and session factory
  (app/db/session/session.py), start and stop (app/events, lifespan in app/main.py), the number of workers
  (gunicorn.conf.py) and the health endpoints.

  SQLAlchemy, the tracer and the set-up of logging are the fields of the record runtime_lib, which act on an outside
  state. The audit and metric queues are module-level and outlive a lifespan; their workers are tasks of it.
\<close>

section \<open>Settings\<close>

text \<open>The fields of Settings with their defaults.\<close>

record app_settings =
  as_app_name :: string
  as_app_env :: string
  as_app_debug :: bool
  as_app_host :: string
  as_app_port :: int
  as_api_v1_prefix :: string
  as_log_level :: string
  as_database_url :: string
  as_cors_origins_raw :: string
  as_openstack_auth_url :: string
  as_openstack_username :: string
  as_openstack_password :: string
  as_openstack_project_name :: string
  as_openstack_user_domain_name :: string
  as_openstack_project_domain_name :: string
  as_openstack_region_name :: string
  as_openstack_interface :: string
  as_openstack_verify_ssl :: bool
  as_openstack_pool_connections :: int
  as_openstack_pool_maxsize :: int
  as_openstack_timeout :: rat
  as_openstack_retry_max :: int
  as_openstack_retry_backoff :: rat
  as_openstack_list_limit :: int
  as_kubernetes_kubeconfig_path :: string
  as_kubernetes_in_cluster :: bool
  as_kubernetes_namespace :: string
  as_vmware_host :: string
  as_vmware_user :: string
  as_vmware_password :: string
  as_vmware_no_verify_ssl :: bool
  as_redis_url :: string
  as_cache_backend :: string
  as_otel_service_name :: string
  as_otel_endpoint :: string
  as_migration_disk_dir :: string
  as_cache_ttl_seconds :: int
  as_api_key :: string
  as_cache_ttl_servers :: int
  as_cache_ttl_images :: int
  as_cache_ttl_networks :: int
  as_cache_ttl_volumes :: int

definition default_settings :: app_settings where
  "default_settings =
    \<lparr>as_app_name = ''OKAstro Backend'', as_app_env = ''local'', as_app_debug = True, as_app_host = ''0.0.0.0'',
     as_app_port = 8000, as_api_v1_prefix = ''/api/v1'', as_log_level = ''INFO'',
     as_database_url = ''sqlite+aiosqlite:///./okastro.db'', as_cors_origins_raw = ''*'',
     as_openstack_auth_url = [], as_openstack_username = [], as_openstack_password = [],
     as_openstack_project_name = [], as_openstack_user_domain_name = ''Default'',
     as_openstack_project_domain_name = ''Default'', as_openstack_region_name = ''RegionOne'',
     as_openstack_interface = ''public'', as_openstack_verify_ssl = True, as_openstack_pool_connections = 20,
     as_openstack_pool_maxsize = 50, as_openstack_timeout = 60, as_openstack_retry_max = 2,
     as_openstack_retry_backoff = 1/2, as_openstack_list_limit = 200, as_kubernetes_kubeconfig_path = [],
     as_kubernetes_in_cluster = False, as_kubernetes_namespace = ''default'', as_vmware_host = [],
     as_vmware_user = [], as_vmware_password = [], as_vmware_no_verify_ssl = True,
     as_redis_url = ''redis://localhost:6379/0'', as_cache_backend = ''memory'', as_otel_service_name = ''okastro'',
     as_otel_endpoint = [], as_migration_disk_dir = ''/tmp/migrations'', as_cache_ttl_seconds = 300,
     as_api_key = [], as_cache_ttl_servers = 5, as_cache_ttl_images = 30, as_cache_ttl_networks = 30,
     as_cache_ttl_volumes = 10\<rparr>"

definition vmware_ready :: "app_settings \<Rightarrow> bool" where
  "vmware_ready s \<longleftrightarrow> list_all (\<lambda>x. x \<noteq> []) [as_vmware_host s, as_vmware_user s, as_vmware_password s]"

definition openstack_ready :: "app_settings \<Rightarrow> bool" where
  "openstack_ready s \<longleftrightarrow> list_all (\<lambda>x. x \<noteq> [])
     [as_openstack_auth_url s, as_openstack_username s, as_openstack_password s, as_openstack_project_name s]"

definition cors_origins :: "app_settings \<Rightarrow> string list" where
  "cors_origins s = (if py_strip (as_cors_origins_raw s) = ''*'' then [''*'']
     else map py_strip (filter (\<lambda>item. py_strip item \<noteq> []) (py_split CHR '','' (as_cors_origins_raw s))))"

text \<open>What configure_from_settings reads.\<close>

definition cache_settings_of :: "app_settings \<Rightarrow> cache_settings" where
  "cache_settings_of s =
    \<lparr>cs_cache_ttls = [(''servers'', as_cache_ttl_servers s), (''images'', as_cache_ttl_images s),
       (''networks'', as_cache_ttl_networks s), (''volumes'', as_cache_ttl_volumes s)],
     cs_cache_backend = as_cache_backend s, cs_redis_url = as_redis_url s,
     cs_openstack_project_name = as_openstack_project_name s\<rparr>"

section \<open>The engine and the session factory\<close>

record pool_opts =
  po_echo :: bool
  po_pre_ping :: bool
  po_pool_size :: int
  po_max_overflow :: int
  po_recycle :: int
  po_timeout :: int

record ('c, 'e) runtime_lib =
  rl_init_tracer :: "('c, unit) act"
  rl_configure_logging :: "string \<Rightarrow> ('c, unit) act"
  rl_create_async_engine :: "string \<Rightarrow> pool_opts \<Rightarrow> ('c, 'e) act"
  rl_dispose :: "'e \<Rightarrow> ('c, unit) act"
  rl_create_all :: "'e \<Rightarrow> ('c, unit) act"

record ('c, 'e, 'v, 'r, 'a, 'm) app_state =
  ap_outside :: 'c
  ap_engine :: "'e option"
  ap_bind :: "'e option"
  ap_cache :: "('v, 'r) oc_module"
  ap_backend_status :: rat
  ap_worker_count :: int
  ap_sync :: sync_state
  ap_sync_running :: bool
  ap_audit :: "'a worker_state"
  ap_metric :: "'m worker_state"

definition libE :: "('c, 'x) act \<Rightarrow> (('c, 'e, 'v, 'r, 'a, 'm) app_state, 'x) act" where [effect_defs]:
  "libE m w = (case m (ap_outside w) of (r, c) \<Rightarrow> (r, w\<lparr>ap_outside := c\<rparr>))"

definition init_db_engine :: "('c, 'e) runtime_lib \<Rightarrow> app_settings \<Rightarrow> string \<Rightarrow> (('c, 'e, 'v, 'r, 'a, 'm) app_state, unit) act" where
  "init_db_engine L s database_url =
    bindE (libE (rl_create_async_engine L database_url
      \<lparr>po_echo = as_app_debug s, po_pre_ping = True, po_pool_size = 5, po_max_overflow = 20, po_recycle = 3600, po_timeout = 30\<rparr>))
      (\<lambda>e. updE (\<lambda>w. w\<lparr>ap_engine := Some e, ap_bind := Some e\<rparr>))"

definition dispose_engine :: "('c, 'e) runtime_lib \<Rightarrow> (('c, 'e, 'v, 'r, 'a, 'm) app_state, unit) act" where
  "dispose_engine L = bindE (getE ap_engine) (\<lambda>engine. case engine of
     None \<Rightarrow> retE ()
   | Some e \<Rightarrow> thenE (tryE (libE (rl_dispose L e)) (\<lambda>_. retE ())) (updE (\<lambda>w. w\<lparr>ap_engine := None\<rparr>)))"

definition no_engine :: exn where
  "no_engine = PyException ''RuntimeError'' (''Engine not initialised '' @ [CHR 0xE2, CHR 0x80, CHR 0x94] @ '' call init_db_engine() first'')"

definition get_engine :: "(('c, 'e, 'v, 'r, 'a, 'm) app_state, 'e) act" where
  "get_engine = bindE (getE ap_engine) (\<lambda>engine. case engine of
     None \<Rightarrow> raiseE no_engine | Some e \<Rightarrow> retE e)"

definition init_db :: "('c, 'e) runtime_lib \<Rightarrow> (('c, 'e, 'v, 'r, 'a, 'm) app_state, unit) act" where
  "init_db L = bindE get_engine (\<lambda>eng. libE (rl_create_all L eng))"

section \<open>Start\<close>

definition on_startup :: "('c, 'e) runtime_lib \<Rightarrow> ('v, 'r) redis_client \<Rightarrow> app_settings \<Rightarrow> (('c, 'e, 'v, 'r, 'a, 'm) app_state, unit) act" where
  "on_startup L rc s =
    thenE (libE (rl_configure_logging L (as_log_level s)))
    (thenE (updE (\<lambda>w. w\<lparr>ap_cache := configure_from_settings rc (cache_settings_of s) (ap_cache w)\<rparr>))
      (tryE (init_db L) (\<lambda>_. retE ())))"

text \<open>worker_count.set(int(os.environ.get("GUNICORN_WORKERS", "8"))), and the number Gunicorn starts.\<close>

definition worker_gauge :: "(string, string) dict \<Rightarrow> exn + int" where
  "worker_gauge environ = py_int (PStr (dict_get_default environ ''GUNICORN_WORKERS'' ''8''))"

definition gunicorn_workers :: "int \<Rightarrow> (string, string) dict \<Rightarrow> exn + int" where
  "gunicorn_workers cores environ =
    (let recommended = cores * 2 + 1; default_workers = min recommended 8
     in py_int (PStr (dict_get_default environ ''GUNICORN_WORKERS'' (str_int default_workers))))"

definition start_worker :: "'x worker_state \<Rightarrow> 'x worker_state" where
  "start_worker s = s\<lparr>ws_batch := [], ws_alive := True\<rparr>"

text \<open>lifespan up to its yield. Redis answers for the two calls of configure_from_settings may differ, so there are two clients.\<close>

definition lifespan_startup :: "('c, 'e) runtime_lib \<Rightarrow> ('v, 'r) redis_client \<Rightarrow> ('v, 'r) redis_client \<Rightarrow> (string, string) dict \<Rightarrow> app_settings \<Rightarrow>
    (('c, 'e, 'v, 'r, 'a, 'm) app_state, unit) act" where
  "lifespan_startup L rc1 rc2 environ s =
    thenE (libE (rl_init_tracer L))
    (thenE (updE (\<lambda>w. w\<lparr>ap_audit := start_worker (ap_audit w), ap_metric := start_worker (ap_metric w)\<rparr>))
    (thenE (init_db_engine L s (as_database_url s))
    (thenE (updE (\<lambda>w. w\<lparr>ap_cache := configure_from_settings rc1 (cache_settings_of s) (ap_cache w)\<rparr>))
    (thenE (updE (\<lambda>w. w\<lparr>ap_backend_status := (if is_redis (ap_cache w) then 1 else 0)\<rparr>))
    (thenE (updE (\<lambda>w. w\<lparr>ap_sync := (ap_sync w)\<lparr>sy_last := sy_last sync_init\<rparr>, ap_sync_running := True\<rparr>))
    (bindE (outcomeE (worker_gauge environ)) (\<lambda>n.
     thenE (updE (\<lambda>w. w\<lparr>ap_worker_count := n\<rparr>))
       (on_startup L rc2 s))))))))"

section \<open>Stop\<close>

text \<open>What the outside does during the shutdown: the events the two workers see while the engine is disposed, the
  transaction of the drain with the exception it raises, and how a worker task that was not running had ended (None: it
  returned).\<close>

record ('a, 'm) shutdown_env =
  sd_audit_events :: "'a queue_event list"
  sd_metric_events :: "'m queue_event list"
  sd_drain :: flush_outcome
  sd_drain_error :: exn
  sd_meanwhile :: "flush_outcome option"
  sd_audit_end :: "exn option"
  sd_metric_end :: "exn option"

definition drain_audit :: "('a, 'm) shutdown_env \<Rightarrow> (('c, 'e, 'v, 'r, 'a, 'm) app_state, unit) act" where
  "drain_audit D w = (case drain_audit_queue (sd_drain D) (ap_audit w) of
     None \<Rightarrow> (Inl (sd_drain_error D), w\<lparr>ap_audit := (ap_audit w)\<lparr>ws_queue := []\<rparr>\<rparr>)
   | Some s \<Rightarrow> (Inr (), w\<lparr>ap_audit := (case sd_meanwhile D of None \<Rightarrow> s | Some o' \<Rightarrow> audit_flush_worker (IntervalElapsed o') s)\<rparr>))"

text \<open>Awaiting a cancelled task: a task that was running raises CancelledError, which is caught; one that had ended
  before gives what it ended with.\<close>

definition await_task :: "bool \<Rightarrow> exn option \<Rightarrow> ('w, unit) act" where
  "await_task was_alive ended = (if was_alive then retE () else case ended of None \<Rightarrow> retE () | Some e \<Rightarrow> raiseE e)"

definition on_shutdown :: "('c, 'e) runtime_lib \<Rightarrow> (('c, 'e, 'v, 'r, 'a, 'm) app_state, unit) act" where
  "on_shutdown L = dispose_engine L"

definition lifespan_stop :: "('c, 'e) runtime_lib \<Rightarrow> ('a, metric_entry) shutdown_env \<Rightarrow> (('c, 'e, 'v, 'r, 'a, metric_entry) app_state, unit) act" where
  "lifespan_stop L D =
    thenE (updE (\<lambda>w. w\<lparr>ap_sync_running := False\<rparr>))
    (thenE (on_shutdown L)
    (thenE (updE (\<lambda>w. w\<lparr>ap_audit := run_events audit_flush_worker (sd_audit_events D) (ap_audit w),
                       ap_metric := run_events metric_flush_worker (sd_metric_events D) (ap_metric w)\<rparr>))
    (thenE (updE (\<lambda>w. w\<lparr>ap_audit := enqueue_shutdown_signal (ap_audit w)\<rparr>))
    (thenE (drain_audit D)
    (thenE (updE (\<lambda>w. w\<lparr>ap_metric := enqueue_metric_shutdown (ap_metric w)\<rparr>))
    (bindE (getE (\<lambda>w. (ws_alive (ap_audit w), ws_alive (ap_metric w)))) (\<lambda>(audit_alive, metric_alive).
     thenE (updE (\<lambda>w. w\<lparr>ap_audit := worker_dies (ap_audit w), ap_metric := worker_dies (ap_metric w)\<rparr>))
     (thenE (await_task audit_alive (sd_audit_end D))
       (await_task metric_alive (sd_metric_end D))))))))))"

section \<open>Health endpoints\<close>

record health_response =
  hr_status :: string
  hr_service :: string
  hr_environment :: string

definition health :: "app_settings \<Rightarrow> health_response" where
  "health s = \<lparr>hr_status = ''ok'', hr_service = as_app_name s, hr_environment = as_app_env s\<rparr>"

record openstack_health_response =
  oh_status :: string
  oh_service :: string
  oh_authenticated :: bool

definition openstack_health :: "auth_settings \<Rightarrow> 'c os_sdk \<Rightarrow> 'c auth_sdk \<Rightarrow> (('c, 'm) os_state_scheme, openstack_health_response) act" where
  "openstack_health s sdk au =
    thenE (validate_connection s sdk au) (retE \<lparr>oh_status = ''ok'', oh_service = ''openstack'', oh_authenticated = True\<rparr>)"

definition detailed_health :: "exn option \<Rightarrow> string \<times> service_health list" where
  "detailed_health db_fails =
    (let services = get_service_health db_fails
     in (if list_all (\<lambda>s. sh_status s = ''ok'') services then ''ok'' else ''degraded'', services))"

section \<open>Start and stop\<close>

definition uses_redis :: "('v, 'r) redis_client \<Rightarrow> app_settings \<Rightarrow> bool" where
  "uses_redis rc s \<longleftrightarrow> as_cache_backend s = ''redis'' \<and> as_redis_url s \<noteq> [] \<and>
     (\<exists>r. RedisCache rc (as_redis_url s) (as_openstack_project_name s) = Inr r)"

lemma configured_backend:
  "is_redis (configure_from_settings rc (cache_settings_of s) c) \<longleftrightarrow> uses_redis rc s"
  "oc_backend (configure_from_settings rc (cache_settings_of s) c) \<noteq> None"
  by (auto simp: is_redis_def configure_from_settings_def init_cache_backend_def uses_redis_def cache_settings_of_def Let_def split: sum.split)

lemma run_steps:
  "thenE (updE f) k w = k (f w)"
  "thenE (libE m) k w = (case m (ap_outside w) of (Inl e, c) \<Rightarrow> (Inl e, w\<lparr>ap_outside := c\<rparr>) | (Inr _, c) \<Rightarrow> k (w\<lparr>ap_outside := c\<rparr>))"
  "bindE (libE m) g w = (case m (ap_outside w) of (Inl e, c) \<Rightarrow> (Inl e, w\<lparr>ap_outside := c\<rparr>) | (Inr x, c) \<Rightarrow> g x (w\<lparr>ap_outside := c\<rparr>))"
  "bindE (outcomeE r) h w = (case r of Inl e \<Rightarrow> (Inl e, w) | Inr x \<Rightarrow> h x w)"
  "thenE (bindE m' g') k w = bindE m' (\<lambda>x. thenE (g' x) k) w"
  by (simp_all add: thenE_def bindE_def updE_def libE_def outcomeE_def split: prod.split sum.split)

lemma init_db_swallowed: "\<exists>c. tryE (init_db L) (\<lambda>_. retE ()) w = (Inr (), w\<lparr>ap_outside := c\<rparr>)"
  by (cases "ap_engine w")
     (auto simp: init_db_def get_engine_def tryE_def bindE_def getE_def raiseE_def retE_def libE_def split: prod.split sum.split
       intro: exI [of _ "ap_outside w"])

text \<open>C22: A start of the application that succeeds leaves one engine, to which the session factory is bound, both workers
  running with the queues as they were, the polling task running, and a cache backend; the gauge of the backend
  is set from the first of the two configurations of the cache, the cache itself is from the second. A start fails only
  when the tracer, the engine, the number of workers or the logging cannot be set up: a database whose tables cannot be created does
  not stop it.\<close>

theorem startup_outcome:
  "case lifespan_startup L rc1 rc2 environ s w of
     (Inr _, w') \<Rightarrow> (\<exists>e. ap_engine w' = Some e \<and> ap_bind w' = Some e) \<and>
       ap_audit w' = start_worker (ap_audit w) \<and> ap_metric w' = start_worker (ap_metric w) \<and> ap_sync_running w' \<and>
       oc_backend (ap_cache w') \<noteq> None \<and> (is_redis (ap_cache w') \<longleftrightarrow> uses_redis rc2 s) \<and>
       ap_backend_status w' = (if uses_redis rc1 s then 1 else 0) \<and> worker_gauge environ = Inr (ap_worker_count w')
   | (Inl exc, w') \<Rightarrow> worker_gauge environ = Inl exc \<or> (\<exists>c c'. rl_init_tracer L c = (Inl exc, c') \<or>
       (\<exists>opts. rl_create_async_engine L (as_database_url s) opts c = (Inl exc, c')) \<or> rl_configure_logging L (as_log_level s) c = (Inl exc, c'))"
proof -
  let ?opts = "\<lparr>po_echo = as_app_debug s, po_pre_ping = True, po_pool_size = 5, po_max_overflow = 20, po_recycle = 3600, po_timeout = 30\<rparr>"
  obtain r1 c1 where tracer: "rl_init_tracer L (ap_outside w) = (r1, c1)" by fastforce
  obtain r2 c2 where engine: "rl_create_async_engine L (as_database_url s) ?opts c1 = (r2, c2)" by fastforce
  obtain r3 c3 where logging: "rl_configure_logging L (as_log_level s) c2 = (r3, c3)" by fastforce
  note startup = lifespan_startup_def on_startup_def init_db_engine_def thenE_def bindE_def libE_def updE_def outcomeE_def
  show ?thesis
  proof (cases r1; cases r2; cases "worker_gauge environ"; cases r3)
    fix u e n u'
    assume ok: "r1 = Inr u" "r2 = Inr e" "worker_gauge environ = Inr n" "r3 = Inr u'"
    let ?cache = "configure_from_settings rc2 (cache_settings_of s) (configure_from_settings rc1 (cache_settings_of s) (ap_cache w))"
    let ?w = "w\<lparr>ap_audit := start_worker (ap_audit w), ap_metric := start_worker (ap_metric w), ap_engine := Some e, ap_bind := Some e,
      ap_backend_status := (if uses_redis rc1 s then 1 else 0), ap_sync := (ap_sync w)\<lparr>sy_last := sy_last sync_init\<rparr>,
      ap_sync_running := True, ap_worker_count := n, ap_outside := c3, ap_cache := ?cache\<rparr>"
    obtain c where "tryE (init_db L) (\<lambda>_. retE ()) ?w = (Inr (), ?w\<lparr>ap_outside := c\<rparr>)"
      using init_db_swallowed [of L ?w] by (elim exE)
    then have "lifespan_startup L rc1 rc2 environ s w = (Inr (), ?w\<lparr>ap_outside := c\<rparr>)"
      using tracer engine logging ok
      by (simp add: lifespan_startup_def on_startup_def init_db_engine_def run_steps configured_backend)
    then show ?thesis using ok(3) by (simp add: configured_backend del: not_None_eq)
  qed (use tracer engine logging in \<open>force simp: startup\<close>)+
qed

lemma dispose_result: "\<exists>c. dispose_engine L w = (Inr (), w\<lparr>ap_outside := c, ap_engine := None\<rparr>)"
proof (cases "ap_engine w")
  case None
  then have "dispose_engine L w = (Inr (), w\<lparr>ap_outside := ap_outside w, ap_engine := None\<rparr>)"
    by (cases w) (simp add: dispose_engine_def bindE_def getE_def retE_def)
  then show ?thesis ..
next
  case (Some e)
  obtain r c where "rl_dispose L e (ap_outside w) = (r, c)" by fastforce
  then have "dispose_engine L w = (Inr (), w\<lparr>ap_outside := c, ap_engine := None\<rparr>)"
    using Some by (cases r) (simp_all add: dispose_engine_def bindE_def thenE_def tryE_def libE_def getE_def retE_def updE_def)
  then show ?thesis ..
qed


definition quiet_stop :: "(nat, metric_entry) shutdown_env" where
  "quiet_stop = \<lparr>sd_audit_events = [], sd_metric_events = [], sd_drain = FlushOk, sd_drain_error = PyException ''OperationalError'' [],
     sd_meanwhile = None, sd_audit_end = None, sd_metric_end = None\<rparr>"

definition idle_lib :: "(unit, nat) runtime_lib" where
  "idle_lib = \<lparr>rl_init_tracer = retE (), rl_configure_logging = (\<lambda>_. retE ()), rl_create_async_engine = (\<lambda>_ _. retE 1),
     rl_dispose = (\<lambda>_. retE ()), rl_create_all = (\<lambda>_. retE ())\<rparr>"

definition running_app :: "(unit, nat, unit, unit, nat, metric_entry) app_state" where
  "running_app = \<lparr>ap_outside = (), ap_engine = Some 1, ap_bind = Some 1, ap_cache = \<lparr>oc_ttls = [], oc_backend = None, oc_counters = no_counters\<rparr>,
     ap_backend_status = 0, ap_worker_count = 8, ap_sync = sync_init, ap_sync_running = True,
     ap_audit = \<lparr>ws_queue = [Some 3, Some 4], ws_batch = [1, 2], ws_db = [0], ws_alive = True\<rparr>, ap_metric = ws_init\<rparr>"


section \<open>Settings, workers and health\<close>

lemma py_split_free: "d \<notin> set x \<Longrightarrow> py_split d x = [x]"
  by (induction x) auto

lemma py_split_first: "d \<notin> set x \<Longrightarrow> py_split d (x @ d # s) = x # py_split d s"
  by (induction x) auto

lemma py_split_join: "os \<noteq> [] \<Longrightarrow> list_all (\<lambda>x. d \<notin> set x) os \<Longrightarrow> py_split d (py_join [d] os) = os"
  by (induction "[d]" os rule: py_join.induct) (simp_all add: py_split_free py_split_first)

lemma kept_by_strip: "c \<in> set s \<Longrightarrow> \<not> is_space c \<Longrightarrow> c \<in> set (py_strip s)"
proof -
  have "c \<in> set xs \<Longrightarrow> \<not> is_space c \<Longrightarrow> c \<in> set (dropWhile is_space xs)" for xs by (induction xs) auto
  then show "c \<in> set s \<Longrightarrow> \<not> is_space c \<Longrightarrow> c \<in> set (py_strip s)" by (simp add: py_strip_def)
qed

text \<open>A list of origins written with commas between them is read back as it is: the middleware allows exactly the origins
  that were configured.\<close>

theorem cors_origins_round_trip:
  assumes "list_all (\<lambda>x. x \<noteq> [] \<and> CHR '','' \<notin> set x \<and> py_strip x = x) origins"
  shows "cors_origins (s\<lparr>as_cors_origins_raw := py_join '','' origins\<rparr>) = origins"
proof (cases "py_strip (py_join '','' origins) = ''*''")
  case True
  have "origins = [''*'']"
  proof (cases "('','', origins)" rule: py_join.cases)
    case (3 sep x y ys)
    then have "origins = x # y # ys" by simp
    then have "CHR '','' \<in> set (py_join '','' origins)" by simp
    then have "CHR '','' \<in> set ''*''" using kept_by_strip [of "CHR '',''" "py_join '','' origins"] True by (simp add: is_space_def)
    then show ?thesis by simp
  qed (use True assms in \<open>simp_all add: py_strip_def\<close>)
  then show ?thesis by (simp add: cors_origins_def py_strip_def is_space_def)
next
  case False
  then show ?thesis
  proof (cases "origins = []")
    case empty: False
    have "py_split CHR '','' (py_join '','' origins) = origins" using assms empty by (intro py_split_join) (auto simp: list_all_iff)
    then show ?thesis using False assms by (auto simp: cors_origins_def list_all_iff filter_id_conv intro!: map_idI)
  qed (simp add: cors_origins_def py_strip_def)
qed

theorem cors_origins_round_trip_witness:
  "cors_origins (default_settings\<lparr>as_cors_origins_raw := ''http://a,http://b''\<rparr>) = [''http://a'', ''http://b'']"
  using cors_origins_round_trip [of "[''http://a'', ''http://b'']" default_settings] by (simp add: py_strip_def is_space_def)

text \<open>The gauge of workers tells the number of workers Gunicorn starts when GUNICORN_WORKERS is set; when it is not, only on
  a host with four cores or more, because the gauge assumes 8 where Gunicorn takes at most 2 * cores + 1.\<close>

theorem worker_gauge_agrees:
  "worker_gauge environ = gunicorn_workers cores environ \<longleftrightarrow> dict_get environ ''GUNICORN_WORKERS'' \<noteq> None \<or> 4 \<le> cores"
proof -
  have "int_of_string ''8'' = Some 8" by code_simp
  then show ?thesis
    by (auto simp: worker_gauge_def gunicorn_workers_def dict_get_default_def int_of_string_str_int Let_def split: option.split)
qed

text \<open>The detailed health is degraded exactly when the query of the database fails; the list of services then contains the
  database twice, once as working and once as down.\<close>

theorem detailed_health_outcome:
  "(fst (detailed_health db_fails) = ''ok'' \<longleftrightarrow> db_fails = None) \<and>
   map sh_status (filter (\<lambda>s. sh_name s = ''database'') (snd (detailed_health (Some e)))) = [''ok'', ''down'']"
  by (simp add: detailed_health_def get_service_health_def Let_def split: option.split)

end
