(* ===== verification/Routing.thy ===== *)
theory Routing
  imports Py_Effects
begin

text \<open>
  The table of routes of the service: the decorators of the endpoint modules under app/api/v1/endpoints, one list per
  module in the order of the file, and app/api/router.py, which includes the modules under their prefixes.
  Paths are relative to api_v1_prefix. A router made with dependencies=[Depends(verify_api_key)] guards all its routes.

  Matching a path with a template is done by Starlette and is a parameter; starlette_matching states what its
  documentation says: a template and a path agree segment by segment, a parameter in braces standing for one non-empty segment.
\<close>

section \<open>The table\<close>

datatype http_method = GET | POST | DELETE | PATCH

type_synonym endpoint = "http_method \<times> string \<times> string"

record route =
  rt_guarded :: bool
  rt_method :: http_method
  rt_template :: string
  rt_endpoint :: string

definition include_router :: "bool \<Rightarrow> string \<Rightarrow> endpoint list \<Rightarrow> route list" where
  "include_router guarded pre es =
    map (\<lambda>(m, path, f). \<lparr>rt_guarded = guarded, rt_method = m, rt_template = pre @ path, rt_endpoint = f\<rparr>) es"

definition audit_routes :: "endpoint list" where
  "audit_routes =
    [(GET, ''/logs'', ''list_audit_logs'')]"

definition health_routes :: "endpoint list" where
  "health_routes =
    [(GET, ''/health'', ''health''),
     (GET, ''/health/openstack'', ''openstack_health''),
     (GET, ''/health/detailed'', ''detailed_health'')]"

definition auth_routes :: "endpoint list" where
  "auth_routes =
    [(GET, ''/config'', ''auth_config''),
     (POST, ''/validate'', ''validate_openstack''),
     (GET, ''/session'', ''openstack_session''),
     (GET, ''/endpoints'', ''openstack_endpoints'')]"

definition tenants_routes :: "endpoint list" where
  "tenants_routes =
    [(GET, ''/projects'', ''list_projects''),
     (GET, ''/projects/{project_id}'', ''get_project''),
     (POST, ''/projects'', ''create_project''),
     (DELETE, ''/projects/{project_id}'', ''delete_project'')]"

definition compute_routes :: "endpoint list" where
  "compute_routes =
    [(GET, ''/servers'', ''list_servers''),
     (POST, ''/servers'', ''create_server''),
     (GET, ''/servers/{server_id}'', ''get_server''),
     (POST, ''/servers/{server_id}/actions'', ''server_action''),
     (DELETE, ''/servers/{server_id}'', ''delete_server''),
     (POST, ''/servers/{server_id}/volumes'', ''attach_volume''),
     (DELETE, ''/servers/{server_id}/volumes/{volume_id}'', ''detach_volume''),
     (POST, ''/servers/{server_id}/resize'', ''resize_server''),
     (POST, ''/servers/{server_id}/resize/action'', ''resize_server_action''),
     (POST, ''/servers/{server_id}/snapshots'', ''create_server_snapshot'')]"

definition flavors_routes :: "endpoint list" where
  "flavors_routes =
    [(GET, [], ''list_flavors''),
     (GET, ''/{flavor_id}'', ''get_flavor''),
     (POST, [], ''create_flavor''),
     (DELETE, ''/{flavor_id}'', ''delete_flavor'')]"

definition images_routes :: "endpoint list" where
  "images_routes =
    [(GET, [], ''list_images''),
     (GET, ''/{image_id}'', ''get_image''),
     (POST, [], ''create_image''),
     (DELETE, ''/{image_id}'', ''delete_image'')]"

definition keypairs_routes :: "endpoint list" where
  "keypairs_routes =
    [(GET, [], ''list_keypairs''),
     (GET, ''/{keypair_name}'', ''get_keypair''),
     (POST, [], ''create_keypair''),
     (DELETE, ''/{keypair_name}'', ''delete_keypair'')]"

definition networks_routes :: "endpoint list" where
  "networks_routes =
    [(GET, [], ''list_networks''),
     (GET, ''/{network_id}'', ''get_network''),
     (POST, [], ''create_network''),
     (DELETE, ''/{network_id}'', ''delete_network'')]"

definition routers_routes :: "endpoint list" where
  "routers_routes =
    [(GET, [], ''list_routers''),
     (GET, ''/{router_id}'', ''get_router''),
     (POST, [], ''create_router''),
     (DELETE, ''/{router_id}'', ''delete_router''),
     (POST, ''/{router_id}/interfaces'', ''add_interface''),
     (DELETE, ''/{router_id}/interfaces/{subnet_id}'', ''remove_interface'')]"

definition security_groups_routes :: "endpoint list" where
  "security_groups_routes =
    [(GET, [], ''list_security_groups''),
     (GET, ''/{security_group_id}'', ''get_security_group''),
     (POST, [], ''create_security_group''),
     (DELETE, ''/{security_group_id}'', ''delete_security_group''),
     (POST, ''/{security_group_id}/rules'', ''create_security_group_rule''),
     (DELETE, ''/rules/{rule_id}'', ''delete_security_group_rule'')]"

definition storage_routes :: "endpoint list" where
  "storage_routes =
    [(GET, ''/pools'', ''list_pools''),
     (GET, ''/pools/{pool_id}'', ''get_pool''),
     (POST, ''/pools'', ''create_pool''),
     (DELETE, ''/pools/{pool_id}'', ''delete_pool'')]"

definition volumes_routes :: "endpoint list" where
  "volumes_routes =
    [(GET, [], ''list_volumes''),
     (GET, ''/{volume_id}'', ''get_volume''),
     (POST, [], ''create_volume''),
     (DELETE, ''/{volume_id}'', ''delete_volume'')]"

definition clusters_routes :: "endpoint list" where
  "clusters_routes =
    [(GET, [], ''list_clusters''),
     (GET, ''/{cluster_id}'', ''get_cluster''),
     (POST, [], ''create_cluster''),
     (DELETE, ''/{cluster_id}'', ''delete_cluster''),
     (POST, ''/{cluster_id}/deploy'', ''batch_deploy'')]"

definition migrations_routes :: "endpoint list" where
  "migrations_routes =
    [(GET, [], ''list_migrations''),
     (GET, ''/{migration_id}'', ''get_migration''),
     (POST, [], ''create_migration''),
     (POST, ''/{migration_id}/progress'', ''update_migration_progress'')]"

definition operations_routes :: "endpoint list" where
  "operations_routes =
    [(GET, ''/tasks'', ''list_operation_tasks''),
     (GET, ''/tasks/{task_id}'', ''get_operation_task''),
     (GET, ''/scaling-policies'', ''list_scaling_policies''),
     (GET, ''/scaling-policies/{policy_id}'', ''get_scaling_policy''),
     (POST, ''/scaling-policies'', ''create_scaling_policy''),
     (DELETE, ''/scaling-policies/{policy_id}'', ''delete_scaling_policy''),
     (GET, ''/scheduled-tasks'', ''list_scheduled_tasks''),
     (GET, ''/scheduled-tasks/{task_id}'', ''get_scheduled_task''),
     (POST, ''/scheduled-tasks'', ''create_scheduled_task''),
     (DELETE, ''/scheduled-tasks/{task_id}'', ''delete_scheduled_task'')]"

definition kubernetes_routes :: "endpoint list" where
  "kubernetes_routes =
    [(GET, ''/pods'', ''list_pods''),
     (GET, ''/pods/{name}'', ''get_pod''),
     (POST, ''/pods'', ''create_pod''),
     (DELETE, ''/pods/{name}'', ''delete_pod''),
     (GET, ''/deployments'', ''list_deployments''),
     (GET, ''/deployments/{name}'', ''get_deployment''),
     (POST, ''/deployments'', ''create_deployment''),
     (DELETE, ''/deployments/{name}'', ''delete_deployment''),
     (PATCH, ''/deployments/{name}/scale'', ''scale_deployment''),
     (GET, ''/services'', ''list_services''),
     (GET, ''/services/{name}'', ''get_service''),
     (POST, ''/services'', ''create_service''),
     (DELETE, ''/services/{name}'', ''delete_service''),
     (GET, ''/cluster'', ''get_cluster_info'')]"

definition monitoring_routes :: "endpoint list" where
  "monitoring_routes =
    [(GET, ''/metrics'', ''query_metrics''),
     (GET, ''/metrics/latest'', ''get_latest_metrics''),
     (GET, ''/hypervisors'', ''get_hypervisor_usage''),
     (GET, ''/projects'', ''get_project_usage''),
     (GET, ''/alerts'', ''list_alerts''),
     (POST, ''/alerts/{alert_id}/resolve'', ''resolve_alert''),
     (GET, ''/cache-stats'', ''get_cache_stats''),
     (GET, ''/dashboard'', ''get_dashboard'')]"

definition vmware_inventory_routes :: "endpoint list" where
  "vmware_inventory_routes =
    [(GET, ''/vms'', ''list_vms''),
     (GET, ''/vms/{vm_id}'', ''get_vm''),
     (GET, ''/datastores'', ''list_datastores''),
     (GET, ''/networks'', ''list_networks''),
     (POST, ''/sync'', ''sync_inventory'')]"

definition vmware_assessment_routes :: "endpoint list" where
  "vmware_assessment_routes =
    [(POST, ''/assess'', ''assess_vms''),
     (POST, ''/assess/{vm_id}/compatibility'', ''assess_single_compatibility''),
     (POST, ''/assess/{vm_id}/mapping'', ''map_single_vm''),
     (POST, ''/plan'', ''create_migration_plan''),
     (GET, ''/assessments'', ''list_persisted_assessments''),
     (GET, ''/assessment/{assessment_id}'', ''get_persisted_assessment''),
     (GET, ''/plans'', ''list_persisted_plans''),
     (GET, ''/plan/{plan_id}'', ''get_persisted_plan''),
     (POST, ''/assess/parallel'', ''assess_vms_parallel''),
     (GET, ''/assess/parallel/{task_id}'', ''get_parallel_progress'')]"

definition vm_lifecycle_routes :: "endpoint list" where
  "vm_lifecycle_routes =
    [(POST, ''/servers'', ''create_vm''),
     (GET, ''/servers'', ''list_vms''),
     (GET, ''/servers/{server_id}'', ''get_vm''),
     (POST, ''/servers/{server_id}/start'', ''start_vm''),
     (POST, ''/servers/{server_id}/stop'', ''stop_vm''),
     (POST, ''/servers/{server_id}/reboot'', ''reboot_vm''),
     (DELETE, ''/servers/{server_id}'', ''delete_vm''),
     (GET, ''/servers/active/count'', ''active_vm_count'')]"

definition api_routes :: "route list" where
  "api_routes =
    (include_router False ''/audit'' audit_routes @
     include_router False [] health_routes @
     include_router False ''/auth'' auth_routes @
     include_router False ''/tenants'' tenants_routes @
     include_router False ''/compute'' compute_routes @
     include_router False ''/flavors'' flavors_routes @
     include_router False ''/images'' images_routes @
     include_router False ''/keypairs'' keypairs_routes @
     include_router False ''/networks'' networks_routes @
     include_router False ''/routers'' routers_routes @
     include_router False ''/security-groups'' security_groups_routes @
     include_router False ''/storage'' storage_routes @
     include_router False ''/volumes'' volumes_routes @
     include_router False ''/clusters'' clusters_routes @
     include_router False ''/migrations'' migrations_routes @
     include_router False ''/operations'' operations_routes @
     include_router False ''/k8s'' kubernetes_routes @
     include_router False ''/monitoring'' monitoring_routes @
     include_router False ''/vmware'' vmware_inventory_routes @
     include_router False ''/vmware'' vmware_assessment_routes @
     include_router True ''/openstack'' vm_lifecycle_routes)"

section \<open>Templates and paths\<close>

datatype segment = Literal string | Parameter

definition segment_of :: "string \<Rightarrow> segment" where
  "segment_of s = (case s of c # _ \<Rightarrow> if c = CHR ''{'' then Parameter else Literal s | [] \<Rightarrow> Literal s)"

definition segments :: "string \<Rightarrow> segment list" where
  "segments template = map segment_of (py_split CHR ''/'' template)"

fun segment_matches :: "segment \<Rightarrow> string \<Rightarrow> bool" where
  "segment_matches (Literal s) p \<longleftrightarrow> p = s"
| "segment_matches Parameter p \<longleftrightarrow> p \<noteq> []"

definition starlette_matching :: "(string \<Rightarrow> string \<Rightarrow> bool) \<Rightarrow> bool" where
  "starlette_matching matches \<longleftrightarrow>
    (\<forall>template path. matches template path \<longleftrightarrow> list_all2 segment_matches (segments template) (py_split CHR ''/'' path))"

text \<open>The routes a request can reach.\<close>

definition candidates :: "(string \<Rightarrow> string \<Rightarrow> bool) \<Rightarrow> http_method \<Rightarrow> string \<Rightarrow> route list" where
  "candidates matches m path = filter (\<lambda>r. rt_method r = m \<and> matches (rt_template r) path) api_routes"

section \<open>No two routes overlap\<close>

fun overlap :: "segment list \<Rightarrow> segment list \<Rightarrow> bool" where
  "overlap [] [] \<longleftrightarrow> True"
| "overlap (Literal s # xs) (Literal t # ys) \<longleftrightarrow> s = t \<and> overlap xs ys"
| "overlap (_ # xs) (_ # ys) \<longleftrightarrow> overlap xs ys"
| "overlap _ _ \<longleftrightarrow> False"

lemma overlap_sound: "list_all2 segment_matches xs ps \<Longrightarrow> list_all2 segment_matches ys ps \<Longrightarrow> overlap xs ys"
proof (induction xs ys arbitrary: ps rule: overlap.induct)
  case (2 s xs t ys)
  then show ?case by (cases ps) auto
qed (auto simp: list_all2_Cons1)

fun separate :: "(http_method \<times> segment list) list \<Rightarrow> bool" where
  "separate [] \<longleftrightarrow> True"
| "separate ((m, t) # rs) \<longleftrightarrow> list_all (\<lambda>(m', t'). m = m' \<longrightarrow> \<not> overlap t t') rs \<and> separate rs"

lemma separate_filter:
  "separate (map (\<lambda>r. (rt_method r, segments (rt_template r))) rs) \<Longrightarrow>
   length (filter (\<lambda>r. rt_method r = m \<and> list_all2 segment_matches (segments (rt_template r)) ps) rs) \<le> 1"
proof (induction rs)
  case (Cons r rs)
  show ?case
  proof (cases "rt_method r = m \<and> list_all2 segment_matches (segments (rt_template r)) ps")
    case True
    then have "filter (\<lambda>r. rt_method r = m \<and> list_all2 segment_matches (segments (rt_template r)) ps) rs = []"
      using Cons.prems overlap_sound by (fastforce simp: filter_empty_conv list_all_iff)
    then show ?thesis by simp
  qed (use Cons in auto)
qed simp

text \<open>Routes under different first segments do not overlap, so each group of modules is looked at alone.\<close>

definition shape :: "route list \<Rightarrow> (http_method \<times> segment list) list" where
  "shape rs = map (\<lambda>r. (rt_method r, segments (rt_template r))) rs"

definition apart :: "string \<Rightarrow> (http_method \<times> segment list) list \<Rightarrow> bool" where
  "apart p ts \<longleftrightarrow> list_all (\<lambda>(_, t). take 2 t = [Literal [], Literal p]) ts \<and> separate ts"

lemma separate_append:
  "separate (xs @ ys) \<longleftrightarrow> separate xs \<and> separate ys \<and> (\<forall>(m, t) \<in> set xs. \<forall>(m', t') \<in> set ys. m = m' \<longrightarrow> \<not> overlap t t')"
  by (induction xs rule: separate.induct) (auto simp: list_all_iff)

lemma different_prefix: "take 2 t = [Literal [], Literal p] \<Longrightarrow> take 2 t' = [Literal [], Literal q] \<Longrightarrow> p \<noteq> q \<Longrightarrow> \<not> overlap t t'"
  by (cases t; cases t'; cases "tl t"; cases "tl t'") auto

lemma separate_groups:
  "list_all (\<lambda>(p, rs). apart p (shape rs)) gs \<Longrightarrow> distinct (map fst gs) \<Longrightarrow> separate (shape (concat (map snd gs)))"
proof (induction gs)
  case (Cons g gs)
  obtain p rs where g: "g = (p, rs)" by (cases g)
  have "\<not> overlap t t'" if a: "(m, t) \<in> set (shape rs)" and b: "(m', t') \<in> set (shape (concat (map snd gs)))" for m t m' t'
  proof -
    obtain q rs' where q: "(q, rs') \<in> set gs" "(m', t') \<in> set (shape rs')" using b by (auto simp: shape_def)
    then have "p \<noteq> q" using Cons.prems(2) by (force simp: g)
    moreover have "take 2 t = [Literal [], Literal p]" "take 2 t' = [Literal [], Literal q]"
      using Cons.prems(1) a q by (auto simp: g apart_def list_all_iff)
    ultimately show ?thesis by (rule different_prefix [rotated 2])
  qed
  then have "separate (shape rs @ shape (concat (map snd gs)))"
    using Cons by (auto simp: separate_append g apart_def)
  then show ?case by (simp add: g shape_def)
qed (simp add: shape_def)

definition route_groups :: "(string \<times> route list) list" where
  "route_groups =
    [(''audit'', include_router False ''/audit'' audit_routes),
     (''health'', include_router False [] health_routes),
     (''auth'', include_router False ''/auth'' auth_routes),
     (''tenants'', include_router False ''/tenants'' tenants_routes),
     (''compute'', include_router False ''/compute'' compute_routes),
     (''flavors'', include_router False ''/flavors'' flavors_routes),
     (''images'', include_router False ''/images'' images_routes),
     (''keypairs'', include_router False ''/keypairs'' keypairs_routes),
     (''networks'', include_router False ''/networks'' networks_routes),
     (''routers'', include_router False ''/routers'' routers_routes),
     (''security-groups'', include_router False ''/security-groups'' security_groups_routes),
     (''storage'', include_router False ''/storage'' storage_routes),
     (''volumes'', include_router False ''/volumes'' volumes_routes),
     (''clusters'', include_router False ''/clusters'' clusters_routes),
     (''migrations'', include_router False ''/migrations'' migrations_routes),
     (''operations'', include_router False ''/operations'' operations_routes),
     (''k8s'', include_router False ''/k8s'' kubernetes_routes),
     (''monitoring'', include_router False ''/monitoring'' monitoring_routes),
     (''vmware'', include_router False ''/vmware'' vmware_inventory_routes @ include_router False ''/vmware'' vmware_assessment_routes),
     (''openstack'', include_router True ''/openstack'' vm_lifecycle_routes)]"

lemma apart_audit: "apart ''audit'' (shape (include_router False ''/audit'' audit_routes))"
  by code_simp

lemma apart_health: "apart ''health'' (shape (include_router False [] health_routes))"
  by code_simp

lemma apart_auth: "apart ''auth'' (shape (include_router False ''/auth'' auth_routes))"
  by code_simp

lemma apart_tenants: "apart ''tenants'' (shape (include_router False ''/tenants'' tenants_routes))"
  by code_simp

lemma apart_compute: "apart ''compute'' (shape (include_router False ''/compute'' compute_routes))"
  by code_simp

lemma apart_flavors: "apart ''flavors'' (shape (include_router False ''/flavors'' flavors_routes))"
  by code_simp

lemma apart_images: "apart ''images'' (shape (include_router False ''/images'' images_routes))"
  by code_simp

lemma apart_keypairs: "apart ''keypairs'' (shape (include_router False ''/keypairs'' keypairs_routes))"
  by code_simp

lemma apart_networks: "apart ''networks'' (shape (include_router False ''/networks'' networks_routes))"
  by code_simp

lemma apart_routers: "apart ''routers'' (shape (include_router False ''/routers'' routers_routes))"
  by code_simp

lemma apart_security_groups: "apart ''security-groups'' (shape (include_router False ''/security-groups'' security_groups_routes))"
  by code_simp

lemma apart_storage: "apart ''storage'' (shape (include_router False ''/storage'' storage_routes))"
  by code_simp

lemma apart_volumes: "apart ''volumes'' (shape (include_router False ''/volumes'' volumes_routes))"
  by code_simp

lemma apart_clusters: "apart ''clusters'' (shape (include_router False ''/clusters'' clusters_routes))"
  by code_simp

lemma apart_migrations: "apart ''migrations'' (shape (include_router False ''/migrations'' migrations_routes))"
  by code_simp

lemma apart_operations: "apart ''operations'' (shape (include_router False ''/operations'' operations_routes))"
  by code_simp

lemma apart_k8s: "apart ''k8s'' (shape (include_router False ''/k8s'' kubernetes_routes))"
  by code_simp

lemma apart_monitoring: "apart ''monitoring'' (shape (include_router False ''/monitoring'' monitoring_routes))"
  by code_simp

lemma apart_vmware: "apart ''vmware'' (shape (include_router False ''/vmware'' vmware_inventory_routes @ include_router False ''/vmware'' vmware_assessment_routes))"
  by code_simp

lemma apart_openstack: "apart ''openstack'' (shape (include_router True ''/openstack'' vm_lifecycle_routes))"
  by code_simp

lemmas groups_apart = apart_audit apart_health apart_auth apart_tenants apart_compute apart_flavors apart_images apart_keypairs apart_networks apart_routers apart_security_groups apart_storage apart_volumes apart_clusters apart_migrations apart_operations apart_k8s apart_monitoring apart_vmware apart_openstack

lemma groups_routes: "concat (map snd route_groups) = api_routes"
  by (simp add: route_groups_def api_routes_def)

lemma api_routes_separate: "separate (shape api_routes)"
  unfolding groups_routes [symmetric]
  by (rule separate_groups) (simp_all add: route_groups_def groups_apart)

section \<open>Where a request goes\<close>

lemma included_guards:
  "list_all (\<lambda>r. \<not> rt_guarded r) (include_router False pre es)" "list_all rt_guarded (include_router True pre es)"
  by (auto simp: include_router_def list_all_iff)

lemma group_guards: "list_all (\<lambda>(p, rs). list_all (\<lambda>r. rt_guarded r \<longleftrightarrow> p = ''openstack'') rs) route_groups"
  by (simp add: route_groups_def included_guards)

lemma route_prefix:
  assumes "r \<in> set api_routes"
  shows "\<exists>p. take 2 (segments (rt_template r)) = [Literal [], Literal p] \<and> (rt_guarded r \<longleftrightarrow> p = ''openstack'')"
proof -
  obtain p rs where rs: "(p, rs) \<in> set route_groups" "r \<in> set rs" using assms by (auto simp flip: groups_routes)
  moreover have "apart p (shape rs)" using rs(1) by (auto simp: route_groups_def groups_apart)
  ultimately show ?thesis using group_guards by (fastforce simp: apart_def shape_def list_all_iff)
qed

text \<open>C21: Every request reaches at most one of the 122 routes, whatever the order in which they are tried, and the route
  demands the API key exactly when the path is under /openstack: creating and deleting servers under /compute needs none.\<close>

theorem routes_unambiguous:
  assumes "starlette_matching matches"
  shows "length (candidates matches m path) \<le> 1 \<and>
    list_all (\<lambda>r. rt_guarded r \<longleftrightarrow> take 2 (py_split CHR ''/'' path) = [[], ''openstack'']) (candidates matches m path)"
proof
  have c: "candidates matches m path =
      filter (\<lambda>r. rt_method r = m \<and> list_all2 segment_matches (segments (rt_template r)) (py_split CHR ''/'' path)) api_routes"
    using assms by (simp add: candidates_def starlette_matching_def)
  show "length (candidates matches m path) \<le> 1"
    using separate_filter api_routes_separate by (simp add: c shape_def)
  have "rt_guarded r \<longleftrightarrow> take 2 (py_split CHR ''/'' path) = [[], ''openstack'']"
    if r: "r \<in> set api_routes" "list_all2 segment_matches (segments (rt_template r)) (py_split CHR ''/'' path)" for r
  proof -
    obtain p where p: "take 2 (segments (rt_template r)) = [Literal [], Literal p]" "rt_guarded r \<longleftrightarrow> p = ''openstack''"
      using route_prefix [OF r(1)] by blast
    then have "list_all2 segment_matches [Literal [], Literal p] (take 2 (py_split CHR ''/'' path))"
      using list_all2_takeI [OF r(2), of 2] by simp
    then have "take 2 (py_split CHR ''/'' path) = [[], p]" by (auto simp: list_all2_Cons1)
    then show ?thesis using p(2) by simp
  qed
  then show "list_all (\<lambda>r. rt_guarded r \<longleftrightarrow> take 2 (py_split CHR ''/'' path) = [[], ''openstack'']) (candidates matches m path)"
    by (simp add: c list_all_iff)
qed

theorem routes_unambiguous_witness:
  "let matches = (\<lambda>t p. list_all2 segment_matches (segments t) (py_split CHR ''/'' p)) in
    candidates matches DELETE ''/openstack/servers/s1'' =
      [\<lparr>rt_guarded = True, rt_method = DELETE, rt_template = ''/openstack/servers/{server_id}'', rt_endpoint = ''delete_vm''\<rparr>]"
proof -
  define matches where "matches = (\<lambda>t p. list_all2 segment_matches (segments t) (py_split CHR ''/'' p))"
  let ?r = "\<lparr>rt_guarded = True, rt_method = DELETE, rt_template = ''/openstack/servers/{server_id}'', rt_endpoint = ''delete_vm''\<rparr>"
  have "matches ''/openstack/servers/{server_id}'' ''/openstack/servers/s1''"
    unfolding matches_def by code_simp
  then have "?r \<in> set (candidates matches DELETE ''/openstack/servers/s1'')"
    by (simp add: candidates_def api_routes_def include_router_def vm_lifecycle_routes_def)
  moreover have "starlette_matching matches" by (simp add: starlette_matching_def matches_def)
  then have "length (candidates matches DELETE ''/openstack/servers/s1'') \<le> 1"
    using routes_unambiguous by blast
  ultimately have "candidates matches DELETE ''/openstack/servers/s1'' = [?r]"
    by (cases "candidates matches DELETE ''/openstack/servers/s1''") auto
  then show ?thesis by (simp add: matches_def)
qed

end
