(* ===== verification/Schema_Migrations.thy ===== *)
theory Schema_Migrations
  imports Py_Effects
begin

text \<open>
  The two ways the database of the service gets its tables: the migrations of Alembic (alembic/versions), and the tables
  the classes under app/models declare, which init_db creates when they are missing (app/db/session/session.py).

  A migration is a list of DDL statements; run_ops is what SQL defines for them: creating something that exists, dropping
  something that does not, a foreign key to a missing table and dropping a table that is referred to are errors. The
  tables mig_... are the calls of op.create_table, the tables model_... the classes, column by column. Server defaults are
  texts, without the quotes of SQL.
\<close>

section \<open>Tables and statements\<close>

datatype sql_type = UUID | VARCHAR nat | TEXT | JSON | FLOAT | INTEGER | BOOLEAN | TIMESTAMPTZ

record sql_column =
  cl_name :: string
  cl_type :: sql_type
  cl_nullable :: bool
  cl_server_default :: "string option"

definition column :: "string \<Rightarrow> sql_type \<Rightarrow> bool \<Rightarrow> string option \<Rightarrow> sql_column" where
  "column n t nullable server_default = \<lparr>cl_name = n, cl_type = t, cl_nullable = nullable, cl_server_default = server_default\<rparr>"

record table =
  tb_name :: string
  tb_columns :: "sql_column list"
  tb_primary_key :: string
  tb_unique :: "string list"
  tb_foreign :: "(string \<times> string) list"

record schema =
  sm_tables :: "table list"
  sm_indexes :: "(string \<times> string \<times> string) list"

datatype ddl = CreateTable table | CreateIndex string string string | DropIndex string string | DropTable string

definition table_names :: "schema \<Rightarrow> string list" where
  "table_names s = map tb_name (sm_tables s)"

definition refers_to :: "string \<Rightarrow> table \<Rightarrow> bool" where
  "refers_to n t \<longleftrightarrow> n \<in> set (map snd (tb_foreign t))"

definition sql_error :: "string \<Rightarrow> exn" where
  "sql_error msg = PyException ''ProgrammingError'' msg"

fun run_op :: "ddl \<Rightarrow> schema \<Rightarrow> exn + schema" where
  "run_op (CreateTable t) s =
    (if tb_name t \<in> set (table_names s) \<or> \<not> list_all (\<lambda>n. n \<in> set (table_names s)) (map snd (tb_foreign t))
     then Inl (sql_error (tb_name t)) else Inr (s\<lparr>sm_tables := sm_tables s @ [t]\<rparr>))"
| "run_op (CreateIndex i n c) s =
    (if i \<in> set (map fst (sm_indexes s)) \<or> n \<notin> set (table_names s)
     then Inl (sql_error i) else Inr (s\<lparr>sm_indexes := sm_indexes s @ [(i, n, c)]\<rparr>))"
| "run_op (DropIndex i n) s =
    (if i \<notin> set (map fst (sm_indexes s)) then Inl (sql_error i)
     else Inr (s\<lparr>sm_indexes := filter (\<lambda>x. fst x \<noteq> i) (sm_indexes s)\<rparr>))"
| "run_op (DropTable n) s =
    (if n \<notin> set (table_names s) \<or> list_ex (refers_to n) (sm_tables s) then Inl (sql_error n)
     else Inr \<lparr>sm_tables = filter (\<lambda>t. tb_name t \<noteq> n) (sm_tables s), sm_indexes = filter (\<lambda>x. fst (snd x) \<noteq> n) (sm_indexes s)\<rparr>)"

fun run_ops :: "ddl list \<Rightarrow> schema \<Rightarrow> exn + schema" where
  "run_ops [] s = Inr s"
| "run_ops (d # ds) s = (case run_op d s of Inl e \<Rightarrow> Inl e | Inr s' \<Rightarrow> run_ops ds s')"

section \<open>The migrations and the classes\<close>

definition mig_alert_records :: table where
  "mig_alert_records =
     \<lparr>tb_name = ''alert_records'', tb_columns =
       [column ''id'' UUID False None,
        column ''severity'' (VARCHAR 20) False None,
        column ''title'' (VARCHAR 255) False None,
        column ''message'' TEXT True None,
        column ''source'' (VARCHAR 100) False None,
        column ''resource_type'' (VARCHAR 100) True None,
        column ''resource_id'' (VARCHAR 255) True None,
        column ''status'' (VARCHAR 20) False None,
        column ''created_at'' TIMESTAMPTZ False (Some ''now()''),
        column ''resolved_at'' TIMESTAMPTZ True None],
      tb_primary_key = ''id'', tb_unique = [], tb_foreign = []\<rparr>"

definition mig_audit_logs :: table where
  "mig_audit_logs =
     \<lparr>tb_name = ''audit_logs'', tb_columns =
       [column ''id'' UUID False None,
        column ''actor'' (VARCHAR 255) True None,
        column ''action'' (VARCHAR 100) False None,
        column ''resource_type'' (VARCHAR 100) False None,
        column ''resource_id'' (VARCHAR 255) True None,
        column ''status'' (VARCHAR 50) False None,
        column ''request_id'' (VARCHAR 64) True None,
        column ''payload'' JSON True None,
        column ''created_at'' TIMESTAMPTZ False (Some ''now()'')],
      tb_primary_key = ''id'', tb_unique = [], tb_foreign = []\<rparr>"

definition mig_auto_scaling_policies :: table where
  "mig_auto_scaling_policies =
     \<lparr>tb_name = ''auto_scaling_policies'', tb_columns =
       [column ''id'' UUID False None,
        column ''name'' (VARCHAR 255) False None,
        column ''description'' (VARCHAR 2000) True None,
        column ''metric_name'' (VARCHAR 100) False None,
        column ''threshold'' FLOAT False None,
        column ''comparison'' (VARCHAR 20) False None,
        column ''min_replicas'' INTEGER False None,
        column ''max_replicas'' INTEGER False None,
        column ''cooldown_seconds'' INTEGER False None,
        column ''target_resource_type'' (VARCHAR 50) False None,
        column ''target_resource_id'' (VARCHAR 255) True None,
        column ''enabled'' BOOLEAN False None,
        column ''extra'' JSON True None,
        column ''created_at'' TIMESTAMPTZ False (Some ''now()''),
        column ''updated_at'' TIMESTAMPTZ False (Some ''now()'')],
      tb_primary_key = ''id'', tb_unique = [''name''], tb_foreign = []\<rparr>"

definition mig_cluster_deployments :: table where
  "mig_cluster_deployments =
     \<lparr>tb_name = ''cluster_deployments'', tb_columns =
       [column ''id'' UUID False None,
        column ''name'' (VARCHAR 255) False None,
        column ''description'' TEXT True None,
        column ''cluster_type'' (VARCHAR 50) False None,
        column ''status'' (VARCHAR 50) False None,
        column ''node_count'' INTEGER False None,
        column ''extra_config'' JSON True None,
        column ''created_at'' TIMESTAMPTZ False (Some ''now()''),
        column ''updated_at'' TIMESTAMPTZ False (Some ''now()'')],
      tb_primary_key = ''id'', tb_unique = [''name''], tb_foreign = []\<rparr>"

definition mig_metric_records :: table where
  "mig_metric_records =
     \<lparr>tb_name = ''metric_records'', tb_columns =
       [column ''id'' UUID False None,
        column ''metric_name'' (VARCHAR 100) False None,
        column ''source'' (VARCHAR 100) False None,
        column ''value'' FLOAT False None,
        column ''unit'' (VARCHAR 50) True None,
        column ''labels'' JSON True None,
        column ''project_id'' (VARCHAR 255) True None,
        column ''resource_id'' (VARCHAR 255) True None,
        column ''recorded_at'' TIMESTAMPTZ False (Some ''now()'')],
      tb_primary_key = ''id'', tb_unique = [], tb_foreign = []\<rparr>"

definition mig_migration_tasks :: table where
  "mig_migration_tasks =
     \<lparr>tb_name = ''migration_tasks'', tb_columns =
       [column ''id'' UUID False None,
        column ''migration_type'' (VARCHAR 50) False None,
        column ''source_ref'' (VARCHAR 255) False None,
        column ''destination_ref'' (VARCHAR 255) True None,
        column ''resource_type'' (VARCHAR 50) False None,
        column ''resource_id'' (VARCHAR 255) True None,
        column ''status'' (VARCHAR 50) False None,
        column ''progress'' INTEGER False None,
        column ''error_message'' TEXT True None,
        column ''extra'' JSON True None,
        column ''created_at'' TIMESTAMPTZ False (Some ''now()''),
        column ''finished_at'' TIMESTAMPTZ True None],
      tb_primary_key = ''id'', tb_unique = [], tb_foreign = []\<rparr>"

definition mig_operation_tasks :: table where
  "mig_operation_tasks =
     \<lparr>tb_name = ''operation_tasks'', tb_columns =
       [column ''id'' UUID False None,
        column ''operation_type'' (VARCHAR 100) False None,
        column ''target_type'' (VARCHAR 100) False None,
        column ''target_id'' (VARCHAR 255) True None,
        column ''state'' (VARCHAR 50) False None,
        column ''retry_count'' INTEGER False None,
        column ''max_retries'' INTEGER False None,
        column ''error_message'' TEXT True None,
        column ''timeout_at'' TIMESTAMPTZ True None,
        column ''last_heartbeat_at'' TIMESTAMPTZ True None,
        column ''submitted_at'' TIMESTAMPTZ False (Some ''now()''),
        column ''finished_at'' TIMESTAMPTZ True None,
        column ''extra'' JSON True None,
        column ''events'' JSON True None],
      tb_primary_key = ''id'', tb_unique = [], tb_foreign = []\<rparr>"

definition mig_resource_snapshots :: table where
  "mig_resource_snapshots =
     \<lparr>tb_name = ''resource_snapshots'', tb_columns =
       [column ''id'' UUID False None,
        column ''resource_type'' (VARCHAR 100) False None,
        column ''external_id'' (VARCHAR 255) False None,
        column ''resource_name'' (VARCHAR 255) True None,
        column ''project_id'' (VARCHAR 255) True None,
        column ''sync_status'' (VARCHAR 50) False None,
        column ''raw_data'' JSON True None,
        column ''updated_at'' TIMESTAMPTZ False (Some ''now()'')],
      tb_primary_key = ''id'', tb_unique = [''external_id''], tb_foreign = []\<rparr>"

definition mig_scheduled_tasks :: table where
  "mig_scheduled_tasks =
     \<lparr>tb_name = ''scheduled_tasks'', tb_columns =
       [column ''id'' UUID False None,
        column ''name'' (VARCHAR 255) False None,
        column ''description'' TEXT True None,
        column ''task_type'' (VARCHAR 50) False None,
        column ''cron_expression'' (VARCHAR 100) False None,
        column ''target_action'' (VARCHAR 100) False None,
        column ''target_resource_type'' (VARCHAR 50) True None,
        column ''target_resource_id'' (VARCHAR 255) True None,
        column ''enabled'' BOOLEAN False None,
        column ''last_run_at'' TIMESTAMPTZ True None,
        column ''extra'' JSON True None,
        column ''created_at'' TIMESTAMPTZ False (Some ''now()'')],
      tb_primary_key = ''id'', tb_unique = [''name''], tb_foreign = []\<rparr>"

definition mig_storage_pools :: table where
  "mig_storage_pools =
     \<lparr>tb_name = ''storage_pools'', tb_columns =
       [column ''id'' UUID False None,
        column ''name'' (VARCHAR 255) False None,
        column ''description'' TEXT True None,
        column ''pool_type'' (VARCHAR 50) False None,
        column ''status'' (VARCHAR 50) False None,
        column ''total_capacity_gb'' INTEGER False None,
        column ''used_capacity_gb'' INTEGER False None,
        column ''replication_factor'' INTEGER False None,
        column ''extra'' JSON True None,
        column ''created_at'' TIMESTAMPTZ False (Some ''now()''),
        column ''updated_at'' TIMESTAMPTZ False (Some ''now()'')],
      tb_primary_key = ''id'', tb_unique = [''name''], tb_foreign = []\<rparr>"

definition initial_upgrade :: "ddl list" where
  "initial_upgrade =
    [CreateTable mig_alert_records,
     CreateTable mig_audit_logs,
     CreateTable mig_auto_scaling_policies,
     CreateTable mig_cluster_deployments,
     CreateTable mig_metric_records,
     CreateIndex ''ix_metric_records_metric_name'' ''metric_records'' ''metric_name'',
     CreateIndex ''ix_metric_records_project_id'' ''metric_records'' ''project_id'',
     CreateIndex ''ix_metric_records_recorded_at'' ''metric_records'' ''recorded_at'',
     CreateIndex ''ix_metric_records_source'' ''metric_records'' ''source'',
     CreateTable mig_migration_tasks,
     CreateTable mig_operation_tasks,
     CreateTable mig_resource_snapshots,
     CreateTable mig_scheduled_tasks,
     CreateTable mig_storage_pools]"

definition initial_downgrade :: "ddl list" where
  "initial_downgrade =
    [DropTable ''storage_pools'',
     DropTable ''scheduled_tasks'',
     DropTable ''resource_snapshots'',
     DropTable ''operation_tasks'',
     DropTable ''migration_tasks'',
     DropIndex ''ix_metric_records_source'' ''metric_records'',
     DropIndex ''ix_metric_records_recorded_at'' ''metric_records'',
     DropIndex ''ix_metric_records_project_id'' ''metric_records'',
     DropIndex ''ix_metric_records_metric_name'' ''metric_records'',
     DropTable ''metric_records'',
     DropTable ''cluster_deployments'',
     DropTable ''auto_scaling_policies'',
     DropTable ''audit_logs'',
     DropTable ''alert_records'']"

definition mig_migration_assessments :: table where
  "mig_migration_assessments =
     \<lparr>tb_name = ''migration_assessments'', tb_columns =
       [column ''id'' (VARCHAR 36) False None,
        column ''vm_id'' (VARCHAR 255) False None,
        column ''vm_name'' (VARCHAR 255) False None,
        column ''vm_power_state'' (VARCHAR 50) True None,
        column ''vm_guest_os'' (VARCHAR 255) True None,
        column ''compatible'' BOOLEAN False None,
        column ''compatibility_score'' FLOAT False (Some ''0.0''),
        column ''compatibility_detail'' JSON True None,
        column ''flavor_match'' JSON True None,
        column ''network_mappings'' JSON True None,
        column ''disk_mappings'' JSON True None,
        column ''mapping_score'' FLOAT False (Some ''0.0''),
        column ''source_vm_metadata'' JSON True None,
        column ''issues'' JSON True None,
        column ''warnings'' JSON True None,
        column ''assessed_at'' TIMESTAMPTZ False (Some ''now()''),
        column ''expires_at'' TIMESTAMPTZ True None],
      tb_primary_key = ''id'', tb_unique = [], tb_foreign = []\<rparr>"

definition mig_migration_plans :: table where
  "mig_migration_plans =
     \<lparr>tb_name = ''migration_plans'', tb_columns =
       [column ''id'' (VARCHAR 36) False None,
        column ''assessment_id'' (VARCHAR 36) False None,
        column ''vm_id'' (VARCHAR 255) False None,
        column ''priority'' INTEGER False (Some ''5''),
        column ''target_flavor_id'' (VARCHAR 255) True None,
        column ''target_flavor_name'' (VARCHAR 255) True None,
        column ''target_network_ids'' JSON True None,
        column ''target_volume_types'' JSON True None,
        column ''estimated_downtime_minutes'' INTEGER False (Some ''0''),
        column ''estimated_total_minutes'' INTEGER False (Some ''0''),
        column ''steps'' JSON True None,
        column ''status'' (VARCHAR 50) False (Some ''pending''),
        column ''notes'' TEXT True None,
        column ''created_at'' TIMESTAMPTZ False (Some ''now()''),
        column ''updated_at'' TIMESTAMPTZ False (Some ''now()'')],
      tb_primary_key = ''id'', tb_unique = [], tb_foreign = [(''assessment_id'', ''migration_assessments'')]\<rparr>"

definition assessment_upgrade :: "ddl list" where
  "assessment_upgrade =
    [CreateTable mig_migration_assessments,
     CreateIndex ''ix_migration_assessments_vm_id'' ''migration_assessments'' ''vm_id'',
     CreateTable mig_migration_plans]"

definition assessment_downgrade :: "ddl list" where
  "assessment_downgrade =
    [DropTable ''migration_plans'',
     DropIndex ''ix_migration_assessments_vm_id'' ''migration_assessments'',
     DropTable ''migration_assessments'']"

definition model_alert_records :: table where
  "model_alert_records =
     \<lparr>tb_name = ''alert_records'', tb_columns =
       [column ''id'' (VARCHAR 36) False None,
        column ''severity'' (VARCHAR 20) False None,
        column ''title'' (VARCHAR 255) False None,
        column ''message'' TEXT True None,
        column ''source'' (VARCHAR 100) False None,
        column ''resource_type'' (VARCHAR 100) True None,
        column ''resource_id'' (VARCHAR 255) True None,
        column ''status'' (VARCHAR 20) False None,
        column ''created_at'' TIMESTAMPTZ False (Some ''now()''),
        column ''resolved_at'' TIMESTAMPTZ True None],
      tb_primary_key = ''id'', tb_unique = [], tb_foreign = []\<rparr>"

definition model_audit_logs :: table where
  "model_audit_logs =
     \<lparr>tb_name = ''audit_logs'', tb_columns =
       [column ''id'' (VARCHAR 36) False None,
        column ''actor'' (VARCHAR 255) True None,
        column ''action'' (VARCHAR 100) False None,
        column ''resource_type'' (VARCHAR 100) False None,
        column ''resource_id'' (VARCHAR 255) True None,
        column ''status'' (VARCHAR 50) False None,
        column ''request_id'' (VARCHAR 64) True None,
        column ''payload'' JSON True None,
        column ''created_at'' TIMESTAMPTZ False (Some ''now()'')],
      tb_primary_key = ''id'', tb_unique = [], tb_foreign = []\<rparr>"

definition model_auto_scaling_policies :: table where
  "model_auto_scaling_policies =
     \<lparr>tb_name = ''auto_scaling_policies'', tb_columns =
       [column ''id'' (VARCHAR 36) False None,
        column ''name'' (VARCHAR 255) False None,
        column ''description'' (VARCHAR 2000) True None,
        column ''metric_name'' (VARCHAR 100) False None,
        column ''threshold'' FLOAT False None,
        column ''comparison'' (VARCHAR 20) False None,
        column ''min_replicas'' INTEGER False None,
        column ''max_replicas'' INTEGER False None,
        column ''cooldown_seconds'' INTEGER False None,
        column ''target_resource_type'' (VARCHAR 50) False None,
        column ''target_resource_id'' (VARCHAR 255) True None,
        column ''enabled'' BOOLEAN False None,
        column ''extra'' JSON True None,
        column ''created_at'' TIMESTAMPTZ False (Some ''now()''),
        column ''updated_at'' TIMESTAMPTZ False (Some ''now()'')],
      tb_primary_key = ''id'', tb_unique = [''name''], tb_foreign = []\<rparr>"

definition model_cluster_deployments :: table where
  "model_cluster_deployments =
     \<lparr>tb_name = ''cluster_deployments'', tb_columns =
       [column ''id'' (VARCHAR 36) False None,
        column ''name'' (VARCHAR 255) False None,
        column ''description'' TEXT True None,
        column ''cluster_type'' (VARCHAR 50) False None,
        column ''status'' (VARCHAR 50) False None,
        column ''node_count'' INTEGER False None,
        column ''extra_config'' JSON True None,
        column ''created_at'' TIMESTAMPTZ False (Some ''now()''),
        column ''updated_at'' TIMESTAMPTZ False (Some ''now()'')],
      tb_primary_key = ''id'', tb_unique = [''name''], tb_foreign = []\<rparr>"

definition model_migration_assessments :: table where
  "model_migration_assessments =
     \<lparr>tb_name = ''migration_assessments'', tb_columns =
       [column ''id'' (VARCHAR 36) False None,
        column ''vm_id'' (VARCHAR 255) False None,
        column ''vm_name'' (VARCHAR 255) False None,
        column ''vm_power_state'' (VARCHAR 50) True None,
        column ''vm_guest_os'' (VARCHAR 255) True None,
        column ''compatible'' BOOLEAN False None,
        column ''compatibility_score'' FLOAT False None,
        column ''compatibility_detail'' JSON True None,
        column ''flavor_match'' JSON True None,
        column ''network_mappings'' JSON True None,
        column ''disk_mappings'' JSON True None,
        column ''mapping_score'' FLOAT False None,
        column ''source_vm_metadata'' JSON True None,
        column ''issues'' JSON True None,
        column ''warnings'' JSON True None,
        column ''assessed_at'' TIMESTAMPTZ False (Some ''now()''),
        column ''expires_at'' TIMESTAMPTZ True None],
      tb_primary_key = ''id'', tb_unique = [], tb_foreign = []\<rparr>"

definition model_migration_plans :: table where
  "model_migration_plans =
     \<lparr>tb_name = ''migration_plans'', tb_columns =
       [column ''id'' (VARCHAR 36) False None,
        column ''assessment_id'' (VARCHAR 36) False None,
        column ''vm_id'' (VARCHAR 255) False None,
        column ''priority'' INTEGER False None,
        column ''target_flavor_id'' (VARCHAR 255) True None,
        column ''target_flavor_name'' (VARCHAR 255) True None,
        column ''target_network_ids'' JSON True None,
        column ''target_volume_types'' JSON True None,
        column ''estimated_downtime_minutes'' INTEGER False None,
        column ''estimated_total_minutes'' INTEGER False None,
        column ''steps'' JSON True None,
        column ''status'' (VARCHAR 50) False None,
        column ''notes'' TEXT True None,
        column ''created_at'' TIMESTAMPTZ False (Some ''now()''),
        column ''updated_at'' TIMESTAMPTZ False (Some ''now()'')],
      tb_primary_key = ''id'', tb_unique = [], tb_foreign = [(''assessment_id'', ''migration_assessments'')]\<rparr>"

definition model_migration_tasks :: table where
  "model_migration_tasks =
     \<lparr>tb_name = ''migration_tasks'', tb_columns =
       [column ''id'' (VARCHAR 36) False None,
        column ''migration_type'' (VARCHAR 50) False None,
        column ''source_ref'' (VARCHAR 255) False None,
        column ''destination_ref'' (VARCHAR 255) True None,
        column ''resource_type'' (VARCHAR 50) False None,
        column ''resource_id'' (VARCHAR 255) True None,
        column ''status'' (VARCHAR 50) False None,
        column ''progress'' INTEGER False None,
        column ''error_message'' TEXT True None,
        column ''extra'' JSON True None,
        column ''created_at'' TIMESTAMPTZ False (Some ''now()''),
        column ''finished_at'' TIMESTAMPTZ True None],
      tb_primary_key = ''id'', tb_unique = [], tb_foreign = []\<rparr>"

definition model_metric_records :: table where
  "model_metric_records =
     \<lparr>tb_name = ''metric_records'', tb_columns =
       [column ''id'' (VARCHAR 36) False None,
        column ''metric_name'' (VARCHAR 100) False None,
        column ''source'' (VARCHAR 100) False None,
        column ''value'' FLOAT False None,
        column ''unit'' (VARCHAR 50) True None,
        column ''labels'' JSON True None,
        column ''project_id'' (VARCHAR 255) True None,
        column ''resource_id'' (VARCHAR 255) True None,
        column ''recorded_at'' TIMESTAMPTZ False (Some ''now()'')],
      tb_primary_key = ''id'', tb_unique = [], tb_foreign = []\<rparr>"

definition model_operation_tasks :: table where
  "model_operation_tasks =
     \<lparr>tb_name = ''operation_tasks'', tb_columns =
       [column ''id'' (VARCHAR 36) False None,
        column ''operation_type'' (VARCHAR 100) False None,
        column ''target_type'' (VARCHAR 100) False None,
        column ''target_id'' (VARCHAR 255) True None,
        column ''state'' (VARCHAR 50) False None,
        column ''error_message'' (VARCHAR 2000) True None,
        column ''submitted_at'' TIMESTAMPTZ False (Some ''now()''),
        column ''finished_at'' TIMESTAMPTZ True None],
      tb_primary_key = ''id'', tb_unique = [], tb_foreign = []\<rparr>"

definition model_resource_snapshots :: table where
  "model_resource_snapshots =
     \<lparr>tb_name = ''resource_snapshots'', tb_columns =
       [column ''id'' (VARCHAR 36) False None,
        column ''resource_type'' (VARCHAR 100) False None,
        column ''external_id'' (VARCHAR 255) False None,
        column ''resource_name'' (VARCHAR 255) True None,
        column ''project_id'' (VARCHAR 255) True None,
        column ''sync_status'' (VARCHAR 50) False None,
        column ''raw_data'' JSON True None,
        column ''updated_at'' TIMESTAMPTZ False (Some ''now()'')],
      tb_primary_key = ''id'', tb_unique = [''external_id''], tb_foreign = []\<rparr>"

definition model_scheduled_tasks :: table where
  "model_scheduled_tasks =
     \<lparr>tb_name = ''scheduled_tasks'', tb_columns =
       [column ''id'' (VARCHAR 36) False None,
        column ''name'' (VARCHAR 255) False None,
        column ''description'' TEXT True None,
        column ''task_type'' (VARCHAR 50) False None,
        column ''cron_expression'' (VARCHAR 100) False None,
        column ''target_action'' (VARCHAR 100) False None,
        column ''target_resource_type'' (VARCHAR 50) True None,
        column ''target_resource_id'' (VARCHAR 255) True None,
        column ''enabled'' BOOLEAN False None,
        column ''last_run_at'' TIMESTAMPTZ True None,
        column ''extra'' JSON True None,
        column ''created_at'' TIMESTAMPTZ False (Some ''now()'')],
      tb_primary_key = ''id'', tb_unique = [''name''], tb_foreign = []\<rparr>"

definition model_storage_pools :: table where
  "model_storage_pools =
     \<lparr>tb_name = ''storage_pools'', tb_columns =
       [column ''id'' (VARCHAR 36) False None,
        column ''name'' (VARCHAR 255) False None,
        column ''description'' TEXT True None,
        column ''pool_type'' (VARCHAR 50) False None,
        column ''status'' (VARCHAR 50) False None,
        column ''total_capacity_gb'' INTEGER False None,
        column ''used_capacity_gb'' INTEGER False None,
        column ''replication_factor'' INTEGER False None,
        column ''extra'' JSON True None,
        column ''created_at'' TIMESTAMPTZ False (Some ''now()''),
        column ''updated_at'' TIMESTAMPTZ False (Some ''now()'')],
      tb_primary_key = ''id'', tb_unique = [''name''], tb_foreign = []\<rparr>"

definition model_tables :: "table list" where
  "model_tables =
    [model_alert_records,
     model_audit_logs,
     model_auto_scaling_policies,
     model_cluster_deployments,
     model_migration_assessments,
     model_migration_plans,
     model_migration_tasks,
     model_metric_records,
     model_operation_tasks,
     model_resource_snapshots,
     model_scheduled_tasks,
     model_storage_pools]"

definition model_indexes :: "(string \<times> string \<times> string) list" where
  "model_indexes =
    [(''ix_migration_assessments_vm_id'', ''migration_assessments'', ''vm_id''),
     (''ix_metric_records_metric_name'', ''metric_records'', ''metric_name''),
     (''ix_metric_records_source'', ''metric_records'', ''source''),
     (''ix_metric_records_project_id'', ''metric_records'', ''project_id''),
     (''ix_metric_records_recorded_at'', ''metric_records'', ''recorded_at'')]"

text \<open>metadata.create_all: tables that exist are left as they are; a new table comes with its indexes.\<close>

definition create_all :: "schema \<Rightarrow> schema" where
  "create_all s = (let new = filter (\<lambda>t. tb_name t \<notin> set (table_names s)) model_tables
     in \<lparr>sm_tables = sm_tables s @ new,
         sm_indexes = sm_indexes s @ filter (\<lambda>(_, n, _). n \<in> set (map tb_name new)) model_indexes\<rparr>)"

definition empty_schema :: schema where
  "empty_schema = \<lparr>sm_tables = [], sm_indexes = []\<rparr>"

definition migrated :: "exn + schema" where
  "migrated = run_ops (initial_upgrade @ assessment_upgrade) empty_schema"

lemma migration_tables [simp]:
  "tb_name mig_alert_records = ''alert_records''"
  "tb_name mig_audit_logs = ''audit_logs''"
  "tb_name mig_auto_scaling_policies = ''auto_scaling_policies''"
  "tb_name mig_cluster_deployments = ''cluster_deployments''"
  "tb_name mig_metric_records = ''metric_records''"
  "tb_name mig_migration_tasks = ''migration_tasks''"
  "tb_name mig_operation_tasks = ''operation_tasks''"
  "tb_name mig_resource_snapshots = ''resource_snapshots''"
  "tb_name mig_scheduled_tasks = ''scheduled_tasks''"
  "tb_name mig_storage_pools = ''storage_pools''"
  "tb_name mig_migration_assessments = ''migration_assessments''"
  "tb_name mig_migration_plans = ''migration_plans''"
  by (simp_all add: mig_alert_records_def mig_audit_logs_def mig_auto_scaling_policies_def mig_cluster_deployments_def mig_metric_records_def mig_migration_tasks_def mig_operation_tasks_def mig_resource_snapshots_def mig_scheduled_tasks_def mig_storage_pools_def mig_migration_assessments_def mig_migration_plans_def)

lemma model_tables_names [simp]:
  "tb_name model_alert_records = ''alert_records''"
  "tb_name model_audit_logs = ''audit_logs''"
  "tb_name model_auto_scaling_policies = ''auto_scaling_policies''"
  "tb_name model_cluster_deployments = ''cluster_deployments''"
  "tb_name model_migration_assessments = ''migration_assessments''"
  "tb_name model_migration_plans = ''migration_plans''"
  "tb_name model_migration_tasks = ''migration_tasks''"
  "tb_name model_metric_records = ''metric_records''"
  "tb_name model_operation_tasks = ''operation_tasks''"
  "tb_name model_resource_snapshots = ''resource_snapshots''"
  "tb_name model_scheduled_tasks = ''scheduled_tasks''"
  "tb_name model_storage_pools = ''storage_pools''"
  by (simp_all add: model_alert_records_def model_audit_logs_def model_auto_scaling_policies_def model_cluster_deployments_def model_migration_assessments_def model_migration_plans_def model_migration_tasks_def model_metric_records_def model_operation_tasks_def model_resource_snapshots_def model_scheduled_tasks_def model_storage_pools_def)

lemma migration_tables_foreign [simp]:
  "tb_foreign mig_alert_records = []"
  "tb_foreign mig_audit_logs = []"
  "tb_foreign mig_auto_scaling_policies = []"
  "tb_foreign mig_cluster_deployments = []"
  "tb_foreign mig_metric_records = []"
  "tb_foreign mig_migration_tasks = []"
  "tb_foreign mig_operation_tasks = []"
  "tb_foreign mig_resource_snapshots = []"
  "tb_foreign mig_scheduled_tasks = []"
  "tb_foreign mig_storage_pools = []"
  "tb_foreign mig_migration_assessments = []"
  "tb_foreign mig_migration_plans = [(''assessment_id'', ''migration_assessments'')]"
  by (simp_all add: mig_alert_records_def mig_audit_logs_def mig_auto_scaling_policies_def mig_cluster_deployments_def mig_metric_records_def mig_migration_tasks_def mig_operation_tasks_def mig_resource_snapshots_def mig_scheduled_tasks_def mig_storage_pools_def mig_migration_assessments_def mig_migration_plans_def)

section \<open>Undoing a migration\<close>

fun undoing :: "ddl \<Rightarrow> ddl option" where
  "undoing (CreateTable t) = Some (DropTable (tb_name t))"
| "undoing (CreateIndex i n c) = Some (DropIndex i n)"
| "undoing _ = None"

text \<open>Foreign keys and indexes belong to tables that exist.\<close>

definition mentioned :: "schema \<Rightarrow> string list" where
  "mentioned s = map snd (concat (map tb_foreign (sm_tables s))) @ map (\<lambda>x. fst (snd x)) (sm_indexes s)"

definition refs_closed :: "schema \<Rightarrow> bool" where
  "refs_closed s \<longleftrightarrow> list_all (\<lambda>n. n \<in> set (table_names s)) (mentioned s)"

lemma filter_absent: "k \<notin> f ` set xs \<Longrightarrow> filter (\<lambda>x. f x \<noteq> k) xs = xs"
  by (induction xs) auto

lemma run_op_closed:
  assumes "undoing d = Some d'" "refs_closed s" "run_op d s = Inr s'"
  shows "refs_closed s'"
proof -
  have "set (table_names s) \<subseteq> set (table_names s') \<and> set (mentioned s') \<subseteq> set (mentioned s) \<union> set (table_names s)"
  proof (cases d)
    case (CreateTable t)
    then have "snd ` set (tb_foreign t) \<subseteq> set (table_names s)" and s': "s' = s\<lparr>sm_tables := sm_tables s @ [t]\<rparr>"
      using assms(3) by (auto simp: list_all_iff split: if_splits)
    moreover have "set (mentioned s') = set (mentioned s) \<union> snd ` set (tb_foreign t)"
      by (simp add: s' mentioned_def image_Un Un_ac)
    ultimately show ?thesis by (auto simp: table_names_def)
  next
    case (CreateIndex i n c)
    then have "n \<in> set (table_names s)" "s' = s\<lparr>sm_indexes := sm_indexes s @ [(i, n, c)]\<rparr>"
      using assms(3) by (auto split: if_splits)
    then show ?thesis by (simp add: mentioned_def table_names_def image_Un)
  qed (use assms(1) in auto)
  then show ?thesis using assms(2) by (auto simp: refs_closed_def list_all_iff)
qed

lemma run_op_inverse: "undoing d = Some d' \<Longrightarrow> refs_closed s \<Longrightarrow> run_op d s = Inr s' \<Longrightarrow> run_op d' s' = Inr s"
proof (cases d)
  case (CreateTable t)
  assume d: "undoing d = Some d'" "refs_closed s" "run_op d s = Inr s'"
  then have new: "tb_name t \<notin> set (table_names s)" "tb_name t \<notin> snd ` set (tb_foreign t)" "s' = s\<lparr>sm_tables := sm_tables s @ [t]\<rparr>"
    by (auto simp: CreateTable list_all_iff split: if_splits)
  moreover have absent: "tb_name t \<notin> set (mentioned s)" using d(2) new(1) by (auto simp: refs_closed_def list_all_iff)
  moreover have "filter (\<lambda>t'. tb_name t' \<noteq> tb_name t) (sm_tables s) = sm_tables s"
    using new(1) by (intro filter_absent) (simp add: table_names_def)
  moreover have "filter (\<lambda>x. fst (snd x) \<noteq> tb_name t) (sm_indexes s) = sm_indexes s"
    using absent by (intro filter_absent [of _ "\<lambda>x. fst (snd x)"]) (simp add: mentioned_def)
  moreover have "\<not> list_ex (refers_to (tb_name t)) (sm_tables s)"
    using absent by (auto simp: mentioned_def refers_to_def list_ex_iff)
  ultimately show ?thesis using d(1) by (auto simp: CreateTable table_names_def refers_to_def)
next
  case (CreateIndex i n c)
  assume d: "undoing d = Some d'" "run_op d s = Inr s'"
  then have "i \<notin> fst ` set (sm_indexes s)" "s' = s\<lparr>sm_indexes := sm_indexes s @ [(i, n, c)]\<rparr>"
    by (auto simp: CreateIndex split: if_splits)
  moreover from this have "filter (\<lambda>x. fst x \<noteq> i) (sm_indexes s) = sm_indexes s" by (intro filter_absent)
  ultimately show ?thesis using d(1) by (auto simp: CreateIndex)
qed auto

lemma run_ops_append: "run_ops (ds @ es) s = (case run_ops ds s of Inl e \<Rightarrow> Inl e | Inr s' \<Rightarrow> run_ops es s')"
  by (induction ds arbitrary: s) (simp_all split: sum.split)

text \<open>The undo of a list of creations.\<close>

definition undo :: "ddl list \<Rightarrow> ddl option list" where
  "undo ds = map undoing (rev ds)"

lemma run_ops_undo: "undo ds = map Some es \<Longrightarrow> refs_closed s \<Longrightarrow> run_ops ds s = Inr s' \<Longrightarrow> run_ops es s' = Inr s"
proof (induction ds arbitrary: s es)
  case (Cons d ds)
  obtain s1 where s1: "run_op d s = Inr s1" "run_ops ds s1 = Inr s'" using Cons.prems(3) by (auto split: sum.splits)
  have "undo ds @ [undoing d] = map Some es" using Cons.prems(1) by (simp add: undo_def)
  then obtain es1 d' where es: "es = es1 @ [d']" "undo ds = map Some es1" "undoing d = Some d'"
    by (cases es rule: rev_cases) auto
  have "refs_closed s1" using run_op_closed [OF es(3) Cons.prems(2) s1(1)] .
  then have "run_ops es1 s' = Inr s1" using Cons.IH es(2) s1(2) by blast
  then show ?case using run_op_inverse [OF es(3) Cons.prems(2) s1(1)] by (simp add: es(1) run_ops_append)
qed (simp add: undo_def)

text \<open>C20: Downgrading by both revisions undoes their upgrades: from every schema whose foreign keys and indexes belong to its
  tables, on which the upgrades succeed, the downgrades succeed and lead back to exactly that schema.\<close>

theorem migrations_reversible:
  assumes "refs_closed s" "run_ops (initial_upgrade @ assessment_upgrade) s = Inr s'"
  shows "run_ops (assessment_downgrade @ initial_downgrade) s' = Inr s"
proof -
  have "undo (initial_upgrade @ assessment_upgrade) = map Some (assessment_downgrade @ initial_downgrade)"
    by (simp add: undo_def initial_upgrade_def assessment_upgrade_def assessment_downgrade_def initial_downgrade_def)
  then show ?thesis using run_ops_undo assms by blast
qed

section \<open>The migrated database and the classes\<close>

text \<open>Columns an insertion must give a value for that the class does not have, columns of the class the table does not
  have, and columns with another type.\<close>

definition table_of :: "schema \<Rightarrow> string \<Rightarrow> table option" where
  "table_of s n = find (\<lambda>t. tb_name t = n) (sm_tables s)"

definition unfilled :: "table \<Rightarrow> table \<Rightarrow> string list" where
  "unfilled m t = map cl_name (filter (\<lambda>c. \<not> cl_nullable c \<and> cl_server_default c = None \<and> cl_name c \<notin> set (map cl_name (tb_columns t))) (tb_columns m))"

definition unknown :: "table \<Rightarrow> table \<Rightarrow> string list" where
  "unknown m t = filter (\<lambda>n. n \<notin> set (map cl_name (tb_columns m))) (map cl_name (tb_columns t))"

definition retyped :: "table \<Rightarrow> table \<Rightarrow> string list" where
  "retyped m t = map cl_name (filter (\<lambda>c. list_ex (\<lambda>d. cl_name d = cl_name c \<and> cl_type d \<noteq> cl_type c) (tb_columns m)) (tb_columns t))"

definition differences :: "schema \<Rightarrow> table \<Rightarrow> (string \<times> string list \<times> string list \<times> string list) option" where
  "differences s t = map_option (\<lambda>m. (tb_name t, unfilled m t, unknown m t, retyped m t)) (table_of s (tb_name t))"

definition head_schema :: schema where
  "head_schema = \<lparr>sm_tables =
     [mig_alert_records, mig_audit_logs, mig_auto_scaling_policies, mig_cluster_deployments, mig_metric_records, mig_migration_tasks,
      mig_operation_tasks, mig_resource_snapshots, mig_scheduled_tasks, mig_storage_pools, mig_migration_assessments, mig_migration_plans],
     sm_indexes =
     [(''ix_metric_records_metric_name'', ''metric_records'', ''metric_name''), (''ix_metric_records_project_id'', ''metric_records'', ''project_id''),
      (''ix_metric_records_recorded_at'', ''metric_records'', ''recorded_at''), (''ix_metric_records_source'', ''metric_records'', ''source''),
      (''ix_migration_assessments_vm_id'', ''migration_assessments'', ''vm_id'')]\<rparr>"

lemma migrated_schema: "migrated = Inr head_schema"
  by (simp add: migrated_def head_schema_def empty_schema_def initial_upgrade_def assessment_upgrade_def table_names_def)

lemma migrated_unchanged: "create_all head_schema = head_schema"
  by (simp add: head_schema_def create_all_def model_tables_def table_names_def Let_def)

lemma migrated_tables:
  "table_of head_schema ''alert_records'' = Some mig_alert_records"
  "table_of head_schema ''audit_logs'' = Some mig_audit_logs"
  "table_of head_schema ''auto_scaling_policies'' = Some mig_auto_scaling_policies"
  "table_of head_schema ''cluster_deployments'' = Some mig_cluster_deployments"
  "table_of head_schema ''migration_assessments'' = Some mig_migration_assessments"
  "table_of head_schema ''migration_plans'' = Some mig_migration_plans"
  "table_of head_schema ''migration_tasks'' = Some mig_migration_tasks"
  "table_of head_schema ''metric_records'' = Some mig_metric_records"
  "table_of head_schema ''operation_tasks'' = Some mig_operation_tasks"
  "table_of head_schema ''resource_snapshots'' = Some mig_resource_snapshots"
  "table_of head_schema ''scheduled_tasks'' = Some mig_scheduled_tasks"
  "table_of head_schema ''storage_pools'' = Some mig_storage_pools"
  by (simp_all add: table_of_def head_schema_def)

lemma table_differences:
  "unfilled mig_alert_records model_alert_records = []" "unknown mig_alert_records model_alert_records = []" "retyped mig_alert_records model_alert_records = [''id'']"
  "unfilled mig_audit_logs model_audit_logs = []" "unknown mig_audit_logs model_audit_logs = []" "retyped mig_audit_logs model_audit_logs = [''id'']"
  "unfilled mig_auto_scaling_policies model_auto_scaling_policies = []" "unknown mig_auto_scaling_policies model_auto_scaling_policies = []" "retyped mig_auto_scaling_policies model_auto_scaling_policies = [''id'']"
  "unfilled mig_cluster_deployments model_cluster_deployments = []" "unknown mig_cluster_deployments model_cluster_deployments = []" "retyped mig_cluster_deployments model_cluster_deployments = [''id'']"
  "unfilled mig_migration_assessments model_migration_assessments = []" "unknown mig_migration_assessments model_migration_assessments = []" "retyped mig_migration_assessments model_migration_assessments = []"
  "unfilled mig_migration_plans model_migration_plans = []" "unknown mig_migration_plans model_migration_plans = []" "retyped mig_migration_plans model_migration_plans = []"
  "unfilled mig_migration_tasks model_migration_tasks = []" "unknown mig_migration_tasks model_migration_tasks = []" "retyped mig_migration_tasks model_migration_tasks = [''id'']"
  "unfilled mig_metric_records model_metric_records = []" "unknown mig_metric_records model_metric_records = []" "retyped mig_metric_records model_metric_records = [''id'']"
  "unfilled mig_operation_tasks model_operation_tasks = [''retry_count'', ''max_retries'']" "unknown mig_operation_tasks model_operation_tasks = []" "retyped mig_operation_tasks model_operation_tasks = [''id'', ''error_message'']"
  "unfilled mig_resource_snapshots model_resource_snapshots = []" "unknown mig_resource_snapshots model_resource_snapshots = []" "retyped mig_resource_snapshots model_resource_snapshots = [''id'']"
  "unfilled mig_scheduled_tasks model_scheduled_tasks = []" "unknown mig_scheduled_tasks model_scheduled_tasks = []" "retyped mig_scheduled_tasks model_scheduled_tasks = [''id'']"
  "unfilled mig_storage_pools model_storage_pools = []" "unknown mig_storage_pools model_storage_pools = []" "retyped mig_storage_pools model_storage_pools = [''id'']"
  by code_simp+


theorem migrations_reversible_witness:
  "\<exists>s. migrated = Inr s \<and> refs_closed empty_schema \<and> run_ops (assessment_downgrade @ initial_downgrade) s = Inr empty_schema"
proof -
  obtain s where s: "migrated = Inr s" using migrated_schema by blast
  moreover have "refs_closed empty_schema" by (simp add: refs_closed_def mentioned_def empty_schema_def)
  ultimately show ?thesis using migrations_reversible [of empty_schema s] by (simp add: migrated_def)
qed

end
