(* ===== verification/Float_Error.thy ===== *)
theory Float_Error
  imports Py_Float
begin

text \<open>
  Error bounds for the binary64 arithmetic of Py_Float. \<open>near k a b\<close> says that the computed a is the
  exact non-negative b up to k roundings; sums, products and roundings of near values are near, so the
  bound of a formula of the sources is the number of its roundings. The locale half_power is what is
  relied on of a square hpow computed in double precision (\<^verbatim>\<open>math.sqrt\<close> and \<^verbatim>\<open>x ** 0.5\<close>, the
  latter being C's pow, whose last bit is not specified): zero at zero and an accurate square.
\<close>

section \<open>Values up to k roundings\<close>

definition shrink :: rat where
  "shrink = 1 - p2 (- 53)"

definition near :: "nat \<Rightarrow> rat \<Rightarrow> rat \<Rightarrow> bool" where
  "near k a b \<longleftrightarrow> 0 \<le> b \<and> shrink ^ k * b \<le> a \<and> shrink ^ k * a \<le> b"

lemma p2_m53: "p2 (- 53) = 1 / 9007199254740992"
  by (simp add: p2_minus p2_nonneg)

lemma shrink_bounds: "0 < shrink" "shrink < 1" "0 \<le> shrink" "shrink \<le> 1"
  by (simp_all add: shrink_def p2_m53)

lemma shrink_power_bounds: "0 < shrink ^ k" "shrink ^ k \<le> 1"
  by (simp_all add: shrink_bounds power_le_one)

lemma shrink_power_linear: "1 - of_nat k * p2 (- 53) \<le> shrink ^ k"
proof (induction k)
  case (Suc k)
  have "1 - of_nat (Suc k) * p2 (- 53) \<le> shrink * (1 - of_nat k * p2 (- 53))"
    by (simp add: shrink_def algebra_simps)
  also have "\<dots> \<le> shrink * shrink ^ k" using Suc.IH by (simp add: shrink_bounds mult_left_mono)
  finally show ?case by simp
qed simp

lemma near_refl: "0 \<le> b \<Longrightarrow> near k b b"
  using shrink_power_bounds [of k] by (simp add: near_def mult_left_le_one_le)

lemma near_nonneg: "near k a b \<Longrightarrow> 0 \<le> a"
  using shrink_power_bounds(1) [of k] unfolding near_def
  by (meson less_imp_le mult_nonneg_nonneg order_trans)

lemma near_weaken:
  assumes "near k a b" "k \<le> l"
  shows "near l a b"
proof -
  have "shrink ^ l \<le> shrink ^ k" using assms(2) by (simp add: shrink_bounds power_decreasing)
  moreover have "0 \<le> a" "0 \<le> b" using assms(1) near_nonneg by (auto simp: near_def)
  ultimately have "shrink ^ l * b \<le> shrink ^ k * b" "shrink ^ l * a \<le> shrink ^ k * a"
    by (simp_all add: mult_right_mono)
  then show ?thesis using assms(1) by (auto simp: near_def)
qed

lemma near_mult:
  assumes "near k a b" "near l c d"
  shows "near (k + l) (a * c) (b * d)"
proof -
  have nn: "0 \<le> a" "0 \<le> b" "0 \<le> c" "0 \<le> d"
    using assms near_nonneg by (auto simp: near_def)
  have pos: "0 \<le> shrink ^ k" "0 \<le> shrink ^ l" by (simp_all add: shrink_bounds)
  have "(shrink ^ k * b) * (shrink ^ l * d) \<le> a * c" "(shrink ^ k * a) * (shrink ^ l * c) \<le> b * d"
    using assms nn pos by (auto simp: near_def intro!: mult_mono)
  then show ?thesis using nn by (simp add: near_def power_add mult_ac)
qed

lemma near_add:
  assumes "near k a b" "near l c d"
  shows "near (max k l) (a + c) (b + d)"
  using near_weaken [OF assms(1), of "max k l"] near_weaken [OF assms(2), of "max k l"]
  by (simp add: near_def distrib_left)

lemma near_trans:
  assumes "near k a b" "near l b c"
  shows "near (k + l) a c"
proof -
  have p: "0 \<le> shrink ^ k" "0 \<le> shrink ^ l" by (simp_all add: shrink_bounds)
  have "shrink ^ k * (shrink ^ l * c) \<le> shrink ^ k * b" "shrink ^ l * (shrink ^ k * a) \<le> shrink ^ l * b"
    using assms p by (auto simp: near_def intro!: mult_left_mono)
  then show ?thesis using assms by (simp add: near_def power_add mult_ac)
qed

lemma near_0: "near k 0 b \<longleftrightarrow> b = 0"
  using shrink_power_bounds(1) [of k] by (auto simp: near_def mult_le_0_iff)

lemma near_0_right: "near k a 0 \<longleftrightarrow> a = 0"
  using shrink_power_bounds(1) [of k] by (auto simp: near_def mult_le_0_iff)

section \<open>One rounding\<close>

lemma fl_relative_error:
  assumes "0 < x"
  shows "shrink * x \<le> fl x" and "shrink * fl x \<le> x"
proof -
  let ?u = "p2 (ilog2 x - 52)"
  have u: "0 < ?u" by simp
  have h: "p2 (- 53) * p2 (ilog2 x) = ?u / 2"
    using p2_add [of "- 53" "ilog2 x"] p2_add [of "ilog2 x - 52" "- 1"] by (simp add: p2_def)
  have half: "?u / 2 \<le> p2 (- 53) * x"
    unfolding h [symmetric] using ilog2_bounds(1) [OF assms] by (simp add: mult_left_mono)
  have "of_int (rne (x / ?u)) * ?u \<le> (x / ?u + 1 / 2) * ?u" "(x / ?u - 1 / 2) * ?u \<le> of_int (rne (x / ?u)) * ?u"
    using rne_bounds [of "x / ?u"] u by (simp_all only: mult_le_cancel_right_pos)
  then have b: "fl x \<le> x + ?u / 2" "x - ?u / 2 \<le> fl x"
    unfolding fl_pos [OF assms] by (simp_all add: algebra_simps)
  from b(2) half show "shrink * x \<le> fl x" by (simp add: shrink_def algebra_simps)
  have "shrink * fl x \<le> shrink * (x + p2 (- 53) * x)"
    using b(1) half shrink_bounds by (intro mult_left_mono) auto
  also have "\<dots> = (1 - p2 (- 53) * p2 (- 53)) * x" by (simp add: shrink_def algebra_simps)
  also have "\<dots> \<le> x" using assms by (simp add: algebra_simps)
  finally show "shrink * fl x \<le> x" .
qed

lemma near_fl:
  assumes "near k a b"
  shows "near (Suc k) (fl a) b"
proof (cases "a = 0")
  case True
  with assms show ?thesis by (simp add: near_0)
next
  case False
  then have a: "0 < a" using near_nonneg [OF assms] by simp
  have "shrink * (shrink ^ k * b) \<le> shrink * a"
    using assms by (intro mult_left_mono) (auto simp: near_def shrink_bounds)
  then have "shrink ^ Suc k * b \<le> fl a" using fl_relative_error(1) [OF a] by (simp add: mult_ac)
  moreover have "shrink ^ k * (shrink * fl a) \<le> shrink ^ k * a"
    using fl_relative_error(2) [OF a] by (intro mult_left_mono) (auto simp: shrink_bounds)
  then have "shrink ^ Suc k * fl a \<le> b" using assms by (simp add: near_def mult_ac)
  ultimately show ?thesis using assms by (simp add: near_def)
qed

lemma fl_abs: "\<bar>fl x\<bar> = fl \<bar>x\<bar>"
  using fl_nonneg [of x] fl_nonneg [of "- x"] by (cases "0 \<le> x") (auto simp: fl_minus abs_if)

lemma near_square_fl: "near 3 (fmul (fl x) (fl x)) (x * x)"
proof -
  have "near 1 \<bar>fl x\<bar> \<bar>x\<bar>" using near_fl [OF near_refl, of "\<bar>x\<bar>" 0] by (simp add: fl_abs)
  from near_fl [OF near_mult [OF this this]] show ?thesis
    by (simp add: fmul_def numeral_3_eq_3)
qed

text \<open>The weighted square of a normalised difference, as both distances of the sources compute it.\<close>

lemma near_weighted_square:
  "0 \<le> w \<Longrightarrow> near 5 (fmul (fl w) (fmul (int_truediv a b) (int_truediv a b))) (w * (of_int a / of_int b)\<^sup>2)"
  unfolding int_truediv_def fmul_def [of "fl w"] power2_eq_square
  using near_fl [OF near_mult [OF near_fl [OF near_refl, of w 0] near_square_fl [of "of_int a / of_int b"]]]
  by (simp add: eval_nat_numeral)

lemma near_weighted_sum:
  assumes "near 5 a b" "near 5 c d" "near 5 e f"
  shows "near 7 (fadd (fadd a c) e) (b + d + f)"
proof -
  have "near 6 (fadd a c) (b + d)"
    using near_fl [OF near_add [OF assms(1,2)]] by (simp add: fadd_def eval_nat_numeral)
  from near_fl [OF near_add [OF this assms(3)]] show ?thesis
    by (simp add: fadd_def eval_nat_numeral)
qed

section \<open>From roundings to a relative error\<close>

text \<open>\<open>close_to a b\<close>: relative error at most two to the power of minus 40.\<close>

definition close_to :: "rat \<Rightarrow> rat \<Rightarrow> bool" where
  "close_to a b \<longleftrightarrow> 0 \<le> b \<and> b * (1 - p2 (- 40)) \<le> a \<and> a * (1 - p2 (- 40)) \<le> b"

lemma shrink_power_lower:
  assumes "k \<le> 1000"
  shows "1 - p2 (- 40) \<le> shrink ^ k"
proof -
  have "(of_nat k :: rat) \<le> 1000" using assms of_nat_mono [of k 1000] by simp
  then have "of_nat k * p2 (- 53) \<le> 1000 * p2 (- 53)" by (simp add: mult_right_mono)
  also have "\<dots> \<le> p2 (- 40)" by (simp add: p2_minus p2_nonneg)
  finally show ?thesis using shrink_power_linear [of k] by linarith
qed

lemma near_close_to:
  assumes "near k a b" "k \<le> 1000"
  shows "close_to a b"
proof -
  have nn: "0 \<le> a" "0 \<le> b" using assms near_nonneg by (auto simp: near_def)
  note s = shrink_power_lower [OF assms(2)]
  have "b * (1 - p2 (- 40)) \<le> shrink ^ k * b" "a * (1 - p2 (- 40)) \<le> shrink ^ k * a"
    using mult_right_mono [OF s nn(2)] mult_right_mono [OF s nn(1)] by (simp_all add: mult.commute)
  then show ?thesis using assms(1) by (auto simp: near_def close_to_def)
qed

section \<open>Square roots in double precision\<close>

locale half_power =
  fixes hpow :: "rat \<Rightarrow> rat"
  assumes hpow_0: "hpow 0 = 0"
    and hpow_pos: "0 < x \<Longrightarrow> 0 < hpow x"
    and hpow_square: "0 < x \<Longrightarrow> near 8 (hpow x * hpow x) x"
begin

lemma hpow_nonneg: "0 \<le> x \<Longrightarrow> 0 \<le> hpow x"
  using hpow_0 hpow_pos [of x] by (cases "x = 0") auto

lemma hpow_near_square:
  assumes "near k x y"
  shows "near (k + 8) (hpow x * hpow x) y"
proof (cases "x = 0")
  case True
  with assms show ?thesis by (simp add: near_0 hpow_0)
next
  case False
  then have "0 < x" using near_nonneg [OF assms] by simp
  from near_trans [OF hpow_square [OF this] assms] show ?thesis by (simp add: add.commute)
qed

end

text \<open>math.sqrt satisfies the contract.\<close>

lemma fsqrt_ulp_small:
  assumes "0 < x"
  shows "p2 (ilog2 x div 2 - 52) * 2 ^ 51 \<le> fsqrt x"
proof -
  let ?u = "p2 (ilog2 x div 2 - 52)"
  have u: "0 < ?u" by simp
  have "(2 ^ 52 * ?u) * (2 ^ 52 * ?u) = p2 (2 * (ilog2 x div 2))"
    using p2_add [of 52 "ilog2 x div 2 - 52"] p2_add [of "ilog2 x div 2" "ilog2 x div 2"]
    by (simp add: p2_nonneg)
  also have "\<dots> \<le> p2 (ilog2 x)" by simp
  also have "\<dots> \<le> x" by (rule ilog2_bounds(1) [OF assms])
  also have "\<dots> \<le> (fsqrt x + ?u / 2) * (fsqrt x + ?u / 2)" by (rule fsqrt_half_ulp(2) [OF assms])
  finally have "2 ^ 52 * ?u \<le> fsqrt x + ?u / 2"
    using fsqrt_nonneg [of x] u
    by (metis add_nonneg_nonneg half_gt_zero less_imp_le mult_strict_mono' not_less add_nonneg_pos)
  moreover have "2 ^ 52 * ?u = 2 * (?u * 2 ^ 51)" "?u \<le> ?u * 2 ^ 51" using u by simp_all
  ultimately show ?thesis using u by linarith
qed

lemma fsqrt_near_square:
  assumes "0 < x"
  shows "near 8 (fsqrt x * fsqrt x) x"
proof -
  let ?u = "p2 (ilog2 x div 2 - 52)" and ?s = "fsqrt x"
  have u: "?u / 2 \<le> ?s * p2 (- 52)" "0 < ?u"
    using fsqrt_ulp_small [OF assms] by (simp_all add: p2_minus p2_nonneg)
  have s: "0 < ?s" by (rule fsqrt_pos [OF assms])
  have "?s * (1 - p2 (- 52)) \<le> ?s - ?u / 2" "?s + ?u / 2 \<le> ?s * (1 + p2 (- 52))"
    using u by (simp_all add: algebra_simps)
  moreover have "0 \<le> ?s * (1 - p2 (- 52))" using s by (simp add: p2_minus p2_nonneg)
  ultimately have "(?s * (1 - p2 (- 52))) * (?s * (1 - p2 (- 52))) \<le> (?s - ?u / 2) * (?s - ?u / 2)"
      "(?s + ?u / 2) * (?s + ?u / 2) \<le> (?s * (1 + p2 (- 52))) * (?s * (1 + p2 (- 52)))"
    using u s by (auto intro!: mult_mono)
  then have lo: "(1 - p2 (- 52))\<^sup>2 * (?s * ?s) \<le> x" and hi: "x \<le> (1 + p2 (- 52))\<^sup>2 * (?s * ?s)"
    using fsqrt_half_ulp [OF assms] by (simp_all add: power2_eq_square algebra_simps)
  have k: "shrink ^ 8 \<le> (1 - p2 (- 52))\<^sup>2" "shrink ^ 8 * (1 + p2 (- 52))\<^sup>2 \<le> 1"
    by (simp_all add: shrink_def p2_minus p2_nonneg power2_eq_square eval_nat_numeral)
  have ss: "0 \<le> ?s * ?s" by simp
  have "shrink ^ 8 * (?s * ?s) \<le> x" using mult_right_mono [OF k(1) ss] lo by linarith
  moreover have "shrink ^ 8 * x \<le> shrink ^ 8 * ((1 + p2 (- 52))\<^sup>2 * (?s * ?s))"
    using hi by (intro mult_left_mono) (auto simp: shrink_bounds)
  then have "shrink ^ 8 * x \<le> ?s * ?s" using mult_right_mono [OF k(2) ss] by (simp add: mult_ac)
  ultimately show ?thesis using assms by (simp add: near_def)
qed

interpretation math_sqrt: half_power fsqrt
  by unfold_locales (simp_all add: fsqrt_pos fsqrt_near_square)

end
