(* ===== verification/Metrics_Registry.thy ===== *)
theory Metrics_Registry
  imports Float_Error
begin

text \<open>
  app/common/metrics/custom.py: the Prometheus metrics the program declares, and every call that
  records one (app/main.py, the services, the clients and the scripts). The metric objects belong to
  prometheus_client, which is not modelled; what is stated is its documented contract: a metric name
  is registered once, a histogram's buckets are increasing, \<^verbatim>\<open>labels(...)\<close> takes exactly the declared
  label names, and a counter is incremented, a gauge set, a histogram observed.
\<close>

section \<open>The declared metrics\<close>

datatype metric_kind = CounterM | GaugeM | HistogramM "rat list"

record metric_spec =
  ms_kind :: metric_kind
  ms_name :: string
  ms_labels :: "string list"

definition metric :: "metric_kind \<Rightarrow> string \<Rightarrow> string list \<Rightarrow> metric_spec" where
  "metric k n ls = \<lparr>ms_kind = k, ms_name = n, ms_labels = ls\<rparr>"

text \<open>The bucket bounds are written as in the source; the doubles they denote are \<^verbatim>\<open>map fl\<close> of them. Each entry is
  the Python variable with the constructor call it is bound to.\<close>

definition api_metrics :: "(string \<times> metric_spec) list" where
  "api_metrics =
   [(''openstack_api_duration'', metric (HistogramM [1 / 100, 1 / 40, 1 / 20, 3 / 40, 1 / 10, 1 / 4, 1 / 2, 3 / 4, 1, 5 / 2, 5, 10, 30, 60]) ''vmachine_openstack_api_duration_seconds'' [''service'', ''operation'']),
    (''openstack_api_errors'', metric CounterM ''vmachine_openstack_api_errors_total'' [''service'', ''error_type''])]"

definition cache_metric_specs :: "(string \<times> metric_spec) list" where
  "cache_metric_specs =
   [(''cache_hits'', metric CounterM ''vmachine_cache_hits_total'' [''resource'']),
    (''cache_misses'', metric CounterM ''vmachine_cache_misses_total'' [''resource'']),
    (''cache_invalidations'', metric CounterM ''vmachine_cache_invalidations_total'' [''resource'']),
    (''cache_hit_ratio'', metric GaugeM ''vmachine_cache_hit_ratio'' [''resource''])]"

definition system_metrics :: "(string \<times> metric_spec) list" where
  "system_metrics =
   [(''worker_count'', metric GaugeM ''vmachine_worker_count'' []),
    (''db_pool_size'', metric GaugeM ''vmachine_db_pool_size'' []),
    (''db_pool_overflow'', metric GaugeM ''vmachine_db_pool_overflow'' [])]"

definition redis_metric_specs :: "(string \<times> metric_spec) list" where
  "redis_metric_specs =
   [(''redis_cache_hits'', metric CounterM ''redis_cache_hits_total'' [''resource'']),
    (''redis_cache_misses'', metric CounterM ''redis_cache_misses_total'' [''resource'']),
    (''redis_cache_invalidations'', metric CounterM ''redis_cache_invalidations_total'' [''resource'']),
    (''redis_cache_latency'', metric (HistogramM [1 / 10000, 1 / 2000, 1 / 1000, 1 / 500, 1 / 200, 1 / 100, 1 / 40, 1 / 20, 1 / 10, 1 / 2, 1]) ''redis_cache_latency_seconds'' [''operation'']),
    (''redis_cache_errors'', metric CounterM ''redis_cache_errors_total'' []),
    (''cache_backend_status'', metric GaugeM ''cache_backend_status'' [])]"

definition pool_metrics :: "(string \<times> metric_spec) list" where
  "pool_metrics =
   [(''vmw_pool_size'', metric GaugeM ''vmware_connection_pool_size'' []),
    (''vmw_conn_created'', metric CounterM ''vmware_connections_created_total'' []),
    (''vmw_conn_reused'', metric CounterM ''vmware_connections_reused_total'' []),
    (''vmw_conn_reconnected'', metric CounterM ''vmware_connections_reconnected_total'' []),
    (''vmw_conn_failed'', metric CounterM ''vmware_connections_failed_total'' [])]"

definition assessment_metrics :: "(string \<times> metric_spec) list" where
  "assessment_metrics =
   [(''vmw_assessment_total'', metric CounterM ''vmware_assessment_total'' [''status'']),
    (''vmw_plan_total'', metric CounterM ''vmware_plan_total'' [''status'']),
    (''vmw_inventory_sync_duration'', metric (HistogramM [1 / 10, 1 / 2, 1, 5 / 2, 5, 10, 30, 60, 120]) ''vmware_inventory_sync_duration_seconds'' []),
    (''vmw_inventory_stale_count'', metric GaugeM ''vmware_inventory_stale_count'' [''resource_type''])]"

definition observability_metrics :: "(string \<times> metric_spec) list" where
  "observability_metrics =
   [(''vmw_vcenter_api_duration'', metric (HistogramM [1 / 100, 1 / 20, 1 / 10, 1 / 4, 1 / 2, 1, 5 / 2, 5, 10, 30, 60]) ''vmware_vcenter_api_duration_seconds'' [''operation'', ''status'']),
    (''vmw_openstack_api_duration'', metric (HistogramM [1 / 100, 1 / 40, 1 / 20, 1 / 10, 1 / 4, 1 / 2, 3 / 4, 1, 5 / 2, 5, 10, 30]) ''vmware_openstack_api_duration_seconds'' [''service'', ''operation'', ''status'']),
    (''vmw_assessment_queue_depth'', metric GaugeM ''vmware_assessment_queue_depth'' []),
    (''vmw_assessment_timeouts_total'', metric CounterM ''vmware_assessment_timeouts_total'' []),
    (''vmw_assessment_retries_total'', metric CounterM ''vmware_assessment_retries_total'' [''operation'']),
    (''vmw_unsupported_hardware_total'', metric CounterM ''vmware_unsupported_hardware_total'' [''category''])]"

definition provisioning_metrics :: "(string \<times> metric_spec) list" where
  "provisioning_metrics =
   [(''vmw_vm_create_duration'', metric (HistogramM [1 / 2, 1, 5 / 2, 5, 10, 30, 60, 120, 300]) ''vmware_vm_create_duration_seconds'' [''status'']),
    (''vmw_vm_create_failures'', metric CounterM ''vmware_vm_create_failures_total'' [''error_type'']),
    (''vmw_vm_lifecycle_operations'', metric CounterM ''vmware_vm_lifecycle_operations_total'' [''operation'', ''status'']),
    (''vmw_vm_active_count'', metric GaugeM ''vmware_vm_active_count'' [])]"

definition metric_registry :: "(string \<times> metric_spec) list" where
  "metric_registry = api_metrics @ cache_metric_specs @ system_metrics @ redis_metric_specs @ pool_metrics @
     assessment_metrics @ observability_metrics @ provisioning_metrics"

section \<open>The calls that record them\<close>

datatype metric_op = IncM | DecM | SetM | ObserveM

text \<open>The variable, the keyword names given to labels (none when labels is not called) and the operation.\<close>

type_synonym metric_call = "string \<times> string list \<times> metric_op"

definition main_calls :: "metric_call list" where
  "main_calls =
   [(''cache_backend_status'', [], SetM), (''cache_hits'', [''resource''], IncM), (''cache_misses'', [''resource''], IncM),
    (''cache_invalidations'', [''resource''], IncM), (''cache_hit_ratio'', [''resource''], SetM), (''worker_count'', [], SetM)]"

definition sync_redis_calls :: "metric_call list" where
  "sync_redis_calls =
   [(''redis_cache_hits'', [''resource''], IncM), (''redis_cache_misses'', [''resource''], IncM),
    (''redis_cache_invalidations'', [''resource''], IncM), (''redis_cache_errors'', [], IncM),
    (''redis_cache_latency'', [''operation''], ObserveM)]"

definition engine_calls :: "metric_call list" where
  "engine_calls =
   [(''vmw_vm_create_duration'', [''status''], ObserveM), (''vmw_vm_active_count'', [], IncM),
    (''vmw_vm_create_duration'', [''status''], ObserveM), (''vmw_vm_create_failures'', [''error_type''], IncM),
    (''vmw_vm_lifecycle_operations'', [''operation'', ''status''], IncM),
    (''vmw_vm_lifecycle_operations'', [''operation'', ''status''], IncM), (''vmw_vm_active_count'', [], SetM),
    (''vmw_vm_active_count'', [], IncM), (''vmw_vm_lifecycle_operations'', [''operation'', ''status''], IncM),
    (''vmw_vm_lifecycle_operations'', [''operation'', ''status''], IncM)]"

definition compatibility_calls :: "metric_call list" where
  "compatibility_calls = replicate 8 (''vmw_unsupported_hardware_total'', [''category''], IncM)"

definition mapping_calls :: "metric_call list" where
  "mapping_calls = replicate 4 (''vmw_openstack_api_duration'', [''service'', ''operation'', ''status''], ObserveM)"

definition parallel_calls :: "metric_call list" where
  "parallel_calls =
   [(''vmw_assessment_queue_depth'', [], SetM), (''vmw_assessment_timeouts_total'', [], IncM),
    (''vmw_assessment_retries_total'', [''operation''], IncM), (''vmw_assessment_timeouts_total'', [], IncM),
    (''vmw_assessment_queue_depth'', [], SetM), (''vmw_assessment_queue_depth'', [], SetM)]"

definition openstack_client_calls :: "metric_call list" where
  "openstack_client_calls =
   [(''openstack_api_errors'', [''service'', ''error_type''], IncM), (''openstack_api_duration'', [''service'', ''operation''], ObserveM)]"

definition vmware_client_calls :: "metric_call list" where
  "vmware_client_calls = replicate 6 (''vmw_vcenter_api_duration'', [''operation'', ''status''], ObserveM)"

definition script_calls :: "metric_call list" where
  "script_calls =
   [(''vmw_openstack_api_duration'', [''service'', ''operation'', ''status''], ObserveM),
    (''vmw_openstack_api_duration'', [''service'', ''operation'', ''status''], ObserveM),
    (''vmw_vcenter_api_duration'', [''operation'', ''status''], ObserveM), (''vmw_vcenter_api_duration'', [''operation'', ''status''], ObserveM),
    (''vmw_vm_create_failures'', [''error_type''], IncM), (''vmw_vm_lifecycle_operations'', [''operation'', ''status''], IncM),
    (''vmw_vm_create_duration'', [''status''], ObserveM), (''vmw_vm_active_count'', [], SetM), (''vmw_vm_active_count'', [], DecM)]"

definition all_metric_calls :: "metric_call list" where
  "all_metric_calls = main_calls @ sync_redis_calls @ engine_calls @ compatibility_calls @ mapping_calls @ parallel_calls @
     openstack_client_calls @ vmware_client_calls @ script_calls"

section \<open>The contract\<close>

fun op_of_kind :: "metric_kind \<Rightarrow> metric_op \<Rightarrow> bool" where
  "op_of_kind CounterM p = (p = IncM)"
| "op_of_kind GaugeM p = (p = IncM \<or> p = DecM \<or> p = SetM)"
| "op_of_kind (HistogramM _) p = (p = ObserveM)"

definition call_accepted :: "metric_call \<Rightarrow> bool" where
  "call_accepted c = (case c of (v, ls, p) \<Rightarrow> (case map_of metric_registry v of
     None \<Rightarrow> False | Some m \<Rightarrow> op_of_kind (ms_kind m) p \<and> set ls = set (ms_labels m) \<and> length ls = length (ms_labels m)))"

text \<open>The time series a metric exposes; a counter's name may end in \<^verbatim>\<open>_total\<close>, which the client strips and
  appends again.\<close>

definition strip_total :: "string \<Rightarrow> string" where
  "strip_total n = (if length n \<ge> 6 \<and> drop (length n - 6) n = ''_total'' then take (length n - 6) n else n)"

definition family_of :: "metric_spec \<Rightarrow> string" where
  "family_of m = (if ms_kind m = CounterM then strip_total (ms_name m) else ms_name m)"

fun suffixes_of :: "metric_kind \<Rightarrow> string list" where
  "suffixes_of CounterM = [[], ''_total'', ''_created'']"
| "suffixes_of GaugeM = [[]]"
| "suffixes_of (HistogramM _) = [[], ''_bucket'', ''_count'', ''_sum'', ''_created'']"

definition series_of :: "metric_spec \<Rightarrow> string list" where
  "series_of m = map (\<lambda>s. family_of m @ s) (suffixes_of (ms_kind m))"

definition all_series :: "string list" where
  "all_series = concat (map (\<lambda>(v, m). series_of m) metric_registry)"

fun strictly_increasing :: "rat list \<Rightarrow> bool" where
  "strictly_increasing (x # y # xs) = (x < y \<and> strictly_increasing (y # xs))"
| "strictly_increasing xs = True"

fun buckets_ok :: "metric_kind \<Rightarrow> bool" where
  "buckets_ok (HistogramM bs) = (bs \<noteq> [] \<and> strictly_increasing (map fl bs))"
| "buckets_ok _ = True"

section \<open>Properties\<close>

lemmas metric_groups = api_metrics_def cache_metric_specs_def system_metrics_def redis_metric_specs_def pool_metrics_def
  assessment_metrics_def observability_metrics_def provisioning_metrics_def

lemmas metric_call_groups = main_calls_def sync_redis_calls_def engine_calls_def compatibility_calls_def mapping_calls_def
  parallel_calls_def openstack_client_calls_def vmware_client_calls_def script_calls_def

definition families :: "string list" where
  "families = map (\<lambda>(v, m). family_of m) metric_registry"

definition series_suffixes :: "string list" where
  "series_suffixes = [''_total'', ''_created'', ''_bucket'', ''_count'', ''_sum'']"

text \<open>What precedes a suffix, found on the reversed name.\<close>

fun strip_prefix :: "string \<Rightarrow> string \<Rightarrow> string option" where
  "strip_prefix [] t = Some t"
| "strip_prefix (c # s) [] = None"
| "strip_prefix (c # s) (d # t) = (if c = d then strip_prefix s t else None)"

definition before_suffix :: "string \<Rightarrow> string \<Rightarrow> string option" where
  "before_suffix s t = map_option rev (strip_prefix (rev s) (rev t))"

lemma strip_prefix_Some: "strip_prefix s t = Some u \<longleftrightarrow> t = s @ u"
  by (induction s t rule: strip_prefix.induct) auto

lemma before_suffix_Some: "before_suffix s t = Some u \<longleftrightarrow> t = u @ s"
  by (auto simp: before_suffix_def strip_prefix_Some rev_eq_append_conv intro: exI [of _ "rev u"])

text \<open>No family name is another one with a suffix, and no suffix ends with another.\<close>

lemma suffixes_apart: "list_all (\<lambda>s. list_all (\<lambda>t. before_suffix s t = None \<or> s = t) series_suffixes) series_suffixes"
  by code_simp

lemma distinct_families: "distinct families"
  by code_simp

lemma families_apart:
  "list_all (\<lambda>f. list_all (\<lambda>s. case before_suffix s f of None \<Rightarrow> True | Some u \<Rightarrow> u \<notin> set families)
     series_suffixes) families"
  by code_simp

lemma distinct_append_suffixes:
  assumes "distinct fs" "\<And>f s u. f \<in> set fs \<Longrightarrow> s \<in> set series_suffixes \<Longrightarrow> f = u @ s \<Longrightarrow> u \<notin> set fs"
  shows "inj_on (\<lambda>(f, s). f @ s) (set fs \<times> insert [] (set series_suffixes))"
proof (rule inj_onI, clarify)
  fix f s g t
  assume fg: "f \<in> set fs" "g \<in> set fs" and st: "s \<in> insert [] (set series_suffixes)" "t \<in> insert [] (set series_suffixes)"
    and eq: "f @ s = g @ t"
  have apart: "s' = t'" if "s' \<in> set series_suffixes" "t' \<in> set series_suffixes" "t' = u @ s'" for s' t' u
  proof -
    have "before_suffix s' t' = Some u" using that(3) by (simp only: before_suffix_Some)
    moreover have "before_suffix s' t' = None \<or> s' = t'"
      using suffixes_apart that(1,2) by (simp only: list_all_iff)
    ultimately show ?thesis by simp
  qed
  have "s = t"
  proof (cases "s = [] \<or> t = []")
    case True
    then show ?thesis using eq fg st assms(2) by auto
  next
    case False
    then have "s \<in> set series_suffixes" "t \<in> set series_suffixes" using st by auto
    then show ?thesis using eq apart by (auto simp: append_eq_append_conv2)
  qed
  then show "f = g \<and> s = t" using eq by simp
qed

definition series_keys :: "(string \<times> string) list" where
  "series_keys = concat (map (\<lambda>(v, m). map (Pair (family_of m)) (suffixes_of (ms_kind m))) metric_registry)"

lemma suffixes_of_kind: "distinct (suffixes_of k)" "set (suffixes_of k) \<subseteq> insert [] (set series_suffixes)"
  by (cases k; simp add: series_suffixes_def)+

lemma distinct_keys:
  "distinct (map (\<lambda>(v, m). family_of m) ms) \<Longrightarrow>
   distinct (concat (map (\<lambda>(v, m). map (Pair (family_of m)) (suffixes_of (ms_kind m))) ms))"
  by (induction ms) (auto simp: distinct_map suffixes_of_kind inj_on_def)

lemma distinct_series: "distinct all_series"
proof -
  have "u \<notin> set families" if "f \<in> set families" "s \<in> set series_suffixes" "f = u @ s" for f s u
  proof -
    have "before_suffix s f = Some u" using that(3) by (simp only: before_suffix_Some)
    moreover have "case before_suffix s f of None \<Rightarrow> True | Some u \<Rightarrow> u \<notin> set families"
      using families_apart that(1,2) by (simp only: list_all_iff)
    ultimately show ?thesis by simp
  qed
  then have "inj_on (\<lambda>(f, s). f @ s) (set families \<times> insert [] (set series_suffixes))"
    by (rule distinct_append_suffixes [OF distinct_families])
  moreover have "set series_keys \<subseteq> set families \<times> insert [] (set series_suffixes)"
    using suffixes_of_kind(2) by (fastforce simp: series_keys_def families_def)
  moreover have "distinct series_keys"
    using distinct_keys distinct_families by (simp add: series_keys_def families_def)
  ultimately have "distinct (map (\<lambda>(f, s). f @ s) series_keys)" by (auto simp: distinct_map intro: inj_on_subset)
  moreover have "map (\<lambda>(f, s). f @ s) series_keys = all_series"
    unfolding series_keys_def all_series_def series_of_def map_concat
    by (rule arg_cong [where f = concat]) (simp add: split_beta comp_def case_prod_unfold)
  ultimately show ?thesis by simp
qed

lemma calls_accepted: "list_all call_accepted all_metric_calls"
  by code_simp

text \<open>Bounds that differ by more than a rounding stay different as doubles.\<close>

lemma fl_strict: "0 < x \<Longrightarrow> x * (1 + p2 (- 50)) < y \<Longrightarrow> fl x < fl y"
proof -
  assume x: "0 < x" and xy: "x * (1 + p2 (- 50)) < y"
  have "x \<le> x * (1 + p2 (- 50))" using x by simp
  then have y: "0 < y" using x xy by linarith
  have s2: "1 \<le> shrink * shrink * (1 + p2 (- 50))" by (simp add: shrink_def p2_minus p2_nonneg)
  have "shrink * fl x \<le> x" "shrink * y \<le> fl y" by (rule fl_relative_error x y)+
  have "x \<le> x * (shrink * shrink * (1 + p2 (- 50)))" using mult_left_mono [OF s2, of x] x by simp
  also have "\<dots> = shrink * shrink * (x * (1 + p2 (- 50)))" by (simp add: mult_ac)
  also have "\<dots> < shrink * shrink * y" using xy shrink_bounds by (intro mult_strict_left_mono) auto
  also have "\<dots> \<le> shrink * fl y"
    using mult_left_mono [OF \<open>shrink * y \<le> fl y\<close>, of shrink] shrink_bounds by (simp add: mult_ac)
  finally have "shrink * fl x < shrink * fl y" using \<open>shrink * fl x \<le> x\<close> by linarith
  then show ?thesis using shrink_bounds by simp
qed

fun well_spaced :: "rat list \<Rightarrow> bool" where
  "well_spaced (x # y # xs) = (0 < x \<and> x * (1 + p2 (- 50)) < y \<and> well_spaced (y # xs))"
| "well_spaced xs = True"

lemma well_spaced_increasing: "well_spaced xs \<Longrightarrow> strictly_increasing (map fl xs)"
  by (induction xs rule: well_spaced.induct) (simp_all add: fl_strict)

lemma buckets_increasing: "list_all (\<lambda>(v, m). buckets_ok (ms_kind m)) metric_registry"
proof -
  have "list_all (\<lambda>(v, m). case ms_kind m of HistogramM bs \<Rightarrow> bs \<noteq> [] \<and> well_spaced bs | _ \<Rightarrow> True) metric_registry"
    by (simp add: metric_registry_def metric_groups metric_def p2_minus p2_nonneg)
  moreover have "(case k of HistogramM bs \<Rightarrow> bs \<noteq> [] \<and> well_spaced bs | _ \<Rightarrow> True) \<Longrightarrow> buckets_ok k" for k
    by (cases k) (simp_all add: well_spaced_increasing)
  ultimately show ?thesis by (fastforce simp: list_all_iff)
qed

text \<open>The metrics are consistent: every recording call of the application and its scripts names a declared
  metric, gives exactly its label names and uses an operation of its kind; no two declared metrics expose a
  time series of the same name; and the bucket bounds of every histogram are increasing as doubles. So neither the
  declarations nor the recording calls are rejected by the client library.\<close>

theorem metrics_consistent:
  "list_all call_accepted all_metric_calls \<and> distinct all_series \<and> distinct (map fst metric_registry) \<and>
   list_all (\<lambda>(v, m). buckets_ok (ms_kind m)) metric_registry"
  using calls_accepted distinct_series buckets_increasing
  by (simp add: metric_registry_def metric_groups)

text \<open>Eleven of the declared metrics are recorded by no call: they are exported with their initial value for ever.\<close>

theorem never_recorded_metrics:
  "filter (\<lambda>v. \<not> list_ex (\<lambda>c. fst c = v) all_metric_calls) (map fst metric_registry) =
   [''db_pool_size'', ''db_pool_overflow'', ''vmw_pool_size'', ''vmw_conn_created'', ''vmw_conn_reused'', ''vmw_conn_reconnected'',
    ''vmw_conn_failed'', ''vmw_assessment_total'', ''vmw_plan_total'', ''vmw_inventory_sync_duration'', ''vmw_inventory_stale_count'']"
  by code_simp

end
