(* ===== verification/Api_Benchmark.thy ===== *)
theory Api_Benchmark
  imports Routing Benchmark_Stats
begin

text \<open>
  benchmarks/api_benchmark.py and benchmarks/preflight_check.py: the endpoints they call, the measurement of one
  endpoint, the whole benchmark and the preflight check with its exit code. The HTTP client (httpx) and the server
  behind it are a parameter: a request returns a status code or raises, and time passes in the world it changes.
  Printing and the JSON file are not modelled. statistics.quantiles is the exclusive method of the standard library.
\<close>

section \<open>Endpoints\<close>

record bench_endpoint =
  be_method :: string
  be_path :: string
  be_name :: string
  be_enabled :: bool

definition get_endpoint :: "string \<Rightarrow> string \<Rightarrow> bench_endpoint" where
  "get_endpoint path name = \<lparr>be_method = ''GET'', be_path = path, be_name = name, be_enabled = True\<rparr>"

definition BENCH_ENDPOINTS :: "bench_endpoint list" where
  "BENCH_ENDPOINTS =
    [get_endpoint ''/api/v1/health'' ''Health Check'',
     get_endpoint ''/api/v1/compute/servers'' ''List Servers'',
     get_endpoint ''/api/v1/images'' ''List Images'',
     get_endpoint ''/api/v1/networks'' ''List Networks'',
     get_endpoint ''/api/v1/volumes'' ''List Volumes'',
     get_endpoint ''/api/v1/k8s/cluster'' ''Get K8s Cluster Info'',
     get_endpoint ''/api/v1/migrations'' ''List Migrations'',
     get_endpoint ''/api/v1/vmware/vms'' ''VMware VMs (cold)'',
     get_endpoint ''/api/v1/vmware/datastores'' ''VMware Datastores (cold)'',
     get_endpoint ''/api/v1/vmware/networks'' ''VMware Networks (cold)'',
     get_endpoint ''/api/v1/vmware/assessments'' ''VMware Assessments (cold)'',
     get_endpoint ''/api/v1/vmware/plans'' ''VMware Plans (cold)'']"

definition PREFLIGHT_ENDPOINTS :: "(string \<times> string) list" where
  "PREFLIGHT_ENDPOINTS =
    [(''/api/v1/health'', ''Health Check''),
     (''/api/v1/compute/servers'', ''Nova Endpoint (Servers)''),
     (''/api/v1/images'', ''Glance Endpoint (Images)''),
     (''/api/v1/networks'', ''Neutron Endpoint (Networks)''),
     (''/api/v1/volumes'', ''Cinder Endpoint (Volumes)''),
     (''/api/v1/k8s/cluster'', ''Kubernetes API''),
     (''/api/v1/migrations'', ''VMware Migration Route'')]"

section \<open>Measuring an endpoint\<close>

record 'w http_env =
  he_request :: "string \<Rightarrow> string \<Rightarrow> ('w, int) act"
  he_clock :: "'w \<Rightarrow> rat"

datatype status_key = Status int | ExceptionName string

record bench_acc =
  ba_success :: "rat list"
  ba_error :: "rat list"
  ba_codes :: "(status_key, int) dict"

definition is_success :: "int \<Rightarrow> bool" where
  "is_success c \<longleftrightarrow> 200 \<le> c \<and> c < 300"

definition measure_once :: "'w http_env \<Rightarrow> string \<Rightarrow> string \<Rightarrow> bench_acc \<Rightarrow> 'w \<Rightarrow> bench_acc \<times> 'w" where
  "measure_once E m path acc w = (case he_request E m path w of
     (Inr code, w') \<Rightarrow>
       (let latency_ms = fmul (fsub (he_clock E w') (he_clock E w)) 1000;
            acc' = acc\<lparr>ba_codes := counter_add (ba_codes acc) (Status code) 1\<rparr>
        in (if is_success code then acc'\<lparr>ba_success := ba_success acc @ [latency_ms]\<rparr>
            else acc'\<lparr>ba_error := ba_error acc @ [latency_ms]\<rparr>, w'))
   | (Inl e, w') \<Rightarrow>
       (let latency_ms = fmul (fsub (he_clock E w') (he_clock E w)) 1000
        in (acc\<lparr>ba_codes := counter_add (ba_codes acc) (ExceptionName (exn_name e)) 1,
                ba_error := ba_error acc @ [latency_ms]\<rparr>, w')))"

fun measure_loop :: "'w http_env \<Rightarrow> string \<Rightarrow> string \<Rightarrow> nat \<Rightarrow> bench_acc \<Rightarrow> 'w \<Rightarrow> bench_acc \<times> 'w" where
  "measure_loop E m path 0 acc w = (acc, w)"
| "measure_loop E m path (Suc n) acc w =
     (case measure_once E m path acc w of (acc', w') \<Rightarrow> measure_loop E m path n acc' w')"

definition exclusive_quantile :: "rat list \<Rightarrow> int \<Rightarrow> int \<Rightarrow> rat" where
  "exclusive_quantile data n i =
    (let ld = int (length data); m = ld + 1; j0 = i * m div n;
         j = (if j0 < 1 then 1 else if j0 > ld - 1 then ld - 1 else j0);
         delta = i * m - j * n
     in fdiv (fadd (fmul (data ! nat (j - 1)) (of_int (n - delta))) (fmul (data ! nat j) (of_int delta))) (of_int n))"

record success_metrics =
  sm_avg :: rat
  sm_p50 :: rat
  sm_p95 :: rat
  sm_p99 :: rat
  sm_min :: rat
  sm_max :: rat

definition success_metrics_of :: "rat list \<Rightarrow> success_metrics" where
  "success_metrics_of s =
    (if s = [] then \<lparr>sm_avg = 0, sm_p50 = 0, sm_p95 = 0, sm_p99 = 0, sm_min = 0, sm_max = 0\<rparr>
     else \<lparr>sm_avg = stat_mean s, sm_p50 = stat_median s,
       sm_p95 = (if length s \<ge> 20 then exclusive_quantile s 20 19 else last s),
       sm_p99 = (if length s \<ge> 100 then exclusive_quantile s 100 99 else last s),
       sm_min = hd s, sm_max = last s\<rparr>)"

record endpoint_result =
  er_name :: string
  er_endpoint :: string
  er_total_requests :: int
  er_success_rate :: rat
  er_failure_rate :: rat
  er_status_codes :: "(status_key, int) dict"
  er_success_metrics :: success_metrics
  er_error_avg :: rat
  er_error_count :: nat

definition rate_of :: "nat \<Rightarrow> int \<Rightarrow> exn + rat" where
  "rate_of k n = (if n = 0 then Inl (PyException ''ZeroDivisionError'' ''division by zero'')
     else Inr (fmul (int_truediv (int k) n) 100))"

definition endpoint_summary :: "bench_endpoint \<Rightarrow> int \<Rightarrow> bench_acc \<Rightarrow> exn + endpoint_result" where
  "endpoint_summary ep iterations acc =
    checkS (rate_of (length (ba_success acc)) iterations) (\<lambda>sr.
    checkS (rate_of (length (ba_error acc)) iterations) (\<lambda>fr.
      Inr \<lparr>er_name = be_name ep, er_endpoint = be_method ep @ '' '' @ be_path ep, er_total_requests = iterations,
        er_success_rate = sr, er_failure_rate = fr, er_status_codes = ba_codes acc,
        er_success_metrics = success_metrics_of (sort (ba_success acc)),
        er_error_avg = (if ba_error acc = [] then 0 else stat_mean (ba_error acc)),
        er_error_count = length (ba_error acc)\<rparr>))"

definition measure_endpoint :: "'w http_env \<Rightarrow> bench_endpoint \<Rightarrow> int \<Rightarrow> ('w, endpoint_result) act" where
  "measure_endpoint E ep iterations w =
    (case measure_loop E (be_method ep) (be_path ep) (nat iterations) \<lparr>ba_success = [], ba_error = [], ba_codes = []\<rparr> w of
       (acc, w') \<Rightarrow> (endpoint_summary ep iterations acc, w'))"

text \<open>The results, and whether an error summary is printed.\<close>

definition run_api_benchmark :: "'w http_env \<Rightarrow> int \<Rightarrow> ('w, endpoint_result list \<times> bool) act" where
  "run_api_benchmark E iterations =
    bindE (mapE (\<lambda>ep. measure_endpoint E ep iterations) (filter be_enabled BENCH_ENDPOINTS)) (\<lambda>results.
    retE (results, list_ex (\<lambda>r. er_error_count r > 0) results))"

section \<open>The preflight check\<close>

definition preflight_one :: "'w http_env \<Rightarrow> string \<times> string \<Rightarrow> ('w, string \<times> string \<times> string) act" where
  "preflight_one E ep w = (case ep of (path, name) \<Rightarrow> (case he_request E ''GET'' path w of
     (Inr code, w') \<Rightarrow> (Inr (name, path, if code = 200 then ''PASS'' else ''FAIL ('' @ str_int code @ '')''), w')
   | (Inl e, w') \<Rightarrow> (Inr (name, path, ''FAIL ('' @ exn_name e @ '')''), w')))"

definition preflight_check :: "'w http_env \<Rightarrow> ('w, (string \<times> string \<times> string) list) act" where
  "preflight_check E =
    bindE (mapE (preflight_one E) PREFLIGHT_ENDPOINTS) (\<lambda>rows.
    if list_all (\<lambda>(_, _, status). status = ''PASS'') rows then retE rows else raiseE (PyException ''SystemExit'' ''1''))"

section \<open>Counting\<close>

definition code_total :: "(status_key \<Rightarrow> bool) \<Rightarrow> (status_key, int) dict \<Rightarrow> int" where
  "code_total P d = sum_list (map snd (filter (\<lambda>e. P (fst e)) d))"

lemma code_total_set:
  "code_total P (dict_set d k v) = code_total P d + (if P k then v - dict_get_default d k 0 else 0)"
  by (induction d k v rule: dict_set.induct) (auto simp: code_total_def dict_get_default_def)

lemma code_total_counter_add: "code_total P (counter_add d k n) = code_total P d + (if P k then n else 0)"
  by (simp add: counter_add_def code_total_set)

fun success_key :: "status_key \<Rightarrow> bool" where
  "success_key (Status c) = is_success c"
| "success_key (ExceptionName _) = False"

lemma measure_once_counts:
  assumes "measure_once E m path acc w = (acc', w')"
  shows "int (length (ba_success acc')) + int (length (ba_error acc')) = int (length (ba_success acc)) + int (length (ba_error acc)) + 1"
    and "code_total (\<lambda>_. True) (ba_codes acc') = code_total (\<lambda>_. True) (ba_codes acc) + 1"
    and "code_total success_key (ba_codes acc') - int (length (ba_success acc')) =
         code_total success_key (ba_codes acc) - int (length (ba_success acc))"
  using assms
  by (auto simp: measure_once_def Let_def code_total_counter_add split: prod.splits sum.splits if_splits)

lemma measure_loop_counts:
  assumes "measure_loop E m path n acc w = (acc', w')"
  shows "int (length (ba_success acc')) + int (length (ba_error acc')) = int (length (ba_success acc)) + int (length (ba_error acc)) + int n \<and>
    code_total (\<lambda>_. True) (ba_codes acc') = code_total (\<lambda>_. True) (ba_codes acc) + int n \<and>
    code_total success_key (ba_codes acc') - int (length (ba_success acc')) =
      code_total success_key (ba_codes acc) - int (length (ba_success acc))"
  using assms
proof (induction n arbitrary: acc w)
  case (Suc n)
  obtain a v where av: "measure_once E m path acc w = (a, v)" by fastforce
  with Suc.prems have "measure_loop E m path n a v = (acc', w')" by simp
  from Suc.IH [OF this] measure_once_counts [OF av] show ?case by auto
qed simp

text \<open>Measuring an endpoint accounts for every request: with a positive number of iterations a result is returned
  whatever the requests do, the counts of the status codes and exception names add up to the number of
  requests, exactly the answers with a 2xx status are successes and all others, exceptions included, are
  errors, and the rates are these shares in per cent. With no iterations the division fails.\<close>

theorem endpoint_measured:
  "case fst (measure_endpoint E ep iterations w) of
     Inl e \<Rightarrow> iterations = 0 \<and> e = PyException ''ZeroDivisionError'' ''division by zero''
   | Inr r \<Rightarrow> iterations \<noteq> 0 \<and> er_total_requests r = iterations \<and>
       code_total (\<lambda>_. True) (er_status_codes r) = max 0 iterations \<and>
       int (er_error_count r) = max 0 iterations - code_total success_key (er_status_codes r) \<and>
       er_success_rate r = fmul (int_truediv (code_total success_key (er_status_codes r)) iterations) 100 \<and>
       er_failure_rate r = fmul (int_truediv (int (er_error_count r)) iterations) 100"
proof -
  let ?init = "\<lparr>ba_success = [], ba_error = [], ba_codes = []\<rparr>"
  obtain acc w' where l: "measure_loop E (be_method ep) (be_path ep) (nat iterations) ?init w = (acc, w')" by fastforce
  from measure_loop_counts [OF l] have c:
    "int (length (ba_success acc)) + int (length (ba_error acc)) = max 0 iterations"
    "code_total (\<lambda>_. True) (ba_codes acc) = max 0 iterations" "code_total success_key (ba_codes acc) = int (length (ba_success acc))"
    by (auto simp: code_total_def)
  show ?thesis using c
    by (auto simp: measure_endpoint_def l endpoint_summary_def rate_of_def checkS_def)
qed

lemma preflight_one_row:
  "\<exists>s. preflight_one E (path, name) w = (Inr (name, path, s), snd (he_request E ''GET'' path w)) \<and>
     (s = ''PASS'' \<longleftrightarrow> fst (he_request E ''GET'' path w) = Inr 200)"
  by (cases "he_request E ''GET'' path w") (auto simp: preflight_one_def split: sum.splits)

fun asked :: "'w http_env \<Rightarrow> (string \<times> string) list \<Rightarrow> 'w \<Rightarrow> (exn + int) list \<times> 'w" where
  "asked E [] w = ([], w)"
| "asked E ((path, name) # eps) w = (case he_request E ''GET'' path w of (r, w') \<Rightarrow>
     (case asked E eps w' of (rs, w'') \<Rightarrow> (r # rs, w'')))"

lemma preflight_rows:
  "\<exists>rows. mapE (preflight_one E) eps w = (Inr rows, snd (asked E eps w)) \<and>
     map (\<lambda>(n, p, s). (p, n)) rows = eps \<and>
     map (\<lambda>(n, p, s). s = ''PASS'') rows = map (\<lambda>r. r = Inr 200) (fst (asked E eps w))"
proof (induction eps arbitrary: w)
  case (Cons ep eps)
  obtain path name where ep: "ep = (path, name)" by (cases ep)
  obtain r v where rv: "he_request E ''GET'' path w = (r, v)" by fastforce
  obtain s where s: "preflight_one E (path, name) w = (Inr (name, path, s), v)" "s = ''PASS'' \<longleftrightarrow> r = Inr 200"
    using preflight_one_row [of E path name w] rv by auto
  obtain rows where rows: "mapE (preflight_one E) eps v = (Inr rows, snd (asked E eps v))" "map (\<lambda>(n, p, s). (p, n)) rows = eps"
      "map (\<lambda>(n, p, s). s = ''PASS'') rows = map (\<lambda>r. r = Inr 200) (fst (asked E eps v))"
    using Cons.IH by blast
  have "mapE (preflight_one E) (ep # eps) w = (Inr ((name, path, s) # rows), snd (asked E eps v))"
    by (simp add: ep s(1) rows(1) bindE_def retE_def)
  moreover have "asked E (ep # eps) w = (r # fst (asked E eps v), snd (asked E eps v))"
    by (simp add: ep rv split_beta)
  ultimately show ?case using s(2) rows(2,3) ep by (intro exI [of _ "(name, path, s) # rows"]) (simp only: fst_conv snd_conv list.map prod.case)
qed (simp add: retE_def)

text \<open>The preflight check passes exactly when every endpoint of its list answers 200: it returns the table in the
  order of the list, and otherwise exits with code 1 after all endpoints have been asked.\<close>

theorem preflight_outcome:
  "case preflight_check E w of
     (Inr rows, w') \<Rightarrow> list_all (\<lambda>r. r = Inr 200) (fst (asked E PREFLIGHT_ENDPOINTS w)) \<and>
       map (\<lambda>(n, p, s). (p, n)) rows = PREFLIGHT_ENDPOINTS \<and> w' = snd (asked E PREFLIGHT_ENDPOINTS w)
   | (Inl e, w') \<Rightarrow> \<not> list_all (\<lambda>r. r = Inr 200) (fst (asked E PREFLIGHT_ENDPOINTS w)) \<and>
       e = PyException ''SystemExit'' ''1'' \<and> w' = snd (asked E PREFLIGHT_ENDPOINTS w)"
proof -
  obtain rows where r: "mapE (preflight_one E) PREFLIGHT_ENDPOINTS w = (Inr rows, snd (asked E PREFLIGHT_ENDPOINTS w))"
      "map (\<lambda>(n, p, s). (p, n)) rows = PREFLIGHT_ENDPOINTS"
      "map (\<lambda>(n, p, s). s = ''PASS'') rows = map (\<lambda>r. r = Inr 200) (fst (asked E PREFLIGHT_ENDPOINTS w))"
    by (rule exE [OF preflight_rows [of E PREFLIGHT_ENDPOINTS w]]) (elim conjE, rule that)
  have "list_all (\<lambda>(_, _, s). s = ''PASS'') rows = list_all id (map (\<lambda>(n, p, s). s = ''PASS'') rows)"
    by (auto simp: list_all_iff)
  also have "\<dots> = list_all (\<lambda>r. r = Inr 200) (fst (asked E PREFLIGHT_ENDPOINTS w))"
    unfolding r(3) by (auto simp: list_all_iff)
  finally have ok: "list_all (\<lambda>(_, _, s). s = ''PASS'') rows = list_all (\<lambda>r. r = Inr 200) (fst (asked E PREFLIGHT_ENDPOINTS w))" .
  show ?thesis
  proof (cases "list_all (\<lambda>r. r = Inr 200) (fst (asked E PREFLIGHT_ENDPOINTS w))")
    case True
    then show ?thesis unfolding preflight_check_def bindE_def r(1) prod.case sum.case if_P [OF True [folded ok]] retE_def
      using r(2) by simp
  next
    case False
    then show ?thesis unfolding preflight_check_def bindE_def r(1) prod.case sum.case if_not_P [OF False [folded ok]] raiseE_def
      by simp
  qed
qed

section \<open>The paths are routes of the service\<close>

lemma reachable:
  assumes "starlette_matching matches" "r \<in> set api_routes" "rt_method r = m"
    "list_all2 segment_matches (segments (rt_template r)) (py_split CHR ''/'' path)"
  shows "candidates matches m path = [r]"
proof -
  have c: "candidates matches m path =
      filter (\<lambda>r. rt_method r = m \<and> list_all2 segment_matches (segments (rt_template r)) (py_split CHR ''/'' path)) api_routes"
    using assms(1) by (simp add: candidates_def starlette_matching_def)
  have "length (candidates matches m path) \<le> 1" using separate_filter api_routes_separate by (simp add: c shape_def)
  moreover have "r \<in> set (candidates matches m path)" using assms by (simp add: c)
  ultimately show ?thesis by (cases "candidates matches m path") auto
qed

definition expected_endpoints :: "(string \<times> string) list" where
  "expected_endpoints =
    [(''/health'', ''health''), (''/compute/servers'', ''list_servers''), (''/images'', ''list_images''),
     (''/networks'', ''list_networks''), (''/volumes'', ''list_volumes''), (''/k8s/cluster'', ''get_cluster_info''),
     (''/migrations'', ''list_migrations''), (''/vmware/vms'', ''list_vms''), (''/vmware/datastores'', ''list_datastores''),
     (''/vmware/networks'', ''list_networks''), (''/vmware/assessments'', ''list_persisted_assessments''),
     (''/vmware/plans'', ''list_persisted_plans'')]"

lemma expected_reachable:
  "list_all (\<lambda>(p, f). list_ex (\<lambda>r. rt_template r = p \<and> rt_endpoint r = f \<and> rt_method r = GET \<and> \<not> rt_guarded r \<and>
     list_all2 segment_matches (segments (rt_template r)) (py_split CHR ''/'' p)) api_routes) expected_endpoints"
  by code_simp

lemma bench_paths: "map (\<lambda>e. be_path e) BENCH_ENDPOINTS = map (\<lambda>(p, f). ''/api/v1'' @ p) expected_endpoints"
  by (simp add: BENCH_ENDPOINTS_def get_endpoint_def expected_endpoints_def)

lemma preflight_paths: "map fst PREFLIGHT_ENDPOINTS = take 7 (map (\<lambda>(p, f). ''/api/v1'' @ p) expected_endpoints)"
  by (simp add: PREFLIGHT_ENDPOINTS_def expected_endpoints_def)

definition serves :: "(string \<Rightarrow> string \<Rightarrow> bool) \<Rightarrow> string \<Rightarrow> string \<times> string \<Rightarrow> bool" where
  "serves matches path e \<longleftrightarrow> path = ''/api/v1'' @ fst e \<and>
     map (\<lambda>r. (rt_guarded r, rt_template r, rt_endpoint r)) (candidates matches GET (fst e)) = [(False, fst e, snd e)]"

lemma expected_served:
  assumes "starlette_matching matches" "e \<in> set expected_endpoints"
  shows "serves matches (''/api/v1'' @ fst e) e"
proof -
  obtain r where "r \<in> set api_routes" "rt_template r = fst e" "rt_endpoint r = snd e" "rt_method r = GET" "\<not> rt_guarded r"
      "list_all2 segment_matches (segments (rt_template r)) (py_split CHR ''/'' (fst e))"
    using expected_reachable assms(2) by (auto simp: list_all_iff list_ex_iff)
  with reachable [OF assms(1) this(1,4,6)] show ?thesis by (simp add: serves_def)
qed

text \<open>Every path the benchmark and the preflight check ask for is served: below the prefix /api/v1 it reaches
  exactly one route of the service, with method GET and without the API key, and the route is the listing
  the script names.\<close>

theorem benchmarked_paths_served:
  assumes "starlette_matching matches"
  shows "list_all (\<lambda>path. list_ex (serves matches path) expected_endpoints)
     (map be_path BENCH_ENDPOINTS @ map fst PREFLIGHT_ENDPOINTS)"
proof -
  have "\<exists>e \<in> set expected_endpoints. serves matches path e"
    if "path \<in> set (map (\<lambda>(p, f). ''/api/v1'' @ p) expected_endpoints)" for path
  proof -
    from that obtain e where "e \<in> set expected_endpoints" "path = ''/api/v1'' @ fst e"
      unfolding set_map split_beta by (rule imageE)
    with expected_served [OF assms] show ?thesis by metis
  qed
  then have "list_all (\<lambda>path. list_ex (serves matches path) expected_endpoints) (map (\<lambda>(p, f). ''/api/v1'' @ p) expected_endpoints)"
    unfolding list_all_iff list_ex_iff by (rule ballI)
  then show ?thesis unfolding bench_paths preflight_paths list_all_append
    by (simp only: list_all_iff) (meson in_set_takeD)
qed

theorem benchmarked_paths_served_witness:
  "list_ex (serves (\<lambda>t p. list_all2 segment_matches (segments t) (py_split CHR ''/'' p)) ''/api/v1/health'') expected_endpoints"
proof -
  have "starlette_matching (\<lambda>t p. list_all2 segment_matches (segments t) (py_split CHR ''/'' p))"
    by (simp add: starlette_matching_def)
  from benchmarked_paths_served [OF this] show ?thesis
    unfolding list_all_append BENCH_ENDPOINTS_def get_endpoint_def list.map list.pred_inject bench_endpoint.simps by (elim conjE)
qed

end
