(* ===== verification/Mapping_Benchmark.thy ===== *)
theory Mapping_Benchmark
  imports Synthetic_Benchmark Vmware_Mapping
begin

text \<open>
  The mapping benchmarks of scripts/benchmark_vmware_assessment.py (MockOpenStackFactory, cold and warm cache, plan
  generation) and scripts/benchmark_from_dataset.py (benchmark_mapping, the choice of the data sets and main).

  The engine of mapping_engine.py runs here on the mock factory, whose flavors and networks have the declared types, so
  pydantic keeps them; the state of the engine is its two caches, with the factory calls made. The clock readings
  and the files (which exist, and their parsed content) are arguments; printing is not modelled.
\<close>

section \<open>The mock factory\<close>

definition MOCK_FLAVORS :: "(string \<times> int \<times> int \<times> int) list" where
  "MOCK_FLAVORS =
    [(''m1.tiny'', 1, 512, 1), (''m1.small'', 1, 2048, 20), (''m1.medium'', 2, 4096, 40), (''m1.large'', 4, 8192, 80),
     (''m1.xlarge'', 8, 16384, 160), (''m1.2xlarge'', 12, 32768, 320), (''m1.4xlarge'', 16, 65536, 640),
     (''m1.8xlarge'', 32, 131072, 1280), (''gpu.medium'', 8, 32768, 100), (''gpu.large'', 16, 65536, 200),
     (''compute.optimized'', 32, 65536, 100), (''memory.optimized'', 16, 131072, 200), (''storage.optimized'', 8, 32768, 2000),
     (''windows.medium'', 4, 8192, 80), (''windows.large'', 8, 16384, 200), (''custom.cpu-heavy'', 48, 131072, 400),
     (''custom.mem-heavy'', 32, 262144, 200), (''custom.huge'', 64, 524288, 4000), (''tiny.nested'', 1, 256, 1),
     (''ephemeral.small'', 2, 4096, 0)]"

definition mock_flavors :: "os_flavor list" where
  "mock_flavors = map (\<lambda>(i, (name, vcpu, ram, disk)). \<lparr>of_id = Some (''flavor-'' @ str_int (int i)), of_name = Some name,
     of_vcpus = Some vcpu, of_ram = Some ram, of_disk = Some disk\<rparr>) (enumerate 0 MOCK_FLAVORS)"

definition mock_networks :: "os_network list" where
  "mock_networks = map (\<lambda>(name, nid). \<lparr>on_id = Some nid, on_name = Some name\<rparr>) BENCH_NETWORKS"

record mock_engine =
  me_flavors :: "os_flavor list option"
  me_networks :: "os_network list option"
  me_calls :: "(string \<times> string) list"

definition new_engine :: mock_engine where
  "new_engine = \<lparr>me_flavors = None, me_networks = None, me_calls = []\<rparr>"

definition mock_get_flavors :: "(mock_engine, os_flavor list) act" where
  "mock_get_flavors e = (case me_flavors e of
     Some fs \<Rightarrow> (Inr fs, e)
   | None \<Rightarrow> (Inr mock_flavors, e\<lparr>me_flavors := Some mock_flavors, me_calls := me_calls e @ [(''compute'', ''flavors'')]\<rparr>))"

definition mock_get_networks :: "(mock_engine, os_network list) act" where
  "mock_get_networks e = (case me_networks e of
     Some ns \<Rightarrow> (Inr ns, e)
   | None \<Rightarrow> (Inr mock_networks, e\<lparr>me_networks := Some mock_networks, me_calls := me_calls e @ [(''network'', ''networks'')]\<rparr>))"

definition mock_map_vm :: "vm_summary \<Rightarrow> (mock_engine, vm_mapping_result) act" where
  "mock_map_vm vm =
    bindE (case vm_hardware vm of None \<Rightarrow> retE None
           | Some hw \<Rightarrow> bindE mock_get_flavors (\<lambda>flavors. outcomeE (choose_flavor (target_size hw) flavors))) (\<lambda>flavor_match.
    bindE (case vm_hardware vm of None \<Rightarrow> retE []
           | Some hw \<Rightarrow> if hw_nics hw = [] then retE []
               else bindE mock_get_networks (\<lambda>networks. mapE (\<lambda>nic. outcomeE (map_nic networks nic)) (hw_nics hw))) (\<lambda>network_mappings.
    retE \<lparr>vmr_vm_id = vm_id vm, vmr_vm_name = vm_name vm, vmr_flavor_match = flavor_match,
          vmr_network_mappings = network_mappings, vmr_disk_mappings = map_disks vm\<rparr>))"

section \<open>benchmark_vmware_assessment.py\<close>

fun mapping_rounds :: "vm_summary list \<Rightarrow> (rat \<times> rat) list \<Rightarrow> rat list \<Rightarrow> (mock_engine, rat list) act" where
  "mapping_rounds vms [] sample = retE sample"
| "mapping_rounds vms (t # ts) sample =
    thenE (mapE mock_map_vm vms) (mapping_rounds vms ts (record_sample (fsub (snd t) (fst t)) sample))"

text \<open>A new engine is made for each benchmark; the final state is returned to count the calls.\<close>

definition benchmark_mapping :: "vm_summary list \<Rightarrow> (rat \<times> rat) list \<Rightarrow> (exn + rat list) \<times> mock_engine" where
  "benchmark_mapping vms clock = mapping_rounds vms clock [] new_engine"

definition benchmark_mapping_warm :: "vm_summary list \<Rightarrow> (rat \<times> rat) list \<Rightarrow> (exn + rat list) \<times> mock_engine" where
  "benchmark_mapping_warm vms clock =
    thenE (case vms of [] \<Rightarrow> retE () | vm # _ \<Rightarrow> thenE (mock_map_vm vm) (retE ())) (mapping_rounds vms clock []) new_engine"

text \<open>The compatibility service counts in the metrics, the engine is new.\<close>

fun precompute :: "vm_summary list \<Rightarrow> (mock_engine \<times> (string, int) dict, assessed list) act" where
  "precompute [] = retE []"
| "precompute (vm # vms) =
    bindE (besideE (evaluate vm)) (\<lambda>c.
    bindE (\<lambda>(e, m). case mock_map_vm vm e of (r, e') \<Rightarrow> (r, (e', m))) (\<lambda>mp.
    bindE (precompute vms) (\<lambda>rest. retE ((vm, c, Some mp) # rest))))"

fun planning_rounds :: "string \<Rightarrow> timestamp \<Rightarrow> assessed list \<Rightarrow> (rat \<times> rat) list \<Rightarrow> rat list \<Rightarrow> exn + rat list" where
  "planning_rounds uuid now tuples [] sample = Inr sample"
| "planning_rounds uuid now tuples (t # ts) sample =
    checkS (generate_plan uuid now tuples None) (\<lambda>_. planning_rounds uuid now tuples ts (record_sample (fsub (snd t) (fst t)) sample))"

definition benchmark_mapped_plans :: "string \<Rightarrow> timestamp \<Rightarrow> vm_summary list \<Rightarrow> (rat \<times> rat) list \<Rightarrow> ((string, int) dict, rat list) act" where
  "benchmark_mapped_plans uuid now vms clock m =
    (case precompute vms (new_engine, m) of
       (Inl e, (_, m')) \<Rightarrow> (Inl e, m')
     | (Inr tuples, (_, m')) \<Rightarrow> (planning_rounds uuid now tuples clock [], m'))"

section \<open>benchmark_from_dataset.py\<close>

text \<open>The timed repetitions, then the counting pass, whose exceptions are ignored. The catalog argument is not used.\<close>

fun timed_mappings :: "vm_summary list \<Rightarrow> (rat \<times> rat) list \<Rightarrow> rat list \<Rightarrow> (mock_engine, rat list) act" where
  "timed_mappings vms [] durations = retE durations"
| "timed_mappings vms (t # ts) durations = thenE (mapE mock_map_vm vms) (timed_mappings vms ts (durations @ [elapsed_ms t]))"

fun count_mapped :: "vm_summary list \<Rightarrow> nat \<Rightarrow> (mock_engine, nat) act" where
  "count_mapped [] n = retE n"
| "count_mapped (vm # vms) n =
    bindE (tryE (bindE (mock_map_vm vm) (\<lambda>_. retE (n + 1))) (\<lambda>_. retE n)) (\<lambda>n'. count_mapped vms n')"

definition dataset_mapping :: "dataset_validators \<Rightarrow> pyval list \<Rightarrow> pyval \<Rightarrow> (rat \<times> rat) list \<Rightarrow> exn + (rat list \<times> rat)" where
  "dataset_mapping V vm_dicts catalog clock =
    checkS (mapS (vm_summary_from_dict V) vm_dicts) (\<lambda>vms.
      fst (bindE (timed_mappings vms clock []) (\<lambda>durations.
           bindE (count_mapped vms 0) (\<lambda>mapping_count.
           retE (durations, if vms = [] then 0 else fmul (int_truediv (int mapping_count) (int (length vms))) 100))) new_engine))"

record dataset_args =
  da_inventory :: "string option"
  da_catalog :: string
  da_quick :: bool
  da_all :: bool
  da_concurrency :: int

definition inventory_path :: "int \<Rightarrow> string" where
  "inventory_path n = ''benchmark_data/vmware_inventory_'' @ str_int n @ ''.json''"

definition select_datasets :: "(string \<Rightarrow> bool) \<Rightarrow> dataset_args \<Rightarrow> string list" where
  "select_datasets exists args =
    (if str_truthy (da_inventory args) then [the (da_inventory args)]
     else if da_all args then filter exists (map inventory_path (if da_quick args then [10, 100] else [10, 100, 500, 1000, 5000]))
     else filter exists (map inventory_path [100, 1000]))"

record bench_run =
  br_name :: string
  br_vm_count :: nat
  br_compatible :: nat
  br_incompatible :: nat
  br_warning_count :: nat
  br_reasons :: "(string, int) dict"
  br_rate :: rat
  br_durations :: "rat list"

record dataset_clocks =
  dc_compat :: "(rat \<times> rat) list"
  dc_mapping :: "(rat \<times> rat) list"
  dc_plan :: "(rat \<times> rat) list"
  dc_parallel :: "(rat \<times> rat) list"

definition bench_run_of :: "string \<Rightarrow> nat \<Rightarrow> rat \<Rightarrow> rat list \<Rightarrow> bench_run" where
  "bench_run_of name n rate ds = \<lparr>br_name = name, br_vm_count = n, br_compatible = 0, br_incompatible = 0, br_warning_count = 0,
     br_reasons = [], br_rate = rate, br_durations = ds\<rparr>"

definition compat_run_of :: "nat \<Rightarrow> dataset_run \<Rightarrow> bench_run" where
  "compat_run_of n r = \<lparr>br_name = ''Compatibility Check'', br_vm_count = n, br_compatible = dr_compatible r,
     br_incompatible = dr_incompatible r, br_warning_count = dr_warning_count r, br_reasons = dr_top_reasons r, br_rate = 0,
     br_durations = dr_durations_ms r\<rparr>"

text \<open>One data set: the warnings, then the four benchmarks.\<close>

definition dataset_step :: "dataset_validators \<Rightarrow> (pyval \<Rightarrow> string) \<Rightarrow> string \<Rightarrow> timestamp \<Rightarrow> pyval \<Rightarrow> int \<Rightarrow> dataset_clocks \<Rightarrow> pyval \<Rightarrow>
    ((string, int) dict, string list \<times> bench_run list) act" where
  "dataset_step V repr uuid now catalog concurrency z inventory =
    bindE (outcomeE (json_get inventory ''vms'' (PList []))) (\<lambda>vs.
    bindE (outcomeE (json_iter vs)) (\<lambda>vms.
    bindE (outcomeE (validate_dataset repr inventory)) (\<lambda>warnings.
    bindE (benchmark_compatibility V vms (dc_compat z)) (\<lambda>c.
    bindE (outcomeE (dataset_mapping V vms catalog (dc_mapping z))) (\<lambda>(md, rate).
    bindE (benchmark_plan_generation V uuid now vms (dc_plan z)) (\<lambda>pd.
    bindE (bindE (outcomeE (mapS (vm_summary_from_dict V) vms)) (\<lambda>ms. parallel_rounds ms (dc_parallel z))) (\<lambda>qd.
    retE (warnings,
      [compat_run_of (length vms) c, bench_run_of ''Resource Mapping'' (length vms) rate md,
       bench_run_of ''Plan Generation'' (length vms) 0 pd,
       bench_run_of (''Parallel Assessment (concurrency='' @ str_int concurrency @ '')'') (length vms) 0 qd]))))))))"

text \<open>The loop of main: \<^verbatim>\<open>warnings\<close> is assigned anew for every data set and read after the loop.\<close>

fun dataset_loop :: "(string \<Rightarrow> pyval \<Rightarrow> ((string, int) dict, string list \<times> bench_run list) act) \<Rightarrow> (string \<Rightarrow> exn + pyval) \<Rightarrow> string list \<Rightarrow>
    string list \<Rightarrow> bench_run list \<Rightarrow> ((string, int) dict, string list \<times> bench_run list) act" where
  "dataset_loop step read_json [] warnings runs = retE (warnings, runs)"
| "dataset_loop step read_json (p # ps) warnings runs =
    bindE (outcomeE (read_json p)) (\<lambda>inventory.
    bindE (step p inventory) (\<lambda>(ws, rs). dataset_loop step read_json ps ws (runs @ rs)))"

definition json_item :: "pyval \<Rightarrow> string \<Rightarrow> exn + pyval" where
  "json_item v k = (case v of
     PDict d \<Rightarrow> (case map_of d (PStr k) of Some x \<Rightarrow> Inr x | None \<Rightarrow> Inl (PyException ''KeyError'' k))
   | _ \<Rightarrow> Inl (PyException ''TypeError'' ''not subscriptable''))"

definition catalog_line :: "pyval \<Rightarrow> exn + unit" where
  "catalog_line catalog =
    checkS (json_item catalog ''catalog'') (\<lambda>c. checkS (json_item c ''name'') (\<lambda>_.
    checkS (json_item catalog ''summary'') (\<lambda>s. checkS (json_item s ''flavor_count'') (\<lambda>_.
    checkS (json_item s ''network_count'') (\<lambda>_. Inr ())))))"

definition dataset_main :: "dataset_validators \<Rightarrow> (pyval \<Rightarrow> string) \<Rightarrow> string \<Rightarrow> timestamp \<Rightarrow> (string \<Rightarrow> bool) \<Rightarrow> (string \<Rightarrow> exn + pyval) \<Rightarrow>
    (string \<Rightarrow> dataset_clocks) \<Rightarrow> dataset_args \<Rightarrow> ((string, int) dict, string list \<times> bench_run list) act" where
  "dataset_main V repr uuid now exists read_json clocks args =
    (if \<not> exists (da_catalog args) then raiseE (PyException ''SystemExit'' ''1'')
     else bindE (outcomeE (read_json (da_catalog args))) (\<lambda>catalog.
       bindE (outcomeE (catalog_line catalog)) (\<lambda>_.
       let datasets = select_datasets exists args in
       if datasets = [] then raiseE (PyException ''SystemExit'' ''1'')
       else dataset_loop (\<lambda>p. dataset_step V repr uuid now catalog (da_concurrency args) (clocks p)) read_json datasets [] [])))"

section \<open>The mapping of the mock factory\<close>

definition mapping_of :: "vm_summary \<Rightarrow> vm_mapping_result" where
  "mapping_of vm = \<lparr>vmr_vm_id = vm_id vm, vmr_vm_name = vm_name vm,
     vmr_flavor_match = (case vm_hardware vm of None \<Rightarrow> None | Some hw \<Rightarrow> projr (choose_flavor (target_size hw) mock_flavors)),
     vmr_network_mappings = (case vm_hardware vm of None \<Rightarrow> [] | Some hw \<Rightarrow> map (\<lambda>nic. projr (map_nic mock_networks nic)) (hw_nics hw)),
     vmr_disk_mappings = map_disks vm\<rparr>"

lemma mock_choice: "\<exists>fm. choose_flavor target mock_flavors = Inr (Some fm)"
proof -
  let ?f = "hd mock_flavors"
  have f: "?f \<in> set mock_flavors" by (simp add: mock_flavors_def MOCK_FLAVORS_def)
  have s: "size_of ?f = Some \<lparr>fs_vcpus = 1, fs_ram = 512, fs_disk = 1\<rparr>"
    by (simp add: mock_flavors_def MOCK_FLAVORS_def size_of_def)
  obtain maxs where m: "flavor_maxima mock_flavors = Inr maxs" using flavor_maxima_complete [OF f s] by blast
  have ne: "mock_flavors \<noteq> []" using f by auto
  obtain b g t where "best_flavor (distance maxs target) mock_flavors None = Some (b, g, t)"
    using best_flavor_None [of "distance maxs target" mock_flavors None] f s
    by (cases "best_flavor (distance maxs target) mock_flavors None") auto
  then show ?thesis by (simp add: choose_flavor_eq [OF ne m])
qed

lemma mapE_outcomes: "(\<And>x. x \<in> set xs \<Longrightarrow> f x = Inr (g x)) \<Longrightarrow> mapE (\<lambda>x. outcomeE (f x)) xs w = (Inr (map g xs), w)"
  by (induction xs) (simp_all add: retE_def bindE_def outcomeE_def)

lemma map_nics: "mapE (\<lambda>nic. outcomeE (map_nic ns nic)) nics w = (Inr (map (\<lambda>nic. projr (map_nic ns nic)) nics), w)"
proof (rule mapE_outcomes)
  show "map_nic ns nic = Inr (projr (map_nic ns nic))" for nic using map_nic_match [of ns nic] by auto
qed

text \<open>An engine whose caches hold what the factory offers, or nothing.\<close>

definition fresh_or_full :: "mock_engine \<Rightarrow> bool" where
  "fresh_or_full e \<longleftrightarrow> (me_flavors e = None \<or> me_flavors e = Some mock_flavors) \<and>
     (me_networks e = None \<or> me_networks e = Some mock_networks)"

definition filled :: "vm_summary \<Rightarrow> mock_engine \<Rightarrow> mock_engine" where
  "filled vm e = (case vm_hardware vm of None \<Rightarrow> e
     | Some hw \<Rightarrow> (let e' = snd (mock_get_flavors e) in if hw_nics hw = [] then e' else snd (mock_get_networks e')))"

lemma mock_gets:
  assumes "fresh_or_full e"
  shows "mock_get_flavors e = (Inr mock_flavors, snd (mock_get_flavors e))" "fresh_or_full (snd (mock_get_flavors e))"
    and "mock_get_networks e = (Inr mock_networks, snd (mock_get_networks e))" "fresh_or_full (snd (mock_get_networks e))"
  using assms by (auto simp: fresh_or_full_def mock_get_flavors_def mock_get_networks_def)

lemma mock_map_vm_result:
  assumes "fresh_or_full e"
  shows "mock_map_vm vm e = (Inr (mapping_of vm), filled vm e)" "fresh_or_full (filled vm e)"
proof -
  note fe = mock_gets(1,2) [OF assms]
  note ne = mock_gets(3,4) [OF fe(2)]
  show "fresh_or_full (filled vm e)" using assms fe ne by (simp add: filled_def Let_def split: option.split)
  have "choose_flavor t mock_flavors = Inr (projr (choose_flavor t mock_flavors))" for t
    using mock_choice [of t] by auto
  then have choice: "outcomeE (choose_flavor t mock_flavors) w = (Inr (projr (choose_flavor t mock_flavors)), w)" for t w
    unfolding outcomeE_def by simp
  show "mock_map_vm vm e = (Inr (mapping_of vm), filled vm e)"
  proof (cases "vm_hardware vm")
    case None
    then show ?thesis by (simp add: mock_map_vm_def mapping_of_def filled_def bindE_def retE_def)
  next
    case (Some hw)
    have f: "bindE mock_get_flavors (\<lambda>flavors. outcomeE (choose_flavor (target_size hw) flavors)) e =
        (Inr (projr (choose_flavor (target_size hw) mock_flavors)), snd (mock_get_flavors e))"
      by (subst bindE_eqI [where m = mock_get_flavors and w = e, OF fe(1)]) (rule choice)
    have n: "bindE mock_get_networks (\<lambda>networks. mapE (\<lambda>nic. outcomeE (map_nic networks nic)) (hw_nics hw)) (snd (mock_get_flavors e)) =
        (Inr (map (\<lambda>nic. projr (map_nic mock_networks nic)) (hw_nics hw)), snd (mock_get_networks (snd (mock_get_flavors e))))"
      by (subst bindE_eqI [where m = mock_get_networks and w = "snd (mock_get_flavors e)", OF ne(1)]) (rule map_nics)
    show ?thesis
      unfolding mock_map_vm_def Some option.case bindE_def [of "bindE mock_get_flavors _"] f prod.case sum.case
      using n by (cases "hw_nics hw = []") (simp_all add: Some mapping_of_def filled_def Let_def retE_def bindE_def)
  qed
qed

text \<open>The engine of the service does the same once its caches hold these flavors and networks.\<close>

theorem mock_mapping_is_engine:
  assumes "mp_flavor_cache w = Some mock_flavors" "mp_network_cache w = Some mock_networks"
  shows "map_vm settings sdk vm w = (Inr (mapping_of vm), w)"
proof -
  have g: "get_flavors settings sdk w = (Inr mock_flavors, w)" "get_networks settings sdk w = (Inr mock_networks, w)"
    using assms by (simp_all add: get_flavors_def get_networks_def)
  have choice: "outcomeE (choose_flavor t mock_flavors) w = (Inr (projr (choose_flavor t mock_flavors)), w)" for t
    using mock_choice [of t] unfolding outcomeE_def by auto
  have f: "match_flavor settings sdk vm w = (Inr (vmr_flavor_match (mapping_of vm)), w)"
    using choice by (simp add: match_flavor_def mapping_of_def retE_def bindE_def g split: option.split)
  have n: "map_networks settings sdk vm w = (Inr (vmr_network_mappings (mapping_of vm)), w)"
    by (auto simp: map_networks_def mapping_of_def retE_def bindE_def g map_nics split: option.split)
  show ?thesis by (simp add: map_vm_def bindE_def f n retE_def) (simp add: mapping_of_def)
qed

section \<open>The factory is asked at most twice\<close>

definition has_hardware :: "vm_summary \<Rightarrow> bool" where
  "has_hardware vm \<longleftrightarrow> vm_hardware vm \<noteq> None"

definition has_nics :: "vm_summary \<Rightarrow> bool" where
  "has_nics vm \<longleftrightarrow> (case vm_hardware vm of None \<Rightarrow> False | Some hw \<Rightarrow> hw_nics hw \<noteq> [])"

definition engine_after :: "vm_summary list \<Rightarrow> mock_engine" where
  "engine_after vms =
    \<lparr>me_flavors = (if list_ex has_hardware vms then Some mock_flavors else None),
     me_networks = (if list_ex has_nics vms then Some mock_networks else None),
     me_calls = (if list_ex has_hardware vms then [(''compute'', ''flavors'')] else []) @
       (if list_ex has_nics vms then [(''network'', ''networks'')] else [])\<rparr>"

lemma engine_after_Nil: "engine_after [] = new_engine"
  by (simp add: engine_after_def new_engine_def)

lemma fresh_engine_after: "fresh_or_full (engine_after vms)"
  by (simp add: fresh_or_full_def engine_after_def)

lemma nics_hardware: "has_nics vm \<Longrightarrow> has_hardware vm"
  by (auto simp: has_nics_def has_hardware_def split: option.splits)

lemma list_ex_nics: "list_ex has_nics vms \<Longrightarrow> list_ex has_hardware vms"
  using nics_hardware by (auto simp: list_ex_iff)

lemma filled_engine_after: "filled vm (engine_after vms) = engine_after (vms @ [vm])"
  using list_ex_nics [of vms]
  by (auto simp: filled_def engine_after_def mock_get_flavors_def mock_get_networks_def has_hardware_def has_nics_def Let_def
      split: option.split)

lemma map_all_result:
  "mapE mock_map_vm vms (engine_after before) = (Inr (map mapping_of vms), engine_after (before @ vms))"
proof (induction vms arbitrary: before)
  case (Cons vm vms)
  have v: "mock_map_vm vm (engine_after before) = (Inr (mapping_of vm), engine_after (before @ [vm]))"
    using mock_map_vm_result(1) [OF fresh_engine_after] by (simp add: filled_engine_after)
  show ?case using Cons.IH [of "before @ [vm]"] by (simp add: bindE_def v retE_def)
qed (simp add: retE_def)

lemma engine_after_again: "engine_after (vms @ vms) = engine_after vms"
  by (simp add: engine_after_def)

definition sample_of :: "rat \<times> rat \<Rightarrow> rat" where
  "sample_of t = py_round (fmul (fsub (snd t) (fst t)) 1000) 4"

lemma mapping_rounds_again:
  "mapping_rounds vms ts sample (engine_after vms) = (Inr (sample @ map sample_of ts), engine_after vms)"
proof (induction ts arbitrary: sample)
  case (Cons t ts)
  show ?case
    by (simp add: thenE_def map_all_result engine_after_again Cons.IH record_sample_def sample_of_def)
qed (simp add: retE_def)

lemma mapping_rounds_first:
  "mapping_rounds vms (t # ts) sample (engine_after (take n vms)) = (Inr (sample @ map sample_of (t # ts)), engine_after vms)"
proof -
  have "engine_after (take n vms @ vms) = engine_after vms"
    using set_take_subset [of n vms] by (auto simp: engine_after_def list_ex_iff)
  then show ?thesis
    by (simp add: thenE_def map_all_result mapping_rounds_again record_sample_def sample_of_def)
qed

text \<open>The mapping benchmarks map every machine and ask the factory at most once for the flavors and once for the
  networks, however many machines and repetitions there are: the cold benchmark returns one sample for each repetition,
  and leaves the same caches and calls as the warm one. So only the first mapped machine of its first
  repetition runs on a cold cache.\<close>

theorem mapping_benchmarks:
  "benchmark_mapping vms (t # ts) = (Inr (map sample_of (t # ts)), engine_after vms) \<and>
   benchmark_mapping_warm vms (t # ts) = (Inr (map sample_of (t # ts)), engine_after vms) \<and>
   length (me_calls (engine_after vms)) \<le> 2"
proof -
  have "benchmark_mapping vms (t # ts) = (Inr (map sample_of (t # ts)), engine_after vms)"
    using mapping_rounds_first [of vms t ts "[]" 0] by (simp only: benchmark_mapping_def engine_after_Nil take0 append_Nil)
  moreover have "benchmark_mapping_warm vms (t # ts) = (Inr (map sample_of (t # ts)), engine_after vms)"
  proof (cases vms)
    case Nil
    then show ?thesis using mapping_rounds_first [of vms t ts "[]" 0]
      by (simp add: benchmark_mapping_warm_def thenE_def retE_def engine_after_Nil)
  next
    case (Cons vm rest)
    have v: "mock_map_vm vm new_engine = (Inr (mapping_of vm), engine_after [vm])"
      using mock_map_vm_result(1) [OF fresh_engine_after [of "[]"]] filled_engine_after [of vm "[]"] by (simp add: engine_after_Nil)
    have "thenE (mock_map_vm vm) (retE ()) new_engine = (Inr (), engine_after [vm])"
      by (simp add: thenE_def v retE_def)
    then show ?thesis using mapping_rounds_first [of vms t ts "[]" 1]
      by (simp add: benchmark_mapping_warm_def Cons thenE_def)
  qed
  moreover have "length (me_calls (engine_after vms)) \<le> 2" by (simp add: engine_after_def)
  ultimately show ?thesis by blast
qed

lemma precompute_result:
  "\<exists>rs before' m'. precompute vms (engine_after before, m) = (Inr rs, (engine_after before', m')) \<and>
     map (\<lambda>(vm, c, mp). (vm, mp)) rs = map (\<lambda>vm. (vm, Some (mapping_of vm))) vms"
proof (induction vms arbitrary: before m)
  case (Cons vm vms)
  obtain c m1 where c: "evaluate vm m = (Inr c, m1)" using evaluate_returns [THEN returnsD] by blast
  have v: "mock_map_vm vm (engine_after before) = (Inr (mapping_of vm), engine_after (before @ [vm]))"
    using mock_map_vm_result(1) [OF fresh_engine_after] by (simp add: filled_engine_after)
  obtain rs b' m' where rs: "precompute vms (engine_after (before @ [vm]), m1) = (Inr rs, (engine_after b', m'))"
      "map (\<lambda>(vm, c, mp). (vm, mp)) rs = map (\<lambda>vm. (vm, Some (mapping_of vm))) vms"
    using Cons.IH by blast
  then show ?case by (auto simp: bindE_def besideE_def c v retE_def)
qed (auto simp: retE_def)

lemma planning_rounds_result: "planning_rounds uuid now tuples ts sample = Inr (sample @ map sample_of ts)"
proof (induction ts arbitrary: sample)
  case (Cons t ts)
  obtain ps where "plan_entries [] tuples = Inr ps" using entries_without_overrides by blast
  then obtain plan where "generate_plan uuid now tuples None = Inr plan" by (simp add: generate_plan_def Let_def)
  then show ?case by (simp add: checkS_def Cons.IH record_sample_def sample_of_def)
qed simp

text \<open>The plan benchmark returns a sample for each repetition, whatever the machines are.\<close>

theorem plan_benchmark: "\<exists>m'. benchmark_mapped_plans uuid now vms clock m = (Inr (map sample_of clock), m')"
  using precompute_result [of vms "[]" m]
  by (auto simp: benchmark_mapped_plans_def engine_after_Nil planning_rounds_result)

section \<open>The data-set benchmark\<close>

lemma timed_mappings_result:
  "\<exists>before'. timed_mappings vms ts ds (engine_after before) = (Inr (ds @ map elapsed_ms ts), engine_after before')"
proof (induction ts arbitrary: ds before)
  case (Cons t ts)
  show ?case using Cons.IH [of "ds @ [elapsed_ms t]" "before @ vms"] by (simp add: thenE_def map_all_result)
qed (auto simp: retE_def)

lemma count_mapped_result: "\<exists>before'. count_mapped vms n (engine_after before) = (Inr (n + length vms), engine_after before')"
proof (induction vms arbitrary: n before)
  case (Cons vm vms)
  have v: "mock_map_vm vm (engine_after before) = (Inr (mapping_of vm), engine_after (before @ [vm]))"
    using mock_map_vm_result(1) [OF fresh_engine_after] by (simp add: filled_engine_after)
  have "tryE (bindE (mock_map_vm vm) (\<lambda>_. retE (n + 1))) (\<lambda>_. retE n) (engine_after before) = (Inr (n + 1), engine_after (before @ [vm]))"
    by (rule tryE_eq_Inr) (simp add: bindE_def v retE_def)
  then show ?case using Cons.IH [of "n + 1" "before @ [vm]"] by (simp add: bindE_def)
qed (auto simp: retE_def)

lemma full_rate: "0 < n \<Longrightarrow> fmul (int_truediv (int n) (int n)) 100 = 100"
  using fl_of_int [of 100] by (simp add: int_truediv_def fmul_def)

text \<open>The mapping success rate of the data-set benchmark says nothing about the mapping: whatever the machines and
  the catalog are, it is 100 per cent as soon as the data set can be read and has a machine (0 if it has none), because
  the engine returns a result for every machine, also when no network matches and every flavor is too small; the catalog is not
  looked at.\<close>

theorem mapping_success_rate_constant:
  "dataset_mapping V vm_dicts catalog clock =
    (case mapS (vm_summary_from_dict V) vm_dicts of Inl e \<Rightarrow> Inl e
     | Inr vms \<Rightarrow> Inr (map elapsed_ms clock, if vms = [] then 0 else 100))"
proof (cases "mapS (vm_summary_from_dict V) vm_dicts")
  case (Inr vms)
  obtain b where t: "timed_mappings vms clock [] new_engine = (Inr (map elapsed_ms clock), engine_after b)"
    using timed_mappings_result [of vms clock "[]" "[]"] by (auto simp: engine_after_Nil)
  obtain b' where c: "count_mapped vms 0 (engine_after b) = (Inr (length vms), engine_after b')"
    using count_mapped_result [of vms 0 b] by auto
  show ?thesis using full_rate [of "length vms"] by (simp add: dataset_mapping_def Inr checkS_def bindE_def t c retE_def)
qed (simp add: dataset_mapping_def checkS_def)

text \<open>The report shows the validation warnings of the last data set only.\<close>

theorem warnings_of_last_dataset:
  assumes "dataset_loop step read_json (ps @ [p]) ws runs m = (Inr (warnings, all_runs), m')"
  shows "\<exists>inventory rs m1. read_json p = Inr inventory \<and> step p inventory m1 = (Inr (warnings, rs), m')"
  using assms
proof (induction ps arbitrary: ws runs m)
  case Nil
  then show ?case by (auto simp: bindE_Inr_iff outcomeE_def retE_def split: prod.splits)
next
  case (Cons q ps)
  then show ?case by (auto simp: bindE_Inr_iff split: prod.splits)
qed

text \<open>Without --all the option --quick is ignored, although its help text promises the sizes 10 and 100.\<close>

theorem quick_needs_all:
  "\<not> da_all args \<Longrightarrow> select_datasets exists (args\<lparr>da_quick := True\<rparr>) = select_datasets exists (args\<lparr>da_quick := False\<rparr>)"
  by (simp add: select_datasets_def)

end
