(* ===== verification/Flavor_Accuracy.thy ===== *)
theory Flavor_Accuracy
  imports Vmware_Mapping Float_Error
begin

text \<open>
  What the double-precision distances of app/services/vmware/mapping_engine.py mean: the square of
  the computed distance is the exact weighted sum of squares (times 9/4 for a flavor that is too
  small) up to a few roundings, so the chosen flavor is the closest one in exact arithmetic.
\<close>

section \<open>The exact distance\<close>

definition exact_square :: "flavor_size \<Rightarrow> flavor_size \<Rightarrow> flavor_size \<Rightarrow> rat" where
  "exact_square maxs target s =
     4 / 10 * (of_int (fs_vcpus target - fs_vcpus s) / of_int (fs_vcpus maxs))\<^sup>2 +
     4 / 10 * (of_int (fs_ram target - fs_ram s) / of_int (fs_ram maxs))\<^sup>2 +
     2 / 10 * (of_int (fs_disk target - fs_disk s) / of_int (fs_disk maxs))\<^sup>2"

definition exact_penalised :: "flavor_size \<Rightarrow> flavor_size \<Rightarrow> flavor_size \<Rightarrow> rat" where
  "exact_penalised maxs target s = (if too_small target s then 9 / 4 else 1) * exact_square maxs target s"

lemma exact_penalised_nonneg: "0 \<le> exact_penalised maxs target s"
  by (simp add: exact_penalised_def exact_square_def)

lemma base_distance_square_near: "near 15 (base_distance maxs target s * base_distance maxs target s) (exact_square maxs target s)"
proof -
  have "near (7 + 8) (base_distance maxs target s * base_distance maxs target s) (exact_square maxs target s)"
    unfolding base_distance_def Let_def exact_square_def WEIGHT_CPU_def WEIGHT_RAM_def WEIGHT_DISK_def
    by (rule math_sqrt.hpow_near_square, intro near_weighted_sum near_weighted_square) simp_all
  then show ?thesis by simp
qed

lemma near_square_of_fl:
  assumes "near k (y * y) z" "0 \<le> y"
  shows "near (k + 2) (fl y * fl y) z"
proof -
  have "near 1 (fl y) y" using near_fl [OF near_refl [OF assms(2)], of 0] by simp
  from near_trans [OF near_mult [OF this this] assms(1)] show ?thesis by (simp add: add.commute)
qed

lemma distance_square_near: "near 17 (distance maxs target s * distance maxs target s) (exact_penalised maxs target s)"
proof (cases "too_small target s")
  case True
  let ?b = "base_distance maxs target s"
  have "near 15 ((?b * (3 / 2)) * (?b * (3 / 2))) (exact_square maxs target s * (9 / 4))"
    using near_mult [OF base_distance_square_near near_refl [of "9 / 4" 0]] by (simp add: mult_ac)
  from near_square_of_fl [OF this] show ?thesis
    using True base_distance_nonneg [of maxs target s]
    by (simp add: distance_def fmul_def exact_penalised_def mult.commute)
next
  case False
  then show ?thesis using near_weaken [OF base_distance_square_near, of 17]
    by (simp add: distance_def exact_penalised_def)
qed

text \<open>A distance that is not larger is not larger in exact arithmetic, up to the accumulated roundings.\<close>

lemma near_le_close:
  assumes "near k (a * a) x" "near k (b * b) y" "0 \<le> a" "a \<le> b" "k \<le> 500"
  shows "x * (1 - p2 (- 40)) \<le> y"
proof -
  have p: "0 \<le> shrink ^ k" by (simp add: shrink_bounds)
  have "a * a \<le> b * b" using assms(3,4) by (simp add: mult_mono)
  then have "shrink ^ k * x \<le> b * b" using assms(1) by (simp add: near_def)
  then have "shrink ^ k * (shrink ^ k * x) \<le> shrink ^ k * (b * b)" using p by (rule mult_left_mono)
  then have "shrink ^ (k + k) * x \<le> y" using assms(2) by (simp add: near_def power_add mult_ac)
  moreover have "1 - p2 (- 40) \<le> shrink ^ (k + k)" using assms(5) by (intro shrink_power_lower) simp
  then have "(1 - p2 (- 40)) * x \<le> shrink ^ (k + k) * x"
    using assms(1) by (intro mult_right_mono) (auto simp: near_def)
  ultimately show ?thesis by (simp add: mult.commute)
qed

section \<open>The chosen flavor\<close>

text \<open>A size that is clearly the closest in exact arithmetic is the one that is chosen.\<close>

lemma clear_size_chosen:
  assumes "f \<in> set flavors" "size_of f = Some s" "flavor_maxima flavors = Inr maxs"
    and "\<And>g t. g \<in> set flavors \<Longrightarrow> size_of g = Some t \<Longrightarrow> t \<noteq> s \<Longrightarrow>
      exact_penalised maxs target s < exact_penalised maxs target t * (1 - p2 (- 40))"
  shows "\<exists>fm. choose_flavor target flavors = Inr (Some fm) \<and> fm_vcpus fm = fs_vcpus s \<and> fm_ram fm = fs_ram s \<and>
    fm_disk fm = fs_disk s \<and> fm_underprovisioned fm = too_small target s"
proof -
  obtain b g t where b: "best_flavor (distance maxs target) flavors None = Some (b, g, t)"
    using best_flavor_None [of "distance maxs target" flavors None] assms(1,2)
    by (cases "best_flavor (distance maxs target) flavors None") auto
  from best_flavor_spec [OF b] assms(1,2) have g: "g \<in> set flavors" "size_of g = Some t"
      "distance maxs target t \<le> distance maxs target s" by auto
  have "t = s"
    using near_le_close [OF distance_square_near distance_square_near distance_nonneg g(3)] assms(4) [OF g(1,2)]
    by (cases "t = s") auto
  moreover have "flavors \<noteq> []" using assms(1) by auto
  ultimately show ?thesis using b by (simp add: choose_flavor_eq [OF _ assms(3)])
qed

text \<open>C31: The flavor that is chosen is a closest one: it is one of the offered flavors with all three
  sizes known, its penalised distance to the machine is minimal among all such flavors, both as
  computed in double precision and in exact arithmetic up to a relative error of two to the power of
  minus 40; the reported score lies between 0 and 1, and exactly one of overprovisioned and
  underprovisioned is set, the latter if and only if some size is below the machine's.\<close>

theorem chosen_flavor_is_closest:
  assumes "choose_flavor target flavors = Inr (Some fm)"
  shows "\<exists>maxs f s. flavor_maxima flavors = Inr maxs \<and> f \<in> set flavors \<and> size_of f = Some s \<and>
      fm_flavor_id fm = str_or (of_id f) [] \<and> fm_vcpus fm = fs_vcpus s \<and> fm_ram fm = fs_ram s \<and> fm_disk fm = fs_disk s \<and>
      (\<forall>g t. g \<in> set flavors \<and> size_of g = Some t \<longrightarrow>
         distance maxs target s \<le> distance maxs target t \<and>
         exact_penalised maxs target s * (1 - p2 (- 40)) \<le> exact_penalised maxs target t) \<and>
      0 \<le> fm_score fm \<and> fm_score fm \<le> 1 \<and>
      (fm_underprovisioned fm \<longleftrightarrow> too_small target s) \<and> (fm_overprovisioned fm \<longleftrightarrow> \<not> fm_underprovisioned fm)"
proof -
  from chosen_flavor_details [OF assms] obtain maxs f s where
      le: "\<forall>g \<in> set flavors. \<forall>t. size_of g = Some t \<longrightarrow> distance maxs target s \<le> distance maxs target t" and
      c: "flavor_maxima flavors = Inr maxs" "f \<in> set flavors" "size_of f = Some s"
        "fm_flavor_id fm = str_or (of_id f) []" "fm_vcpus fm = fs_vcpus s" "fm_ram fm = fs_ram s" "fm_disk fm = fs_disk s"
        "0 \<le> fm_score fm" "fm_score fm \<le> 1" "fm_underprovisioned fm \<longleftrightarrow> too_small target s"
        "fm_overprovisioned fm \<longleftrightarrow> \<not> fm_underprovisioned fm"
    by (elim exE conjE) (rule that)
  have "distance maxs target s \<le> distance maxs target t \<and>
      exact_penalised maxs target s * (1 - p2 (- 40)) \<le> exact_penalised maxs target t"
    if "g \<in> set flavors \<and> size_of g = Some t" for g t
    using near_le_close [OF distance_square_near distance_square_near distance_nonneg, of maxs target s maxs target t] le that
    by auto
  with c show ?thesis by (intro exI [of _ maxs] exI [of _ f] exI [of _ s]) simp
qed

theorem chosen_flavor_is_closest_witness:
  "\<exists>f \<in> set [no_size_flavor, small_flavor]. of_id f = Some ''f1'' \<and> size_of f = Some small_target"
  using chosen_flavor_is_closest [OF small_target_choice]
  by (auto simp: no_size_flavor_def small_flavor_def size_of_def small_target_def)

end
