(* ===== verification/Mapping_Validation.thy ===== *)
theory Mapping_Validation
  imports Flavor_Accuracy
begin

text \<open>
  scripts/validate_openstack_mapping.py: the checks of the flavor and network mapping on a fixed
  catalogue, the report and the JSON export, and main. The script does not call the mapping engine
  but repeats its idea: its own similarity score per flavor (differences relative to the larger of
  the two sizes) and a case-insensitive comparison of network names. \<^verbatim>\<open>x ** 0.5\<close> is the argument
  hpow, with the contract half_power of theory Float_Error. Strings are UTF-8, as everywhere.
  Printing, the file writes and the two histogram observations are not modelled.
\<close>

section \<open>The catalogue and the score\<close>

record mapping_check =
  vr_operation :: string
  vr_success :: bool
  vr_duration_ms :: rat
  vr_detail :: string
  vr_properties :: "(string \<times> pyval) list"

type_synonym mock_flavor = "string \<times> int \<times> int \<times> int"

definition VALIDATOR_FLAVORS :: "mock_flavor list" where
  "VALIDATOR_FLAVORS =
    [(''m1.tiny'', 1, 512, 1), (''m1.small'', 1, 2048, 20), (''m1.medium'', 2, 4096, 40),
     (''m1.large'', 4, 8192, 80), (''m1.xlarge'', 8, 16384, 160), (''m1.2xlarge'', 12, 32768, 320),
     (''m1.4xlarge'', 16, 65536, 640)]"

definition VALIDATOR_NETWORKS :: "(string \<times> string) list" where
  "VALIDATOR_NETWORKS =
    [(''admin_net'', ''net-admin''), (''public_net'', ''net-public''), (''private_net'', ''net-private''),
     (''storage_net'', ''net-storage'')]"

definition relative_square :: "int \<Rightarrow> int \<Rightarrow> rat" where
  "relative_square a b = (let x = int_truediv (a - b) (max a b) in fmul x x)"

definition similarity_sum :: "int \<times> int \<times> int \<Rightarrow> mock_flavor \<Rightarrow> rat" where
  "similarity_sum vm fl' = (case (vm, fl') of ((cpu, ram, disk), (_, fcpus, fram, fdisk)) \<Rightarrow>
     fadd (fadd (fmul (fl (4 / 10)) (relative_square cpu fcpus)) (fmul (fl (4 / 10)) (relative_square ram fram)))
          (fmul (fl (2 / 10)) (relative_square disk fdisk)))"

definition similarity :: "(rat \<Rightarrow> rat) \<Rightarrow> int \<times> int \<times> int \<Rightarrow> mock_flavor \<Rightarrow> rat" where
  "similarity hpow vm fl' = fsub 1 (hpow (similarity_sum vm fl'))"

text \<open>The loop \<^verbatim>\<open>if score > best_score\<close>, from best None with score -1.0.\<close>

fun best_similarity :: "(mock_flavor \<Rightarrow> rat) \<Rightarrow> mock_flavor list \<Rightarrow> string option \<times> rat \<Rightarrow> string option \<times> rat" where
  "best_similarity score [] b = b"
| "best_similarity score (f # fs) (best, best_score) =
     (if score f > best_score then best_similarity score fs (Some (fst f), score f)
      else best_similarity score fs (best, best_score))"

definition match_by_similarity :: "(rat \<Rightarrow> rat) \<Rightarrow> int \<times> int \<times> int \<Rightarrow> string option \<times> rat" where
  "match_by_similarity hpow vm = best_similarity (similarity hpow vm) VALIDATOR_FLAVORS (None, - 1)"

section \<open>The checks\<close>

definition opt_text :: "string option \<Rightarrow> string" where
  "opt_text s = (case s of None \<Rightarrow> ''None'' | Some t \<Rightarrow> t)"

definition opt_value :: "string option \<Rightarrow> pyval" where
  "opt_value s = (case s of None \<Rightarrow> PNone | Some t \<Rightarrow> PStr t)"

definition arrow :: string where
  "arrow = [CHR 0xE2, CHR 0x86, CHR 0x92]"

definition vm_text :: "int \<times> int \<times> int \<Rightarrow> string" where
  "vm_text vm = (case vm of (cpu, ram, disk) \<Rightarrow>
     ''VM('' @ str_int cpu @ ''c/'' @ str_int ram @ ''M/'' @ str_int disk @ ''G) '' @ arrow)"

definition spaces_to_underscores :: "string \<Rightarrow> string" where
  "spaces_to_underscores = map (\<lambda>c. if c = CHR '' '' then CHR ''_'' else c)"

definition FLAVOR_CASES :: "(string \<times> (int \<times> int \<times> int) \<times> string) list" where
  "FLAVOR_CASES =
    [(''tiny VM'', (1, 512, 1), ''m1.tiny''), (''small VM'', (1, 2048, 20), ''m1.small''),
     (''medium VM'', (2, 4096, 40), ''m1.medium''), (''large VM'', (4, 8192, 80), ''m1.large''),
     (''xlarge VM'', (8, 16384, 160), ''m1.xlarge''), (''oversized VM'', (24, 131072, 2000), ''m1.4xlarge'')]"

definition flavor_check :: "(rat \<Rightarrow> rat) \<Rightarrow> string \<times> (int \<times> int \<times> int) \<times> string \<Rightarrow> mapping_check" where
  "flavor_check hpow c = (case c of (label, vm, expected) \<Rightarrow>
     (case match_by_similarity hpow vm of (best, best_score) \<Rightarrow>
      \<lparr>vr_operation = ''flavor_match_'' @ spaces_to_underscores label,
       vr_success = (best = Some expected), vr_duration_ms = 0,
       vr_detail = vm_text vm @ '' Flavor: '' @ opt_text best @ '' (expected: '' @ expected @ '', score: '' @
         fmt_fixed 3 best_score @ '')'',
       vr_properties = (case vm of (cpu, ram, disk) \<Rightarrow>
         [(''vm_cpus'', PInt cpu), (''vm_ram_mb'', PInt ram), (''vm_disk_gb'', PInt disk),
          (''matched_flavor'', opt_value best), (''expected_flavor'', PStr expected),
          (''similarity_score'', PFloat (py_round best_score 3))])\<rparr>))"

definition validate_flavor_mapping :: "(rat \<Rightarrow> rat) \<Rightarrow> mapping_check list" where
  "validate_flavor_mapping hpow = map (flavor_check hpow) FLAVOR_CASES"

definition match_network :: "string \<Rightarrow> string option" where
  "match_network vm_net = map_option fst (find (\<lambda>(name, nid). py_lower vm_net = py_lower name) VALIDATOR_NETWORKS)"

definition NETWORK_CASES :: "(string \<times> string option \<times> bool) list" where
  "NETWORK_CASES =
    [(''admin_net'', Some ''admin_net'', True), (''Admin_Net'', Some ''admin_net'', True), (''unknown_net'', None, False)]"

definition network_check :: "string \<times> string option \<times> bool \<Rightarrow> mapping_check" where
  "network_check c = (case c of (vm_net, expected, should_match) \<Rightarrow>
     (let matched = match_network vm_net in
      \<lparr>vr_operation = ''net_match_'' @ vm_net, vr_success = ((matched \<noteq> None) = should_match), vr_duration_ms = 0,
       vr_detail = ''VM network '' @ [CHR 0x27] @ vm_net @ [CHR 0x27] @ '' '' @ arrow @ '' '' @ [CHR 0x27] @
         opt_text matched @ [CHR 0x27] @ '' (expected: '' @ opt_text expected @ '')'',
       vr_properties = [(''vm_network'', PStr vm_net), (''matched_network'', opt_value matched),
         (''expected_network'', opt_value expected)]\<rparr>))"

definition validate_network_mapping :: "mapping_check list" where
  "validate_network_mapping = map network_check NETWORK_CASES"

section \<open>The report, the JSON export and main\<close>

definition passed_of :: "mapping_check list \<Rightarrow> nat" where
  "passed_of results = length (filter vr_success results)"

definition check_mark :: "bool \<Rightarrow> string" where
  "check_mark ok = (if ok then [CHR 0xE2, CHR 0x9C, CHR 0x85] else [CHR 0xE2, CHR 0x9D, CHR 0x8C])"

definition escape_bars :: "string \<Rightarrow> string" where
  "escape_bars s = concat (map (\<lambda>c. if c = CHR ''|'' then [CHR 0x5C, CHR ''|''] else [c]) s)"

definition report_row :: "mapping_check \<Rightarrow> string" where
  "report_row r = ''| '' @ vr_operation r @ '' | '' @ check_mark (vr_success r) @ '' | '' @
     (if vr_duration_ms r > 0 then fmt_fixed 1 (vr_duration_ms r) @ ''ms'' else ''-'') @ '' | '' @
     escape_bars (vr_detail r) @ '' |''"

definition nl :: string where
  "nl = [CHR 0x0A]"

definition mapping_report :: "string \<Rightarrow> mapping_check list \<Rightarrow> string" where
  "mapping_report now results =
    (let passed = passed_of results; failed = length results - passed; n = nat_digits (length results) in
     py_join nl
      ([''# OpenStack Mapping Validation Report'', [], ''> Generated: '' @ now,
        ''> Result: **'' @ nat_digits passed @ ''/'' @ n @ '' checks passed**'', [], ''## Summary'', [],
        ''| Status | Count |'', ''|--------|:-----:|'', ''| Passed | '' @ nat_digits passed @ '' |'',
        ''| Failed | '' @ nat_digits failed @ '' |'', ''| Total  | '' @ n @ '' |'', [], ''## Check Results'', [],
        ''| Check | Status | Duration | Detail |'', ''|-------|:------:|:--------:|--------|''] @
       map report_row results @
       [nl @ ''---'' @ nl @ ''*Report generated by validate_openstack_mapping.py*'']))"

definition result_json :: "mapping_check \<Rightarrow> pyval" where
  "result_json r = PDict [(PStr ''operation'', PStr (vr_operation r)), (PStr ''success'', PBool (vr_success r)),
     (PStr ''duration_ms'', PFloat (py_round (vr_duration_ms r) 2)), (PStr ''detail'', PStr (vr_detail r)),
     (PStr ''properties'', PDict (map (\<lambda>(k, v). (PStr k, v)) (vr_properties r)))]"

record mapping_json =
  mj_generated_at :: string
  mj_total_checks :: nat
  mj_passed :: nat
  mj_failed :: nat
  mj_results :: "pyval list"

definition mapping_json_of :: "string \<Rightarrow> mapping_check list \<Rightarrow> mapping_json" where
  "mapping_json_of now results =
    \<lparr>mj_generated_at = now, mj_total_checks = length results, mj_passed = length (filter vr_success results),
     mj_failed = length (filter (\<lambda>r. \<not> vr_success r) results), mj_results = map result_json results\<rparr>"

record mapping_args =
  ma_json :: bool
  ma_vm_cpu :: "int option"
  ma_vm_ram :: "int option"
  ma_vm_disk :: "int option"

definition given :: "int option \<Rightarrow> bool" where
  "given x = (case x of None \<Rightarrow> False | Some i \<Rightarrow> i \<noteq> 0)"

definition custom_match :: "(rat \<Rightarrow> rat) \<Rightarrow> mapping_args \<Rightarrow> ((int \<times> int \<times> int) \<times> string option \<times> rat) option" where
  "custom_match hpow args =
    (if given (ma_vm_cpu args) \<and> given (ma_vm_ram args) \<and> given (ma_vm_disk args)
     then (let vm = (the (ma_vm_cpu args), the (ma_vm_ram args), the (ma_vm_disk args)) in
           Some (vm, match_by_similarity hpow vm))
     else None)"

record mapping_outcome =
  mo_results :: "mapping_check list"
  mo_custom :: "((int \<times> int \<times> int) \<times> string option \<times> rat) option"
  mo_passed :: nat
  mo_failed :: nat
  mo_report :: string
  mo_json :: "mapping_json option"
  mo_live_notice :: bool

text \<open>main: the settings are read in a try block whose handler ignores every exception.\<close>

definition mapping_main :: "(rat \<Rightarrow> rat) \<Rightarrow> string \<Rightarrow> string \<Rightarrow> exn + bool \<Rightarrow> mapping_args \<Rightarrow> mapping_outcome" where
  "mapping_main hpow now stamp openstack_ready args =
    (let all_results = validate_flavor_mapping hpow @ validate_network_mapping in
     \<lparr>mo_results = all_results, mo_custom = custom_match hpow args,
      mo_passed = passed_of all_results, mo_failed = length all_results - passed_of all_results,
      mo_report = mapping_report now all_results,
      mo_json = (if ma_json args then Some (mapping_json_of stamp all_results) else None),
      mo_live_notice = (openstack_ready = Inr True)\<rparr>)"


section \<open>The score in exact arithmetic\<close>

definition exact_relative :: "int \<Rightarrow> int \<Rightarrow> rat" where
  "exact_relative a b = (of_int (a - b) / of_int (max a b))\<^sup>2"

definition exact_sum :: "int \<times> int \<times> int \<Rightarrow> mock_flavor \<Rightarrow> rat" where
  "exact_sum vm fl' = (case (vm, fl') of ((cpu, ram, disk), (_, fcpus, fram, fdisk)) \<Rightarrow>
     4 / 10 * exact_relative cpu fcpus + 4 / 10 * exact_relative ram fram + 2 / 10 * exact_relative disk fdisk)"

lemma similarity_sum_near: "near 7 (similarity_sum vm f) (exact_sum vm f)"
  unfolding similarity_sum_def exact_sum_def relative_square_def exact_relative_def Let_def split_beta fst_conv snd_conv
  by (intro near_weighted_sum near_weighted_square) simp_all

context half_power
begin

lemma hpow_sum_square: "near 15 (hpow (similarity_sum vm f) * hpow (similarity_sum vm f)) (exact_sum vm f)"
  using hpow_near_square [OF similarity_sum_near, of vm f] by simp

lemma hpow_sum_nonneg: "0 \<le> hpow (similarity_sum vm f)"
  by (rule hpow_nonneg) (rule near_nonneg [OF similarity_sum_near])

lemma hpow_sum_le:
  assumes "exact_sum vm f \<le> q\<^sup>2 * (1 - p2 (- 40))" "0 \<le> q"
  shows "hpow (similarity_sum vm f) \<le> q"
proof -
  let ?r = "hpow (similarity_sum vm f)"
  have "?r * ?r * (1 - p2 (- 40)) \<le> exact_sum vm f"
    using near_close_to [OF hpow_sum_square] by (simp add: close_to_def)
  also note assms(1)
  finally have "?r\<^sup>2 * (1 - p2 (- 40)) \<le> q\<^sup>2 * (1 - p2 (- 40))" by (simp add: power2_eq_square)
  moreover have "0 < 1 - p2 (- 40)" by (simp add: p2_minus p2_nonneg)
  ultimately have "?r\<^sup>2 \<le> q\<^sup>2" by (simp only: mult_le_cancel_right_pos)
  then show ?thesis using assms(2) by (rule power2_le_imp_le)
qed

lemma hpow_sum_ge:
  assumes "q\<^sup>2 \<le> exact_sum vm f * (1 - p2 (- 40))"
  shows "q \<le> hpow (similarity_sum vm f)"
proof -
  let ?r = "hpow (similarity_sum vm f)"
  have "exact_sum vm f * (1 - p2 (- 40)) \<le> ?r\<^sup>2"
    using near_close_to [OF hpow_sum_square] by (simp add: close_to_def power2_eq_square)
  with assms have "q\<^sup>2 \<le> ?r\<^sup>2" by linarith
  then show ?thesis by (rule power2_le_imp_le) (rule hpow_sum_nonneg)
qed

lemma similarity_ge:
  "exact_sum vm f \<le> q\<^sup>2 * (1 - p2 (- 40)) \<Longrightarrow> 0 \<le> q \<Longrightarrow> fl (1 - q) \<le> similarity hpow vm f"
  using hpow_sum_le by (simp add: similarity_def fsub_def fl_mono)

lemma similarity_le: "q\<^sup>2 \<le> exact_sum vm f * (1 - p2 (- 40)) \<Longrightarrow> similarity hpow vm f \<le> fl (1 - q)"
  using hpow_sum_ge by (simp add: similarity_def fsub_def fl_mono)

lemma similarity_exact: "exact_sum vm f = 0 \<Longrightarrow> similarity hpow vm f = 1"
  using similarity_sum_near [of vm f] hpow_0 by (simp add: similarity_def fsub_def near_0_right)

end

lemma best_similarity_spec:
  assumes "best_similarity score fs (b0, s0) = (b, s)"
  shows "((b, s) = (b0, s0) \<or> (\<exists>f \<in> set fs. b = Some (fst f) \<and> s = score f)) \<and> s0 \<le> s \<and> (\<forall>g \<in> set fs. score g \<le> s)"
  using assms
  by (induction score fs "(b0, s0)" arbitrary: b0 s0 rule: best_similarity.induct) (fastforce split: if_splits)+

lemma best_similarity_unique:
  assumes "f \<in> set fs" "s0 < score f" "\<And>g. g \<in> set fs \<Longrightarrow> g \<noteq> f \<Longrightarrow> score g < score f"
  shows "best_similarity score fs (b0, s0) = (Some (fst f), score f)"
proof -
  obtain b s where bs: "best_similarity score fs (b0, s0) = (b, s)" by fastforce
  from best_similarity_spec [OF this] assms(1,2) have "s0 < s" "score f \<le> s"
      "\<exists>g \<in> set fs. b = Some (fst g) \<and> s = score g" by fastforce+
  then obtain g where g: "g \<in> set fs" "b = Some (fst g)" "s = score g" "score f \<le> score g" by auto
  then have "g = f" using assms(3) [of g] by force
  then show ?thesis using bs g by simp
qed

section \<open>The checks of the catalogue\<close>

lemma fl_15_16: "fl (1 - 1 / 16) = 15 / 16"
  using fl_exact [of 15 "- 4"] by (simp add: p2_minus p2_nonneg)

lemma fl_7_16: "fl (1 - 9 / 16) = 7 / 16"
  using fl_exact [of 7 "- 4"] by (simp add: p2_minus p2_nonneg)

context half_power
begin

text \<open>A flavor whose exact distance is clearly below that of all others is chosen.\<close>

lemma clear_winner:
  assumes "f \<in> set VALIDATOR_FLAVORS" "exact_sum vm f \<le> q\<^sup>2 * (1 - p2 (- 40))" "0 \<le> q"
    and "list_all (\<lambda>g. g = f \<or> q'\<^sup>2 \<le> exact_sum vm g * (1 - p2 (- 40))) VALIDATOR_FLAVORS"
    and "- 1 < fl (1 - q)" "fl (1 - q') < fl (1 - q)"
  shows "match_by_similarity hpow vm = (Some (fst f), similarity hpow vm f)"
  unfolding match_by_similarity_def
proof (rule best_similarity_unique)
  note f = similarity_ge [OF assms(2,3)]
  show "- 1 < similarity hpow vm f" using f assms(5) by linarith
  fix g
  assume "g \<in> set VALIDATOR_FLAVORS" "g \<noteq> f"
  with assms(4) have "q'\<^sup>2 \<le> exact_sum vm g * (1 - p2 (- 40))" by (auto simp: list_all_iff)
  from similarity_le [OF this] show "similarity hpow vm g < similarity hpow vm f" using f assms(6) by linarith
qed (rule assms(1))

lemma flavor_cases_match: "list_all (\<lambda>(label, vm, expected). fst (match_by_similarity hpow vm) = Some expected) FLAVOR_CASES"
proof -
  note eval = VALIDATOR_FLAVORS_def exact_sum_def exact_relative_def power2_eq_square p2_minus p2_nonneg
  note exact = clear_winner [where q = 0 and q' = "1 / 16", unfolded fl_15_16]
  have "fst (match_by_similarity hpow (1, 512, 1)) = Some ''m1.tiny''"
    by (subst exact [where f = "(''m1.tiny'', 1, 512, 1)"]) (simp_all add: eval)
  moreover have "fst (match_by_similarity hpow (1, 2048, 20)) = Some ''m1.small''"
    by (subst exact [where f = "(''m1.small'', 1, 2048, 20)"]) (simp_all add: eval)
  moreover have "fst (match_by_similarity hpow (2, 4096, 40)) = Some ''m1.medium''"
    by (subst exact [where f = "(''m1.medium'', 2, 4096, 40)"]) (simp_all add: eval)
  moreover have "fst (match_by_similarity hpow (4, 8192, 80)) = Some ''m1.large''"
    by (subst exact [where f = "(''m1.large'', 4, 8192, 80)"]) (simp_all add: eval)
  moreover have "fst (match_by_similarity hpow (8, 16384, 160)) = Some ''m1.xlarge''"
    by (subst exact [where f = "(''m1.xlarge'', 8, 16384, 160)"]) (simp_all add: eval)
  moreover have "fst (match_by_similarity hpow (24, 131072, 2000)) = Some ''m1.4xlarge''"
    by (subst clear_winner [where q = "1 / 2" and q' = "9 / 16" and f = "(''m1.4xlarge'', 16, 65536, 640)", unfolded fl_7_16])
      (simp_all add: eval)
  ultimately show ?thesis by (simp add: FLAVOR_CASES_def)
qed

end

section \<open>Properties\<close>

lemma network_cases_pass: "list_all vr_success validate_network_mapping"
  by code_simp

lemma flavor_cases_pass: "half_power hpow \<Longrightarrow> list_all vr_success (validate_flavor_mapping hpow)"
  using half_power.flavor_cases_match [of hpow]
  by (simp add: validate_flavor_mapping_def list_all_iff flavor_check_def split_beta)

lemma py_join_append: "xs \<noteq> [] \<Longrightarrow> ys \<noteq> [] \<Longrightarrow> py_join d (xs @ ys) = py_join d xs @ d @ py_join d ys"
proof (induction xs)
  case (Cons x xs)
  then show ?case by (cases "xs = []") (simp_all add: py_join_Cons)
qed simp

lemma report_rows:
  "results \<noteq> [] \<Longrightarrow> \<exists>pre post. mapping_report now results = pre @ py_join nl (map report_row results) @ post"
proof -
  assume "results \<noteq> []"
  then have "\<exists>pre post. py_join nl (hs @ map report_row results @ [t]) = pre @ py_join nl (map report_row results) @ post"
    if "hs \<noteq> []" for hs t
    using that by (intro exI [of _ "py_join nl hs @ nl"] exI [of _ "nl @ t"]) (simp add: py_join_append)
  then show ?thesis unfolding mapping_report_def Let_def by blast
qed

lemma report_rows_counts: "length (filter (\<lambda>r. \<not> vr_success r) rs) = length rs - passed_of rs"
  using sum_length_filter_compl [of vr_success rs] by (simp add: passed_of_def)

text \<open>The mapping validation passes: for every accurate square root the nine checks succeed, the
  printed and the exported counts agree with them (nothing failed), and the report has one row for
  every check; the JSON export is written exactly when it is asked for. The settings and the other
  arguments do not matter.\<close>

theorem mapping_validation_passes:
  assumes "half_power hpow"
  shows "let out = mapping_main hpow now stamp ready args in
    length (mo_results out) = 9 \<and> list_all vr_success (mo_results out) \<and> mo_passed out = 9 \<and> mo_failed out = 0 \<and>
    (\<exists>pre post. mo_report out = pre @ py_join nl (map report_row (mo_results out)) @ post) \<and>
    (case mo_json out of None \<Rightarrow> \<not> ma_json args
     | Some j \<Rightarrow> ma_json args \<and> mj_total_checks j = 9 \<and> mj_passed j = 9 \<and> mj_failed j = 0 \<and> length (mj_results j) = 9)"
proof -
  let ?rs = "validate_flavor_mapping hpow @ validate_network_mapping"
  have len: "length ?rs = 9"
    by (simp add: validate_flavor_mapping_def validate_network_mapping_def FLAVOR_CASES_def NETWORK_CASES_def)
  have ok: "list_all vr_success ?rs" using flavor_cases_pass [OF assms] network_cases_pass by simp
  then have "filter vr_success ?rs = ?rs" by (simp add: list_all_iff)
  then have passed: "passed_of ?rs = 9" "length (filter vr_success ?rs) = 9" using len by (simp_all add: passed_of_def)
  have failed: "length (filter (\<lambda>r. \<not> vr_success r) ?rs) = 0"
    unfolding report_rows_counts passed(1) len by simp
  have "?rs \<noteq> []" using len by auto
  from report_rows [OF this, of now] show ?thesis
    unfolding mapping_main_def Let_def mapping_json_of_def
    using len ok passed failed by simp
qed

theorem mapping_validation_passes_witness:
  "list_all vr_success (mo_results (mapping_main fsqrt ''now'' ''then'' (Inr False)
     \<lparr>ma_json = True, ma_vm_cpu = None, ma_vm_ram = None, ma_vm_disk = None\<rparr>))"
  using mapping_validation_passes [OF math_sqrt.half_power_axioms] by (simp add: Let_def)

text \<open>The absolute error of rounding a number of absolute value at most one.\<close>

lemma fl_absolute_error:
  assumes "\<bar>x\<bar> \<le> 1"
  shows "\<bar>fl x - x\<bar> \<le> p2 (- 53)"
proof -
  have pos: "\<bar>fl y - y\<bar> \<le> p2 (- 53)" if "0 < y" "y \<le> 1" for y
  proof -
    have "fl y \<le> 1" using fl_mono [OF that(2)] by simp
    moreover have "p2 (- 53) * z \<le> p2 (- 53)" if "z \<le> 1" for z using that by simp
    ultimately have "p2 (- 53) * fl y \<le> p2 (- 53)" "p2 (- 53) * y \<le> p2 (- 53)" using that by blast+
    moreover have "y - p2 (- 53) * y \<le> fl y" "fl y - p2 (- 53) * fl y \<le> y"
      using fl_relative_error [OF that(1)] by (simp_all add: shrink_def algebra_simps)
    ultimately show ?thesis by (simp only: abs_le_iff) linarith
  qed
  consider "x = 0" | "0 < x" | "0 < - x" by linarith
  then show ?thesis using assms pos [of x] pos [of "- x"] by cases (simp_all add: fl_minus abs_minus_commute)
qed

lemma exact_relative_le_1: "1 \<le> a \<Longrightarrow> 1 \<le> b \<Longrightarrow> exact_relative a b \<le> 1"
proof -
  assume "1 \<le> a" "1 \<le> b"
  then have "\<bar>of_int (a - b)\<bar> \<le> (of_int (max a b) :: rat)" "0 < (of_int (max a b) :: rat)"
    by (simp_all add: max_def flip: of_int_abs of_int_diff)
  then have "\<bar>of_int (a - b) / of_int (max a b)\<bar> \<le> (1 :: rat)"
    unfolding abs_divide by (simp add: divide_le_eq_1 abs_of_pos)
  then show ?thesis unfolding exact_relative_def using abs_square_le_1 by blast
qed

lemma catalogue_positive: "(n, c, r, d) \<in> set VALIDATOR_FLAVORS \<Longrightarrow> 1 \<le> c \<and> 1 \<le> r \<and> 1 \<le> d"
  by (auto simp: VALIDATOR_FLAVORS_def)

definition positive_vm :: "int \<times> int \<times> int \<Rightarrow> bool" where
  "positive_vm vm = (case vm of (cpu, ram, disk) \<Rightarrow> 1 \<le> cpu \<and> 1 \<le> ram \<and> 1 \<le> disk)"

lemma exact_sum_unit:
  assumes "positive_vm vm" "f \<in> set VALIDATOR_FLAVORS"
  shows "0 \<le> exact_sum vm f" "exact_sum vm f \<le> 1"
proof -
  obtain c r d n c' r' d' where v: "vm = (c, r, d)" "f = (n, c', r', d')" by (cases vm, cases f)
  have "exact_relative c c' \<le> 1" "exact_relative r r' \<le> 1" "exact_relative d d' \<le> 1"
    using assms catalogue_positive [of n c' r' d'] by (simp_all add: v positive_vm_def exact_relative_le_1)
  then show "exact_sum vm f \<le> 1" by (simp add: v exact_sum_def)
  show "0 \<le> exact_sum vm f" by (simp add: v exact_sum_def exact_relative_def)
qed

context half_power
begin

lemma hpow_sum_small:
  assumes "positive_vm vm" "f \<in> set VALIDATOR_FLAVORS"
  shows "hpow (similarity_sum vm f) \<le> 3 / 2"
  using exact_sum_unit [OF assms] by (intro hpow_sum_le) (simp_all add: power2_eq_square p2_minus p2_nonneg)

lemma similarity_error:
  assumes "positive_vm vm" "f \<in> set VALIDATOR_FLAVORS"
  shows "\<bar>similarity hpow vm f - (1 - hpow (similarity_sum vm f))\<bar> \<le> p2 (- 53)"
  unfolding similarity_def fsub_def
  using hpow_sum_small [OF assms] hpow_sum_nonneg [of vm f] by (intro fl_absolute_error) (simp add: abs_le_iff)

text \<open>Comparing scores is comparing exact sums, up to two to the power of minus 38.\<close>

lemma similarity_order:
  assumes "positive_vm vm" "f \<in> set VALIDATOR_FLAVORS" "g \<in> set VALIDATOR_FLAVORS"
    and "similarity hpow vm g \<le> similarity hpow vm f"
  shows "exact_sum vm f \<le> exact_sum vm g + p2 (- 38)"
proof -
  let ?rf = "hpow (similarity_sum vm f)" and ?rg = "hpow (similarity_sum vm g)"
  have r: "?rf \<le> ?rg + 2 * p2 (- 53)"
    using similarity_error [OF assms(1,2)] similarity_error [OF assms(1,3)] assms(4) by (simp add: abs_le_iff)
  have g: "0 \<le> ?rg" "?rg \<le> 3 / 2" using hpow_sum_nonneg hpow_sum_small [OF assms(1,3)] by auto
  have "?rf\<^sup>2 \<le> (?rg + 2 * p2 (- 53))\<^sup>2" using r hpow_sum_nonneg by (intro power_mono) auto
  also have "\<dots> = ?rg\<^sup>2 + 4 * p2 (- 53) * ?rg + 4 * p2 (- 53) * p2 (- 53)"
    by (simp add: power2_eq_square algebra_simps)
  also have "\<dots> \<le> ?rg\<^sup>2 + p2 (- 48)" using g by (simp add: p2_minus p2_nonneg)
  finally have sq: "?rf\<^sup>2 \<le> ?rg\<^sup>2 + p2 (- 48)" .
  have rg2: "?rg\<^sup>2 \<le> (3 / 2)\<^sup>2" using g by (intro power_mono) auto
  have "exact_sum vm f * (1 - p2 (- 40)) \<le> ?rf\<^sup>2" "?rg\<^sup>2 * (1 - p2 (- 40)) \<le> exact_sum vm g"
    using near_close_to [OF hpow_sum_square, of vm f] near_close_to [OF hpow_sum_square, of vm g]
    by (simp_all add: close_to_def power2_eq_square)
  moreover have "p2 (- 40) * exact_sum vm f \<le> p2 (- 40)" using exact_sum_unit [OF assms(1,2)] by simp
  ultimately show ?thesis using sq rg2 by (simp add: p2_minus p2_nonneg power2_eq_square algebra_simps)
qed

end

text \<open>The flavor test for a given configuration is right: for positive sizes and every accurate square
  root main names a flavor of the catalogue, never None, and no flavor of the catalogue is closer in
  exact arithmetic by more than two to the power of minus 38.\<close>

theorem custom_match_closest:
  assumes "half_power hpow" "positive_vm (cpu, ram, disk)"
  shows "\<exists>f s. custom_match hpow \<lparr>ma_json = j, ma_vm_cpu = Some cpu, ma_vm_ram = Some ram, ma_vm_disk = Some disk\<rparr> =
      Some ((cpu, ram, disk), Some (fst f), s) \<and> f \<in> set VALIDATOR_FLAVORS \<and>
      list_all (\<lambda>g. exact_sum (cpu, ram, disk) f \<le> exact_sum (cpu, ram, disk) g + p2 (- 38)) VALIDATOR_FLAVORS"
proof -
  let ?vm = "(cpu, ram, disk)" and ?tiny = "(''m1.tiny'', 1, 512, 1)"
  obtain b s where bs: "best_similarity (similarity hpow ?vm) VALIDATOR_FLAVORS (None, - 1) = (b, s)" by fastforce
  note spec = best_similarity_spec [OF this]
  have tiny: "?tiny \<in> set VALIDATOR_FLAVORS" by (simp add: VALIDATOR_FLAVORS_def)
  have "- 1 < similarity hpow ?vm ?tiny"
    using half_power.similarity_error [OF assms tiny] half_power.hpow_sum_small [OF assms tiny]
    unfolding abs_le_iff p2_m53 by linarith
  then have "- 1 < s" using spec tiny by fastforce
  then obtain f where f: "f \<in> set VALIDATOR_FLAVORS" "b = Some (fst f)" "s = similarity hpow ?vm f"
    using spec by auto
  have "exact_sum ?vm f \<le> exact_sum ?vm g + p2 (- 38)" if "g \<in> set VALIDATOR_FLAVORS" for g
    using half_power.similarity_order [OF assms f(1) that] spec that f(3) by auto
  moreover have "custom_match hpow \<lparr>ma_json = j, ma_vm_cpu = Some cpu, ma_vm_ram = Some ram, ma_vm_disk = Some disk\<rparr> =
      Some (?vm, Some (fst f), s)"
    using assms(2) bs f by (simp add: custom_match_def given_def positive_vm_def match_by_similarity_def Let_def)
  ultimately show ?thesis using f by (intro exI [of _ f] exI [of _ s]) (simp add: list_all_iff)
qed

theorem custom_match_closest_witness:
  "custom_match fsqrt \<lparr>ma_json = False, ma_vm_cpu = Some 8, ma_vm_ram = Some 16384, ma_vm_disk = Some 100\<rparr> \<noteq> None"
  using custom_match_closest [OF math_sqrt.half_power_axioms, of 8 16384 100 False] by (auto simp: positive_vm_def)

text \<open>The catalogue as the engine would read it from OpenStack.\<close>

definition engine_flavors :: "os_flavor list" where
  "engine_flavors = map (\<lambda>(n, c, r, d). \<lparr>of_id = Some n, of_name = Some n, of_vcpus = Some c, of_ram = Some r, of_disk = Some d\<rparr>)
     VALIDATOR_FLAVORS"

definition engine_networks :: "os_network list" where
  "engine_networks = map (\<lambda>(n, i). \<lparr>on_id = Some i, on_name = Some n\<rparr>) VALIDATOR_NETWORKS"

lemma catalogue_lower: "(n, i) \<in> set VALIDATOR_NETWORKS \<Longrightarrow> py_lower n = n \<and> n \<noteq> []"
  unfolding VALIDATOR_NETWORKS_def by (simp, elim disjE) (simp_all add: py_lower_def lower_char_def)

lemma match_network_Some: "match_network v = Some n \<longleftrightarrow> py_lower v = n \<and> n \<in> fst ` set VALIDATOR_NETWORKS"
proof
  assume "match_network v = Some n"
  then obtain i where "find (\<lambda>(name, nid). py_lower v = py_lower name) VALIDATOR_NETWORKS = Some (n, i)"
    by (auto simp: match_network_def)
  then have "(n, i) \<in> set VALIDATOR_NETWORKS" "py_lower v = py_lower n" by (auto dest: find_witness)
  then show "py_lower v = n \<and> n \<in> fst ` set VALIDATOR_NETWORKS" using catalogue_lower [of n i] by force
next
  assume r: "py_lower v = n \<and> n \<in> fst ` set VALIDATOR_NETWORKS"
  then obtain i where i: "(n, i) \<in> set VALIDATOR_NETWORKS" by auto
  then obtain m j where m: "find (\<lambda>(name, nid). py_lower v = py_lower name) VALIDATOR_NETWORKS = Some (m, j)"
    using catalogue_lower [OF i] r
    by (cases "find (\<lambda>(name, nid). py_lower v = py_lower name) VALIDATOR_NETWORKS") (auto simp: find_None_iff)
  then have "(m, j) \<in> set VALIDATOR_NETWORKS" "py_lower v = py_lower m" by (auto dest: find_witness)
  then have "m = n" using catalogue_lower [of m j] r by simp
  then show "match_network v = Some n" using m by (simp add: match_network_def)
qed

text \<open>The network check stands for the engine: on the catalogue the mapping engine maps every adapter
  to the network the script's comparison finds, whatever the port group is called, and to none
  exactly when the script finds none.\<close>

theorem network_check_agrees_with_engine:
  "\<exists>r. map_nic engine_networks nic = Inr r \<and> nm_openstack_network_name r = match_network (vn_network_name nic)"
proof -
  let ?v = "vn_network_name nic"
  obtain r where r: "map_nic engine_networks nic = Inr r" "nic_match engine_networks ?v r"
    using map_nic_match by blast
  have names: "on_name ` set engine_networks = Some ` fst ` set VALIDATOR_NETWORKS"
    by (simp add: engine_networks_def image_image split_beta)
  have low: "py_lower n = n \<and> n \<noteq> []" if "Some n \<in> on_name ` set engine_networks" for n
    using that catalogue_lower unfolding names by force
  have "nm_openstack_network_name r = match_network ?v"
  proof (cases "match_network ?v")
    case None
    then have no: "Some (py_lower ?v) \<notin> on_name ` set engine_networks"
      using match_network_Some [of ?v "py_lower ?v"] unfolding names by auto
    then have "Some ?v \<notin> on_name ` set engine_networks" using low by metis
    moreover have "\<not> (\<exists>n \<in> set engine_networks. \<exists>s. on_name n = Some s \<and> s \<noteq> [] \<and> py_lower s = py_lower ?v)"
      using no low by (metis imageI)
    ultimately show ?thesis using r(2) None by (simp add: nic_match_def)
  next
    case (Some n)
    then have n: "py_lower ?v = n" "Some n \<in> on_name ` set engine_networks"
      by (auto simp: match_network_Some names)
    then have "\<exists>k \<in> set engine_networks. \<exists>s. on_name k = Some s \<and> s \<noteq> [] \<and> py_lower s = py_lower ?v"
      using low by (metis image_iff)
    then have "nm_openstack_network_name r = Some n"
    proof (cases "Some ?v \<in> on_name ` set engine_networks")
      case True
      then show ?thesis using r(2) n(1) low [OF True] by (simp add: nic_match_def)
    next
      case False
      then obtain k s where "k \<in> set engine_networks" "on_name k = Some s" "py_lower s = py_lower ?v"
          "nm_openstack_network_name r = Some s"
        using r(2) \<open>\<exists>k \<in> set engine_networks. _ k\<close> by (auto simp: nic_match_def)
      then show ?thesis using n(1) low [of s] by (metis imageI)
    qed
    then show ?thesis using Some by simp
  qed
  with r show ?thesis by blast
qed

text \<open>The flavor check does not stand for the engine: for a machine with 13 CPUs, 47000 MB and 450 GB the
  script names m1.2xlarge, while the engine, given the same catalogue, chooses m1.4xlarge, because it
  scales by the largest flavor and penalises flavors that are too small.\<close>

theorem flavor_check_differs_from_engine:
  assumes "half_power hpow"
  shows "fst (match_by_similarity hpow (13, 47000, 450)) = Some ''m1.2xlarge''"
    and "\<exists>fm. choose_flavor \<lparr>fs_vcpus = 13, fs_ram = 47000, fs_disk = 450\<rparr> engine_flavors = Inr (Some fm) \<and> fm_vcpus fm = 16"
proof -
  note eval = VALIDATOR_FLAVORS_def exact_sum_def exact_relative_def power2_eq_square p2_minus p2_nonneg
  have fl: "fl (1 - 31 / 128) = 97 / 128" "fl (1 - 1 / 4) = 3 / 4"
    using fl_exact [of 97 "- 7"] fl_exact [of 3 "- 2"] by (simp_all add: p2_minus p2_nonneg)
  show "fst (match_by_similarity hpow (13, 47000, 450)) = Some ''m1.2xlarge''"
    by (subst half_power.clear_winner [OF assms, where q = "31 / 128" and q' = "1 / 4" and
        f = "(''m1.2xlarge'', 12, 32768, 320)", unfolded fl]) (simp_all add: eval)
  let ?m = "\<lparr>fs_vcpus = 16, fs_ram = 65536, fs_disk = 640\<rparr>"
  have m: "flavor_maxima engine_flavors = Inr ?m" by code_simp
  have "\<exists>fm. choose_flavor \<lparr>fs_vcpus = 13, fs_ram = 47000, fs_disk = 450\<rparr> engine_flavors = Inr (Some fm) \<and>
      fm_vcpus fm = fs_vcpus ?m \<and> fm_ram fm = fs_ram ?m \<and> fm_disk fm = fs_disk ?m \<and>
      fm_underprovisioned fm = too_small \<lparr>fs_vcpus = 13, fs_ram = 47000, fs_disk = 450\<rparr> ?m"
    by (rule clear_size_chosen [OF _ _ m, of "last engine_flavors"])
      (auto simp: engine_flavors_def VALIDATOR_FLAVORS_def size_of_def exact_penalised_def exact_square_def too_small_def
        power2_eq_square p2_minus p2_nonneg)
  then show "\<exists>fm. choose_flavor \<lparr>fs_vcpus = 13, fs_ram = 47000, fs_disk = 450\<rparr> engine_flavors = Inr (Some fm) \<and> fm_vcpus fm = 16"
    by auto
qed

end
