(* ===== verification/Validation_Reports.thy ===== *)
theory Validation_Reports
  imports Engine_Suites Engine_Benchmark Recovery_Scenarios Vcenter_Validation Mapping_Validation
begin

text \<open>
  The reports, JSON exports and main functions of the validation scripts: scripts/recovery_validation.py,
  negative_case_vm_engine.py, validate_vm_engine.py, benchmark_vm_engine.py and validate_vcenter.py. A main runs the
  checks modelled in the imported theories, writes its files and exits; it is a function to what is written and the exit
  code. Times of day, str() of a value and json.dumps are arguments; printing is not modelled.
\<close>

section \<open>What a script leaves\<close>

record script_run =
  sx_report :: "string option"
  sx_json :: "pyval option"
  sx_exit :: int

record run_times =
  rt_started :: string
  rt_finished :: string
  rt_total :: rat

definition exit_code :: "bool \<Rightarrow> int" where
  "exit_code ok = (if ok then 0 else 1)"

definition py_bool :: "bool \<Rightarrow> string" where
  "py_bool b = (if b then ''True'' else ''False'')"

definition verdict_text :: "bool \<Rightarrow> string" where
  "verdict_text ok = check_mark ok @ (if ok then '' ALL PASSED'' else '' FAILED'')"

definition result_line :: "bool \<Rightarrow> nat \<Rightarrow> nat \<Rightarrow> string" where
  "result_line ok passed n_total = ''> Result: **'' @ verdict_text ok @ ''** ('' @ nat_digits passed @ ''/'' @ nat_digits n_total @ '')''"

text \<open>\<^verbatim>\<open>{x:.0f}\<close>\<close>

definition fmt_whole :: "rat \<Rightarrow> string" where
  "fmt_whole x = (if x < 0 then ''-'' else []) @ str_int (rne \<bar>x\<bar>)"

definition times_lines :: "run_times \<Rightarrow> string list" where
  "times_lines t = [''> Started: '' @ rt_started t, ''> Finished: '' @ rt_finished t, ''> Duration: '' @ fmt_fixed 1 (rt_total t) @ ''s'']"

definition dict_json :: "(string, pyval) dict \<Rightarrow> pyval" where
  "dict_json d = json_object d"

definition opt_json :: "string option \<Rightarrow> pyval" where
  "opt_json s = (case s of None \<Rightarrow> PNone | Some t \<Rightarrow> PStr t)"

definition times_json :: "run_times \<Rightarrow> (string \<times> pyval) list" where
  "times_json t = [(''started_at'', PStr (rt_started t)), (''finished_at'', PStr (rt_finished t)), (''total_duration'', PFloat (rt_total t))]"

definition counts_json :: "bool \<Rightarrow> nat \<Rightarrow> nat \<Rightarrow> (string \<times> pyval) list" where
  "counts_json ok passed n_total = [(''all_passed'', PBool ok), (''passed_count'', PInt (int passed)), (''total_count'', PInt (int n_total))]"

section \<open>recovery_validation.py\<close>

definition recovery_row :: "failure_scenario \<Rightarrow> string" where
  "recovery_row s =
    ''| '' @ fs_name s @ '' | '' @ check_mark (fs_passed s) @ '' | '' @
    (if fs_duration_ms s > 0 then fmt_whole (fs_duration_ms s) @ ''ms'' else ''-'') @ '' | '' @
    (if fs_recovered s then check_mark True else if fs_passed s then check_mark False else ''N/A'') @ '' | '' @
    (if fs_recovery_time_ms s > 0 then fmt_whole (fs_recovery_time_ms s) @ ''ms'' else ''-'') @ '' | '' @
    escape_bars (if fs_error_message s \<noteq> [] then py_take 100 (fs_error_message s) else py_take 100 (fs_description s)) @ '' |''"

definition matrix_row :: "failure_scenario \<Rightarrow> string" where
  "matrix_row s = ''| '' @ fs_name s @ '' | '' @ check_mark (fs_passed s) @ '' | '' @ (if fs_recovered s then check_mark True else ''N/A'') @
     '' | '' @ (if fs_recovered s then check_mark True else ''N/A'') @ '' | '' @ check_mark (fs_passed s) @ '' |''"

definition scenario_lines :: "((string, pyval) dict \<Rightarrow> string) \<Rightarrow> failure_scenario \<Rightarrow> string list" where
  "scenario_lines dumps s =
    [''### '' @ fs_name s, [], ''- **Description**: '' @ fs_description s, ''- **Passed**: '' @ py_bool (fs_passed s)] @
    (if str_truthy (fs_error_type s) \<and> fs_error_type s \<noteq> Some ''skipped''
     then [''- **Error Type**: '' @ opt_text (fs_error_type s), ''- **Error Message**: '' @ fs_error_message s] else []) @
    (if fs_details s \<noteq> [] then [''- **Details**: `'' @ dumps (filter (\<lambda>(k, v). k \<noteq> ''issues'') (fs_details s)) @ ''`''] else []) @ [[]]"

definition recovery_report :: "((string, pyval) dict \<Rightarrow> string) \<Rightarrow> string \<Rightarrow> failure_scenario list \<Rightarrow> string list" where
  "recovery_report dumps now scenarios =
    (let passed = length (filter fs_passed scenarios); failed = length scenarios - passed; n = nat_digits (length scenarios) in
     [''# Recovery Validation Report'', [], ''> Generated: '' @ now,
      ''> Result: **'' @ nat_digits passed @ ''/'' @ n @ '' scenarios passed**'', [], ''## Summary'', [],
      ''| Status | Count |'', ''|--------|:-----:|'', ''| Passed | '' @ nat_digits passed @ '' |'',
      ''| Failed | '' @ nat_digits failed @ '' |'', ''| Total  | '' @ n @ '' |'', [], ''## Scenario Results'', [],
      ''| Scenario | Status | Duration | Recovered | Recovery Time | Detail |'',
      ''|----------|:------:|:--------:|:---------:|:-------------:|--------|''] @
     map recovery_row scenarios @
     [[], ''## Failure Handling Matrix'', [],
      ''| Scenario | Graceful Degradation | Retry Verified | Reconnect Verified | Crash Protection |'',
      ''|----------|:--------------------:|:--------------:|:------------------:|:----------------:|''] @
     map matrix_row scenarios @
     [[], ''## Detailed Failure Information'', []] @ concat (map (scenario_lines dumps) scenarios) @
     [''---'', ''*Report generated by recovery_validation.py*''])"

definition scenario_json :: "failure_scenario \<Rightarrow> pyval" where
  "scenario_json s = json_object
    [(''name'', PStr (fs_name s)), (''description'', PStr (fs_description s)), (''passed'', PBool (fs_passed s)),
     (''duration_ms'', PFloat (fs_duration_ms s)), (''error_type'', opt_json (fs_error_type s)), (''error_message'', PStr (fs_error_message s)),
     (''recovered'', PBool (fs_recovered s)), (''recovery_time_ms'', PFloat (fs_recovery_time_ms s)), (''details'', dict_json (fs_details s))]"

definition recovery_json :: "string \<Rightarrow> failure_scenario list \<Rightarrow> pyval" where
  "recovery_json now scenarios = json_object
    [(''generated_at'', PStr now), (''total_scenarios'', PInt (int (length scenarios))),
     (''passed'', PInt (int (length (filter fs_passed scenarios)))),
     (''failed'', PInt (int (length (filter (\<lambda>s. \<not> fs_passed s) scenarios)))),
     (''scenarios'', PList (map scenario_json scenarios))]"

text \<open>The registry. The scenarios of the pool make a pool of their own; those of the assessment count in the metrics. Whether
  VMware is configured is read from the same settings each time.\<close>

type_synonym scenario_fn = "(string, int) dict \<Rightarrow> failure_scenario \<times> (string, int) dict"

definition pool_scenario :: "('s recovery_env \<Rightarrow> failure_scenario \<times> 's pool_state) \<Rightarrow> bool \<Rightarrow> 's recovery_env \<Rightarrow> scenario_fn" where
  "pool_scenario f ready R m = (fst (f (R\<lparr>rv_vmware_ready := ready\<rparr>)), m)"

definition scenario_registry :: "bool \<Rightarrow> (string \<Rightarrow> 's recovery_env) \<Rightarrow> (string \<times> scenario_fn) list" where
  "scenario_registry ready R =
    [(''disconnect'', pool_scenario scenario_vcenter_disconnect ready (R ''disconnect'')),
     (''session'', pool_scenario scenario_expired_session ready (R ''session'')),
     (''pool'', pool_scenario scenario_pool_exhaustion ready (R ''pool'')),
     (''metadata'', scenario_malformed_vm_metadata),
     (''unsupported_os'', scenario_unsupported_guest_os),
     (''partial'', scenario_partial_inventory_failure)]"

definition selected_names :: "string option \<Rightarrow> string list option" where
  "selected_names arg = (if str_truthy arg then Some (map py_strip (py_split (CHR '','') (the arg))) else None)"

definition to_run :: "string option \<Rightarrow> (string \<times> 'f) list \<Rightarrow> (string \<times> 'f) list" where
  "to_run arg registry = (case selected_names arg of None \<Rightarrow> registry | Some sel \<Rightarrow> filter (\<lambda>(k, v). k \<in> set sel) registry)"

fun scenario_loop :: "(string \<Rightarrow> rat \<times> rat) \<Rightarrow> (string \<times> scenario_fn) list \<Rightarrow> ((string, int) dict, failure_scenario list) act" where
  "scenario_loop clock [] = retE []"
| "scenario_loop clock ((name, fn) # rest) =
    (\<lambda>m. case fn m of (sc, m') \<Rightarrow>
      bindE (scenario_loop clock rest) (\<lambda>scs.
        retE (sc\<lparr>fs_duration_ms := fmul (fsub (snd (clock name)) (fst (clock name))) 1000\<rparr> # scs)) m')"

definition recovery_main :: "((string, pyval) dict \<Rightarrow> string) \<Rightarrow> string \<Rightarrow> bool \<Rightarrow> (string \<Rightarrow> 's recovery_env) \<Rightarrow> (string \<Rightarrow> rat \<times> rat) \<Rightarrow>
    string option \<Rightarrow> bool \<Rightarrow> ((string, int) dict, script_run) act" where
  "recovery_main dumps now ready R clock arg json =
    bindE (scenario_loop clock (to_run arg (scenario_registry ready R))) (\<lambda>scenarios.
    (let passed = length (filter fs_passed scenarios) in
     retE \<lparr>sx_report = Some (py_join nl (recovery_report dumps now scenarios)),
           sx_json = (if json then Some (recovery_json now scenarios) else None),
           sx_exit = exit_code (\<not> passed < length scenarios)\<rparr>))"

section \<open>negative_case_vm_engine.py\<close>

definition suite_row :: "string \<times> suite_case list \<Rightarrow> string" where
  "suite_row s = ''| '' @ fst s @ '' | '' @ nat_digits (length (filter tc_passed (snd s))) @ '' | '' @ nat_digits (length (snd s)) @ '' |''"

definition suite_case_line :: "suite_case \<Rightarrow> string" where
  "suite_case_line c = ''- '' @ check_mark (tc_passed c) @ '' '' @ tc_name c @
     (if str_truthy (tc_error c) then '' '' @ em_dash @ '' '' @ opt_text (tc_error c) else [])"

definition suites_report :: "run_times \<Rightarrow> suite_result \<Rightarrow> string list" where
  "suites_report t r =
    [''# Negative Case & Metrics Validation Report'', []] @ times_lines t @
    [result_line (sr_all_passed r) (suite_passed_count r) (suite_total_count r), [], ''## Per-Suite Summary'', [],
     ''| Suite | Passed | Total |'', ''|-------|:------:|:-----:|''] @
    map suite_row (sr_suites r) @ [[], ''## Detailed Results'', []] @
    concat (map (\<lambda>(name, cases). [''### Suite: '' @ name, []] @ map suite_case_line cases @ [[]]) (sr_suites r)) @
    [''---'', ''*Report generated by negative_case_vm_engine.py*'']"

definition suites_json :: "run_times \<Rightarrow> suite_result \<Rightarrow> pyval" where
  "suites_json t r = json_object (times_json t @ counts_json (sr_all_passed r) (suite_passed_count r) (suite_total_count r) @
    [(''suites'', json_object (map (\<lambda>(name, cases). (name, PList (map (\<lambda>c. json_object
       [(''name'', PStr (tc_name c)), (''passed'', PBool (tc_passed c)), (''detail'', dict_json (tc_detail c)), (''error'', opt_json (tc_error c))])
       cases))) (sr_suites r)))])"

definition suites_main :: "(pyval \<Rightarrow> string) \<Rightarrow> run_times \<Rightarrow> bool \<Rightarrow> (('c, 'm) engine_world, script_run) act" where
  "suites_main repr t json =
    bindE (run_suites repr) (\<lambda>r. retE \<lparr>sx_report = Some (py_join nl (suites_report t r)),
      sx_json = (if json then Some (suites_json t r) else None), sx_exit = exit_code (sr_all_passed r)\<rparr>)"

section \<open>validate_vm_engine.py\<close>

text \<open>\<^verbatim>\<open>step.error or str(step.detail)[:100] if step.detail else ""\<close> is a conditional expression whose first branch is the
  disjunction.\<close>

definition step_cell :: "(pyval \<Rightarrow> string) \<Rightarrow> validation_step \<Rightarrow> string" where
  "step_cell show s = (if vs_detail s \<noteq> []
     then (if str_truthy (vs_error s) then opt_text (vs_error s) else py_take 100 (show (dict_json (vs_detail s)))) else [])"

definition step_row :: "(pyval \<Rightarrow> string) \<Rightarrow> validation_step \<Rightarrow> string" where
  "step_row show s = ''| '' @ vs_name s @ '' | '' @ check_mark (vs_passed s) @ '' | '' @ fmt_fixed 1 (vs_duration_seconds s) @ ''s | '' @
     escape_bars (step_cell show s) @ '' |''"

definition step_lines :: "(pyval \<Rightarrow> string) \<Rightarrow> validation_step \<Rightarrow> string list" where
  "step_lines show s =
    [''### '' @ vs_name s, [], ''- **Passed**: '' @ py_bool (vs_passed s), ''- **Duration**: '' @ fmt_fixed 2 (vs_duration_seconds s) @ ''s''] @
    (if str_truthy (vs_error s) then [''- **Error**: '' @ opt_text (vs_error s)] else []) @
    map (\<lambda>(k, v). ''- **'' @ k @ ''**: '' @ py_str show v) (filter (\<lambda>(k, v). \<not> is_dict v) (vs_detail s)) @ [[]]"

text \<open>\<^verbatim>\<open>{x:.1f}\<close> of a value\<close>

fun fmt_num :: "nat \<Rightarrow> pyval \<Rightarrow> exn + string" where
  "fmt_num n (PFloat x) = Inr (fmt_fixed n x)"
| "fmt_num n (PInt i) = Inr (fmt_fixed n (of_int i))"
| "fmt_num n (PBool b) = Inr (fmt_fixed n (if b then 1 else 0))"
| "fmt_num n (PStr s) = Inl (PyException ''ValueError'' ''Unknown format code'')"
| "fmt_num n v = Inl (PyException ''TypeError'' ''unsupported format string'')"

definition observation_line :: "(pyval \<Rightarrow> string) \<Rightarrow> (string, pyval) dict \<Rightarrow> exn + string" where
  "observation_line show fo =
    checkS (fmt_num 1 (dict_get_default fo ''duration_s'' (PInt 0))) (\<lambda>d.
      Inr (''  - '' @ py_str show (dict_get_default fo ''operation'' PNone) @ '': '' @ py_str show (dict_get_default fo ''error'' (PStr ''unknown'')) @
           '' ('' @ d @ ''s)''))"

definition timing_row :: "operation_timing \<Rightarrow> string" where
  "timing_row op = ''| '' @ ot_operation op @ '' | '' @ check_mark (ot_passed op) @ '' | '' @ fmt_fixed 2 (ot_api_latency_s op) @ ''s | '' @
     fmt_fixed 2 (ot_state_convergence_s op) @ ''s | '' @ fmt_fixed 2 (ot_total_duration_s op) @ ''s | '' @ ot_initial_state op @ '' '' @ arrow @
     '' '' @ ot_final_state op @ '' |''"

text \<open>The time of day of a traced state is given by the position of its operation and its own.\<close>

definition trace_lines :: "(nat \<Rightarrow> string) \<Rightarrow> operation_timing \<Rightarrow> string list" where
  "trace_lines stamp op =
    [''**'' @ ot_operation op @ ''** (state trace)'', [], ''| Time | State | Elapsed (s) |'', ''|------|:-----:|:-----------:|''] @
    map (\<lambda>(j, e). ''| '' @ stamp j @ '' | '' @ st_state e @ '' | '' @ fmt_fixed 1 (st_elapsed_since_start e) @ '' |'')
      (enumerate 0 (ot_state_trace op)) @
    (if ot_state_trace op = [] then [''| '' @ em_dash @ '' | (no trace recorded) | '' @ em_dash @ '' |''] else []) @ [[]]"

definition lifecycle_lines :: "(pyval \<Rightarrow> string) \<Rightarrow> (nat \<Rightarrow> nat \<Rightarrow> string) \<Rightarrow> rat \<Rightarrow> lifecycle_timing \<Rightarrow> exn + string list" where
  "lifecycle_lines show stamp n_total lt =
    checkS (mapS (observation_line show) (lt_failure_observations lt)) (\<lambda>observations.
    Inr ([[], ''## Lifecycle Timing Profile'', [],
      ''- **VM**: '' @ lt_vm_name lt @ '' | **Flavor**: '' @ py_str show (lt_flavor_id lt) @ '' | **Image**: '' @ py_str show (lt_image_id lt),
      ''- **Total duration**: '' @ fmt_fixed 1 n_total @ ''s'', ''- **Poll interval**: '' @ show (PFloat (lt_poll_interval_s lt)) @ ''s'',
      ''- **All operations passed**: '' @ py_bool (lt_all_passed lt)] @
     (if observations \<noteq> [] then [''- **Failure observations**: '' @ nat_digits (length observations)] @ observations else []) @
     [[], ''### Per-Operation Timing'', [],
      ''| Operation | Status | API Latency | State Convergence | Total | Initial '' @ arrow @ '' Final |'',
      ''|-----------|:------:|:-----------:|:-----------------:|:-----:|:----------------:|''] @
     map timing_row (lt_operations lt) @ [[], ''### State Transition Trace'', []] @
     concat (map (\<lambda>(i, op). trace_lines (stamp i) op) (enumerate 0 (lt_operations lt)))))"

definition engine_report :: "(pyval \<Rightarrow> string) \<Rightarrow> (nat \<Rightarrow> nat \<Rightarrow> string) \<Rightarrow> run_times \<Rightarrow> validation_result \<Rightarrow> exn + string list" where
  "engine_report show stamp t r =
    checkS (case vx_lifecycle_timing r of None \<Rightarrow> Inr [] | Some lt \<Rightarrow> lifecycle_lines show stamp (rt_total t) lt) (\<lambda>lifecycle.
    Inr ([''# VM Engine Validation Report'', []] @ times_lines t @
      [result_line (vx_all_passed r) (passed_count r) (total_count r),
       ''> Server cleaned up: '' @ (if vx_server_cleaned_up r then check_mark True else ''N/A''), [], ''## Summary'', [],
       ''| Step | Status | Duration | Detail |'', ''|------|:------:|:--------:|--------|''] @
      map (step_row show) (vx_steps r) @ [[], ''## Step Details'', []] @ concat (map (step_lines show) (vx_steps r)) @
      lifecycle @ [''---'', ''*Report generated by validate_vm_engine.py*'']))"

definition step_json :: "validation_step \<Rightarrow> pyval" where
  "step_json s = json_object [(''name'', PStr (vs_name s)), (''passed'', PBool (vs_passed s)), (''duration_seconds'', PFloat (vs_duration_seconds s)),
     (''detail'', dict_json (vs_detail s)), (''error'', opt_json (vs_error s))]"

definition engine_json :: "run_times \<Rightarrow> validation_result \<Rightarrow> pyval" where
  "engine_json t r = json_object (times_json t @ counts_json (vx_all_passed r) (passed_count r) (total_count r) @
     [(''engine_ready'', PBool (vx_engine_ready r)), (''server_cleaned_up'', PBool (vx_server_cleaned_up r)),
      (''steps'', PList (map step_json (vx_steps r)))])"

definition trace_json :: "(nat \<Rightarrow> string) \<Rightarrow> state_trace_entry list \<Rightarrow> pyval" where
  "trace_json stamp es = PList (map (\<lambda>(j, e). json_object [(''time'', PStr (stamp j)), (''state'', PStr (st_state e)),
     (''elapsed_s'', PFloat (py_round (st_elapsed_since_start e) 3))]) (enumerate 0 es))"

text \<open>The file of --lifecycle-timing, written when there is a timing\<close>

definition timing_json :: "run_times \<Rightarrow> (nat \<Rightarrow> nat \<Rightarrow> string) \<Rightarrow> (nat \<Rightarrow> string) \<Rightarrow> lifecycle_timing \<Rightarrow> pyval" where
  "timing_json t stamp full_stamp lt = json_object
    [(''vm_name'', PStr (lt_vm_name lt)), (''server_id'', PStr (lt_server_id lt)), (''flavor_id'', lt_flavor_id lt), (''image_id'', lt_image_id lt),
     (''network_id'', lt_network_id lt), (''poll_interval_s'', PFloat (lt_poll_interval_s lt)), (''started_at'', PStr (rt_started t)),
     (''finished_at'', PStr (rt_finished t)), (''total_duration_s'', PFloat (rt_total t)), (''all_passed'', PBool (lt_all_passed lt)),
     (''failure_observations'', PList (map dict_json (lt_failure_observations lt))),
     (''operations'', PList (map (\<lambda>(i, op). json_object
        [(''operation'', PStr (ot_operation op)), (''passed'', PBool (ot_passed op)), (''total_duration_s'', PFloat (ot_total_duration_s op)),
         (''api_latency_s'', PFloat (ot_api_latency_s op)), (''state_convergence_s'', PFloat (ot_state_convergence_s op)),
         (''initial_state'', PStr (ot_initial_state op)), (''final_state'', PStr (ot_final_state op)), (''error'', opt_json (ot_error op)),
         (''state_trace'', trace_json (stamp i) (ot_state_trace op))]) (enumerate 0 (lt_operations lt)))),
     (''full_state_trace'', trace_json full_stamp (lt_full_state_trace lt))]"

record engine_files = script_run +
  ef_timing :: "pyval option"

definition run_validation :: "'c script_env \<Rightarrow> (nat \<Rightarrow> rat) \<Rightarrow> (pyval \<Rightarrow> string) \<Rightarrow> (nat \<Rightarrow> nat \<Rightarrow> string) \<Rightarrow> (nat \<Rightarrow> string) \<Rightarrow> run_times \<Rightarrow>
    script_args \<Rightarrow> bool \<Rightarrow> bool \<Rightarrow> (('c, 'm) engine_world, engine_files) act" where
  "run_validation E durations show stamp full_stamp t args want_timing json =
    bindE (validate_engine E durations args) (\<lambda>r.
    bindE (outcomeE (engine_report show stamp t r)) (\<lambda>lines.
    retE \<lparr>sx_report = Some (py_join nl lines), sx_json = (if json then Some (engine_json t r) else None), sx_exit = exit_code (vx_all_passed r),
          ef_timing = (if want_timing then map_option (timing_json t stamp full_stamp) (vx_lifecycle_timing r) else None)\<rparr>))"

section \<open>benchmark_vm_engine.py\<close>

definition bench_row :: "(pyval \<Rightarrow> string) \<Rightarrow> benchmark_case \<Rightarrow> string" where
  "bench_row show c = ''| '' @ bk_name c @ '' | '' @ check_mark (bk_passed c) @ '' | '' @ fmt_fixed 1 (bk_duration_seconds c) @ ''s | '' @
     escape_bars (case bk_errors c of e # _ \<Rightarrow> py_take 100 e
       | [] \<Rightarrow> if bk_detail c \<noteq> [] then py_take 100 (show (dict_json (bk_detail c))) else []) @ '' |''"

definition is_list :: "pyval \<Rightarrow> bool" where
  "is_list v = (case v of PList _ \<Rightarrow> True | _ \<Rightarrow> False)"

definition bench_lines :: "(pyval \<Rightarrow> string) \<Rightarrow> benchmark_case \<Rightarrow> string list" where
  "bench_lines show c =
    [''### '' @ bk_name c, [], ''- **Passed**: '' @ py_bool (bk_passed c), ''- **Duration**: '' @ fmt_fixed 2 (bk_duration_seconds c) @ ''s''] @
    (if bk_create_duration c \<noteq> 0 then [''- **Create**: '' @ fmt_fixed 2 (bk_create_duration c) @ ''s''] else []) @
    (if bk_delete_duration c \<noteq> 0 then [''- **Delete**: '' @ fmt_fixed 2 (bk_delete_duration c) @ ''s''] else []) @
    map (\<lambda>(op, dur). ''- **'' @ op @ ''**: '' @ fmt_fixed 2 dur @ ''s'') (bk_operation_durations c) @
    map (\<lambda>err. ''- **Error**: '' @ err) (bk_errors c) @
    map (\<lambda>(k, v). ''- **'' @ k @ ''**: '' @ py_str show v) (filter (\<lambda>(k, v). \<not> (is_dict v \<or> is_list v)) (bk_detail c)) @
    [''- **Cleanup OK**: '' @ py_bool (bk_cleanup_ok c), []]"

definition bench_passed_count :: "benchmark_result \<Rightarrow> nat" where
  "bench_passed_count r = length (filter bk_passed (br_cases r))"

definition bench_report :: "(pyval \<Rightarrow> string) \<Rightarrow> run_times \<Rightarrow> benchmark_result \<Rightarrow> string list" where
  "bench_report show t r =
    [''# VM Engine Benchmark Report'', []] @ times_lines t @
    [result_line (br_all_passed r) (bench_passed_count r) (length (br_cases r)), [], ''## Summary'', [],
     ''| Case | Status | Duration | Detail |'', ''|------|:------:|:--------:|--------|''] @
    map (bench_row show) (br_cases r) @ [[], ''## Case Details'', []] @ concat (map (bench_lines show) (br_cases r)) @
    [''---'', ''*Report generated by benchmark_vm_engine.py*'']"

definition bench_json :: "run_times \<Rightarrow> benchmark_result \<Rightarrow> pyval" where
  "bench_json t r = json_object (times_json t @ counts_json (br_all_passed r) (bench_passed_count r) (length (br_cases r)) @
    [(''cases'', PList (map (\<lambda>c. json_object
       [(''name'', PStr (bk_name c)), (''passed'', PBool (bk_passed c)), (''duration_seconds'', PFloat (bk_duration_seconds c)),
        (''create_duration'', PFloat (bk_create_duration c)), (''delete_duration'', PFloat (bk_delete_duration c)),
        (''operation_durations'', json_object (map (\<lambda>(op, d). (op, PFloat d)) (bk_operation_durations c))),
        (''errors'', PList (map PStr (bk_errors c))), (''cleanup_ok'', PBool (bk_cleanup_ok c)), (''detail'', dict_json (bk_detail c))])
       (br_cases r)))])"

definition bench_main :: "'c bench_env \<Rightarrow> (pyval \<Rightarrow> string) \<Rightarrow> run_times \<Rightarrow> script_args \<Rightarrow> bool \<Rightarrow> (('c, 'm) engine_world, script_run) act" where
  "bench_main B show t args json =
    bindE (run_benchmark B args) (\<lambda>r. retE \<lparr>sx_report = Some (py_join nl (bench_report show t r)),
      sx_json = (if json then Some (bench_json t r) else None), sx_exit = exit_code (br_all_passed r)\<rparr>)"

section \<open>validate_vcenter.py\<close>

definition check_row :: "check_result \<Rightarrow> string" where
  "check_row r = ''| '' @ ck_operation r @ '' | '' @ check_mark (ck_success r) @ '' | '' @
     (if ck_duration_ms r > 0 then fmt_fixed 1 (ck_duration_ms r) else ''-'') @ '' | '' @ escape_bars (ck_detail r) @ '' |''"

definition item_of :: "pyval \<Rightarrow> string \<Rightarrow> exn + pyval" where
  "item_of v k = (case v of
     PDict d \<Rightarrow> (case map_of d (PStr k) of Some x \<Rightarrow> Inr x | None \<Rightarrow> Inl (PyException ''KeyError'' k))
   | _ \<Rightarrow> Inl (PyException ''TypeError'' ''not subscriptable''))"

definition value_or_dash :: "(pyval \<Rightarrow> string) \<Rightarrow> pyval \<Rightarrow> string" where
  "value_or_dash show v = (if truthy v then py_str show v else ''-'')"

fun str_slice :: "nat \<Rightarrow> pyval \<Rightarrow> exn + string" where
  "str_slice n (PStr s) = Inr (py_take n s)"
| "str_slice n v = Inl (PyException ''TypeError'' ''not subscriptable'')"

text \<open>\<^verbatim>\<open>','.join(v[:3]) or '-'\<close>\<close>

definition joined_types :: "pyval \<Rightarrow> exn + string" where
  "joined_types v = (case v of
     PList xs \<Rightarrow> checkS (mapS (\<lambda>x. case x of PStr s \<Rightarrow> Inr s | _ \<Rightarrow> Inl (PyException ''TypeError'' ''expected str instance'')) (take 3 xs))
       (\<lambda>ss. Inr (let j = py_join '','' ss in if j = [] then ''-'' else j))
   | PStr s \<Rightarrow> Inr (case py_take 3 s of [] \<Rightarrow> ''-''
       | c # cs \<Rightarrow> c # concat (map (\<lambda>d. if continuation_unit d then [d] else [CHR '','', d]) cs))
   | _ \<Rightarrow> Inl (PyException ''TypeError'' ''not subscriptable''))"

definition spot_row :: "(pyval \<Rightarrow> string) \<Rightarrow> pyval \<Rightarrow> exn + string" where
  "spot_row show vmd =
    checkS (item_of vmd ''name'') (\<lambda>name. checkS (item_of vmd ''power_state'') (\<lambda>power.
    checkS (checkS (item_of vmd ''guest_os'') (str_slice 40)) (\<lambda>os.
    checkS (item_of vmd ''firmware'') (\<lambda>firmware. checkS (item_of vmd ''secure_boot'') (\<lambda>secure. checkS (item_of vmd ''tools_status'') (\<lambda>tools.
    checkS (item_of vmd ''cpu_count'') (\<lambda>cpus. checkS (item_of vmd ''memory_mb'') (\<lambda>mem. checkS (item_of vmd ''disk_count'') (\<lambda>disks.
    checkS (checkS (item_of vmd ''disk_controller_types'') joined_types) (\<lambda>controllers.
    checkS (item_of vmd ''nic_count'') (\<lambda>nics. checkS (checkS (item_of vmd ''nic_types'') joined_types) (\<lambda>types.
    Inr (''| '' @ py_str show name @ '' | '' @ py_str show power @ '' | '' @ os @ '' | '' @ value_or_dash show firmware @ '' | '' @
      value_or_dash show secure @ '' | '' @ value_or_dash show tools @ '' | '' @ py_str show cpus @ '' | '' @ py_str show mem @ '' | '' @
      py_str show disks @ '' | '' @ controllers @ '' | '' @ py_str show nics @ '' | '' @ types @ '' |'')))))))))))))"

definition spot_section :: "(pyval \<Rightarrow> string) \<Rightarrow> check_result \<Rightarrow> exn + string list" where
  "spot_section show r =
    (case dict_get (ck_properties r) ''vms'' of
       Some v \<Rightarrow> if ck_operation r = ''spot_check_vms'' \<and> truthy v
         then checkS (checkS (json_iter v) (mapS (spot_row show))) (\<lambda>rows.
           Inr ([[], ''## Spot-Checked VM Details'', [],
             ''| Name | Power | OS | Firmware | SecureBoot | Tools | vCPUs | RAM(MB) | Disks | Controllers | NICs | NIC Types |'',
             ''|------|:-----:|:--:|:--------:|:----------:|:-----:|:-----:|:-------:|:-----:|:-----------:|:----:|:---------:|''] @ rows))
         else Inr []
     | None \<Rightarrow> Inr [])"

definition latency_prefix :: string where
  "latency_prefix = ''latency_''"

definition is_latency :: "check_result \<Rightarrow> bool" where
  "is_latency r \<longleftrightarrow> take (length latency_prefix) (ck_operation r) = latency_prefix"

text \<open>\<^verbatim>\<open>s.replace("latency_", "")\<close>\<close>

fun remove_all :: "nat \<Rightarrow> string \<Rightarrow> string \<Rightarrow> string" where
  "remove_all 0 p s = s"
| "remove_all (Suc n) p s = (case s of [] \<Rightarrow> []
     | c # cs \<Rightarrow> if take (length p) s = p then remove_all n p (drop (length p) s) else c # remove_all n p cs)"

definition latency_row :: "(pyval \<Rightarrow> string) \<Rightarrow> check_result \<Rightarrow> string" where
  "latency_row show r =
    (let cell = (\<lambda>k. py_str show (dict_get_default (ck_properties r) k (PStr ''-''))) in
     ''| '' @ remove_all (length (ck_operation r)) latency_prefix (ck_operation r) @ '' | '' @ cell ''avg_ms'' @ '' | '' @ cell ''p50_ms'' @ '' | '' @
     cell ''p95_ms'' @ '' | '' @ cell ''p99_ms'' @ '' |'')"

definition latency_section :: "(pyval \<Rightarrow> string) \<Rightarrow> check_result list \<Rightarrow> string list" where
  "latency_section show results =
    (case filter is_latency results of [] \<Rightarrow> []
     | r # rs \<Rightarrow> [[], ''## Latency Profile (avg of '' @ py_str show (dict_get_default (ck_properties r) ''sample_count'' (PStr ''N'')) @ '' samples)'', [],
         ''| Operation | Avg (ms) | p50 (ms) | p95 (ms) | p99 (ms) |'', ''|-----------|:--------:|:--------:|:--------:|:--------:|''] @
         map (latency_row show) (r # rs))"

definition vcenter_report :: "(pyval \<Rightarrow> string) \<Rightarrow> string \<Rightarrow> string \<Rightarrow> check_result list \<Rightarrow> exn + string list" where
  "vcenter_report show now host results =
    (let n_total = length results; passed = length (filter ck_success results); failed = n_total - passed in
     checkS (mapS (spot_section show) results) (\<lambda>spots.
     Inr ([''# vCenter Validation Report'', [], ''> Generated: '' @ now, ''> Target: '' @ (if host = [] then ''(not set)'' else host),
       ''> Result: **'' @ nat_digits passed @ ''/'' @ nat_digits n_total @ '' checks passed**'', [], ''## Summary'', [], ''| Status | Count |'',
       ''|--------|:-----:|'', ''| Passed | '' @ nat_digits passed @ '' |'', ''| Failed | '' @ nat_digits failed @ '' |'',
       ''| Total  | '' @ nat_digits n_total @ '' |'', [], ''## Operation Results'', [], ''| Operation | Status | Duration (ms) | Detail |'',
       ''|-----------|:------:|:-------------:|--------|''] @
       map check_row results @ concat spots @ latency_section show results @
       [nl @ ''---'' @ nl @ ''*Report generated by validate_vcenter.py*''])))"

definition check_json :: "check_result \<Rightarrow> pyval" where
  "check_json r = json_object [(''operation'', PStr (ck_operation r)), (''success'', PBool (ck_success r)),
     (''duration_ms'', PFloat (py_round (ck_duration_ms r) 2)), (''detail'', PStr (ck_detail r)), (''properties'', dict_json (ck_properties r))]"

definition vcenter_json :: "string \<Rightarrow> check_result list \<Rightarrow> pyval" where
  "vcenter_json now results = json_object [(''generated_at'', PStr now), (''total_checks'', PInt (int (length results))),
     (''passed'', PInt (int (length (filter ck_success results)))),
     (''failed'', PInt (int (length (filter (\<lambda>r. \<not> ck_success r) results)))), (''results'', PList (map check_json results))]"

definition vcenter_main :: "'s validation_env \<Rightarrow> (pyval \<Rightarrow> string) \<Rightarrow> string \<Rightarrow> bool \<Rightarrow> bool \<Rightarrow> bool \<Rightarrow> bool \<Rightarrow> ('s vc_state, script_run) act" where
  "vcenter_main N show now ready quick report json =
    (if \<not> ready then retE \<lparr>sx_report = None, sx_json = None, sx_exit = 1\<rparr>
     else bindE (vcenter_validation N quick) (\<lambda>results.
       let passed = length (filter ck_success results); failed = length results - passed in
       bindE (if report \<or> \<not> json then bindE (outcomeE (vcenter_report show now (ve_host N) results)) (\<lambda>ls. retE (Some (py_join nl ls))) else retE None)
         (\<lambda>text. retE \<lparr>sx_report = text, sx_json = (if json then Some (vcenter_json now results) else None), sx_exit = exit_code (\<not> failed > 0)\<rparr>)))"

section \<open>The contract of a main\<close>

text \<open>A script runs its checks, writes a report and, with --json, a JSON file, and its exit code is 0 exactly if the run counts as
  passed; it fails only if the run does.\<close>

locale reporting_script =
  fixes run :: "('w, 'r) act" and passed :: "'r \<Rightarrow> bool" and main :: "bool \<Rightarrow> ('w, 'f script_run_scheme) act"
  assumes main_result: "run w = (Inr r, w') \<Longrightarrow> \<exists>out. main json w = (Inr out, w') \<and> sx_exit out = exit_code (passed r) \<and>
      sx_report out \<noteq> None \<and> (sx_json out \<noteq> None \<longleftrightarrow> json)"
    and main_raises: "run w = (Inl e, w') \<Longrightarrow> main json w = (Inl e, w')"
begin

lemma exit_zero_iff: "main json w = (Inr out, w') \<Longrightarrow> sx_exit out = 0 \<longleftrightarrow> (\<exists>r. run w = (Inr r, w') \<and> passed r)"
proof (cases "run w")
  case (Pair r v)
  assume m: "main json w = (Inr out, w')"
  then show ?thesis using Pair main_raises [of w _ v json] main_result [of w _ v json]
    by (cases r) (auto simp: exit_code_def split: if_splits)
qed

lemma json_only_adds_file:
  "snd (main True w) = snd (main False w) \<and> map_sum id sx_exit (fst (main True w)) = map_sum id sx_exit (fst (main False w))"
proof (cases "run w")
  case (Pair r v)
  then show ?thesis
  proof (cases r)
    case (Inr x)
    then obtain a b where "main True w = (Inr a, v)" "main False w = (Inr b, v)" "sx_exit a = sx_exit b"
      using main_result [of w x v True] main_result [of w x v False] Pair by auto
    then show ?thesis by simp
  qed (use Pair main_raises [of w _ v] in simp)
qed

end

interpretation suites: reporting_script "run_suites repr" sr_all_passed "suites_main repr t"
  by unfold_locales (auto simp: suites_main_def bindE_def retE_def)

interpretation engine_bench: reporting_script "run_benchmark B args" br_all_passed "bench_main B show t args"
  by unfold_locales (auto simp: bench_main_def bindE_def retE_def)

lemma all_filtered: "\<not> length (filter P xs) < length xs \<longleftrightarrow> list_all P xs"
  by (induction xs) (auto simp: le_imp_less_Suc)

interpretation recovery: reporting_script "scenario_loop clock (to_run arg (scenario_registry ready R))" "list_all fs_passed"
    "recovery_main dumps now ready R clock arg"
  by unfold_locales (auto simp: recovery_main_def bindE_def retE_def Let_def all_filtered)

section \<open>The report of the engine validation never raises\<close>

text \<open>Every failure observation holds its duration as a float.\<close>

definition timed_observations :: "(string, pyval) dict list \<Rightarrow> bool" where
  "timed_observations = list_all (\<lambda>fo. case dict_get fo ''duration_s'' of Some (PFloat x) \<Rightarrow> True | _ \<Rightarrow> False)"

definition observed_ok :: "live \<times> 'w \<Rightarrow> bool" where
  "observed_ok lw \<longleftrightarrow> timed_observations (lv_failure_observations (fst lw))"

lemma keeps_beside: "keeps observed_ok (besideE m)"
  by (auto simp: keeps_def besideE_def observed_ok_def split: prod.splits)

lemma keeps_setE: "(\<And>l. timed_observations (lv_failure_observations l) \<Longrightarrow> timed_observations (lv_failure_observations (f l))) \<Longrightarrow>
    keeps observed_ok (setE f)"
  by (auto simp: keeps_def setE_def updE_def observed_ok_def split: prod.splits)

lemma timed_append: "timed_observations (xs @ ys) \<longleftrightarrow> timed_observations xs \<and> timed_observations ys"
  by (simp add: timed_observations_def)

lemmas keeps_live = keeps_beside keeps_setE keeps_bind keeps_then keeps_ret keeps_get keeps_if keeps_for keeps_try

lemma keeps_steps: "keeps observed_ok (lifecycle_step E poll op)" "keeps observed_ok (delete_step E poll)"
  unfolding lifecycle_step_def delete_step_def
  by (intro keeps_live; simp add: timed_append; simp add: timed_observations_def)+

lemma keeps_live_rest: "keeps observed_ok (live_rest E poll)"
  unfolding live_rest_def by (intro keeps_live keeps_steps) simp

lemma keeps_live_body: "keeps observed_ok (live_body E args nm)"
  unfolding live_body_def Let_def split_beta
  by (intro keeps_live keeps_live_rest) simp_all

lemma keeps_finally: "keeps observed_ok (live_finally env)"
  unfolding live_finally_def by (intro keeps_live) simp_all

lemma live_observations:
  assumes "validate_live E args w = (Inr r, w')" "vx_lifecycle_timing r = Some lt"
  shows "timed_observations (lt_failure_observations lt)"
proof -
  define nm where "nm = str_or (sa_vm_name args) (''vmachine-test-'' @ str_int (se_time E (os_cloud w)))"
  let ?body = "tryE (live_body E args nm)
     (\<lambda>exc. thenE (setE (\<lambda>l. l\<lparr>lv_steps := lv_steps l @ [\<lparr>vs_name = ''unexpected_error'', vs_passed = False, vs_duration_seconds = 0,
        vs_detail = [], vs_error = Some (exn_str exc)\<rparr>]\<rparr>)) (retE False))"
  obtain b l w1 where b: "?body (live_start, w) = (b, l, w1)" by (rule prod_cases3)
  obtain u l' w2 where u: "live_finally (se_engine E) (l, w1) = (u, l', w2)" by (rule prod_cases3)
  have "keeps observed_ok ?body" by (intro keeps_live keeps_live_body) simp
  moreover have "observed_ok (live_start, w)" by (simp add: observed_ok_def live_start_def timed_observations_def)
  ultimately have "observed_ok (l, w1)" using b by (rule keepsD)
  with keeps_finally have ok: "observed_ok (l', w2)" using u by (rule keepsD)
  show ?thesis
  proof (cases "ost_ready (ee_settings (se_engine E))")
    case True
    have "validate_live E args w = (map_sum id (\<lambda>early. if early then early_result l' else final_result args nm l') b, w2)"
      unfolding validate_live_def Let_def nm_def [symmetric] by (simp add: True b u)
    then show ?thesis using assms ok
      by (cases b) (auto simp: early_result_def final_result_def Let_def observed_ok_def split: if_splits)
  next
    case False
    then show ?thesis using assms by (auto simp: validate_live_def Let_def)
  qed
qed

lemma observation_lines: "timed_observations fos \<Longrightarrow> \<exists>ls. mapS (observation_line show) fos = Inr ls"
  by (induction fos)
    (auto simp: timed_observations_def observation_line_def dict_get_default_def checkS_def split: option.splits pyval.splits)

lemma dry_run_untimed: "vx_lifecycle_timing (validate_dry_run st sdk durations args) = None"
  by (simp add: validate_dry_run_def Let_def)

lemma engine_report_returns:
  assumes "validate_engine E durations args w = (Inr r, w')"
  shows "\<exists>ls. engine_report show stamp t r = Inr ls"
proof (cases "vx_lifecycle_timing r")
  case (Some lt)
  then have "\<not> sa_dry_run args" using assms by (auto simp: validate_engine_def dry_run_untimed)
  then have "timed_observations (lt_failure_observations lt)"
    using assms Some by (intro live_observations) (auto simp: validate_engine_def)
  then obtain ls where "mapS (observation_line show) (lt_failure_observations lt) = Inr ls" using observation_lines by blast
  then show ?thesis by (simp add: engine_report_def lifecycle_lines_def Some checkS_def)
qed (simp add: engine_report_def checkS_def)

interpretation engine_validation: reporting_script "validate_engine E durations args" vx_all_passed
    "run_validation E durations show stamp full_stamp t args want_timing"
proof (unfold_locales, goal_cases)
  case (1 w r w' json)
  obtain ls where "engine_report show stamp t r = Inr ls" using engine_report_returns [OF 1] by blast
  then show ?case by (simp add: run_validation_def bindE_def 1 outcomeE_def retE_def)
next
  case (2 w e w' json)
  then show ?case by (simp add: run_validation_def bindE_def)
qed

section \<open>Properties\<close>

definition pool_names :: "string list" where
  "pool_names = [''disconnect'', ''session'', ''pool'']"

lemma scenario_loop_result:
  "(\<And>n fn m. (n, fn) \<in> set fns \<Longrightarrow> fs_passed (fst (fn m)) = P n) \<Longrightarrow>
   \<exists>scs m'. scenario_loop clock fns m = (Inr scs, m') \<and> map fs_passed scs = map (P \<circ> fst) fns"
proof (induction fns arbitrary: m)
  case (Cons f fns)
  obtain n fn where f: "f = (n, fn)" by (cases f)
  obtain sc m1 where s: "fn m = (sc, m1)" by fastforce
  obtain scs m2 where "scenario_loop clock fns m1 = (Inr scs, m2)" "map fs_passed scs = map (P \<circ> fst) fns"
    using Cons.IH [of m1] Cons.prems by auto
  moreover have "fs_passed sc = P n" using Cons.prems [of n fn m] by (simp add: f s)
  ultimately show ?case by (simp add: f s bindE_def retE_def)
qed (simp add: retE_def)

lemma registry_passes:
  assumes "(n, fn) \<in> set (scenario_registry ready R)"
  shows "fs_passed (fst (fn m)) \<longleftrightarrow> \<not> (ready \<and> n \<in> set pool_names)"
  using assms disconnect_passes_iff [of "(R ''disconnect'')\<lparr>rv_vmware_ready := ready\<rparr>"]
    expired_passes_iff [of "(R ''session'')\<lparr>rv_vmware_ready := ready\<rparr>"] exhaustion_passes_iff [of "(R ''pool'')\<lparr>rv_vmware_ready := ready\<rparr>"]
    recovery_scenarios_outcome [of "R ''pool''" m]
  by (auto simp: scenario_registry_def pool_scenario_def pool_names_def)

text \<open>The exit code of the recovery validation: it is 0 exactly if no scenario of the session pool was selected or VMware is
  not configured, whatever the pool and the assessment do; in particular a selection of names that do not exist runs nothing and
  succeeds.\<close>

theorem recovery_exit_code:
  "\<exists>out m'. recovery_main dumps now ready R clock arg json m = (Inr out, m') \<and>
     sx_exit out = (if ready \<and> (case selected_names arg of None \<Rightarrow> True | Some sel \<Rightarrow> set sel \<inter> set pool_names \<noteq> {}) then 1 else 0) \<and>
     (sx_json out \<noteq> None \<longleftrightarrow> json)"
proof -
  let ?fns = "to_run arg (scenario_registry ready R)" and ?P = "\<lambda>n. \<not> (ready \<and> n \<in> set pool_names)"
  have sub: "set ?fns \<subseteq> set (scenario_registry ready R)" by (auto simp: to_run_def split: option.splits)
  then obtain scs m' where s: "scenario_loop clock ?fns m = (Inr scs, m')" "map fs_passed scs = map (?P \<circ> fst) ?fns"
    using scenario_loop_result [of ?fns ?P clock m] registry_passes by (metis (no_types, lifting) subsetD)
  have "list_all fs_passed scs \<longleftrightarrow> list_all id (map fs_passed scs)" by (simp add: list_all_iff)
  also have "\<dots> \<longleftrightarrow> \<not> ready \<or> fst ` set ?fns \<inter> set pool_names = {}" unfolding s(2) by (auto simp: list_all_iff)
  also have "\<dots> \<longleftrightarrow> \<not> (ready \<and> (case selected_names arg of None \<Rightarrow> True | Some sel \<Rightarrow> set sel \<inter> set pool_names \<noteq> {}))"
    by (auto simp: to_run_def scenario_registry_def pool_names_def split: option.splits)
  finally have "exit_code (list_all fs_passed scs) = (if ready \<and> (case selected_names arg of None \<Rightarrow> True | Some sel \<Rightarrow> set sel \<inter> set pool_names \<noteq> {}) then 1 else 0)"
    by (simp add: exit_code_def)
  then show ?thesis using recovery.main_result [OF s(1), of dumps now json] by auto
qed

text \<open>What the exit codes of the engine and vCenter scripts can be: the case suites always exit with 0; the validation exits with 0
  exactly if its result is passed, writes its report in every case, and raises only what validate_engine raises; the
  complete vCenter validation never exits with 0.\<close>

theorem script_exit_codes:
  "(\<exists>out w'. suites_main repr t json w = (Inr out, w') \<and> sx_exit out = 0) \<and>
   (case run_validation E durations show stamp full_stamp t args timing json w of
      (Inr out, w') \<Rightarrow> sx_report out \<noteq> None \<and> (\<exists>r. validate_engine E durations args w = (Inr r, w') \<and> (sx_exit out = 0 \<longleftrightarrow> vx_all_passed r))
    | (Inl e, w') \<Rightarrow> validate_engine E durations args w = (Inl e, w')) \<and>
   (case fst (vcenter_main N show now ready False report json v) of Inr out \<Rightarrow> sx_exit out = 1 | Inl e \<Rightarrow> ready)"
proof (intro conjI, goal_cases)
  case 1
  obtain r w' where "run_suites repr w = (Inr r, w')" "sr_all_passed r" using suites_pass [of repr w] by blast
  then show ?case using suites.main_result [of repr w r w' t json] by (auto simp: exit_code_def)
next
  case 2
  obtain r w' where v: "validate_engine E durations args w = (r, w')" by fastforce
  show ?case
  proof (cases r)
    case (Inl e)
    then show ?thesis using engine_validation.main_raises [of E durations args w e w'] v by simp
  next
    case (Inr x)
    then show ?thesis using engine_validation.main_result [of E durations args w x w' "show" stamp full_stamp t timing json] v
      by (auto simp: exit_code_def)
  qed
next
  case 3
  obtain rs msg v' where rs: "vcenter_validation N False v = (Inr rs, v')" "check_failed ''pool_validation'' msg \<in> set rs"
    using vcenter_validation_never_passes [of N v] by blast
  then have "\<not> list_all ck_success rs" by (force simp: list_all_iff check_failed_def)
  then have "length (filter ck_success rs) < length rs" using all_filtered by blast
  then show ?case using rs(1)
    by (auto simp: vcenter_main_def bindE_def retE_def outcomeE_def exit_code_def Let_def split: sum.split)
qed

text \<open>The summary of the engine validation hides errors: a step that has an error and no details has an empty cell. So it is
  with a deletion that was not confirmed, the step that tells of a machine left behind.\<close>

theorem unconfirmed_deletion_not_in_summary:
  "case fst (verify_step env server_id w) of
     Inr s \<Rightarrow> vs_passed s \<or> (vs_error s \<noteq> None \<and> step_cell show s = [] \<and> step_row show s = step_row show (s\<lparr>vs_error := None\<rparr>))
   | Inl e \<Rightarrow> False"
  by (auto simp: verify_step_def Let_def step_cell_def step_row_def split: prod.split sum.split)

end
