(* ===== verification/Benchmark_Reports.thy ===== *)
theory Benchmark_Reports
  imports Mapping_Benchmark Validation_Reports
begin

text \<open>
  The files the benchmark scripts write, and scripts/concurrency_sweep.py: reports and JSON of benchmark_from_dataset.py and
  stress_benchmark_assessment.py, the tables and JSON of benchmark_vmware_assessment.py, and the sweep over
  concurrency levels. Clock and memory readings, times of day and parsed files are arguments. The evaluation
  has no await, so the tasks of a level run one after the other whatever its semaphore allows.
\<close>

section \<open>Formatting\<close>

definition pad_left :: "nat \<Rightarrow> string \<Rightarrow> string" where
  "pad_left n s = replicate (n - code_points s) (CHR '' '') @ s"

definition pad_right :: "nat \<Rightarrow> string \<Rightarrow> string" where
  "pad_right n s = s @ replicate (n - code_points s) (CHR '' '')"

text \<open>\<^verbatim>\<open>{x:+.1f}\<close> and \<^verbatim>\<open>{x:>8.2f}\<close>\<close>

definition fmt_signed :: "nat \<Rightarrow> rat \<Rightarrow> string" where
  "fmt_signed n x = (if x < 0 then [] else ''+'') @ fmt_fixed n x"

definition fmt_column :: "rat \<Rightarrow> string" where
  "fmt_column x = pad_left 8 (fmt_fixed 2 x)"

definition percentile_cells :: "rat list \<Rightarrow> exn + (rat \<times> rat \<times> rat)" where
  "percentile_cells vs = checkS (p50_ms vs) (\<lambda>a. checkS (p95_ms vs) (\<lambda>b. checkS (p99_ms vs) (\<lambda>c. Inr (a, b, c))))"

section \<open>concurrency_sweep.py\<close>

record concurrency_sample =
  cs_concurrency :: int
  cs_vm_count :: nat
  cs_durations_ms :: "rat list"
  cs_mem_before_mb :: rat
  cs_mem_after_mb :: rat
  cs_cpu_percent :: rat

record level_readings =
  lr_clock :: "(rat \<times> rat) list"
  lr_mem_before :: rat
  lr_mem_after :: rat
  lr_cpu :: rat

text \<open>The script has its own copy of _vm_summary_from_dict, the same as that of benchmark_from_dataset.py.\<close>

definition sweep_vm_summary :: "dataset_validators \<Rightarrow> pyval \<Rightarrow> exn + vm_summary" where
  "sweep_vm_summary V vm_dict = vm_summary_from_dict V vm_dict"

definition sweep_level :: "vm_summary list \<Rightarrow> int \<Rightarrow> level_readings \<Rightarrow> ((string, int) dict, concurrency_sample) act" where
  "sweep_level vms concurrency z =
    bindE (evaluation_rounds vms (lr_clock z) []) (\<lambda>ds.
    retE \<lparr>cs_concurrency = concurrency, cs_vm_count = length vms, cs_durations_ms = ds, cs_mem_before_mb = lr_mem_before z,
          cs_mem_after_mb = lr_mem_after z, cs_cpu_percent = lr_cpu z\<rparr>)"

definition load_dataset :: "pyval \<Rightarrow> exn + (pyval \<times> pyval)" where
  "load_dataset inventory =
    checkS (json_get inventory ''vms'' (PList [])) (\<lambda>vms. checkS (json_get inventory ''summary'' (PDict [])) (\<lambda>summary. Inr (vms, summary)))"

definition sweep_entry :: "int \<Rightarrow> concurrency_sample \<Rightarrow> exn + pyval" where
  "sweep_entry sz s =
    (let ds = cs_durations_ms s; mem_delta = fsub (cs_mem_after_mb s) (cs_mem_before_mb s) in
     checkS (percentile_cells ds) (\<lambda>(p50, p95, p99).
     Inr (json_object
      [(''vm_count'', PInt sz), (''concurrency'', PInt (cs_concurrency s)), (''avg_ms'', PFloat (py_round (avg_ms ds) 2)),
       (''p50_ms'', PFloat (py_round p50 2)), (''p95_ms'', PFloat (py_round p95 2)), (''p99_ms'', PFloat (py_round p99 2)),
       (''min_ms'', PFloat (py_round (min_ms ds) 2)), (''max_ms'', PFloat (py_round (max_ms ds) 2)),
       (''throughput_vm_per_s'', PFloat (py_round (throughput_vms (cs_vm_count s) ds) 0)),
       (''mem_before_mb'', PFloat (py_round (cs_mem_before_mb s) 1)), (''mem_after_mb'', PFloat (py_round (cs_mem_after_mb s) 1)),
       (''mem_delta_mb'', PFloat (py_round mem_delta 1)), (''cpu_percent'', PFloat (py_round (cs_cpu_percent s) 1)),
       (''durations_ms'', PList (map (\<lambda>d. PFloat (py_round d 2)) ds))])))"

definition sweep_sizes :: "int list" where
  "sweep_sizes = [1000, 5000]"

definition concurrency_levels :: "int list" where
  "concurrency_levels = [1, 5, 10, 20]"

definition sweep_path :: "string \<Rightarrow> int \<Rightarrow> string" where
  "sweep_path data_dir sz = data_dir @ ''/vmware_inventory_'' @ str_int sz @ ''.json''"

definition sweep_dataset :: "dataset_validators \<Rightarrow> (string \<Rightarrow> exn + pyval) \<Rightarrow> string \<Rightarrow> (int \<Rightarrow> int \<Rightarrow> level_readings) \<Rightarrow> int \<Rightarrow>
    ((string, int) dict, pyval list) act" where
  "sweep_dataset V read_json data_dir z sz =
    bindE (outcomeE (checkS (read_json (sweep_path data_dir sz)) load_dataset)) (\<lambda>(vm_dicts, summary).
    bindE (outcomeE (checkS (json_iter vm_dicts) (mapS (sweep_vm_summary V)))) (\<lambda>vms.
    mapE (\<lambda>concurrency. bindE (sweep_level vms concurrency (z sz concurrency)) (\<lambda>s. outcomeE (sweep_entry sz s))) concurrency_levels))"

definition sweep_main :: "dataset_validators \<Rightarrow> (string \<Rightarrow> exn + pyval) \<Rightarrow> string \<Rightarrow> string \<Rightarrow> (int \<Rightarrow> int \<Rightarrow> level_readings) \<Rightarrow>
    ((string, int) dict, pyval) act" where
  "sweep_main V read_json now data_dir z =
    bindE (mapE (sweep_dataset V read_json data_dir z) sweep_sizes) (\<lambda>entries.
    retE (json_object [(''generated_at'', PStr now), (''results'', PList (concat entries))]))"

section \<open>benchmark_from_dataset.py\<close>

definition warning_sign :: string where
  "warning_sign = [CHR 0xE2, CHR 0x9A, CHR 0xA0, CHR 0xEF, CHR 0xB8, CHR 0x8F]"

definition dataset_row :: "bench_run \<Rightarrow> exn + string" where
  "dataset_row run =
    checkS (percentile_cells (br_durations run)) (\<lambda>(p50, p95, p99).
    Inr (''| '' @ br_name run @ '' | '' @ nat_digits (br_vm_count run) @ '' | '' @ fmt_fixed 2 (avg_ms (br_durations run)) @ '' | '' @
      fmt_fixed 2 p50 @ '' | '' @ fmt_fixed 2 p95 @ '' | '' @ fmt_fixed 2 p99 @ '' | '' @
      (if br_compatible run > 0 then nat_digits (br_compatible run) else ''-'') @ '' | '' @
      (if br_incompatible run > 0 then nat_digits (br_incompatible run) else ''-'') @ '' | '' @
      (if br_rate run \<noteq> 0 then fmt_whole (br_rate run) @ ''%'' else ''-'') @ '' |''))"

definition reason_rows :: "bench_run \<Rightarrow> string list" where
  "reason_rows run = map (\<lambda>(reason, count). ''| '' @ reason @ '' | '' @ str_int count @ '' |'') (take 5 (br_reasons run))"

definition dataset_report :: "(pyval \<Rightarrow> string) \<Rightarrow> string \<Rightarrow> rat \<Rightarrow> bench_run list \<Rightarrow> pyval \<Rightarrow> string \<Rightarrow> string list \<Rightarrow> exn + string list" where
  "dataset_report repr now rss_mb all_runs catalog dataset_path warnings =
    checkS (checkS (json_get catalog ''catalog'' (PDict [])) (\<lambda>c. json_get c ''name'' (PStr ''unknown''))) (\<lambda>name.
    checkS (mapS dataset_row all_runs) (\<lambda>rows.
    (let compat_runs = filter (\<lambda>r. br_reasons r \<noteq> []) all_runs in
     Inr ([''# Dataset Benchmark Report'', [], ''> Generated: '' @ now, ''> Dataset: '' @ dataset_path,
       ''> OpenStack catalog: '' @ py_str repr name, ''> Memory: '' @ fmt_whole rss_mb @ '' MB RSS'', [], ''## Validation Warnings''] @
       (if warnings \<noteq> [] then map (\<lambda>w. ''- '' @ warning_sign @ '' '' @ w) warnings else [''- '' @ check_mark True @ '' No validation warnings'']) @
       [[], ''## Summary'', [],
        ''| Operation | VMs | Avg (ms) | p50 (ms) | p95 (ms) | p99 (ms) | Compatible | Incompatible | Mapping Rate |'',
        ''|-----------|:---:|:--------:|:--------:|:--------:|:--------:|:----------:|:------------:|:------------:|''] @ rows @
       (if compat_runs \<noteq> [] then [[], ''## Top Incompatibility Reasons'', [], ''| Reason | Count |'', ''|--------|:-----:|''] @
          concat (map reason_rows compat_runs) else []) @
       [[], ''## Notes'', [],
        ''- Dataset-based benchmarks include Pydantic deserialization overhead (JSON '' @ arrow @ '' VMSummary)'',
        ''- Mapping uses in-process Euclidean distance '' @ em_dash @ '' no live OpenStack API calls'',
        ''- For live vCenter/OpenStack validation, use scripts/validate_vcenter.py and validate_openstack_mapping.py'', [],
        ''---'', ''*Report generated by benchmark_from_dataset.py*'']))))"

definition dataset_run_json :: "bench_run \<Rightarrow> exn + pyval" where
  "dataset_run_json r =
    checkS (percentile_cells (br_durations r)) (\<lambda>(p50, p95, p99).
    Inr (json_object
     [(''name'', PStr (br_name r)), (''vm_count'', PInt (int (br_vm_count r))), (''avg_ms'', PFloat (py_round (avg_ms (br_durations r)) 2)),
      (''p50_ms'', PFloat (py_round p50 2)), (''p95_ms'', PFloat (py_round p95 2)), (''p99_ms'', PFloat (py_round p99 2)),
      (''compatible'', PInt (int (br_compatible r))), (''incompatible'', PInt (int (br_incompatible r))),
      (''warning_count'', PInt (int (br_warning_count r))), (''mapping_success_rate'', PFloat (py_round (br_rate r) 1)),
      (''top_incompatibility_reasons'', json_object (map (\<lambda>(k, n). (k, PInt n)) (br_reasons r)))]))"

definition dataset_json :: "string \<Rightarrow> bench_run list \<Rightarrow> exn + pyval" where
  "dataset_json now all_runs = checkS (mapS dataset_run_json all_runs) (\<lambda>rs. Inr (json_object [(''generated_at'', PStr now), (''runs'', PList rs)]))"

section \<open>stress_benchmark_assessment.py\<close>

definition stress_cell :: "stress_run \<Rightarrow> string \<Rightarrow> string" where
  "stress_cell run name = (case dict_get (sx_results run) name of None \<Rightarrow> ''-'' | Some vs \<Rightarrow> fmt_fixed 2 (avg_ms vs) @ '' ms'')"

definition stress_row :: "stress_run \<Rightarrow> string" where
  "stress_row run = ''| '' @ nat_digits (sx_vm_count run) @ '' | '' @ stress_cell run ''Compatibility Check'' @ '' | '' @
     stress_cell run ''Plan Generation'' @ '' | '' @ stress_cell run ''Parallel (concurrency=10)'' @ '' | '' @ fmt_signed 1 (sx_mem_delta_mb run) @ '' MB |''"

definition stress_detail_row :: "nat \<Rightarrow> string \<times> rat list \<Rightarrow> exn + string" where
  "stress_detail_row vm_count = (\<lambda>(name, vs).
    checkS (percentile_cells vs) (\<lambda>(p50, p95, p99).
    Inr (''| '' @ nat_digits vm_count @ '' | '' @ name @ '' | '' @ fmt_fixed 2 (avg_ms vs) @ '' | '' @ fmt_fixed 2 p50 @ '' | '' @ fmt_fixed 2 p95 @ '' | '' @
      fmt_fixed 2 p99 @ '' | '' @ fmt_whole (throughput_vms vm_count vs) @ '' |'')))"

definition stress_details :: "stress_run list \<Rightarrow> exn + string list" where
  "stress_details runs = checkS (mapS (\<lambda>run. mapS (stress_detail_row (sx_vm_count run)) (sx_results run)) runs) (\<lambda>rows. Inr (concat rows))"

definition stress_report :: "(pyval \<Rightarrow> string) \<Rightarrow> string \<Rightarrow> string \<Rightarrow> rat \<Rightarrow> stress_run list \<Rightarrow> memory_stability \<Rightarrow> timeout_behavior \<Rightarrow> exn + string list" where
  "stress_report repr now uname rss_mb all_runs ms tr =
    (let num = (\<lambda>x. repr (PFloat x)) in
     checkS (stress_details all_runs) (\<lambda>details.
     Inr ([''# Stress Validation Report'', [], ''> Generated: '' @ now, ''> Environment: '' @ uname,
       ''> Memory: '' @ fmt_whole rss_mb @ '' MB total (current process)'', [], ''## Summary'', [],
       ''| VM Count | Compatibility | Plan Generation | Parallel (concurrency=10) | Mem Delta |'',
       ''|:--------:|:-------------:|:---------------:|:-------------------------:|:---------:|''] @ map stress_row all_runs @
      [[], ''## Latency Details'', [],
       ''| VM Count | Operation | Avg (ms) | p50 (ms) | p95 (ms) | p99 (ms) | Throughput (VM/s) |'',
       ''|:--------:|-----------|:--------:|:--------:|:--------:|:--------:|:-----------------:|''] @ details @
      [[], ''## Memory Stability'', [], ''| Metric | Value |'', ''|--------|:-----:|'', ''| Min RSS | '' @ num (mm_min_mb ms) @ '' MB |'',
       ''| Max RSS | '' @ num (mm_max_mb ms) @ '' MB |'', ''| Delta | '' @ num (mm_delta_mb ms) @ '' MB |'',
       ''| Readings | '' @ repr (PList (map PFloat (mm_readings ms))) @ '' |'',
       ''| Leak suspected | '' @ (if mm_leak_detected ms then warning_sign @ '' YES'' else check_mark True @ '' No'') @ '' |'', [],
       ''## Timeout Analysis'', [], ''| Metric | Value |'', ''|--------|:-----:|'', ''| Threshold | '' @ num (tb_threshold_s tr) @ ''s |'',
       ''| VMs exceeding threshold | '' @ nat_digits (tb_timed_out tr) @ ''/'' @ nat_digits (tb_completed tr) @ '' ('' @ num (tb_timeout_pct tr) @ ''%) |'',
       [], ''## Pool Behavior Notes'', [], ''- Connection pool: synthetic mock (no real vCenter)'', ''- Pool reuse: N/A (synthetic)'',
       ''- Reconnect count: N/A (synthetic)'', ''- For live pool testing, run `scripts/validate_vcenter.py` against real vCenter'', [], ''---'', [],
       ''## Known Limitations'', [],
       ''1. Synthetic stress uses generated VMSummary objects '' @ em_dash @ '' no pyVmomi serialization overhead'',
       ''2. Connection pool behavior not tested (no real vCenter)'', ''3. Redis cache efficiency not tested (in-memory cache only)'',
       ''4. DB persistence under load not tested (in-process evaluation only)'',
       ''5. Real-world timeout behavior depends on vCenter/OpenStack API latency'', [], ''---'',
       ''*Report generated by stress_benchmark_assessment.py*''])))"

definition sample_json :: "nat \<Rightarrow> string \<times> rat list \<Rightarrow> exn + (string \<times> pyval)" where
  "sample_json vm_count = (\<lambda>(name, vs).
    checkS (percentile_cells vs) (\<lambda>(p50, p95, p99).
    Inr (name, json_object [(''avg_ms'', PFloat (avg_ms vs)), (''p50_ms'', PFloat p50), (''p95_ms'', PFloat p95), (''p99_ms'', PFloat p99),
      (''min_ms'', PFloat (min_ms vs)), (''max_ms'', PFloat (max_ms vs)), (''throughput_vm_per_s'', PFloat (throughput_vms vm_count vs))])))"

definition stress_run_json :: "stress_run \<Rightarrow> exn + pyval" where
  "stress_run_json r =
    checkS (mapS (sample_json (sx_vm_count r)) (sx_results r)) (\<lambda>rs.
    Inr (json_object [(''vm_count'', PInt (int (sx_vm_count r))), (''mem_before_mb'', PFloat (sx_mem_before_mb r)),
      (''mem_after_mb'', PFloat (sx_mem_after_mb r)), (''mem_delta_mb'', PFloat (sx_mem_delta_mb r)),
      (''timeout_count'', PInt (sx_timeout_count r)), (''error_count'', PInt (sx_error_count r)), (''results'', json_object rs)]))"

definition stress_json :: "string \<Rightarrow> stress_run list \<Rightarrow> memory_stability \<Rightarrow> timeout_behavior \<Rightarrow> exn + pyval" where
  "stress_json now runs ms tr =
    checkS (mapS stress_run_json runs) (\<lambda>rs. Inr (json_object
     [(''generated_at'', PStr now), (''runs'', PList rs),
      (''memory_stability'', json_object [(''readings'', PList (map PFloat (mm_readings ms))), (''min_mb'', PFloat (mm_min_mb ms)),
         (''max_mb'', PFloat (mm_max_mb ms)), (''delta_mb'', PFloat (mm_delta_mb ms)), (''leak_detected'', PBool (mm_leak_detected ms))]),
      (''timeout_analysis'', json_object [(''timeout_threshold_s'', PFloat (tb_threshold_s tr)), (''timed_out'', PInt (int (tb_timed_out tr))),
         (''completed'', PInt (int (tb_completed tr))), (''timeout_pct'', PFloat (tb_timeout_pct tr))])]))"

section \<open>benchmark_vmware_assessment.py\<close>

record assessment_run =
  an_vm_count :: nat
  an_results :: "(string, rat list) dict"
  an_mem_before_mb :: rat
  an_mem_after_mb :: rat

definition assessment_row :: "assessment_run \<Rightarrow> string" where
  "assessment_row run =
    (let cell = (\<lambda>name. fmt_column (sample_avg (dict_get_default (an_results run) name []))) in
     ''| '' @ pad_right 8 (nat_digits (an_vm_count run)) @ '' | '' @ cell ''Compatibility Check'' @ '' ms | '' @ cell ''Resource Mapping'' @ '' ms | '' @
     cell ''Resource Mapping (warm cache)'' @ '' ms | '' @ cell ''Plan Generation'' @ '' ms | '' @ cell ''Parallel (concurrency=10)'' @ '' ms |'' @ nl)"

definition sample_cells :: "rat list \<Rightarrow> exn + (rat \<times> rat)" where
  "sample_cells vs = checkS (sample_percentile (95 / 100) vs) (\<lambda>b. checkS (sample_percentile (99 / 100) vs) (\<lambda>c. Inr (b, c)))"

definition assessment_detail_row :: "(rat list \<Rightarrow> rat) \<Rightarrow> nat \<Rightarrow> string \<times> rat list \<Rightarrow> exn + string" where
  "assessment_detail_row py_sum vm_count = (\<lambda>(name, vs).
    checkS (sample_cells vs) (\<lambda>(p95, p99).
    Inr (''| '' @ pad_right 45 name @ '' | '' @ fmt_column (sample_avg vs) @ '' | '' @ fmt_column (sample_p50 vs) @ '' | '' @ fmt_column p95 @ '' | '' @
      fmt_column p99 @ '' | '' @ fmt_column (sample_min vs) @ '' | '' @ fmt_column (sample_max vs) @ '' | '' @
      pad_left 8 (fmt_fixed 1 (sample_throughput py_sum vm_count vs)) @ '' VM/s |'' @ nl)))"

definition mem_footer :: "assessment_run \<Rightarrow> string" where
  "mem_footer run = nl @ ''### Memory Profile'' @ nl @ nl @ ''| Metric | Value |'' @ nl @ ''|--------|:-----:|'' @ nl @
     ''| RSS Before | '' @ fmt_fixed 1 (an_mem_before_mb run) @ '' MB |'' @ nl @ ''| RSS After  | '' @ fmt_fixed 1 (an_mem_after_mb run) @ '' MB |'' @ nl @
     ''| Delta      | '' @ fmt_signed 1 (fsub (an_mem_after_mb run) (an_mem_before_mb run)) @ '' MB |'' @ nl"

definition latency_json :: "(rat list \<Rightarrow> rat) \<Rightarrow> nat \<Rightarrow> string \<times> rat list \<Rightarrow> exn + (string \<times> pyval)" where
  "latency_json py_sum vm_count = (\<lambda>(name, vs).
    checkS (sample_cells vs) (\<lambda>(p95, p99).
    Inr (name, json_object [(''avg_ms'', PFloat (sample_avg vs)), (''p50_ms'', PFloat (sample_p50 vs)), (''p95_ms'', PFloat p95), (''p99_ms'', PFloat p99),
      (''min_ms'', PFloat (sample_min vs)), (''max_ms'', PFloat (sample_max vs)), (''count'', PInt (int (length vs))),
      (''throughput_vm_per_sec'', PFloat (sample_throughput py_sum vm_count vs))])))"

definition assessment_json :: "(rat list \<Rightarrow> rat) \<Rightarrow> string \<Rightarrow> string \<Rightarrow> string \<Rightarrow> assessment_run list \<Rightarrow> exn + pyval" where
  "assessment_json py_sum now cpu memory runs =
    checkS (mapS (\<lambda>r. checkS (mapS (latency_json py_sum (an_vm_count r)) (an_results r)) (\<lambda>rs.
      Inr (json_object [(''vm_count'', PInt (int (an_vm_count r))), (''mem_before_mb'', PFloat (py_round (an_mem_before_mb r) 1)),
        (''mem_after_mb'', PFloat (py_round (an_mem_after_mb r) 1)), (''results'', json_object rs)]))) runs) (\<lambda>js.
    Inr (json_object [(''generated_at'', PStr now), (''cpu'', PStr cpu), (''memory_total'', PStr memory), (''runs'', PList js)]))"

section \<open>No report raises\<close>

definition fits :: "rat list \<Rightarrow> bool" where
  "fits vs \<longleftrightarrow> length vs < 2 ^ 46"

lemma percentile_cells_defined: "fits vs \<Longrightarrow> \<exists>c. percentile_cells vs = Inr c"
  using percentiles_defined [of vs]
  by (cases "vs = []") (auto simp: percentile_cells_def checkS_def fits_def p50_ms_def p95_ms_def p99_ms_def)

lemma mapS_defined: "(\<And>x. x \<in> set xs \<Longrightarrow> \<exists>y. f x = Inr y) \<Longrightarrow> \<exists>ys. mapS f xs = Inr ys"
  by (induction xs) (fastforce simp: checkS_def split: sum.splits)+

lemma checkS_defined: "\<exists>x. m = Inr x \<Longrightarrow> (\<And>x. \<exists>y. f x = Inr y) \<Longrightarrow> \<exists>y. checkS m f = Inr y"
  by (auto simp: checkS_def)

lemma sample_percentile_defined:
  assumes "fits vs" "1 / 2 \<le> q" "q \<le> 127 / 128"
  shows "\<exists>x. sample_percentile q vs = Inr x"
proof (cases "length vs < 2")
  case False
  then have n: "0 < length vs" by (cases vs) auto
  have "0 \<le> int (length vs) div 2" by simp
  then show ?thesis using False percentile_index_bounds [OF n _ assms(2,3)] assms(1)
    by (simp add: sample_percentile_def fits_def index_in_range)
qed (simp add: sample_percentile_def)

lemma sample_cells_defined: "fits vs \<Longrightarrow> \<exists>c. sample_cells vs = Inr c"
  unfolding sample_cells_def by (intro checkS_defined sample_percentile_defined) auto

lemma rows_defined:
  "fits (br_durations r) \<Longrightarrow> \<exists>s. dataset_row r = Inr s" "fits (br_durations r) \<Longrightarrow> \<exists>j. dataset_run_json r = Inr j"
  "fits vs \<Longrightarrow> \<exists>s. stress_detail_row n (name, vs) = Inr s" "fits vs \<Longrightarrow> \<exists>j. sample_json n (name, vs) = Inr j"
  "fits vs \<Longrightarrow> \<exists>s. assessment_detail_row py_sum n (name, vs) = Inr s" "fits vs \<Longrightarrow> \<exists>j. latency_json py_sum n (name, vs) = Inr j"
  using percentile_cells_defined [of "br_durations r"] percentile_cells_defined [of vs] sample_cells_defined [of vs]
  by (auto simp: dataset_row_def dataset_run_json_def stress_detail_row_def sample_json_def assessment_detail_row_def latency_json_def checkS_def)

text \<open>The statistics of a report are always defined: as long as no sample has 2 ^ 46 values or more, empty samples included, no
  percentile of a report or JSON file raises an IndexError, so every file of the stress, data-set and assessment
  benchmarks is written; the data-set report needs besides a catalog that is a dictionary of dictionaries.\<close>

theorem benchmark_files_written:
  assumes "list_all (\<lambda>r. fits (br_durations r)) runs" "list_all (\<lambda>r. list_all (\<lambda>(name, vs). fits vs) (sx_results r)) sruns"
    and "list_all (\<lambda>r. list_all (\<lambda>(name, vs). fits vs) (an_results r)) aruns"
    and "checkS (json_get catalog ''catalog'' (PDict [])) (\<lambda>c. json_get c ''name'' (PStr ''unknown'')) = Inr name"
  shows "(\<exists>ls. dataset_report repr now rss runs catalog path warnings = Inr ls) \<and> (\<exists>j. dataset_json now runs = Inr j) \<and>
    (\<exists>ls. stress_report repr now uname rss sruns ms tr = Inr ls) \<and> (\<exists>j. stress_json now sruns ms tr = Inr j) \<and>
    (\<exists>j. assessment_json py_sum now cpu memory aruns = Inr j)"
proof (intro conjI)
  have "\<exists>rows. mapS dataset_row runs = Inr rows" "\<exists>js. mapS dataset_run_json runs = Inr js"
    using assms(1) by (auto simp: list_all_iff intro!: mapS_defined rows_defined)
  then show "\<exists>ls. dataset_report repr now rss runs catalog path warnings = Inr ls" "\<exists>j. dataset_json now runs = Inr j"
    unfolding dataset_report_def dataset_json_def assms(4) by (auto simp: checkS_def Let_def)
  have "\<exists>rows. mapS (\<lambda>run. mapS (stress_detail_row (sx_vm_count run)) (sx_results run)) sruns = Inr rows"
    using assms(2) by (intro mapS_defined) (auto simp: list_all_iff simp del: split_paired_Ex intro!: rows_defined)
  then show "\<exists>ls. stress_report repr now uname rss sruns ms tr = Inr ls"
    by (auto simp: stress_report_def stress_details_def checkS_def Let_def)
  have "\<exists>rs. mapS stress_run_json sruns = Inr rs" unfolding stress_run_json_def
    using assms(2) by (intro mapS_defined checkS_defined) (auto simp: list_all_iff simp del: split_paired_Ex intro!: rows_defined)
  then show "\<exists>j. stress_json now sruns ms tr = Inr j" by (auto simp: stress_json_def checkS_def)
  show "\<exists>j. assessment_json py_sum now cpu memory aruns = Inr j" unfolding assessment_json_def
    using assms(3) by (intro checkS_defined mapS_defined) (auto simp: list_all_iff simp del: split_paired_Ex intro!: rows_defined)
qed

section \<open>The sweep\<close>

text \<open>The size and the level an entry names\<close>

definition entry_key :: "pyval \<Rightarrow> (exn + pyval) \<times> (exn + pyval)" where
  "entry_key e = (item_of e ''vm_count'', item_of e ''concurrency'')"

lemma sweep_entry_defined: "fits (cs_durations_ms s) \<Longrightarrow> \<exists>e. sweep_entry sz s = Inr e \<and> entry_key e = (Inr (PInt sz), Inr (PInt (cs_concurrency s)))"
  using percentile_cells_defined [of "cs_durations_ms s"]
  by (auto simp: sweep_entry_def checkS_def Let_def entry_key_def item_of_def json_object_def)

lemma sweep_level_entry:
  assumes "fits (map fst (lr_clock z))"
  shows "\<exists>e m'. bindE (sweep_level vms c z) (\<lambda>s. outcomeE (sweep_entry sz s)) m = (Inr e, m') \<and> entry_key e = (Inr (PInt sz), Inr (PInt c))"
proof -
  obtain m1 where "evaluation_rounds vms (lr_clock z) [] m = (Inr (map elapsed_ms (lr_clock z)), m1)"
    using evaluation_rounds_result [of vms "lr_clock z" "[]" m] by auto
  then show ?thesis
    using sweep_entry_defined [of "\<lparr>cs_concurrency = c, cs_vm_count = length vms, cs_durations_ms = map elapsed_ms (lr_clock z),
        cs_mem_before_mb = lr_mem_before z, cs_mem_after_mb = lr_mem_after z, cs_cpu_percent = lr_cpu z\<rparr>" sz] assms
    by (auto simp: sweep_level_def bindE_def retE_def outcomeE_def fits_def)
qed

lemma mapE_keys:
  "(\<And>x m. x \<in> set xs \<Longrightarrow> \<exists>e m'. f x m = (Inr e, m') \<and> key e = k x) \<Longrightarrow> \<exists>es m'. mapE f xs m = (Inr es, m') \<and> map key es = map k xs"
proof (induction xs arbitrary: m)
  case (Cons x xs)
  obtain e m1 where "f x m = (Inr e, m1)" "key e = k x" using Cons.prems [of x m] by auto
  moreover obtain es m2 where "mapE f xs m1 = (Inr es, m2)" "map key es = map k xs" using Cons.IH [of m1] Cons.prems by auto
  ultimately show ?case by (simp add: bindE_def retE_def)
qed (simp add: retE_def)

definition readable_dataset :: "dataset_validators \<Rightarrow> exn + pyval \<Rightarrow> bool" where
  "readable_dataset V file \<longleftrightarrow> (case checkS file load_dataset of Inl _ \<Rightarrow> False
     | Inr (v, _) \<Rightarrow> (case checkS (json_iter v) (mapS (sweep_vm_summary V)) of Inl _ \<Rightarrow> False | Inr _ \<Rightarrow> True))"

lemma sweep_dataset_entries:
  assumes "readable_dataset V (read_json (sweep_path dir sz))" "\<And>c. fits (map fst (lr_clock (z sz c)))"
  shows "\<exists>es m'. sweep_dataset V read_json dir z sz m = (Inr es, m') \<and>
    map entry_key es = map (\<lambda>c. (Inr (PInt sz), Inr (PInt c))) concurrency_levels"
proof -
  obtain v s vms where "checkS (read_json (sweep_path dir sz)) load_dataset = Inr (v, s)" "checkS (json_iter v) (mapS (sweep_vm_summary V)) = Inr vms"
    using assms(1) by (auto simp: readable_dataset_def split: sum.splits)
  moreover have "\<exists>es m'. mapE (\<lambda>c. bindE (sweep_level vms c (z sz c)) (\<lambda>s. outcomeE (sweep_entry sz s))) concurrency_levels m = (Inr es, m') \<and>
      map entry_key es = map (\<lambda>c. (Inr (PInt sz), Inr (PInt c))) concurrency_levels" for m
    by (rule mapE_keys) (rule sweep_level_entry [OF assms(2)])
  ultimately show ?thesis by (simp add: sweep_dataset_def bindE_def outcomeE_def)
qed

text \<open>The sweep is complete: if both data sets can be read, it returns one entry for every size and level, in order, with all
  percentiles defined, whatever the clocks show. An entry names the nominal size of the data set, not the number of machines
  the file has.\<close>

theorem sweep_complete:
  assumes "list_all (\<lambda>sz. readable_dataset V (read_json (sweep_path dir sz))) sweep_sizes" "\<And>sz c. fits (map fst (lr_clock (z sz c)))"
  shows "\<exists>es m'. sweep_main V read_json now dir z m = (Inr (json_object [(''generated_at'', PStr now), (''results'', PList es)]), m') \<and>
    map entry_key es = concat (map (\<lambda>sz. map (\<lambda>c. (Inr (PInt sz), Inr (PInt c))) concurrency_levels) sweep_sizes)"
proof -
  have "\<exists>es m'. mapE (sweep_dataset V read_json dir z) sweep_sizes m = (Inr es, m') \<and>
      map (map entry_key) es = map (\<lambda>sz. map (\<lambda>c. (Inr (PInt sz), Inr (PInt c))) concurrency_levels) sweep_sizes"
    using assms by (intro mapE_keys sweep_dataset_entries) (auto simp: list_all_iff)
  then show ?thesis by (auto simp: sweep_main_def bindE_def retE_def map_concat)
qed

end
