(* ===== verification/Read_Endpoints.thy ===== *)
theory Read_Endpoints
  imports Vmware_Inventory Vmware_Mapping Vmware_Plan Assessment_Store Parallel_Assessment
begin

text \<open>
  app/api/deps/services.py and the reading endpoints of app/api/v1/endpoints/vmware (inventory.py, assessment.py).

  FastAPI calls a dependency once for every request. The three factories of the module are kept in global variables and
  made on first use; the services, among them VMwareInventoryService and VMwareMappingEngine with their caches, are made
  anew. The constructors of the factories are arguments. A query parameter outside the bounds declared with Query(ge, le) is
  refused before the endpoint runs; that is FastAPI's documented behaviour.
\<close>

section \<open>Dependencies\<close>

record ('o, 'v, 'p) deps_state =
  dp_openstack_factory :: "'o option"
  dp_vmware_factory :: "'v option"
  dp_vmware_pool :: "'p option"

definition no_deps :: "('o, 'v, 'p) deps_state" where
  "no_deps = \<lparr>dp_openstack_factory = None, dp_vmware_factory = None, dp_vmware_pool = None\<rparr>"

text \<open>A constructor may raise; the global variable is then left as it was. The state beside the variables is the world in which the
  constructors run.\<close>

type_synonym ('o, 'v, 'p, 'w) deps_world = "('o, 'v, 'p) deps_state \<times> 'w"

definition get_openstack_factory :: "('w, 'o) act \<Rightarrow> (('o, 'v, 'p, 'w) deps_world, 'o) act" where
  "get_openstack_factory mk =
    bindE (getE (\<lambda>(d, w). dp_openstack_factory d)) (\<lambda>f. case f of
      Some x \<Rightarrow> retE x
    | None \<Rightarrow> bindE (besideE mk) (\<lambda>x. thenE (setE (\<lambda>d. d\<lparr>dp_openstack_factory := Some x\<rparr>)) (retE x)))"

definition get_vmware_pool :: "('w, 'p) act \<Rightarrow> (('o, 'v, 'p, 'w) deps_world, 'p) act" where
  "get_vmware_pool mk =
    bindE (getE (\<lambda>(d, w). dp_vmware_pool d)) (\<lambda>f. case f of
      Some x \<Rightarrow> retE x
    | None \<Rightarrow> bindE (besideE mk) (\<lambda>x. thenE (setE (\<lambda>d. d\<lparr>dp_vmware_pool := Some x\<rparr>)) (retE x)))"

definition get_vmware_factory :: "('w, 'p) act \<Rightarrow> ('p \<Rightarrow> ('w, 'v) act) \<Rightarrow> (('o, 'v, 'p, 'w) deps_world, 'v) act" where
  "get_vmware_factory new_pool_of mk =
    bindE (getE (\<lambda>(d, w). dp_vmware_factory d)) (\<lambda>f. case f of
      Some x \<Rightarrow> retE x
    | None \<Rightarrow> bindE (get_vmware_pool new_pool_of) (\<lambda>p. bindE (besideE (mk p)) (\<lambda>x.
        thenE (setE (\<lambda>d. d\<lparr>dp_vmware_factory := Some x\<rparr>)) (retE x))))"

text \<open>What the services rely on: a dependency that has answered once answers the same ever after, without changing anything.\<close>

locale singleton_dependency =
  fixes get :: "(('o, 'v, 'p, 'w) deps_world, 'x) act" and kept :: "('o, 'v, 'p) deps_state \<Rightarrow> 'x option"
  assumes get_kept: "kept d = Some x \<Longrightarrow> get (d, w) = (Inr x, (d, w))"
    and get_keeps: "get (d, w) = (Inr x, (d', w')) \<Longrightarrow> kept d' = Some x"
begin

lemma get_again: "get (d, w) = (Inr x, (d', w')) \<Longrightarrow> get (d', w'') = (Inr x, (d', w''))"
  by (rule get_kept) (rule get_keeps)

end

interpretation openstack_dep: singleton_dependency "get_openstack_factory mk" dp_openstack_factory
  by unfold_locales
    (auto simp: get_openstack_factory_def bindE_def getE_def retE_def besideE_def thenE_def setE_def updE_def
      split: option.splits prod.splits sum.splits)

interpretation vmware_pool_dep: singleton_dependency "get_vmware_pool mk" dp_vmware_pool
  by unfold_locales
    (auto simp: get_vmware_pool_def bindE_def getE_def retE_def besideE_def thenE_def setE_def updE_def
      split: option.splits prod.splits sum.splits)

interpretation vmware_factory_dep: singleton_dependency "get_vmware_factory new_pool_of mk" dp_vmware_factory
  by unfold_locales
    (auto simp: get_vmware_factory_def bindE_def getE_def retE_def besideE_def thenE_def setE_def updE_def
      split: option.splits prod.splits sum.splits)

text \<open>The services with state of their own are made for every request: the caches are empty, what they share (the connection
  pool, the metrics, the snapshots on their way) stays.\<close>

definition get_vmware_inventory_service :: "('s, 'm) inventory_world \<Rightarrow> ('s, 'm) inventory_world" where
  "get_vmware_inventory_service w = w\<lparr>iv_vm_cache := TTLCache 300 ''default'', iv_ds_cache := TTLCache 300 ''default'',
     iv_net_cache := TTLCache 300 ''default''\<rparr>"

definition get_vmware_mapping_engine :: "('c, 'm) mapping_world \<Rightarrow> ('c, 'm) mapping_world" where
  "get_vmware_mapping_engine w = w\<lparr>mp_flavor_cache := None, mp_network_cache := None\<rparr>"

section \<open>The inventory endpoints\<close>

definition list_vms_endpoint :: "'s vcenter \<Rightarrow> rat \<Rightarrow> rat \<Rightarrow> (('s, 'm) inventory_world, vm_summary list) act" where
  "list_vms_endpoint vc now_get now_set =
    thenE (updE get_vmware_inventory_service) (inventory_list_vms vc now_get now_set True)"

definition get_vm_endpoint :: "'s vcenter \<Rightarrow> rat \<Rightarrow> rat \<Rightarrow> string \<Rightarrow> (('s, 'm) inventory_world, vm_summary) act" where
  "get_vm_endpoint vc now_get now_set i =
    thenE (updE get_vmware_inventory_service)
    (bindE (inventory_get_vm vc now_get now_set i) (\<lambda>found. case found of
       None \<Rightarrow> raiseE (HTTPException 404 (''VM '' @ quoted i @ '' not found''))
     | Some vm \<Rightarrow> retE vm))"

definition list_datastores_endpoint :: "'s vcenter \<Rightarrow> rat \<Rightarrow> rat \<Rightarrow> (('s, 'm) inventory_world, datastore_summary list) act" where
  "list_datastores_endpoint vc now_get now_set =
    thenE (updE get_vmware_inventory_service) (inventory_list_datastores vc now_get now_set True)"

definition list_networks_endpoint :: "'s vcenter \<Rightarrow> rat \<Rightarrow> rat \<Rightarrow> (('s, 'm) inventory_world, network_summary list) act" where
  "list_networks_endpoint vc now_get now_set =
    thenE (updE get_vmware_inventory_service) (inventory_list_networks vc now_get now_set True)"

section \<open>The persisted assessments and plans\<close>

definition query_between :: "string \<Rightarrow> int \<Rightarrow> int option \<Rightarrow> int \<Rightarrow> exn + int" where
  "query_between name ge le v = (if ge \<le> v \<and> (case le of None \<Rightarrow> True | Some u \<Rightarrow> v \<le> u) then Inr v
     else Inl (PyException ''RequestValidationError'' name))"

definition list_persisted_assessments :: "int option \<Rightarrow> int option \<Rightarrow> bool option \<Rightarrow> ('j assessment_db, assessment_summary list) act" where
  "list_persisted_assessments limit offset compatible_only =
    bindE (outcomeE (query_between ''limit'' 1 (Some 100) (case limit of None \<Rightarrow> 20 | Some n \<Rightarrow> n))) (\<lambda>l.
    bindE (outcomeE (query_between ''offset'' 0 None (case offset of None \<Rightarrow> 0 | Some n \<Rightarrow> n))) (\<lambda>off.
    getE (list_assessments l off compatible_only)))"

definition get_persisted_assessment :: "('j migration_plan list \<Rightarrow> exn + 'j migration_plan list) \<Rightarrow> string \<Rightarrow> ('j assessment_db, 'j assessment_detail) act" where
  "get_persisted_assessment load i =
    bindE (get_assessment load i) (\<lambda>r. case r of
      None \<Rightarrow> raiseE (HTTPException 404 (''Assessment '' @ quoted i @ '' not found''))
    | Some detail \<Rightarrow> retE detail)"

definition list_persisted_plans :: "string option \<Rightarrow> int option \<Rightarrow> int option \<Rightarrow> ('j assessment_db, plan_summary list) act" where
  "list_persisted_plans assessment_id limit offset =
    bindE (outcomeE (query_between ''limit'' 1 (Some 100) (case limit of None \<Rightarrow> 20 | Some n \<Rightarrow> n))) (\<lambda>l.
    bindE (outcomeE (query_between ''offset'' 0 None (case offset of None \<Rightarrow> 0 | Some n \<Rightarrow> n))) (\<lambda>off.
    getE (list_plans assessment_id l off)))"

definition get_persisted_plan :: "('j migration_assessment option \<Rightarrow> exn + 'j migration_assessment option) \<Rightarrow> string \<Rightarrow> ('j assessment_db, 'j plan_detail) act" where
  "get_persisted_plan load i =
    bindE (get_plan load i) (\<lambda>r. case r of
      None \<Rightarrow> raiseE (HTTPException 404 (''Plan '' @ quoted i @ '' not found''))
    | Some detail \<Rightarrow> retE detail)"

text \<open>The endpoint that starts a parallel assessment, on a new service. How many evaluations the semaphore admits at a time does not
  matter, since an evaluation does not await; the order of completion is the argument order.\<close>

definition assess_vms_parallel :: "('c, 's) parallel_env \<Rightarrow> string \<Rightarrow> string list \<Rightarrow> bool option \<Rightarrow> int option \<Rightarrow> int option \<Rightarrow> nat list \<Rightarrow> task_env \<Rightarrow>
    (('c, 's, 'm) parallel_world tracked_world, progress) act" where
  "assess_vms_parallel env task_id vm_ids include_mapping max_concurrency timeout_seconds order tenv =
    bindE (outcomeE (query_between ''max_concurrency'' 1 (Some 50) (case max_concurrency of None \<Rightarrow> 10 | Some n \<Rightarrow> n))) (\<lambda>_.
    bindE (outcomeE (query_between ''timeout_seconds'' 10 (Some 3600) (case timeout_seconds of None \<Rightarrow> 300 | Some n \<Rightarrow> n))) (\<lambda>timeout.
    thenE (serviceE (updE get_parallel_assessment_service))
      (assess_parallel env task_id vm_ids (include_mapping \<noteq> Some False) timeout order tenv)))"

section \<open>Properties\<close>

text \<open>The factories live as long as the process: once get_openstack_factory, get_vmware_pool or get_vmware_factory has returned an
  object, every later call returns the same object, whatever has happened in between, and constructs nothing.\<close>

theorem dependencies_are_singletons:
  "(get_openstack_factory mk (d, w) = (Inr x, (d', w')) \<longrightarrow> get_openstack_factory mk (d', w'') = (Inr x, (d', w''))) \<and>
   (get_vmware_pool mk2 (d, w) = (Inr y, (d', w')) \<longrightarrow> get_vmware_pool mk2 (d', w'') = (Inr y, (d', w''))) \<and>
   (get_vmware_factory mk2 mk3 (d, w) = (Inr z, (d', w')) \<longrightarrow> get_vmware_factory mk2 mk3 (d', w'') = (Inr z, (d', w'')))"
  using openstack_dep.get_again vmware_pool_dep.get_again vmware_factory_dep.get_again by metis

lemma fresh_cache_misses:
  "vm_cache_get t (get_vmware_inventory_service w) =
     (Inr None, get_vmware_inventory_service w\<lparr>iv_counters := (iv_counters w)\<lparr>cache_misses := incr (cache_misses (iv_counters w)) ''default''\<rparr>\<rparr>)"
  "ds_cache_get t (get_vmware_inventory_service w) =
     (Inr None, get_vmware_inventory_service w\<lparr>iv_counters := (iv_counters w)\<lparr>cache_misses := incr (cache_misses (iv_counters w)) ''default''\<rparr>\<rparr>)"
  "net_cache_get t (get_vmware_inventory_service w) =
     (Inr None, get_vmware_inventory_service w\<lparr>iv_counters := (iv_counters w)\<lparr>cache_misses := incr (cache_misses (iv_counters w)) ''default''\<rparr>\<rparr>)"
  by (simp_all add: vm_cache_get_def ds_cache_get_def net_cache_get_def get_vmware_inventory_service_def ttl_get_def TTLCache_def)

definition missed :: "('s, 'm) inventory_world \<Rightarrow> ('s, 'm) inventory_world" where
  "missed w = get_vmware_inventory_service w\<lparr>iv_counters := (iv_counters w)\<lparr>cache_misses := incr (cache_misses (iv_counters w)) ''default''\<rparr>\<rparr>"

text \<open>C37: No request is served from the inventory caches: each of the four reading endpoints behaves exactly as if caching were
  switched off, after counting a miss, whatever earlier requests have read and however short ago; the 300 seconds of
  the caches only matter within one request. So every GET reads vCenter.\<close>

theorem inventory_endpoints_never_cached:
  "list_vms_endpoint vc t t' w = inventory_list_vms vc t t' False (missed w) \<and>
   list_datastores_endpoint vc t t' w = inventory_list_datastores vc t t' False (missed w) \<and>
   list_networks_endpoint vc t t' w = inventory_list_networks vc t t' False (missed w) \<and>
   get_vm_endpoint vc t t' i w =
     bindE (inventory_list_vms vc t t' False) (\<lambda>items. case List.find (\<lambda>vm. vm_id vm = i) items of
       None \<Rightarrow> raiseE (HTTPException 404 (''VM '' @ quoted i @ '' not found'')) | Some vm \<Rightarrow> retE vm) (missed w)"
  by (simp add: list_vms_endpoint_def list_datastores_endpoint_def list_networks_endpoint_def get_vm_endpoint_def inventory_get_vm_def
      inventory_list_vms_def inventory_list_datastores_def inventory_list_networks_def thenE_def updE_def bindE_def [of "vm_cache_get t"]
      bindE_def [of "ds_cache_get t"] bindE_def [of "net_cache_get t"] fresh_cache_misses missed_def bindE_assoc)

text \<open>A parallel assessment with parameters out of bounds is refused without a trace; with parameters in bounds it is the
  assessment of the service on empty dictionaries.\<close>

theorem parallel_request_bounds:
  "assess_vms_parallel env tid ids inc mc tmo order tenv wt =
    (if (case mc of None \<Rightarrow> True | Some n \<Rightarrow> 1 \<le> n \<and> n \<le> 50) \<and> (case tmo of None \<Rightarrow> True | Some n \<Rightarrow> 10 \<le> n \<and> n \<le> 3600)
     then assess_parallel env tid ids (inc \<noteq> Some False) (case tmo of None \<Rightarrow> 300 | Some n \<Rightarrow> n) order tenv
       (get_parallel_assessment_service (fst wt), snd wt)
     else (Inl (PyException ''RequestValidationError''
       (if (case mc of None \<Rightarrow> True | Some n \<Rightarrow> 1 \<le> n \<and> n \<le> 50) then ''timeout_seconds'' else ''max_concurrency'')), wt))"
  by (auto simp: assess_vms_parallel_def bindE_def outcomeE_def query_between_def thenE_def serviceE_def updE_def split: option.splits)

text \<open>The mapping engine of a request starts without flavors and networks, so the first machine it maps asks OpenStack.\<close>

lemma engine_asks_again:
  "get_flavors settings sdk (get_vmware_mapping_engine w) =
     bindE (timed_call settings sdk ''compute'' ''flavors'') (\<lambda>raw.
     bindE (cloudE (sdk_iter sdk raw)) (\<lambda>objs. bindE (mapE (\<lambda>f. outcomeE (os_flavor_of sdk f)) objs) (\<lambda>fs.
     thenE (updE (\<lambda>w. w\<lparr>mp_flavor_cache := Some fs\<rparr>)) (retE fs)))) (get_vmware_mapping_engine w)"
  by (simp add: get_flavors_def get_vmware_mapping_engine_def)

definition in_bounds :: "int option \<Rightarrow> int option \<Rightarrow> bool" where
  "in_bounds limit offset \<longleftrightarrow> (case limit of None \<Rightarrow> True | Some n \<Rightarrow> 1 \<le> n \<and> n \<le> 100) \<and>
     (case offset of None \<Rightarrow> True | Some n \<Rightarrow> 0 \<le> n)"

text \<open>The reading endpoints of the persisted assessments and plans change nothing and fail in known ways only: a listing is refused
  exactly when the limit is not in 1..100 or the offset is negative, and otherwise returns at most that many rows (20 by
  default); a detail is answered with 404 exactly when no row has the id, and any other failure is the one of loading
  the relationship.\<close>

theorem persisted_reads:
  "(case list_persisted_assessments limit offset c db of
      (Inl e, db') \<Rightarrow> \<not> in_bounds limit offset \<and> (\<exists>field. e = PyException ''RequestValidationError'' field) \<and> db' = db
    | (Inr rows, db') \<Rightarrow> in_bounds limit offset \<and> int (length rows) \<le> (case limit of None \<Rightarrow> 20 | Some n \<Rightarrow> n) \<and> db' = db) \<and>
   (case list_persisted_plans a limit offset db of
      (Inl e, db') \<Rightarrow> \<not> in_bounds limit offset \<and> (\<exists>field. e = PyException ''RequestValidationError'' field) \<and> db' = db
    | (Inr rows, db') \<Rightarrow> in_bounds limit offset \<and> int (length rows) \<le> (case limit of None \<Rightarrow> 20 | Some n \<Rightarrow> n) \<and> db' = db) \<and>
   (case get_persisted_assessment load i db of
      (Inl e, db') \<Rightarrow> db' = db \<and> (if i \<in> ma_id ` set (ad_assessments db) then \<exists>ps. load ps = Inl e
        else e = HTTPException 404 (''Assessment '' @ quoted i @ '' not found''))
    | (Inr d, db') \<Rightarrow> db' = db \<and> i \<in> ma_id ` set (ad_assessments db)) \<and>
   (case get_persisted_plan load' i db of
      (Inl e, db') \<Rightarrow> db' = db \<and> (if i \<in> mp_id ` set (ad_plans db) then \<exists>r. load' r = Inl e
        else e = HTTPException 404 (''Plan '' @ quoted i @ '' not found''))
    | (Inr d, db') \<Rightarrow> db' = db \<and> i \<in> mp_id ` set (ad_plans db))"
proof (intro conjI, goal_cases)
  case 1
  show ?case
    by (auto simp: list_persisted_assessments_def bindE_def outcomeE_def getE_def query_between_def in_bounds_def
        list_assessments_def sql_limit_def split: option.splits)
next
  case 2
  show ?case
    by (auto simp: list_persisted_plans_def bindE_def outcomeE_def getE_def query_between_def in_bounds_def
        list_plans_def sql_limit_def split: option.splits)
next
  case 3
  show ?case
    using sql_get_None_iff [of ma_id i "ad_assessments db"]
    by (auto simp: get_persisted_assessment_def get_assessment_def bindE_def raiseE_def retE_def split: option.splits sum.splits)
next
  case 4
  show ?case
    using sql_get_None_iff [of mp_id i "ad_plans db"]
    by (auto simp: get_persisted_plan_def get_plan_def bindE_def raiseE_def retE_def split: option.splits sum.splits)
qed

end
