(* ===== verification/Spec2Isabelle.thy ===== *)
theory Spec2Isabelle
  imports Metrics_Sync Audit_Log Monitoring Task_Store Orchestration Vmware_Compatibility Vmware_Plan
    Vm_Engine Vmware_Assessment Parallel_Assessment Assessment_Store Openstack_Endpoints Http_Layer Managers
    Synthetic_Benchmark Engine_Suites Engine_Benchmark Vcenter_Validation App_Runtime Routing Schema_Migrations
    Metrics_Registry Api_Benchmark Benchmark_Reports Read_Endpoints
begin

text \<open>
  Verification of the vMachine backend (src/app), a FastAPI service that provisions OpenStack machines,
  assesses VMware machines for migration to OpenStack, plans and runs migrations, and keeps audit, task and
  monitoring records.

  \<^bold>\<open>The program.\<close> HTTP endpoints (app/api) call services (app/services). Services reach the outside through
  client factories (app/clients: OpenStack SDK, vCenter sessions), keep answers in time-limited caches
  (app/common/utils), store rows in SQL tables (app/models) and report to Prometheus (app/common/metrics).
  Two background workers drain in-memory queues into the audit and metric tables; a polling task copies cache
  counters to Prometheus (app/main.py); a scheduled job fails stale migrations (app/worker.py).

  \<^bold>\<open>Modelling.\<close> A class with fields is a record, an operation a function from state to outcome and state. The
  type act of Py_Effects is the shape of everything that may raise: from the state to an exception (Inl, a value
  of the datatype exn with the source's exception classes) or a result (Inr), with the state reached, so the
  effects made before a raise stay visible. Python dicts are association lists in insertion order, strings are lists
  of characters (UTF-8 code units), ints are int, floats are rationals rounded to binary64 after every
  operation (Py_Float). Clocks, random identifiers, the OpenStack SDK, vCenter, Redis and JSON are arguments.
  An SQL table is the list of its rows in insertion order (Sql_Table).

  \<^bold>\<open>Theories.\<close>
  \<^item> Py_Prelude, Py_Effects, Py_Float, Py_Library, Py_Datetime: dicts, sequencing of effects with try/except,
    binary64 rounding with its order lemmas, round and fixed-point formatting, int(), timestamps. Float_Error: the relative
    error of a rounded expression, by rules that follow its structure; locale half_power is what an accurate square root promises.
  \<^item> Sql_Table: select, insert, update, delete and limit; locale keyed_table has the laws every table of the
    services satisfies (unique ids, read after write, untouched other rows), newest_rows the meaning of an ordered
    and limited query.
  \<^item> Ttl_Cache (app/common/utils/cache.py): every operation of TTLCache; refinement to a map with expiry times.
  \<^item> Openstack_Cache (openstack_cache.py, redis_cache.py): the memory and Redis backends and the dispatch between
    them; Metrics_Sync (app/main.py): the polling of their counters into Prometheus.
  \<^item> Batch_Queue: locale batch_worker, the protocol of a queue that is drained in batches and stopped by a signal;
    interpreted by Audit_Log (audit_service.py, middleware/audit.py, shutdown in main.py) and Monitoring
    (monitoring_service.py: metrics, usage, alerts, dashboard, health).
  \<^item> Task_Store (operation_task_service.py, migration_service.py, archive/migration/manager.py, worker.py): task
    tables, the staged migration run as a state machine, the clean-up job.
  \<^item> Orchestration (cluster_service.py, operations_service.py, storage_service.py): clusters, batch deployment,
    scaling policies, scheduled tasks, storage pools; locale named_table adds unique names to keyed_table.
  \<^item> Openstack_Connection (clients/openstack/connection.py): connection creation, instrumented calls and their
    error translation, on the record os_sdk of SDK operations.
  \<^item> Vmware_Schemas (schemas/vmware), Vmware_Compatibility (compatibility.py), Vmware_Mapping
    (mapping_engine.py), Vmware_Plan (plan_service.py): assessment of a machine, choice of flavor, networks and
    volumes, and the migration plan; locale appending_check states what every one of the eleven checks promises.
    Flavor_Accuracy: the choice of the flavor compared with exact arithmetic.
  \<^item> Vmware_Pool (clients/vmware/pool.py): the session pool, as methods for one caller and as interleavings of
    the sections that run under its lock.
  \<^item> Vmware_Client (clients/vmware/connection.py), Vmware_Inventory (inventory_service.py), Assessment_Store
    (assessment_persistence.py): reading machines, datastores and networks from vCenter, the cached inventory and its
    synchronisation into snapshots, the tables of assessments and plans; locale paged_query.
  \<^item> Openstack_Services (compute_service.py), Openstack_Resources (the network, volume, image, flavor, router, security
    group and keypair services): every operation, on the connection factory and the response cache; locale
    cached_listing is what a listing read through the cache promises.
  \<^item> Task_Tracking: the shape of the endpoints that record an operation task; locale recorded_endpoint.
    Openstack_Endpoints (api/v1/endpoints/openstack), Vmware_Assessment (endpoints/vmware) and Parallel_Assessment
    (parallel_assessment.py) are the endpoints that put the components together.
    Read_Endpoints (api/deps/services.py, endpoints/vmware): the factories that live as long as the process, the services
    made for every request, and the reading endpoints; locale singleton_dependency.
  \<^item> Vm_Engine (vm_provisioning_engine.py): create, start, stop, reboot and delete with their wait loops, clean-up,
    metrics and audit entries.
  \<^item> Kubernetes (clients/kubernetes, kubernetes_service.py and its endpoints), Identity (auth_service.py,
    tenant_service.py, core/auth.py), Orchestration_Endpoints (endpoints/orchestration, openstack/storage.py): the
    remaining services and the endpoints that record a task.
  \<^item> Http_Layer (exceptions/handlers.py, middleware/request_id.py, endpoints/openstack/vm_lifecycle.py): how an exception
    becomes a response, request ids, the API key guard; Managers (app/modules): the operations that combine services.
  \<^item> App_Runtime (core/config/settings.py, db/session, events, lifespan in main.py, gunicorn.conf.py, endpoints/core/health.py):
    the application as a process, on the caches and queues above; Routing (api/router.py and the decorators of the endpoints):
    the table of routes; Schema_Migrations (alembic/versions, app/models): the migrations and the declared tables.
  \<^item> Benchmark_Inventory (scripts/generate_benchmark_inventory.py): the generator of benchmark inventories, in the state
    monad over a random number generator; Benchmark_Stats: the latency statistics of the benchmark scripts;
    Benchmark_Dataset (scripts/benchmark_from_dataset.py): reading and validating a generated inventory, and the
    benchmarks that run assessment and planning on it; Synthetic_Benchmark (stress_benchmark_assessment.py,
    benchmark_vmware_assessment.py): inventories computed from the number of a machine, and the stress benchmark; Mapping_Benchmark: the mapping engine on the mock
    factory of these scripts, and the choice and processing of the data sets.
  \<^item> Mapping_Validation (scripts/validate_openstack_mapping.py): the script's own flavor score and network comparison, its report
    and main; Api_Benchmark (benchmarks): the endpoint benchmark and the preflight check; Metrics_Registry
    (common/metrics/custom.py): the declared metrics and all calls that record them.
  \<^item> Engine_Validation (scripts/validate_vm_engine.py), Engine_Suites (negative_case_vm_engine.py), Engine_Benchmark
    (benchmark_vm_engine.py): the scripts that exercise the provisioning engine, on the definitions of Vm_Engine;
    Recovery_Scenarios (recovery_validation.py), Vcenter_Validation (validate_vcenter.py): the scripts that
    exercise the session pool, the vCenter client and the assessment.
  \<^item> Validation_Reports: reports, JSON files and exit codes of the five validation scripts above; locale reporting_script is what
    a main promises about its run. Benchmark_Reports: those of the benchmark scripts, and scripts/concurrency_sweep.py.

  \<^bold>\<open>What is shown.\<close> Provisioning: a create that fails after Nova has returned a server asks Nova to delete it; every
  operation is counted and audited exactly once, apart from one proved exception of delete; state guards; the
  deadline bounds the number of polls. Assessment: verdict and score of the eleven checks in terms of conditions on
  the machine; the chosen flavor is a closest one, as computed and, up to a relative error of two to the power of minus 40,
  exactly; plans contain exactly the compatible machines in order, with consistent numbering and totals. Queues: nothing is lost or duplicated while transactions succeed, what a
  shutdown signal flushes, and what the actual shutdown sequence loses. Caches: lookups agree with a map with expiry
  times. Tables: unique ids and names in every reachable table, read-back, newest-first queries. Pool: size bound for
  every interleaving, freshness of what is handed out, no leaked session with one caller. Services: the order of the
  SDK operations of a creation, cached listings that agree with the changes made. Endpoints: exactly one finished task
  row per request with the outcome of the service; plans of exactly the machines that can be migrated; a parallel
  assessment accounts for every machine in every order of completion. Errors: what the OpenStack and Kubernetes
  services may raise and how it is answered, found by rules for raises_only and fails_with (Py_Effects) that follow the
  structure of the code. Process: what a start and a stop of the application leave; every request
  has at most one route and which routes are guarded; the migrations can be undone, and where the database they make differs from
  the declared tables. Benchmarks: what every generated inventory satisfies, that it survives being written and read, that the assessment
  recognises its unsupported systems, and the verdict on every machine of the synthetic inventories. Validation scripts: which outcomes they can report and what these say about the
  program, that they end, and which machines they leave behind; which of their numbers say nothing about the program, when they exit with 0, and that no report fails on a percentile. Metrics: every
  recording call fits the declaration of its metric, and no two metrics expose the same series. Caching: which requests
  the caches of the VMware services can serve. Several properties state a
  behaviour that departs from the documentation; they are listed as findings in the manifest.

  \<^bold>\<open>Bounds and fuel.\<close> The wait loops of Vm_Engine run until a deadline measured with the clock, so they take fuel, the
  number of iterations. Vm_Engine proves that under the clock law (a sleep advances the clock by at least the
  poll interval) the fuel computed from timeout and interval is enough and that more fuel changes nothing. The
  loop of Engine_Validation that traces the states of a machine has fuel timeout / interval, which is enough by the same
  law. remove_all of Validation_Reports (str.replace) takes the length of the string, which bounds its steps. No other loop
  needs fuel; recursion is structural.

  \<^bold>\<open>Not modelled.\<close> Dependencies that make a stateless service, endpoints outside endpoints/vmware that only pass on a read of a service, managers that only pass on a
  call, building of HTTP sessions and SSL contexts, logging and tracing, the set-up of Alembic: glue to
  libraries, without decisions of the program's own.
  Of the scripts under src/scripts and src/benchmarks printing and the parsing of arguments are not modelled, nor are the parallel
  benchmark and the main of benchmark_vmware_assessment.py, benchmarks/system_monitor.py and the main of the inventory generator. Threads other than those of the
  session pool, and cancellation of coroutines other than at shutdown, are not modelled: each coroutine is taken to run
  between its await points as written.
\<close>

section \<open>Properties across components\<close>

text \<open>C24: The ranges declared in the response classes of assessment, mapping and planning always hold: evaluating a
  machine and mapping an adapter never raise the validation error of pydantic, choosing a flavor raises nothing but
  the ValueError of an empty max(), and a plan without overrides always exists; every score and confidence is between
  0 and 1 and every priority between 1 and 10.\<close>

theorem schema_constraints_hold:
  "(\<exists>r. fst (evaluate vm metrics) = Inr r \<and> 0 \<le> sc_score r \<and> sc_score r \<le> 1) \<and>
   (\<exists>r. map_nic networks nic = Inr r \<and> 0 \<le> nm_confidence r \<and> nm_confidence r \<le> 1) \<and>
   (case choose_flavor target flavors of
      Inr None \<Rightarrow> True | Inr (Some m) \<Rightarrow> 0 \<le> fm_score m \<and> fm_score m \<le> 1 | Inl e \<Rightarrow> (\<exists>msg. e = PyException ''ValueError'' msg)) \<and>
   (\<exists>p. generate_plan uuid now vms None = Inr p \<and> list_all (\<lambda>v. 1 \<le> mpv_priority v \<and> mpv_priority v \<le> 10) (mpr_vms p))"
proof (intro conjI)
  have "fst (evaluate vm metrics) = Inr r \<Longrightarrow> 0 \<le> sc_score r \<and> sc_score r \<le> 1" for r
    by (auto simp: evaluate_def new_scored_result_def Let_def split: prod.splits)
  then show "\<exists>r. fst (evaluate vm metrics) = Inr r \<and> 0 \<le> sc_score r \<and> sc_score r \<le> 1"
    using evaluate_result [of vm metrics] by blast
  have "map_nic networks nic = Inr r \<Longrightarrow> 0 \<le> nm_confidence r \<and> nm_confidence r \<le> 1" for r
    by (auto simp: map_nic_def new_network_mapping_def Let_def split: prod.splits)
  then show "\<exists>r. map_nic networks nic = Inr r \<and> 0 \<le> nm_confidence r \<and> nm_confidence r \<le> 1"
    using map_nic_match [of networks nic] by blast
  show "case choose_flavor target flavors of
      Inr None \<Rightarrow> True | Inr (Some m) \<Rightarrow> 0 \<le> fm_score m \<and> fm_score m \<le> 1 | Inl e \<Rightarrow> (\<exists>msg. e = PyException ''ValueError'' msg)"
    by (rule chosen_score_unit)
  obtain ps where ps: "plan_entries [] vms = Inr ps" using entries_without_overrides by blast
  then show "\<exists>p. generate_plan uuid now vms None = Inr p \<and> list_all (\<lambda>v. 1 \<le> mpv_priority v \<and> mpv_priority v \<le> 10) (mpr_vms p)"
    using plan_entries_result [OF ps] by (simp add: generate_plan_def Let_def list_all_iff)
qed

end
